(* ===== verification/Go_Prelude.thy ===== *)
theory Go_Prelude
  imports Main "HOL-Library.Sublist" "HOL-Library.Char_ord" "HOL-Library.List_Lexorder"
    "HOL-Library.Product_Lexorder" "HOL-Library.AList" "HOL-Library.Multiset"
begin

section \<open>Shared vocabulary: Go values, errors and strings\<close>

text \<open>
  What every component shares. A Go string is a list of bytes (\<^typ>\<open>char\<close> is a byte); a
  function that returns \<open>error\<close> is modelled by an \<open>err option\<close> (None is nil) and one that
  returns a value and an error by a sum with the error on the left. An error keeps the
  format string and the arguments of the \<open>fmt.Errorf\<close> call that makes it. A Go map
  that the code ranges over is an association list, whose order stands for the
  unspecified iteration order of the map: a statement about all lists is a statement
  about all iteration orders. The string functions are those of the packages strings and
  fmt that the sources call.
\<close>

named_theorems go_simps \<open>evaluation rules for the library functions on concrete strings\<close>

subsection \<open>Errors and results\<close>

datatype err = Errorf string "err_arg list"
  and err_arg = AStr string | AInt int | AErr err | AList "string list"

type_synonym 'a result = "err + 'a"

definition fail_if :: "bool \<Rightarrow> err \<Rightarrow> err option" where
  "fail_if b e = (if b then Some e else None)"

text \<open>The first error of a sequence of checks, each followed by an early return.\<close>

fun guards :: "err option list \<Rightarrow> err option" where
  "guards [] = None"
| "guards (g # gs) = (case g of None \<Rightarrow> guards gs | Some e \<Rightarrow> Some e)"

text \<open>An error re-raised with context, as \<open>fmt.Errorf("...: %w", err)\<close> does.\<close>

definition wrap_err :: "string \<Rightarrow> err option \<Rightarrow> err option" where
  "wrap_err f e = map_option (\<lambda>x. Errorf f [AErr x]) e"

definition bind_result :: "'a result \<Rightarrow> ('a \<Rightarrow> 'b result) \<Rightarrow> 'b result" where
  "bind_result r k = (case r of Inl e \<Rightarrow> Inl e | Inr x \<Rightarrow> k x)"

definition require :: "err option \<Rightarrow> 'a result \<Rightarrow> 'a result" where
  "require g k = (case g of None \<Rightarrow> k | Some e \<Rightarrow> Inl e)"

definition map_err :: "(err \<Rightarrow> err) \<Rightarrow> 'a result \<Rightarrow> 'a result" where
  "map_err f r = (case r of Inl e \<Rightarrow> Inl (f e) | Inr x \<Rightarrow> Inr x)"

definition err_of :: "'a result \<Rightarrow> err option" where
  "err_of r = (case r of Inl e \<Rightarrow> Some e | Inr _ \<Rightarrow> None)"

definition is_ok :: "'a result \<Rightarrow> bool" where
  "is_ok r = (case r of Inl _ \<Rightarrow> False | Inr _ \<Rightarrow> True)"

lemma fail_if_None [simp]: "fail_if b e = None \<longleftrightarrow> \<not> b"
  by (simp add: fail_if_def)

lemma fail_if_Some [simp]: "fail_if b e = Some e' \<longleftrightarrow> b \<and> e' = e"
  by (auto simp: fail_if_def)

lemma guards_None: "guards gs = None \<longleftrightarrow> (\<forall>g \<in> set gs. g = None)"
  by (induction gs) (auto split: option.splits)

lemma guards_Cons_None [simp]: "guards (g # gs) = None \<longleftrightarrow> g = None \<and> guards gs = None"
  by (auto split: option.splits)

lemma guards_Cons_simps [simp]: "guards (None # gs) = guards gs" "guards (Some e # gs) = Some e"
  by simp_all

declare guards.simps(2) [simp del]

lemma guards_append: "guards (xs @ ys) = (case guards xs of None \<Rightarrow> guards ys | Some e \<Rightarrow> Some e)"
  by (induction xs) (auto simp: guards.simps(2) split: option.splits)

lemma wrap_err_None [simp]: "wrap_err f e = None \<longleftrightarrow> e = None"
  by (simp add: wrap_err_def)

lemma bind_result_Inr: "bind_result r k = Inr y \<longleftrightarrow> (\<exists>x. r = Inr x \<and> k x = Inr y)"
  by (auto simp: bind_result_def split: sum.splits)

lemma bind_result_simps [simp]:
  "bind_result (Inl e) k = Inl e" "bind_result (Inr x) k = k x"
  by (simp_all add: bind_result_def)

lemma require_Inr [simp]: "require g k = Inr y \<longleftrightarrow> g = None \<and> k = Inr y"
  by (auto simp: require_def split: option.splits)

lemma require_None [simp]: "require None k = k"
  by (simp add: require_def)

lemma require_Some [simp]: "require (Some e) k = Inl e"
  by (simp add: require_def)

lemma map_err_Inr [simp]: "map_err f r = Inr y \<longleftrightarrow> r = Inr y"
  by (auto simp: map_err_def split: sum.splits)

lemma err_of_None [simp]: "err_of r = None \<longleftrightarrow> (\<exists>y. r = Inr y)"
  by (auto simp: err_of_def split: sum.splits)

lemma err_of_simps [simp]: "err_of (Inl e) = Some e" "err_of (Inr x) = None"
  by (simp_all add: err_of_def)

text \<open>An early return with an error does not happen when the call succeeds.\<close>

lemma if_Inl_Inr: "(if b then Inl e else r) = Inr y \<longleftrightarrow> \<not> b \<and> r = Inr y"
  by simp

lemma if_Some_None: "(if b then Some e else r) = None \<longleftrightarrow> \<not> b \<and> r = None"
  by simp

lemma is_ok_iff: "is_ok r \<longleftrightarrow> (\<exists>y. r = Inr y)"
  by (auto simp: is_ok_def split: sum.splits)

lemma option_eqI: "(\<And>k. x = Some k \<longleftrightarrow> y = Some k) \<Longrightarrow> x = y"
  by (metis option.exhaust)

subsection \<open>Signed 64-bit integers\<close>

text \<open>Go's \<open>int\<close> and \<open>int64\<close>: arithmetic that may overflow goes through \<open>wrap64\<close>.\<close>

definition wrap64 :: "int \<Rightarrow> int" where
  "wrap64 x = (x + 2 ^ 63) mod 2 ^ 64 - 2 ^ 63"

abbreviation max_int64 :: int where
  "max_int64 \<equiv> 2 ^ 63 - 1"

lemma wrap64_id: "- (2 ^ 63) \<le> x \<Longrightarrow> x \<le> max_int64 \<Longrightarrow> wrap64 x = x"
  by (simp add: wrap64_def)

lemma wrap64_overflow: "wrap64 (max_int64 + 1) = - (2 ^ 63)"
  by (simp add: wrap64_def)

subsection \<open>Association lists as Go maps\<close>

lemma map_of_update [simp]: "map_of (AList.update k v m) = (map_of m)(k \<mapsto> v)"
  by (simp add: update_conv')

lemma distinct_keys_update [simp]:
  "distinct (map fst m) \<Longrightarrow> distinct (map fst (AList.update k v m))"
  by (rule distinct_update)

lemma keys_update [simp]: "fst ` set (AList.update k v m) = insert k (fst ` set m)"
  using dom_update [of k v m] by (simp flip: dom_map_of_conv_image_fst)

text \<open>Two association lists with the same entries in another order are the same map.\<close>

lemma map_of_mset:
  assumes "mset xs = mset ys" and "distinct (map fst ys)"
  shows "map_of xs = map_of ys"
proof -
  have "mset (map fst xs) = mset (map fst ys)" using assms(1) by simp
  then have "distinct (map fst xs)" using assms(2) mset_eq_imp_distinct_iff by blast
  moreover have "set xs = set ys" by (rule mset_eq_setD [OF assms(1)])
  ultimately show ?thesis by (simp add: map_of_inject_set [OF _ assms(2)])
qed

lemma sort_mset:
  assumes "mset xs = mset ys" shows "sort xs = sort ys"
  using assms by (metis mset_sort properties_for_sort sorted_sort)

lemma map_insort_key: "map f (insort_key (\<lambda>x. g (f x)) x xs) = insort_key g (f x) (map f xs)"
  by (induction xs) auto

lemma map_sort_key: "map f (sort_key (\<lambda>x. g (f x)) xs) = sort_key g (map f xs)"
  by (induction xs) (simp_all add: map_insort_key)

text \<open>Go's \<open>m[k]\<close>: the zero value when the key is absent.\<close>

definition get_str :: "(string \<times> string) list \<Rightarrow> string \<Rightarrow> string" where
  "get_str m k = (case map_of m k of None \<Rightarrow> '''' | Some v \<Rightarrow> v)"

subsection \<open>Runs of a machine and their invariants\<close>

text \<open>A state reached from an initial one by a list of operations, latest first.\<close>

inductive run_of :: "('s \<Rightarrow> bool) \<Rightarrow> ('op \<Rightarrow> 's \<Rightarrow> 's \<Rightarrow> bool) \<Rightarrow> 'op list \<Rightarrow> 's \<Rightarrow> bool"
  for init :: "'s \<Rightarrow> bool" and step :: "'op \<Rightarrow> 's \<Rightarrow> 's \<Rightarrow> bool" where
  run_start: "init s \<Longrightarrow> run_of init step [] s"
| run_step: "run_of init step ops s \<Longrightarrow> step oper s s' \<Longrightarrow> run_of init step (oper # ops) s'"

text \<open>
  An invariant that every operation keeps, indexed by the number of operations so far so that
  a counter may be assumed not to have wrapped around yet.
\<close>

locale invariant_machine =
  fixes init :: "'s \<Rightarrow> bool" and step :: "'op \<Rightarrow> 's \<Rightarrow> 's \<Rightarrow> bool"
    and inv :: "nat \<Rightarrow> 's \<Rightarrow> bool" and bound :: nat
  assumes inv_init: "init s \<Longrightarrow> inv 0 s"
    and inv_step: "inv n s \<Longrightarrow> n < bound \<Longrightarrow> step oper s s' \<Longrightarrow> inv (Suc n) s'"
begin

lemma inv_run: "run_of init step ops s \<Longrightarrow> length ops \<le> bound \<Longrightarrow> inv (length ops) s"
  by (induction rule: run_of.induct) (auto intro: inv_init inv_step)

end

text \<open>An invariant that needs no bound on the number of operations.\<close>

locale step_invariant =
  fixes init :: "'s \<Rightarrow> bool" and step :: "'op \<Rightarrow> 's \<Rightarrow> 's \<Rightarrow> bool" and inv :: "'s \<Rightarrow> bool"
  assumes inv_init: "init s \<Longrightarrow> inv s"
    and inv_step: "inv s \<Longrightarrow> step oper s s' \<Longrightarrow> inv s'"
begin

lemma inv_run: "run_of init step ops s \<Longrightarrow> inv s"
  by (induction rule: run_of.induct) (auto intro: inv_init inv_step)

lemma inv_from: "run_of (\<lambda>t. t = s) step ops s' \<Longrightarrow> inv s \<Longrightarrow> inv s'"
  by (induction rule: run_of.induct) (auto intro: inv_step)

end

text \<open>What every operation keeps between the state before and the state after, along a whole run.\<close>

locale step_progress = step_invariant +
  fixes rel :: "'a \<Rightarrow> 'a \<Rightarrow> bool"
  assumes rel_refl: "rel s s" and rel_trans: "rel s t \<Longrightarrow> rel t u \<Longrightarrow> rel s u"
    and rel_step: "inv s \<Longrightarrow> step oper s s' \<Longrightarrow> rel s s'"
begin

lemma rel_run: "run_of (\<lambda>t. t = s) step ops s' \<Longrightarrow> inv s \<Longrightarrow> rel s s'"
proof (induction rule: run_of.induct)
  case (run_start t)
  then show ?case by (simp add: rel_refl)
next
  case (run_step ops t oper t')
  then show ?case using inv_from rel_step rel_trans by blast
qed

end

end
