(* ===== verification/Node_Status.thy ===== *)
theory Node_Status
  imports Go_Prelude
begin

section \<open>Status vocabularies and transition tables\<close>

text \<open>
  The status strings of \<open>internal/model/status.go\<close> and the two transition tables of
  \<open>internal/orchestrator/transitions.go\<close>: the life cycle of a DAG node and of an operator
  approval. Both validators have the same shape, so the facts about whole histories are
  proved once, in the locale \<open>status_machine\<close>, and the two tables are interpretations of it.
\<close>

abbreviation NodeStatusPending :: string where "NodeStatusPending \<equiv> ''PENDING''"
abbreviation NodeStatusBlocked :: string where "NodeStatusBlocked \<equiv> ''BLOCKED''"
abbreviation NodeStatusAwaitingFunds :: string where "NodeStatusAwaitingFunds \<equiv> ''AWAITING_FUNDS''"
abbreviation NodeStatusRunning :: string where "NodeStatusRunning \<equiv> ''RUNNING''"
abbreviation NodeStatusResolved :: string where "NodeStatusResolved \<equiv> ''RESOLVED''"
abbreviation NodeStatusFailed :: string where "NodeStatusFailed \<equiv> ''FAILED''"
abbreviation NodeStatusCancelled :: string where "NodeStatusCancelled \<equiv> ''CANCELLED''"

abbreviation ApprovalStatusCreated :: string where "ApprovalStatusCreated \<equiv> ''CREATED''"
abbreviation ApprovalStatusPendingOperator :: string where
  "ApprovalStatusPendingOperator \<equiv> ''PENDING_OPERATOR''"
abbreviation ApprovalStatusApproved :: string where "ApprovalStatusApproved \<equiv> ''APPROVED''"
abbreviation ApprovalStatusRejected :: string where "ApprovalStatusRejected \<equiv> ''REJECTED''"
abbreviation ApprovalStatusExpired :: string where "ApprovalStatusExpired \<equiv> ''EXPIRED''"

definition validNodeStatuses :: "string list" where
  "validNodeStatuses = [NodeStatusPending, NodeStatusBlocked, NodeStatusAwaitingFunds,
     NodeStatusRunning, NodeStatusResolved, NodeStatusFailed, NodeStatusCancelled]"

definition validApprovalStatuses :: "string list" where
  "validApprovalStatuses = [ApprovalStatusCreated, ApprovalStatusPendingOperator,
     ApprovalStatusApproved, ApprovalStatusRejected, ApprovalStatusExpired]"

definition ValidNodeStatus :: "string \<Rightarrow> bool" where
  "ValidNodeStatus s \<longleftrightarrow> s \<in> set validNodeStatuses"

definition ValidApprovalStatus :: "string \<Rightarrow> bool" where
  "ValidApprovalStatus s \<longleftrightarrow> s \<in> set validApprovalStatuses"

definition nodeTransitions :: "(string \<times> string list) list" where
  "nodeTransitions =
     [(NodeStatusPending, [NodeStatusAwaitingFunds, NodeStatusRunning, NodeStatusFailed, NodeStatusCancelled]),
      (NodeStatusBlocked, [NodeStatusAwaitingFunds, NodeStatusPending, NodeStatusFailed, NodeStatusCancelled]),
      (NodeStatusAwaitingFunds, [NodeStatusRunning, NodeStatusFailed, NodeStatusCancelled]),
      (NodeStatusRunning, [NodeStatusPending, NodeStatusBlocked, NodeStatusResolved, NodeStatusFailed, NodeStatusCancelled]),
      (NodeStatusResolved, []),
      (NodeStatusFailed, [NodeStatusPending, NodeStatusCancelled]),
      (NodeStatusCancelled, [])]"

definition approvalTransitions :: "(string \<times> string list) list" where
  "approvalTransitions =
     [(ApprovalStatusCreated, [ApprovalStatusPendingOperator, ApprovalStatusExpired]),
      (ApprovalStatusPendingOperator, [ApprovalStatusApproved, ApprovalStatusRejected, ApprovalStatusExpired]),
      (ApprovalStatusApproved, []),
      (ApprovalStatusRejected, []),
      (ApprovalStatusExpired, [])]"

text \<open>A missing row of the table is the empty set of successors.\<close>

definition table_row :: "(string \<times> string list) list \<Rightarrow> string \<Rightarrow> string list" where
  "table_row tab s = (case map_of tab s of None \<Rightarrow> [] | Some ss \<Rightarrow> ss)"

definition ValidateNodeTransition :: "string \<Rightarrow> string \<Rightarrow> err option" where
  "ValidateNodeTransition src dst =
     (if \<not> ValidNodeStatus src \<or> \<not> ValidNodeStatus dst
      then Some (Errorf ''invalid node status transition: unknown node status %q -> %q'' [AStr src, AStr dst])
      else if src = dst then None
      else if dst \<notin> set (table_row nodeTransitions src)
      then Some (Errorf ''invalid node status transition: %s -> %s'' [AStr src, AStr dst])
      else None)"

definition ValidateApprovalTransition :: "string \<Rightarrow> string \<Rightarrow> err option" where
  "ValidateApprovalTransition src dst =
     (if \<not> ValidApprovalStatus src \<or> \<not> ValidApprovalStatus dst
      then Some (Errorf ''invalid approval status transition: unknown approval status %q -> %q'' [AStr src, AStr dst])
      else if src = dst then None
      else if dst \<notin> set (table_row approvalTransitions src)
      then Some (Errorf ''invalid approval status transition: %s -> %s'' [AStr src, AStr dst])
      else None)"

subsection \<open>Histories\<close>

text \<open>A history of statuses, latest first, in which every change passed the validator.\<close>

inductive status_run :: "(string \<Rightarrow> string \<Rightarrow> err option) \<Rightarrow> string list \<Rightarrow> bool"
  for validate :: "string \<Rightarrow> string \<Rightarrow> err option" where
  status_start: "status_run validate [s]"
| status_step: "status_run validate (s # h) \<Longrightarrow> validate s t = None \<Longrightarrow> status_run validate (t # s # h)"

inductive_cases status_run_consE: "status_run v (t # s # h)"

locale status_machine =
  fixes valid :: "string \<Rightarrow> bool" and succs :: "string \<Rightarrow> string list"
    and validate :: "string \<Rightarrow> string \<Rightarrow> err option"
  assumes validate_ok:
    "validate a b = None \<longleftrightarrow> valid a \<and> valid b \<and> (a = b \<or> b \<in> set (succs a))"
begin

lemma terminal_stays:
  "status_run validate h \<Longrightarrow> t \<in> set h \<Longrightarrow> succs t = [] \<Longrightarrow> hd h = t"
  by (induction rule: status_run.induct) (auto simp: validate_ok)

lemma enters_through:
  assumes only: "\<And>a. t \<in> set (succs a) \<Longrightarrow> a = g"
  shows "status_run validate h \<Longrightarrow> t \<in> set h \<Longrightarrow> last h \<noteq> t \<Longrightarrow> g \<in> set h"
proof (induction rule: status_run.induct)
  case (status_step s h u)
  show ?case
  proof (cases "t \<in> set (s # h)")
    case True
    with status_step show ?thesis by auto
  next
    case False
    with status_step.prems have "t = u" and "u \<noteq> s" by auto
    with status_step.hyps(2) have "t \<in> set (succs s)" unfolding validate_ok by blast
    then have "s = g" by (rule only)
    then show ?thesis by simp
  qed
qed simp

lemma stays_valid: "status_run validate h \<Longrightarrow> valid (last h) \<Longrightarrow> \<forall>s \<in> set h. valid s"
proof (induction rule: status_run.induct)
  case (status_step s h t)
  from status_step.hyps(2) have "valid t" unfolding validate_ok by blast
  moreover have "\<forall>s \<in> set (s # h). valid s" using status_step.prems by (intro status_step.IH) simp
  ultimately show ?case by simp
qed simp

end

interpretation node_life: status_machine ValidNodeStatus "table_row nodeTransitions" ValidateNodeTransition
  by unfold_locales (auto simp: ValidateNodeTransition_def)

interpretation approval_life: status_machine ValidApprovalStatus "table_row approvalTransitions" ValidateApprovalTransition
  by unfold_locales (auto simp: ValidateApprovalTransition_def)

lemma table_row_mem: "b \<in> set (table_row tab a) \<Longrightarrow> \<exists>ss. (a, ss) \<in> set tab \<and> b \<in> set ss"
  by (cases "map_of tab a") (auto simp: table_row_def dest: map_of_SomeD)

lemma resolved_from_running: "NodeStatusResolved \<in> set (table_row nodeTransitions a) \<Longrightarrow> a = NodeStatusRunning"
  by (drule table_row_mem) (auto simp: nodeTransitions_def)

lemma approved_from_pending:
  "ApprovalStatusApproved \<in> set (table_row approvalTransitions a) \<Longrightarrow> a = ApprovalStatusPendingOperator"
  by (drule table_row_mem) (auto simp: approvalTransitions_def)

lemma node_terminal: "s \<in> {NodeStatusResolved, NodeStatusCancelled} \<Longrightarrow> table_row nodeTransitions s = []"
  by (auto simp: table_row_def nodeTransitions_def)

lemma approval_terminal:
  "s \<in> {ApprovalStatusApproved, ApprovalStatusRejected, ApprovalStatusExpired} \<Longrightarrow>
   table_row approvalTransitions s = []"
  by (auto simp: table_row_def approvalTransitions_def)

subsection \<open>Properties\<close>

text \<open>C37. In every history of a node in which each change passed \<open>ValidateNodeTransition\<close>,
  RESOLVED and CANCELLED are final, a node that did not start as RESOLVED is resolved only
  after it has been RUNNING, and no unknown status ever appears.\<close>

theorem node_history:
  assumes "status_run ValidateNodeTransition h" and "ValidNodeStatus (last h)"
  shows "(t \<in> {NodeStatusResolved, NodeStatusCancelled} \<longrightarrow> t \<in> set h \<longrightarrow> hd h = t) \<and>
    (NodeStatusResolved \<in> set h \<longrightarrow> last h \<noteq> NodeStatusResolved \<longrightarrow> NodeStatusRunning \<in> set h) \<and>
    list_all ValidNodeStatus h"
proof (intro conjI impI)
  show "hd h = t" if "t \<in> {NodeStatusResolved, NodeStatusCancelled}" "t \<in> set h"
    by (rule node_life.terminal_stays [OF assms(1) that(2) node_terminal [OF that(1)]])
  show "NodeStatusRunning \<in> set h" if "NodeStatusResolved \<in> set h" "last h \<noteq> NodeStatusResolved"
    by (rule node_life.enters_through [OF resolved_from_running assms(1) that])
  show "list_all ValidNodeStatus h"
    unfolding list_all_iff by (rule node_life.stays_valid [OF assms])
qed

theorem node_history_witness:
  "hd [''RESOLVED'', ''RUNNING'', ''AWAITING_FUNDS'', ''PENDING''] = NodeStatusResolved \<and>
   NodeStatusRunning \<in> set [''RESOLVED'', ''RUNNING'', ''AWAITING_FUNDS'', ''PENDING''] \<and>
   list_all ValidNodeStatus [''RESOLVED'', ''RUNNING'', ''AWAITING_FUNDS'', ''PENDING'']"
proof -
  let ?h = "[''RESOLVED'', ''RUNNING'', ''AWAITING_FUNDS'', ''PENDING'']"
  have run: "status_run ValidateNodeTransition ?h"
    by (intro status_run.intros)
      (simp_all add: ValidateNodeTransition_def ValidNodeStatus_def validNodeStatuses_def table_row_def nodeTransitions_def)
  have start: "ValidNodeStatus (last ?h)" by (simp add: ValidNodeStatus_def validNodeStatuses_def)
  from node_history [OF run start, of NodeStatusResolved] show ?thesis by simp
qed

text \<open>In every history of an approval, APPROVED, REJECTED and EXPIRED are final, and an
  approval that did not start as APPROVED becomes so only after it has been put to the
  operator.\<close>

theorem approval_history:
  assumes "status_run ValidateApprovalTransition h"
  shows "(t \<in> {ApprovalStatusApproved, ApprovalStatusRejected, ApprovalStatusExpired} \<longrightarrow> t \<in> set h \<longrightarrow> hd h = t) \<and>
    (ApprovalStatusApproved \<in> set h \<longrightarrow> last h \<noteq> ApprovalStatusApproved \<longrightarrow>
     ApprovalStatusPendingOperator \<in> set h)"
proof (intro conjI impI)
  show "hd h = t" if "t \<in> {ApprovalStatusApproved, ApprovalStatusRejected, ApprovalStatusExpired}" "t \<in> set h"
    by (rule approval_life.terminal_stays [OF assms that(2) approval_terminal [OF that(1)]])
  show "ApprovalStatusPendingOperator \<in> set h" if "ApprovalStatusApproved \<in> set h" "last h \<noteq> ApprovalStatusApproved"
    by (rule approval_life.enters_through [OF approved_from_pending assms that])
qed

theorem approval_history_witness:
  "hd [''APPROVED'', ''PENDING_OPERATOR'', ''CREATED''] = ApprovalStatusApproved \<and>
   ApprovalStatusPendingOperator \<in> set [''APPROVED'', ''PENDING_OPERATOR'', ''CREATED'']"
proof -
  let ?h = "[''APPROVED'', ''PENDING_OPERATOR'', ''CREATED'']"
  have run: "status_run ValidateApprovalTransition ?h"
    by (intro status_run.intros)
      (simp_all add: ValidateApprovalTransition_def ValidApprovalStatus_def validApprovalStatuses_def table_row_def
        approvalTransitions_def)
  from approval_history [OF run, of ApprovalStatusApproved] show ?thesis by simp
qed

end
