(* ===== verification/Go_Strings.thy ===== *)
theory Go_Strings
  imports Go_Prelude
begin

section \<open>The string functions of package strings\<close>

text \<open>
  \<open>TrimSpace\<close> works on UTF-8 text: it removes the ASCII white space bytes and the
  encodings of the other Unicode white space characters at both ends. The remaining
  functions are used by the sources with single-byte separators only.
\<close>

subsection \<open>TrimSpace\<close>

text \<open>The UTF-8 encodings of the characters for which \<open>unicode.IsSpace\<close> holds.\<close>

definition space_seqs :: "string list" where
  "space_seqs =
     [[CHR 0x20], [CHR 0x09], [CHR 0x0A], [CHR 0x0B], [CHR 0x0C], [CHR 0x0D],
      [CHR 0xC2, CHR 0x85], [CHR 0xC2, CHR 0xA0], [CHR 0xE1, CHR 0x9A, CHR 0x80],
      [CHR 0xE2, CHR 0x80, CHR 0x80], [CHR 0xE2, CHR 0x80, CHR 0x81], [CHR 0xE2, CHR 0x80, CHR 0x82],
      [CHR 0xE2, CHR 0x80, CHR 0x83], [CHR 0xE2, CHR 0x80, CHR 0x84], [CHR 0xE2, CHR 0x80, CHR 0x85],
      [CHR 0xE2, CHR 0x80, CHR 0x86], [CHR 0xE2, CHR 0x80, CHR 0x87], [CHR 0xE2, CHR 0x80, CHR 0x88],
      [CHR 0xE2, CHR 0x80, CHR 0x89], [CHR 0xE2, CHR 0x80, CHR 0x8A], [CHR 0xE2, CHR 0x80, CHR 0xA8],
      [CHR 0xE2, CHR 0x80, CHR 0xA9], [CHR 0xE2, CHR 0x80, CHR 0xAF], [CHR 0xE2, CHR 0x81, CHR 0x9F],
      [CHR 0xE3, CHR 0x80, CHR 0x80]]"

text \<open>Remove leading members of a set of byte sequences, as long as there is one.\<close>

function strip_leading :: "string list \<Rightarrow> string \<Rightarrow> string" where
  "strip_leading qs s =
     (case find (\<lambda>q. q \<noteq> [] \<and> prefix q s) qs of
        None \<Rightarrow> s
      | Some q \<Rightarrow> strip_leading qs (drop (length q) s))"
  by pat_completeness auto
termination
proof (relation "measure (\<lambda>(qs, s). length s)")
  fix qs :: "string list" and s q :: string
  assume "find (\<lambda>q. q \<noteq> [] \<and> prefix q s) qs = Some q"
  then have "q \<noteq> []" and "prefix q s" by (auto simp: find_Some_iff)
  then show "((qs, drop (length q) s), (qs, s)) \<in> measure (\<lambda>(qs, s). length s)"
    using prefix_length_le [of q s] by (cases q) auto
qed simp

declare strip_leading.simps [simp del]

definition TrimLeft :: "string \<Rightarrow> string" where
  "TrimLeft s = strip_leading space_seqs s"

definition TrimRight :: "string \<Rightarrow> string" where
  "TrimRight s = rev (strip_leading (map rev space_seqs) (rev s))"

definition TrimSpace :: "string \<Rightarrow> string" where
  "TrimSpace s = TrimRight (TrimLeft s)"

lemma find_None_prefix:
  "find (\<lambda>q. q \<noteq> [] \<and> prefix q s) qs = None \<longleftrightarrow> (\<forall>q \<in> set qs. q \<noteq> [] \<longrightarrow> \<not> prefix q s)"
  by (auto simp: find_None_iff)

lemma strip_leading_fixed:
  "\<forall>q \<in> set qs. q \<noteq> [] \<longrightarrow> \<not> prefix q s \<Longrightarrow> strip_leading qs s = s"
  by (subst strip_leading.simps) (simp add: find_None_prefix [THEN iffD2])

lemma strip_leading_done: "\<forall>q \<in> set qs. q \<noteq> [] \<longrightarrow> \<not> prefix q (strip_leading qs s)"
proof (induction qs s rule: strip_leading.induct)
  case (1 qs s)
  show ?case
  proof (cases "find (\<lambda>q. q \<noteq> [] \<and> prefix q s) qs")
    case None
    then have "strip_leading qs s = s" by (simp add: strip_leading.simps [of qs s])
    with None show ?thesis by (simp only: find_None_prefix)
  next
    case (Some q)
    with "1.IH" [OF Some] show ?thesis
      by (simp add: strip_leading.simps [of qs s])
  qed
qed

lemma strip_leading_suffix: "suffix (strip_leading qs s) s"
proof (induction qs s rule: strip_leading.induct)
  case (1 qs s)
  show ?case
  proof (cases "find (\<lambda>q. q \<noteq> [] \<and> prefix q s) qs")
    case None
    then show ?thesis by (simp add: strip_leading.simps [of qs s])
  next
    case (Some q)
    then show ?thesis using "1.IH" [OF Some] suffix_drop [of "length q" s]
      by (auto simp: strip_leading.simps [of qs s] intro: suffix_order.trans)
  qed
qed

lemma strip_leading_idem [simp]: "strip_leading qs (strip_leading qs s) = strip_leading qs s"
  by (rule strip_leading_fixed) (rule strip_leading_done)

lemma TrimRight_prefix: "prefix (TrimRight s) s"
  using strip_leading_suffix [of "map rev space_seqs" "rev s"]
  by (simp add: TrimRight_def suffix_to_prefix)

lemma TrimLeft_suffix: "suffix (TrimLeft s) s"
  by (simp add: TrimLeft_def strip_leading_suffix)

lemma TrimRight_idem [simp]: "TrimRight (TrimRight s) = TrimRight s"
  by (simp add: TrimRight_def)

lemma TrimLeft_fixed_prefix:
  assumes "prefix t s" and "TrimLeft s = s"
  shows "TrimLeft t = t"
  unfolding TrimLeft_def
proof (rule strip_leading_fixed, intro ballI impI notI)
  fix q assume q: "q \<in> set space_seqs" "q \<noteq> []" "prefix q t"
  from q(3) assms(1) have "prefix q (strip_leading space_seqs s)"
    using assms(2) by (auto simp: TrimLeft_def intro: prefix_order.trans)
  with q(1,2) strip_leading_done [of space_seqs s] show False by blast
qed

lemma TrimSpace_idem [simp]: "TrimSpace (TrimSpace s) = TrimSpace s"
proof -
  have "TrimLeft (TrimLeft s) = TrimLeft s" by (simp add: TrimLeft_def)
  with TrimRight_prefix have "TrimLeft (TrimRight (TrimLeft s)) = TrimRight (TrimLeft s)"
    by (rule TrimLeft_fixed_prefix)
  then show ?thesis by (simp add: TrimSpace_def)
qed

lemma TrimSpace_subset: "set (TrimSpace s) \<subseteq> set s"
  using set_mono_prefix [OF TrimRight_prefix] set_mono_suffix [OF TrimLeft_suffix]
  by (fastforce simp: TrimSpace_def)

lemma TrimSpace_length: "length (TrimSpace s) \<le> length s"
  using prefix_length_le [OF TrimRight_prefix [of "TrimLeft s"]] suffix_length_le [OF TrimLeft_suffix [of s]]
  by (simp add: TrimSpace_def)

lemma TrimSpace_full:
  assumes "length s \<le> length (TrimSpace s)" shows "TrimSpace s = s"
proof -
  have "length (TrimLeft s) = length s" "length (TrimRight (TrimLeft s)) = length (TrimLeft s)"
    using assms prefix_length_le [OF TrimRight_prefix [of "TrimLeft s"]] suffix_length_le [OF TrimLeft_suffix [of s]]
    by (simp_all add: TrimSpace_def)
  moreover have "TrimLeft s = s"
    using TrimLeft_suffix [of s] calculation(1) by (auto simp: suffix_def) (metis append_Nil append_eq_append_conv)
  ultimately show ?thesis
    using TrimRight_prefix [of "TrimLeft s"] by (metis TrimSpace_def append_eq_conv_conj prefix_def take_all_iff le_refl)
qed

lemma TrimSpace_Nil [simp]: "TrimSpace [] = []"
  using TrimSpace_subset [of "[]"] by simp

text \<open>A string that starts and ends with a printable ASCII byte is not changed.\<close>

definition graphic :: "char \<Rightarrow> bool" where
  "graphic c \<longleftrightarrow> (of_char c :: nat) \<in> {0x21..0x7E}"

lemma not_prefix_graphic:
  "graphic c \<Longrightarrow> \<forall>q \<in> set space_seqs. q \<noteq> [] \<longrightarrow> \<not> prefix q (c # s)"
  by (auto simp: space_seqs_def graphic_def)

lemma not_suffix_graphic:
  "graphic c \<Longrightarrow> \<forall>q \<in> set (map rev space_seqs). q \<noteq> [] \<longrightarrow> \<not> prefix q (c # s)"
  by (auto simp: space_seqs_def graphic_def)

lemma TrimLeft_graphic: "graphic c \<Longrightarrow> TrimLeft (c # s) = c # s"
  unfolding TrimLeft_def by (rule strip_leading_fixed) (rule not_prefix_graphic)

lemma TrimRight_graphic: "graphic c \<Longrightarrow> TrimRight (s @ [c]) = s @ [c]"
  unfolding TrimRight_def
  using strip_leading_fixed [OF not_suffix_graphic, of c "rev s"] by simp

lemma TrimSpace_graphic [go_simps]:
  assumes "s \<noteq> []" and "graphic (hd s)" and "graphic (last s)"
  shows "TrimSpace s = s"
proof -
  from assms have "TrimLeft s = s" by (cases s) (simp_all add: TrimLeft_graphic)
  moreover from assms have "TrimRight s = s"
    using TrimRight_graphic [of "last s" "butlast s"] by simp
  ultimately show ?thesis by (simp add: TrimSpace_def)
qed

text \<open>Trimming keeps every graphic byte of a text.\<close>

lemma strip_leading_keeps: "c \<in> set s \<Longrightarrow> \<forall>q \<in> set qs. c \<notin> set q \<Longrightarrow> c \<in> set (strip_leading qs s)"
proof (induction qs s rule: strip_leading.induct)
  case (1 qs s)
  show ?case
  proof (cases "find (\<lambda>q. q \<noteq> [] \<and> prefix q s) qs")
    case None
    then show ?thesis using 1(2) by (simp add: strip_leading.simps [of qs s])
  next
    case (Some q)
    then have q: "q \<in> set qs" "prefix q s" by (auto simp: find_Some_iff)
    then obtain t where s: "s = q @ t" unfolding prefix_def by blast
    with 1(2,3) q(1) have "c \<in> set (drop (length q) s)" by auto
    from "1.IH" [OF Some this 1(3)] Some show ?thesis by (simp add: strip_leading.simps [of qs s])
  qed
qed

lemma TrimSpace_keeps_graphic:
  assumes "c \<in> set s" and "graphic c" shows "TrimSpace s \<noteq> []"
proof -
  have no: "\<forall>q \<in> set space_seqs. c \<notin> set q" using assms(2) by (auto simp: space_seqs_def graphic_def)
  have "c \<in> set (TrimLeft s)" unfolding TrimLeft_def by (rule strip_leading_keeps [OF assms(1) no])
  then have "c \<in> set (TrimRight (TrimLeft s))" unfolding TrimRight_def using no by (simp add: strip_leading_keeps)
  then show ?thesis by (auto simp: TrimSpace_def)
qed

text \<open>A string with no white space around it.\<close>

definition trimmed :: "string \<Rightarrow> bool" where
  "trimmed s \<longleftrightarrow> TrimSpace s = s"

lemma trimmed_TrimSpace [simp]: "trimmed (TrimSpace s)"
  by (simp add: trimmed_def)

lemma trimmed_graphic [go_simps]:
  "s \<noteq> [] \<Longrightarrow> graphic (hd s) \<Longrightarrow> graphic (last s) \<Longrightarrow> trimmed s"
  by (simp add: trimmed_def TrimSpace_graphic)

subsection \<open>Case folding\<close>

text \<open>
  \<open>strings.ToLower\<close> as far as the sources depend on it: its result is only compared with
  ASCII literals. Two non-ASCII characters have an ASCII lower case (the Kelvin sign, as k,
  and the capital I with a dot, as i); every other non-ASCII character keeps a non-ASCII
  image and cannot make such a comparison succeed.
\<close>

definition ascii_lower :: "char \<Rightarrow> char" where
  "ascii_lower c = (if (of_char c :: nat) \<in> {0x41..0x5A} then char_of ((of_char c :: nat) + 32) else c)"

definition ascii_upper :: "char \<Rightarrow> char" where
  "ascii_upper c = (if (of_char c :: nat) \<in> {0x61..0x7A} then char_of ((of_char c :: nat) - 32) else c)"

fun ToLower :: "string \<Rightarrow> string" where
  "ToLower (a # b # c # s) =
     (if [a, b, c] = [CHR 0xE2, CHR 0x84, CHR 0xAA] then CHR ''k'' # ToLower s
      else if [a, b] = [CHR 0xC4, CHR 0xB0] then CHR ''i'' # ToLower (c # s)
      else ascii_lower a # ToLower (b # c # s))"
| "ToLower [a, b] =
     (if [a, b] = [CHR 0xC4, CHR 0xB0] then [CHR ''i''] else [ascii_lower a, ascii_lower b])"
| "ToLower [a] = [ascii_lower a]"
| "ToLower [] = []"

text \<open>
  \<open>strings.ToUpper\<close> in the same way: the dotless i and the long s have an ASCII upper case.
\<close>

fun ToUpper :: "string \<Rightarrow> string" where
  "ToUpper (a # b # s) =
     (if [a, b] = [CHR 0xC4, CHR 0xB1] then CHR ''I'' # ToUpper s
      else if [a, b] = [CHR 0xC5, CHR 0xBF] then CHR ''S'' # ToUpper s
      else ascii_upper a # ToUpper (b # s))"
| "ToUpper [a] = [ascii_upper a]"
| "ToUpper [] = []"

subsection \<open>Splitting, joining, replacing\<close>

definition ReplaceByte :: "char \<Rightarrow> char \<Rightarrow> string \<Rightarrow> string" where
  "ReplaceByte a b s = map (\<lambda>c. if c = a then b else c) s"

fun split_on :: "char \<Rightarrow> string \<Rightarrow> string list" where
  "split_on d [] = [[]]"
| "split_on d (c # s) =
     (if c = d then [] # split_on d s
      else (case split_on d s of [] \<Rightarrow> [[c]] | w # ws \<Rightarrow> (c # w) # ws))"

fun join_with :: "string \<Rightarrow> string list \<Rightarrow> string" where
  "join_with d [] = []"
| "join_with d [w] = w"
| "join_with d (w # v # ws) = w @ d @ join_with d (v # ws)"

definition HasPrefix :: "string \<Rightarrow> string \<Rightarrow> bool" where
  "HasPrefix s p = prefix p s"

definition HasSuffix :: "string \<Rightarrow> string \<Rightarrow> bool" where
  "HasSuffix s p = prefix (rev p) (rev s)"

definition Contains :: "string \<Rightarrow> string \<Rightarrow> bool" where
  "Contains s t \<longleftrightarrow> list_ex (\<lambda>u. HasPrefix u t) (suffixes s)"

definition TrimPrefix :: "string \<Rightarrow> string \<Rightarrow> string" where
  "TrimPrefix s p = (if HasPrefix s p then drop (length p) s else s)"

definition TrimSuffix :: "string \<Rightarrow> string \<Rightarrow> string" where
  "TrimSuffix s p = (if HasSuffix s p then take (length s - length p) s else s)"

lemma Contains_iff: "Contains s t \<longleftrightarrow> (\<exists>a b. s = a @ t @ b)"
proof -
  have "Contains s t \<longleftrightarrow> (\<exists>u. suffix u s \<and> prefix t u)" by (auto simp: Contains_def list_ex_iff HasPrefix_def)
  also have "\<dots> \<longleftrightarrow> (\<exists>a b. s = a @ t @ b)" unfolding suffix_def prefix_def by blast
  finally show ?thesis .
qed

lemma HasSuffix_append [simp]: "HasSuffix (s @ p) p"
  by (simp add: HasSuffix_def)

lemma HasSuffix_iff: "HasSuffix s p \<longleftrightarrow> (\<exists>t. s = t @ p)"
  by (simp add: HasSuffix_def suffix_to_prefix [symmetric] suffix_def)

lemma TrimSuffix_append [simp]: "TrimSuffix (s @ p) p = s"
  by (simp add: TrimSuffix_def)

lemma TrimPrefix_append [simp]: "TrimPrefix (p @ s) p = s"
  by (simp add: TrimPrefix_def HasPrefix_def)

lemma split_on_not_Nil [simp]: "split_on d s \<noteq> []"
  by (induction s) (auto split: list.splits)

lemma split_on_no_sep: "d \<notin> set w \<Longrightarrow> split_on d w = [w]"
  by (induction w) auto

lemma split_on_append_sep:
  "d \<notin> set w \<Longrightarrow> split_on d (w @ d # s) = w # split_on d s"
  by (induction w) auto

lemma split_on_join:
  "ws \<noteq> [] \<Longrightarrow> \<forall>w \<in> set ws. d \<notin> set w \<Longrightarrow> split_on d (join_with [d] ws) = ws"
  by (induction ws rule: induct_list012) (auto simp: split_on_no_sep split_on_append_sep)

lemma join_with_Cons: "ws \<noteq> [] \<Longrightarrow> join_with d (w # ws) = w @ d @ join_with d ws"
  by (cases ws) auto

lemma join_with_push: "join_with d ((c # w) # ws) = c # join_with d (w # ws)"
  by (cases ws) auto

lemma join_split_on [simp]: "join_with [d] (split_on d s) = s"
proof (induction s)
  case (Cons c s)
  then show ?case
    by (cases "split_on d s") (auto simp: join_with_Cons join_with_push simp del: join_with.simps(3))
qed simp

lemma split_on_parts: "w \<in> set (split_on d s) \<Longrightarrow> d \<notin> set w"
  by (induction s arbitrary: w) (auto split: list.splits if_splits)

lemma split_on_Cons_hd: "split_on d s = w # ws \<Longrightarrow> prefix w s"
  by (induction s arbitrary: w ws) (auto split: list.splits if_splits)

lemma set_ReplaceByte: "a \<noteq> b \<Longrightarrow> a \<notin> set (ReplaceByte a b s)"
  by (auto simp: ReplaceByte_def)

lemma set_ReplaceByte_subset: "set (ReplaceByte a b s) \<subseteq> insert b (set s - {a})"
  by (auto simp: ReplaceByte_def)

subsection \<open>Decimal numbers\<close>

definition digit :: "nat \<Rightarrow> char" where
  "digit n = char_of (48 + n)"

definition digit_val :: "char \<Rightarrow> nat" where
  "digit_val c = (of_char c :: nat) - 48"

definition is_digit :: "char \<Rightarrow> bool" where
  "is_digit c \<longleftrightarrow> (of_char c :: nat) \<in> {48..57}"

fun dec_nat :: "nat \<Rightarrow> string" where
  "dec_nat n = (if n < 10 then [digit n] else dec_nat (n div 10) @ [digit (n mod 10)])"

declare dec_nat.simps [simp del]

definition dec_int :: "int \<Rightarrow> string" where
  "dec_int i = (if i < 0 then CHR ''-'' # dec_nat (nat (- i)) else dec_nat (nat i))"

definition num_of :: "string \<Rightarrow> nat" where
  "num_of s = foldl (\<lambda>v c. 10 * v + digit_val c) 0 s"

lemma of_char_digit: "n < 10 \<Longrightarrow> (of_char (digit n) :: nat) = 48 + n"
  by (simp add: digit_def of_char_of)

lemma digit_val_digit [simp]: "n < 10 \<Longrightarrow> digit_val (digit n) = n"
  by (simp add: digit_val_def of_char_digit)

lemma is_digit_digit [simp]: "n < 10 \<Longrightarrow> is_digit (digit n)"
  by (simp add: is_digit_def of_char_digit)

lemma num_of_snoc [simp]: "num_of (s @ [c]) = 10 * num_of s + digit_val c"
  by (simp add: num_of_def)

lemma num_of_dec_nat [simp]: "num_of (dec_nat n) = n"
proof (induction n rule: dec_nat.induct)
  case (1 n)
  then show ?case
    by (cases "n < 10") (simp_all add: dec_nat.simps [of n] num_of_def)
qed

lemma dec_nat_digits: "\<forall>c \<in> set (dec_nat n). is_digit c"
proof (induction n rule: dec_nat.induct)
  case (1 n)
  then show ?case by (cases "n < 10") (auto simp: dec_nat.simps [of n])
qed

lemma dec_nat_not_Nil [simp]: "dec_nat n \<noteq> []"
  by (subst dec_nat.simps) simp

lemma dec_nat_inj: "dec_nat m = dec_nat n \<Longrightarrow> m = n"
  by (metis num_of_dec_nat)

lemma dec_int_inj:
  assumes "dec_int i = dec_int j" shows "i = j"
proof -
  have minus: "\<not> is_digit (CHR ''-'')" by (simp add: is_digit_def)
  have "CHR ''-'' \<notin> set (dec_nat n)" for n using dec_nat_digits [of n] minus by blast
  then have "dec_nat n \<noteq> CHR ''-'' # s" for n s by (metis list.set_intros(1))
  then show ?thesis using assms
    by (auto simp: dec_int_def dest: dec_nat_inj split: if_splits) (metis)+
qed

lemma dec_int_chars: "c \<in> set (dec_int i) \<Longrightarrow> is_digit c \<or> c = CHR ''-''"
  using dec_nat_digits by (auto simp: dec_int_def split: if_splits)

end
