(* ===== verification/Dag_Graph.thy ===== *)
theory Dag_Graph
  imports Go_Strings
begin

section \<open>Task graphs\<close>

text \<open>
  \<open>internal/dag/graph.go\<close>: the node graph of a task, its normalisation and its validation.
  \<open>ValidateGraph\<close> ends with a depth-first search over the dependency edges that keeps two
  maps, \<open>visiting\<close> and \<open>visited\<close>. The recursive closure \<open>visit\<close> is modelled with a fuel
  argument, and the search is shown never to run out of it when the fuel exceeds the number
  of nodes, which is what \<open>ValidateGraph\<close> gives it.
\<close>

record NodeSpec =
  NodeID :: string
  NodeType :: string
  DependsOn :: "string list"

record Graph =
  Nodes :: "NodeSpec list"

definition DefaultGraph :: Graph where
  "DefaultGraph = \<lparr>Nodes = [\<lparr>NodeID = ''node-1'', NodeType = ''generic'', DependsOn = []\<rparr>]\<rparr>"

subsection \<open>Normalisation\<close>

fun normalize_deps :: "string list \<Rightarrow> string list \<Rightarrow> string list" where
  "normalize_deps seen [] = []"
| "normalize_deps seen (dep # deps) =
     (let d = TrimSpace dep
      in if d = [] then normalize_deps seen deps
         else if d \<in> set seen then normalize_deps seen deps
         else d # normalize_deps (d # seen) deps)"

definition normalize_node :: "NodeSpec \<Rightarrow> NodeSpec" where
  "normalize_node node =
     (let kind = TrimSpace (NodeType node)
      in \<lparr>NodeID = TrimSpace (NodeID node),
          NodeType = (if kind = [] then ''generic'' else kind),
          DependsOn = sort (normalize_deps [] (DependsOn node))\<rparr>)"

definition NormalizeGraph :: "Graph \<Rightarrow> Graph" where
  "NormalizeGraph g = \<lparr>Nodes = map normalize_node (Nodes g)\<rparr>"

subsection \<open>Validation\<close>

fun check_node_ids :: "nat \<Rightarrow> string list \<Rightarrow> NodeSpec list \<Rightarrow> err option" where
  "check_node_ids i seen [] = None"
| "check_node_ids i seen (node # nodes) =
     (if NodeID node = [] then Some (Errorf ''node at index %d has empty node_id'' [AInt (int i)])
      else if NodeID node \<in> set seen then Some (Errorf ''duplicate node_id: %s'' [AStr (NodeID node)])
      else check_node_ids (Suc i) (NodeID node # seen) nodes)"

fun check_deps :: "string list \<Rightarrow> string \<Rightarrow> string list \<Rightarrow> err option" where
  "check_deps ids nid [] = None"
| "check_deps ids nid (dep # deps) =
     (if dep = nid then Some (Errorf ''node %s cannot depend on itself'' [AStr nid])
      else if dep \<notin> set ids then Some (Errorf ''node %s depends on unknown node %s'' [AStr nid, AStr dep])
      else check_deps ids nid deps)"

definition check_all_deps :: "Graph \<Rightarrow> err option" where
  "check_all_deps g =
     guards (map (\<lambda>node. check_deps (map NodeID (Nodes g)) (NodeID node) (DependsOn node)) (Nodes g))"

text \<open>\<open>g.Nodes[nodeIndex[nodeID]]\<close>: the index of an unknown identifier is 0.\<close>

definition node_at :: "Graph \<Rightarrow> string \<Rightarrow> NodeSpec" where
  "node_at g nid = (case find (\<lambda>n. NodeID n = nid) (Nodes g) of None \<Rightarrow> hd (Nodes g) | Some n \<Rightarrow> n)"

record dfs_state =
  visiting :: "string \<Rightarrow> bool"
  visited :: "string \<Rightarrow> bool"

text \<open>\<open>None\<close>: out of fuel; otherwise the returned error and the state of the two maps.\<close>

fun visit :: "nat \<Rightarrow> Graph \<Rightarrow> string \<Rightarrow> dfs_state \<Rightarrow> (err option \<times> dfs_state) option"
  and visit_all :: "nat \<Rightarrow> Graph \<Rightarrow> string list \<Rightarrow> dfs_state \<Rightarrow> (err option \<times> dfs_state) option" where
  "visit 0 g nid st = None"
| "visit (Suc n) g nid st =
     (if visited st nid then Some (None, st)
      else if visiting st nid then Some (Some (Errorf ''cycle detected at node %s'' [AStr nid]), st)
      else (case visit_all n g (DependsOn (node_at g nid)) (st\<lparr>visiting := (visiting st)(nid := True)\<rparr>) of
              None \<Rightarrow> None
            | Some (Some e, st') \<Rightarrow> Some (Some e, st')
            | Some (None, st') \<Rightarrow>
                Some (None, st'\<lparr>visiting := (visiting st')(nid := False),
                                visited := (visited st')(nid := True)\<rparr>)))"
| "visit_all n g [] st = Some (None, st)"
| "visit_all n g (d # ds) st =
     (case visit n g d st of
        None \<Rightarrow> None
      | Some (Some e, st') \<Rightarrow> Some (Some e, st')
      | Some (None, st') \<Rightarrow> visit_all n g ds st')"

definition dfs_start :: dfs_state where
  "dfs_start = \<lparr>visiting = (\<lambda>_. False), visited = (\<lambda>_. False)\<rparr>"

definition detect_cycle :: "Graph \<Rightarrow> err option" where
  "detect_cycle g =
     (case visit_all (Suc (length (Nodes g))) g (map NodeID (Nodes g)) dfs_start of
        None \<Rightarrow> Some (Errorf ''out of fuel'' [])
      | Some (e, st) \<Rightarrow> e)"

definition ValidateGraph :: "Graph \<Rightarrow> err option" where
  "ValidateGraph g =
     guards [fail_if (Nodes g = []) (Errorf ''graph must contain at least one node'' []),
             check_node_ids 0 [] (Nodes g),
             check_all_deps g,
             detect_cycle g]"

subsection \<open>What the checks say\<close>

definition node_ids :: "Graph \<Rightarrow> string set" where
  "node_ids g = NodeID ` set (Nodes g)"

text \<open>The dependency relation: a node to each of its dependencies.\<close>

definition dep_rel :: "Graph \<Rightarrow> (string \<times> string) set" where
  "dep_rel g = {(NodeID n, d) | n d. n \<in> set (Nodes g) \<and> d \<in> set (DependsOn n)}"

definition well_formed_ids :: "Graph \<Rightarrow> bool" where
  "well_formed_ids g \<longleftrightarrow> distinct (map NodeID (Nodes g)) \<and> [] \<notin> node_ids g"

definition closed_deps :: "Graph \<Rightarrow> bool" where
  "closed_deps g \<longleftrightarrow> (\<forall>(a, b) \<in> dep_rel g. a \<noteq> b \<and> b \<in> node_ids g)"

lemma check_node_ids_None:
  "check_node_ids i seen ns = None \<longleftrightarrow>
     distinct (map NodeID ns) \<and> [] \<notin> NodeID ` set ns \<and> NodeID ` set ns \<inter> set seen = {}"
  by (induction ns arbitrary: i seen) auto

lemma check_deps_None: "check_deps ids nid ds = None \<longleftrightarrow> (\<forall>d \<in> set ds. d \<noteq> nid \<and> d \<in> set ids)"
  by (induction ds) auto

lemma check_all_deps_None: "check_all_deps g = None \<longleftrightarrow> closed_deps g"
  by (fastforce simp: check_all_deps_def guards_None check_deps_None closed_deps_def dep_rel_def node_ids_def)

lemma node_at_mem:
  assumes "nid \<in> node_ids g"
  shows "node_at g nid \<in> set (Nodes g)" and "NodeID (node_at g nid) = nid"
proof -
  from assms have "find (\<lambda>n. NodeID n = nid) (Nodes g) \<noteq> None"
    by (auto simp: find_None_iff node_ids_def)
  then obtain n where f: "find (\<lambda>n. NodeID n = nid) (Nodes g) = Some n" by blast
  then have "n \<in> set (Nodes g)" and "NodeID n = nid" by (auto simp: find_Some_iff)
  with f show "node_at g nid \<in> set (Nodes g)" and "NodeID (node_at g nid) = nid"
    by (simp_all add: node_at_def)
qed

lemma node_at_deps:
  assumes "well_formed_ids g" and "nid \<in> node_ids g"
  shows "set (DependsOn (node_at g nid)) = {d. (nid, d) \<in> dep_rel g}"
proof -
  have inj: "inj_on NodeID (set (Nodes g))" using assms(1) by (simp add: well_formed_ids_def distinct_map)
  have uniq: "n = node_at g nid" if "n \<in> set (Nodes g)" "NodeID n = nid" for n
    by (rule inj_onD [OF inj _ that(1)]) (simp_all add: node_at_mem [OF assms(2)] that)
  show ?thesis
  proof (intro set_eqI iffI)
    fix d assume "d \<in> set (DependsOn (node_at g nid))"
    with node_at_mem [OF assms(2)] show "d \<in> {d. (nid, d) \<in> dep_rel g}"
      unfolding dep_rel_def mem_Collect_eq by (intro exI [of _ "node_at g nid"] exI [of _ d]) simp
  next
    fix d assume "d \<in> {d. (nid, d) \<in> dep_rel g}"
    then obtain n where n: "n \<in> set (Nodes g)" "NodeID n = nid" "d \<in> set (DependsOn n)"
      unfolding dep_rel_def by blast
    with uniq [OF n(1,2)] show "d \<in> set (DependsOn (node_at g nid))" by simp
  qed
qed

subsection \<open>The search\<close>

text \<open>
  Between two calls of \<open>visit\<close>: the visited nodes are closed under dependencies, none of
  them lies on a cycle, and no node is both visited and being visited.
\<close>

definition dfs_inv :: "Graph \<Rightarrow> dfs_state \<Rightarrow> bool" where
  "dfs_inv g st \<longleftrightarrow>
     (\<forall>a b. visited st a \<longrightarrow> (a, b) \<in> dep_rel g \<longrightarrow> visited st b) \<and>
     (\<forall>a. visited st a \<longrightarrow> (a, a) \<notin> (dep_rel g)\<^sup>+) \<and>
     (\<forall>a. \<not> (visited st a \<and> visiting st a)) \<and>
     (\<forall>a. visiting st a \<longrightarrow> a \<in> node_ids g)"

definition on_path :: "Graph \<Rightarrow> dfs_state \<Rightarrow> string \<Rightarrow> bool" where
  "on_path g st v \<longleftrightarrow> (\<forall>p. visiting st p \<longrightarrow> (p, v) \<in> (dep_rel g)\<^sup>+)"

text \<open>What a call promises: no error and the node visited, or an error and a real cycle.\<close>

definition dfs_post :: "Graph \<Rightarrow> string set \<Rightarrow> dfs_state \<Rightarrow> err option \<times> dfs_state \<Rightarrow> bool" where
  "dfs_post g vs st r \<longleftrightarrow>
     (case r of
        (Some e, st') \<Rightarrow> \<not> acyclic (dep_rel g)
      | (None, st') \<Rightarrow> dfs_inv g st' \<and> visiting st' = visiting st \<and>
          (\<forall>a. visited st a \<longrightarrow> visited st' a) \<and> (\<forall>v \<in> vs. visited st' v))"

definition todo :: "Graph \<Rightarrow> dfs_state \<Rightarrow> nat" where
  "todo g st = card {a \<in> node_ids g. \<not> visiting st a}"

lemma finite_node_ids [simp]: "finite (node_ids g)"
  by (simp add: node_ids_def)

lemma visited_closed_trancl:
  "dfs_inv g st \<Longrightarrow> visited st a \<Longrightarrow> (a, b) \<in> (dep_rel g)\<^sup>+ \<Longrightarrow> visited st b"
  by (rotate_tac 2, induction rule: trancl_induct) (auto simp: dfs_inv_def)

lemma todo_mark:
  assumes "nid \<in> node_ids g" and "\<not> visiting st nid"
  shows "Suc (todo g (st\<lparr>visiting := (visiting st)(nid := True)\<rparr>)) = todo g st"
proof -
  have "{a \<in> node_ids g. \<not> visiting st a} =
      insert nid {a \<in> node_ids g. \<not> ((visiting st)(nid := True)) a}"
    using assms by auto
  then show ?thesis by (simp add: todo_def card_insert_if)
qed

lemma dfs_inv_mark:
  "dfs_inv g st \<Longrightarrow> nid \<in> node_ids g \<Longrightarrow> \<not> visited st nid \<Longrightarrow>
   dfs_inv g (st\<lparr>visiting := (visiting st)(nid := True)\<rparr>)"
  by (auto simp: dfs_inv_def)

lemma dfs_inv_finish:
  assumes inv: "dfs_inv g st" and vis: "visiting st nid"
    and deps: "\<And>d. (nid, d) \<in> dep_rel g \<Longrightarrow> visited st d"
  shows "dfs_inv g (st\<lparr>visiting := (visiting st)(nid := False), visited := (visited st)(nid := True)\<rparr>)"
proof -
  have "\<not> visited st nid" using inv vis by (auto simp: dfs_inv_def)
  moreover have "visited st nid" if cyc: "(nid, nid) \<in> (dep_rel g)\<^sup>+"
    using cyc deps visited_closed_trancl [OF inv]
    by (metis converse_tranclE)
  ultimately have "(nid, nid) \<notin> (dep_rel g)\<^sup>+" by blast
  then show ?thesis using inv deps unfolding dfs_inv_def by auto
qed

lemma visit_step:
  assumes wf: "well_formed_ids g" and cl: "closed_deps g" and inv: "dfs_inv g st"
    and nid: "nid \<in> node_ids g" and path: "on_path g st nid"
    and new: "\<not> visited st nid" "\<not> visiting st nid"
    and rec: "visit_all n g (DependsOn (node_at g nid)) (st\<lparr>visiting := (visiting st)(nid := True)\<rparr>) = Some r"
    and post: "dfs_post g (set (DependsOn (node_at g nid))) (st\<lparr>visiting := (visiting st)(nid := True)\<rparr>) r"
  shows "\<exists>r'. visit (Suc n) g nid st = Some r' \<and> dfs_post g {nid} st r'"
proof (cases r)
  case (Pair e st')
  show ?thesis
  proof (cases e)
    case None
    from post Pair None have st': "dfs_inv g st'" "visiting st' = (visiting st)(nid := True)"
      "\<forall>a. visited st a \<longrightarrow> visited st' a" "\<forall>v \<in> set (DependsOn (node_at g nid)). visited st' v"
      by (simp_all add: dfs_post_def)
    then have "dfs_inv g (st'\<lparr>visiting := (visiting st')(nid := False), visited := (visited st')(nid := True)\<rparr>)"
      by (intro dfs_inv_finish) (auto simp: node_at_deps [OF wf nid])
    with st' new rec Pair None show ?thesis by (auto simp: dfs_post_def fun_eq_iff)
  next
    case (Some x)
    with post Pair new rec show ?thesis by (simp add: dfs_post_def)
  qed
qed

lemma on_path_dep:
  assumes "on_path g st nid" and "(nid, d) \<in> dep_rel g"
  shows "on_path g (st\<lparr>visiting := (visiting st)(nid := True)\<rparr>) d"
  using assms by (auto simp: on_path_def intro: trancl.intros trancl_into_trancl)

lemma visit_spec:
  "well_formed_ids g \<Longrightarrow> closed_deps g \<Longrightarrow> dfs_inv g st \<Longrightarrow> nid \<in> node_ids g \<Longrightarrow> on_path g st nid \<Longrightarrow>
     todo g st < n \<Longrightarrow> \<exists>r. visit n g nid st = Some r \<and> dfs_post g {nid} st r"
  "well_formed_ids g \<Longrightarrow> closed_deps g \<Longrightarrow> dfs_inv g st \<Longrightarrow> set ds \<subseteq> node_ids g \<Longrightarrow>
     \<forall>d \<in> set ds. on_path g st d \<Longrightarrow> todo g st < n \<Longrightarrow>
     \<exists>r. visit_all n g ds st = Some r \<and> dfs_post g (set ds) st r"
proof (induction n g nid st and n g ds st rule: visit_visit_all.induct)
  case (2 n g nid st)
  let ?st = "st\<lparr>visiting := (visiting st)(nid := True)\<rparr>"
  show ?case
  proof (cases "visited st nid \<or> visiting st nid")
    case True
    with "2.prems" show ?thesis
      by (auto simp: dfs_post_def on_path_def acyclic_def)
  next
    case False
    have "set (DependsOn (node_at g nid)) \<subseteq> node_ids g"
      using "2.prems"(2) by (auto simp: node_at_deps [OF "2.prems"(1,4)] closed_deps_def)
    moreover have "\<forall>d \<in> set (DependsOn (node_at g nid)). on_path g ?st d"
      using on_path_dep [OF "2.prems"(5)] by (simp add: node_at_deps [OF "2.prems"(1,4)])
    moreover have "todo g ?st < n" using False "2.prems"(4,6) todo_mark [of nid g st] by simp
    ultimately obtain r where "visit_all n g (DependsOn (node_at g nid)) ?st = Some r"
        and "dfs_post g (set (DependsOn (node_at g nid))) ?st r"
      using "2.IH" False "2.prems" dfs_inv_mark by blast
    with False "2.prems" show ?thesis by (intro visit_step) auto
  qed
next
  case (4 n g d ds st)
  then obtain e st' where v: "visit n g d st = Some (e, st')" and post: "dfs_post g {d} st (e, st')"
    by auto
  show ?case
  proof (cases e)
    case (Some x)
    with v post show ?thesis by (simp add: dfs_post_def)
  next
    case None
    with post have st': "dfs_inv g st'" "visiting st' = visiting st"
      "\<forall>a. visited st a \<longrightarrow> visited st' a" "visited st' d" by (simp_all add: dfs_post_def)
    then have "todo g st' = todo g st" and "\<forall>d \<in> set ds. on_path g st' d"
      using "4.prems" by (auto simp: todo_def on_path_def)
    with "4.IH"(2) [OF v refl None] "4.prems" st' obtain r
      where "visit_all n g ds st' = Some r" and "dfs_post g (set ds) st' r" by auto
    with v None st' show ?thesis by (cases r) (auto simp: dfs_post_def split: option.splits)
  qed
qed (auto simp: dfs_post_def)

text \<open>The search terminates within its fuel on every graph that reaches it.\<close>

lemma search_result:
  assumes "well_formed_ids g" and "closed_deps g"
  obtains e st where "visit_all (Suc (length (Nodes g))) g (map NodeID (Nodes g)) dfs_start = Some (e, st)"
    and "dfs_post g (node_ids g) dfs_start (e, st)"
proof -
  have ids: "set (map NodeID (Nodes g)) = node_ids g" by (simp add: node_ids_def)
  have "dfs_inv g dfs_start" "\<forall>d \<in> set (map NodeID (Nodes g)). on_path g dfs_start d"
    by (simp_all add: dfs_inv_def dfs_start_def on_path_def)
  moreover have "todo g dfs_start < Suc (length (Nodes g))"
    using card_image_le [of "set (Nodes g)" NodeID] card_length [of "Nodes g"]
    by (simp add: todo_def dfs_start_def node_ids_def)
  ultimately obtain r where "visit_all (Suc (length (Nodes g))) g (map NodeID (Nodes g)) dfs_start = Some r"
      and "dfs_post g (set (map NodeID (Nodes g))) dfs_start r"
    using visit_spec(2) [OF assms, of dfs_start "map NodeID (Nodes g)" "Suc (length (Nodes g))"] ids by blast
  with that ids show ?thesis by (cases r) simp
qed

lemma detect_cycle_None:
  assumes wf: "well_formed_ids g" and cl: "closed_deps g"
  shows "detect_cycle g = None \<longleftrightarrow> acyclic (dep_rel g)"
proof -
  obtain e st where r: "visit_all (Suc (length (Nodes g))) g (map NodeID (Nodes g)) dfs_start = Some (e, st)"
      and post: "dfs_post g (node_ids g) dfs_start (e, st)"
    by (rule search_result [OF wf cl])
  show ?thesis
  proof (cases e)
    case (Some x)
    with r post show ?thesis by (simp add: detect_cycle_def dfs_post_def)
  next
    case None
    with post have "\<forall>v \<in> node_ids g. (v, v) \<notin> (dep_rel g)\<^sup>+" by (simp add: dfs_post_def dfs_inv_def)
    moreover have "(v, v) \<in> (dep_rel g)\<^sup>+ \<Longrightarrow> v \<in> node_ids g" for v
      by (auto simp: dep_rel_def node_ids_def dest: tranclD)
    ultimately have "acyclic (dep_rel g)" by (auto simp: acyclic_def)
    with r None show ?thesis by (simp add: detect_cycle_def)
  qed
qed

subsection \<open>Facts about normalisation\<close>

lemma set_normalize_deps: "set (normalize_deps seen ds) = {d \<in> TrimSpace ` set ds. d \<noteq> []} - set seen"
  by (induction seen ds rule: normalize_deps.induct) (auto simp: Let_def)

lemma distinct_normalize_deps: "distinct (normalize_deps seen ds)"
  by (induction seen ds rule: normalize_deps.induct) (auto simp: Let_def set_normalize_deps)

lemma normalize_deps_fixed:
  "distinct ds \<Longrightarrow> \<forall>d \<in> set ds. d \<noteq> [] \<and> TrimSpace d = d \<Longrightarrow> set ds \<inter> set seen = {} \<Longrightarrow>
   normalize_deps seen ds = ds"
  by (induction seen ds rule: normalize_deps.induct) (auto simp: Let_def)

lemma TrimSpace_generic: "TrimSpace ''generic'' = ''generic''"
  by (rule TrimSpace_graphic) (simp_all add: graphic_def)

lemma normalize_node_idem: "normalize_node (normalize_node n) = normalize_node n"
proof -
  have "normalize_deps [] (sort (normalize_deps [] (DependsOn n))) = sort (normalize_deps [] (DependsOn n))"
    by (rule normalize_deps_fixed) (auto simp: distinct_normalize_deps set_normalize_deps)
  then show ?thesis by (simp add: normalize_node_def Let_def TrimSpace_generic sorted_sort_id)
qed

subsection \<open>Properties\<close>

text \<open>C26. \<open>ValidateGraph\<close> accepts exactly the non-empty graphs whose node identifiers are
  non-empty and distinct, whose dependencies name other nodes of the graph, and whose
  dependency relation has no cycle; in particular the two-map depth-first search decides
  acyclicity.\<close>

theorem ValidateGraph_iff:
  "ValidateGraph g = None \<longleftrightarrow>
     Nodes g \<noteq> [] \<and> well_formed_ids g \<and> closed_deps g \<and> acyclic (dep_rel g)"
  using detect_cycle_None [of g] check_all_deps_None [of g]
  by (auto simp: ValidateGraph_def check_node_ids_None well_formed_ids_def node_ids_def)

text \<open>C38. The depth-first search of \<open>ValidateGraph\<close> always returns: on every graph that
  reaches it, a recursion depth of one more than the number of nodes is enough.\<close>

theorem ValidateGraph_search_returns:
  assumes "check_node_ids 0 [] (Nodes g) = None" and "check_all_deps g = None"
  shows "\<exists>e st. visit_all (Suc (length (Nodes g))) g (map NodeID (Nodes g)) dfs_start = Some (e, st)"
proof -
  have "well_formed_ids g" "closed_deps g"
    using assms by (auto simp: check_node_ids_None well_formed_ids_def node_ids_def check_all_deps_None)
  then show ?thesis by (rule search_result) blast
qed

theorem ValidateGraph_search_returns_witness:
  "\<exists>e st. visit_all 3
     \<lparr>Nodes = [\<lparr>NodeID = ''a'', NodeType = ''t'', DependsOn = [''b'']\<rparr>, \<lparr>NodeID = ''b'', NodeType = ''t'', DependsOn = [''a'']\<rparr>]\<rparr>
     [''a'', ''b''] dfs_start = Some (e, st)"
  using ValidateGraph_search_returns [of "\<lparr>Nodes = [\<lparr>NodeID = ''a'', NodeType = ''t'', DependsOn = [''b'']\<rparr>,
      \<lparr>NodeID = ''b'', NodeType = ''t'', DependsOn = [''a'']\<rparr>]\<rparr>"]
  by (simp add: check_all_deps_def numeral_3_eq_3)

text \<open>\<open>NormalizeGraph\<close> is idempotent and gives every node a sorted, duplicate-free list
  of trimmed, non-empty dependencies and a non-empty type.\<close>

theorem NormalizeGraph_normal:
  "NormalizeGraph (NormalizeGraph g) = NormalizeGraph g \<and>
   list_all (\<lambda>n. sorted (DependsOn n) \<and> distinct (DependsOn n) \<and> NodeType n \<noteq> [] \<and>
       list_all (\<lambda>d. d \<noteq> [] \<and> TrimSpace d = d) (DependsOn n)) (Nodes (NormalizeGraph g))"
proof
  show "NormalizeGraph (NormalizeGraph g) = NormalizeGraph g"
    by (simp add: NormalizeGraph_def normalize_node_idem)
  have "sorted (DependsOn (normalize_node n)) \<and> distinct (DependsOn (normalize_node n)) \<and>
      NodeType (normalize_node n) \<noteq> [] \<and> (\<forall>d \<in> set (DependsOn (normalize_node n)). d \<noteq> [] \<and> TrimSpace d = d)" for n
    by (auto simp: normalize_node_def Let_def distinct_normalize_deps set_normalize_deps)
  then show "list_all (\<lambda>n. sorted (DependsOn n) \<and> distinct (DependsOn n) \<and> NodeType n \<noteq> [] \<and>
       list_all (\<lambda>d. d \<noteq> [] \<and> TrimSpace d = d) (DependsOn n)) (Nodes (NormalizeGraph g))"
    by (simp add: NormalizeGraph_def list_all_iff)
qed

end
