(* ===== verification/Go_Path.thy ===== *)
theory Go_Path
  imports Go_Strings
begin

section \<open>Packages path and unicode/utf8\<close>

text \<open>
  \<open>path.Clean\<close> on slash-separated paths, as a stack of components, with the facts about
  its result that the repository context relies on; \<open>utf8.DecodeRuneInString\<close>; and
  \<open>path.Match\<close> with its chunk scanner, where \<open>None\<close> is \<open>ErrBadPattern\<close>.
\<close>

subsection \<open>path.Clean\<close>

abbreviation slash :: char where "slash \<equiv> CHR ''/''"

definition IsAbs :: "string \<Rightarrow> bool" where
  "IsAbs p \<longleftrightarrow> HasPrefix p [slash]"

text \<open>One component against the stack of kept components, innermost first.\<close>

definition clean_step :: "bool \<Rightarrow> string \<Rightarrow> string list \<Rightarrow> string list" where
  "clean_step rooted w st =
     (if w = [] \<or> w = ''.'' then st
      else if w = ''..'' then
        (case st of [] \<Rightarrow> if rooted then [] else [''..'']
         | t # ts \<Rightarrow> if t = ''..'' then ''..'' # st else ts)
      else w # st)"

definition clean_parts :: "bool \<Rightarrow> string list \<Rightarrow> string list" where
  "clean_parts rooted ws = rev (fold (clean_step rooted) ws [])"

definition path_Clean :: "string \<Rightarrow> string" where
  "path_Clean p =
     (if p = [] then ''.''
      else let s = join_with [slash] (clean_parts (IsAbs p) (split_on slash p))
           in if IsAbs p then slash # s else if s = [] then ''.'' else s)"

text \<open>Cleaning never makes a path longer; a component weighs its length and one separator.\<close>

definition weight :: "string list \<Rightarrow> nat" where
  "weight ws = sum_list (map (\<lambda>w. Suc (length w)) ws)"

lemma weight_split_on: "weight (split_on d s) = Suc (length s)"
  by (induction s) (auto simp: weight_def split: list.splits)

lemma weight_join: "ws \<noteq> [] \<Longrightarrow> weight ws = Suc (length (join_with [d] ws))"
  by (induction ws rule: induct_list012) (auto simp: weight_def)

lemma weight_clean_step: "weight (clean_step r w st) \<le> Suc (length w) + weight st"
  by (cases st) (simp_all add: clean_step_def weight_def)

lemma weight_fold_clean: "weight (fold (clean_step r) ws st) \<le> weight ws + weight st"
proof (induction ws arbitrary: st)
  case (Cons w ws)
  have "weight (fold (clean_step r) ws (clean_step r w st)) \<le> weight ws + weight (clean_step r w st)" by (rule Cons)
  also have "\<dots> \<le> weight ws + (Suc (length w) + weight st)" using weight_clean_step by simp
  finally show ?case by (simp add: weight_def)
qed (simp add: weight_def)

lemma path_Clean_length:
  assumes "p \<noteq> []" and "\<not> IsAbs p" shows "length (path_Clean p) \<le> length p"
proof -
  let ?ws = "clean_parts False (split_on slash p)"
  have "weight ?ws \<le> Suc (length p)"
    using weight_fold_clean [of False "split_on slash p" "[]"] weight_split_on [of slash p]
    by (simp add: clean_parts_def weight_def rev_map [symmetric] del: rev_map)
  then have "?ws \<noteq> [] \<Longrightarrow> length (join_with [slash] ?ws) \<le> length p" using weight_join [of ?ws slash] by simp
  then show ?thesis using assms by (cases "?ws = []") (auto simp: path_Clean_def Let_def Suc_le_eq)
qed

text \<open>What a cleaned stack looks like: dot-dots only at the bottom, no empty component.\<close>

definition clean_stack :: "string list \<Rightarrow> bool" where
  "clean_stack st \<longleftrightarrow>
     (\<forall>w \<in> set st. w \<noteq> [] \<and> w \<noteq> ''.'' \<and> slash \<notin> set w) \<and>
     (\<exists>k. \<exists>xs. st = xs @ replicate k ''..'' \<and> ''..'' \<notin> set xs)"

lemma clean_stack_Nil [simp]: "clean_stack []"
  by (auto simp: clean_stack_def)

lemma clean_step_stack:
  assumes "clean_stack st" and "slash \<notin> set w"
  shows "clean_stack (clean_step r w st)"
proof -
  from assms(1) obtain k xs where st: "st = xs @ replicate k ''..''" and xs: "''..'' \<notin> set xs"
    and ok: "\<forall>w \<in> set st. w \<noteq> [] \<and> w \<noteq> ''.'' \<and> slash \<notin> set w"
    by (auto simp: clean_stack_def)
  show ?thesis
  proof (cases "w = ''..''")
    case True
    show ?thesis
    proof (cases xs)
      case Nil
      then have "clean_step r w st = (if st = [] \<and> r then [] else [] @ replicate (Suc k) ''..'')"
        using True st by (cases k) (auto simp: clean_step_def)
      moreover have "clean_stack ([] @ replicate (Suc k) ''..'')"
        unfolding clean_stack_def by (intro conjI exI [of _ "Suc k"] exI [of _ "[]"]) auto
      ultimately show ?thesis by (simp split: if_splits)
    next
      case (Cons y ys)
      with True st xs have "clean_step r w st = ys @ replicate k ''..''"
        by (auto simp: clean_step_def)
      with Cons st xs ok show ?thesis
        unfolding clean_stack_def by (intro conjI exI [of _ k] exI [of _ ys]) auto
    qed
  next
    case False
    show ?thesis
    proof (cases "w = [] \<or> w = ''.''")
      case True
      then show ?thesis using assms(1) by (auto simp: clean_step_def)
    next
      case no: False
      with \<open>w \<noteq> ''..''\<close> st have "clean_step r w st = (w # xs) @ replicate k ''..''"
        by (simp add: clean_step_def)
      with no \<open>w \<noteq> ''..''\<close> st xs ok assms(2) show ?thesis
        unfolding clean_stack_def by (intro conjI exI [of _ k] exI [of _ "w # xs"]) auto
    qed
  qed
qed

lemma fold_clean_stack:
  "clean_stack st \<Longrightarrow> \<forall>w \<in> set ws. slash \<notin> set w \<Longrightarrow> clean_stack (fold (clean_step r) ws st)"
  by (induction ws arbitrary: st) (auto intro: clean_step_stack)

lemma clean_parts_shape:
  assumes "\<forall>w \<in> set ws. slash \<notin> set w"
  obtains k xs where "clean_parts r ws = replicate k ''..'' @ xs"
    and "\<forall>w \<in> set xs. w \<noteq> ''..''"
    and "\<forall>w \<in> set (clean_parts r ws). w \<noteq> [] \<and> w \<noteq> ''.'' \<and> slash \<notin> set w"
proof -
  have "clean_stack (fold (clean_step r) ws [])"
    using assms by (simp add: fold_clean_stack)
  then obtain k xs where "fold (clean_step r) ws [] = xs @ replicate k ''..''" "''..'' \<notin> set xs"
    and "\<forall>w \<in> set (fold (clean_step r) ws []). w \<noteq> [] \<and> w \<noteq> ''.'' \<and> slash \<notin> set w"
    by (auto simp: clean_stack_def)
  then show ?thesis
    by (intro that [of k "rev xs"]) (auto simp: clean_parts_def)
qed

text \<open>Cleaning a list of ordinary components changes nothing.\<close>

lemma fold_clean_plain:
  "\<forall>w \<in> set ws. w \<noteq> [] \<and> w \<noteq> ''.'' \<and> w \<noteq> ''..'' \<Longrightarrow> fold (clean_step r) ws st = rev ws @ st"
  by (induction ws arbitrary: st) (auto simp: clean_step_def)

lemma clean_parts_plain:
  "\<forall>w \<in> set ws. w \<noteq> [] \<and> w \<noteq> ''.'' \<and> w \<noteq> ''..'' \<Longrightarrow> clean_parts r ws = ws"
  by (simp add: clean_parts_def fold_clean_plain)

lemma join_with_not_Nil: "ws \<noteq> [] \<Longrightarrow> \<forall>w \<in> set ws. w \<noteq> [] \<Longrightarrow> join_with d ws \<noteq> []"
  by (cases ws rule: remdups_adj.cases) auto

lemma hd_join_with: "ws \<noteq> [] \<Longrightarrow> hd ws \<noteq> [] \<Longrightarrow> hd (join_with d ws) = hd (hd ws)"
  by (cases ws rule: remdups_adj.cases) auto

lemma path_Clean_relative:
  assumes "p \<noteq> []" and "\<not> IsAbs p"
  shows "path_Clean p = (let ws = clean_parts False (split_on slash p)
           in if ws = [] then ''.'' else join_with [slash] ws)"
proof -
  have "\<forall>w \<in> set (split_on slash p). slash \<notin> set w" by (auto dest: split_on_parts)
  then obtain k xs where "\<forall>w \<in> set (clean_parts False (split_on slash p)). w \<noteq> []"
    by (metis clean_parts_shape)
  then have "clean_parts False (split_on slash p) \<noteq> [] \<Longrightarrow>
      join_with [slash] (clean_parts False (split_on slash p)) \<noteq> []"
    by (intro join_with_not_Nil)
  with assms show ?thesis by (auto simp: path_Clean_def Let_def)
qed

subsection \<open>utf8.DecodeRuneInString\<close>

definition byte_in :: "nat \<Rightarrow> nat \<Rightarrow> string \<Rightarrow> nat \<Rightarrow> bool" where
  "byte_in lo hi s i \<longleftrightarrow> i < length s \<and> (of_char (s ! i) :: nat) \<in> {lo..hi}"

definition second_range :: "nat \<Rightarrow> nat \<times> nat" where
  "second_range b = (if b = 0xE0 then (0xA0, 0xBF) else if b = 0xED then (0x80, 0x9F)
     else if b = 0xF0 then (0x90, 0xBF) else if b = 0xF4 then (0x80, 0x8F) else (0x80, 0xBF))"

text \<open>The rune and its width in bytes; \<open>(0xFFFD, 1)\<close> for an invalid encoding.\<close>

definition decode_rune :: "string \<Rightarrow> nat \<times> nat" where
  "decode_rune s =
     (if s = [] then (0xFFFD, 0)
      else let b = (of_char (hd s) :: nat); v = (\<lambda>i. (of_char (s ! i) :: nat) mod 64);
               r2 = second_range b
           in if b < 0x80 then (b, 1)
              else if 0xC2 \<le> b \<and> b \<le> 0xDF \<and> byte_in 0x80 0xBF s 1 then (b mod 32 * 64 + v 1, 2)
              else if 0xE0 \<le> b \<and> b \<le> 0xEF \<and> byte_in (fst r2) (snd r2) s 1 \<and> byte_in 0x80 0xBF s 2
                then (b mod 16 * 4096 + v 1 * 64 + v 2, 3)
              else if 0xF0 \<le> b \<and> b \<le> 0xF4 \<and> byte_in (fst r2) (snd r2) s 1 \<and> byte_in 0x80 0xBF s 2
                  \<and> byte_in 0x80 0xBF s 3
                then (b mod 8 * 262144 + v 1 * 4096 + v 2 * 64 + v 3, 4)
              else (0xFFFD, 1))"

lemma decode_rune_width: "s \<noteq> [] \<Longrightarrow> 1 \<le> snd (decode_rune s)"
  by (simp add: decode_rune_def Let_def)

lemma decode_rune_pos: "(r, n) = decode_rune s \<Longrightarrow> s \<noteq> [] \<Longrightarrow> 0 < n"
  using decode_rune_width [of s] by (metis One_nat_def Suc_le_lessD snd_conv)

subsection \<open>path.Match\<close>

definition get_esc :: "string \<Rightarrow> (nat \<times> string) option" where
  "get_esc chunk =
     (if chunk = [] \<or> hd chunk = CHR ''-'' \<or> hd chunk = CHR '']'' then None
      else let c = (if hd chunk = CHR 0x5C then tl chunk else chunk); (r, n) = decode_rune c
           in if c = [] \<or> (r = 0xFFFD \<and> n = 1) \<or> drop n c = [] then None
              else Some (r, drop n c))"

lemma get_esc_shorter: "get_esc c = Some (r, c') \<Longrightarrow> length c' < length c"
  using decode_rune_width [of c] decode_rune_width [of "tl c"]
  by (cases c) (auto simp: get_esc_def Let_def split: if_splits prod.splits)

function class_ranges :: "nat \<Rightarrow> bool \<Rightarrow> bool \<Rightarrow> string \<Rightarrow> (bool \<times> string) option" where
  "class_ranges r some m chunk =
     (if some \<and> chunk \<noteq> [] \<and> hd chunk = CHR '']'' then Some (m, tl chunk)
      else case get_esc chunk of
        None \<Rightarrow> None
      | Some (lo, c1) \<Rightarrow>
          if hd c1 = CHR ''-''
          then (case get_esc (tl c1) of
                  None \<Rightarrow> None
                | Some (hi, c2) \<Rightarrow> class_ranges r True (m \<or> lo \<le> r \<and> r \<le> hi) c2)
          else class_ranges r True (m \<or> r = lo) c1)"
  by pat_completeness auto
termination
  by (relation "measure (\<lambda>(r, s, m, c). length c)")
    (auto dest!: get_esc_shorter simp: less_imp_diff_less)

lemma class_ranges_shorter: "class_ranges r b m c = Some (m', c') \<Longrightarrow> length c' < length c"
proof (induction r b m c rule: class_ranges.induct)
  case (1 r b m c)
  show ?case
  proof (cases "b \<and> c \<noteq> [] \<and> hd c = CHR '']''")
    case True
    with "1.prems" show ?thesis by (simp add: class_ranges.simps [of r b m c]) (cases c; simp)
  next
    case False
    with "1.prems" obtain lo c1 where c1: "get_esc c = Some (lo, c1)"
      by (auto simp: class_ranges.simps [of r b m c] simp del: class_ranges.simps split: option.splits)
    show ?thesis
    proof (cases "hd c1 = CHR ''-''")
      case True
      with "1.prems" False c1 obtain hi c2 where c2: "get_esc (tl c1) = Some (hi, c2)"
        by (auto simp: class_ranges.simps [of r b m c] simp del: class_ranges.simps split: option.splits)
      with "1.IH"(1) [OF False c1 refl True c2 refl] "1.prems" False c1 True
      have "length c' < length c2"
        by (simp add: class_ranges.simps [of r b m c] del: class_ranges.simps)
      with get_esc_shorter [OF c1] get_esc_shorter [OF c2] show ?thesis by simp
    next
      case no: False
      with "1.IH"(2) [OF False c1 refl no] "1.prems" False c1 have "length c' < length c1"
        by (simp add: class_ranges.simps [of r b m c] del: class_ranges.simps)
      with get_esc_shorter [OF c1] show ?thesis by simp
    qed
  qed
qed

declare class_ranges.simps [simp del]

text \<open>\<open>None\<close>: bad pattern; \<open>Some None\<close>: no match; \<open>Some (Some t)\<close>: match with rest \<open>t\<close>.\<close>

function match_chunk :: "bool \<Rightarrow> string \<Rightarrow> string \<Rightarrow> string option option" where
  "match_chunk failed [] s = Some (if failed then None else Some s)"
| "match_chunk failed (c # cs) s =
     (let f = (failed \<or> s = []); n = snd (decode_rune s)
      in if c = CHR ''['' then
           (let neg = (cs \<noteq> [] \<and> hd cs = CHR 0x5E)
            in case class_ranges (if f then 0 else fst (decode_rune s)) False False
                      (if neg then tl cs else cs) of
                 None \<Rightarrow> None
               | Some (m, rest) \<Rightarrow> match_chunk (f \<or> m = neg) rest (if f then s else drop n s))
         else if c = CHR ''?'' then
           match_chunk (f \<or> hd s = slash) cs (if f then s else drop n s)
         else if c = CHR 0x5C then
           (if cs = [] then None
            else match_chunk (f \<or> hd cs \<noteq> hd s) (tl cs) (if f then s else tl s))
         else match_chunk (f \<or> c \<noteq> hd s) cs (if f then s else tl s))"
  by pat_completeness auto
termination
  by (relation "measure (\<lambda>(f, c, s). length c)")
    (auto dest!: class_ranges_shorter split: if_splits)

fun scan_body :: "bool \<Rightarrow> string \<Rightarrow> string \<times> string" where
  "scan_body inrange [] = ([], [])"
| "scan_body inrange (c # cs) =
     (if c = CHR 0x5C then
        (case cs of [] \<Rightarrow> ([c], []) | d # ds \<Rightarrow> (let (a, b) = scan_body inrange ds in (c # d # a, b)))
      else if c = CHR ''*'' \<and> \<not> inrange then ([], c # cs)
      else let (a, b) = scan_body (if c = CHR ''['' then True else if c = CHR '']'' then False else inrange) cs
           in (c # a, b))"

definition scan_chunk :: "string \<Rightarrow> bool \<times> string \<times> string" where
  "scan_chunk p = (p \<noteq> [] \<and> hd p = CHR ''*'', scan_body False (dropWhile (\<lambda>c. c = CHR ''*'') p))"

lemma scan_body_length: "length (snd (scan_body r p)) \<le> length p"
proof (induction r p rule: scan_body.induct)
  case (2 r c cs)
  show ?case
  proof (cases "c = CHR 0x5C")
    case True
    with "2.IH"(1) show ?thesis by (cases cs) (simp_all add: case_prod_beta)
  next
    case False
    show ?thesis
    proof (cases "c = CHR ''*'' \<and> \<not> r")
      case True
      then show ?thesis by simp
    next
      case no: False
      from le_SucI [OF "2.IH"(2) [OF False no]] False no show ?thesis
        by (simp add: case_prod_beta Let_def split: if_splits)
    qed
  qed
qed simp

lemma scan_body_shorter: "c \<noteq> CHR ''*'' \<Longrightarrow> length (snd (scan_body r (c # cs))) < length (c # cs)"
proof (cases "c = CHR 0x5C")
  case True
  then show ?thesis
    using scan_body_length [of r "tl cs"] by (cases cs) (simp_all add: case_prod_beta)
next
  case False
  assume "c \<noteq> CHR ''*''"
  with False show ?thesis
    using scan_body_length [of "if c = CHR ''['' then True else if c = CHR '']'' then False else r" cs]
    by (simp add: case_prod_beta Let_def)
qed

lemma scan_chunk_shorter: "p \<noteq> [] \<Longrightarrow> length (snd (snd (scan_chunk p))) < length p"
proof (cases p)
  case (Cons c cs)
  show ?thesis
  proof (cases "c = CHR ''*''")
    case True
    with Cons have "dropWhile (\<lambda>c. c = CHR ''*'') p = dropWhile (\<lambda>c. c = CHR ''*'') cs" by simp
    with scan_body_length [of False "dropWhile (\<lambda>c. c = CHR ''*'') cs"]
      length_dropWhile_le [of "\<lambda>c. c = CHR ''*''" cs] Cons
    show ?thesis by (simp add: scan_chunk_def)
  next
    case False
    with Cons scan_body_shorter [of c False cs] show ?thesis
      by (simp only: scan_chunk_def Cons) simp
  qed
qed simp

lemma scan_chunk_rest: "(x, a, b) = scan_chunk p \<Longrightarrow> p \<noteq> [] \<Longrightarrow> length b < length p"
  using scan_chunk_shorter [of p] by (metis snd_conv)

fun skip_match :: "bool \<Rightarrow> string \<Rightarrow> string \<Rightarrow> string option option" where
  "skip_match final chunk [] = Some None"
| "skip_match final chunk (c # cs) =
     (if c = slash then Some None
      else case match_chunk False chunk cs of
        None \<Rightarrow> None
      | Some None \<Rightarrow> skip_match final chunk cs
      | Some (Some t) \<Rightarrow> if final \<and> t \<noteq> [] then skip_match final chunk cs else Some (Some t))"

function pattern_ok :: "string \<Rightarrow> bool" where
  "pattern_ok p =
     (if p = [] then True
      else case scan_chunk p of (star, chunk, rest) \<Rightarrow>
        match_chunk False chunk [] \<noteq> None \<and> pattern_ok rest)"
  by pat_completeness auto
termination
  by (relation "measure length") (auto dest: scan_chunk_rest)

declare pattern_ok.simps [simp del]

function path_Match :: "string \<Rightarrow> string \<Rightarrow> bool option" where
  "path_Match p name =
     (if p = [] then Some (name = [])
      else case scan_chunk p of (star, chunk, rest) \<Rightarrow>
        if star \<and> chunk = [] then Some (slash \<notin> set name)
        else let here = match_chunk False chunk name;
                 no = (if pattern_ok rest then Some False else None)
             in case here of
                  None \<Rightarrow> None
                | Some h \<Rightarrow>
                    if (case h of None \<Rightarrow> False | Some t \<Rightarrow> t = [] \<or> rest \<noteq> []) then path_Match rest (the h)
                    else if star then
                      (case skip_match (rest = []) chunk name of
                         None \<Rightarrow> None
                       | Some None \<Rightarrow> no
                       | Some (Some t) \<Rightarrow> path_Match rest t)
                    else no)"
  by pat_completeness auto
termination
  by (relation "measure (\<lambda>(p, n). length p)")
    (auto dest: scan_chunk_rest)

declare path_Match.simps [simp del]

end
