(* ===== verification/Bridge_Policy.thy ===== *)
theory Bridge_Policy
  imports Go_Path
begin

section \<open>The bridge policy\<close>

text \<open>
  \<open>internal/bridgepolicy\<close>: the risk tiers of tool surfaces (\<open>tiers.go\<close>), the envelope that sums up the
  policies of a surface (\<open>envelope.go\<close>), and when a tool call has to wait for an operator, under which
  request key (\<open>operator_gate.go\<close>). \<open>ParsePolicyEnvelopeFromManifest\<close>, which decodes JSON, is left
  out. The package has its own \<open>trimSpace\<close>, which knows four ASCII bytes only.
\<close>

subsection \<open>Tiers\<close>

type_synonym CapabilityTier = string
type_synonym SupportPosture = string

definition TierSafeLocal :: CapabilityTier where "TierSafeLocal = ''safe_local''"
definition TierNetworked :: CapabilityTier where "TierNetworked = ''networked''"
definition TierCodeExec :: CapabilityTier where "TierCodeExec = ''code_exec''"
definition TierHighRisk :: CapabilityTier where "TierHighRisk = ''high_risk''"
definition PostureSupported :: SupportPosture where "PostureSupported = ''supported''"
definition PostureLegacyUnsupported :: SupportPosture where "PostureLegacyUnsupported = ''legacy_unsupported''"

record SurfacePolicy =
  sp_Surface :: string
  sp_Tier :: CapabilityTier
  sp_Posture :: SupportPosture
  sp_Notes :: "string list"

definition bridge_space :: "char \<Rightarrow> bool" where
  "bridge_space c \<longleftrightarrow> c \<in> {CHR '' '', CHR 0x09, CHR 0x0A, CHR 0x0D}"

definition bridge_trimSpace :: "string \<Rightarrow> string" where
  "bridge_trimSpace s = rev (dropWhile bridge_space (rev (dropWhile bridge_space s)))"

definition bridge_notes :: "string list \<Rightarrow> string list" where
  "bridge_notes notes = filter (\<lambda>n. n \<noteq> []) (map bridge_trimSpace notes)"

definition NewPolicyWithPosture :: "string \<Rightarrow> CapabilityTier \<Rightarrow> SupportPosture \<Rightarrow> string list \<Rightarrow> SurfacePolicy" where
  "NewPolicyWithPosture surface tier posture notes =
     \<lparr>sp_Surface = surface, sp_Tier = tier, sp_Posture = posture, sp_Notes = bridge_notes notes\<rparr>"

definition NewPolicy :: "string \<Rightarrow> CapabilityTier \<Rightarrow> string list \<Rightarrow> SurfacePolicy" where
  "NewPolicy surface tier notes = NewPolicyWithPosture surface tier PostureSupported notes"

definition NewLegacyPolicy :: "string \<Rightarrow> CapabilityTier \<Rightarrow> string list \<Rightarrow> SurfacePolicy" where
  "NewLegacyPolicy surface tier notes = NewPolicyWithPosture surface tier PostureLegacyUnsupported notes"

definition Policy_IsSupported :: "SurfacePolicy \<Rightarrow> bool" where
  "Policy_IsSupported p \<longleftrightarrow> sp_Posture p = [] \<or> sp_Posture p = PostureSupported"

definition Catalog :: "SurfacePolicy list" where
  "Catalog = [NewPolicy ''workspace-local-tooling'' TierSafeLocal
     [''reserved reference tier for workspace-bounded local helpers'', ''no network transport and no arbitrary code execution'']]"

subsection \<open>Envelopes\<close>

record PolicyEnvelope =
  pe_Surface :: string
  pe_PrimaryTier :: CapabilityTier
  pe_HighestTier :: CapabilityTier
  pe_SupportPosture :: SupportPosture
  pe_SupportedArchitecture :: bool
  pe_HighRisk :: bool
  pe_OperatorControlRequired :: bool
  pe_AuditVisibilityRequired :: bool
  pe_Policies :: "SurfacePolicy list"
  pe_Notes :: "string list"

definition capabilityTierWeight :: "CapabilityTier \<Rightarrow> nat" where
  "capabilityTierWeight t =
     (if t = TierSafeLocal then 1 else if t = TierNetworked then 2 else if t = TierCodeExec then 3 else if t = TierHighRisk then 4 else 0)"

fun better_tier :: "CapabilityTier \<Rightarrow> SurfacePolicy list \<Rightarrow> CapabilityTier" where
  "better_tier best [] = best"
| "better_tier best (policy # policies) =
     better_tier (if capabilityTierWeight best < capabilityTierWeight (sp_Tier policy) then sp_Tier policy else best) policies"

definition highestCapabilityTier :: "SurfacePolicy list \<Rightarrow> CapabilityTier \<Rightarrow> CapabilityTier" where
  "highestCapabilityTier policies fallback = better_tier fallback policies"

definition BuildEnvelope :: "string \<Rightarrow> CapabilityTier \<Rightarrow> SupportPosture \<Rightarrow> SurfacePolicy list \<Rightarrow> string list \<Rightarrow> PolicyEnvelope" where
  "BuildEnvelope surface primaryTier posture0 policies notes =
     (let posture = (if posture0 = [] then PostureSupported else posture0);
          risky = list_ex (\<lambda>p. sp_Tier p = TierHighRisk) policies
      in \<lparr>pe_Surface = bridge_trimSpace surface, pe_PrimaryTier = primaryTier, pe_HighestTier = highestCapabilityTier policies primaryTier,
          pe_SupportPosture = posture, pe_SupportedArchitecture = (posture = PostureSupported), pe_HighRisk = risky,
          pe_OperatorControlRequired = risky, pe_AuditVisibilityRequired = risky, pe_Policies = policies, pe_Notes = bridge_notes notes\<rparr>)"

subsection \<open>The operator gate\<close>

text \<open>
  \<open>ToLower\<close> is that of \<open>Go_Strings\<close>: the comparison is exact for a wanted capability in ASCII, such as the
  two that \<open>RequiresOperatorGate\<close> asks for.
\<close>

definition HasCapability :: "string list \<Rightarrow> string \<Rightarrow> bool" where
  "HasCapability capabilities want0 =
     (let want = ToLower (TrimSpace want0)
      in if want = [] then False else list_ex (\<lambda>c. ToLower (TrimSpace c) = want) capabilities)"

definition RequiresOperatorGate :: "PolicyEnvelope option \<Rightarrow> string list \<Rightarrow> bool" where
  "RequiresOperatorGate envelope capabilities =
     (if (case envelope of None \<Rightarrow> False | Some e \<Rightarrow> pe_HighRisk e \<and> pe_OperatorControlRequired e) then True
      else HasCapability capabilities ''bridge.high_risk'' \<and> HasCapability capabilities ''bridge.operator_control_required'')"

text \<open>The loop over the runes of a part: letters and digits stay, every other rune becomes one underscore.\<close>

function gate_key_runes :: "string \<Rightarrow> string" where
  "gate_key_runes s =
     (if s = [] then []
      else let (r, n) = decode_rune s
           in (if (97 \<le> r \<and> r \<le> 122) \<or> (48 \<le> r \<and> r \<le> 57) then char_of r else CHR ''_'') # gate_key_runes (drop n s))"
  by pat_completeness auto
termination by (relation "measure length") (auto dest: decode_rune_pos intro!: diff_less)

declare gate_key_runes.simps [simp del]

definition trim_underscore :: "string \<Rightarrow> string" where
  "trim_underscore s = rev (dropWhile (\<lambda>c. c = CHR ''_'') (rev (dropWhile (\<lambda>c. c = CHR ''_'') s)))"

definition normalizeGateKeyPart :: "string \<Rightarrow> string" where
  "normalizeGateKeyPart value0 =
     (let value = TrimSpace (ToLower value0)
      in if value = [] then ''unknown''
         else let normalized = trim_underscore (gate_key_runes value) in if normalized = [] then ''unknown'' else normalized)"

definition ApprovalRequestKey :: "string \<Rightarrow> string \<Rightarrow> string \<Rightarrow> string \<Rightarrow> string" where
  "ApprovalRequestKey toolID subjectType subjectID capability0 =
     (let c = normalizeGateKeyPart capability0; capability = (if c = [] then ''tool_call'' else c)
      in join_with '':'' [''high_risk_bridge'', normalizeGateKeyPart toolID, normalizeGateKeyPart subjectType, normalizeGateKeyPart subjectID, capability])"

fun bridge_firstNonEmpty :: "string list \<Rightarrow> string" where
  "bridge_firstNonEmpty [] = []"
| "bridge_firstNonEmpty (v # vs) = (if TrimSpace v \<noteq> [] then TrimSpace v else bridge_firstNonEmpty vs)"

definition ApprovalTitle :: "string \<Rightarrow> string \<Rightarrow> string" where
  "ApprovalTitle displayName toolID =
     (let label = TrimSpace displayName; label' = (if label = [] then TrimSpace toolID else label)
      in ''Approve high-risk bridge path: '' @ (if label' = [] then ''high-risk bridge path'' else label'))"

definition ApprovalSummary :: "string \<Rightarrow> string \<Rightarrow> string \<Rightarrow> string \<Rightarrow> string" where
  "ApprovalSummary displayName toolID subjectType subjectID =
     (let label = (if TrimSpace displayName = [] then TrimSpace toolID else TrimSpace displayName);
          subjectLabel = (if TrimSpace subjectType = [] then ''subject'' else TrimSpace subjectType);
          targetLabel = (if TrimSpace subjectID = [] then ''*'' else TrimSpace subjectID)
      in label @ '' requires explicit operator approval for '' @ subjectLabel @ ''/'' @ targetLabel)"

definition ApprovalDetails :: "string \<Rightarrow> string \<Rightarrow> string \<Rightarrow> string \<Rightarrow> string \<Rightarrow> PolicyEnvelope option \<Rightarrow> string" where
  "ApprovalDetails displayName toolID subjectType subjectID capability envelope =
     join_with [CHR 0x0A]
       ([''High-risk bridge invocation requires explicit operator approval.'',
         ''Tool: '' @ bridge_firstNonEmpty [TrimSpace displayName, TrimSpace toolID, ''unknown''],
         ''Subject: '' @ bridge_firstNonEmpty [TrimSpace subjectType, ''subject''] @ ''/'' @ bridge_firstNonEmpty [TrimSpace subjectID, ''*''],
         ''Capability: '' @ bridge_firstNonEmpty [TrimSpace capability, ''tool.call'']]
        @ (case envelope of
             None \<Rightarrow> []
           | Some e \<Rightarrow>
               (if TrimSpace (pe_HighestTier e) \<noteq> [] then [''Highest tier: '' @ TrimSpace (pe_HighestTier e)] else [])
               @ (if TrimSpace (pe_SupportPosture e) \<noteq> [] then [''Support posture: '' @ TrimSpace (pe_SupportPosture e)] else [])
               @ (if \<not> pe_SupportedArchitecture e then [''Supported architecture: false''] else []))
        @ [''Next action: add an explicit ALLOW capability policy for this subject/tool pair or leave the bridge blocked.''])"

subsection \<open>Key parts\<close>

definition key_char :: "char \<Rightarrow> bool" where
  "key_char c \<longleftrightarrow> (of_char c :: nat) \<in> {97..122} \<union> {48..57} \<or> c = CHR ''_''"

lemma gate_key_runes_chars: "list_all key_char (gate_key_runes s)"
proof (induction s rule: gate_key_runes.induct)
  case (1 s)
  obtain r n where d: "decode_rune s = (r, n)" by (cases "decode_rune s")
  have c: "key_char (char_of r)" if "(97 \<le> r \<and> r \<le> 122) \<or> (48 \<le> r \<and> r \<le> 57)"
    using that by (auto simp: key_char_def)
  have u: "key_char (CHR ''_'')" by (simp add: key_char_def)
  show ?case
  proof (cases "s = []")
    case True
    then show ?thesis by (simp add: gate_key_runes.simps)
  next
    case False
    with 1 [OF False d [symmetric]] d c u show ?thesis by (subst gate_key_runes.simps) (auto simp: d)
  qed
qed

lemma set_trim_underscore: "set (trim_underscore s) \<subseteq> set s"
  unfolding trim_underscore_def by (auto dest!: set_dropWhileD)

lemma trim_underscore_ends:
  assumes "trim_underscore s = c # t" shows "c \<noteq> CHR ''_''" and "last (c # t) \<noteq> CHR ''_''"
proof -
  let ?P = "\<lambda>c. c = CHR ''_''"
  have "rev (dropWhile ?P s) = takeWhile ?P (rev (dropWhile ?P s)) @ rev (c # t)"
    unfolding assms [symmetric] trim_underscore_def rev_rev_ident by (rule takeWhile_dropWhile_id [symmetric])
  then have "rev (rev (dropWhile ?P s)) = rev (takeWhile ?P (rev (dropWhile ?P s)) @ rev (c # t))" by (rule arg_cong)
  then have d: "dropWhile ?P s = (c # t) @ rev (takeWhile ?P (rev (dropWhile ?P s)))" by simp
  have "dropWhile ?P s \<noteq> []" by (subst d) simp
  moreover have "hd (dropWhile ?P s) = c" by (subst d) simp
  ultimately show "c \<noteq> CHR ''_''" using hd_dropWhile [of ?P s] by simp
  have "rev (c # t) = dropWhile ?P (rev (dropWhile ?P s))" unfolding assms [symmetric] trim_underscore_def rev_rev_ident ..
  moreover have "hd (rev (c # t)) = last (c # t)" by (rule hd_rev)
  moreover have "rev (c # t) \<noteq> []" by simp
  ultimately show "last (c # t) \<noteq> CHR ''_''" using hd_dropWhile [of ?P "rev (dropWhile ?P s)"] by simp
qed

lemma trim_underscore_fixed: "c \<noteq> CHR ''_'' \<Longrightarrow> last (c # t) \<noteq> CHR ''_'' \<Longrightarrow> trim_underscore (c # t) = c # t"
proof -
  assume c: "c \<noteq> CHR ''_''" "last (c # t) \<noteq> CHR ''_''"
  have "dropWhile (\<lambda>c. c = CHR ''_'') (rev (c # t)) = rev (c # t)"
  proof (cases "rev (c # t)")
    case (Cons d u)
    then have "d = last (c # t)" by (metis hd_rev list.sel(1))
    then show ?thesis using c(2) Cons by simp
  qed simp
  with c(1) show ?thesis by (simp add: trim_underscore_def)
qed

text \<open>A normalised part: not empty, of letters, digits and inner underscores.\<close>

definition key_part :: "string \<Rightarrow> bool" where
  "key_part s \<longleftrightarrow> s \<noteq> [] \<and> list_all key_char s \<and> hd s \<noteq> CHR ''_'' \<and> last s \<noteq> CHR ''_''"

lemma normalized_key_part: "key_part (normalizeGateKeyPart v)"
proof -
  have u: "key_part ''unknown''" by (simp add: key_part_def key_char_def)
  have t: "key_part (trim_underscore (gate_key_runes s))" if "trim_underscore (gate_key_runes s) \<noteq> []" for s
  proof -
    obtain c t where c: "trim_underscore (gate_key_runes s) = c # t" using \<open>trim_underscore (gate_key_runes s) \<noteq> []\<close> by (cases "trim_underscore (gate_key_runes s)") auto
    have "list_all key_char (c # t)" using gate_key_runes_chars [of s] set_trim_underscore [of "gate_key_runes s"] unfolding c list_all_iff by blast
    with trim_underscore_ends [OF c] show ?thesis unfolding c key_part_def by simp
  qed
  show ?thesis using u t unfolding normalizeGateKeyPart_def Let_def by auto
qed

lemma key_char_facts:
  assumes "key_char c" shows "(of_char c :: nat) < 128" "ascii_lower c = c" "graphic c" "c \<noteq> CHR '':''"
    and "c \<noteq> CHR ''_'' \<Longrightarrow> (97 \<le> (of_char c :: nat) \<and> (of_char c :: nat) \<le> 122) \<or> (48 \<le> (of_char c :: nat) \<and> (of_char c :: nat) \<le> 57)"
  using assms by (auto simp: key_char_def ascii_lower_def graphic_def)

lemma ToLower_key: "list_all key_char s \<Longrightarrow> ToLower s = s"
proof (induction s)
  case (Cons c s)
  then have k: "key_char c" by simp
  from key_char_facts(1) [OF k] have "ToLower (c # s) = ascii_lower c # ToLower s"
    by (cases s; cases "tl s") (auto simp: ascii_lower_def)
  with Cons key_char_facts(2) [OF k] show ?case by simp
qed simp

lemma gate_key_runes_key: "list_all key_char s \<Longrightarrow> gate_key_runes s = s"
proof (induction s)
  case (Cons c s)
  then have k: "key_char c" by simp
  have d: "decode_rune (c # s) = (of_char c, 1)" using key_char_facts(1) [OF k] by (simp add: decode_rune_def Let_def)
  have "(if (97 \<le> (of_char c :: nat) \<and> (of_char c :: nat) \<le> 122) \<or> (48 \<le> (of_char c :: nat) \<and> (of_char c :: nat) \<le> 57)
      then char_of (of_char c :: nat) else CHR ''_'') = c"
    using key_char_facts(5) [OF k] by (cases "c = CHR ''_''") auto
  with Cons d show ?case by (subst gate_key_runes.simps) simp
qed (simp add: gate_key_runes.simps)

lemma normalized_key_fixed: "key_part s \<Longrightarrow> normalizeGateKeyPart s = s"
proof -
  assume p: "key_part s"
  then have k: "s \<noteq> []" "list_all key_char s" "hd s \<noteq> CHR ''_''" "last s \<noteq> CHR ''_''" by (simp_all add: key_part_def)
  have g: "graphic (hd s)" "graphic (last s)" using k(1,2) key_char_facts(3) by (simp_all add: list_all_iff)
  have t: "TrimSpace s = s" by (rule TrimSpace_graphic [OF k(1) g])
  have "trim_underscore s = s" using k(1,3,4) trim_underscore_fixed [of "hd s" "tl s"] by (cases s) simp_all
  then show ?thesis using k(1) by (simp add: normalizeGateKeyPart_def Let_def ToLower_key [OF k(2)] t gate_key_runes_key [OF k(2)])
qed

subsection \<open>Properties\<close>

text \<open>C32.
  Two approval requests have the same key exactly when their four parts are the same after
  normalisation. Normalised parts are not empty, consist of lower-case letters, digits and inner
  underscores, and do not change when they are normalised again.
\<close>

theorem approval_key_eq:
  "(ApprovalRequestKey t s i c = ApprovalRequestKey t' s' i' c' \<longleftrightarrow>
     map normalizeGateKeyPart [t, s, i, c] = map normalizeGateKeyPart [t', s', i', c']) \<and>
   key_part (normalizeGateKeyPart v) \<and> normalizeGateKeyPart (normalizeGateKeyPart v) = normalizeGateKeyPart v"
proof -
  have sep: "CHR '':'' \<notin> set (normalizeGateKeyPart x)" "normalizeGateKeyPart x \<noteq> []" for x
    using normalized_key_part [of x] key_char_facts(4) by (auto simp: key_part_def list_all_iff)
  have split: "split_on (CHR '':'') (ApprovalRequestKey t s i c) = ''high_risk_bridge'' # map normalizeGateKeyPart [t, s, i, c]" for t s i c
    unfolding ApprovalRequestKey_def Let_def by (subst split_on_join) (simp_all add: sep)
  have "ApprovalRequestKey t s i c = ApprovalRequestKey t' s' i' c' \<longleftrightarrow>
      map normalizeGateKeyPart [t, s, i, c] = map normalizeGateKeyPart [t', s', i', c']"
  proof
    assume "ApprovalRequestKey t s i c = ApprovalRequestKey t' s' i' c'"
    then have "split_on (CHR '':'') (ApprovalRequestKey t s i c) = split_on (CHR '':'') (ApprovalRequestKey t' s' i' c')" by simp
    then show "map normalizeGateKeyPart [t, s, i, c] = map normalizeGateKeyPart [t', s', i', c']" unfolding split by simp
  next
    assume "map normalizeGateKeyPart [t, s, i, c] = map normalizeGateKeyPart [t', s', i', c']"
    then show "ApprovalRequestKey t s i c = ApprovalRequestKey t' s' i' c'" by (simp add: ApprovalRequestKey_def)
  qed
  with normalized_key_part [of v] normalized_key_fixed [OF normalized_key_part [of v]] show ?thesis by blast
qed

text \<open>
  The key is not one of the subject: distinct agents can share it, and a request without a capability
  does not get the default capability of the details, because a normalised part is never empty.
\<close>

theorem approval_key_collision:
  "ApprovalRequestKey ''tool'' ''agent'' ''worker/1'' ''tool.call'' = ApprovalRequestKey ''tool'' ''agent'' ''worker_1'' ''tool.call'' \<and>
   ApprovalRequestKey ''tool'' ''agent'' ''w'' [] = ''high_risk_bridge:tool:agent:w:unknown''"
  by code_simp

lemma better_tier_weight:
  "capabilityTierWeight (better_tier best ps) = Max (insert (capabilityTierWeight best) ((\<lambda>p. capabilityTierWeight (sp_Tier p)) ` set ps))"
proof (induction ps arbitrary: best)
  case (Cons p ps)
  let ?w = "capabilityTierWeight" and ?S = "(\<lambda>p. capabilityTierWeight (sp_Tier p)) ` set ps"
  have m: "?w (if ?w best < ?w (sp_Tier p) then sp_Tier p else best) = max (?w best) (?w (sp_Tier p))" by simp
  have "Max (insert (max a b) A) = Max (insert a (insert b A))" if "finite A" for a b :: nat and A
    using that by (cases "A = {}") (simp_all add: max.assoc)
  then show ?case unfolding better_tier.simps Cons.IH m by simp
qed simp

lemma better_tier_in: "better_tier best ps \<in> insert best (sp_Tier ` set ps)"
  by (induction ps arbitrary: best) fastforce+

text \<open>
  The envelope of a surface asks for an operator exactly when one of its policies is of the high-risk
  tier, or the capabilities of the tool say so; its highest tier is one of those given, of the greatest weight.
\<close>

theorem operator_gate_iff:
  "(RequiresOperatorGate (Some (BuildEnvelope surface primary posture policies notes)) capabilities \<longleftrightarrow>
     TierHighRisk \<in> sp_Tier ` set policies \<or>
     HasCapability capabilities ''bridge.high_risk'' \<and> HasCapability capabilities ''bridge.operator_control_required'') \<and>
   pe_HighestTier (BuildEnvelope surface primary posture policies notes) \<in> insert primary (sp_Tier ` set policies) \<and>
   capabilityTierWeight (pe_HighestTier (BuildEnvelope surface primary posture policies notes)) =
     Max (insert (capabilityTierWeight primary) ((\<lambda>p. capabilityTierWeight (sp_Tier p)) ` set policies))"
proof -
  have h: "pe_HighestTier (BuildEnvelope surface primary posture policies notes) = better_tier primary policies"
    by (simp add: BuildEnvelope_def Let_def highestCapabilityTier_def)
  have "list_ex (\<lambda>p. sp_Tier p = TierHighRisk) policies \<longleftrightarrow> TierHighRisk \<in> sp_Tier ` set policies"
    by (induction policies) auto
  then have "RequiresOperatorGate (Some (BuildEnvelope surface primary posture policies notes)) capabilities \<longleftrightarrow>
     TierHighRisk \<in> sp_Tier ` set policies \<or>
     HasCapability capabilities ''bridge.high_risk'' \<and> HasCapability capabilities ''bridge.operator_control_required''"
    by (simp add: RequiresOperatorGate_def BuildEnvelope_def Let_def)
  then show ?thesis unfolding h using better_tier_in better_tier_weight by blast
qed

text \<open>A surface whose primary tier is high risk is not gated when no policy repeats the tier.\<close>

theorem primary_tier_ungated:
  "pe_HighestTier (BuildEnvelope ''mcp'' TierHighRisk [] [] []) = TierHighRisk \<and> \<not> RequiresOperatorGate (Some (BuildEnvelope ''mcp'' TierHighRisk [] [] [])) []"
  by code_simp

end
