(* ===== verification/Agent_Messages.thy ===== *)
theory Agent_Messages
  imports Go_Strings
begin

section \<open>Messages of agents and sessions\<close>

text \<open>
  \<open>internal/model\<close>: the updates an agent reports (\<open>agent_update.go\<close>), the events of its sessions
  (\<open>session_coordination.go\<close>), the payloads of rebase work (\<open>rebase_followup.go\<close>) and the task classes
  (\<open>task_class.go\<close>). Each kind of message has a normal form, which the code establishes before it
  validates or stores the message. The functions that decode the JSON of an update are left out. A nil
  slice and an empty one are the same here; no function of these files tells them apart. The case of
  letters outside ASCII is kept by the model of \<open>NormalizeStatus\<close>; a status with such a letter is
  refused in both.
\<close>

subsection \<open>Lists of texts\<close>

fun norm_list :: "string list \<Rightarrow> string list \<Rightarrow> string list" where
  "norm_list seen [] = []"
| "norm_list seen (item # items) =
     (let t = TrimSpace item
      in if t = [] then norm_list seen items
         else if t \<in> set seen then norm_list seen items
         else t # norm_list (t # seen) items)"

definition normalizeStringList :: "string list \<Rightarrow> string list" where
  "normalizeStringList items = norm_list [] items"

definition normalizeLineageRefs :: "string list \<Rightarrow> string list" where
  "normalizeLineageRefs refs = sort (normalizeStringList refs)"

subsection \<open>Updates\<close>

record AgentUpdateArtifactRef =
  ar_Ref :: string
  ar_Kind :: string
  ar_ContentType :: string

record AgentUpdateBlockedRef =
  br_Kind :: string
  br_Detail :: string

record AgentUpdateSideEffectV1 =
  se_Schema :: string
  se_SideEffectRef :: string
  se_Actor :: string
  se_LaneRef :: string
  se_TensionRef :: string
  se_ArtifactRef :: string
  se_RegionRef :: string
  se_Operation :: string
  se_SourceKind :: string
  se_BoundaryRef :: string
  se_BoundaryRelation :: string
  se_MaterializationState :: string
  se_IntegrationIntent :: string
  se_IntegrationStatus :: string
  se_Decision :: string
  se_Justification :: string
  se_DerivedRegionRefs :: "string list"

record AgentUpdatePayloadV1 =
  up_Status :: string
  up_NextAction :: string
  up_TaskIDs :: "string list"
  up_DocKeys :: "string list"
  up_Artifacts :: "AgentUpdateArtifactRef list"
  up_Links :: "string list"
  up_BlockedOn :: "AgentUpdateBlockedRef list"
  up_SideEffects :: "AgentUpdateSideEffectV1 list"
  up_OwnerUserID :: string
  up_HumanReason :: string
  up_OwnerAction :: string
  up_Notes :: string

definition trim_artifact :: "AgentUpdateArtifactRef \<Rightarrow> AgentUpdateArtifactRef" where
  "trim_artifact a = \<lparr>ar_Ref = TrimSpace (ar_Ref a), ar_Kind = TrimSpace (ar_Kind a), ar_ContentType = TrimSpace (ar_ContentType a)\<rparr>"

definition norm_artifacts :: "AgentUpdateArtifactRef list \<Rightarrow> AgentUpdateArtifactRef list" where
  "norm_artifacts as = filter (\<lambda>a. ar_Ref a \<noteq> []) (map trim_artifact as)"

definition trim_blocked :: "AgentUpdateBlockedRef \<Rightarrow> AgentUpdateBlockedRef" where
  "trim_blocked b = \<lparr>br_Kind = TrimSpace (br_Kind b), br_Detail = TrimSpace (br_Detail b)\<rparr>"

definition norm_blocked :: "AgentUpdateBlockedRef list \<Rightarrow> AgentUpdateBlockedRef list" where
  "norm_blocked bs = filter (\<lambda>b. \<not> (br_Kind b = [] \<and> br_Detail b = [])) (map trim_blocked bs)"

definition norm_effect :: "AgentUpdateSideEffectV1 \<Rightarrow> AgentUpdateSideEffectV1" where
  "norm_effect e =
     \<lparr>se_Schema = TrimSpace (se_Schema e), se_SideEffectRef = TrimSpace (se_SideEffectRef e), se_Actor = TrimSpace (se_Actor e),
      se_LaneRef = TrimSpace (se_LaneRef e), se_TensionRef = TrimSpace (se_TensionRef e), se_ArtifactRef = TrimSpace (se_ArtifactRef e),
      se_RegionRef = TrimSpace (se_RegionRef e), se_Operation = TrimSpace (se_Operation e), se_SourceKind = TrimSpace (se_SourceKind e),
      se_BoundaryRef = TrimSpace (se_BoundaryRef e), se_BoundaryRelation = TrimSpace (se_BoundaryRelation e),
      se_MaterializationState = TrimSpace (se_MaterializationState e), se_IntegrationIntent = TrimSpace (se_IntegrationIntent e),
      se_IntegrationStatus = TrimSpace (se_IntegrationStatus e), se_Decision = TrimSpace (se_Decision e),
      se_Justification = TrimSpace (se_Justification e), se_DerivedRegionRefs = normalizeStringList (se_DerivedRegionRefs e)\<rparr>"

definition Update_Normalize :: "AgentUpdatePayloadV1 \<Rightarrow> AgentUpdatePayloadV1" where
  "Update_Normalize p =
     \<lparr>up_Status = TrimSpace (up_Status p), up_NextAction = TrimSpace (up_NextAction p), up_TaskIDs = normalizeStringList (up_TaskIDs p),
      up_DocKeys = normalizeStringList (up_DocKeys p), up_Artifacts = norm_artifacts (up_Artifacts p), up_Links = normalizeStringList (up_Links p),
      up_BlockedOn = norm_blocked (up_BlockedOn p), up_SideEffects = map norm_effect (up_SideEffects p),
      up_OwnerUserID = TrimSpace (up_OwnerUserID p), up_HumanReason = TrimSpace (up_HumanReason p),
      up_OwnerAction = TrimSpace (up_OwnerAction p), up_Notes = TrimSpace (up_Notes p)\<rparr>"

definition agentUpdateOperationValues :: "string list" where
  "agentUpdateOperationValues =
     [''create'', ''modify'', ''delete'', ''move'', ''change'', ''generate'', ''publish'', ''classify'', ''unknown'']"

definition agentUpdateBoundaryRelationValues :: "string list" where
  "agentUpdateBoundaryRelationValues =
     [''in_boundary'', ''generated_cache'', ''adjacent_foundation_candidate'', ''out_of_boundary'', ''ambiguous'']"

definition agentUpdateMaterializationStateValues :: "string list" where
  "agentUpdateMaterializationStateValues = [''attempted'', ''present_unintegrated'', ''staged'', ''committed'', ''integrated'']"

definition agentUpdateIntegrationIntentValues :: "string list" where
  "agentUpdateIntegrationIntentValues =
     [''local_completion'', ''dependency_preparation'', ''exploratory_probe'', ''foundation_effect'', ''repair'', ''refactor_restructure'', ''unknown'']"

definition agentUpdateIntegrationStatusValues :: "string list" where
  "agentUpdateIntegrationStatusValues =
     [''pending_classification'', ''accepted'', ''quarantined'', ''rejected'', ''split_requested'', ''boundary_expansion_requested'',
      ''verification_requested'']"

definition agentUpdateDecisionValues :: "string list" where
  "agentUpdateDecisionValues =
     [''none_pending'', ''accept'', ''quarantine'', ''revert'', ''split_tension'', ''expand_boundary'', ''reassign'', ''request_verification'',
      ''reroute_to_active_lane'']"

definition agentUpdateAllowedValue :: "string \<Rightarrow> string list \<Rightarrow> bool" where
  "agentUpdateAllowedValue value allowed \<longleftrightarrow> value \<in> set allowed"

definition validAgentUpdateSourceKind :: "string \<Rightarrow> bool" where
  "validAgentUpdateSourceKind value =
     (let good = (\<lambda>suffix. suffix \<noteq> [] \<and> \<not> list_ex (\<lambda>c. c \<in> {CHR '' '', CHR 0x09, CHR 0x0D, CHR 0x0A}) suffix)
      in if HasPrefix value ''adapter:'' then good (TrimPrefix value ''adapter:'')
         else if HasPrefix value ''core:'' then good (TrimPrefix value ''core:'') else False)"

definition check_effect :: "AgentUpdateSideEffectV1 \<Rightarrow> err option" where
  "check_effect item =
     (let bad = (\<lambda>b s. fail_if b (Errorf (''payload schema v1 side_effects.'' @ s) []))
      in guards
       [bad (se_Schema item \<noteq> ''artifact_bound_side_effect.v1'') ''schema must be artifact_bound_side_effect.v1'',
        bad (se_SideEffectRef item = []) ''side_effect_ref is required'', bad (se_Actor item = []) ''actor is required'',
        bad (se_LaneRef item = []) ''lane_ref is required'', bad (se_TensionRef item = []) ''tension_ref is required'',
        bad (se_ArtifactRef item = []) ''artifact_ref is required'', bad (se_RegionRef item = []) ''region_ref is required'',
        bad (\<not> agentUpdateAllowedValue (se_Operation item) agentUpdateOperationValues) ''operation is invalid'',
        bad (\<not> validAgentUpdateSourceKind (se_SourceKind item)) ''source_kind must start with adapter: or core:'',
        bad (se_BoundaryRef item = []) ''boundary_ref is required'',
        bad (\<not> agentUpdateAllowedValue (se_BoundaryRelation item) agentUpdateBoundaryRelationValues) ''boundary_relation is invalid'',
        bad (\<not> agentUpdateAllowedValue (se_MaterializationState item) agentUpdateMaterializationStateValues) ''materialization_state is invalid'',
        bad (\<not> agentUpdateAllowedValue (se_IntegrationIntent item) agentUpdateIntegrationIntentValues) ''integration_intent is invalid'',
        bad (\<not> agentUpdateAllowedValue (se_IntegrationStatus item) agentUpdateIntegrationStatusValues) ''integration_status is invalid'',
        bad (\<not> agentUpdateAllowedValue (se_Decision item) agentUpdateDecisionValues) ''decision is invalid'',
        bad (se_Justification item = []) ''justification is required'',
        bad (se_DerivedRegionRefs item = []) ''derived_region_refs requires at least one ref''])"

definition validateAgentUpdateSideEffects :: "AgentUpdateSideEffectV1 list \<Rightarrow> err option" where
  "validateAgentUpdateSideEffects items = guards (map check_effect items)"

definition check_blocked :: "string \<Rightarrow> string \<Rightarrow> AgentUpdateBlockedRef \<Rightarrow> err option" where
  "check_blocked kindText detailText item = guards
     [fail_if (br_Kind item = []) (Errorf kindText []), fail_if (br_Detail item = []) (Errorf detailText [])]"

definition Update_Validate :: "AgentUpdatePayloadV1 \<Rightarrow> err option" where
  "Update_Validate p = guards
     [fail_if (up_BlockedOn p = [] \<and> up_Artifacts p = [] \<and> up_SideEffects p = [] \<and> up_Status p = [] \<and> up_NextAction p = [] \<and> up_TaskIDs p = [] \<and>
          up_DocKeys p = [] \<and> up_Links p = [] \<and> up_OwnerUserID p = [] \<and> up_HumanReason p = [] \<and> up_OwnerAction p = [] \<and> up_Notes p = [])
        (Errorf ''payload schema v1 requires at least one populated field'' []),
      guards (map (check_blocked ''payload schema v1 blocked_on.kind is required when blocked_on is present''
        ''payload schema v1 blocked_on.detail is required when blocked_on is present'') (up_BlockedOn p)),
      fail_if (up_HumanReason p \<noteq> [] \<and> up_OwnerAction p = [])
        (Errorf ''payload schema v1 owner_action is required when human_reason is set'' []),
      validateAgentUpdateSideEffects (up_SideEffects p)]"

subsection \<open>Sessions\<close>

definition SessionStatusActive :: string where "SessionStatusActive = ''ACTIVE''"
definition SessionStatusBlocked :: string where "SessionStatusBlocked = ''BLOCKED''"
definition SessionStatusWaitingDecision :: string where "SessionStatusWaitingDecision = ''WAITING_DECISION''"
definition SessionStatusHandoffPending :: string where "SessionStatusHandoffPending = ''HANDOFF_PENDING''"
definition SessionStatusEnded :: string where "SessionStatusEnded = ''ENDED''"
definition SessionEventStart :: string where "SessionEventStart = ''session.start''"
definition SessionEventStatus :: string where "SessionEventStatus = ''session.status''"
definition SessionEventBlocked :: string where "SessionEventBlocked = ''session.blocked''"
definition SessionEventDecisionNeeded :: string where "SessionEventDecisionNeeded = ''session.decision_needed''"
definition SessionEventKeepalive :: string where "SessionEventKeepalive = ''session.keepalive''"
definition SessionEventEnd :: string where "SessionEventEnd = ''session.end''"

definition validSessionStatuses :: "string list" where
  "validSessionStatuses =
     [SessionStatusActive, SessionStatusBlocked, SessionStatusWaitingDecision, SessionStatusHandoffPending, SessionStatusEnded]"

definition validSessionEventTypes :: "string list" where
  "validSessionEventTypes =
     [SessionEventStart, SessionEventStatus, SessionEventBlocked, SessionEventDecisionNeeded, SessionEventKeepalive, SessionEventEnd]"

record SessionCoordinationPayloadV1 =
  sc_SessionID :: string
  sc_TaskID :: string
  sc_Status :: string
  sc_Summary :: string
  sc_OwnerScope :: string
  sc_BlockedOn :: "AgentUpdateBlockedRef list"
  sc_DecisionNeededFrom :: string
  sc_DecisionType :: string
  sc_KeepSessionActive :: "bool option"
  sc_HandoffTo :: string
  sc_RelatedDocKeys :: "string list"
  sc_RelatedArtifactRefs :: "AgentUpdateArtifactRef list"
  sc_UpdatedAt :: string

definition NormalizeStatus :: "string \<Rightarrow> string" where
  "NormalizeStatus status = ToUpper (TrimSpace status)"

definition NormalizeSessionEventType :: "string \<Rightarrow> string" where
  "NormalizeSessionEventType eventType = ToLower (TrimSpace eventType)"

definition DefaultSessionStatusForEvent :: "string \<Rightarrow> string" where
  "DefaultSessionStatusForEvent eventType =
     (let e = NormalizeSessionEventType eventType
      in if e = SessionEventBlocked then SessionStatusBlocked
         else if e = SessionEventDecisionNeeded then SessionStatusWaitingDecision
         else if e = SessionEventEnd then SessionStatusEnded else SessionStatusActive)"

definition DefaultKeepSessionActiveForEvent :: "string \<Rightarrow> bool" where
  "DefaultKeepSessionActiveForEvent eventType = (if NormalizeSessionEventType eventType = SessionEventEnd then False else True)"

definition ValidSessionStatus :: "string \<Rightarrow> bool" where
  "ValidSessionStatus status \<longleftrightarrow> NormalizeStatus status \<in> set validSessionStatuses"

definition ValidSessionEventType :: "string \<Rightarrow> bool" where
  "ValidSessionEventType eventType \<longleftrightarrow> NormalizeSessionEventType eventType \<in> set validSessionEventTypes"

definition IsSessionStatusActive :: "string \<Rightarrow> bool" where
  "IsSessionStatusActive status \<longleftrightarrow>
     NormalizeStatus status \<in> set [SessionStatusActive, SessionStatusBlocked, SessionStatusWaitingDecision, SessionStatusHandoffPending, ''RUNNING'']"

definition Session_Normalize :: "SessionCoordinationPayloadV1 \<Rightarrow> SessionCoordinationPayloadV1" where
  "Session_Normalize p =
     \<lparr>sc_SessionID = TrimSpace (sc_SessionID p), sc_TaskID = TrimSpace (sc_TaskID p), sc_Status = NormalizeStatus (sc_Status p),
      sc_Summary = TrimSpace (sc_Summary p), sc_OwnerScope = TrimSpace (sc_OwnerScope p), sc_BlockedOn = norm_blocked (sc_BlockedOn p),
      sc_DecisionNeededFrom = TrimSpace (sc_DecisionNeededFrom p), sc_DecisionType = TrimSpace (sc_DecisionType p),
      sc_KeepSessionActive = sc_KeepSessionActive p, sc_HandoffTo = TrimSpace (sc_HandoffTo p),
      sc_RelatedDocKeys = normalizeStringList (sc_RelatedDocKeys p), sc_RelatedArtifactRefs = norm_artifacts (sc_RelatedArtifactRefs p),
      sc_UpdatedAt = TrimSpace (sc_UpdatedAt p)\<rparr>"

definition ValidateForEvent :: "SessionCoordinationPayloadV1 \<Rightarrow> string \<Rightarrow> err option" where
  "ValidateForEvent p eventType = guards
     [fail_if (\<not> ValidSessionEventType eventType) (Errorf ''invalid session event type'' []),
      fail_if (sc_SessionID p = []) (Errorf ''session payload requires session_id'' []),
      fail_if (sc_Summary p = []) (Errorf ''session payload requires summary'' []),
      fail_if (sc_Status p = []) (Errorf ''session payload requires status'' []),
      fail_if (\<not> ValidSessionStatus (sc_Status p)) (Errorf ''session payload has invalid status'' []),
      fail_if (TrimSpace (sc_UpdatedAt p) = []) (Errorf ''session payload requires updated_at'' []),
      (case sc_KeepSessionActive p of
         None \<Rightarrow> Some (Errorf ''session payload requires keep_session_active'' [])
       | Some keep \<Rightarrow> guards
           [guards (map (check_blocked ''session payload blocked_on.kind is required'' ''session payload blocked_on.detail is required'') (sc_BlockedOn p)),
            (let e = NormalizeSessionEventType eventType
             in if e = SessionEventStart then fail_if (\<not> keep) (Errorf ''session.start requires keep_session_active=true'' [])
                else if e = SessionEventBlocked then fail_if (sc_BlockedOn p = []) (Errorf ''session.blocked requires blocked_on'' [])
                else if e = SessionEventDecisionNeeded
                then fail_if (sc_DecisionNeededFrom p = []) (Errorf ''session.decision_needed requires decision_needed_from'' [])
                else if e = SessionEventEnd then fail_if keep (Errorf ''session.end requires keep_session_active=false'' [])
                else None)])]"

subsection \<open>Rebase work\<close>

definition RebaseFollowupQueueKeyPrefix :: string where "RebaseFollowupQueueKeyPrefix = ''tension_rebase_followup:''"
definition RebaseRollbackFailureQueueKeyPrefix :: string where "RebaseRollbackFailureQueueKeyPrefix = ''rebase_rollback_failure:''"
definition RebaseRollbackFailureKind :: string where "RebaseRollbackFailureKind = ''rebase_rollback_failure''"
definition RebaseNextActionAttempt :: string where "RebaseNextActionAttempt = ''attempt_rebase''"

record RebaseRollbackFailurePayload =
  rf_Kind :: string
  rf_FailureScope :: string
  rf_FailureTrigger :: string
  rf_FailureMessage :: string
  rf_EventID :: string
  rf_RootCauseID :: string
  rf_ProvenanceGroupID :: string
  rf_ParentRefsJSON :: "string list"
  rf_RunID :: string
  rf_StepID :: string
  rf_EntityID :: string
  rf_Family :: string
  rf_TaskID :: string
  rf_SessionID :: string
  rf_AgentID :: string
  rf_ActionID :: string
  rf_SourceQueueID :: string
  rf_SourceQueueKey :: string
  rf_RepairTensionID :: string
  rf_FollowupActionID :: string
  rf_FollowupActionQueueKey :: string
  rf_FollowupActionStatus :: string
  rf_LastFailedFollowupActionID :: string
  rf_LastFailedFollowupActionStatus :: string

definition Failure_Normalize :: "RebaseRollbackFailurePayload \<Rightarrow> RebaseRollbackFailurePayload" where
  "Failure_Normalize p =
     \<lparr>rf_Kind = TrimSpace (rf_Kind p), rf_FailureScope = TrimSpace (rf_FailureScope p),
      rf_FailureTrigger = TrimSpace (rf_FailureTrigger p), rf_FailureMessage = TrimSpace (rf_FailureMessage p),
      rf_EventID = TrimSpace (rf_EventID p), rf_RootCauseID = TrimSpace (rf_RootCauseID p),
      rf_ProvenanceGroupID = TrimSpace (rf_ProvenanceGroupID p),
      rf_ParentRefsJSON = normalizeLineageRefs (rf_ParentRefsJSON p), rf_RunID = TrimSpace (rf_RunID p),
      rf_StepID = TrimSpace (rf_StepID p), rf_EntityID = TrimSpace (rf_EntityID p), rf_Family = TrimSpace (rf_Family p),
      rf_TaskID = TrimSpace (rf_TaskID p), rf_SessionID = TrimSpace (rf_SessionID p), rf_AgentID = TrimSpace (rf_AgentID p),
      rf_ActionID = TrimSpace (rf_ActionID p), rf_SourceQueueID = TrimSpace (rf_SourceQueueID p),
      rf_SourceQueueKey = TrimSpace (rf_SourceQueueKey p), rf_RepairTensionID = TrimSpace (rf_RepairTensionID p),
      rf_FollowupActionID = TrimSpace (rf_FollowupActionID p),
      rf_FollowupActionQueueKey = TrimSpace (rf_FollowupActionQueueKey p),
      rf_FollowupActionStatus = TrimSpace (rf_FollowupActionStatus p),
      rf_LastFailedFollowupActionID = TrimSpace (rf_LastFailedFollowupActionID p),
      rf_LastFailedFollowupActionStatus = TrimSpace (rf_LastFailedFollowupActionStatus p)\<rparr>"

record RebaseFollowupPayload =
  fo_CoalitionID :: string
  fo_ForkTensionID :: string
  fo_RepairTensionID :: string
  fo_StewardLeaseRequired :: bool
  fo_NextAction :: string
  fo_RebasePlanClass :: string
  fo_RebaseReason :: string
  fo_ConflictSafeClass :: string
  fo_DecisionReason :: string
  fo_DecisionDetail :: string
  fo_AlternativePatch :: string
  fo_TaskID :: string
  fo_TaskIDs :: "string list"
  fo_ActionID :: string
  fo_ActionQueueKey :: string
  fo_ActionStatus :: string
  fo_SourceQueueID :: string
  fo_SourceQueueKey :: string
  fo_ActionTitle :: string
  fo_ActionAssignedTo :: string
  fo_ActionBlocking :: bool
  fo_ActionStartedBy :: string
  fo_ActionStartedComment :: string
  fo_ActionPausedBy :: string
  fo_ActionPauseComment :: string
  fo_LastFailedActionID :: string
  fo_LastFailedActionKey :: string
  fo_LastFailedStatus :: string
  fo_RollbackReason :: string
  fo_RootCauseID :: string
  fo_ProvenanceGroupID :: string
  fo_ParentRefsJSON :: "string list"
  fo_RebaseWorkflowState :: string
  fo_RebaseWorkflowStep :: string

definition Followup_Normalize :: "RebaseFollowupPayload \<Rightarrow> RebaseFollowupPayload" where
  "Followup_Normalize p =
     \<lparr>fo_CoalitionID = TrimSpace (fo_CoalitionID p), fo_ForkTensionID = TrimSpace (fo_ForkTensionID p),
      fo_RepairTensionID = TrimSpace (fo_RepairTensionID p), fo_StewardLeaseRequired = fo_StewardLeaseRequired p,
      fo_NextAction = TrimSpace (fo_NextAction p), fo_RebasePlanClass = TrimSpace (fo_RebasePlanClass p),
      fo_RebaseReason = TrimSpace (fo_RebaseReason p), fo_ConflictSafeClass = TrimSpace (fo_ConflictSafeClass p),
      fo_DecisionReason = TrimSpace (fo_DecisionReason p), fo_DecisionDetail = TrimSpace (fo_DecisionDetail p),
      fo_AlternativePatch = TrimSpace (fo_AlternativePatch p), fo_TaskID = TrimSpace (fo_TaskID p),
      fo_TaskIDs = sort (normalizeStringList (fo_TaskIDs p)), fo_ActionID = TrimSpace (fo_ActionID p),
      fo_ActionQueueKey = TrimSpace (fo_ActionQueueKey p), fo_ActionStatus = TrimSpace (fo_ActionStatus p),
      fo_SourceQueueID = TrimSpace (fo_SourceQueueID p), fo_SourceQueueKey = TrimSpace (fo_SourceQueueKey p),
      fo_ActionTitle = TrimSpace (fo_ActionTitle p), fo_ActionAssignedTo = TrimSpace (fo_ActionAssignedTo p),
      fo_ActionBlocking = fo_ActionBlocking p, fo_ActionStartedBy = TrimSpace (fo_ActionStartedBy p),
      fo_ActionStartedComment = TrimSpace (fo_ActionStartedComment p), fo_ActionPausedBy = TrimSpace (fo_ActionPausedBy p),
      fo_ActionPauseComment = TrimSpace (fo_ActionPauseComment p), fo_LastFailedActionID = TrimSpace (fo_LastFailedActionID p),
      fo_LastFailedActionKey = TrimSpace (fo_LastFailedActionKey p), fo_LastFailedStatus = TrimSpace (fo_LastFailedStatus p),
      fo_RollbackReason = TrimSpace (fo_RollbackReason p), fo_RootCauseID = TrimSpace (fo_RootCauseID p),
      fo_ProvenanceGroupID = TrimSpace (fo_ProvenanceGroupID p),
      fo_ParentRefsJSON = normalizeLineageRefs (fo_ParentRefsJSON p),
      fo_RebaseWorkflowState = TrimSpace (fo_RebaseWorkflowState p),
      fo_RebaseWorkflowStep = TrimSpace (fo_RebaseWorkflowStep p)\<rparr>"

definition IsRollbackFailure :: "RebaseRollbackFailurePayload \<Rightarrow> string \<Rightarrow> bool" where
  "IsRollbackFailure p queueKey \<longleftrightarrow> HasPrefix (TrimSpace (ToLower queueKey)) RebaseRollbackFailureQueueKeyPrefix \<or>
     TrimSpace (ToLower (rf_Kind p)) = RebaseRollbackFailureKind"

definition IsRebaseFollowup :: "RebaseFollowupPayload \<Rightarrow> string \<Rightarrow> bool" where
  "IsRebaseFollowup p queueKey =
     (if HasPrefix (TrimSpace (ToLower queueKey)) RebaseFollowupQueueKeyPrefix then True
      else TrimSpace (ToLower (fo_NextAction p)) = RebaseNextActionAttempt \<or> TrimSpace (fo_RepairTensionID p) \<noteq> [] \<or>
           TrimSpace (fo_ForkTensionID p) \<noteq> [])"

definition LinkedActionExists :: "RebaseFollowupPayload \<Rightarrow> bool" where
  "LinkedActionExists p \<longleftrightarrow> TrimSpace (fo_ActionID p) \<noteq> []"

subsection \<open>Task classes\<close>

definition validTaskClasses :: "string list" where
  "validTaskClasses = [''UNKNOWN'', ''PROOF'', ''EXPLORATION'', ''INTEGRATION'', ''INCIDENT'']"

definition validTaskClassSources :: "string list" where
  "validTaskClassSources = [''UNSET'', ''EXPLICIT'', ''TEMPLATE_DEFAULT'', ''HEURISTIC_FALLBACK'']"

definition NormalizeTaskClass :: "string \<Rightarrow> string" where
  "NormalizeTaskClass value0 = (let value = ToUpper (TrimSpace value0) in if value \<in> set validTaskClasses then value else [])"

definition ValidTaskClass :: "string \<Rightarrow> bool" where
  "ValidTaskClass value \<longleftrightarrow> NormalizeTaskClass value \<in> set validTaskClasses"

definition NormalizeTaskClassSource :: "string \<Rightarrow> string" where
  "NormalizeTaskClassSource value0 = (let value = ToUpper (TrimSpace value0) in if value \<in> set validTaskClassSources then value else [])"

definition ValidTaskClassSource :: "string \<Rightarrow> bool" where
  "ValidTaskClassSource value \<longleftrightarrow> NormalizeTaskClassSource value \<in> set validTaskClassSources"

subsection \<open>Normal forms\<close>

text \<open>
  A normalisation and its normal form: the result is in the form, and what is in the form does not
  change.
\<close>

locale normal_form =
  fixes norm :: "'a \<Rightarrow> 'a" and clean :: "'a \<Rightarrow> bool"
  assumes clean_norm: "clean (norm x)" and norm_clean: "clean x \<Longrightarrow> norm x = x"
begin

lemma norm_idem: "norm (norm x) = norm x"
  by (rule norm_clean) (rule clean_norm)

lemma norm_fixed_iff: "norm x = x \<longleftrightarrow> clean x"
  using clean_norm [of x] norm_clean [of x] by metis

lemma norm_map_fixed: "map norm xs = xs \<longleftrightarrow> list_all clean xs"
  using norm_fixed_iff by (induction xs) auto

end

interpretation text_form: normal_form TrimSpace trimmed
  by unfold_locales (simp_all add: trimmed_def)

definition clean_texts :: "string list \<Rightarrow> bool" where
  "clean_texts ts \<longleftrightarrow> list_all (\<lambda>t. trimmed t \<and> t \<noteq> []) ts \<and> distinct ts"

lemma norm_list_clean: "clean_texts (norm_list seen items) \<and> set (norm_list seen items) \<inter> set seen = {}"
  by (induction seen items rule: norm_list.induct) (auto simp: Let_def clean_texts_def trimmed_def)

lemma norm_list_fixed: "clean_texts items \<Longrightarrow> set items \<inter> set seen = {} \<Longrightarrow> norm_list seen items = items"
  by (induction seen items rule: norm_list.induct) (auto simp: Let_def clean_texts_def trimmed_def)

lemma norm_list_set: "set (norm_list seen items) = TrimSpace ` set items - {[]} - set seen"
  by (induction seen items rule: norm_list.induct) (auto simp: Let_def)

interpretation list_form: normal_form normalizeStringList clean_texts
  by unfold_locales (simp_all add: normalizeStringList_def norm_list_clean norm_list_fixed)

definition clean_refs :: "string list \<Rightarrow> bool" where
  "clean_refs ts \<longleftrightarrow> clean_texts ts \<and> sorted ts"

lemma clean_texts_sort: "clean_texts (sort ts) \<longleftrightarrow> clean_texts ts"
  by (simp add: clean_texts_def list_all_iff)

interpretation refs_form: normal_form "\<lambda>ts. sort (normalizeStringList ts)" clean_refs
  by unfold_locales (simp_all add: clean_refs_def clean_texts_sort list_form.clean_norm list_form.norm_clean sort_key_id_if_sorted)

definition clean_artifact :: "AgentUpdateArtifactRef \<Rightarrow> bool" where
  "clean_artifact a \<longleftrightarrow> list_all trimmed [ar_Ref a, ar_Kind a, ar_ContentType a] \<and> ar_Ref a \<noteq> []"

definition clean_blocked :: "AgentUpdateBlockedRef \<Rightarrow> bool" where
  "clean_blocked b \<longleftrightarrow> list_all trimmed [br_Kind b, br_Detail b] \<and> \<not> (br_Kind b = [] \<and> br_Detail b = [])"

interpretation artifact_form: normal_form norm_artifacts "list_all clean_artifact"
proof
  have "clean_artifact (trim_artifact a) \<longleftrightarrow> ar_Ref (trim_artifact a) \<noteq> []" for a
    by (simp add: clean_artifact_def trim_artifact_def trimmed_def)
  then show "list_all clean_artifact (norm_artifacts as)" for as by (auto simp: norm_artifacts_def list_all_iff)
  have "clean_artifact a \<Longrightarrow> trim_artifact a = a \<and> ar_Ref a \<noteq> []" for a
    by (auto simp: clean_artifact_def trim_artifact_def trimmed_def)
  then show "list_all clean_artifact as \<Longrightarrow> norm_artifacts as = as" for as
    by (induction as) (simp_all add: norm_artifacts_def)
qed

interpretation blocked_form: normal_form norm_blocked "list_all clean_blocked"
proof
  have "clean_blocked (trim_blocked b) \<longleftrightarrow> \<not> (br_Kind (trim_blocked b) = [] \<and> br_Detail (trim_blocked b) = [])" for b
    by (simp add: clean_blocked_def trim_blocked_def trimmed_def)
  then show "list_all clean_blocked (norm_blocked bs)" for bs by (auto simp: norm_blocked_def list_all_iff)
  have "clean_blocked b \<Longrightarrow> trim_blocked b = b \<and> \<not> (br_Kind b = [] \<and> br_Detail b = [])" for b
    by (auto simp: clean_blocked_def trim_blocked_def trimmed_def)
  then show "list_all clean_blocked bs \<Longrightarrow> norm_blocked bs = bs" for bs
    by (induction bs) (simp_all add: norm_blocked_def)
qed

definition clean_effect :: "AgentUpdateSideEffectV1 \<Rightarrow> bool" where
  "clean_effect e \<longleftrightarrow> list_all trimmed
     [se_Schema e, se_SideEffectRef e, se_Actor e, se_LaneRef e, se_TensionRef e, se_ArtifactRef e, se_RegionRef e, se_Operation e, se_SourceKind e,
      se_BoundaryRef e, se_BoundaryRelation e, se_MaterializationState e, se_IntegrationIntent e, se_IntegrationStatus e, se_Decision e,
      se_Justification e] \<and> clean_texts (se_DerivedRegionRefs e)"

interpretation effect_form: normal_form norm_effect clean_effect
  by unfold_locales (simp_all add: clean_effect_def norm_effect_def trimmed_def list_form.clean_norm list_form.norm_clean)

definition clean_update :: "AgentUpdatePayloadV1 \<Rightarrow> bool" where
  "clean_update p \<longleftrightarrow> list_all trimmed [up_Status p, up_NextAction p, up_OwnerUserID p, up_HumanReason p, up_OwnerAction p, up_Notes p] \<and>
     list_all clean_texts [up_TaskIDs p, up_DocKeys p, up_Links p] \<and> list_all clean_artifact (up_Artifacts p) \<and>
     list_all clean_blocked (up_BlockedOn p) \<and> list_all clean_effect (up_SideEffects p)"

interpretation update_form: normal_form Update_Normalize clean_update
proof
  show "clean_update (Update_Normalize p)" for p
    by (simp add: clean_update_def Update_Normalize_def trimmed_def list_form.clean_norm artifact_form.clean_norm blocked_form.clean_norm
        list.pred_map comp_def effect_form.clean_norm list.pred_True)
  show "clean_update p \<Longrightarrow> Update_Normalize p = p" for p
    using effect_form.norm_map_fixed
    by (simp add: clean_update_def Update_Normalize_def trimmed_def list_form.norm_clean artifact_form.norm_clean blocked_form.norm_clean)
qed

definition clean_failure :: "RebaseRollbackFailurePayload \<Rightarrow> bool" where
  "clean_failure p \<longleftrightarrow> list_all trimmed
     [rf_Kind p, rf_FailureScope p, rf_FailureTrigger p, rf_FailureMessage p, rf_EventID p, rf_RootCauseID p,
      rf_ProvenanceGroupID p, rf_RunID p, rf_StepID p, rf_EntityID p, rf_Family p, rf_TaskID p, rf_SessionID p, rf_AgentID p,
      rf_ActionID p, rf_SourceQueueID p, rf_SourceQueueKey p, rf_RepairTensionID p, rf_FollowupActionID p,
      rf_FollowupActionQueueKey p, rf_FollowupActionStatus p, rf_LastFailedFollowupActionID p,
      rf_LastFailedFollowupActionStatus p] \<and>
     clean_refs (rf_ParentRefsJSON p)"

definition clean_followup :: "RebaseFollowupPayload \<Rightarrow> bool" where
  "clean_followup p \<longleftrightarrow> list_all trimmed
     [fo_CoalitionID p, fo_ForkTensionID p, fo_RepairTensionID p, fo_NextAction p, fo_RebasePlanClass p, fo_RebaseReason p,
      fo_ConflictSafeClass p, fo_DecisionReason p, fo_DecisionDetail p, fo_AlternativePatch p, fo_TaskID p, fo_ActionID p,
      fo_ActionQueueKey p, fo_ActionStatus p, fo_SourceQueueID p, fo_SourceQueueKey p, fo_ActionTitle p, fo_ActionAssignedTo p,
      fo_ActionStartedBy p, fo_ActionStartedComment p, fo_ActionPausedBy p, fo_ActionPauseComment p, fo_LastFailedActionID p,
      fo_LastFailedActionKey p, fo_LastFailedStatus p, fo_RollbackReason p, fo_RootCauseID p, fo_ProvenanceGroupID p,
      fo_RebaseWorkflowState p, fo_RebaseWorkflowStep p] \<and>
     clean_refs (fo_ParentRefsJSON p) \<and> clean_refs (fo_TaskIDs p)"

interpretation failure_form: normal_form Failure_Normalize clean_failure
  by unfold_locales (simp_all add: clean_failure_def Failure_Normalize_def trimmed_def normalizeLineageRefs_def refs_form.clean_norm refs_form.norm_clean)

interpretation followup_form: normal_form Followup_Normalize clean_followup
  by unfold_locales (simp_all add: clean_followup_def Followup_Normalize_def trimmed_def normalizeLineageRefs_def refs_form.clean_norm refs_form.norm_clean)

subsection \<open>Properties\<close>

text \<open>C33.
  Updates, rollback failures and rebase follow-ups have a normal form: every text is trimmed, lists of
  references have no blank and no repeated entry, and no artifact or blocker is empty. Normalisation
  establishes it, keeps a message exactly when it has the form already, and keeps every task that is not
  blank.
\<close>

theorem message_normal_form:
  "clean_update (Update_Normalize p) \<and> (Update_Normalize p = p \<longleftrightarrow> clean_update p) \<and>
   clean_failure (Failure_Normalize f) \<and> (Failure_Normalize f = f \<longleftrightarrow> clean_failure f) \<and>
   clean_followup (Followup_Normalize w) \<and> (Followup_Normalize w = w \<longleftrightarrow> clean_followup w) \<and>
   set (up_TaskIDs (Update_Normalize p)) = TrimSpace ` set (up_TaskIDs p) - {[]} \<and>
   set (fo_TaskIDs (Followup_Normalize w)) = TrimSpace ` set (fo_TaskIDs w) - {[]}"
  using update_form.clean_norm update_form.norm_fixed_iff failure_form.clean_norm failure_form.norm_fixed_iff followup_form.clean_norm
    followup_form.norm_fixed_iff by (simp add: Update_Normalize_def Followup_Normalize_def normalizeStringList_def norm_list_set)

text \<open>A session event with the defaults of its type is accepted, once it has its texts and references.\<close>

theorem session_defaults_valid:
  assumes "ValidSessionEventType e" and "list_all (\<lambda>t. TrimSpace t \<noteq> []) [sc_SessionID p, sc_Summary p, sc_UpdatedAt p]"
    and "sc_Status p = DefaultSessionStatusForEvent e" and "sc_KeepSessionActive p = Some (DefaultKeepSessionActiveForEvent e)"
    and "list_all (\<lambda>b. TrimSpace (br_Kind b) \<noteq> [] \<and> TrimSpace (br_Detail b) \<noteq> []) (sc_BlockedOn p)"
    and "NormalizeSessionEventType e = SessionEventBlocked \<Longrightarrow> sc_BlockedOn p \<noteq> []"
    and "NormalizeSessionEventType e = SessionEventDecisionNeeded \<Longrightarrow> sc_DecisionNeededFrom p \<noteq> []"
  shows "ValidateForEvent p e = None"
proof -
  have st: "ValidSessionStatus (DefaultSessionStatusForEvent e) \<and> DefaultSessionStatusForEvent e \<noteq> []"
  proof -
    have "list_all (\<lambda>s. ValidSessionStatus s \<and> s \<noteq> []) [SessionStatusActive, SessionStatusBlocked, SessionStatusWaitingDecision, SessionStatusEnded]"
      by code_simp
    then show ?thesis by (simp add: DefaultSessionStatusForEvent_def Let_def)
  qed
  have b: "guards (map (check_blocked k d) (sc_BlockedOn p)) = None" for k d
    using assms(5) by (auto simp: guards_None check_blocked_def list_all_iff)
  have keep: "DefaultKeepSessionActiveForEvent e \<longleftrightarrow> NormalizeSessionEventType e \<noteq> SessionEventEnd"
    by (simp add: DefaultKeepSessionActiveForEvent_def)
  have ne: "SessionEventStart \<noteq> SessionEventEnd" by code_simp
  show ?thesis
    unfolding ValidateForEvent_def assms(4) Let_def using assms(1-3,6,7) st b keep ne by auto
qed

end
