(* ===== verification/Go_Encoding.thy ===== *)
theory Go_Encoding
  imports Go_Path "HOL-Library.Word"
begin

unbundle bit_operations_syntax

section \<open>Packages fmt, encoding/json, encoding/hex and crypto/sha256\<close>

text \<open>
  The digests that the repository authority stores and compares are the SHA-256 hash of a
  JSON text. Both functions are written out, so that a digest is a value of the model and
  its shape (\<open>sha256:\<close> and 64 hexadecimal digits) is a theorem. The theorems of the
  components never evaluate the hash. Error texts follow \<open>fmt.Sprintf\<close>; the quoting of
  \<open>%q\<close> takes every valid non-ASCII character to be printable.
\<close>

subsection \<open>Hexadecimal\<close>

definition hex_digit :: "nat \<Rightarrow> char" where
  "hex_digit n = (if n < 10 then char_of (48 + n) else char_of (87 + n))"

definition hex_byte :: "nat \<Rightarrow> string" where
  "hex_byte b = [hex_digit (b div 16 mod 16), hex_digit (b mod 16)]"

definition hex_encode :: "nat list \<Rightarrow> string" where
  "hex_encode bs = concat (map hex_byte bs)"

definition is_lower_hex :: "char \<Rightarrow> bool" where
  "is_lower_hex c \<longleftrightarrow> (of_char c :: nat) \<in> {48..57} \<or> (of_char c :: nat) \<in> {97..102}"

lemma is_lower_hex_digit: "n < 16 \<Longrightarrow> is_lower_hex (hex_digit n)"
  by (auto simp: hex_digit_def is_lower_hex_def of_char_of)

lemma hex_encode_chars: "\<forall>c \<in> set (hex_encode bs). is_lower_hex c"
  by (auto simp: hex_encode_def hex_byte_def is_lower_hex_digit)

lemma length_hex_encode [simp]: "length (hex_encode bs) = 2 * length bs"
  by (induction bs) (auto simp: hex_encode_def hex_byte_def)

subsection \<open>SHA-256\<close>

type_synonym w32 = "32 word"

text \<open>The round constants of FIPS 180-4, in decimal.\<close>

definition sha_k :: "w32 list" where
  "sha_k =
    [1116352408, 1899447441, 3049323471, 3921009573, 961987163, 1508970993, 2453635748, 2870763221,
     3624381080, 310598401, 607225278, 1426881987, 1925078388, 2162078206, 2614888103, 3248222580,
     3835390401, 4022224774, 264347078, 604807628, 770255983, 1249150122, 1555081692, 1996064986,
     2554220882, 2821834349, 2952996808, 3210313671, 3336571891, 3584528711, 113926993, 338241895,
     666307205, 773529912, 1294757372, 1396182291, 1695183700, 1986661051, 2177026350, 2456956037,
     2730485921, 2820302411, 3259730800, 3345764771, 3516065817, 3600352804, 4094571909, 275423344,
     430227734, 506948616, 659060556, 883997877, 958139571, 1322822218, 1537002063, 1747873779,
     1955562222, 2024104815, 2227730452, 2361852424, 2428436474, 2756734187, 3204031479, 3329325298]"

record sha_state =
  sha_a :: w32
  sha_b :: w32
  sha_c :: w32
  sha_d :: w32
  sha_e :: w32
  sha_f :: w32
  sha_g :: w32
  sha_h :: w32

definition sha_init :: sha_state where
  "sha_init = \<lparr>sha_a = 0x6a09e667, sha_b = 0xbb67ae85, sha_c = 0x3c6ef372, sha_d = 0xa54ff53a,
     sha_e = 0x510e527f, sha_f = 0x9b05688c, sha_g = 0x1f83d9ab, sha_h = 0x5be0cd19\<rparr>"

text \<open>The message schedule, latest word first.\<close>

primrec sha_schedule :: "nat \<Rightarrow> w32 list \<Rightarrow> w32 list" where
  "sha_schedule 0 ws = ws"
| "sha_schedule (Suc n) ws =
     (let x = ws ! 14; y = ws ! 1;
          s0 = word_rotr 7 x XOR word_rotr 18 x XOR drop_bit 3 x;
          s1 = word_rotr 17 y XOR word_rotr 19 y XOR drop_bit 10 y
      in sha_schedule n ((ws ! 15 + s0 + ws ! 6 + s1) # ws))"

definition sha_round :: "w32 \<times> w32 \<Rightarrow> sha_state \<Rightarrow> sha_state" where
  "sha_round kw s =
     (let e = sha_e s; a = sha_a s;
          s1 = word_rotr 6 e XOR word_rotr 11 e XOR word_rotr 25 e;
          ch = (e AND sha_f s) XOR (NOT e AND sha_g s);
          t1 = sha_h s + s1 + ch + fst kw + snd kw;
          s0 = word_rotr 2 a XOR word_rotr 13 a XOR word_rotr 22 a;
          maj = (a AND sha_b s) XOR (a AND sha_c s) XOR (sha_b s AND sha_c s)
      in \<lparr>sha_a = t1 + s0 + maj, sha_b = a, sha_c = sha_b s, sha_d = sha_c s,
          sha_e = sha_d s + t1, sha_f = e, sha_g = sha_f s, sha_h = sha_g s\<rparr>)"

definition sha_block :: "w32 list \<Rightarrow> sha_state \<Rightarrow> sha_state" where
  "sha_block ws s =
     (let t = fold sha_round (zip sha_k (rev (sha_schedule 48 (rev ws)))) s
      in \<lparr>sha_a = sha_a s + sha_a t, sha_b = sha_b s + sha_b t, sha_c = sha_c s + sha_c t,
          sha_d = sha_d s + sha_d t, sha_e = sha_e s + sha_e t, sha_f = sha_f s + sha_f t,
          sha_g = sha_g s + sha_g t, sha_h = sha_h s + sha_h t\<rparr>)"

primrec be_bytes :: "nat \<Rightarrow> nat \<Rightarrow> nat list" where
  "be_bytes 0 n = []"
| "be_bytes (Suc k) n = be_bytes k (n div 256) @ [n mod 256]"

definition sha_pad :: "nat list \<Rightarrow> nat list" where
  "sha_pad bs = bs @ [128] @ replicate ((119 - length bs mod 64) mod 64) 0 @ be_bytes 8 (8 * length bs)"

fun be_words :: "nat list \<Rightarrow> w32 list" where
  "be_words (a # b # c # d # bs) = word_of_nat (((a * 256 + b) * 256 + c) * 256 + d) # be_words bs"
| "be_words _ = []"

function sha_blocks :: "w32 list \<Rightarrow> sha_state \<Rightarrow> sha_state" where
  "sha_blocks ws s = (if ws = [] then s else sha_blocks (drop 16 ws) (sha_block (take 16 ws) s))"
  by pat_completeness auto
termination
  by (relation "measure (\<lambda>(ws, s). length ws)") auto

declare sha_blocks.simps [simp del]

definition sha256 :: "string \<Rightarrow> nat list" where
  "sha256 m =
     (let s = sha_blocks (be_words (sha_pad (map of_char m))) sha_init
      in concat (map (\<lambda>w. be_bytes 4 (unat w))
           [sha_a s, sha_b s, sha_c s, sha_d s, sha_e s, sha_f s, sha_g s, sha_h s]))"

definition sha256_text :: "string \<Rightarrow> string" where
  "sha256_text m = ''sha256:'' @ hex_encode (sha256 m)"

lemma length_be_bytes [simp]: "length (be_bytes k n) = k"
  by (induction k arbitrary: n) auto

lemma length_sha256 [simp]: "length (sha256 m) = 32"
  by (simp add: sha256_def Let_def)

lemma sha256_text_prefix [simp]: "HasPrefix (sha256_text m) ''sha256:''"
  by (simp add: sha256_text_def HasPrefix_def)

lemma sha256_text_not_Nil [simp]: "sha256_text m \<noteq> []"
  by (simp add: sha256_text_def)

lemma is_lower_hex_graphic: "is_lower_hex c \<Longrightarrow> graphic c"
  by (auto simp: is_lower_hex_def graphic_def)

lemma TrimSpace_sha256_text [simp]: "TrimSpace (sha256_text m) = sha256_text m"
proof (rule TrimSpace_graphic)
  have "hex_encode (sha256 m) \<noteq> []"
    using length_hex_encode [of "sha256 m"] by (metis length_0_conv length_sha256 mult_eq_0_iff zero_neq_numeral)
  then have "last (sha256_text m) \<in> set (hex_encode (sha256 m))"
    by (simp add: sha256_text_def)
  then show "graphic (last (sha256_text m))"
    using hex_encode_chars is_lower_hex_graphic by blast
qed (simp_all add: sha256_text_def graphic_def)

subsection \<open>fmt.Sprintf\<close>

function quote_body :: "string \<Rightarrow> string" where
  "quote_body s =
     (if s = [] then []
      else let c = hd s; b = (of_char c :: nat); (r, n) = decode_rune s
           in if b = 0x22 \<or> b = 0x5C then CHR 0x5C # c # quote_body (tl s)
              else if 0x20 \<le> b \<and> b < 0x7F then c # quote_body (tl s)
              else if 7 \<le> b \<and> b \<le> 13 then CHR 0x5C # (''abtnvfr'' ! (b - 7)) # quote_body (tl s)
              else if b < 0x80 \<or> (r = 0xFFFD \<and> n = 1) then CHR 0x5C # CHR ''x'' # hex_byte b @ quote_body (tl s)
              else take n s @ quote_body (drop n s))"
  by pat_completeness auto
termination
  by (relation "measure length")
    (auto dest: decode_rune_pos intro!: diff_less)

declare quote_body.simps [simp del]

definition Quote :: "string \<Rightarrow> string" where
  "Quote s = CHR 0x22 # quote_body s @ [CHR 0x22]"

text \<open>An argument is given as its plain and its quoted rendering.\<close>

fun sprintf :: "string \<Rightarrow> (string \<times> string) list \<Rightarrow> string" where
  "sprintf [] as = []"
| "sprintf (c # cs) as =
     (if c \<noteq> CHR ''%'' then c # sprintf cs as
      else case as of
        [] \<Rightarrow> c # sprintf cs as
      | a # as' \<Rightarrow>
          (case cs of
             [] \<Rightarrow> fst a
           | v # vs \<Rightarrow> if v = CHR ''#'' then fst a @ sprintf (tl vs) as'
                       else (if v = CHR ''q'' then snd a else fst a) @ sprintf vs as'))"

definition go_slice :: "string list \<Rightarrow> string" where
  "go_slice ws = (if ws = [] then ''[]string(nil)''
     else ''[]string{'' @ join_with '', '' (map Quote ws) @ ''}'')"

primrec err_text :: "err \<Rightarrow> string" and arg_text :: "err_arg \<Rightarrow> string \<times> string" where
  "err_text (Errorf f args) = sprintf f (map arg_text args)"
| "arg_text (AStr s) = (s, Quote s)"
| "arg_text (AInt i) = (dec_int i, dec_int i)"
| "arg_text (AErr e) = (err_text e, Quote (err_text e))"
| "arg_text (AList ws) = (go_slice ws, go_slice ws)"

subsection \<open>encoding/json\<close>

datatype json = JStr string | JInt int | JBool bool | JNull | JArr "json list" | JObj "(string \<times> json) list"

definition hex4 :: "nat \<Rightarrow> string" where
  "hex4 n = [CHR 0x5C, CHR ''u''] @ hex_byte (n div 256) @ hex_byte n"

function json_escape :: "string \<Rightarrow> string" where
  "json_escape s =
     (if s = [] then []
      else let c = hd s; b = (of_char c :: nat); (r, n) = decode_rune s
           in if b = 0x22 \<or> b = 0x5C then CHR 0x5C # c # json_escape (tl s)
              else if 0x20 \<le> b \<and> b < 0x80 \<and> c \<notin> set ''<>&'' then c # json_escape (tl s)
              else if b \<in> {8, 9, 10, 12, 13} then CHR 0x5C # (''btn?fr'' ! (b - 8)) # json_escape (tl s)
              else if b < 0x80 then hex4 b @ json_escape (tl s)
              else if r = 0xFFFD \<and> n = 1 then hex4 0xFFFD @ json_escape (tl s)
              else if r = 0x2028 \<or> r = 0x2029 then hex4 r @ json_escape (drop n s)
              else take n s @ json_escape (drop n s))"
  by pat_completeness auto
termination
  by (relation "measure length")
    (auto dest: decode_rune_pos intro!: diff_less)

declare json_escape.simps [simp del]

definition json_string :: "string \<Rightarrow> string" where
  "json_string s = CHR 0x22 # json_escape s @ [CHR 0x22]"

fun json_text :: "json \<Rightarrow> string" where
  "json_text (JStr s) = json_string s"
| "json_text (JInt i) = dec_int i"
| "json_text (JBool b) = (if b then ''true'' else ''false'')"
| "json_text JNull = ''null''"
| "json_text (JArr xs) = ''['' @ join_with '','' (map json_text xs) @ '']''"
| "json_text (JObj fs) =
     ''{'' @ join_with '','' (map (\<lambda>(k, v). json_string k @ '':'' @ json_text v) fs) @ ''}''"

text \<open>Struct fields with and without \<open>omitempty\<close>; a slice that is empty is nil.\<close>

definition omit_str :: "string \<Rightarrow> string \<Rightarrow> (string \<times> json) list" where
  "omit_str k s = (if s = [] then [] else [(k, JStr s)])"

definition omit_int :: "string \<Rightarrow> int \<Rightarrow> (string \<times> json) list" where
  "omit_int k i = (if i = 0 then [] else [(k, JInt i)])"

definition omit_arr :: "string \<Rightarrow> json list \<Rightarrow> (string \<times> json) list" where
  "omit_arr k xs = (if xs = [] then [] else [(k, JArr xs)])"

definition omit_ptr :: "string \<Rightarrow> ('a \<Rightarrow> json) \<Rightarrow> 'a option \<Rightarrow> (string \<times> json) list" where
  "omit_ptr k f p = (case p of None \<Rightarrow> [] | Some x \<Rightarrow> [(k, f x)])"

definition json_map :: "(string \<times> string) list \<Rightarrow> json" where
  "json_map m = JObj (map (\<lambda>k. (k, JStr (get_str m k))) (sort (map fst m)))"

definition json_digest :: "json \<Rightarrow> string" where
  "json_digest j = sha256_text (json_text j)"

lemma TrimSpace_json_digest [simp]: "TrimSpace (json_digest j) = json_digest j"
  by (simp add: json_digest_def)

lemma json_digest_not_Nil [simp]: "json_digest j \<noteq> []"
  by (simp add: json_digest_def)

end
