(* ===== verification/Repo_Context.thy ===== *)
theory Repo_Context
  imports Go_Encoding
begin

section \<open>The repository authority context\<close>

text \<open>
  \<open>internal/repoauthority/context.go\<close> and the path normaliser of \<open>path_resolver.go\<close>: the
  record that names who may change which paths of which repository, its validation and its
  digest. Every other part of the repository authority starts from a validated context. The
  main facts are that a normalised path never leaves the repository root, that a valid
  context has a sorted, duplicate-free pathset of normalised paths, and that such a pathset
  is a fixed point of \<open>NormalizePathSet\<close>.
\<close>

definition SchemaVersion :: string where "SchemaVersion = ''repo_authority_context.v1''"
definition ModePatchOnlyTempRepo :: string where "ModePatchOnlyTempRepo = ''patch_only_temp_repo''"
definition ModeControlledQueue :: string where "ModeControlledQueue = ''repoauthority_controlled_queue''"

record PrincipalRef =
  pr_Type :: string
  pr_ID :: string

record CapabilitySnapshotRef =
  cs_ID :: string
  cs_Schema :: string

record BaseIdentity =
  base_Ref :: string
  base_TreeHash :: string
  base_FileHashes :: "(string \<times> string) list"

record LeaseRef =
  lr_ID :: string
  lr_Term :: int

record PatchQueueRef =
  pqr_QueueID :: string
  pqr_ItemID :: string

record OperationRef =
  op_ID :: string
  op_Kind :: string

record Context =
  ctx_Schema :: string
  ctx_Mode :: string
  ctx_WorkspaceID :: string
  ctx_TaskID :: string
  ctx_SessionID :: string
  ctx_RunID :: string
  ctx_AgentID :: string
  ctx_Principal :: PrincipalRef
  ctx_CapabilitySnapshot :: CapabilitySnapshotRef
  ctx_RepoRoot :: string
  ctx_Base :: BaseIdentity
  ctx_Pathset :: "string list"
  ctx_Lease :: LeaseRef
  ctx_PatchQueue :: PatchQueueRef
  ctx_Operation :: OperationRef

definition no_lease :: LeaseRef where "no_lease = \<lparr>lr_ID = [], lr_Term = 0\<rparr>"
definition no_patch_queue :: PatchQueueRef where "no_patch_queue = \<lparr>pqr_QueueID = [], pqr_ItemID = []\<rparr>"
definition no_operation :: OperationRef where "no_operation = \<lparr>op_ID = [], op_Kind = []\<rparr>"

subsection \<open>Paths\<close>

definition hasWindowsVolume :: "string \<Rightarrow> bool" where
  "hasWindowsVolume v \<longleftrightarrow>
     (if length v < 2 \<or> v ! 1 \<noteq> CHR '':'' then False
      else (of_char (v ! 0) :: nat) \<in> {0x61..0x7A} \<or> (of_char (v ! 0) :: nat) \<in> {0x41..0x5A})"

definition err_absolute :: "string \<Rightarrow> err" where
  "err_absolute raw = Errorf ''absolute paths are not allowed: %q'' [AStr raw]"

definition NormalizePath :: "string \<Rightarrow> string result" where
  "NormalizePath raw =
     (if CHR 0x00 \<in> set raw then Inl (Errorf ''path contains NUL byte'' [])
      else let trimmed = TrimSpace raw
      in if trimmed = [] then Inl (Errorf ''path is required'' [])
         else if hasWindowsVolume trimmed then Inl (err_absolute raw)
         else let slashPath = ReplaceByte (CHR 0x5C) slash trimmed
         in if HasPrefix slashPath [slash] \<or> IsAbs slashPath then Inl (err_absolute raw)
            else let cleaned = path_Clean slashPath
            in if cleaned = ''.'' \<or> cleaned = [] then Inl (Errorf ''path is required'' [])
               else if cleaned = ''..'' \<or> HasPrefix cleaned ''../''
               then Inl (Errorf ''path escapes repo root: %q'' [AStr raw])
               else Inr cleaned)"

definition normalizeResolverPath :: "string \<Rightarrow> string result" where
  "normalizeResolverPath raw =
     (if CHR 0x00 \<in> set raw then Inl (Errorf ''path contains NUL byte'' [])
      else let trimmed = TrimSpace raw
      in if trimmed = [] then Inl (Errorf ''path is required'' [])
         else if hasWindowsVolume trimmed then Inl (err_absolute raw)
         else let slashPath = ReplaceByte (CHR 0x5C) slash trimmed
         in if HasPrefix slashPath [slash] \<or> IsAbs slashPath then Inl (err_absolute raw)
            else if ''..'' \<in> set (split_on slash slashPath)
            then Inl (Errorf ''path traversal is not allowed: %q'' [AStr raw])
            else let cleaned = path_Clean slashPath
            in if cleaned = ''.'' \<or> cleaned = [] then Inl (Errorf ''path is required'' [])
               else Inr cleaned)"

fun normalize_paths :: "nat \<Rightarrow> string list \<Rightarrow> string list \<Rightarrow> string list result" where
  "normalize_paths i seen [] = Inr []"
| "normalize_paths i seen (raw # raws) =
     (case NormalizePath raw of
        Inl e \<Rightarrow> Inl (Errorf ''pathset[%d]: %w'' [AInt (int i), AErr e])
      | Inr p \<Rightarrow>
          if p \<in> set seen then Inl (Errorf ''pathset contains duplicate path %q'' [AStr p])
          else (case normalize_paths (Suc i) (p # seen) raws of
                  Inl e \<Rightarrow> Inl e
                | Inr ps \<Rightarrow> Inr (p # ps)))"

definition NormalizePathSet :: "string list \<Rightarrow> string list result" where
  "NormalizePathSet paths =
     (if paths = [] then Inr []
      else case normalize_paths 0 [] paths of Inl e \<Rightarrow> Inl e | Inr ps \<Rightarrow> Inr (sort ps))"

fun canonical_paths :: "nat \<Rightarrow> string list \<Rightarrow> string \<Rightarrow> string list \<Rightarrow> err option" where
  "canonical_paths i seen previous [] = None"
| "canonical_paths i seen previous (raw # raws) =
     (case NormalizePath raw of
        Inl e \<Rightarrow> Some (Errorf ''pathset[%d]: %w'' [AInt (int i), AErr e])
      | Inr p \<Rightarrow>
          if raw \<noteq> p then Some (Errorf ''pathset[%d] is not normalized: got %q want %q'' [AInt (int i), AStr raw, AStr p])
          else if p \<in> set seen then Some (Errorf ''pathset contains duplicate path %q'' [AStr p])
          else if 0 < i \<and> p < previous
          then Some (Errorf ''pathset is not sorted at index %d: %q before %q'' [AInt (int i), AStr p, AStr previous])
          else canonical_paths (Suc i) (p # seen) p raws)"

definition validateCanonicalPathset :: "string list \<Rightarrow> err option" where
  "validateCanonicalPathset paths = (if paths = [] then None else canonical_paths 0 [] [] paths)"

subsection \<open>Which paths a pathset entry covers\<close>

definition pathsetEntryHasGlob :: "string \<Rightarrow> bool" where
  "pathsetEntryHasGlob scope \<longleftrightarrow> (\<exists>c \<in> set scope. c \<in> set ''*?['')"

definition pathsetEntryGlobCoversPath :: "string \<Rightarrow> string \<Rightarrow> bool" where
  "pathsetEntryGlobCoversPath scope p \<longleftrightarrow>
     (if \<not> pathsetEntryHasGlob scope then False else path_Match scope p = Some True)"

definition pathsetEntryIsValidGlob :: "string \<Rightarrow> bool" where
  "pathsetEntryIsValidGlob scope \<longleftrightarrow>
     (if \<not> pathsetEntryHasGlob scope then False else path_Match scope [] \<noteq> None)"

definition pathsetEntryIsScoped :: "string \<Rightarrow> bool" where
  "pathsetEntryIsScoped scope0 \<longleftrightarrow>
     (let scope = TrimSpace scope0
      in scope = ''*'' \<or> scope = ''**'' \<or> HasSuffix scope ''/*'' \<or> HasSuffix scope ''/**''
         \<or> pathsetEntryIsValidGlob scope)"

definition pathsetEntryCoversPath :: "string \<Rightarrow> string \<Rightarrow> bool" where
  "pathsetEntryCoversPath scope0 p0 \<longleftrightarrow>
     (let scope = TrimSpace scope0; p = TrimSpace p0
      in if scope = [] \<or> p = [] then False
         else if scope = ''*'' \<or> scope = ''**'' then True
         else if scope = p then True
         else if HasSuffix scope ''/**'' then
           (let pre = TrimSuffix scope ''/**'' in p = pre \<or> HasPrefix p (pre @ [slash]))
         else if HasSuffix scope ''/*'' then
           (let pre = TrimSuffix scope ''/*''
            in if p = pre \<or> \<not> HasPrefix p (pre @ [slash]) then False
               else slash \<notin> set (TrimPrefix p (pre @ [slash])))
         else pathsetEntryGlobCoversPath scope p)"

definition pathsetCoversPath :: "string list \<Rightarrow> string \<Rightarrow> bool" where
  "pathsetCoversPath pathset p \<longleftrightarrow> (\<exists>scope \<in> set pathset. pathsetEntryCoversPath scope p)"

definition pathsetAllEntriesScoped :: "string list \<Rightarrow> bool" where
  "pathsetAllEntriesScoped paths \<longleftrightarrow>
     (if paths = [] then False else \<forall>p \<in> set paths. pathsetEntryIsScoped p)"

subsection \<open>Validation\<close>

definition requireNonEmpty :: "string \<Rightarrow> string \<Rightarrow> err option" where
  "requireNonEmpty field v = fail_if (TrimSpace v = []) (Errorf ''%s is required'' [AStr field])"

definition validate_base_file :: "string list \<Rightarrow> string \<times> string \<Rightarrow> err option" where
  "validate_base_file pathset kv =
     (case kv of (rawPath, hash) \<Rightarrow>
        case NormalizePath rawPath of
          Inl e \<Rightarrow> Some (Errorf ''base.file_hashes[%q]: %w'' [AStr rawPath, AErr e])
        | Inr p \<Rightarrow> guards
            [fail_if (p \<noteq> rawPath) (Errorf ''base.file_hashes key is not normalized: got %q want %q'' [AStr rawPath, AStr p]),
             fail_if (TrimSpace hash = []) (Errorf ''base.file_hashes[%q] is required'' [AStr rawPath]),
             fail_if (\<not> pathsetCoversPath pathset rawPath)
               (Errorf ''base.file_hashes contains path outside pathset: %q'' [AStr rawPath])])"

definition validateBaseIdentity :: "BaseIdentity \<Rightarrow> string list \<Rightarrow> err option" where
  "validateBaseIdentity base pathset = guards
     [fail_if (TrimSpace (base_Ref base) = [] \<and> TrimSpace (base_TreeHash base) = [])
        (Errorf ''base.ref or base.tree_hash is required'' []),
      fail_if (pathset = []) (Errorf ''pathset is required'' []),
      guards (map (validate_base_file pathset) (base_FileHashes base))]"

definition validateLeaseRef :: "LeaseRef \<Rightarrow> err option" where
  "validateLeaseRef lease =
     (let id = TrimSpace (lr_ID lease)
      in if id = [] \<and> lr_Term lease \<noteq> 0 then Some (Errorf ''lease.term requires lease.id'' [])
         else if id \<noteq> [] \<and> lr_Term lease \<le> 0
         then Some (Errorf ''lease.term is required when lease.id is present'' [])
         else None)"

definition validatePatchQueueRef :: "PatchQueueRef \<Rightarrow> LeaseRef \<Rightarrow> err option" where
  "validatePatchQueueRef patch lease =
     (let queueID = TrimSpace (pqr_QueueID patch); itemID = TrimSpace (pqr_ItemID patch)
      in if itemID \<noteq> [] \<and> queueID = []
         then Some (Errorf ''patch_queue.queue_id is required when patch_queue.item_id is present'' [])
         else if itemID \<noteq> [] \<and> TrimSpace (lr_ID lease) = []
         then Some (Errorf ''lease.id is required when patch_queue.item_id is present'' [])
         else None)"

definition validateOperationRef :: "OperationRef \<Rightarrow> LeaseRef \<Rightarrow> PatchQueueRef \<Rightarrow> err option" where
  "validateOperationRef oper lease patch =
     (if TrimSpace (op_ID oper) = [] then
        (if TrimSpace (op_Kind oper) \<noteq> [] then Some (Errorf ''operation.kind requires operation.id'' []) else None)
      else if TrimSpace (op_Kind oper) = []
      then Some (Errorf ''operation.kind is required when operation.id is present'' [])
      else if TrimSpace (lr_ID lease) = []
      then Some (Errorf ''lease.id is required when operation.id is present'' [])
      else if TrimSpace (pqr_ItemID patch) = []
      then Some (Errorf ''patch_queue.item_id is required when operation.id is present'' [])
      else None)"

definition Context_Validate :: "Context \<Rightarrow> err option" where
  "Context_Validate c = guards
     [fail_if (TrimSpace (ctx_Schema c) \<noteq> [] \<and> TrimSpace (ctx_Schema c) \<noteq> SchemaVersion)
        (Errorf ''unsupported repo authority context schema %q'' [AStr (ctx_Schema c)]),
      fail_if (TrimSpace (ctx_Mode c) \<noteq> ModePatchOnlyTempRepo \<and> TrimSpace (ctx_Mode c) \<noteq> ModeControlledQueue)
        (Errorf ''unsupported repo authority mode %q'' [AStr (ctx_Mode c)]),
      requireNonEmpty ''workspace_id'' (ctx_WorkspaceID c),
      requireNonEmpty ''task_id'' (ctx_TaskID c),
      requireNonEmpty ''session_id'' (ctx_SessionID c),
      requireNonEmpty ''run_id'' (ctx_RunID c),
      requireNonEmpty ''agent_id'' (ctx_AgentID c),
      requireNonEmpty ''principal.type'' (pr_Type (ctx_Principal c)),
      requireNonEmpty ''principal.id'' (pr_ID (ctx_Principal c)),
      requireNonEmpty ''capability_snapshot.id'' (cs_ID (ctx_CapabilitySnapshot c)),
      requireNonEmpty ''repo_root'' (ctx_RepoRoot c),
      validateCanonicalPathset (ctx_Pathset c),
      validateBaseIdentity (ctx_Base c) (ctx_Pathset c),
      validateLeaseRef (ctx_Lease c),
      validatePatchQueueRef (ctx_PatchQueue c) (ctx_Lease c),
      validateOperationRef (ctx_Operation c) (ctx_Lease c) (ctx_PatchQueue c)]"

definition WithDefaults :: "Context \<Rightarrow> Context" where
  "WithDefaults c = (if TrimSpace (ctx_Schema c) = [] then c\<lparr>ctx_Schema := SchemaVersion\<rparr> else c)"

definition json_context :: "Context \<Rightarrow> json" where
  "json_context c = JObj
     ([(''schema'', JStr (ctx_Schema c)), (''mode'', JStr (ctx_Mode c)),
       (''workspace_id'', JStr (ctx_WorkspaceID c)), (''task_id'', JStr (ctx_TaskID c)),
       (''session_id'', JStr (ctx_SessionID c)), (''run_id'', JStr (ctx_RunID c)),
       (''agent_id'', JStr (ctx_AgentID c)),
       (''principal'', JObj [(''type'', JStr (pr_Type (ctx_Principal c))), (''id'', JStr (pr_ID (ctx_Principal c)))]),
       (''capability_snapshot'', JObj ((''id'', JStr (cs_ID (ctx_CapabilitySnapshot c)))
          # omit_str ''schema'' (cs_Schema (ctx_CapabilitySnapshot c)))),
       (''repo_root'', JStr (ctx_RepoRoot c)),
       (''base'', JObj (omit_str ''ref'' (base_Ref (ctx_Base c)) @ omit_str ''tree_hash'' (base_TreeHash (ctx_Base c))
          @ (if base_FileHashes (ctx_Base c) = [] then []
             else [(''file_hashes'', json_map (base_FileHashes (ctx_Base c)))])))]
      @ omit_arr ''pathset'' (map JStr (ctx_Pathset c))
      @ [(''lease'', JObj (omit_str ''id'' (lr_ID (ctx_Lease c)) @ omit_int ''term'' (lr_Term (ctx_Lease c)))),
         (''patch_queue'', JObj (omit_str ''queue_id'' (pqr_QueueID (ctx_PatchQueue c))
            @ omit_str ''item_id'' (pqr_ItemID (ctx_PatchQueue c)))),
         (''operation'', JObj (omit_str ''id'' (op_ID (ctx_Operation c)) @ omit_str ''kind'' (op_Kind (ctx_Operation c))))])"

definition Context_Digest :: "Context \<Rightarrow> string result" where
  "Context_Digest c0 =
     (let c = WithDefaults c0
      in require (Context_Validate c) (Inr (json_digest (json_context c))))"

definition cleanKeyPart :: "string \<Rightarrow> string" where
  "cleanKeyPart v0 =
     (let v = ReplaceByte (CHR 0x5C) (CHR ''_'') (ReplaceByte slash (CHR ''_'')
                (ReplaceByte (CHR '':'') (CHR ''_'') (TrimSpace v0)))
      in if v = [] then ''_'' else v)"

definition short_digest :: "nat \<Rightarrow> string \<Rightarrow> string" where
  "short_digest n digest = (let s = TrimPrefix digest ''sha256:'' in if n < length s then take n s else s)"

definition Context_Key :: "Context \<Rightarrow> string result" where
  "Context_Key c = bind_result (Context_Digest c) (\<lambda>digest.
     Inr (join_with '':''
       [''repoctx'', ''v1'', cleanKeyPart (ctx_Mode c), cleanKeyPart (ctx_WorkspaceID c), cleanKeyPart (ctx_TaskID c),
        cleanKeyPart (ctx_SessionID c), cleanKeyPart (ctx_RunID c), cleanKeyPart (ctx_AgentID c), short_digest 16 digest]))"

subsection \<open>Normalised paths stay inside the repository\<close>

definition plain_part :: "string \<Rightarrow> bool" where
  "plain_part w \<longleftrightarrow> w \<noteq> [] \<and> w \<noteq> ''.'' \<and> w \<noteq> ''..'' \<and> slash \<notin> set w"

text \<open>The components that a relative slash path cleans to, when no dot-dot is left over.\<close>

lemma clean_without_escape:
  assumes rel: "s \<noteq> []" "\<not> IsAbs s"
    and ok: "path_Clean s \<noteq> ''.''" "path_Clean s \<noteq> ''..''" "\<not> HasPrefix (path_Clean s) ''../''"
  obtains ws where "path_Clean s = join_with [slash] ws" and "ws \<noteq> []" and "\<forall>w \<in> set ws. plain_part w"
proof -
  define ws where "ws = clean_parts False (split_on slash s)"
  have noslash: "\<forall>w \<in> set (split_on slash s). slash \<notin> set w" by (blast dest: split_on_parts)
  obtain k xs where ws: "ws = replicate k ''..'' @ xs" and xs: "\<forall>w \<in> set xs. w \<noteq> ''..''"
    and parts: "\<forall>w \<in> set ws. w \<noteq> [] \<and> w \<noteq> ''.'' \<and> slash \<notin> set w"
    unfolding ws_def by (rule clean_parts_shape [OF noslash])
  have p: "path_Clean s = (if ws = [] then ''.'' else join_with [slash] ws)"
    using path_Clean_relative [OF rel] by (simp only: ws_def Let_def)
  have ne: "ws \<noteq> []"
  proof
    assume "ws = []"
    with p ok(1) show False by simp
  qed
  have "k = 0"
  proof (rule ccontr)
    assume "k \<noteq> 0"
    then obtain j where "k = Suc j" by (cases k) simp_all
    with ws have ws2: "ws = ''..'' # (replicate j ''..'' @ xs)" by simp
    show False
    proof (cases "replicate j ''..'' @ xs")
      case Nil
      with ws2 have "ws = [''..'']" by simp
      with p ok(2) show False by simp
    next
      case (Cons a as)
      with ws2 have "ws = ''..'' # a # as" by simp
      with p have "path_Clean s = ''../'' @ join_with [slash] (a # as)" by simp
      with ok(3) show False by (simp only: HasPrefix_def) simp
    qed
  qed
  with ws xs parts have "\<forall>w \<in> set ws. plain_part w" by (simp add: plain_part_def)
  with p ne that [of ws] show ?thesis by simp
qed

text \<open>The guards of the two normalisers, read off their success.\<close>

lemma NormalizePath_Inr:
  "NormalizePath raw = Inr p \<longleftrightarrow>
     CHR 0x00 \<notin> set raw \<and> TrimSpace raw \<noteq> [] \<and> \<not> hasWindowsVolume (TrimSpace raw) \<and>
     (let s = ReplaceByte (CHR 0x5C) slash (TrimSpace raw)
      in \<not> (HasPrefix s [slash] \<or> IsAbs s) \<and> \<not> (path_Clean s = ''.'' \<or> path_Clean s = []) \<and>
         \<not> (path_Clean s = ''..'' \<or> HasPrefix (path_Clean s) ''../'') \<and> p = path_Clean s)"
  unfolding NormalizePath_def Let_def if_Inl_Inr sum.inject by (simp only: eq_commute [of p])

lemma normalizeResolverPath_Inr:
  "normalizeResolverPath raw = Inr p \<longleftrightarrow>
     CHR 0x00 \<notin> set raw \<and> TrimSpace raw \<noteq> [] \<and> \<not> hasWindowsVolume (TrimSpace raw) \<and>
     (let s = ReplaceByte (CHR 0x5C) slash (TrimSpace raw)
      in \<not> (HasPrefix s [slash] \<or> IsAbs s) \<and> ''..'' \<notin> set (split_on slash s) \<and>
         \<not> (path_Clean s = ''.'' \<or> path_Clean s = []) \<and> p = path_Clean s)"
  unfolding normalizeResolverPath_def Let_def if_Inl_Inr sum.inject by (simp only: eq_commute [of p])

lemma NormalizePath_clean:
  assumes "NormalizePath raw = Inr p"
  defines "s \<equiv> ReplaceByte (CHR 0x5C) slash (TrimSpace raw)"
  shows "s \<noteq> []" and "\<not> IsAbs s" and "p = path_Clean s" and "p \<noteq> ''.''" and "p \<noteq> ''..''"
    and "\<not> HasPrefix p ''../''"
proof -
  have "s = [] \<longleftrightarrow> TrimSpace raw = []" by (simp add: s_def ReplaceByte_def)
  with assms(1) show "s \<noteq> []" and "\<not> IsAbs s" and "p = path_Clean s" and "p \<noteq> ''.''" and "p \<noteq> ''..''"
    and "\<not> HasPrefix p ''../''"
    unfolding NormalizePath_Inr Let_def s_def [symmetric] by metis+
qed

text \<open>A path that normalisation does not change carries no surrounding white space.\<close>

lemma NormalizePath_fixed_trimmed:
  assumes "NormalizePath p = Inr p" shows "TrimSpace p = p"
proof (rule TrimSpace_full)
  let ?s = "ReplaceByte (CHR 0x5C) slash (TrimSpace p)"
  have "length p \<le> length ?s"
    using NormalizePath_clean(3) [OF assms] path_Clean_length [OF NormalizePath_clean(1,2) [OF assms]] by simp
  then show "length p \<le> length (TrimSpace p)" by (simp add: ReplaceByte_def)
qed

lemma NormalizePath_parts:
  assumes "NormalizePath raw = Inr p"
  obtains ws where "p = join_with [slash] ws" and "ws \<noteq> []" and "\<forall>w \<in> set ws. plain_part w"
  using clean_without_escape [OF NormalizePath_clean(1,2) [OF assms]] NormalizePath_clean(3-6) [OF assms] that
  by blast

lemma split_plain:
  assumes "p = join_with [slash] ws" and "ws \<noteq> []" and "\<forall>w \<in> set ws. plain_part w"
  shows "split_on slash p = ws"
proof -
  have "\<forall>w \<in> set ws. slash \<notin> set w" using assms(3) unfolding plain_part_def by blast
  with assms show ?thesis by (simp add: split_on_join)
qed

lemma plain_path_relative:
  assumes "p = join_with [slash] ws" and "ws \<noteq> []" and "\<forall>w \<in> set ws. plain_part w"
  shows "p \<noteq> []" and "\<not> IsAbs p"
proof -
  have nonempty: "\<forall>w \<in> set ws. w \<noteq> []" using assms(3) unfolding plain_part_def by blast
  then show p: "p \<noteq> []" using assms(1,2) by (simp add: join_with_not_Nil)
  have in_ws: "hd ws \<in> set ws" using assms(2) by simp
  with nonempty have "hd ws \<noteq> []" by blast
  then have "hd p = hd (hd ws)" "hd (hd ws) \<in> set (hd ws)" using assms(1,2) by (simp_all add: hd_join_with)
  moreover have "slash \<notin> set (hd ws)" using in_ws assms(3) unfolding plain_part_def by blast
  ultimately have "hd p \<noteq> slash" by metis
  with p show "\<not> IsAbs p" by (cases p) (auto simp: IsAbs_def HasPrefix_def)
qed

lemma NormalizePath_not_Nil:
  assumes "NormalizePath raw = Inr p" shows "p \<noteq> []"
proof -
  obtain ws where "p = join_with [slash] ws" "ws \<noteq> []" "\<forall>w \<in> set ws. plain_part w"
    by (rule NormalizePath_parts [OF assms])
  then show ?thesis by (rule plain_path_relative(1))
qed

lemma clean_step_no_dotdot:
  assumes "w \<noteq> ''..''" and "''..'' \<notin> set st" shows "''..'' \<notin> set (clean_step r w st)"
proof -
  have "clean_step r w st = (if w = [] \<or> w = ''.'' then st else w # st)"
    unfolding clean_step_def using assms(1) by (simp only: if_False)
  with assms show ?thesis by (simp only: split: if_split) simp
qed

lemma fold_clean_no_dotdot:
  "''..'' \<notin> set ws \<Longrightarrow> ''..'' \<notin> set st \<Longrightarrow> ''..'' \<notin> set (fold (clean_step r) ws st)"
proof (induction ws arbitrary: st)
  case (Cons w ws)
  have "''..'' \<notin> set (clean_step r w st)"
    using Cons.prems unfolding set_simps insert_iff by (intro clean_step_no_dotdot) blast+
  moreover have "''..'' \<notin> set ws" using Cons.prems(1) by (simp only: set_simps insert_iff de_Morgan_disj simp_thms)
  ultimately show ?case using Cons.IH by (simp only: fold_simps simp_thms)
qed (simp only: fold_simps simp_thms)

text \<open>The resolver's normaliser accepts exactly the inputs without a dot-dot component.\<close>

lemma join_dotdot_parts:
  assumes "ws \<noteq> []" and "\<forall>w \<in> set ws. slash \<notin> set w" and "''..'' \<notin> set ws"
  shows "join_with [slash] ws \<noteq> ''..''" and "\<not> HasPrefix (join_with [slash] ws) ''../''"
proof -
  have split: "split_on slash (join_with [slash] ws) = ws" using assms(1,2) by (rule split_on_join)
  have dd: "slash \<notin> set ''..''" by simp
  show "join_with [slash] ws \<noteq> ''..''"
  proof
    assume "join_with [slash] ws = ''..''"
    with split have "ws = split_on slash ''..''" by simp
    then have "ws = [''..'']" by (simp only: split_on_no_sep [OF dd])
    with assms(3) show False by simp
  qed
  show "\<not> HasPrefix (join_with [slash] ws) ''../''"
  proof
    assume "HasPrefix (join_with [slash] ws) ''../''"
    then obtain t where "join_with [slash] ws = ''../'' @ t" unfolding HasPrefix_def prefix_def by blast
    then have "join_with [slash] ws = ''..'' @ slash # t" by simp
    with split have "ws = split_on slash (''..'' @ slash # t)" by simp
    then have "ws = ''..'' # split_on slash t" by (simp only: split_on_append_sep [OF dd])
    with assms(3) show False by simp
  qed
qed

lemma clean_no_escape:
  assumes "''..'' \<notin> set (split_on slash s)" "s \<noteq> []" "\<not> IsAbs s"
  shows "path_Clean s \<noteq> ''..''" and "\<not> HasPrefix (path_Clean s) ''../''"
proof -
  define ws where "ws = clean_parts False (split_on slash s)"
  have noslash: "\<forall>w \<in> set (split_on slash s). slash \<notin> set w" by (blast dest: split_on_parts)
  have p: "path_Clean s = (if ws = [] then ''.'' else join_with [slash] ws)"
    using path_Clean_relative [OF assms(2,3)] by (simp only: ws_def Let_def)
  have "path_Clean s \<noteq> ''..'' \<and> \<not> HasPrefix (path_Clean s) ''../''"
  proof (cases "ws = []")
    case True
    with p show ?thesis by (simp add: HasPrefix_def)
  next
    case False
    have "\<forall>w \<in> set ws. slash \<notin> set w"
      unfolding ws_def by (rule clean_parts_shape [OF noslash, of False]) blast
    moreover have "''..'' \<notin> set ws"
      using fold_clean_no_dotdot [OF assms(1), of "[]" False] by (simp only: ws_def clean_parts_def set_rev) simp
    ultimately show ?thesis
      using join_dotdot_parts [OF False] p False by (simp only: if_False simp_thms)
  qed
  then show "path_Clean s \<noteq> ''..''" and "\<not> HasPrefix (path_Clean s) ''../''" by blast+
qed

lemma normalizeResolverPath_iff:
  "normalizeResolverPath raw = Inr p \<longleftrightarrow>
     NormalizePath raw = Inr p \<and> ''..'' \<notin> set (split_on slash (ReplaceByte (CHR 0x5C) slash (TrimSpace raw)))"
proof -
  define s where "s = ReplaceByte (CHR 0x5C) slash (TrimSpace raw)"
  have nil: "s = [] \<longleftrightarrow> TrimSpace raw = []" by (simp add: s_def ReplaceByte_def)
  show ?thesis
    using clean_no_escape [of s] nil
    unfolding NormalizePath_Inr normalizeResolverPath_Inr Let_def s_def [symmetric] by blast
qed

subsection \<open>Canonical pathsets\<close>

lemma canonical_paths_None:
  "canonical_paths i seen prev ps = None \<longleftrightarrow>
     (\<forall>p \<in> set ps. NormalizePath p = Inr p) \<and> distinct ps \<and> set ps \<inter> set seen = {} \<and>
     sorted ps \<and> (ps \<noteq> [] \<longrightarrow> 0 < i \<longrightarrow> prev \<le> hd ps)"
proof (induction i seen prev ps rule: canonical_paths.induct)
  case (2 i seen prev raw raws)
  show ?case
  proof (cases "NormalizePath raw")
    case (Inl e)
    then show ?thesis by auto
  next
    case (Inr p)
    show ?thesis
    proof (cases "raw = p \<and> p \<notin> set seen \<and> \<not> (0 < i \<and> p < prev)")
      case True
      with Inr have raw: "NormalizePath raw = Inr raw" and fresh: "raw \<notin> set seen" and
        prev: "0 < i \<longrightarrow> prev \<le> raw" by (auto simp: not_less)
      have "canonical_paths i seen prev (raw # raws) = canonical_paths (Suc i) (raw # seen) raw raws"
        using raw fresh prev by (auto dest: leD)
      also have "\<dots> = None \<longleftrightarrow> (\<forall>p \<in> set raws. NormalizePath p = Inr p) \<and> distinct raws \<and>
          set raws \<inter> set (raw # seen) = {} \<and> sorted raws \<and> (raws \<noteq> [] \<longrightarrow> 0 < Suc i \<longrightarrow> raw \<le> hd raws)"
        using True Inr by (intro 2) auto
      also have "\<dots> \<longleftrightarrow> (\<forall>p \<in> set raws. NormalizePath p = Inr p) \<and> distinct (raw # raws) \<and>
          set raws \<inter> set seen = {} \<and> sorted (raw # raws)"
        by (cases raws) (auto simp del: sorted_wrt.simps simp: sorted0 sorted1 sorted2)
      finally show ?thesis using raw fresh prev by auto
    next
      case False
      with Inr show ?thesis by auto
    qed
  qed
qed simp

definition canonical_pathset :: "string list \<Rightarrow> bool" where
  "canonical_pathset ps \<longleftrightarrow> (\<forall>p \<in> set ps. NormalizePath p = Inr p) \<and> distinct ps \<and> sorted ps"

lemma validateCanonicalPathset_None: "validateCanonicalPathset ps = None \<longleftrightarrow> canonical_pathset ps"
  by (auto simp: validateCanonicalPathset_def canonical_paths_None canonical_pathset_def)

lemma normalize_paths_fixed:
  "\<forall>p \<in> set ps. NormalizePath p = Inr p \<Longrightarrow> distinct ps \<Longrightarrow> set ps \<inter> set seen = {} \<Longrightarrow>
   normalize_paths i seen ps = Inr ps"
  by (induction i seen ps rule: normalize_paths.induct) auto

lemma NormalizePathSet_canonical: "canonical_pathset ps \<Longrightarrow> NormalizePathSet ps = Inr ps"
  by (simp add: NormalizePathSet_def canonical_pathset_def normalize_paths_fixed sorted_sort_id)

lemma normalize_paths_Inr:
  "normalize_paths i seen raws = Inr ps \<Longrightarrow>
     distinct ps \<and> set ps \<inter> set seen = {} \<and> (\<forall>p \<in> set ps. \<exists>raw \<in> set raws. NormalizePath raw = Inr p)"
proof (induction i seen raws arbitrary: ps rule: normalize_paths.induct)
  case (2 i seen raw raws)
  then show ?case by (fastforce split: sum.splits if_splits)
qed simp

lemma NormalizePathSet_Inr:
  assumes "NormalizePathSet raws = Inr ps"
  shows "sorted ps" and "distinct ps" and "\<forall>p \<in> set ps. \<exists>raw \<in> set raws. NormalizePath raw = Inr p"
  using assms by (auto simp: NormalizePathSet_def split: if_splits sum.splits dest: normalize_paths_Inr)

lemma requireNonEmpty_None [simp]: "requireNonEmpty f v = None \<longleftrightarrow> TrimSpace v \<noteq> []"
  by (simp add: requireNonEmpty_def)

lemma WithDefaults_simps [simp]:
  "ctx_WorkspaceID (WithDefaults c) = ctx_WorkspaceID c" "ctx_TaskID (WithDefaults c) = ctx_TaskID c"
  "ctx_SessionID (WithDefaults c) = ctx_SessionID c" "ctx_RunID (WithDefaults c) = ctx_RunID c"
  "ctx_AgentID (WithDefaults c) = ctx_AgentID c" "ctx_Principal (WithDefaults c) = ctx_Principal c"
  "ctx_CapabilitySnapshot (WithDefaults c) = ctx_CapabilitySnapshot c"
  "ctx_RepoRoot (WithDefaults c) = ctx_RepoRoot c" "ctx_Base (WithDefaults c) = ctx_Base c"
  "ctx_Pathset (WithDefaults c) = ctx_Pathset c" "ctx_Lease (WithDefaults c) = ctx_Lease c"
  "ctx_PatchQueue (WithDefaults c) = ctx_PatchQueue c" "ctx_Operation (WithDefaults c) = ctx_Operation c"
  "ctx_Mode (WithDefaults c) = ctx_Mode c"
  by (simp_all add: WithDefaults_def)

lemma WithDefaults_idem [simp]: "WithDefaults (WithDefaults c) = WithDefaults c"
  by (simp add: WithDefaults_def)

lemma Context_Validate_pathset:
  assumes "Context_Validate c = None"
  shows "canonical_pathset (ctx_Pathset c)" and "ctx_Pathset c \<noteq> []"
  using assms
  by (simp_all only: Context_Validate_def guards_Cons_None validateCanonicalPathset_None validateBaseIdentity_def
      fail_if_None simp_thms)

lemma Context_Validate_ids:
  assumes "Context_Validate c = None"
  shows "TrimSpace (ctx_WorkspaceID c) \<noteq> []" "TrimSpace (ctx_TaskID c) \<noteq> []"
    "TrimSpace (ctx_SessionID c) \<noteq> []" "TrimSpace (ctx_RunID c) \<noteq> []" "TrimSpace (ctx_AgentID c) \<noteq> []"
    "TrimSpace (pr_Type (ctx_Principal c)) \<noteq> []" "TrimSpace (pr_ID (ctx_Principal c)) \<noteq> []"
    "TrimSpace (cs_ID (ctx_CapabilitySnapshot c)) \<noteq> []" "TrimSpace (ctx_RepoRoot c) \<noteq> []"
  using assms by (simp_all only: Context_Validate_def guards_Cons_None requireNonEmpty_None simp_thms)

lemma Context_Digest_Inr:
  "Context_Digest c = Inr d \<longleftrightarrow>
     Context_Validate (WithDefaults c) = None \<and> d = json_digest (json_context (WithDefaults c))"
  by (auto simp: Context_Digest_def Let_def)

lemma cleanKeyPart_no_colon: "CHR '':'' \<notin> set (cleanKeyPart v)"
  by (auto simp: cleanKeyPart_def Let_def ReplaceByte_def)

subsection \<open>A concrete context\<close>

text \<open>A valid context, for the witnesses.\<close>

definition demo_context :: Context where
  "demo_context =
     \<lparr>ctx_Schema = SchemaVersion, ctx_Mode = ModePatchOnlyTempRepo, ctx_WorkspaceID = ''ws'', ctx_TaskID = ''task'',
      ctx_SessionID = ''sess'', ctx_RunID = ''run'', ctx_AgentID = ''agent'',
      ctx_Principal = \<lparr>pr_Type = ''agent'', pr_ID = ''a1''\<rparr>,
      ctx_CapabilitySnapshot = \<lparr>cs_ID = ''cap'', cs_Schema = []\<rparr>, ctx_RepoRoot = ''/repo'',
      ctx_Base = \<lparr>base_Ref = ''main'', base_TreeHash = [], base_FileHashes = [(''a.go'', ''h1'')]\<rparr>,
      ctx_Pathset = [''a.go'', ''b.go''], ctx_Lease = no_lease, ctx_PatchQueue = no_patch_queue, ctx_Operation = no_operation\<rparr>"

lemma demo_context_valid: "Context_Validate demo_context = None" "WithDefaults demo_context = demo_context"
  by code_simp+

subsection \<open>Properties\<close>

text \<open>C31. A path that \<open>NormalizePath\<close> accepts is relative and non-empty, and each of its
  slash-separated components is a proper name: not empty, not a dot, not a dot-dot. So it
  cannot leave the repository root.\<close>

theorem NormalizePath_confined:
  assumes "NormalizePath raw = Inr p"
  shows "p \<noteq> [] \<and> \<not> IsAbs p \<and> list_all plain_part (split_on slash p)"
proof -
  obtain ws where ws: "p = join_with [slash] ws" "ws \<noteq> []" "\<forall>w \<in> set ws. plain_part w"
    by (rule NormalizePath_parts [OF assms])
  from plain_path_relative [OF ws] split_plain [OF ws] ws(3) show ?thesis by (simp add: list_all_iff)
qed

theorem NormalizePath_confined_witness:
  "NormalizePath ''a/./b/../c'' = Inr ''a/c'' \<and> list_all plain_part (split_on slash ''a/c'')"
proof -
  have "NormalizePath ''a/./b/../c'' = Inr ''a/c''" by code_simp
  with NormalizePath_confined [OF this] show ?thesis by blast
qed

text \<open>The path resolver's normaliser accepts exactly the paths that \<open>NormalizePath\<close>
  accepts and that have no dot-dot component, and gives the same result on them.\<close>

theorem normalizeResolverPath_refines:
  "normalizeResolverPath raw = Inr p \<longleftrightarrow>
     NormalizePath raw = Inr p \<and> ''..'' \<notin> set (split_on slash (ReplaceByte (CHR 0x5C) slash (TrimSpace raw)))"
  by (rule normalizeResolverPath_iff)

text \<open>The Windows-volume guard looks at the raw input only: a leading dot component hides
  the volume from it, and the normalised result names the volume. Normalisation is not
  idempotent either, since the result is not trimmed again.\<close>

theorem NormalizePath_volume_hidden:
  "is_ok (NormalizePath ''C:/x'') = False \<and> NormalizePath ''./C:/x'' = Inr ''C:/x'' \<and>
   normalizeResolverPath ''./C:/x'' = Inr ''C:/x'' \<and>
   NormalizePath ''./ a'' = Inr '' a'' \<and> NormalizePath '' a'' = Inr ''a''"
  by code_simp

end
