(* ===== verification/Path_Resolver.thy ===== *)
theory Path_Resolver
  imports Repo_Context
begin

section \<open>The path resolver\<close>

text \<open>
  \<open>internal/repoauthority/path_resolver.go\<close>: a repository path is resolved below the root of the
  repository, one component after the other, and refused when a component is a symbolic link, leads
  outside the root, or crosses into a nested repository. The operating system is a parameter: a record
  of the four calls the resolver makes. \<open>filepath\<close> is that of a Unix build. The normaliser
  \<open>normalizeResolverPath\<close> is in \<open>Repo_Context\<close>.
\<close>

subsection \<open>The operating system\<close>

record FileInfo =
  fi_IsDir :: bool
  fi_IsSymlink :: bool

text \<open>\<open>os.Lstat\<close>: the errors for which \<open>os.IsNotExist\<close> holds are told apart from the others.\<close>

datatype lstat_result = LNotExist | LFailed err | LInfo FileInfo

record FileSystem =
  fs_Abs :: "string \<Rightarrow> string result"
  fs_EvalSymlinks :: "string \<Rightarrow> string result"
  fs_Stat :: "string \<Rightarrow> FileInfo result"
  fs_Lstat :: "string \<Rightarrow> lstat_result"

subsection \<open>Package path/filepath\<close>

definition filepath_Join :: "string \<Rightarrow> string \<Rightarrow> string" where
  "filepath_Join a b = (if a \<noteq> [] then path_Clean (a @ [slash] @ b) else if b \<noteq> [] then path_Clean b else [])"

text \<open>The components that \<open>filepath.Rel\<close> compares; the root is one empty component.\<close>

definition rel_parts :: "string \<Rightarrow> string list" where
  "rel_parts p = (if p = [] then [] else if p = [slash] then [[]] else split_on slash p)"

fun strip_common :: "string list \<Rightarrow> string list \<Rightarrow> string list \<times> string list" where
  "strip_common (b # bs) (t # ts) = (if b = t then strip_common bs ts else (b # bs, t # ts))"
| "strip_common bs ts = (bs, ts)"

definition filepath_Rel :: "string \<Rightarrow> string \<Rightarrow> string result" where
  "filepath_Rel basepath targpath =
     (let base0 = path_Clean basepath; targ = path_Clean targpath
      in if targ = base0 then Inr ''.''
         else let base = (if base0 = ''.'' then [] else base0); failure = Inl (Errorf ''Rel: can't make %s relative to %s'' [AStr targpath, AStr basepath])
         in if IsAbs base \<noteq> IsAbs targ then failure
         else case strip_common (rel_parts base) (rel_parts targ) of (b, t) \<Rightarrow>
           if b \<noteq> [] \<and> t \<noteq> [] \<and> hd b = ''..'' then failure
           else Inr (join_with [slash] (replicate (length b) ''..'' @ t)))"

subsection \<open>The resolver\<close>

record PathResolver =
  pr_repoRoot :: string

record ResolvedPath =
  rp_RepoRoot :: string
  rp_RelPath :: string
  rp_AbsPath :: string
  rp_Existing :: bool
  rp_ExistingAncestor :: string

definition NewPathResolver :: "FileSystem \<Rightarrow> string \<Rightarrow> PathResolver result" where
  "NewPathResolver fs repoRoot =
     (let root = TrimSpace repoRoot
      in require (fail_if (root = []) (Errorf ''repo_root is required'' []))
        (bind_result (map_err (\<lambda>e. Errorf ''resolve repo root: %w'' [AErr e]) (fs_Abs fs root)) (\<lambda>absRoot.
         bind_result (map_err (\<lambda>e. Errorf ''canonicalize repo root: %w'' [AErr e]) (fs_EvalSymlinks fs absRoot)) (\<lambda>canonicalRoot.
         bind_result (map_err (\<lambda>e. Errorf ''stat repo root: %w'' [AErr e]) (fs_Stat fs canonicalRoot)) (\<lambda>info.
         require (fail_if (\<not> fi_IsDir info) (Errorf ''repo_root is not a directory: %s'' [AStr repoRoot]))
           (Inr \<lparr>pr_repoRoot = path_Clean canonicalRoot\<rparr>))))))"

definition PathResolver_RepoRoot :: "PathResolver \<Rightarrow> string" where
  "PathResolver_RepoRoot r = pr_repoRoot r"

definition ensurePathInsideRoot :: "string \<Rightarrow> string \<Rightarrow> err option" where
  "ensurePathInsideRoot repoRoot candidate =
     (case filepath_Rel (path_Clean repoRoot) (path_Clean candidate) of
        Inl e \<Rightarrow> Some (Errorf ''compute repo-relative path for %q: %w'' [AStr candidate, AErr e])
      | Inr rel \<Rightarrow>
          if rel = ''.'' then None
          else fail_if (rel = ''..'' \<or> HasPrefix rel ''../'') (Errorf ''path escapes repo root: %s'' [AStr candidate]))"

definition samePath :: "string \<Rightarrow> string \<Rightarrow> bool" where
  "samePath a b \<longleftrightarrow> filepath_Rel (path_Clean a) (path_Clean b) = Inr ''.''"

definition rejectLinkOrEscapedResolvedPath :: "FileSystem \<Rightarrow> string \<Rightarrow> string \<Rightarrow> FileInfo \<Rightarrow> err option" where
  "rejectLinkOrEscapedResolvedPath fs repoRoot current info =
     (if fi_IsSymlink info then Some (Errorf ''symlink path component is not allowed: %s'' [AStr current])
      else case fs_EvalSymlinks fs current of
        Inl e \<Rightarrow> Some (Errorf ''canonicalize path component %q: %w'' [AStr current, AErr e])
      | Inr resolved \<Rightarrow> wrap_err ''resolved path escapes repo root: %w'' (ensurePathInsideRoot repoRoot resolved))"

definition rejectNestedGitBoundary :: "FileSystem \<Rightarrow> string \<Rightarrow> string \<Rightarrow> string \<Rightarrow> err option" where
  "rejectNestedGitBoundary fs repoRoot dir relPath =
     (if samePath repoRoot dir then None
      else let gitMarker = filepath_Join dir ''.git''
      in case fs_Lstat fs gitMarker of
           LInfo _ \<Rightarrow> Some (Errorf ''path crosses nested git repository boundary while resolving %q: %s'' [AStr relPath, AStr dir])
         | LFailed e \<Rightarrow> Some (Errorf ''inspect nested git boundary %q: %w'' [AStr gitMarker, AErr e])
         | LNotExist \<Rightarrow> None)"

text \<open>The loop over the components: those passed, the path reached, and the last one that exists.\<close>

fun verify_chain :: "FileSystem \<Rightarrow> string \<Rightarrow> string \<Rightarrow> string list \<Rightarrow> string \<Rightarrow> string \<Rightarrow> string list \<Rightarrow> (bool \<times> string) result" where
  "verify_chain fs root relPath passed current ancestor [] = Inr (True, ancestor)"
| "verify_chain fs root relPath passed current0 ancestor (part # parts) =
     (let current = filepath_Join current0 part
      in case fs_Lstat fs current of
           LNotExist \<Rightarrow> Inr (False, ancestor)
         | LFailed e \<Rightarrow> Inl (Errorf ''inspect path %q: %w'' [AStr relPath, AErr e])
         | LInfo info \<Rightarrow>
             require (rejectLinkOrEscapedResolvedPath fs root current info)
            (require (if fi_IsDir info then rejectNestedGitBoundary fs root current relPath
                      else fail_if (parts \<noteq> []) (Errorf ''path component is not a directory: %q'' [AStr (join_with [slash] (passed @ [part]))]))
              (verify_chain fs root relPath (passed @ [part]) current current parts)))"

definition verifyExistingPathChain :: "FileSystem \<Rightarrow> PathResolver \<Rightarrow> string \<Rightarrow> (bool \<times> string) result" where
  "verifyExistingPathChain fs r relPath = verify_chain fs (pr_repoRoot r) relPath [] (pr_repoRoot r) (pr_repoRoot r) (split_on slash relPath)"

definition Resolve :: "FileSystem \<Rightarrow> PathResolver \<Rightarrow> string \<Rightarrow> ResolvedPath result" where
  "Resolve fs r rawPath =
     require (fail_if (TrimSpace (pr_repoRoot r) = []) (Errorf ''path resolver repo_root is required'' []))
    (bind_result (normalizeResolverPath rawPath) (\<lambda>relPath.
     let absPath = path_Clean (filepath_Join (pr_repoRoot r) relPath)
     in require (ensurePathInsideRoot (pr_repoRoot r) absPath)
       (bind_result (verifyExistingPathChain fs r relPath) (\<lambda>(existing, ancestor).
        Inr \<lparr>rp_RepoRoot = pr_repoRoot r, rp_RelPath = relPath, rp_AbsPath = absPath, rp_Existing = existing, rp_ExistingAncestor = ancestor\<rparr>))))"

fun resolve_each :: "FileSystem \<Rightarrow> PathResolver \<Rightarrow> nat \<Rightarrow> string list \<Rightarrow> string \<Rightarrow> string list \<Rightarrow> ResolvedPath list result" where
  "resolve_each fs r i seen previous [] = Inr []"
| "resolve_each fs r i seen previous (rawPath # paths) =
     bind_result (map_err (\<lambda>e. Errorf ''pathset[%d]: %w'' [AInt (int i), AErr e]) (Resolve fs r rawPath)) (\<lambda>item.
     require (guards
       [fail_if (rawPath \<noteq> rp_RelPath item)
          (Errorf ''pathset[%d] is not normalized: got %q want %q'' [AInt (int i), AStr rawPath, AStr (rp_RelPath item)]),
        fail_if (rp_RelPath item \<in> set seen) (Errorf ''pathset contains duplicate path %q'' [AStr (rp_RelPath item)]),
        fail_if (0 < i \<and> rp_RelPath item < previous)
          (Errorf ''pathset is not sorted at index %d: %q before %q'' [AInt (int i), AStr (rp_RelPath item), AStr previous])])
     (bind_result (resolve_each fs r (Suc i) (rp_RelPath item # seen) (rp_RelPath item) paths) (\<lambda>items. Inr (item # items))))"

definition ResolvePathSet :: "FileSystem \<Rightarrow> PathResolver \<Rightarrow> string list \<Rightarrow> ResolvedPath list result" where
  "ResolvePathSet fs r paths = require (fail_if (paths = []) (Errorf ''pathset is required'' [])) (resolve_each fs r 0 [] [] paths)"

subsection \<open>Absolute paths\<close>

text \<open>The components of an absolute path after cleaning, and the clean path with given components.\<close>

definition abs_parts :: "string \<Rightarrow> string list" where
  "abs_parts p = clean_parts True (split_on slash p)"

definition abs_path :: "string list \<Rightarrow> string" where
  "abs_path ws = slash # join_with [slash] ws"

definition plain_parts :: "string list \<Rightarrow> bool" where
  "plain_parts ws \<longleftrightarrow> (\<forall>w \<in> set ws. plain_part w)"

definition inside_root :: "string \<Rightarrow> string \<Rightarrow> bool" where
  "inside_root root p \<longleftrightarrow> IsAbs p \<and> prefix (abs_parts root) (abs_parts p)"

lemma plain_parts_simps [simp]:
  "plain_parts []" "plain_parts (ws @ vs) \<longleftrightarrow> plain_parts ws \<and> plain_parts vs"
  by (auto simp: plain_parts_def)

lemma plain_partsD:
  assumes "plain_parts ws"
  shows "\<forall>w \<in> set ws. slash \<notin> set w" and "\<forall>w \<in> set ws. w \<noteq> [] \<and> w \<noteq> ''.'' \<and> w \<noteq> ''..''" and "''..'' \<notin> set ws"
    and "\<forall>w \<in> set ws. w \<noteq> []"
  using assms unfolding plain_parts_def plain_part_def by blast+

lemma plain_parts_take: "plain_parts ws \<Longrightarrow> plain_parts (take n ws)"
  unfolding plain_parts_def by (blast dest: in_set_takeD)

lemma IsAbs_Cons [simp]: "IsAbs (slash # s)" "\<not> IsAbs []"
  by (simp_all add: IsAbs_def HasPrefix_def)

lemma abs_path_IsAbs [simp]: "IsAbs (abs_path ws)" "abs_path ws \<noteq> []" "TrimSpace (abs_path ws) \<noteq> []"
  using TrimSpace_keeps_graphic [of slash "abs_path ws"] by (simp_all add: abs_path_def graphic_def)

lemma path_Clean_abs: "IsAbs p \<Longrightarrow> path_Clean p = abs_path (abs_parts p)"
  by (auto simp: path_Clean_def Let_def abs_path_def abs_parts_def)

lemma path_Clean_not_abs: "\<not> IsAbs p \<Longrightarrow> \<not> IsAbs (path_Clean p)"
proof (cases "p = []")
  case True
  then show ?thesis by (simp add: path_Clean_def IsAbs_def HasPrefix_def)
next
  case False
  assume rel: "\<not> IsAbs p"
  define ws where "ws = clean_parts False (split_on slash p)"
  have "\<forall>w \<in> set (split_on slash p). slash \<notin> set w" by (blast dest: split_on_parts)
  then have ws: "\<forall>w \<in> set ws. w \<noteq> [] \<and> slash \<notin> set w"
    unfolding ws_def by (rule clean_parts_shape [of _ False]) blast
  have p: "path_Clean p = (if ws = [] then ''.'' else join_with [slash] ws)"
    using path_Clean_relative [OF False rel] by (simp only: ws_def Let_def)
  show ?thesis
  proof (cases ws)
    case Nil
    with p show ?thesis by (simp add: IsAbs_def HasPrefix_def)
  next
    case (Cons v vs)
    with ws obtain c v' where "v = c # v'" "c \<noteq> slash" by (cases v) auto
    with p Cons show ?thesis by (cases vs) (simp_all add: IsAbs_def HasPrefix_def)
  qed
qed

lemma split_on_append: "split_on d (a @ d # b) = split_on d a @ split_on d b"
  by (induction a) (auto split: list.splits)

lemma clean_step_rooted_plain:
  "plain_parts st \<Longrightarrow> slash \<notin> set w \<Longrightarrow> plain_parts (clean_step True w st)"
proof (cases "w = ''..''")
  case True
  assume st: "plain_parts st"
  then have "\<forall>t ts. st = t # ts \<longrightarrow> t \<noteq> ''..''" by (auto simp: plain_parts_def plain_part_def)
  with True have "clean_step True w st = tl st" by (simp add: clean_step_def split: list.split)
  with st show ?thesis by (cases st) (simp_all add: plain_parts_def)
next
  case False
  assume "plain_parts st" and "slash \<notin> set w"
  with False show ?thesis by (simp add: clean_step_def plain_parts_def plain_part_def)
qed

lemma fold_clean_rooted_plain:
  "plain_parts st \<Longrightarrow> \<forall>w \<in> set ws. slash \<notin> set w \<Longrightarrow> plain_parts (fold (clean_step True) ws st)"
  by (induction ws arbitrary: st) (simp_all add: clean_step_rooted_plain)

lemma abs_parts_plain [simp]: "plain_parts (abs_parts p)"
proof -
  have "plain_parts (fold (clean_step True) (split_on slash p) [])"
    by (rule fold_clean_rooted_plain) (auto dest: split_on_parts)
  then show ?thesis by (simp add: abs_parts_def clean_parts_def plain_parts_def)
qed

lemma fold_clean_split:
  assumes "plain_parts ws"
  shows "fold (clean_step True) (split_on slash (join_with [slash] ws)) st = rev ws @ st"
proof (cases "ws = []")
  case True
  then show ?thesis by (simp add: clean_step_def)
next
  case False
  with assms show ?thesis by (simp add: split_on_join plain_partsD(1) fold_clean_plain plain_partsD(2))
qed

lemma abs_parts_path [simp]: "plain_parts ws \<Longrightarrow> abs_parts (abs_path ws) = ws"
  by (simp add: abs_parts_def abs_path_def clean_parts_def fold_clean_split clean_step_def [of _ "[]"])

lemma path_Clean_abs_path [simp]: "plain_parts ws \<Longrightarrow> path_Clean (abs_path ws) = abs_path ws"
  by (simp add: path_Clean_abs)

lemma abs_path_inject: "plain_parts ws \<Longrightarrow> plain_parts vs \<Longrightarrow> abs_path ws = abs_path vs \<longleftrightarrow> ws = vs"
  by (metis abs_parts_path)

lemma filepath_Join_abs:
  assumes "plain_parts ws" and "plain_parts vs"
  shows "filepath_Join (abs_path ws) (join_with [slash] vs) = abs_path (ws @ vs)"
proof -
  have "split_on slash (abs_path ws @ [slash] @ join_with [slash] vs)
      = [] # split_on slash (join_with [slash] ws) @ split_on slash (join_with [slash] vs)"
    by (simp add: abs_path_def split_on_append)
  then have "abs_parts (abs_path ws @ [slash] @ join_with [slash] vs) = ws @ vs"
    unfolding abs_parts_def clean_parts_def using assms
    by (simp add: fold_clean_split clean_step_def [of _ "[]"])
  moreover have "IsAbs (abs_path ws @ [slash] @ join_with [slash] vs)" by (simp add: abs_path_def)
  ultimately show ?thesis by (simp add: filepath_Join_def path_Clean_abs)
qed

lemma filepath_Join_part:
  assumes "plain_parts ws" and "plain_part w"
  shows "filepath_Join (abs_path ws) w = abs_path (ws @ [w])"
  using filepath_Join_abs [of ws "[w]"] assms by (simp add: plain_parts_def)

subsection \<open>What lies inside the root\<close>

lemma strip_common_spec:
  "strip_common bs ts = (b, t) \<Longrightarrow> \<exists>cs. bs = cs @ b \<and> ts = cs @ t \<and> (b = [] \<or> t = [] \<or> hd b \<noteq> hd t)"
  by (induction bs ts arbitrary: b t rule: strip_common.induct) (auto split: if_splits intro: exI [of _ "_ # _"])

lemma rel_parts_abs:
  assumes "plain_parts ws" shows "rel_parts (abs_path ws) = [] # ws"
proof (cases "ws = []")
  case False
  then have "join_with [slash] ws \<noteq> []" using plain_partsD(4) [OF assms] by (simp add: join_with_not_Nil)
  with False show ?thesis using plain_partsD(1) [OF assms] by (simp add: rel_parts_def abs_path_def split_on_join)
qed (simp add: rel_parts_def abs_path_def)

lemma abs_path_not_dot [simp]: "abs_path ws \<noteq> ''.''"
  by (simp add: abs_path_def)

text \<open>The relative path goes up once for each component of the base that the target does not share.\<close>

lemma filepath_Rel_abs:
  assumes "plain_parts ws" and "plain_parts vs" and "ws \<noteq> vs"
  obtains cs b t where "ws = cs @ b" and "vs = cs @ t" and "b = [] \<or> t = [] \<or> hd b \<noteq> hd t"
    and "filepath_Rel (abs_path ws) (abs_path vs) = Inr (join_with [slash] (replicate (length b) ''..'' @ t))"
proof -
  obtain b t where bt: "strip_common ws vs = (b, t)" by fastforce
  then obtain cs where cs: "ws = cs @ b" "vs = cs @ t" "b = [] \<or> t = [] \<or> hd b \<noteq> hd t"
    using strip_common_spec by blast
  have up: "\<not> (b \<noteq> [] \<and> t \<noteq> [] \<and> hd b = ''..'')"
  proof
    assume "b \<noteq> [] \<and> t \<noteq> [] \<and> hd b = ''..''"
    then have "''..'' \<in> set ws" using cs(1) by (cases b) simp_all
    then show False using plain_partsD(3) [OF assms(1)] by simp
  qed
  have "filepath_Rel (abs_path ws) (abs_path vs) = Inr (join_with [slash] (replicate (length b) ''..'' @ t))"
    using assms bt up by (simp add: filepath_Rel_def abs_path_inject rel_parts_abs)
  with cs that show ?thesis by blast
qed

lemma join_up:
  assumes "0 < n" and "plain_parts t"
  shows "join_with [slash] (replicate n ''..'' @ t) = ''..'' \<or> HasPrefix (join_with [slash] (replicate n ''..'' @ t)) ''../''"
proof -
  obtain m where n: "n = Suc m" using assms(1) by (cases n) simp_all
  then show ?thesis
    by (cases "replicate m ''..'' @ t") (simp_all add: HasPrefix_def)
qed

lemma filepath_Rel_inside:
  assumes "plain_parts ws" and "plain_parts vs"
  shows "(\<exists>rel. filepath_Rel (abs_path ws) (abs_path vs) = Inr rel \<and> (rel = ''.'' \<or> \<not> (rel = ''..'' \<or> HasPrefix rel ''../''))) \<longleftrightarrow> prefix ws vs"
proof (cases "ws = vs")
  case True
  with assms show ?thesis by (simp add: filepath_Rel_def)
next
  case False
  with assms obtain cs b t where split: "ws = cs @ b" "vs = cs @ t" and diff: "b = [] \<or> t = [] \<or> hd b \<noteq> hd t"
    and rel: "filepath_Rel (abs_path ws) (abs_path vs) = Inr (join_with [slash] (replicate (length b) ''..'' @ t))"
    by (rule filepath_Rel_abs)
  have t: "plain_parts t" using assms(2) split by simp
  show ?thesis
  proof (cases "b = []")
    case True
    with split False have "t \<noteq> []" by simp
    with t have "join_with [slash] t \<noteq> ''..'' \<and> \<not> HasPrefix (join_with [slash] t) ''../''"
      using join_dotdot_parts [of t] plain_partsD(1,3) [OF t] by simp
    with True split rel show ?thesis by simp
  next
    case no: False
    then have "\<not> prefix ws vs" using split diff by (cases b; cases t) (auto simp: prefix_def)
    moreover have "join_with [slash] (replicate (length b) ''..'' @ t) = ''..'' \<or> HasPrefix (join_with [slash] (replicate (length b) ''..'' @ t)) ''../''"
      using no t by (intro join_up) simp_all
    then have "join_with [slash] (replicate (length b) ''..'' @ t) \<noteq> ''.''" by (auto simp: HasPrefix_def prefix_def)
    ultimately show ?thesis using rel \<open>_ \<or> HasPrefix _ _\<close> by simp
  qed
qed

lemma filepath_Rel_relative:
  assumes "plain_parts ws" and "\<not> IsAbs p" shows "\<exists>e. filepath_Rel (abs_path ws) p = Inl e"
proof -
  have "\<not> IsAbs (path_Clean p)" using assms(2) by (rule path_Clean_not_abs)
  moreover from this have "path_Clean p \<noteq> abs_path ws" by (metis abs_path_IsAbs(1))
  ultimately show ?thesis using assms(1) by (simp add: filepath_Rel_def Let_def)
qed

lemma ensurePathInsideRoot_None:
  assumes "plain_parts ws"
  shows "ensurePathInsideRoot (abs_path ws) candidate = None \<longleftrightarrow> inside_root (abs_path ws) candidate"
proof -
  have ensure: "ensurePathInsideRoot (abs_path ws) candidate = None \<longleftrightarrow>
      (\<exists>rel. filepath_Rel (abs_path ws) (path_Clean candidate) = Inr rel \<and> (rel = ''.'' \<or> \<not> (rel = ''..'' \<or> HasPrefix rel ''../'')))"
    using assms by (cases "filepath_Rel (abs_path ws) (path_Clean candidate)") (simp_all add: ensurePathInsideRoot_def)
  show ?thesis
  proof (cases "IsAbs candidate")
    case True
    then show ?thesis
      using ensure filepath_Rel_inside [OF assms abs_parts_plain] assms by (simp add: path_Clean_abs inside_root_def)
  next
    case False
    then show ?thesis
      using ensure filepath_Rel_relative [OF assms path_Clean_not_abs [OF False]] by (auto simp: inside_root_def)
  qed
qed

lemma samePath_abs:
  assumes "plain_parts ws" and "plain_parts vs" shows "samePath (abs_path ws) (abs_path (ws @ vs)) \<longleftrightarrow> vs = []"
proof (cases "vs = []")
  case True
  with assms show ?thesis by (simp add: samePath_def filepath_Rel_def)
next
  case False
  have all: "plain_parts (ws @ vs)" using assms by simp
  have ne: "ws \<noteq> ws @ vs" using False by simp
  obtain cs b t where split: "ws = cs @ b" "ws @ vs = cs @ t" "b = [] \<or> t = [] \<or> hd b \<noteq> hd t"
    and rel: "filepath_Rel (abs_path ws) (abs_path (ws @ vs)) = Inr (join_with [slash] (replicate (length b) ''..'' @ t))"
    by (rule filepath_Rel_abs [OF assms(1) all ne])
  have "b = []" using split False by (cases b) auto
  with split have "t = vs" by simp
  moreover have "join_with [slash] vs \<noteq> ''.''"
  proof
    assume "join_with [slash] vs = ''.''"
    then have "vs = split_on slash ''.''" using False plain_partsD(1) [OF assms(2)] by (metis split_on_join)
    then have "vs = [''.'']" by simp
    with assms(2) show False by (simp add: plain_parts_def plain_part_def)
  qed
  ultimately show ?thesis using False assms all rel \<open>b = []\<close> by (simp add: samePath_def)
qed

subsection \<open>The chain of components\<close>

text \<open>
  What the loop demands of the \<open>i\<close>-th component below the root: it exists, it is no symbolic link, it
  really lies inside the root, and it is a directory without a repository of its own or the last component.
\<close>

definition component_ok :: "FileSystem \<Rightarrow> string \<Rightarrow> string list \<Rightarrow> nat \<Rightarrow> bool" where
  "component_ok fs root ps i \<longleftrightarrow>
     (let here = abs_path (abs_parts root @ take i ps)
      in case fs_Lstat fs here of
           LInfo info \<Rightarrow> \<not> fi_IsSymlink info
             \<and> (case fs_EvalSymlinks fs here of Inl _ \<Rightarrow> False | Inr real \<Rightarrow> inside_root root real)
             \<and> (if fi_IsDir info then fs_Lstat fs (abs_path (abs_parts root @ take i ps @ [''.git''])) = LNotExist
                else i = length ps)
         | _ \<Rightarrow> False)"

lemma rejectLink_None:
  assumes "plain_parts ws"
  shows "rejectLinkOrEscapedResolvedPath fs (abs_path ws) current info = None \<longleftrightarrow>
     \<not> fi_IsSymlink info \<and> (case fs_EvalSymlinks fs current of Inl _ \<Rightarrow> False | Inr real \<Rightarrow> inside_root (abs_path ws) real)"
  by (simp add: rejectLinkOrEscapedResolvedPath_def ensurePathInsideRoot_None [OF assms] split: sum.split)

lemma rejectNested_None:
  assumes "plain_parts ws" and "plain_parts vs" and "vs \<noteq> []"
  shows "rejectNestedGitBoundary fs (abs_path ws) (abs_path (ws @ vs)) relPath = None \<longleftrightarrow>
     fs_Lstat fs (abs_path (ws @ vs @ [''.git''])) = LNotExist"
proof -
  have "plain_part ''.git''" by (simp add: plain_part_def)
  then have "filepath_Join (abs_path (ws @ vs)) ''.git'' = abs_path (ws @ vs @ [''.git''])"
    using filepath_Join_part [of "ws @ vs" "''.git''"] assms by simp
  then show ?thesis using samePath_abs [OF assms(1,2)] assms(3)
    by (simp add: rejectNestedGitBoundary_def Let_def split: lstat_result.split)
qed

lemma ex_from_Suc:
  "(\<exists>k. n \<le> k \<and> (\<forall>i \<in> {n<..k}. C i) \<and> R k) \<longleftrightarrow>
     R n \<or> (C (Suc n) \<and> (\<exists>k. Suc n \<le> k \<and> (\<forall>i \<in> {Suc n<..k}. C i) \<and> R k))"
proof -
  have "(\<forall>i \<in> {n<..k}. C i) \<longleftrightarrow> C (Suc n) \<and> (\<forall>i \<in> {Suc n<..k}. C i)" if "Suc n \<le> k" for k
  proof -
    have "{n<..k} = insert (Suc n) {Suc n<..k}" using that by auto
    then show ?thesis by simp
  qed
  moreover have "n \<le> k \<longleftrightarrow> k = n \<or> Suc n \<le> k" for k by auto
  ultimately show ?thesis by (auto simp del: Suc_le_eq)
qed

lemma verify_chain_Inr:
  assumes "plain_parts ws" and "plain_parts (qs @ ps)"
  shows "verify_chain fs (abs_path ws) relPath qs (abs_path (ws @ qs)) (abs_path (ws @ qs)) ps = Inr (existing, ancestor) \<longleftrightarrow>
     (\<exists>k. length qs \<le> k \<and> (\<forall>i \<in> {length qs<..k}. component_ok fs (abs_path ws) (qs @ ps) i) \<and> k \<le> length (qs @ ps) \<and>
        (k < length (qs @ ps) \<longrightarrow> fs_Lstat fs (abs_path (ws @ take (Suc k) (qs @ ps))) = LNotExist) \<and>
        existing = (k = length (qs @ ps)) \<and> ancestor = abs_path (ws @ take k (qs @ ps)))"
  using assms(2)
proof (induction ps arbitrary: qs)
  case Nil
  have "(length qs \<le> k \<and> k \<le> length qs) \<longleftrightarrow> k = length qs" for k by auto
  then show ?case by auto
next
  case (Cons p ps)
  let ?full = "qs @ p # ps" and ?here = "abs_path (ws @ qs @ [p])"
  have plain: "plain_parts qs" "plain_part p" "plain_parts (qs @ [p])" "plain_parts ((qs @ [p]) @ ps)"
    using Cons.prems by (auto simp: plain_parts_def)
  have join: "filepath_Join (abs_path (ws @ qs)) p = ?here"
    using filepath_Join_part [of "ws @ qs" p] assms(1) plain by simp
  have ok: "component_ok fs (abs_path ws) ?full (Suc (length qs)) \<longleftrightarrow>
      (\<exists>info. fs_Lstat fs ?here = LInfo info \<and> rejectLinkOrEscapedResolvedPath fs (abs_path ws) ?here info = None \<and>
        (if fi_IsDir info then rejectNestedGitBoundary fs (abs_path ws) ?here relPath = None else ps = []))"
  proof (cases "fs_Lstat fs ?here")
    case (LInfo info)
    have git: "rejectNestedGitBoundary fs (abs_path ws) ?here relPath = None \<longleftrightarrow> fs_Lstat fs (abs_path (ws @ qs @ [p, ''.git''])) = LNotExist"
      using rejectNested_None [OF assms(1) plain(3), of fs relPath] by simp
    show ?thesis
      unfolding git rejectLink_None [OF assms(1)] using LInfo assms(1) by (simp add: component_ok_def)
  qed (simp_all add: component_ok_def assms(1))
  have step: "verify_chain fs (abs_path ws) relPath qs (abs_path (ws @ qs)) (abs_path (ws @ qs)) (p # ps) = Inr (existing, ancestor) \<longleftrightarrow>
      (fs_Lstat fs ?here = LNotExist \<and> \<not> existing \<and> ancestor = abs_path (ws @ qs)) \<or>
      (component_ok fs (abs_path ws) ?full (Suc (length qs)) \<and>
       verify_chain fs (abs_path ws) relPath (qs @ [p]) ?here ?here ps = Inr (existing, ancestor))"
    unfolding ok by (auto simp: join Let_def split: lstat_result.split)
  have ih: "verify_chain fs (abs_path ws) relPath (qs @ [p]) ?here ?here ps = Inr (existing, ancestor) \<longleftrightarrow>
      (\<exists>k. Suc (length qs) \<le> k \<and> (\<forall>i \<in> {Suc (length qs)<..k}. component_ok fs (abs_path ws) ?full i) \<and> k \<le> length ?full \<and>
        (k < length ?full \<longrightarrow> fs_Lstat fs (abs_path (ws @ take (Suc k) ?full)) = LNotExist) \<and>
        existing = (k = length ?full) \<and> ancestor = abs_path (ws @ take k ?full))"
    using Cons.IH [OF plain(4)] by simp
  show ?case unfolding step ih ex_from_Suc [of "length qs"] by auto
qed

subsection \<open>Resolution\<close>

text \<open>
  What the resolver relies on: \<open>filepath.Abs\<close> returns an absolute path, and \<open>filepath.EvalSymlinks\<close>
  keeps a path absolute.
\<close>

definition fs_paths_absolute :: "FileSystem \<Rightarrow> bool" where
  "fs_paths_absolute fs \<longleftrightarrow>
     (\<forall>p q. fs_Abs fs p = Inr q \<longrightarrow> IsAbs q) \<and> (\<forall>p q. IsAbs p \<longrightarrow> fs_EvalSymlinks fs p = Inr q \<longrightarrow> IsAbs q)"

lemma NewPathResolver_root:
  assumes "fs_paths_absolute fs" and "NewPathResolver fs repoRoot = Inr r"
  shows "pr_repoRoot r = abs_path (abs_parts (pr_repoRoot r))"
proof -
  from assms(2) obtain a c where a: "fs_Abs fs (TrimSpace repoRoot) = Inr a" and c: "fs_EvalSymlinks fs a = Inr c"
    and r: "pr_repoRoot r = path_Clean c"
    by (auto simp: NewPathResolver_def Let_def bind_result_Inr)
  from a c assms(1) have "IsAbs c" unfolding fs_paths_absolute_def by blast
  with r show ?thesis by (simp add: path_Clean_abs)
qed

lemma normalizeResolverPath_parts:
  assumes "normalizeResolverPath raw = Inr p"
  shows "p = join_with [slash] (split_on slash p)" and "plain_parts (split_on slash p)"
proof -
  obtain ws where ws: "p = join_with [slash] ws" "ws \<noteq> []" "\<forall>w \<in> set ws. plain_part w"
    using assms NormalizePath_parts unfolding normalizeResolverPath_iff by blast
  then show "plain_parts (split_on slash p)" using split_plain [OF ws] by (simp add: plain_parts_def)
qed simp

definition resolved_to :: "FileSystem \<Rightarrow> string \<Rightarrow> string \<Rightarrow> nat \<Rightarrow> ResolvedPath \<Rightarrow> bool" where
  "resolved_to fs root relPath k res \<longleftrightarrow>
     (let ps = split_on slash relPath; ws = abs_parts root
      in (\<forall>i \<in> {0<..k}. component_ok fs root ps i) \<and> k \<le> length ps \<and>
         (k < length ps \<longrightarrow> fs_Lstat fs (abs_path (ws @ take (Suc k) ps)) = LNotExist) \<and>
         res = \<lparr>rp_RepoRoot = root, rp_RelPath = relPath, rp_AbsPath = abs_path (ws @ ps),
                rp_Existing = (k = length ps), rp_ExistingAncestor = abs_path (ws @ take k ps)\<rparr>)"

lemma Resolve_Inr:
  assumes root: "pr_repoRoot r = abs_path ws" and ws: "plain_parts ws"
  shows "Resolve fs r raw = Inr res \<longleftrightarrow>
     (\<exists>relPath k. normalizeResolverPath raw = Inr relPath \<and> resolved_to fs (pr_repoRoot r) relPath k res)"
proof (cases "normalizeResolverPath raw")
  case (Inl e)
  then show ?thesis by (simp add: Resolve_def bind_result_Inr)
next
  case (Inr relPath)
  define ps where "ps = split_on slash relPath"
  have ps: "relPath = join_with [slash] ps" "plain_parts ps"
    using normalizeResolverPath_parts [OF Inr] by (simp_all add: ps_def)
  have abs: "path_Clean (filepath_Join (abs_path ws) relPath) = abs_path (ws @ ps)"
    using filepath_Join_abs [OF ws ps(2)] ps(1) ws ps(2) by simp
  have inside: "ensurePathInsideRoot (abs_path ws) (abs_path (ws @ ps)) = None"
    using ws ps(2) by (simp add: ensurePathInsideRoot_None inside_root_def)
  have chain: "verifyExistingPathChain fs r relPath = Inr (existing, ancestor) \<longleftrightarrow>
      (\<exists>k. (\<forall>i \<in> {0<..k}. component_ok fs (abs_path ws) ps i) \<and> k \<le> length ps \<and>
        (k < length ps \<longrightarrow> fs_Lstat fs (abs_path (ws @ take (Suc k) ps)) = LNotExist) \<and>
        existing = (k = length ps) \<and> ancestor = abs_path (ws @ take k ps))" for existing ancestor
    using verify_chain_Inr [OF ws, of "[]" ps fs relPath existing ancestor] ps(2)
    by (simp add: verifyExistingPathChain_def root ps_def)
  have "Resolve fs r raw = Inr res \<longleftrightarrow>
      (\<exists>existing ancestor. verifyExistingPathChain fs r relPath = Inr (existing, ancestor) \<and>
         res = \<lparr>rp_RepoRoot = abs_path ws, rp_RelPath = relPath, rp_AbsPath = abs_path (ws @ ps),
                rp_Existing = existing, rp_ExistingAncestor = ancestor\<rparr>)"
    by (auto simp: Resolve_def Inr root abs inside Let_def bind_result_Inr)
  then show ?thesis unfolding chain by (auto simp: Inr root ws resolved_to_def ps_def [symmetric])
qed

lemma resolve_each_Inr:
  "resolve_each fs r i seen previous paths = Inr items \<longleftrightarrow>
     list_all2 (\<lambda>p item. Resolve fs r p = Inr item \<and> rp_RelPath item = p) paths items \<and> distinct paths \<and>
     set paths \<inter> set seen = {} \<and> sorted paths \<and> (paths \<noteq> [] \<longrightarrow> 0 < i \<longrightarrow> previous \<le> hd paths)"
proof (induction paths arbitrary: i seen previous items)
  case (Cons p paths)
  have step: "resolve_each fs r i seen previous (p # paths) = Inr items \<longleftrightarrow>
      (\<exists>item items'. items = item # items' \<and> Resolve fs r p = Inr item \<and> rp_RelPath item = p \<and> p \<notin> set seen \<and>
         (0 < i \<longrightarrow> previous \<le> p) \<and> resolve_each fs r (Suc i) (p # seen) p paths = Inr items')"
    by (auto simp: bind_result_Inr not_less)
  have "sorted (p # paths) \<longleftrightarrow> sorted paths \<and> (paths \<noteq> [] \<longrightarrow> p \<le> hd paths)"
    by (cases paths) (auto simp del: sorted_wrt.simps simp: sorted0 sorted1 sorted2)
  then show ?case unfolding step Cons.IH by (auto simp: list_all2_Cons1)
qed auto

subsection \<open>Properties\<close>

text \<open>A file system with one directory, a file in it and a symbolic link, below \<open>/repo\<close>.\<close>

definition demo_fs :: FileSystem where
  "demo_fs = \<lparr>
     fs_Abs = (\<lambda>p. Inr (if IsAbs p then path_Clean p else filepath_Join ''/'' p)),
     fs_EvalSymlinks = Inr,
     fs_Stat = (\<lambda>p. Inr \<lparr>fi_IsDir = True, fi_IsSymlink = False\<rparr>),
     fs_Lstat = (\<lambda>p. if p = ''/repo/a'' then LInfo \<lparr>fi_IsDir = True, fi_IsSymlink = False\<rparr>
                      else if p = ''/repo/a/b'' then LInfo \<lparr>fi_IsDir = False, fi_IsSymlink = False\<rparr>
                      else if p = ''/repo/l'' then LInfo \<lparr>fi_IsDir = False, fi_IsSymlink = True\<rparr>
                      else LNotExist)\<rparr>"

lemma demo_fs_absolute: "fs_paths_absolute demo_fs"
  by (auto simp: fs_paths_absolute_def demo_fs_def path_Clean_abs filepath_Join_def IsAbs_Cons)

text \<open>C27. A resolver made by \<open>NewPathResolver\<close> accepts a path exactly when the path normalises to a
  relative path and there is a number of leading components such that each of them exists, is no
  symbolic link, really lies inside the root, and is a directory that is no repository of its own (or the last
  component), while the next component, if any, does not exist. The result then names the cleaned path
  below the root, tells whether all components exist, and names the last one that does; both
  paths lie inside the root.\<close>

theorem resolve_exact:
  assumes "fs_paths_absolute fs" and "NewPathResolver fs repoRoot = Inr r"
  shows "Resolve fs r raw = Inr res \<longleftrightarrow>
    (\<exists>relPath k. normalizeResolverPath raw = Inr relPath \<and> resolved_to fs (PathResolver_RepoRoot r) relPath k res \<and>
       inside_root (PathResolver_RepoRoot r) (rp_AbsPath res) \<and> inside_root (PathResolver_RepoRoot r) (rp_ExistingAncestor res))"
proof -
  have root: "pr_repoRoot r = abs_path (abs_parts (pr_repoRoot r))" using assms by (rule NewPathResolver_root)
  have "inside_root (pr_repoRoot r) (rp_AbsPath res) \<and> inside_root (pr_repoRoot r) (rp_ExistingAncestor res)"
    if "normalizeResolverPath raw = Inr relPath" and "resolved_to fs (pr_repoRoot r) relPath k res" for relPath k
    using that(2) normalizeResolverPath_parts(2) [OF that(1)]
    by (simp add: resolved_to_def Let_def inside_root_def plain_parts_take)
  then show ?thesis unfolding Resolve_Inr [OF root abs_parts_plain] PathResolver_RepoRoot_def by blast
qed

theorem resolve_exact_witness:
  "NewPathResolver demo_fs '' /repo/ '' = Inr \<lparr>pr_repoRoot = ''/repo''\<rparr> \<and>
   inside_root ''/repo'' ''/repo/a/b'' \<and> (\<nexists>res. Resolve demo_fs \<lparr>pr_repoRoot = ''/repo''\<rparr> ''l/x'' = Inr res)"
proof -
  let ?r = "\<lparr>pr_repoRoot = ''/repo''\<rparr>"
  have new: "NewPathResolver demo_fs '' /repo/ '' = Inr ?r" by code_simp
  note exact = resolve_exact [OF demo_fs_absolute new]
  have "Resolve demo_fs ?r ''a//b'' = Inr \<lparr>rp_RepoRoot = ''/repo'', rp_RelPath = ''a/b'', rp_AbsPath = ''/repo/a/b'',
      rp_Existing = True, rp_ExistingAncestor = ''/repo/a/b''\<rparr>" by code_simp
  then have "inside_root ''/repo'' ''/repo/a/b''" unfolding exact PathResolver_RepoRoot_def by (elim exE conjE) simp
  moreover have "is_ok (Resolve demo_fs ?r ''l/x'') = False" by code_simp
  then have "\<nexists>res. Resolve demo_fs ?r ''l/x'' = Inr res" by (simp add: is_ok_iff)
  ultimately show ?thesis using new by blast
qed

text \<open>A set of paths is resolved exactly when it is not empty, passes the validation of a
  repository context (sorted, without duplicates, all normalised), and every path resolves, to itself; the
  results are then those of the single paths, in order.\<close>

theorem resolve_pathset_exact:
  "ResolvePathSet fs r paths = Inr items \<longleftrightarrow>
     paths \<noteq> [] \<and> validateCanonicalPathset paths = None \<and>
     list_all2 (\<lambda>p item. Resolve fs r p = Inr item \<and> rp_RelPath item = p) paths items"
proof -
  have norm: "NormalizePath p = Inr p" if "Resolve fs r p = Inr item" "rp_RelPath item = p" for p item
    using that by (auto simp: Resolve_def Let_def bind_result_Inr normalizeResolverPath_iff)
  have "\<forall>p \<in> set paths. NormalizePath p = Inr p"
    if "list_all2 (\<lambda>p item. Resolve fs r p = Inr item \<and> rp_RelPath item = p) paths items"
    using that norm by (induction rule: list_all2_induct) auto
  then show ?thesis
    by (auto simp: ResolvePathSet_def resolve_each_Inr validateCanonicalPathset_None canonical_pathset_def)
qed

end
