(* ===== verification/Cas_Patch.thy ===== *)
theory Cas_Patch
  imports Repo_Context
begin

section \<open>Compare-and-swap evaluation of a patch\<close>

text \<open>
  \<open>internal/repoauthority/cas_patch.go\<close>: a patch names a candidate content hash per path and
  applies only where the current hash of the path is the base hash of the authority context.
  \<open>EvaluateCASPatchApply\<close> collects a result per path and the issues found, sorts both and
  derives the overall status. The two input maps are association lists; the code sorts their
  keys before it uses them, and the result is shown not to depend on their order.
\<close>

definition CASPatchApplySchemaVersion :: string where "CASPatchApplySchemaVersion = ''repo_cas_patch_apply.v1''"
definition CASPatchStatusApplied :: string where "CASPatchStatusApplied = ''applied''"
definition CASPatchStatusConflict :: string where "CASPatchStatusConflict = ''conflict''"
definition CASPatchStatusFailed :: string where "CASPatchStatusFailed = ''failed''"
definition CASPatchChangeModify :: string where "CASPatchChangeModify = ''modify''"
definition CASPatchChangeAdd :: string where "CASPatchChangeAdd = ''add''"
definition CASPatchIssueContextInvalid :: string where "CASPatchIssueContextInvalid = ''context_invalid''"
definition CASPatchIssueCandidateHashesRequired :: string where
  "CASPatchIssueCandidateHashesRequired = ''candidate_file_hashes_required''"
definition CASPatchIssueCandidatePathInvalid :: string where
  "CASPatchIssueCandidatePathInvalid = ''candidate_path_invalid''"
definition CASPatchIssueCandidatePathUnstable :: string where
  "CASPatchIssueCandidatePathUnstable = ''candidate_path_unstable''"
definition CASPatchIssueCandidatePathDuplicate :: string where
  "CASPatchIssueCandidatePathDuplicate = ''candidate_path_duplicate''"
definition CASPatchIssueCandidateHashMissing :: string where
  "CASPatchIssueCandidateHashMissing = ''missing_candidate_hash''"
definition CASPatchIssuePathOutsideContext :: string where "CASPatchIssuePathOutsideContext = ''path_outside_context''"
definition CASPatchIssueBaseHashMissing :: string where "CASPatchIssueBaseHashMissing = ''missing_base_hash''"
definition CASPatchIssueCurrentHashMissing :: string where "CASPatchIssueCurrentHashMissing = ''missing_current_hash''"
definition CASPatchIssueBaseDrift :: string where "CASPatchIssueBaseDrift = ''base_drift''"

record CASPatchApplyInput =
  cai_Context :: Context
  cai_PatchID :: string
  cai_CurrentFileHashes :: "(string \<times> string) list"
  cai_CandidateFileHashes :: "(string \<times> string) list"

record CASPatchPathResult =
  cp_Path :: string
  cp_Status :: string
  cp_ChangeKind :: string
  cp_BaseHash :: string
  cp_CurrentHash :: string
  cp_CandidateHash :: string

record CASPatchIssue =
  ci_Status :: string
  ci_Kind :: string
  ci_Path :: string
  ci_Message :: string
  ci_ExpectedHash :: string
  ci_ActualHash :: string
  ci_CandidateHash :: string

record CASPatchApplyResult =
  car_Schema :: string
  car_Status :: string
  car_PatchID :: string
  car_PatchDigest :: string
  car_ContextDigest :: string
  car_Paths :: "CASPatchPathResult list"
  car_Issues :: "CASPatchIssue list"

record casPatchCandidateEntry =
  ce_path :: string
  ce_hash :: string

definition casPatchFailure :: "string \<Rightarrow> string \<Rightarrow> string \<Rightarrow> CASPatchIssue" where
  "casPatchFailure path kind message =
     \<lparr>ci_Status = CASPatchStatusFailed, ci_Kind = kind, ci_Path = path, ci_Message = message,
      ci_ExpectedHash = [], ci_ActualHash = [], ci_CandidateHash = []\<rparr>"

definition casPatchPathChangeKind :: "CASPatchPathResult \<Rightarrow> string" where
  "casPatchPathChangeKind pathResult =
     (let changeKind = TrimSpace (cp_ChangeKind pathResult)
      in if changeKind = [] then CASPatchChangeModify else changeKind)"

definition digestCASPatchCandidates :: "casPatchCandidateEntry list \<Rightarrow> string" where
  "digestCASPatchCandidates candidates =
     sha256_text (CASPatchApplySchemaVersion
       @ concat (map (\<lambda>c. CHR 0x00 # ce_path c @ CHR 0x00 # ce_hash c) candidates))"

text \<open>One candidate path: an issue, or an entry whose path has not been seen before.\<close>

definition check_candidate :: "(string \<times> string) list \<Rightarrow> string list \<Rightarrow> string \<Rightarrow> CASPatchIssue + casPatchCandidateEntry" where
  "check_candidate raw seen rawPath =
     (case normalizeResolverPath rawPath of
        Inl e \<Rightarrow> Inl (casPatchFailure rawPath CASPatchIssueCandidatePathInvalid (err_text e))
      | Inr normalized \<Rightarrow>
          if normalized \<noteq> rawPath
          then Inl (casPatchFailure rawPath CASPatchIssueCandidatePathUnstable
                 (err_text (Errorf ''candidate path is not normalized: got %q want %q'' [AStr rawPath, AStr normalized])))
          else if normalized \<in> set seen
          then Inl (casPatchFailure normalized CASPatchIssueCandidatePathDuplicate
                 (err_text (Errorf ''candidate path %q is duplicated after normalization'' [AStr normalized])))
          else let hash = TrimSpace (get_str raw rawPath)
          in if hash = []
             then Inl (casPatchFailure normalized CASPatchIssueCandidateHashMissing
                    (err_text (Errorf ''candidate hash is missing for %q'' [AStr normalized])))
             else Inr \<lparr>ce_path = normalized, ce_hash = hash\<rparr>)"

fun collect_candidates ::
  "(string \<times> string) list \<Rightarrow> string list \<Rightarrow> string list \<Rightarrow> casPatchCandidateEntry list \<times> CASPatchIssue list" where
  "collect_candidates raw seen [] = ([], [])"
| "collect_candidates raw seen (p # ps) =
     (case check_candidate raw seen p of
        Inl issue \<Rightarrow> (case collect_candidates raw seen ps of (cs, is) \<Rightarrow> (cs, issue # is))
      | Inr c \<Rightarrow> (case collect_candidates raw (ce_path c # seen) ps of (cs, is) \<Rightarrow> (c # cs, is)))"

definition normalizeCASPatchCandidates ::
  "(string \<times> string) list \<Rightarrow> casPatchCandidateEntry list \<times> CASPatchIssue list" where
  "normalizeCASPatchCandidates raw =
     (case collect_candidates raw [] (sort (map fst raw)) of (cs, is) \<Rightarrow> (sort_key ce_path cs, is))"

text \<open>The body of the loop over the candidates: a path result and at most one issue.\<close>

definition evaluate_candidate ::
  "Context \<Rightarrow> (string \<times> string) list \<Rightarrow> casPatchCandidateEntry \<Rightarrow> CASPatchPathResult \<times> CASPatchIssue list" where
  "evaluate_candidate authority current c =
     (let p = ce_path c;
          base = TrimSpace (get_str (base_FileHashes (ctx_Base authority)) p);
          cur = TrimSpace (get_str current p);
          r = \<lparr>cp_Path = p, cp_Status = CASPatchStatusApplied,
               cp_ChangeKind = (if base = [] \<and> cur = [] then CASPatchChangeAdd else []),
               cp_BaseHash = base, cp_CurrentHash = cur, cp_CandidateHash = ce_hash c\<rparr>
      in if \<not> pathsetCoversPath (ctx_Pathset authority) p
         then (r\<lparr>cp_Status := CASPatchStatusFailed\<rparr>,
               [casPatchFailure p CASPatchIssuePathOutsideContext
                  (err_text (Errorf ''candidate path %q is outside repo authority context pathset'' [AStr p]))])
         else if casPatchPathChangeKind r = CASPatchChangeAdd then (r, [])
         else if base = []
         then (r\<lparr>cp_Status := CASPatchStatusFailed\<rparr>,
               [casPatchFailure p CASPatchIssueBaseHashMissing (err_text (Errorf ''base hash is missing for %q'' [AStr p]))])
         else if cur = []
         then (r\<lparr>cp_Status := CASPatchStatusFailed\<rparr>,
               [casPatchFailure p CASPatchIssueCurrentHashMissing (err_text (Errorf ''current hash is missing for %q'' [AStr p]))])
         else if cur \<noteq> base
         then (r\<lparr>cp_Status := CASPatchStatusConflict\<rparr>,
               [\<lparr>ci_Status = CASPatchStatusConflict, ci_Kind = CASPatchIssueBaseDrift, ci_Path = p,
                 ci_Message = err_text (Errorf ''base drift for %q'' [AStr p]),
                 ci_ExpectedHash = base, ci_ActualHash = cur, ci_CandidateHash = ce_hash c\<rparr>])
         else (r, []))"

definition finalizeCASPatchResult :: "CASPatchApplyResult \<Rightarrow> CASPatchApplyResult" where
  "finalizeCASPatchResult r =
     (let issues = sort_key (\<lambda>i. (ci_Status i, ci_Path i, ci_Kind i)) (car_Issues r);
          hasFailure = list_ex (\<lambda>i. ci_Status i = CASPatchStatusFailed) issues;
          hasConflict = list_ex (\<lambda>i. ci_Status i = CASPatchStatusConflict) issues
      in r\<lparr>car_Paths := sort_key cp_Path (car_Paths r), car_Issues := issues,
           car_Status := (if hasFailure then CASPatchStatusFailed
                          else if hasConflict then CASPatchStatusConflict else CASPatchStatusApplied)\<rparr>)"

text \<open>
  The context check: an issue, or the digest. \<open>Digest\<close> validates the context again, so its
  error branch cannot be taken, but it is there in the code.
\<close>

definition check_context :: "Context \<Rightarrow> CASPatchIssue + string" where
  "check_context authority =
     (case Context_Validate authority of
        Some e \<Rightarrow> Inl (casPatchFailure [] CASPatchIssueContextInvalid
                    (err_text (Errorf ''repo authority context is invalid: %v'' [AErr e])))
      | None \<Rightarrow>
          (case Context_Digest authority of
             Inl e \<Rightarrow> Inl (casPatchFailure [] CASPatchIssueContextInvalid
                         (err_text (Errorf ''repo authority context digest failed: %v'' [AErr e])))
           | Inr digest \<Rightarrow> Inr digest))"

definition EvaluateCASPatchApply :: "CASPatchApplyInput \<Rightarrow> CASPatchApplyResult" where
  "EvaluateCASPatchApply input =
     (let authority = WithDefaults (cai_Context input);
          (ctxIssues, digest) = (case check_context authority of Inl i \<Rightarrow> ([i], []) | Inr d \<Rightarrow> ([], d));
          (candidates, candIssues) = normalizeCASPatchCandidates (cai_CandidateFileHashes input);
          result = \<lparr>car_Schema = CASPatchApplySchemaVersion, car_Status = CASPatchStatusFailed,
             car_PatchID = TrimSpace (cai_PatchID input),
             car_PatchDigest = (if candidates \<noteq> [] then digestCASPatchCandidates candidates else []),
             car_ContextDigest = digest, car_Paths = [], car_Issues = ctxIssues @ candIssues\<rparr>
      in if cai_CandidateFileHashes input = []
         then finalizeCASPatchResult (result\<lparr>car_Issues := car_Issues result @
                [casPatchFailure [] CASPatchIssueCandidateHashesRequired ''candidate_file_hashes are required'']\<rparr>)
         else let evaluated = map (evaluate_candidate authority (cai_CurrentFileHashes input)) candidates
         in finalizeCASPatchResult (result\<lparr>car_Paths := map fst evaluated,
                car_Issues := car_Issues result @ concat (map snd evaluated)\<rparr>))"

subsection \<open>The candidates\<close>

lemma cas_status_distinct [simp]:
  "CASPatchStatusApplied \<noteq> CASPatchStatusConflict" "CASPatchStatusConflict \<noteq> CASPatchStatusApplied"
  "CASPatchStatusApplied \<noteq> CASPatchStatusFailed" "CASPatchStatusFailed \<noteq> CASPatchStatusApplied"
  "CASPatchStatusConflict \<noteq> CASPatchStatusFailed" "CASPatchStatusFailed \<noteq> CASPatchStatusConflict"
  by (simp_all add: CASPatchStatusApplied_def CASPatchStatusConflict_def CASPatchStatusFailed_def)

lemma cas_change_distinct [simp]:
  "CASPatchChangeModify \<noteq> CASPatchChangeAdd" "CASPatchChangeAdd \<noteq> CASPatchChangeModify" "CASPatchChangeAdd \<noteq> []"
  "TrimSpace CASPatchChangeAdd = CASPatchChangeAdd" "CASPatchChangeModify \<noteq> []"
  by (simp_all add: CASPatchChangeModify_def CASPatchChangeAdd_def TrimSpace_graphic graphic_def)

lemma casPatchFailure_simps [simp]:
  "ci_Status (casPatchFailure p k m) = CASPatchStatusFailed" "ci_Path (casPatchFailure p k m) = p"
  "ci_Kind (casPatchFailure p k m) = k"
  by (simp_all add: casPatchFailure_def)

text \<open>A candidate the evaluator accepts: a normalised path with a hash.\<close>

definition good_candidate :: "(string \<times> string) list \<Rightarrow> string \<Rightarrow> bool" where
  "good_candidate raw p \<longleftrightarrow> normalizeResolverPath p = Inr p \<and> TrimSpace (get_str raw p) \<noteq> []"

definition entry_of :: "(string \<times> string) list \<Rightarrow> string \<Rightarrow> casPatchCandidateEntry" where
  "entry_of raw p = \<lparr>ce_path = p, ce_hash = TrimSpace (get_str raw p)\<rparr>"

lemma check_candidate_Inr:
  "check_candidate raw seen p = Inr c \<longleftrightarrow> good_candidate raw p \<and> p \<notin> set seen \<and> c = entry_of raw p"
  by (auto simp: check_candidate_def good_candidate_def entry_of_def Let_def split: sum.splits)

lemma check_candidate_Inl: "check_candidate raw seen p = Inl i \<Longrightarrow> ci_Status i = CASPatchStatusFailed \<and> ci_Path i = p"
  by (auto simp: check_candidate_def Let_def split: sum.splits if_splits)

lemma collect_candidates_fst:
  "distinct ps \<Longrightarrow> set ps \<inter> set seen = {} \<Longrightarrow>
   fst (collect_candidates raw seen ps) = map (entry_of raw) (filter (good_candidate raw) ps)"
proof (induction raw seen ps rule: collect_candidates.induct)
  case (2 raw seen p ps)
  show ?case
  proof (cases "check_candidate raw seen p")
    case (Inl i)
    then have "\<not> good_candidate raw p"
      using check_candidate_Inr [of raw seen p "entry_of raw p"] 2(4) by auto
    with 2 Inl show ?thesis by (auto split: prod.splits)
  next
    case (Inr c)
    then have c: "good_candidate raw p" "c = entry_of raw p" by (simp_all add: check_candidate_Inr)
    then have "fst (collect_candidates raw (ce_path c # seen) ps) = map (entry_of raw) (filter (good_candidate raw) ps)"
      using 2(2) [OF Inr] 2(3,4) by (simp add: entry_of_def)
    with Inr c show ?thesis by (auto split: prod.splits)
  qed
qed simp

lemma collect_candidates_snd:
  "distinct ps \<Longrightarrow> set ps \<inter> set seen = {} \<Longrightarrow>
   (snd (collect_candidates raw seen ps) = [] \<longleftrightarrow> (\<forall>p \<in> set ps. good_candidate raw p)) \<and>
   (\<forall>i \<in> set (snd (collect_candidates raw seen ps)). ci_Status i = CASPatchStatusFailed)"
proof (induction raw seen ps rule: collect_candidates.induct)
  case (2 raw seen p ps)
  show ?case
  proof (cases "check_candidate raw seen p")
    case (Inl i)
    then have "\<not> good_candidate raw p"
      using check_candidate_Inr [of raw seen p "entry_of raw p"] 2(4) by auto
    with 2 Inl check_candidate_Inl [OF Inl] show ?thesis by (auto split: prod.splits)
  next
    case (Inr c)
    then have c: "good_candidate raw p" "c = entry_of raw p" by (simp_all add: check_candidate_Inr)
    with 2(2) [OF Inr] 2(3,4) Inr show ?thesis by (auto simp: entry_of_def split: prod.splits)
  qed
qed simp

lemma sorted_filter_sort_key:
  "sort_key ce_path (map (entry_of raw) (filter P (sort ps))) = map (entry_of raw) (filter P (sort ps))"
proof -
  have "map ce_path (map (entry_of raw) (filter P (sort ps))) = filter P (sort ps)"
    by (simp add: comp_def entry_of_def)
  then have "sorted (map ce_path (map (entry_of raw) (filter P (sort ps))))" by (simp add: sorted_wrt_filter)
  then show ?thesis by (rule sort_key_id_if_sorted)
qed

definition accepted_candidates :: "(string \<times> string) list \<Rightarrow> string list" where
  "accepted_candidates raw = filter (good_candidate raw) (sort (map fst raw))"

lemma normalizeCASPatchCandidates_spec:
  assumes "distinct (map fst raw)"
  shows "fst (normalizeCASPatchCandidates raw) = map (entry_of raw) (accepted_candidates raw)"
    and "snd (normalizeCASPatchCandidates raw) = [] \<longleftrightarrow> (\<forall>p \<in> fst ` set raw. good_candidate raw p)"
    and "\<forall>i \<in> set (snd (normalizeCASPatchCandidates raw)). ci_Status i = CASPatchStatusFailed"
proof -
  have d: "distinct (sort (map fst raw))" using assms by simp
  show "fst (normalizeCASPatchCandidates raw) = map (entry_of raw) (accepted_candidates raw)"
    using collect_candidates_fst [OF d, of "[]" raw]
    by (auto simp: normalizeCASPatchCandidates_def accepted_candidates_def sorted_filter_sort_key split: prod.splits)
  show "snd (normalizeCASPatchCandidates raw) = [] \<longleftrightarrow> (\<forall>p \<in> fst ` set raw. good_candidate raw p)"
    "\<forall>i \<in> set (snd (normalizeCASPatchCandidates raw)). ci_Status i = CASPatchStatusFailed"
    using collect_candidates_snd [OF d, of "[]" raw]
    by (auto simp: normalizeCASPatchCandidates_def split: prod.splits)
qed

subsection \<open>One candidate\<close>

abbreviation base_hash :: "Context \<Rightarrow> string \<Rightarrow> string" where
  "base_hash a p \<equiv> TrimSpace (get_str (base_FileHashes (ctx_Base a)) p)"

abbreviation current_hash :: "(string \<times> string) list \<Rightarrow> string \<Rightarrow> string" where
  "current_hash m p \<equiv> TrimSpace (get_str m p)"

lemma change_kind_empty: "cp_ChangeKind r = [] \<Longrightarrow> casPatchPathChangeKind r = CASPatchChangeModify"
  by (simp add: casPatchPathChangeKind_def)

lemma change_kind_add: "cp_ChangeKind r = CASPatchChangeAdd \<Longrightarrow> casPatchPathChangeKind r = CASPatchChangeAdd"
  by (simp add: casPatchPathChangeKind_def Let_def)

lemma evaluate_candidate_fields [simp]:
  "cp_Path (fst (evaluate_candidate a m c)) = ce_path c"
  "cp_BaseHash (fst (evaluate_candidate a m c)) = base_hash a (ce_path c)"
  "cp_CurrentHash (fst (evaluate_candidate a m c)) = current_hash m (ce_path c)"
  "cp_CandidateHash (fst (evaluate_candidate a m c)) = ce_hash c"
  "cp_ChangeKind (fst (evaluate_candidate a m c)) =
     (if base_hash a (ce_path c) = [] \<and> current_hash m (ce_path c) = [] then CASPatchChangeAdd else [])"
  by (auto simp: evaluate_candidate_def Let_def)

lemma evaluate_candidate_outcome:
  defines "p \<equiv> \<lambda>c. ce_path c"
  shows "evaluate_candidate a m c = (r, is) \<Longrightarrow>
    (is = [] \<and> cp_Status r = CASPatchStatusApplied \<and> pathsetCoversPath (ctx_Pathset a) (p c) \<and>
       base_hash a (p c) = current_hash m (p c)) \<or>
    (\<exists>i. is = [i] \<and> ci_Status i = CASPatchStatusFailed \<and> ci_Path i = p c \<and> cp_Status r = CASPatchStatusFailed \<and>
       (pathsetCoversPath (ctx_Pathset a) (p c) \<longrightarrow>
          base_hash a (p c) \<noteq> current_hash m (p c) \<and> (base_hash a (p c) = [] \<or> current_hash m (p c) = []))) \<or>
    (\<exists>i. is = [i] \<and> ci_Status i = CASPatchStatusConflict \<and> ci_Kind i = CASPatchIssueBaseDrift \<and> ci_Path i = p c \<and>
       cp_Status r = CASPatchStatusConflict \<and> pathsetCoversPath (ctx_Pathset a) (p c) \<and>
       base_hash a (p c) \<noteq> [] \<and> current_hash m (p c) \<noteq> [] \<and> base_hash a (p c) \<noteq> current_hash m (p c))"
  unfolding evaluate_candidate_def Let_def p_def
  by (auto simp: change_kind_empty change_kind_add split: if_splits)

lemma evaluate_candidate_status:
  "cp_Status (fst (evaluate_candidate a m c)) =
     (if pathsetCoversPath (ctx_Pathset a) (ce_path c) then
        if base_hash a (ce_path c) = current_hash m (ce_path c) then CASPatchStatusApplied
        else if base_hash a (ce_path c) = [] \<or> current_hash m (ce_path c) = [] then CASPatchStatusFailed
        else CASPatchStatusConflict
      else CASPatchStatusFailed)"
  using evaluate_candidate_outcome [of a m c "fst (evaluate_candidate a m c)" "snd (evaluate_candidate a m c)"]
  by auto

lemma evaluate_candidate_issues:
  "map ci_Status (snd (evaluate_candidate a m c)) =
     (let st = cp_Status (fst (evaluate_candidate a m c)) in if st = CASPatchStatusApplied then [] else [st])"
  using evaluate_candidate_outcome [of a m c "fst (evaluate_candidate a m c)" "snd (evaluate_candidate a m c)"]
  by auto

subsection \<open>The overall status\<close>

definition status_of :: "string set \<Rightarrow> string" where
  "status_of sts = (if CASPatchStatusFailed \<in> sts then CASPatchStatusFailed
     else if CASPatchStatusConflict \<in> sts then CASPatchStatusConflict else CASPatchStatusApplied)"

lemma finalize_simps [simp]:
  "car_Status (finalizeCASPatchResult r) = status_of (ci_Status ` set (car_Issues r))"
  "car_Paths (finalizeCASPatchResult r) = sort_key cp_Path (car_Paths r)"
  "set (car_Issues (finalizeCASPatchResult r)) = set (car_Issues r)"
  "car_Issues (finalizeCASPatchResult r) = [] \<longleftrightarrow> car_Issues r = []"
  "car_PatchDigest (finalizeCASPatchResult r) = car_PatchDigest r"
  "car_ContextDigest (finalizeCASPatchResult r) = car_ContextDigest r"
  "car_Schema (finalizeCASPatchResult r) = car_Schema r"
  by (auto simp: finalizeCASPatchResult_def Let_def status_of_def list_ex_iff simp flip: set_empty intro: rev_image_eqI)

lemma check_context_cases:
  "check_context (WithDefaults c) =
     (case Context_Validate (WithDefaults c) of
        None \<Rightarrow> Inr (json_digest (json_context (WithDefaults c)))
      | Some e \<Rightarrow> Inl (casPatchFailure [] CASPatchIssueContextInvalid
                    (err_text (Errorf ''repo authority context is invalid: %v'' [AErr e]))))"
  by (auto simp: check_context_def Context_Digest_def Let_def split: option.splits)

definition path_outcome :: "CASPatchApplyInput \<Rightarrow> string \<Rightarrow> string" where
  "path_outcome input p =
     (let a = WithDefaults (cai_Context input) in
      if \<not> good_candidate (cai_CandidateFileHashes input) p \<or> \<not> pathsetCoversPath (ctx_Pathset a) p
      then CASPatchStatusFailed
      else if base_hash a p = current_hash (cai_CurrentFileHashes input) p then CASPatchStatusApplied
      else if base_hash a p = [] \<or> current_hash (cai_CurrentFileHashes input) p = [] then CASPatchStatusFailed
      else CASPatchStatusConflict)"

lemma path_outcome_range:
  "path_outcome input p \<in> {CASPatchStatusFailed, CASPatchStatusConflict, CASPatchStatusApplied}"
  by (simp add: path_outcome_def Let_def)

lemma issue_statuses:
  fixes input :: CASPatchApplyInput
  assumes d: "distinct (map fst (cai_CandidateFileHashes input))"
  defines "raw \<equiv> cai_CandidateFileHashes input" and "a \<equiv> WithDefaults (cai_Context input)"
  defines "evaluated \<equiv> map (evaluate_candidate a (cai_CurrentFileHashes input)) (fst (normalizeCASPatchCandidates raw))"
  shows "ci_Status ` (set (snd (normalizeCASPatchCandidates raw)) \<union> set (concat (map snd evaluated))) =
    path_outcome input ` (fst ` set raw) - {CASPatchStatusApplied}"
proof -
  note spec = normalizeCASPatchCandidates_spec [OF d, folded raw_def]
  have good: "set (accepted_candidates raw) = {p \<in> fst ` set raw. good_candidate raw p}"
    by (auto simp: accepted_candidates_def)
  have st: "cp_Status (fst (evaluate_candidate a (cai_CurrentFileHashes input) (entry_of raw p))) = path_outcome input p"
    if "good_candidate raw p" for p
    using that by (simp add: evaluate_candidate_status path_outcome_def entry_of_def Let_def a_def raw_def)
  have each: "ci_Status ` set (snd (evaluate_candidate a (cai_CurrentFileHashes input) (entry_of raw p))) =
      {path_outcome input p} - {CASPatchStatusApplied}" if "good_candidate raw p" for p
    using arg_cong [OF evaluate_candidate_issues [of a "cai_CurrentFileHashes input" "entry_of raw p"], of set] st [OF that]
    by (auto simp: Let_def split: if_splits)
  have "ci_Status ` set (concat (map snd evaluated)) =
      path_outcome input ` {p \<in> fst ` set raw. good_candidate raw p} - {CASPatchStatusApplied}"
    using each by (auto simp: evaluated_def spec(1) good image_UN)
  moreover have "ci_Status ` set (snd (normalizeCASPatchCandidates raw)) =
      path_outcome input ` {p \<in> fst ` set raw. \<not> good_candidate raw p} - {CASPatchStatusApplied}"
  proof (cases "snd (normalizeCASPatchCandidates raw) = []")
    case True
    with spec(2) show ?thesis by auto
  next
    case False
    then have "ci_Status ` set (snd (normalizeCASPatchCandidates raw)) = {CASPatchStatusFailed}"
      using spec(3) by (auto simp: neq_Nil_conv)
    moreover obtain q where "q \<in> fst ` set raw" "\<not> good_candidate raw q" using False spec(2) by blast
    moreover have "path_outcome input p = CASPatchStatusFailed" if "\<not> good_candidate raw p" for p
      using that by (simp add: path_outcome_def raw_def Let_def)
    ultimately show ?thesis by force
  qed
  ultimately show ?thesis by (auto simp: image_Un)
qed

lemma evaluate_status:
  assumes d: "distinct (map fst (cai_CandidateFileHashes input))"
  shows "car_Status (EvaluateCASPatchApply input) =
    (if Context_Validate (WithDefaults (cai_Context input)) \<noteq> None \<or> cai_CandidateFileHashes input = []
     then CASPatchStatusFailed
     else status_of (path_outcome input ` fst ` set (cai_CandidateFileHashes input)))"
proof -
  have drop: "status_of (S - {CASPatchStatusApplied}) = status_of S" for S
    by (simp add: status_of_def)
  have failed: "status_of (insert CASPatchStatusFailed S) = CASPatchStatusFailed" for S
    by (simp add: status_of_def)
  show ?thesis
    using issue_statuses [OF d] drop [of "path_outcome input ` fst ` set (cai_CandidateFileHashes input)"]
    by (auto simp: EvaluateCASPatchApply_def Let_def check_context_cases image_Un failed
        split: option.splits prod.splits)
qed

lemma status_of_Applied:
  assumes "S \<subseteq> {CASPatchStatusFailed, CASPatchStatusConflict, CASPatchStatusApplied}"
  shows "status_of S = CASPatchStatusApplied \<longleftrightarrow> S \<subseteq> {CASPatchStatusApplied}"
    and "status_of S = CASPatchStatusConflict \<longleftrightarrow> CASPatchStatusConflict \<in> S \<and> CASPatchStatusFailed \<notin> S"
  using assms by (auto simp: status_of_def)

lemma evaluate_fields:
  assumes d: "distinct (map fst (cai_CandidateFileHashes input))"
    and r: "Context_Validate (WithDefaults (cai_Context input)) = None" "cai_CandidateFileHashes input \<noteq> []"
  defines "r \<equiv> EvaluateCASPatchApply input" and "raw \<equiv> cai_CandidateFileHashes input"
    and "a \<equiv> WithDefaults (cai_Context input)"
  shows "car_Paths r = map (\<lambda>p. fst (evaluate_candidate a (cai_CurrentFileHashes input) (entry_of raw p))) (accepted_candidates raw)"
    and "car_PatchDigest r = (if accepted_candidates raw \<noteq> [] then digestCASPatchCandidates (map (entry_of raw) (accepted_candidates raw)) else [])"
    and "car_ContextDigest r = json_digest (json_context a)" and "car_Schema r = CASPatchApplySchemaVersion"
    and "set (car_Issues r) = set (snd (normalizeCASPatchCandidates raw)) \<union>
      (\<Union>p \<in> set (accepted_candidates raw). set (snd (evaluate_candidate a (cai_CurrentFileHashes input) (entry_of raw p))))"
proof -
  note spec = normalizeCASPatchCandidates_spec(1) [OF d, folded raw_def]
  have srt: "sorted (map cp_Path (map (\<lambda>p. fst (evaluate_candidate a (cai_CurrentFileHashes input) (entry_of raw p))) (accepted_candidates raw)))"
    by (simp add: comp_def entry_of_def accepted_candidates_def sorted_wrt_filter)
  show "car_Paths r = map (\<lambda>p. fst (evaluate_candidate a (cai_CurrentFileHashes input) (entry_of raw p))) (accepted_candidates raw)"
    using r spec sort_key_id_if_sorted [OF srt]
    by (auto simp: r_def EvaluateCASPatchApply_def Let_def check_context_cases raw_def a_def comp_def split: prod.splits)
  show "car_PatchDigest r = (if accepted_candidates raw \<noteq> [] then digestCASPatchCandidates (map (entry_of raw) (accepted_candidates raw)) else [])"
    "car_ContextDigest r = json_digest (json_context a)" "car_Schema r = CASPatchApplySchemaVersion"
    "set (car_Issues r) = set (snd (normalizeCASPatchCandidates raw)) \<union>
      (\<Union>p \<in> set (accepted_candidates raw). set (snd (evaluate_candidate a (cai_CurrentFileHashes input) (entry_of raw p))))"
    using r spec
    by (auto simp: r_def EvaluateCASPatchApply_def Let_def check_context_cases raw_def a_def split: prod.splits)
qed

definition issue_key :: "CASPatchIssue \<Rightarrow> string \<times> string \<times> string" where
  "issue_key i = (ci_Status i, ci_Path i, ci_Kind i)"

lemma evaluate_issues:
  assumes d: "distinct (map fst (cai_CandidateFileHashes input))"
    and r: "Context_Validate (WithDefaults (cai_Context input)) = None" "cai_CandidateFileHashes input \<noteq> []"
  defines "raw \<equiv> cai_CandidateFileHashes input" and "a \<equiv> WithDefaults (cai_Context input)"
  shows "car_Issues (EvaluateCASPatchApply input) = sort_key issue_key (snd (normalizeCASPatchCandidates raw) @
      concat (map (\<lambda>p. snd (evaluate_candidate a (cai_CurrentFileHashes input) (entry_of raw p))) (accepted_candidates raw)))"
proof -
  have key: "issue_key = (\<lambda>i. (ci_Status i, ci_Path i, ci_Kind i))" by (simp add: fun_eq_iff issue_key_def)
  obtain cs js where n: "normalizeCASPatchCandidates raw = (cs, js)" by (cases "normalizeCASPatchCandidates raw")
  with normalizeCASPatchCandidates_spec(1) [OF d, folded raw_def] have cs: "cs = map (entry_of raw) (accepted_candidates raw)" by simp
  have ck: "check_context a = Inr (json_digest (json_context a))" using r(1) by (simp add: a_def check_context_cases)
  show ?thesis
    unfolding key using r n ck
    by (simp add: EvaluateCASPatchApply_def Let_def finalizeCASPatchResult_def raw_def [symmetric]
        a_def [symmetric] cs comp_def)
qed

definition drift_issue :: "string \<Rightarrow> string \<Rightarrow> string \<Rightarrow> string \<Rightarrow> CASPatchIssue" where
  "drift_issue p base cur cand =
     \<lparr>ci_Status = CASPatchStatusConflict, ci_Kind = CASPatchIssueBaseDrift, ci_Path = p,
      ci_Message = err_text (Errorf ''base drift for %q'' [AStr p]),
      ci_ExpectedHash = base, ci_ActualHash = cur, ci_CandidateHash = cand\<rparr>"

lemma evaluate_candidate_snd:
  assumes "pathsetCoversPath (ctx_Pathset a) (ce_path c)" and "base_hash a (ce_path c) = [] \<longleftrightarrow> current_hash m (ce_path c) = []"
  shows "snd (evaluate_candidate a m c) = (if base_hash a (ce_path c) = current_hash m (ce_path c) then []
    else [drift_issue (ce_path c) (base_hash a (ce_path c)) (current_hash m (ce_path c)) (ce_hash c)])"
  using assms unfolding evaluate_candidate_def Let_def drift_issue_def
  by (auto simp: change_kind_empty change_kind_add)

text \<open>A drifted path, when each path has either both hashes or none.\<close>

lemma drift_iff:
  fixes b c :: "'p \<Rightarrow> 'h list"
  shows "(\<exists>p \<in> S. G p \<and> b p \<noteq> [] \<and> c p \<noteq> [] \<and> b p \<noteq> c p) \<and> (\<forall>p \<in> S. G p \<and> (b p = [] \<longleftrightarrow> c p = [])) \<longleftrightarrow>
    (\<forall>p \<in> S. G p \<and> (b p = [] \<longleftrightarrow> c p = [])) \<and> (\<exists>p \<in> S. b p \<noteq> c p)"
  by metis

lemma evaluate_applied_iff:
  assumes "distinct (map fst (cai_CandidateFileHashes input))"
  shows "car_Status (EvaluateCASPatchApply input) = CASPatchStatusApplied \<longleftrightarrow>
    Context_Validate (WithDefaults (cai_Context input)) = None \<and> cai_CandidateFileHashes input \<noteq> [] \<and>
    (\<forall>p \<in> fst ` set (cai_CandidateFileHashes input).
       normalizeResolverPath p = Inr p \<and> TrimSpace (get_str (cai_CandidateFileHashes input) p) \<noteq> [] \<and>
       pathsetCoversPath (ctx_Pathset (cai_Context input)) p \<and>
       TrimSpace (get_str (base_FileHashes (ctx_Base (cai_Context input))) p) =
       TrimSpace (get_str (cai_CurrentFileHashes input) p))"
proof -
  have one: "path_outcome input p = CASPatchStatusApplied \<longleftrightarrow>
      good_candidate (cai_CandidateFileHashes input) p \<and> pathsetCoversPath (ctx_Pathset (cai_Context input)) p \<and>
      base_hash (cai_Context input) p = current_hash (cai_CurrentFileHashes input) p" for p
    by (auto simp: path_outcome_def Let_def)
  have "status_of (path_outcome input ` S) = CASPatchStatusApplied \<longleftrightarrow> (\<forall>p \<in> S. path_outcome input p = CASPatchStatusApplied)" for S
    using status_of_Applied(1) [of "path_outcome input ` S"] path_outcome_range by auto
  then show ?thesis
    by (simp add: evaluate_status [OF assms] one good_candidate_def)
qed

lemma evaluate_conflict_iff:
  assumes "distinct (map fst (cai_CandidateFileHashes input))"
  shows "car_Status (EvaluateCASPatchApply input) = CASPatchStatusConflict \<longleftrightarrow>
    Context_Validate (WithDefaults (cai_Context input)) = None \<and>
    (\<forall>p \<in> fst ` set (cai_CandidateFileHashes input).
       normalizeResolverPath p = Inr p \<and> TrimSpace (get_str (cai_CandidateFileHashes input) p) \<noteq> [] \<and>
       pathsetCoversPath (ctx_Pathset (cai_Context input)) p \<and>
       (base_hash (cai_Context input) p = [] \<longleftrightarrow> current_hash (cai_CurrentFileHashes input) p = [])) \<and>
    (\<exists>p \<in> fst ` set (cai_CandidateFileHashes input).
       base_hash (cai_Context input) p \<noteq> current_hash (cai_CurrentFileHashes input) p)"
proof -
  define G where "G p \<longleftrightarrow> good_candidate (cai_CandidateFileHashes input) p \<and>
    pathsetCoversPath (ctx_Pathset (cai_Context input)) p" for p
  define b where "b = base_hash (cai_Context input)"
  define c where "c = current_hash (cai_CurrentFileHashes input)"
  have one: "path_outcome input p = CASPatchStatusFailed \<longleftrightarrow> \<not> (G p \<and> (b p = [] \<longleftrightarrow> c p = []))"
    "path_outcome input p = CASPatchStatusConflict \<longleftrightarrow> G p \<and> b p \<noteq> [] \<and> c p \<noteq> [] \<and> b p \<noteq> c p" for p
    by (auto simp: path_outcome_def Let_def G_def b_def c_def)
  have "status_of (path_outcome input ` S) = CASPatchStatusConflict \<longleftrightarrow>
      (\<exists>p \<in> S. path_outcome input p = CASPatchStatusConflict) \<and> (\<forall>p \<in> S. path_outcome input p \<noteq> CASPatchStatusFailed)" for S
  proof -
    have mem: "x \<in> path_outcome input ` S \<longleftrightarrow> (\<exists>p \<in> S. path_outcome input p = x)" for x by blast
    show ?thesis by (simp add: status_of_def mem)
  qed
  then have "status_of (path_outcome input ` S) = CASPatchStatusConflict \<longleftrightarrow>
      (\<forall>p \<in> S. G p \<and> (b p = [] \<longleftrightarrow> c p = [])) \<and> (\<exists>p \<in> S. b p \<noteq> c p)" for S
    unfolding one not_not drift_iff .
  then show ?thesis
    by (cases "cai_CandidateFileHashes input = []") (simp_all add: evaluate_status [OF assms] good_candidate_def G_def b_def c_def)
qed

subsection \<open>Properties\<close>

text \<open>C25. The evaluator says applied exactly when the context is valid, there is at least one
  candidate, and every candidate path is stably normalised, has a candidate hash, lies in the
  pathset of the context, and has a current hash equal to its base hash (both absent for a path
  that the patch adds). This is the compare of the compare-and-swap.\<close>

theorem cas_applied_iff:
  assumes "distinct (map fst (cai_CandidateFileHashes input))"
  shows "car_Status (EvaluateCASPatchApply input) = CASPatchStatusApplied \<longleftrightarrow>
    Context_Validate (WithDefaults (cai_Context input)) = None \<and> cai_CandidateFileHashes input \<noteq> [] \<and>
    (\<forall>p \<in> fst ` set (cai_CandidateFileHashes input).
       normalizeResolverPath p = Inr p \<and> TrimSpace (get_str (cai_CandidateFileHashes input) p) \<noteq> [] \<and>
       pathsetCoversPath (ctx_Pathset (cai_Context input)) p \<and>
       TrimSpace (get_str (base_FileHashes (ctx_Base (cai_Context input))) p) =
       TrimSpace (get_str (cai_CurrentFileHashes input) p))"
  by (rule evaluate_applied_iff [OF assms])

text \<open>The evaluator reports a conflict exactly when nothing is malformed and some path has
  drifted: both its hashes are known and they differ. Every other problem is a failure.\<close>

theorem cas_conflict_iff:
  assumes "distinct (map fst (cai_CandidateFileHashes input))"
  shows "car_Status (EvaluateCASPatchApply input) = CASPatchStatusConflict \<longleftrightarrow>
    Context_Validate (WithDefaults (cai_Context input)) = None \<and>
    (\<forall>p \<in> fst ` set (cai_CandidateFileHashes input).
       normalizeResolverPath p = Inr p \<and> TrimSpace (get_str (cai_CandidateFileHashes input) p) \<noteq> [] \<and>
       pathsetCoversPath (ctx_Pathset (cai_Context input)) p \<and>
       (base_hash (cai_Context input) p = [] \<longleftrightarrow> current_hash (cai_CurrentFileHashes input) p = [])) \<and>
    (\<exists>p \<in> fst ` set (cai_CandidateFileHashes input).
       base_hash (cai_Context input) p \<noteq> current_hash (cai_CurrentFileHashes input) p)"
  by (rule evaluate_conflict_iff [OF assms])

lemma get_str_mset:
  assumes "mset xs = mset ys" and "distinct (map fst ys)" shows "get_str xs = get_str ys"
  unfolding get_str_def map_of_mset [OF assms] ..

lemma collect_candidates_cong:
  assumes "get_str raw' = get_str raw"
  shows "collect_candidates raw' seen ps = collect_candidates raw seen ps"
proof -
  have "check_candidate raw' = check_candidate raw" unfolding check_candidate_def assms ..
  then show ?thesis by (induction raw seen ps rule: collect_candidates.induct) (auto split: sum.splits)
qed

text \<open>The result of the evaluation does not depend on the iteration order of the candidate and
  current-hash maps: two inputs with the same entries give the same result, issues and their order
  included.\<close>

theorem cas_order_independent:
  assumes "mset cand = mset (cai_CandidateFileHashes input)" and "distinct (map fst (cai_CandidateFileHashes input))"
    and "mset cur = mset (cai_CurrentFileHashes input)" and "distinct (map fst (cai_CurrentFileHashes input))"
  shows "EvaluateCASPatchApply (input\<lparr>cai_CandidateFileHashes := cand, cai_CurrentFileHashes := cur\<rparr>) =
    EvaluateCASPatchApply input"
proof -
  have g: "get_str cand = get_str (cai_CandidateFileHashes input)" "get_str cur = get_str (cai_CurrentFileHashes input)"
    using assms by (auto intro: get_str_mset)
  have "mset (map fst cand) = mset (map fst (cai_CandidateFileHashes input))" using assms(1) by simp
  then have "sort (map fst cand) = sort (map fst (cai_CandidateFileHashes input))" by (rule sort_mset)
  then have "normalizeCASPatchCandidates cand = normalizeCASPatchCandidates (cai_CandidateFileHashes input)"
    by (simp add: normalizeCASPatchCandidates_def collect_candidates_cong [OF g(1)])
  moreover have "cand = [] \<longleftrightarrow> cai_CandidateFileHashes input = []" using assms(1) by (metis mset_zero_iff)
  moreover have "evaluate_candidate a cur = evaluate_candidate a (cai_CurrentFileHashes input)" for a
    unfolding evaluate_candidate_def g(2) ..
  ultimately show ?thesis by (simp add: EvaluateCASPatchApply_def Let_def split: prod.split)
qed

definition demo_patch :: CASPatchApplyInput where
  "demo_patch = \<lparr>cai_Context = demo_context, cai_PatchID = ''p'',
     cai_CurrentFileHashes = [(''a.go'', ''h1'')], cai_CandidateFileHashes = [(''b.go'', ''n2''), (''a.go'', ''n1'')]\<rparr>"

lemma demo_patch_distinct: "distinct (map fst (cai_CandidateFileHashes demo_patch))" "distinct (map fst (cai_CurrentFileHashes demo_patch))"
  by code_simp+

theorem cas_applied_iff_witness: "car_Status (EvaluateCASPatchApply demo_patch) = CASPatchStatusApplied"
proof -
  have "Context_Validate (WithDefaults (cai_Context demo_patch)) = None" "cai_CandidateFileHashes demo_patch \<noteq> []"
    "list_all (\<lambda>p. normalizeResolverPath p = Inr p \<and> TrimSpace (get_str (cai_CandidateFileHashes demo_patch) p) \<noteq> [] \<and>
       pathsetCoversPath (ctx_Pathset (cai_Context demo_patch)) p \<and>
       TrimSpace (get_str (base_FileHashes (ctx_Base (cai_Context demo_patch))) p) =
       TrimSpace (get_str (cai_CurrentFileHashes demo_patch) p)) (map fst (cai_CandidateFileHashes demo_patch))"
    by code_simp+
  then show ?thesis using cas_applied_iff [OF demo_patch_distinct(1)] by (simp add: list_all_iff)
qed

theorem cas_conflict_iff_witness:
  "car_Status (EvaluateCASPatchApply (demo_patch\<lparr>cai_CurrentFileHashes := [(''a.go'', ''h2'')]\<rparr>)) = CASPatchStatusConflict"
proof -
  let ?i = "demo_patch\<lparr>cai_CurrentFileHashes := [(''a.go'', ''h2'')]\<rparr>"
  have d: "distinct (map fst (cai_CandidateFileHashes ?i))" by code_simp
  have "Context_Validate (WithDefaults (cai_Context ?i)) = None"
    "list_all (\<lambda>p. normalizeResolverPath p = Inr p \<and> TrimSpace (get_str (cai_CandidateFileHashes ?i) p) \<noteq> [] \<and>
       pathsetCoversPath (ctx_Pathset (cai_Context ?i)) p \<and>
       (base_hash (cai_Context ?i) p = [] \<longleftrightarrow> current_hash (cai_CurrentFileHashes ?i) p = [])) (map fst (cai_CandidateFileHashes ?i))"
    "list_ex (\<lambda>p. base_hash (cai_Context ?i) p \<noteq> current_hash (cai_CurrentFileHashes ?i) p) (map fst (cai_CandidateFileHashes ?i))"
    by code_simp+
  then show ?thesis unfolding cas_conflict_iff [OF d] by (simp only: list_all_iff list_ex_iff set_map simp_thms)
qed

theorem cas_order_independent_witness:
  "EvaluateCASPatchApply (demo_patch\<lparr>cai_CandidateFileHashes := [(''a.go'', ''n1''), (''b.go'', ''n2'')],
     cai_CurrentFileHashes := [(''a.go'', ''h1'')]\<rparr>) = EvaluateCASPatchApply demo_patch"
  by (rule cas_order_independent [OF _ demo_patch_distinct(1) _ demo_patch_distinct(2)])
    (simp_all add: demo_patch_def add_mset_commute)

end
