(* ===== verification/Cas_Evidence.thy ===== *)
theory Cas_Evidence
  imports Cas_Patch
begin

section \<open>Validation of compare-and-swap evidence\<close>

text \<open>
  The part of \<open>internal/repoauthority/patch_queue.go\<close> that decides whether a compare-and-swap
  result may be recorded on a queue item. The map \<open>pathResults\<close> that the code fills from the
  listed paths is an association list in that order; where the code ranges over it, the order
  only decides which of several errors is reported. The link with the evaluator is in the
  properties: what \<open>EvaluateCASPatchApply\<close> produces is accepted, for an applied patch exactly when
  it covers the unscoped entries of the pathset and for a conflict always.
\<close>

definition validateCASPathChangeKind :: "CASPatchPathResult \<Rightarrow> string result" where
  "validateCASPathChangeKind pr =
     (let changeKind = casPatchPathChangeKind pr
      in if changeKind = CASPatchChangeModify \<or> changeKind = CASPatchChangeAdd then Inr changeKind
         else Inl (Errorf ''CAS evidence path %q has unsupported change_kind %q'' [AStr (cp_Path pr), AStr (cp_ChangeKind pr)]))"

definition cas_statuses :: "string list" where
  "cas_statuses = [CASPatchStatusApplied, CASPatchStatusConflict, CASPatchStatusFailed]"

definition check_change :: "CASPatchPathResult \<Rightarrow> string \<Rightarrow> string \<Rightarrow> err option" where
  "check_change pr baseHash changeKind =
     (if changeKind = CASPatchChangeAdd then guards
        [fail_if (baseHash \<noteq> []) (Errorf ''CAS evidence added path %q already has authority base hash'' [AStr (cp_Path pr)]),
         fail_if (TrimSpace (cp_BaseHash pr) \<noteq> [] \<or> TrimSpace (cp_CurrentHash pr) \<noteq> [])
           (Errorf ''CAS evidence added path %q must not carry base or current hashes'' [AStr (cp_Path pr)]),
         fail_if (TrimSpace (cp_CandidateHash pr) = [])
           (Errorf ''CAS evidence added path %q requires candidate hash'' [AStr (cp_Path pr)]),
         fail_if (cp_Status pr = CASPatchStatusConflict)
           (Errorf ''CAS evidence added path %q cannot be a base-drift conflict'' [AStr (cp_Path pr)])]
      else guards
        [fail_if (baseHash = []) (Errorf ''CAS evidence path %q has no authority base hash'' [AStr (cp_Path pr)]),
         fail_if (TrimSpace (cp_BaseHash pr) \<noteq> baseHash)
           (Errorf ''CAS evidence path %q base hash mismatch: got %q want %q'' [AStr (cp_Path pr), AStr (cp_BaseHash pr), AStr baseHash]),
         fail_if (cp_Status pr = CASPatchStatusConflict \<and> (TrimSpace (cp_CurrentHash pr) = [] \<or> TrimSpace (cp_CandidateHash pr) = []))
           (Errorf ''CAS conflict path %q requires current and candidate hashes'' [AStr (cp_Path pr)]),
         fail_if (cp_Status pr = CASPatchStatusConflict \<and> TrimSpace (cp_CurrentHash pr) = TrimSpace (cp_BaseHash pr))
           (Errorf ''CAS conflict path %q does not show base drift'' [AStr (cp_Path pr)])])"

definition check_path_result :: "Context \<Rightarrow> string list \<Rightarrow> (string \<times> CASPatchPathResult) list \<Rightarrow> CASPatchPathResult \<Rightarrow> err option" where
  "check_path_result authority pathset seen pr =
     (case normalizeResolverPath (cp_Path pr) of
        Inl e \<Rightarrow> Some (Errorf ''CAS evidence path %q is invalid: %w'' [AStr (cp_Path pr), AErr e])
      | Inr normalized \<Rightarrow> guards
          [fail_if (normalized \<noteq> cp_Path pr)
             (Errorf ''CAS evidence path is not normalized: got %q want %q'' [AStr (cp_Path pr), AStr normalized]),
           fail_if (cp_Status pr \<notin> set cas_statuses)
             (Errorf ''CAS evidence path %q has unsupported status %q'' [AStr (cp_Path pr), AStr (cp_Status pr)]),
           fail_if (\<not> pathsetCoversPath pathset (cp_Path pr))
             (Errorf ''CAS evidence path %q is outside patch queue context'' [AStr (cp_Path pr)]),
           fail_if (map_of seen (cp_Path pr) \<noteq> None) (Errorf ''CAS evidence path %q is duplicated'' [AStr (cp_Path pr)]),
           (case validateCASPathChangeKind pr of
              Inl e \<Rightarrow> Some e
            | Inr changeKind \<Rightarrow>
                check_change pr (TrimSpace (get_str (base_FileHashes (ctx_Base authority)) (cp_Path pr))) changeKind)])"

fun collect_path_results ::
  "Context \<Rightarrow> string list \<Rightarrow> (string \<times> CASPatchPathResult) list \<Rightarrow> CASPatchPathResult list
   \<Rightarrow> (string \<times> CASPatchPathResult) list result" where
  "collect_path_results authority pathset seen [] = Inr seen"
| "collect_path_results authority pathset seen (pr # prs) =
     (case check_path_result authority pathset seen pr of
        Some e \<Rightarrow> Inl e
      | None \<Rightarrow> collect_path_results authority pathset
                 (seen @ [(cp_Path pr, pr\<lparr>cp_ChangeKind := TrimSpace (cp_ChangeKind pr)\<rparr>)]) prs)"

definition validateCASAppliedPathHashes :: "CASPatchPathResult \<Rightarrow> err option" where
  "validateCASAppliedPathHashes pr =
     (case validateCASPathChangeKind pr of
        Inl e \<Rightarrow> Some e
      | Inr changeKind \<Rightarrow>
          if changeKind = CASPatchChangeAdd then guards
            [fail_if (TrimSpace (cp_BaseHash pr) \<noteq> [] \<or> TrimSpace (cp_CurrentHash pr) \<noteq> [])
               (Errorf ''applied CAS evidence added path %q must not carry base or current hashes'' [AStr (cp_Path pr)]),
             fail_if (TrimSpace (cp_CandidateHash pr) = [])
               (Errorf ''applied CAS evidence added path %q requires candidate hash'' [AStr (cp_Path pr)])]
          else guards
            [fail_if (TrimSpace (cp_CurrentHash pr) = [] \<or> TrimSpace (cp_CandidateHash pr) = [])
               (Errorf ''applied CAS evidence path %q requires current and candidate hashes'' [AStr (cp_Path pr)]),
             fail_if (TrimSpace (cp_CurrentHash pr) \<noteq> TrimSpace (cp_BaseHash pr))
               (Errorf ''applied CAS evidence path %q current hash must match base hash'' [AStr (cp_Path pr)])])"

definition casPatchIssueKindAllowed :: "string \<Rightarrow> bool" where
  "casPatchIssueKindAllowed kind \<longleftrightarrow> kind \<in> set
     [CASPatchIssueContextInvalid, CASPatchIssueCandidateHashesRequired, CASPatchIssueCandidatePathInvalid,
      CASPatchIssueCandidatePathUnstable, CASPatchIssueCandidatePathDuplicate, CASPatchIssueCandidateHashMissing,
      CASPatchIssuePathOutsideContext, CASPatchIssueBaseHashMissing, CASPatchIssueCurrentHashMissing, CASPatchIssueBaseDrift]"

definition check_issue_path :: "string list \<Rightarrow> string \<Rightarrow> err option" where
  "check_issue_path pathset p =
     (if p = [] then None
      else case normalizeResolverPath p of
        Inl e \<Rightarrow> Some (Errorf ''CAS issue path %q is invalid: %w'' [AStr p, AErr e])
      | Inr normalized \<Rightarrow> guards
          [fail_if (normalized \<noteq> p) (Errorf ''CAS issue path is not normalized: got %q want %q'' [AStr p, AStr normalized]),
           fail_if (\<not> pathsetCoversPath pathset p) (Errorf ''CAS issue path %q is outside patch queue context'' [AStr p])])"

definition check_drift_issue :: "CASPatchIssue \<Rightarrow> string \<Rightarrow> (string \<times> CASPatchPathResult) list \<Rightarrow> err option" where
  "check_drift_issue issue p pathResults =
     (if TrimSpace (ci_ExpectedHash issue) = [] \<or> TrimSpace (ci_ActualHash issue) = [] \<or> TrimSpace (ci_CandidateHash issue) = []
      then Some (Errorf ''CAS base_drift issue for %q requires expected, actual and candidate hashes'' [AStr p])
      else case map_of pathResults p of
        None \<Rightarrow> Some (Errorf ''CAS base_drift issue for %q requires matching conflict path result'' [AStr p])
      | Some pr \<Rightarrow> guards
          [fail_if (cp_Status pr \<noteq> CASPatchStatusConflict)
             (Errorf ''CAS base_drift issue for %q requires matching conflict path result'' [AStr p]),
           fail_if (TrimSpace (ci_ExpectedHash issue) \<noteq> TrimSpace (cp_BaseHash pr)
               \<or> TrimSpace (ci_ActualHash issue) \<noteq> TrimSpace (cp_CurrentHash pr)
               \<or> TrimSpace (ci_CandidateHash issue) \<noteq> TrimSpace (cp_CandidateHash pr))
             (Errorf ''CAS base_drift issue for %q hashes do not match conflict path result'' [AStr p]),
           fail_if (TrimSpace (cp_CurrentHash pr) = TrimSpace (cp_BaseHash pr))
             (Errorf ''CAS base_drift issue for %q does not show base drift'' [AStr p])])"

definition validateCASIssueEvidence ::
  "CASPatchIssue \<Rightarrow> string \<Rightarrow> string list \<Rightarrow> (string \<times> CASPatchPathResult) list \<Rightarrow> err option" where
  "validateCASIssueEvidence issue resultStatus pathset pathResults =
     (let status = TrimSpace (ci_Status issue); kind = TrimSpace (ci_Kind issue); p = TrimSpace (ci_Path issue)
      in guards
        [fail_if (status \<noteq> CASPatchStatusConflict \<and> status \<noteq> CASPatchStatusFailed)
           (Errorf ''CAS issue has unsupported status %q'' [AStr (ci_Status issue)]),
         fail_if (\<not> casPatchIssueKindAllowed kind) (Errorf ''CAS issue kind %q is not supported'' [AStr (ci_Kind issue)]),
         fail_if (resultStatus = CASPatchStatusConflict \<and> status \<noteq> CASPatchStatusConflict)
           (Errorf ''conflict CAS evidence cannot contain %q issue'' [AStr status]),
         fail_if (resultStatus = CASPatchStatusConflict \<and> kind \<noteq> CASPatchIssueBaseDrift)
           (Errorf ''conflict CAS evidence issue kind %q is not supported'' [AStr kind]),
         fail_if ((status = CASPatchStatusConflict \<or> kind = CASPatchIssueBaseDrift) \<and> p = [])
           (Errorf ''CAS conflict issue %q requires path'' [AStr kind]),
         check_issue_path pathset p,
         (if kind = CASPatchIssueBaseDrift then check_drift_issue issue p pathResults else None),
         fail_if (status = CASPatchStatusConflict \<and>
             (case map_of pathResults p of None \<Rightarrow> True | Some pr \<Rightarrow> cp_Status pr \<noteq> CASPatchStatusConflict))
           (Errorf ''CAS conflict issue for %q requires matching conflict path result'' [AStr p])])"

definition verifyCASAppliedPathsetCoverage :: "string list \<Rightarrow> (string \<times> CASPatchPathResult) list \<Rightarrow> err option" where
  "verifyCASAppliedPathsetCoverage pathset pathResults = guards
     (map (\<lambda>p. fail_if (\<not> pathsetEntryIsScoped p \<and> map_of pathResults p = None)
        (Errorf ''applied CAS evidence missing path %q from patch queue pathset'' [AStr p])) pathset)"

fun drift_issue_paths :: "string list \<Rightarrow> CASPatchIssue list \<Rightarrow> string list result" where
  "drift_issue_paths seen [] = Inr seen"
| "drift_issue_paths seen (issue # issues) =
     (if ci_Status issue \<noteq> CASPatchStatusConflict \<or> ci_Kind issue \<noteq> CASPatchIssueBaseDrift then drift_issue_paths seen issues
      else let p = TrimSpace (ci_Path issue)
      in if p \<in> set seen then Inl (Errorf ''conflict CAS evidence has duplicate base_drift issue for %q'' [AStr p])
         else drift_issue_paths (p # seen) issues)"

definition verifyCASConflictPathIssueConsistency ::
  "CASPatchApplyResult \<Rightarrow> (string \<times> CASPatchPathResult) list \<Rightarrow> err option" where
  "verifyCASConflictPathIssueConsistency result pathResults =
     (let conflictPaths = map fst (filter (\<lambda>(p, pr). cp_Status pr = CASPatchStatusConflict) pathResults)
      in case guards (map (\<lambda>(p, pr).
             if cp_Status pr = CASPatchStatusApplied
             then map_option (\<lambda>e. Errorf ''conflict CAS evidence applied path result %q: %w'' [AStr p, AErr e])
                    (validateCASAppliedPathHashes pr)
             else fail_if (cp_Status pr = CASPatchStatusFailed)
                    (Errorf ''conflict CAS evidence cannot contain failed path result %q'' [AStr p])) pathResults) of
           Some e \<Rightarrow> Some e
         | None \<Rightarrow>
             (case drift_issue_paths [] (car_Issues result) of
                Inl e \<Rightarrow> Some e
              | Inr issuePaths \<Rightarrow> guards
                  ([fail_if (conflictPaths = []) (Errorf ''conflict CAS evidence requires conflict path results'' []),
                    fail_if (length conflictPaths \<noteq> length issuePaths)
                      (Errorf ''conflict CAS evidence conflict path/result issue count mismatch'' [])]
                   @ map (\<lambda>p. fail_if (p \<notin> set issuePaths)
                       (Errorf ''conflict CAS evidence path %q requires matching base_drift issue'' [AStr p])) conflictPaths)))"

definition verifyCASPatchDigestFromPathResults :: "CASPatchApplyResult \<Rightarrow> err option" where
  "verifyCASPatchDigestFromPathResults result =
     (let candidates = map (\<lambda>pr. \<lparr>ce_path = cp_Path pr, ce_hash = TrimSpace (cp_CandidateHash pr)\<rparr>) (car_Paths result);
          expected = digestCASPatchCandidates (sort_key ce_path candidates)
      in guards
        (map (\<lambda>pr. fail_if (TrimSpace (cp_CandidateHash pr) = [])
            (Errorf ''CAS evidence path %q candidate hash is required for patch digest'' [AStr (cp_Path pr)])) (car_Paths result)
         @ [fail_if (TrimSpace (car_PatchDigest result) \<noteq> expected)
              (Errorf ''CAS evidence patch digest mismatch: got %q want %q'' [AStr (car_PatchDigest result), AStr expected])]))"

definition conflictIssuesFromCAS :: "CASPatchApplyResult \<Rightarrow> CASPatchIssue list" where
  "conflictIssuesFromCAS result = filter (\<lambda>i. ci_Status i = CASPatchStatusConflict) (car_Issues result)"

text \<open>The checks that depend on the status of the whole result.\<close>

definition check_by_status :: "CASPatchApplyResult \<Rightarrow> string list \<Rightarrow> (string \<times> CASPatchPathResult) list \<Rightarrow> err option" where
  "check_by_status result pathset pathResults =
     (if car_Status result = CASPatchStatusApplied then guards
        [fail_if (TrimSpace (car_ContextDigest result) = []) (Errorf ''applied CAS evidence requires context digest'' []),
         fail_if (TrimSpace (car_PatchDigest result) = []) (Errorf ''applied CAS evidence requires patch digest'' []),
         fail_if (car_Paths result = []) (Errorf ''applied CAS evidence requires path results'' []),
         fail_if (car_Issues result \<noteq> []) (Errorf ''applied CAS evidence must not contain issues'' []),
         verifyCASAppliedPathsetCoverage pathset pathResults,
         guards (map (\<lambda>(p, pr). guards
            [fail_if (cp_Status pr \<noteq> CASPatchStatusApplied)
               (Errorf ''applied CAS evidence path %q has non-applied status %q'' [AStr (cp_Path pr), AStr (cp_Status pr)]),
             validateCASAppliedPathHashes pr]) pathResults),
         verifyCASPatchDigestFromPathResults result]
      else if car_Status result = CASPatchStatusConflict then guards
        [fail_if (TrimSpace (car_ContextDigest result) = []) (Errorf ''conflict CAS evidence requires context digest'' []),
         fail_if (TrimSpace (car_PatchDigest result) = []) (Errorf ''conflict CAS evidence requires patch digest'' []),
         fail_if (conflictIssuesFromCAS result = []) (Errorf ''conflict CAS evidence requires conflict issues'' []),
         verifyCASConflictPathIssueConsistency result pathResults,
         verifyCASPatchDigestFromPathResults result]
      else fail_if (car_Issues result = []) (Errorf ''failed CAS evidence requires issues'' []))"

definition validateCASEvidence :: "CASPatchApplyResult \<Rightarrow> Context \<Rightarrow> err option" where
  "validateCASEvidence result authority = err_of
     (require (fail_if (TrimSpace (car_Schema result) \<noteq> CASPatchApplySchemaVersion) (Errorf ''CAS evidence schema is required'' []))
     (require (fail_if (car_Status result \<notin> set cas_statuses)
         (Errorf ''CAS evidence status %q is not supported'' [AStr (car_Status result)]))
     (bind_result (map_err (\<lambda>e. Errorf ''CAS evidence context: %w'' [AErr e]) (Context_Digest authority)) (\<lambda>fullDigest.
      require (fail_if (TrimSpace (car_ContextDigest result) \<noteq> [] \<and> TrimSpace (car_ContextDigest result) \<noteq> fullDigest)
         (Errorf ''CAS evidence context digest mismatch: got %q want %q'' [AStr (car_ContextDigest result), AStr fullDigest]))
     (bind_result (map_err (\<lambda>e. Errorf ''CAS evidence context pathset: %w'' [AErr e]) (NormalizePathSet (ctx_Pathset authority))) (\<lambda>pathset.
      bind_result (collect_path_results authority pathset [] (car_Paths result)) (\<lambda>pathResults.
      require (guards (map (\<lambda>issue. validateCASIssueEvidence issue (car_Status result) pathset pathResults) (car_Issues result)))
     (require (check_by_status result pathset pathResults) (Inr ())))))))))"

subsection \<open>What accepted evidence says\<close>

lemma validateCASEvidence_None:
  "validateCASEvidence r a = None \<longleftrightarrow>
     TrimSpace (car_Schema r) = CASPatchApplySchemaVersion \<and> car_Status r \<in> set cas_statuses \<and>
     (\<exists>d ps m. Context_Digest a = Inr d \<and> (TrimSpace (car_ContextDigest r) = [] \<or> TrimSpace (car_ContextDigest r) = d) \<and>
        NormalizePathSet (ctx_Pathset a) = Inr ps \<and> collect_path_results a ps [] (car_Paths r) = Inr m \<and>
        (\<forall>i \<in> set (car_Issues r). validateCASIssueEvidence i (car_Status r) ps m = None) \<and> check_by_status r ps m = None)"
  by (auto simp: validateCASEvidence_def bind_result_Inr guards_None)

text \<open>The entry that the code keeps for a path, and the map it builds from a list without duplicates.\<close>

definition path_entry :: "CASPatchPathResult \<Rightarrow> string \<times> CASPatchPathResult" where
  "path_entry pr = (cp_Path pr, pr\<lparr>cp_ChangeKind := TrimSpace (cp_ChangeKind pr)\<rparr>)"

lemma check_path_result_None:
  "check_path_result a ps m pr = None \<longleftrightarrow>
     normalizeResolverPath (cp_Path pr) = Inr (cp_Path pr) \<and> cp_Status pr \<in> set cas_statuses \<and>
     pathsetCoversPath ps (cp_Path pr) \<and> map_of m (cp_Path pr) = None \<and>
     (\<exists>k. validateCASPathChangeKind pr = Inr k \<and> check_change pr (base_hash a (cp_Path pr)) k = None)"
  by (auto simp: check_path_result_def split: sum.splits)

lemma collect_path_results_Inr:
  "collect_path_results a ps m prs = Inr m' \<longleftrightarrow>
     m' = m @ map path_entry prs \<and> distinct (map cp_Path prs) \<and> cp_Path ` set prs \<inter> fst ` set m = {} \<and>
     (\<forall>pr \<in> set prs. check_path_result a ps [] pr = None)"
proof (induction prs arbitrary: m)
  case (Cons pr prs)
  have first: "check_path_result a ps m pr = None \<longleftrightarrow> check_path_result a ps [] pr = None \<and> cp_Path pr \<notin> fst ` set m"
    by (auto simp: check_path_result_None map_of_eq_None_iff)
  have step: "collect_path_results a ps m (pr # prs) = Inr m' \<longleftrightarrow>
      check_path_result a ps m pr = None \<and> collect_path_results a ps (m @ [path_entry pr]) prs = Inr m'"
    by (auto simp: path_entry_def split: option.splits)
  show ?case
    unfolding step first Cons.IH by (auto simp: path_entry_def)
qed auto

lemma validateCASPathChangeKind_Inr:
  "validateCASPathChangeKind pr = Inr k \<longleftrightarrow> k = casPatchPathChangeKind pr \<and> (k = CASPatchChangeModify \<or> k = CASPatchChangeAdd)"
  by (auto simp: validateCASPathChangeKind_def Let_def)

lemma change_kind_trim [simp]:
  "casPatchPathChangeKind (pr\<lparr>cp_ChangeKind := TrimSpace (cp_ChangeKind pr)\<rparr>) = casPatchPathChangeKind pr"
  by (simp add: casPatchPathChangeKind_def)

lemma validateCASAppliedPathHashes_trim [simp]:
  "validateCASAppliedPathHashes (pr\<lparr>cp_ChangeKind := TrimSpace (cp_ChangeKind pr)\<rparr>) = None \<longleftrightarrow>
   validateCASAppliedPathHashes pr = None"
  by (auto simp: validateCASAppliedPathHashes_def validateCASPathChangeKind_def Let_def split: if_splits)

lemma applied_hashes_equal:
  "validateCASAppliedPathHashes pr = None \<Longrightarrow>
   TrimSpace (cp_CurrentHash pr) = TrimSpace (cp_BaseHash pr) \<and> TrimSpace (cp_CandidateHash pr) \<noteq> []"
  by (auto simp: validateCASAppliedPathHashes_def split: sum.splits if_splits)

subsection \<open>Evidence made by the evaluator\<close>

lemma cas_statuses_iff: "st \<in> set cas_statuses \<longleftrightarrow> st = CASPatchStatusApplied \<or> st = CASPatchStatusConflict \<or> st = CASPatchStatusFailed"
  by (simp add: cas_statuses_def)

lemma evaluated_path_accepted:
  assumes good: "good_candidate raw p" and cov: "pathsetCoversPath (ctx_Pathset a) p"
    and both: "base_hash a p = [] \<longleftrightarrow> current_hash m p = []"
  defines "pr \<equiv> fst (evaluate_candidate a m (entry_of raw p))"
  shows "check_path_result a (ctx_Pathset a) [] pr = None"
    and "cp_Status pr = CASPatchStatusApplied \<Longrightarrow> validateCASAppliedPathHashes pr = None"
proof -
  have f: "cp_Path pr = p" "cp_BaseHash pr = base_hash a p" "cp_CurrentHash pr = current_hash m p"
    "cp_CandidateHash pr = TrimSpace (get_str raw p)"
    "cp_ChangeKind pr = (if base_hash a p = [] \<and> current_hash m p = [] then CASPatchChangeAdd else [])"
    by (simp_all add: pr_def entry_of_def)
  have st: "cp_Status pr = (if base_hash a p = current_hash m p then CASPatchStatusApplied else CASPatchStatusConflict)"
    using cov both by (simp add: pr_def evaluate_candidate_status entry_of_def)
  have kind: "casPatchPathChangeKind pr = (if base_hash a p = [] then CASPatchChangeAdd else CASPatchChangeModify)"
    using f(5) both by (simp add: change_kind_empty change_kind_add)
  have cand: "TrimSpace (get_str raw p) \<noteq> []" "normalizeResolverPath p = Inr p" using good by (simp_all add: good_candidate_def)
  have "check_change pr (base_hash a p) (casPatchPathChangeKind pr) = None"
    using both cand(1) unfolding check_change_def kind by (simp add: f st)
  then show "check_path_result a (ctx_Pathset a) [] pr = None"
    using cov cand(2) unfolding check_path_result_None validateCASPathChangeKind_Inr
    by (auto simp: f st cas_statuses_iff kind)
  show "validateCASAppliedPathHashes pr = None" if "cp_Status pr = CASPatchStatusApplied"
    using that both cand(1) unfolding validateCASAppliedPathHashes_def validateCASPathChangeKind_def Let_def kind
    by (auto simp: f st split: if_splits)
qed

text \<open>What the evaluator's result looks like when nothing failed.\<close>

lemma evaluated_without_failure:
  fixes input :: CASPatchApplyInput
  assumes d: "distinct (map fst (cai_CandidateFileHashes input))"
    and v: "Context_Validate (WithDefaults (cai_Context input)) = None" and ne: "cai_CandidateFileHashes input \<noteq> []"
    and ok: "\<forall>p \<in> fst ` set (cai_CandidateFileHashes input). good_candidate (cai_CandidateFileHashes input) p \<and>
      pathsetCoversPath (ctx_Pathset (cai_Context input)) p \<and>
      (base_hash (cai_Context input) p = [] \<longleftrightarrow> current_hash (cai_CurrentFileHashes input) p = [])"
  defines "r \<equiv> EvaluateCASPatchApply input" and "a \<equiv> WithDefaults (cai_Context input)"
    and "keys \<equiv> sort (map fst (cai_CandidateFileHashes input))"
  shows "collect_path_results a (ctx_Pathset a) [] (car_Paths r) = Inr (map path_entry (car_Paths r))"
    and "map cp_Path (car_Paths r) = keys"
    and "\<forall>pr \<in> set (car_Paths r). cp_Status pr = CASPatchStatusApplied \<longrightarrow> validateCASAppliedPathHashes pr = None"
    and "verifyCASPatchDigestFromPathResults r = None"
    and "TrimSpace (car_PatchDigest r) \<noteq> []" and "TrimSpace (car_ContextDigest r) = json_digest (json_context a)"
    and "TrimSpace (car_Schema r) = CASPatchApplySchemaVersion"
    and "car_Issues r = sort_key issue_key (map (\<lambda>p. drift_issue p (base_hash a p) (current_hash (cai_CurrentFileHashes input) p)
        (TrimSpace (get_str (cai_CandidateFileHashes input) p)))
      (filter (\<lambda>p. base_hash a p \<noteq> current_hash (cai_CurrentFileHashes input) p) keys))"
    and "car_Paths r = map (\<lambda>p. fst (evaluate_candidate a (cai_CurrentFileHashes input) (entry_of (cai_CandidateFileHashes input) p))) keys"
proof -
  let ?raw = "cai_CandidateFileHashes input" and ?m = "cai_CurrentFileHashes input"
  have acc: "accepted_candidates ?raw = keys" using ok by (auto simp: accepted_candidates_def keys_def filter_id_conv)
  have ne': "keys \<noteq> []" using ne by (simp add: keys_def flip: set_empty)
  have ok': "good_candidate ?raw p" "pathsetCoversPath (ctx_Pathset a) p" "base_hash a p = [] \<longleftrightarrow> current_hash ?m p = []"
    if "p \<in> set keys" for p using bspec [OF ok, of p] that by (simp_all add: keys_def a_def)
  note f = evaluate_fields [OF d v ne, folded r_def a_def, unfolded acc]
  show P: "car_Paths r = map (\<lambda>p. fst (evaluate_candidate a ?m (entry_of ?raw p))) keys" by (rule f(1))
  show paths: "map cp_Path (car_Paths r) = keys" by (simp add: f(1) comp_def entry_of_def)
  have "distinct keys" using d by (simp add: keys_def)
  with paths have "distinct (map cp_Path (car_Paths r))" by simp
  moreover have "\<forall>pr \<in> set (car_Paths r). check_path_result a (ctx_Pathset a) [] pr = None"
    unfolding f(1) using evaluated_path_accepted(1) [OF ok'] by auto
  ultimately show "collect_path_results a (ctx_Pathset a) [] (car_Paths r) = Inr (map path_entry (car_Paths r))"
    by (simp add: collect_path_results_Inr)
  show "\<forall>pr \<in> set (car_Paths r). cp_Status pr = CASPatchStatusApplied \<longrightarrow> validateCASAppliedPathHashes pr = None"
    unfolding f(1) using evaluated_path_accepted(2) [OF ok'] by auto
  have dig: "car_PatchDigest r = digestCASPatchCandidates (map (entry_of ?raw) keys)" using f(2) ne' by simp
  have entries: "map (\<lambda>pr. \<lparr>ce_path = cp_Path pr, ce_hash = TrimSpace (cp_CandidateHash pr)\<rparr>) (car_Paths r) = map (entry_of ?raw) keys"
    by (simp add: f(1) comp_def entry_of_def)
  have "sort_key ce_path (map (entry_of ?raw) keys) = map (entry_of ?raw) keys"
    using sorted_filter_sort_key [of ?raw "\<lambda>_. True"] by (simp add: keys_def)
  moreover have "\<forall>pr \<in> set (car_Paths r). TrimSpace (cp_CandidateHash pr) \<noteq> []"
    unfolding f(1) using ok'(1) by (auto simp: entry_of_def good_candidate_def)
  ultimately show "verifyCASPatchDigestFromPathResults r = None"
    unfolding verifyCASPatchDigestFromPathResults_def Let_def entries dig guards_append
    by (simp add: guards_None digestCASPatchCandidates_def split: option.split)
  show "TrimSpace (car_PatchDigest r) \<noteq> []" by (simp add: dig digestCASPatchCandidates_def)
  show "TrimSpace (car_ContextDigest r) = json_digest (json_context a)" by (simp add: f(3))
  show "TrimSpace (car_Schema r) = CASPatchApplySchemaVersion"
    by (simp add: f(4) CASPatchApplySchemaVersion_def TrimSpace_graphic graphic_def)
  have none: "snd (normalizeCASPatchCandidates ?raw) = []"
    using normalizeCASPatchCandidates_spec(2) [OF d] ok by blast
  have "concat (map (\<lambda>p. snd (evaluate_candidate a ?m (entry_of ?raw p))) ks) =
      map (\<lambda>p. drift_issue p (base_hash a p) (current_hash ?m p) (TrimSpace (get_str ?raw p)))
        (filter (\<lambda>p. base_hash a p \<noteq> current_hash ?m p) ks)" if "set ks \<subseteq> set keys" for ks
    using that
  proof (induction ks)
    case (Cons p ks)
    then have "p \<in> set keys" by simp
    from ok'(2,3) [OF this] have "snd (evaluate_candidate a ?m (entry_of ?raw p)) = (if base_hash a p = current_hash ?m p then []
        else [drift_issue p (base_hash a p) (current_hash ?m p) (TrimSpace (get_str ?raw p))])"
      by (simp add: evaluate_candidate_snd entry_of_def)
    with Cons show ?case by simp
  qed simp
  then show "car_Issues r = sort_key issue_key (map (\<lambda>p. drift_issue p (base_hash a p) (current_hash ?m p) (TrimSpace (get_str ?raw p)))
      (filter (\<lambda>p. base_hash a p \<noteq> current_hash ?m p) keys))"
    unfolding r_def evaluate_issues [OF d v ne] acc none a_def [symmetric] by simp
qed

lemma path_entries_map: "map_of (map path_entry prs) p = None \<longleftrightarrow> p \<notin> cp_Path ` set prs"
  by (auto simp: map_of_eq_None_iff path_entry_def image_image)

lemma drift_issue_simps [simp]:
  "ci_Status (drift_issue p b c n) = CASPatchStatusConflict" "ci_Kind (drift_issue p b c n) = CASPatchIssueBaseDrift"
  "ci_Path (drift_issue p b c n) = p" "ci_ExpectedHash (drift_issue p b c n) = b" "ci_ActualHash (drift_issue p b c n) = c"
  "ci_CandidateHash (drift_issue p b c n) = n"
  by (simp_all add: drift_issue_def)

lemma drift_issue_paths_all:
  "\<forall>i \<in> set is. ci_Status i = CASPatchStatusConflict \<and> ci_Kind i = CASPatchIssueBaseDrift \<and> TrimSpace (ci_Path i) = ci_Path i \<Longrightarrow>
   distinct (map ci_Path is) \<Longrightarrow> ci_Path ` set is \<inter> set seen = {} \<Longrightarrow>
   drift_issue_paths seen is = Inr (rev (map ci_Path is) @ seen)"
proof (induction "is" arbitrary: seen)
  case (Cons i "is")
  have mem: "i \<in> set (i # is)" by simp
  note i = bspec [OF Cons.prems(1) mem]
  have fresh: "ci_Path i \<notin> set seen" "ci_Path i \<notin> ci_Path ` set is" using Cons.prems(2,3) by auto
  have rest: "\<forall>j \<in> set is. ci_Status j = CASPatchStatusConflict \<and> ci_Kind j = CASPatchIssueBaseDrift \<and> TrimSpace (ci_Path j) = ci_Path j"
    by (rule ballI, rule bspec [OF Cons.prems(1)]) (simp only: list.set insert_iff simp_thms)
  have "drift_issue_paths (ci_Path i # seen) is = Inr (rev (map ci_Path is) @ ci_Path i # seen)"
    by (rule Cons.IH [OF rest]) (use Cons.prems(2,3) fresh(2) in auto)
  then show ?case
    unfolding drift_issue_paths.simps conjunct1 [OF i] conjunct1 [OF conjunct2 [OF i]] conjunct2 [OF conjunct2 [OF i]] Let_def
    using fresh(1) by (simp only: simp_thms if_False rev.simps list.map append_assoc append_Cons append_Nil)
qed simp

lemma trim_constants [simp]:
  "TrimSpace CASPatchStatusConflict = CASPatchStatusConflict" "TrimSpace CASPatchIssueBaseDrift = CASPatchIssueBaseDrift"
  "TrimSpace CASPatchStatusFailed = CASPatchStatusFailed" "casPatchIssueKindAllowed CASPatchIssueBaseDrift"
  by (simp_all add: CASPatchStatusConflict_def CASPatchIssueBaseDrift_def CASPatchStatusFailed_def TrimSpace_graphic graphic_def
      casPatchIssueKindAllowed_def)

lemma resolver_path_trimmed: "normalizeResolverPath p = Inr p \<Longrightarrow> TrimSpace p = p"
  by (simp add: normalizeResolverPath_iff NormalizePath_fixed_trimmed)

lemma check_issue_path_ok:
  "normalizeResolverPath p = Inr p \<Longrightarrow> pathsetCoversPath ps p \<Longrightarrow> check_issue_path ps p = None"
  by (simp add: check_issue_path_def)

lemma check_drift_issue_ok:
  assumes "map_of m p = Some pr" "cp_Status pr = CASPatchStatusConflict"
    and "TrimSpace (ci_ExpectedHash i) = TrimSpace (cp_BaseHash pr)" "TrimSpace (ci_ActualHash i) = TrimSpace (cp_CurrentHash pr)"
    "TrimSpace (ci_CandidateHash i) = TrimSpace (cp_CandidateHash pr)"
    and "TrimSpace (cp_BaseHash pr) \<noteq> []" "TrimSpace (cp_CurrentHash pr) \<noteq> []" "TrimSpace (cp_CandidateHash pr) \<noteq> []"
    "TrimSpace (cp_CurrentHash pr) \<noteq> TrimSpace (cp_BaseHash pr)"
  shows "check_drift_issue i p m = None"
  using assms unfolding check_drift_issue_def by simp

lemma drift_issue_accepted:
  assumes "normalizeResolverPath p = Inr p" "pathsetCoversPath ps p" "map_of m p = Some pr" "cp_Status pr = CASPatchStatusConflict"
    and "TrimSpace (cp_BaseHash pr) = TrimSpace b" "TrimSpace (cp_CurrentHash pr) = TrimSpace c"
    "TrimSpace (cp_CandidateHash pr) = TrimSpace n"
    and "TrimSpace b \<noteq> []" "TrimSpace c \<noteq> []" "TrimSpace n \<noteq> []" "TrimSpace c \<noteq> TrimSpace b" "p \<noteq> []"
  shows "validateCASIssueEvidence (drift_issue p b c n) CASPatchStatusConflict ps m = None"
proof -
  let ?i = "drift_issue p b c n"
  have "check_drift_issue ?i p m = None" by (rule check_drift_issue_ok [OF assms(3,4)]) (use assms in simp_all)
  moreover have "TrimSpace p = p" by (rule resolver_path_trimmed [OF assms(1)])
  ultimately show ?thesis
    using check_issue_path_ok [OF assms(1,2)] assms(3,4,12)
    unfolding validateCASIssueEvidence_def Let_def
    by (simp only: drift_issue_simps trim_constants guards_Cons_None fail_if_None guards.simps(1) option.case simp_thms if_True)
qed

lemma applied_accepted_iff:
  assumes "distinct (map fst (cai_CandidateFileHashes input))"
    and "car_Status (EvaluateCASPatchApply input) = CASPatchStatusApplied"
  shows "validateCASEvidence (EvaluateCASPatchApply input) (WithDefaults (cai_Context input)) = None \<longleftrightarrow>
    (\<forall>p \<in> set (ctx_Pathset (cai_Context input)). pathsetEntryIsScoped p \<or> p \<in> fst ` set (cai_CandidateFileHashes input))"
proof -
  let ?r = "EvaluateCASPatchApply input" and ?a = "WithDefaults (cai_Context input)"
  have app: "Context_Validate ?a = None" "cai_CandidateFileHashes input \<noteq> []"
    "\<forall>p \<in> fst ` set (cai_CandidateFileHashes input). good_candidate (cai_CandidateFileHashes input) p \<and>
      pathsetCoversPath (ctx_Pathset (cai_Context input)) p \<and>
      base_hash (cai_Context input) p = current_hash (cai_CurrentFileHashes input) p"
    using assms(2) unfolding evaluate_applied_iff [OF assms(1)] good_candidate_def by blast+
  then have ok: "\<forall>p \<in> fst ` set (cai_CandidateFileHashes input). good_candidate (cai_CandidateFileHashes input) p \<and>
      pathsetCoversPath (ctx_Pathset (cai_Context input)) p \<and>
      (base_hash (cai_Context input) p = [] \<longleftrightarrow> current_hash (cai_CurrentFileHashes input) p = [])" by auto
  note e = evaluated_without_failure [OF assms(1) app(1,2) ok]
  have ps: "NormalizePathSet (ctx_Pathset ?a) = Inr (ctx_Pathset ?a)"
    by (rule NormalizePathSet_canonical [OF Context_Validate_pathset(1) [OF app(1)]])
  have dig: "Context_Digest ?a = Inr (json_digest (json_context ?a))" using app(1) by (simp add: Context_Digest_Inr)
  have "filter (\<lambda>p. base_hash ?a p \<noteq> current_hash (cai_CurrentFileHashes input) p) (sort (map fst (cai_CandidateFileHashes input))) = []"
    using app(3) by (auto simp: filter_empty_conv)
  then have issues: "car_Issues ?r = []" unfolding e(8) by simp
  have applied: "\<forall>pr \<in> set (car_Paths ?r). cp_Status pr = CASPatchStatusApplied \<and> validateCASAppliedPathHashes pr = None"
  proof
    fix pr assume pr: "pr \<in> set (car_Paths ?r)"
    then obtain p where p: "p \<in> fst ` set (cai_CandidateFileHashes input)"
      "pr = fst (evaluate_candidate ?a (cai_CurrentFileHashes input) (entry_of (cai_CandidateFileHashes input) p))"
      unfolding e(9) by auto
    then have "cp_Status pr = CASPatchStatusApplied"
      using bspec [OF app(3) p(1)] by (simp add: evaluate_candidate_status entry_of_def)
    with e(3) pr show "cp_Status pr = CASPatchStatusApplied \<and> validateCASAppliedPathHashes pr = None" by blast
  qed
  have "set (map cp_Path (car_Paths ?r)) = fst ` set (cai_CandidateFileHashes input)" unfolding e(2) by simp
  then have keys: "cp_Path ` set (car_Paths ?r) = fst ` set (cai_CandidateFileHashes input)" by simp
  then have "car_Paths ?r \<noteq> []" using app(2) by auto
  with issues applied e(4-6) assms(2) have "check_by_status ?r (ctx_Pathset ?a) (map path_entry (car_Paths ?r)) = None \<longleftrightarrow>
      verifyCASAppliedPathsetCoverage (ctx_Pathset ?a) (map path_entry (car_Paths ?r)) = None"
    by (auto simp: check_by_status_def guards_None path_entry_def)
  also have "\<dots> \<longleftrightarrow> (\<forall>p \<in> set (ctx_Pathset (cai_Context input)). pathsetEntryIsScoped p \<or> p \<in> fst ` set (cai_CandidateFileHashes input))"
    by (auto simp: verifyCASAppliedPathsetCoverage_def guards_None path_entries_map keys)
  finally show ?thesis
    unfolding validateCASEvidence_None using e(1,6,7) ps dig issues assms(2) by (simp add: cas_statuses_iff)
qed

lemma applied_evidence_facts:
  assumes "validateCASEvidence r a = None" and "car_Status r = CASPatchStatusApplied"
  shows "car_Issues r = [] \<and> car_Paths r \<noteq> [] \<and> distinct (map cp_Path (car_Paths r)) \<and>
    (\<forall>pr \<in> set (car_Paths r). cp_Status pr = CASPatchStatusApplied \<and> pathsetCoversPath (ctx_Pathset a) (cp_Path pr) \<and>
       TrimSpace (cp_BaseHash pr) = base_hash a (cp_Path pr) \<and> TrimSpace (cp_CurrentHash pr) = base_hash a (cp_Path pr) \<and>
       TrimSpace (cp_CandidateHash pr) \<noteq> []) \<and>
    (\<forall>p \<in> set (ctx_Pathset a). pathsetEntryIsScoped p \<or> p \<in> cp_Path ` set (car_Paths r)) \<and>
    TrimSpace (car_PatchDigest r) = digestCASPatchCandidates
      (sort_key ce_path (map (\<lambda>pr. \<lparr>ce_path = cp_Path pr, ce_hash = TrimSpace (cp_CandidateHash pr)\<rparr>) (car_Paths r)))"
proof -
  obtain d ps m where dig: "Context_Digest a = Inr d" and n: "NormalizePathSet (ctx_Pathset a) = Inr ps"
    and c: "collect_path_results a ps [] (car_Paths r) = Inr m" and st: "check_by_status r ps m = None"
    using assms(1) unfolding validateCASEvidence_None by blast
  have "Context_Validate (WithDefaults a) = None" using dig by (simp add: Context_Digest_Inr)
  from Context_Validate_pathset(1) [OF this] have "canonical_pathset (ctx_Pathset a)" by simp
  with n have ps: "ps = ctx_Pathset a" by (simp add: NormalizePathSet_canonical)
  have m: "m = map path_entry (car_Paths r)" "distinct (map cp_Path (car_Paths r))"
    and each: "\<forall>pr \<in> set (car_Paths r). check_path_result a ps [] pr = None"
    using c by (simp_all add: collect_path_results_Inr)
  from st assms(2) have s: "car_Paths r \<noteq> []" "car_Issues r = []" "verifyCASAppliedPathsetCoverage ps m = None"
    "verifyCASPatchDigestFromPathResults r = None"
    "\<forall>pr \<in> set (car_Paths r). cp_Status pr = CASPatchStatusApplied \<and> validateCASAppliedPathHashes pr = None"
    by (auto simp: check_by_status_def m guards_None path_entry_def)
  have "TrimSpace (cp_BaseHash pr) = base_hash a (cp_Path pr) \<and> pathsetCoversPath (ctx_Pathset a) (cp_Path pr)"
    if "pr \<in> set (car_Paths r)" for pr
    using bspec [OF each that] by (auto simp: check_path_result_None ps check_change_def split: if_splits)
  moreover have "\<forall>p \<in> set (ctx_Pathset a). pathsetEntryIsScoped p \<or> p \<in> cp_Path ` set (car_Paths r)"
    using s(3) by (auto simp: verifyCASAppliedPathsetCoverage_def guards_None m path_entries_map ps)
  moreover have "TrimSpace (car_PatchDigest r) = digestCASPatchCandidates
      (sort_key ce_path (map (\<lambda>pr. \<lparr>ce_path = cp_Path pr, ce_hash = TrimSpace (cp_CandidateHash pr)\<rparr>) (car_Paths r)))"
    using s(4) by (simp add: verifyCASPatchDigestFromPathResults_def Let_def guards_append split: option.splits)
  ultimately show ?thesis using s(1,2,5) m(2) applied_hashes_equal by metis
qed

lemma conflict_accepted:
  assumes "distinct (map fst (cai_CandidateFileHashes input))"
    and "car_Status (EvaluateCASPatchApply input) = CASPatchStatusConflict"
  shows "validateCASEvidence (EvaluateCASPatchApply input) (WithDefaults (cai_Context input)) = None"
proof -
  let ?r = "EvaluateCASPatchApply input" and ?a = "WithDefaults (cai_Context input)" and ?raw = "cai_CandidateFileHashes input"
  let ?b = "base_hash ?a" and ?c = "current_hash (cai_CurrentFileHashes input)" and ?n = "\<lambda>p. TrimSpace (get_str ?raw p)"
  have v: "Context_Validate ?a = None" and drift: "\<exists>p \<in> fst ` set ?raw. ?b p \<noteq> ?c p"
    and ok: "\<forall>p \<in> fst ` set ?raw. good_candidate ?raw p \<and> pathsetCoversPath (ctx_Pathset (cai_Context input)) p \<and>
      (base_hash (cai_Context input) p = [] \<longleftrightarrow> ?c p = [])"
    using assms(2) unfolding evaluate_conflict_iff [OF assms(1)] good_candidate_def by auto
  have ne: "?raw \<noteq> []" using drift by auto
  note e = evaluated_without_failure [OF assms(1) v ne ok]
  define keys where "keys = sort (map fst ?raw)"
  define bad where "bad = filter (\<lambda>p. ?b p \<noteq> ?c p) keys"
  define m where "m = map path_entry (car_Paths ?r)"
  note e = e [folded keys_def, folded bad_def m_def]
  have ps: "NormalizePathSet (ctx_Pathset ?a) = Inr (ctx_Pathset ?a)"
    by (rule NormalizePathSet_canonical [OF Context_Validate_pathset(1) [OF v]])
  have dig: "Context_Digest ?a = Inr (json_digest (json_context ?a))" using v by (simp add: Context_Digest_Inr)
  have dk: "distinct keys" using assms(1) by (simp add: keys_def)
  have okk: "good_candidate ?raw p" "pathsetCoversPath (ctx_Pathset ?a) p" "?b p = [] \<longleftrightarrow> ?c p = []" if "p \<in> set keys" for p
    using bspec [OF ok, of p] that by (simp_all add: keys_def)
  define pr where "pr p = fst (evaluate_candidate ?a (cai_CurrentFileHashes input) (entry_of ?raw p))" for p
  have prs: "car_Paths ?r = map pr keys" unfolding e(9) pr_def ..
  have st: "cp_Status (pr p) = (if ?b p = ?c p then CASPatchStatusApplied else CASPatchStatusConflict)" if "p \<in> set keys" for p
    using okk [OF that] by (simp add: pr_def evaluate_candidate_status entry_of_def)
  have mp: "m = map (\<lambda>p. (p, (pr p)\<lparr>cp_ChangeKind := TrimSpace (cp_ChangeKind (pr p))\<rparr>)) keys"
    by (simp add: m_def prs path_entry_def comp_def) (simp add: pr_def entry_of_def)
  then have look: "map_of m p = Some ((pr p)\<lparr>cp_ChangeKind := TrimSpace (cp_ChangeKind (pr p))\<rparr>)" if "p \<in> set keys" for p
    using that by (simp add: map_of_map_restrict)
  have issues: "car_Issues ?r = sort_key issue_key (map (\<lambda>p. drift_issue p (?b p) (?c p) (?n p)) bad)" by (rule e(8))
  have bad: "set bad \<subseteq> set keys" "distinct bad" "bad \<noteq> []"
    using dk drift by (auto simp: bad_def keys_def filter_empty_conv)
  have iss: "\<forall>i \<in> set (car_Issues ?r). validateCASIssueEvidence i (car_Status ?r) (ctx_Pathset ?a) m = None"
  proof
    fix i assume "i \<in> set (car_Issues ?r)"
    then obtain p where p: "p \<in> set bad" "i = drift_issue p (?b p) (?c p) (?n p)" by (auto simp: issues)
    then have pk: "p \<in> set keys" and bc: "?b p \<noteq> ?c p" by (auto simp: bad_def)
    from okk [OF pk] bc have n: "?b p \<noteq> []" "?c p \<noteq> []" "?n p \<noteq> []" "normalizeResolverPath p = Inr p"
      by (auto simp: good_candidate_def)
    then have "p \<noteq> []" by (auto simp: normalizeResolverPath_def)
    with n p bc okk(2) [OF pk] look [OF pk] st [OF pk] show "validateCASIssueEvidence i (car_Status ?r) (ctx_Pathset ?a) m = None"
      unfolding assms(2) by (auto intro!: drift_issue_accepted simp: pr_def entry_of_def)
  qed
  have mset_paths: "mset (map ci_Path (car_Issues ?r)) = mset bad" by (simp add: issues multiset.map_comp comp_def)
  have "distinct (map ci_Path (car_Issues ?r))" using mset_eq_imp_distinct_iff [OF mset_paths] bad(2) by blast
  moreover have "\<forall>i \<in> set (car_Issues ?r). ci_Status i = CASPatchStatusConflict \<and> ci_Kind i = CASPatchIssueBaseDrift \<and>
      TrimSpace (ci_Path i) = ci_Path i"
    using okk(1) bad(1) resolver_path_trimmed by (auto simp: issues good_candidate_def subset_iff)
  ultimately have ips: "drift_issue_paths [] (car_Issues ?r) = Inr (rev (map ci_Path (car_Issues ?r)))"
    by (simp add: drift_issue_paths_all)
  have setp: "set (rev (map ci_Path (car_Issues ?r))) = set bad" "length (car_Issues ?r) = length bad"
    using mset_eq_setD [OF mset_paths] mset_eq_length [OF mset_paths] by simp_all
  have conf: "map fst (filter (\<lambda>(p, x). cp_Status x = CASPatchStatusConflict) m) = bad"
    unfolding mp bad_def by (simp add: filter_map comp_def) (intro filter_cong refl, simp add: st)
  have guard: "validateCASAppliedPathHashes (pr p) = None" if "p \<in> set keys" "?b p = ?c p" for p
    using e(3) st [OF that(1)] that by (simp add: prs)
  have "verifyCASConflictPathIssueConsistency ?r m = None"
  proof -
    have g: "guards (map (\<lambda>(p, x).
             if cp_Status x = CASPatchStatusApplied
             then map_option (\<lambda>e. Errorf ''conflict CAS evidence applied path result %q: %w'' [AStr p, AErr e])
                    (validateCASAppliedPathHashes x)
             else fail_if (cp_Status x = CASPatchStatusFailed)
                    (Errorf ''conflict CAS evidence cannot contain failed path result %q'' [AStr p])) m) = None"
      by (auto simp: guards_None mp st guard split: if_splits)
    show ?thesis
      unfolding verifyCASConflictPathIssueConsistency_def Let_def conf g ips
      using bad(3) setp by (auto simp: guards_None)
  qed
  moreover have "conflictIssuesFromCAS ?r \<noteq> []"
  proof -
    have "filter (\<lambda>i. ci_Status i = CASPatchStatusConflict) (car_Issues ?r) = car_Issues ?r"
      by (rule filter_True) (auto simp: issues)
    then show ?thesis using bad(3) setp(2) by (auto simp: conflictIssuesFromCAS_def)
  qed
  ultimately have "check_by_status ?r (ctx_Pathset ?a) m = None"
    using e(4-6) assms(2) by (simp add: check_by_status_def)
  then show ?thesis
    unfolding validateCASEvidence_None using e(1,6,7) ps dig iss assms(2) by (simp add: cas_statuses_iff m_def)
qed

subsection \<open>Properties\<close>

text \<open>C30. Evidence accepted for an applied patch is consistent with the authority context: no issue,
  distinct paths inside the pathset, every current hash equal to the base hash that the context
  records, a candidate hash for each path, every unscoped entry of the pathset covered, and a patch
  digest that is the digest of exactly those candidates in path order.\<close>

theorem applied_evidence_sound:
  assumes "validateCASEvidence r a = None" and "car_Status r = CASPatchStatusApplied"
  shows "car_Issues r = [] \<and> car_Paths r \<noteq> [] \<and> distinct (map cp_Path (car_Paths r)) \<and>
    (\<forall>pr \<in> set (car_Paths r). cp_Status pr = CASPatchStatusApplied \<and> pathsetCoversPath (ctx_Pathset a) (cp_Path pr) \<and>
       TrimSpace (cp_BaseHash pr) = base_hash a (cp_Path pr) \<and> TrimSpace (cp_CurrentHash pr) = base_hash a (cp_Path pr) \<and>
       TrimSpace (cp_CandidateHash pr) \<noteq> []) \<and>
    (\<forall>p \<in> set (ctx_Pathset a). pathsetEntryIsScoped p \<or> p \<in> cp_Path ` set (car_Paths r)) \<and>
    TrimSpace (car_PatchDigest r) = digestCASPatchCandidates
      (sort_key ce_path (map (\<lambda>pr. \<lparr>ce_path = cp_Path pr, ce_hash = TrimSpace (cp_CandidateHash pr)\<rparr>) (car_Paths r)))"
  by (rule applied_evidence_facts [OF assms])

text \<open>The evaluator and the validator agree on applied patches: a result that the evaluator calls
  applied is accepted as evidence for its own context exactly when the candidates cover every
  unscoped entry of the pathset.\<close>

theorem evaluator_applied_accepted:
  assumes "distinct (map fst (cai_CandidateFileHashes input))"
    and "car_Status (EvaluateCASPatchApply input) = CASPatchStatusApplied"
  shows "validateCASEvidence (EvaluateCASPatchApply input) (WithDefaults (cai_Context input)) = None \<longleftrightarrow>
    (\<forall>p \<in> set (ctx_Pathset (cai_Context input)). pathsetEntryIsScoped p \<or> p \<in> fst ` set (cai_CandidateFileHashes input))"
  by (rule applied_accepted_iff [OF assms])

text \<open>Every conflict that the evaluator reports is accepted as evidence for its own context: its
  issues are exactly the base drifts of its conflicting path results, and its digest checks.\<close>

theorem evaluator_conflict_accepted:
  assumes "distinct (map fst (cai_CandidateFileHashes input))"
    and "car_Status (EvaluateCASPatchApply input) = CASPatchStatusConflict"
  shows "validateCASEvidence (EvaluateCASPatchApply input) (WithDefaults (cai_Context input)) = None"
  by (rule conflict_accepted [OF assms])

text \<open>A failure that the evaluator reports because a candidate lies outside the context cannot be
  recorded: the path result it produces is itself refused as evidence, so the queue item that led to
  it cannot be completed with that evidence.\<close>

theorem evaluator_outside_rejected:
  assumes "distinct (map fst (cai_CandidateFileHashes input))"
    and "Context_Validate (WithDefaults (cai_Context input)) = None"
    and "p \<in> fst ` set (cai_CandidateFileHashes input)" and "good_candidate (cai_CandidateFileHashes input) p"
    and "\<not> pathsetCoversPath (ctx_Pathset (cai_Context input)) p"
  shows "car_Status (EvaluateCASPatchApply input) = CASPatchStatusFailed \<and>
    validateCASEvidence (EvaluateCASPatchApply input) (WithDefaults (cai_Context input)) \<noteq> None"
proof
  let ?r = "EvaluateCASPatchApply input" and ?a = "WithDefaults (cai_Context input)" and ?raw = "cai_CandidateFileHashes input"
  have ne: "?raw \<noteq> []" using assms(3) by auto
  have "path_outcome input p = CASPatchStatusFailed" using assms(5) by (simp add: path_outcome_def Let_def)
  then have "CASPatchStatusFailed \<in> path_outcome input ` fst ` set ?raw" using assms(3) by force
  then show "car_Status ?r = CASPatchStatusFailed"
    using assms(2) ne by (simp add: evaluate_status [OF assms(1)] status_of_def)
  have "p \<in> set (accepted_candidates ?raw)" using assms(3,4) by (simp add: accepted_candidates_def)
  then obtain pr where pr: "pr \<in> set (car_Paths ?r)" "cp_Path pr = p"
    unfolding evaluate_fields(1) [OF assms(1,2) ne] by (force simp: entry_of_def)
  have ps: "NormalizePathSet (ctx_Pathset ?a) = Inr (ctx_Pathset ?a)"
    by (rule NormalizePathSet_canonical [OF Context_Validate_pathset(1) [OF assms(2)]])
  have "check_path_result ?a (ctx_Pathset ?a) [] pr \<noteq> None"
    using assms(5) pr(2) unfolding check_path_result_None by simp
  then show "validateCASEvidence ?r ?a \<noteq> None"
    using pr(1) ps unfolding validateCASEvidence_None collect_path_results_Inr by auto
qed

theorem evaluator_outside_rejected_witness:
  "validateCASEvidence (EvaluateCASPatchApply (demo_patch\<lparr>cai_CandidateFileHashes := [(''c.go'', ''n3'')]\<rparr>)) demo_context \<noteq> None"
proof -
  let ?i = "demo_patch\<lparr>cai_CandidateFileHashes := [(''c.go'', ''n3'')]\<rparr>"
  have "good_candidate (cai_CandidateFileHashes ?i) ''c.go''" "\<not> pathsetCoversPath (ctx_Pathset (cai_Context ?i)) ''c.go''"
    "Context_Validate (WithDefaults (cai_Context ?i)) = None" "WithDefaults (cai_Context ?i) = demo_context"
    by code_simp+
  then show ?thesis using evaluator_outside_rejected [of ?i "''c.go''"] by simp
qed

theorem evaluator_applied_accepted_witness: "validateCASEvidence (EvaluateCASPatchApply demo_patch) demo_context = None"
proof -
  have st: "car_Status (EvaluateCASPatchApply demo_patch) = CASPatchStatusApplied"
    by (simp add: evaluate_status [OF demo_patch_distinct(1)]) code_simp
  have "WithDefaults (cai_Context demo_patch) = demo_context"
    "list_all (\<lambda>p. pathsetEntryIsScoped p \<or> p \<in> set (map fst (cai_CandidateFileHashes demo_patch))) (ctx_Pathset (cai_Context demo_patch))"
    by code_simp+
  then show ?thesis using evaluator_applied_accepted [OF demo_patch_distinct(1) st] by (simp add: list_all_iff)
qed

theorem evaluator_conflict_accepted_witness:
  "validateCASEvidence (EvaluateCASPatchApply (demo_patch\<lparr>cai_CurrentFileHashes := [(''a.go'', ''h2'')]\<rparr>)) demo_context = None"
proof -
  let ?i = "demo_patch\<lparr>cai_CurrentFileHashes := [(''a.go'', ''h2'')]\<rparr>"
  have d: "distinct (map fst (cai_CandidateFileHashes ?i))" by code_simp
  have "car_Status (EvaluateCASPatchApply ?i) = CASPatchStatusConflict"
    by (simp add: evaluate_status [OF d]) code_simp
  moreover have "WithDefaults (cai_Context ?i) = demo_context" by code_simp
  ultimately show ?thesis using evaluator_conflict_accepted [OF d] by simp
qed

theorem applied_evidence_sound_witness:
  "car_Issues (EvaluateCASPatchApply demo_patch) = [] \<and> distinct (map cp_Path (car_Paths (EvaluateCASPatchApply demo_patch)))"
proof -
  have st: "car_Status (EvaluateCASPatchApply demo_patch) = CASPatchStatusApplied"
    by (simp add: evaluate_status [OF demo_patch_distinct(1)]) code_simp
  have "validateCASEvidence (EvaluateCASPatchApply demo_patch) demo_context = None"
  proof -
    have "WithDefaults (cai_Context demo_patch) = demo_context"
      "list_all (\<lambda>p. pathsetEntryIsScoped p \<or> p \<in> set (map fst (cai_CandidateFileHashes demo_patch))) (ctx_Pathset (cai_Context demo_patch))"
      by code_simp+
    then show ?thesis using applied_accepted_iff [OF demo_patch_distinct(1) st] by (simp add: list_all_iff)
  qed
  from applied_evidence_sound [OF this st] show ?thesis by blast
qed

end
