(* ===== verification/Go_Time.thy ===== *)
theory Go_Time
  imports Go_Strings
begin

section \<open>Package time: instants and RFC 3339 timestamps\<close>

text \<open>
  A \<open>time.Time\<close> in UTC is the number of nanoseconds since the zero time, January 1 of year 1,
  so that \<open>IsZero\<close> is equality with 0. \<open>time_Format\<close> is \<open>Format(time.RFC3339Nano)\<close> and
  \<open>time_Parse\<close> is \<open>Parse(time.RFC3339Nano, _)\<close> on the strict RFC 3339 grammar. The theory
  proves that parsing inverts formatting for the years 1 to 9999.
\<close>

type_synonym instant = int

definition ns_per_sec :: int where "ns_per_sec = 1000000000"

definition sec_per_day :: int where "sec_per_day = 86400"

subsection \<open>The calendar\<close>

definition leap :: "int \<Rightarrow> bool" where
  "leap y \<longleftrightarrow> y mod 4 = 0 \<and> (y mod 100 \<noteq> 0 \<or> y mod 400 = 0)"

text \<open>Days from the zero time to January 1 of a year.\<close>

definition days_before_year :: "int \<Rightarrow> int" where
  "days_before_year y = 365 * (y - 1) + (y - 1) div 4 - (y - 1) div 100 + (y - 1) div 400"

lemma div_step: "1 < n \<Longrightarrow> (x + 1) div n = x div n + (if (x + 1) mod n = 0 then 1 else 0)"
  for x n :: int
proof -
  assume n: "1 < n"
  define q r where "q = x div n" and "r = x mod n"
  have x: "x = n * q + r" by (simp add: q_def r_def)
  have r: "0 \<le> r" "r < n" using n by (simp_all add: r_def)
  show ?thesis
  proof (cases "r + 1 = n")
    case True
    then have "x + 1 = n * (q + 1)" using x by (simp add: algebra_simps)
    with n show ?thesis by (simp add: q_def)
  next
    case False
    have "(x + 1) div n = q" and "(x + 1) mod n = r + 1"
      using x r False by (auto intro: int_div_pos_eq int_mod_pos_eq)
    with r show ?thesis by (simp add: q_def)
  qed
qed

lemma nested_indicator:
  "C \<longrightarrow> B \<Longrightarrow> B \<longrightarrow> A \<Longrightarrow> (if A then 1 else 0) - (if B then 1 else 0)
     + (if C then 1 else 0) = (if A \<and> (\<not> B \<or> C) then 1 else (0::int))"
  by (cases A; cases B; cases C) simp_all

lemma days_before_year_Suc:
  "days_before_year (y + 1) = days_before_year y + (if leap y then 366 else 365)"
proof -
  have step: "1 < n \<Longrightarrow> y div n = (y - 1) div n + (if y mod n = 0 then 1 else 0)" for n
    using div_step [of n "y - 1"] by simp
  have s4: "y div 4 = (y - 1) div 4 + (if y mod 4 = 0 then 1 else 0)"
    and s100: "y div 100 = (y - 1) div 100 + (if y mod 100 = 0 then 1 else 0)"
    and s400: "y div 400 = (y - 1) div 400 + (if y mod 400 = 0 then 1 else 0)"
    by (rule step, simp)+
  have 400: "y mod 400 = 0 \<longrightarrow> y mod 100 = 0" and 100: "y mod 100 = 0 \<longrightarrow> y mod 4 = 0"
    using dvd_trans [of 100 400 y] dvd_trans [of 4 100 y] by (auto simp: mod_eq_0_iff_dvd)
  note leap = nested_indicator [OF 400 100, folded leap_def]
  have "days_before_year (y + 1) = 365 * y + y div 4 - y div 100 + y div 400"
    by (simp add: days_before_year_def)
  then have eq: "days_before_year (y + 1) = 365 * y + ((y - 1) div 4 + (if y mod 4 = 0 then 1 else 0))
      - ((y - 1) div 100 + (if y mod 100 = 0 then 1 else 0)) + ((y - 1) div 400 + (if y mod 400 = 0 then 1 else 0))"
    unfolding s4 s100 s400 .
  have arith: "N = 365 * y + (a + e) - (b + f) + (c + g) \<Longrightarrow> e - f + g = l \<Longrightarrow>
      N = 365 * (y - 1) + a - b + c + (365 + l)" for N a b c e f g l :: int
    by (drule sym) (simp add: algebra_simps)
  have "days_before_year (y + 1) = days_before_year y + (365 + (if leap y then 1 else 0))"
    unfolding days_before_year_def [of y] by (rule arith [OF eq leap])
  then show ?thesis by (cases "leap y") simp_all
qed

function year_up :: "int \<Rightarrow> int \<Rightarrow> int" where
  "year_up y d = (if days_before_year (y + 1) \<le> d then year_up (y + 1) d else y)"
  by pat_completeness auto
termination
  by (relation "measure (\<lambda>(y, d). nat (d - days_before_year y))") (auto simp: days_before_year_Suc split: if_splits)

declare year_up.simps [simp del]

lemma year_up_bounds:
  "days_before_year y \<le> d \<Longrightarrow> days_before_year (year_up y d) \<le> d \<and> d < days_before_year (year_up y d + 1)"
proof (induction y d rule: year_up.induct)
  case (1 y d)
  then show ?case
    by (cases "days_before_year (y + 1) \<le> d") (simp_all add: year_up.simps [of y d])
qed

lemma year_up_ge: "y \<le> year_up y d"
proof (induction y d rule: year_up.induct)
  case (1 y d)
  then show ?case
    by (cases "days_before_year (y + 1) \<le> d") (simp_all add: year_up.simps [of y d])
qed

text \<open>The search starts at a year that is not too late: no year has more than 366 days.\<close>

definition year_of_day :: "int \<Rightarrow> int" where
  "year_of_day d = year_up (if 0 \<le> d then d div 366 + 1 else d div 365) d"

lemma year_of_day_bounds:
  assumes "0 \<le> d"
  shows "days_before_year (year_of_day d) \<le> d" and "d < days_before_year (year_of_day d + 1)"
    and "1 \<le> year_of_day d"
proof -
  have "0 \<le> d div 366" using assms by simp
  have "q div 4 - q div 100 + q div 400 \<le> q" if "0 \<le> q" for q :: int
    using that zdiv_mono2 [of q 1 4] zdiv_mono2 [of q 100 400] by simp
  from this [OF \<open>0 \<le> d div 366\<close>] have "days_before_year (d div 366 + 1) \<le> 366 * (d div 366)"
    by (simp add: days_before_year_def)
  also have "\<dots> \<le> d" using mult_div_mod_eq [of 366 d] pos_mod_sign [of 366 d] by linarith
  finally have "days_before_year (d div 366 + 1) \<le> d" .
  from year_up_bounds [OF this] year_up_ge [of "d div 366 + 1" d] assms \<open>0 \<le> d div 366\<close>
  show "days_before_year (year_of_day d) \<le> d" and "d < days_before_year (year_of_day d + 1)"
    and "1 \<le> year_of_day d"
    by (simp_all add: year_of_day_def)
qed

definition month_lengths :: "int \<Rightarrow> int list" where
  "month_lengths y = [31, if leap y then 29 else 28, 31, 30, 31, 30, 31, 31, 30, 31, 30, 31]"

text \<open>Month (from 1) and day of the month (from 1) of a day of the year (from 0).\<close>

fun find_month :: "int list \<Rightarrow> int \<Rightarrow> int \<Rightarrow> int \<times> int" where
  "find_month [] m r = (m, r + 1)"
| "find_month (l # ls) m r = (if r < l then (m, r + 1) else find_month ls (m + 1) (r - l))"

lemma find_month_inverse:
  assumes "0 \<le> r" and "r < sum_list ls" and "find_month ls m r = (m', d)"
  shows "m \<le> m'" and "nat (m' - m) < length ls" and "1 \<le> d" and "d \<le> ls ! nat (m' - m)"
    and "sum_list (take (nat (m' - m)) ls) + (d - 1) = r"
proof -
  have "m \<le> m' \<and> nat (m' - m) < length ls \<and> 1 \<le> d \<and> d \<le> ls ! nat (m' - m)
      \<and> sum_list (take (nat (m' - m)) ls) + (d - 1) = r"
    using assms
  proof (induction ls arbitrary: m r)
    case (Cons l ls)
    show ?case
    proof (cases "r < l")
      case True
      with Cons.prems show ?thesis by auto
    next
      case False
      with Cons.prems Cons.IH [of "r - l" "m + 1"]
      have IH: "m + 1 \<le> m'" "nat (m' - (m + 1)) < length ls" "1 \<le> d"
        "d \<le> ls ! nat (m' - (m + 1))"
        "sum_list (take (nat (m' - (m + 1))) ls) + (d - 1) = r - l" by auto
      then have "nat (m' - m) = Suc (nat (m' - (m + 1)))" by simp
      with IH show ?thesis by simp
    qed
  qed simp
  then show "m \<le> m'" and "nat (m' - m) < length ls" and "1 \<le> d" and "d \<le> ls ! nat (m' - m)"
    and "sum_list (take (nat (m' - m)) ls) + (d - 1) = r" by blast+
qed

lemma sum_month_lengths: "sum_list (month_lengths y) = (if leap y then 366 else 365)"
  by (simp add: month_lengths_def)

definition day_number :: "int \<Rightarrow> int \<Rightarrow> int \<Rightarrow> int" where
  "day_number y m d = days_before_year y + sum_list (take (nat (m - 1)) (month_lengths y)) + (d - 1)"

subsection \<open>Formatting\<close>

definition pad2 :: "int \<Rightarrow> string" where
  "pad2 n = [digit (nat n div 10 mod 10), digit (nat n mod 10)]"

definition pad4 :: "int \<Rightarrow> string" where
  "pad4 n = [digit (nat n div 1000 mod 10), digit (nat n div 100 mod 10),
             digit (nat n div 10 mod 10), digit (nat n mod 10)]"

definition year_text :: "int \<Rightarrow> string" where
  "year_text y = (let a = (if nat \<bar>y\<bar> < 10000 then pad4 \<bar>y\<bar> else dec_nat (nat \<bar>y\<bar>))
                  in if y < 0 then CHR ''-'' # a else a)"

primrec fixed_digits :: "nat \<Rightarrow> nat \<Rightarrow> string" where
  "fixed_digits 0 n = []"
| "fixed_digits (Suc k) n = fixed_digits k (n div 10) @ [digit (n mod 10)]"

definition strip_zeros :: "string \<Rightarrow> string" where
  "strip_zeros s = rev (dropWhile (\<lambda>c. c = CHR ''0'') (rev s))"

definition frac_text :: "int \<Rightarrow> string" where
  "frac_text ns = (if ns = 0 then [] else CHR ''.'' # strip_zeros (fixed_digits 9 (nat ns)))"

definition clock_text :: "int \<Rightarrow> string" where
  "clock_text s = pad2 (s div 3600) @ '':'' @ pad2 (s div 60 mod 60) @ '':'' @ pad2 (s mod 60)"

definition date_text :: "int \<Rightarrow> string" where
  "date_text d =
     (let y = year_of_day d; md = find_month (month_lengths y) 1 (d - days_before_year y)
      in year_text y @ ''-'' @ pad2 (fst md) @ ''-'' @ pad2 (snd md))"

definition time_Format :: "instant \<Rightarrow> string" where
  "time_Format t =
     (let s = t div ns_per_sec
      in date_text (s div sec_per_day) @ ''T'' @ clock_text (s mod sec_per_day)
         @ frac_text (t mod ns_per_sec) @ ''Z'')"

subsection \<open>Parsing\<close>

definition parse_uint :: "string \<Rightarrow> int \<Rightarrow> int \<Rightarrow> int option" where
  "parse_uint s lo hi =
     (if list_all is_digit s \<and> lo \<le> int (num_of s) \<and> int (num_of s) \<le> hi
      then Some (int (num_of s)) else None)"

definition slice :: "nat \<Rightarrow> nat \<Rightarrow> string \<Rightarrow> string" where
  "slice i j s = take (j - i) (drop i s)"

text \<open>The fraction: at most nine digits count.\<close>

definition parse_frac :: "string \<Rightarrow> int \<times> string" where
  "parse_frac s =
     (if 2 \<le> length s \<and> s ! 0 = CHR ''.'' \<and> is_digit (s ! 1)
      then let ds = takeWhile is_digit (tl s); d9 = take 9 ds
           in (int (num_of d9 * 10 ^ (9 - length d9)), dropWhile is_digit (tl s))
      else (0, s))"

text \<open>The zone: Z, or a signed offset in seconds.\<close>

definition parse_zone :: "string \<Rightarrow> int option" where
  "parse_zone s =
     (if s = ''Z'' then Some 0
      else if length s = 6 \<and> (s ! 0 = CHR ''-'' \<or> s ! 0 = CHR ''+'') \<and> s ! 3 = CHR '':''
      then case (parse_uint (slice 1 3 s) 0 23, parse_uint (slice 4 6 s) 0 59) of
             (Some h, Some m) \<Rightarrow> Some ((if s ! 0 = CHR ''-'' then -1 else 1) * ((h * 60 + m) * 60))
           | _ \<Rightarrow> None
      else None)"

definition parse_date :: "string \<Rightarrow> int option" where
  "parse_date s =
     (case (parse_uint (slice 0 4 s) 0 9999, parse_uint (slice 5 7 s) 1 12) of
        (Some y, Some m) \<Rightarrow>
          (case parse_uint (slice 8 10 s) 1 (month_lengths y ! nat (m - 1)) of
             Some d \<Rightarrow> if s ! 4 = CHR ''-'' \<and> s ! 7 = CHR ''-'' then Some (day_number y m d) else None
           | None \<Rightarrow> None)
      | _ \<Rightarrow> None)"

definition parse_clock :: "string \<Rightarrow> int option" where
  "parse_clock s =
     (case (parse_uint (slice 0 2 s) 0 23, parse_uint (slice 3 5 s) 0 59, parse_uint (slice 6 8 s) 0 59) of
        (Some h, Some m, Some sec) \<Rightarrow>
          if s ! 2 = CHR '':'' \<and> s ! 5 = CHR '':'' then Some (h * 3600 + m * 60 + sec) else None
      | _ \<Rightarrow> None)"

definition time_Parse :: "string \<Rightarrow> instant option" where
  "time_Parse s =
     (if length s < 19 \<or> s ! 10 \<noteq> CHR ''T'' then None
      else case (parse_date (slice 0 10 s), parse_clock (slice 11 19 s)) of
        (Some d, Some c) \<Rightarrow>
          (case parse_frac (drop 19 s) of (ns, z) \<Rightarrow>
             map_option (\<lambda>off. (d * sec_per_day + c - off) * ns_per_sec + ns) (parse_zone z))
      | _ \<Rightarrow> None)"

subsection \<open>Parsing inverts formatting\<close>

lemma num_of_pad2: "0 \<le> n \<Longrightarrow> n < 100 \<Longrightarrow> int (num_of (pad2 n)) = n"
  by (simp add: num_of_def pad2_def)

lemma num_of_pad4: "0 \<le> n \<Longrightarrow> n < 10000 \<Longrightarrow> int (num_of (pad4 n)) = n"
proof -
  assume n: "0 \<le> n" "n < 10000"
  define a b c where "a = nat n div 10" and "b = a div 10" and "c = b div 10"
  have "nat n < 10000" using n by simp
  then have "c < 10" by (simp add: a_def b_def c_def)
  have "nat n = 10 * a + nat n mod 10" "a = 10 * b + a mod 10" "b = 10 * c + b mod 10"
    by (simp_all only: a_def b_def c_def mult_div_mod_eq)
  moreover have "nat n div 100 = b" "nat n div 1000 = c"
    by (simp_all add: a_def b_def c_def flip: div_mult2_eq)
  ultimately have "num_of (pad4 n) = nat n"
    using \<open>c < 10\<close> by (simp add: num_of_def pad4_def flip: a_def)
  with n show ?thesis by simp
qed

lemma pad_digits [simp]: "list_all is_digit (pad2 n)" "list_all is_digit (pad4 n)"
  by (simp_all add: pad2_def pad4_def)

lemma length_pad [simp]: "length (pad2 n) = 2" "length (pad4 n) = 4"
  by (simp_all add: pad2_def pad4_def)

lemma parse_pad2: "lo \<le> n \<Longrightarrow> n \<le> hi \<Longrightarrow> 0 \<le> n \<Longrightarrow> n < 100 \<Longrightarrow> parse_uint (pad2 n) lo hi = Some n"
  by (simp add: parse_uint_def num_of_pad2)

lemma parse_pad4: "lo \<le> n \<Longrightarrow> n \<le> hi \<Longrightarrow> 0 \<le> n \<Longrightarrow> n < 10000 \<Longrightarrow> parse_uint (pad4 n) lo hi = Some n"
  by (simp add: parse_uint_def num_of_pad4)

lemma month_length_bound: "i < 12 \<Longrightarrow> month_lengths y ! i \<le> 31"
  by (auto simp: month_lengths_def nth_Cons split: nat.splits)

definition in_years :: "instant \<Rightarrow> bool" where
  "in_years t \<longleftrightarrow> 0 \<le> t \<and> year_of_day (t div ns_per_sec div sec_per_day) \<le> 9999"

lemma date_text_parts:
  assumes "0 \<le> d" and "year_of_day d \<le> 9999"
  obtains y m dd where "date_text d = pad4 y @ ''-'' @ pad2 m @ ''-'' @ pad2 dd"
    and "0 \<le> y" "y \<le> 9999" "1 \<le> m" "m \<le> 12" "1 \<le> dd" "dd \<le> month_lengths y ! nat (m - 1)"
    and "day_number y m dd = d"
proof -
  define y where "y = year_of_day d"
  define r where "r = d - days_before_year y"
  obtain m dd where md: "find_month (month_lengths y) 1 r = (m, dd)" by fastforce
  note b = year_of_day_bounds [OF assms(1), folded y_def]
  have r: "0 \<le> r" "r < sum_list (month_lengths y)"
    using b days_before_year_Suc [of y] by (auto simp: r_def sum_month_lengths)
  note inv = find_month_inverse [OF r md]
  have len: "length (month_lengths y) = 12" by (simp add: month_lengths_def)
  have "nat \<bar>y\<bar> < 10000" using assms(2) b by (simp add: y_def)
  then have "date_text d = pad4 y @ ''-'' @ pad2 m @ ''-'' @ pad2 dd"
    using md b by (simp add: date_text_def y_def r_def Let_def year_text_def)
  moreover have "day_number y m dd = d" using inv by (simp add: day_number_def r_def)
  ultimately show ?thesis
    using that [of y m dd] inv len b assms(2) by (simp add: y_def)
qed

lemma slice_append: "length a = i \<Longrightarrow> i + length b = j \<Longrightarrow> slice i j (a @ b @ c) = b"
  by (auto simp: slice_def)

lemma slice_append_end: "length a = i \<Longrightarrow> i + length b = j \<Longrightarrow> slice i j (a @ b) = b"
  by (auto simp: slice_def)

lemma nth_after: "length a = i \<Longrightarrow> (a @ x # b) ! i = x"
  by (auto simp: nth_append)

lemma parse_date_text:
  assumes "0 \<le> d" and "year_of_day d \<le> 9999"
  shows "length (date_text d) = 10" and "parse_date (date_text d) = Some d"
proof -
  from date_text_parts [OF assms] obtain y m dd
    where t: "date_text d = pad4 y @ ''-'' @ pad2 m @ ''-'' @ pad2 dd"
      and y: "0 \<le> y" "y \<le> 9999" and m: "1 \<le> m" "m \<le> 12"
      and dd: "1 \<le> dd" "dd \<le> month_lengths y ! nat (m - 1)" and n: "day_number y m dd = d" by blast
  have "nat (m - 1) < 12" using m by simp
  then have "dd \<le> 31" using dd month_length_bound [of "nat (m - 1)" y] by simp
  have "slice 0 4 (date_text d) = pad4 y" "slice 5 7 (date_text d) = pad2 m"
      "slice 8 10 (date_text d) = pad2 dd"
    unfolding t
    using slice_append [of "[]" 0 "pad4 y" 4]
      slice_append [of "pad4 y @ ''-''" 5 "pad2 m" 7 "''-'' @ pad2 dd"]
      slice_append_end [of "pad4 y @ ''-'' @ pad2 m @ ''-''" 8 "pad2 dd" 10]
    by simp_all
  moreover have "date_text d ! 4 = CHR ''-''" "date_text d ! 7 = CHR ''-''"
    unfolding t using nth_after [of "pad4 y" 4] nth_after [of "pad4 y @ ''-'' @ pad2 m" 7] by simp_all
  ultimately show "parse_date (date_text d) = Some d"
    using y m dd n \<open>dd \<le> 31\<close> by (simp add: parse_date_def parse_pad2 parse_pad4)
  show "length (date_text d) = 10" by (simp add: t)
qed

lemma parse_clock_text:
  assumes "0 \<le> s" and "s < sec_per_day"
  shows "length (clock_text s) = 8" and "parse_clock (clock_text s) = Some s"
proof -
  define m where "m = s div 60"
  have h: "s div 3600 = m div 60" by (simp add: m_def flip: zdiv_zmult2_eq)
  have "m div 60 < 24" and "0 \<le> m div 60" using assms by (auto simp: sec_per_day_def m_def)
  have "s = 60 * m + s mod 60" "m = 60 * (m div 60) + m mod 60"
    by (simp_all only: m_def mult_div_mod_eq)
  then have s: "m div 60 * 3600 + m mod 60 * 60 + s mod 60 = s" by linarith
  have t: "clock_text s = pad2 (m div 60) @ '':'' @ pad2 (m mod 60) @ '':'' @ pad2 (s mod 60)"
    by (simp add: clock_text_def h m_def)
  have "slice 0 2 (clock_text s) = pad2 (m div 60)" "slice 3 5 (clock_text s) = pad2 (m mod 60)"
      "slice 6 8 (clock_text s) = pad2 (s mod 60)"
    unfolding t
    using slice_append [of "[]" 0 "pad2 (m div 60)" 2]
      slice_append [of "pad2 (m div 60) @ '':''" 3 "pad2 (m mod 60)" 5 "'':'' @ pad2 (s mod 60)"]
      slice_append_end [of "pad2 (m div 60) @ '':'' @ pad2 (m mod 60) @ '':''" 6 "pad2 (s mod 60)" 8]
    by simp_all
  moreover have "clock_text s ! 2 = CHR '':''" "clock_text s ! 5 = CHR '':''"
    unfolding t using nth_after [of "pad2 (m div 60)" 2]
      nth_after [of "pad2 (m div 60) @ '':'' @ pad2 (m mod 60)" 5] by simp_all
  ultimately show "parse_clock (clock_text s) = Some s"
    using \<open>m div 60 < 24\<close> \<open>0 \<le> m div 60\<close> s by (simp add: parse_clock_def parse_pad2)
  show "length (clock_text s) = 8" by (simp add: t)
qed

lemma num_of_zeros: "num_of (s @ replicate k (CHR ''0'')) = num_of s * 10 ^ k"
proof (induction k)
  case (Suc k)
  have "s @ replicate (Suc k) (CHR ''0'') = (s @ replicate k (CHR ''0'')) @ [CHR ''0'']"
    by (simp add: replicate_append_same)
  then show ?case using Suc by (simp only: num_of_snoc) (simp add: digit_val_def)
qed simp

lemma fixed_digits_props:
  "length (fixed_digits k n) = k" "\<forall>c \<in> set (fixed_digits k n). is_digit c"
  "n < 10 ^ k \<Longrightarrow> num_of (fixed_digits k n) = n"
  by (induction k arbitrary: n) (auto simp: num_of_def less_mult_imp_div_less)

lemma strip_zeros_append: "\<exists>k. s = strip_zeros s @ replicate k (CHR ''0'')"
proof -
  let ?z = "takeWhile (\<lambda>c. c = CHR ''0'') (rev s)"
  have "replicate (length ?z) (CHR ''0'') = ?z"
    by (rule replicate_length_same) (auto dest: set_takeWhileD)
  then have "rev s = replicate (length ?z) (CHR ''0'') @ rev (strip_zeros s)"
    by (simp add: strip_zeros_def)
  then have "s = strip_zeros s @ replicate (length ?z) (CHR ''0'')"
    by (simp add: rev_swap)
  then show ?thesis ..
qed

lemma parse_frac_text:
  assumes "0 \<le> ns" and "ns < ns_per_sec"
  shows "parse_frac (frac_text ns @ ''Z'') = (ns, ''Z'')"
proof (cases "ns = 0")
  case True
  then show ?thesis by (simp add: frac_text_def parse_frac_def)
next
  case False
  define f where "f = strip_zeros (fixed_digits 9 (nat ns))"
  obtain k where k: "fixed_digits 9 (nat ns) = f @ replicate k (CHR ''0'')"
    using strip_zeros_append [of "fixed_digits 9 (nat ns)"] by (auto simp: f_def)
  have len: "length f + k = 9" using arg_cong [OF k, of length] by (simp add: fixed_digits_props)
  have "nat ns < 10 ^ 9" using assms by (simp add: ns_per_sec_def)
  then have val: "num_of f * 10 ^ k = nat ns"
    using fixed_digits_props(3) [of "nat ns" 9] by (simp add: k num_of_zeros)
  have dig: "\<forall>c \<in> set f. is_digit c" using fixed_digits_props(2) [of 9 "nat ns"] by (simp add: k)
  have "f \<noteq> []"
  proof
    assume "f = []"
    with val have "nat ns = 0" by (simp add: num_of_def)
    with False assms(1) show False by simp
  qed
  have "\<not> is_digit (CHR ''Z'')" by (simp add: is_digit_def)
  with dig have tw: "takeWhile is_digit (f @ ''Z'') = f" "dropWhile is_digit (f @ ''Z'') = ''Z''"
    by (simp_all add: takeWhile_append2 dropWhile_append2)
  have "take 9 f = f" and "9 - length f = k" using len by simp_all
  moreover have "int (num_of f * 10 ^ k) = ns" using val assms(1) by simp
  ultimately show ?thesis
    using False \<open>f \<noteq> []\<close> dig tw
    by (simp add: parse_frac_def frac_text_def f_def [symmetric] nth_append hd_conv_nth [symmetric]
        del: of_nat_mult of_nat_power)
qed

theorem time_Parse_Format: "in_years t \<Longrightarrow> time_Parse (time_Format t) = Some t"
proof -
  assume "in_years t"
  define d where "d = t div ns_per_sec div sec_per_day"
  define c where "c = t div ns_per_sec mod sec_per_day"
  have t: "(d * sec_per_day + c) * ns_per_sec + t mod ns_per_sec = t"
    by (simp add: d_def c_def)
  have "0 \<le> d" and y: "year_of_day d \<le> 9999"
    using \<open>in_years t\<close> by (auto simp: in_years_def d_def ns_per_sec_def sec_per_day_def pos_imp_zdiv_nonneg_iff)
  note date = parse_date_text [OF this]
  have "0 \<le> c" and "c < sec_per_day" by (simp_all add: c_def sec_per_day_def)
  note clock = parse_clock_text [OF this]
  have "0 \<le> t mod ns_per_sec" and "t mod ns_per_sec < ns_per_sec" by (simp_all add: ns_per_sec_def)
  note frac = parse_frac_text [OF this]
  define z where "z = frac_text (t mod ns_per_sec) @ ''Z''"
  have f: "time_Format t = date_text d @ ''T'' @ clock_text c @ z"
    by (simp add: time_Format_def Let_def d_def c_def z_def)
  have "slice 0 10 (time_Format t) = date_text d" "slice 11 19 (time_Format t) = clock_text c"
    unfolding f using slice_append [of "[]" 0 "date_text d" 10]
      slice_append [of "date_text d @ ''T''" 11 "clock_text c" 19] date(1) clock(1) by simp_all
  moreover have "drop 19 (time_Format t) = z" "time_Format t ! 10 = CHR ''T''"
      "19 \<le> length (time_Format t)"
    unfolding f using nth_after [of "date_text d" 10] date(1) clock(1) by simp_all
  ultimately show ?thesis
    using date(2) clock(2) frac t by (simp add: time_Parse_def z_def parse_zone_def)
qed

lemma time_Format_not_Nil [simp]: "time_Format t \<noteq> []"
  by (simp add: time_Format_def Let_def)

lemma in_years_mono: "in_years u \<Longrightarrow> 0 \<le> t \<Longrightarrow> t \<le> u \<Longrightarrow> in_years t"
proof -
  assume u: "in_years u" and t: "0 \<le> t" "t \<le> u"
  define dt where "dt = t div ns_per_sec div sec_per_day"
  define du where "du = u div ns_per_sec div sec_per_day"
  have le: "0 \<le> dt" "dt \<le> du"
    using t by (auto simp: dt_def du_def ns_per_sec_def sec_per_day_def pos_imp_zdiv_nonneg_iff zdiv_mono1)
  have mono: "days_before_year a \<le> days_before_year b" if "a \<le> b" for a b
  proof -
    have "days_before_year a \<le> days_before_year (a + int n)" for n
    proof (induction n)
      case (Suc n)
      have "days_before_year (a + int (Suc n)) = days_before_year (a + int n + 1)"
        by (simp add: algebra_simps)
      with Suc days_before_year_Suc [of "a + int n"] show ?case by (simp split: if_splits)
    qed simp
    from this [of "nat (b - a)"] that show ?thesis by simp
  qed
  show ?thesis
  proof (rule ccontr)
    assume "\<not> in_years t"
    with t u have "year_of_day du + 1 \<le> year_of_day dt"
      by (simp add: in_years_def dt_def du_def)
    from mono [OF this] year_of_day_bounds [OF le(1)] year_of_day_bounds [of du] le
    show False by simp
  qed
qed

end
