(* ===== verification/File_Lease.thy ===== *)
theory File_Lease
  imports Repo_Context Go_Time "HOL-Library.Multiset"
begin

section \<open>The file lease store\<close>

text \<open>
  \<open>internal/repoauthority/file_lease.go\<close>: exclusive, expiring, fenced leases on repository
  paths. The store's map of leases is an association list, whose order is the iteration order
  of the Go map; \<open>pathHolders\<close>, which the code never ranges over, is a partial function. Every
  operation runs under the store's mutex, so an execution is a sequence of whole operations.
  The zero \<open>time.Time\<close> is the instant 0, and \<open>wall\<close> stands for the value of \<open>time.Now()\<close>
  that an operation reads when its input carries no time. An operation returns its result and
  the store it leaves, also when it fails: expired leases are swept before the checks.
\<close>

definition FileLeaseSchemaVersion :: string where "FileLeaseSchemaVersion = ''repo_file_lease.v1''"
definition FileLeaseStatusActive :: string where "FileLeaseStatusActive = ''active''"
definition FileLeaseStatusExpired :: string where "FileLeaseStatusExpired = ''expired''"
definition FileLeaseStatusReleased :: string where "FileLeaseStatusReleased = ''released''"
definition FileLeaseStatusRevoked :: string where "FileLeaseStatusRevoked = ''revoked''"

record FileLease =
  fl_Schema :: string
  fl_ID :: string
  fl_Term :: int
  fl_Status :: string
  fl_WorkspaceID :: string
  fl_TaskID :: string
  fl_SessionID :: string
  fl_RunID :: string
  fl_AgentID :: string
  fl_Principal :: PrincipalRef
  fl_CapabilitySnapshotID :: string
  fl_RepoRoot :: string
  fl_Pathset :: "string list"
  fl_ContextDigest :: string
  fl_AcquiredAt :: string
  fl_UpdatedAt :: string
  fl_ExpiresAt :: string

record FileLeaseHolder =
  fh_WorkspaceID :: string
  fh_TaskID :: string
  fh_SessionID :: string
  fh_RunID :: string
  fh_AgentID :: string
  fh_Principal :: PrincipalRef
  fh_CapabilitySnapshotID :: string
  fh_ContextDigest :: string

record AcquireFileLeaseInput =
  ac_Context :: Context
  ac_TTL :: int
  ac_Now :: instant

record RenewFileLeaseInput =
  rn_LeaseID :: string
  rn_Term :: int
  rn_Holder :: FileLeaseHolder
  rn_TTL :: int
  rn_Now :: instant

record ReleaseFileLeaseInput =
  rl_LeaseID :: string
  rl_Term :: int
  rl_Holder :: FileLeaseHolder
  rl_Now :: instant

record RevokeFileLeasesInput =
  rv_Holder :: FileLeaseHolder
  rv_Now :: instant
  rv_Reason :: string

record RevokeFileLeasesResult =
  rr_Revoked :: int
  rr_Leases :: "FileLease list"

record AuthorizeFileMutationInput =
  au_LeaseID :: string
  au_Term :: int
  au_Holder :: FileLeaseHolder
  au_Paths :: "string list"
  au_Now :: instant

record FileLeaseStore =
  fs_nextTerm :: int
  fs_leases :: "(string \<times> FileLease) list"
  fs_pathHolders :: "string \<rightharpoonup> string"

definition NewFileLeaseStore :: FileLeaseStore where
  "NewFileLeaseStore = \<lparr>fs_nextTerm = 1, fs_leases = [], fs_pathHolders = Map.empty\<rparr>"

subsection \<open>Helpers\<close>

definition normalizeLeaseTime :: "instant \<Rightarrow> instant \<Rightarrow> instant" where
  "normalizeLeaseTime wall t = (if t = 0 then wall else t)"

definition formatLeaseTime :: "instant \<Rightarrow> string" where
  "formatLeaseTime t = time_Format t"

definition leaseExpiredAt :: "FileLease \<Rightarrow> instant \<Rightarrow> bool" where
  "leaseExpiredAt lease now =
     (case time_Parse (fl_ExpiresAt lease) of None \<Rightarrow> True | Some expiresAt \<Rightarrow> \<not> now < expiresAt)"

definition buildFileLeaseID :: "Context \<Rightarrow> int \<Rightarrow> string \<Rightarrow> string" where
  "buildFileLeaseID authority term digest = join_with '':''
     [''repolease'', ''v1'', cleanKeyPart (ctx_WorkspaceID authority), cleanKeyPart (ctx_TaskID authority),
      cleanKeyPart (ctx_AgentID authority), ''t'' @ dec_int term, short_digest 12 digest]"

definition HolderForLease :: "FileLease \<Rightarrow> FileLeaseHolder" where
  "HolderForLease lease =
     \<lparr>fh_WorkspaceID = fl_WorkspaceID lease, fh_TaskID = fl_TaskID lease, fh_SessionID = fl_SessionID lease,
      fh_RunID = fl_RunID lease, fh_AgentID = fl_AgentID lease, fh_Principal = fl_Principal lease,
      fh_CapabilitySnapshotID = fl_CapabilitySnapshotID lease, fh_ContextDigest = fl_ContextDigest lease\<rparr>"

definition validateFileLeaseHolder :: "FileLeaseHolder \<Rightarrow> err option" where
  "validateFileLeaseHolder holder = guards
     [requireNonEmpty ''holder.workspace_id'' (fh_WorkspaceID holder),
      requireNonEmpty ''holder.task_id'' (fh_TaskID holder),
      requireNonEmpty ''holder.session_id'' (fh_SessionID holder),
      requireNonEmpty ''holder.run_id'' (fh_RunID holder),
      requireNonEmpty ''holder.agent_id'' (fh_AgentID holder),
      requireNonEmpty ''holder.principal.type'' (pr_Type (fh_Principal holder)),
      requireNonEmpty ''holder.principal.id'' (pr_ID (fh_Principal holder)),
      requireNonEmpty ''holder.capability_snapshot_id'' (fh_CapabilitySnapshotID holder),
      requireNonEmpty ''holder.context_digest'' (fh_ContextDigest holder)]"

definition verifyFileLeaseHolder :: "FileLease \<Rightarrow> FileLeaseHolder \<Rightarrow> err option" where
  "verifyFileLeaseHolder lease holder = guards
     [fail_if (TrimSpace (fh_WorkspaceID holder) \<noteq> fl_WorkspaceID lease)
        (Errorf ''lease holder workspace mismatch: got %q want %q'' [AStr (fh_WorkspaceID holder), AStr (fl_WorkspaceID lease)]),
      fail_if (TrimSpace (fh_TaskID holder) \<noteq> fl_TaskID lease)
        (Errorf ''lease holder task mismatch: got %q want %q'' [AStr (fh_TaskID holder), AStr (fl_TaskID lease)]),
      fail_if (TrimSpace (fh_SessionID holder) \<noteq> fl_SessionID lease)
        (Errorf ''lease holder session mismatch: got %q want %q'' [AStr (fh_SessionID holder), AStr (fl_SessionID lease)]),
      fail_if (TrimSpace (fh_RunID holder) \<noteq> fl_RunID lease)
        (Errorf ''lease holder run mismatch: got %q want %q'' [AStr (fh_RunID holder), AStr (fl_RunID lease)]),
      fail_if (TrimSpace (fh_AgentID holder) \<noteq> fl_AgentID lease)
        (Errorf ''lease holder agent mismatch: got %q want %q'' [AStr (fh_AgentID holder), AStr (fl_AgentID lease)]),
      fail_if (TrimSpace (pr_Type (fh_Principal holder)) \<noteq> pr_Type (fl_Principal lease)
          \<or> TrimSpace (pr_ID (fh_Principal holder)) \<noteq> pr_ID (fl_Principal lease))
        (Errorf ''lease principal mismatch'' []),
      fail_if (TrimSpace (fh_CapabilitySnapshotID holder) \<noteq> fl_CapabilitySnapshotID lease)
        (Errorf ''lease holder capability snapshot mismatch: got %q want %q''
          [AStr (fh_CapabilitySnapshotID holder), AStr (fl_CapabilitySnapshotID lease)]),
      fail_if (TrimSpace (fh_ContextDigest holder) \<noteq> fl_ContextDigest lease)
        (Errorf ''lease holder context digest mismatch'' [])]"

text \<open>\<open>s.pathHolders[p]\<close>, and the loop that drops the paths a lease holds.\<close>

definition path_holder :: "(string \<rightharpoonup> string) \<Rightarrow> string \<Rightarrow> string" where
  "path_holder ph p = (case ph p of None \<Rightarrow> [] | Some h \<Rightarrow> h)"

definition drop_path :: "string \<Rightarrow> string \<Rightarrow> (string \<rightharpoonup> string) \<Rightarrow> (string \<rightharpoonup> string)" where
  "drop_path lid p ph = (if path_holder ph p = lid then ph(p := None) else ph)"

definition drop_paths :: "string \<Rightarrow> string list \<Rightarrow> (string \<rightharpoonup> string) \<Rightarrow> (string \<rightharpoonup> string)" where
  "drop_paths lid ps ph = fold (drop_path lid) ps ph"

text \<open>A lease that ends: its new status, and its paths given up.\<close>

definition end_lease :: "string \<Rightarrow> FileLease \<Rightarrow> string \<Rightarrow> instant \<Rightarrow> FileLeaseStore \<Rightarrow> FileLeaseStore" where
  "end_lease lid lease status now s =
     s\<lparr>fs_leases := AList.update lid (lease\<lparr>fl_Status := status, fl_UpdatedAt := formatLeaseTime now\<rparr>) (fs_leases s),
       fs_pathHolders := drop_paths lid (fl_Pathset lease) (fs_pathHolders s)\<rparr>"

definition expire_entry :: "instant \<Rightarrow> string \<times> FileLease \<Rightarrow> FileLeaseStore \<Rightarrow> FileLeaseStore" where
  "expire_entry now e s =
     (case e of (lid, lease) \<Rightarrow>
        if fl_Status lease \<noteq> FileLeaseStatusActive \<or> \<not> leaseExpiredAt lease now then s
        else end_lease lid lease FileLeaseStatusExpired now s)"

definition expireLocked :: "instant \<Rightarrow> FileLeaseStore \<Rightarrow> FileLeaseStore" where
  "expireLocked now s = fold (expire_entry now) (fs_leases s) s"

definition requireLiveLeaseLocked ::
  "string \<Rightarrow> int \<Rightarrow> FileLeaseHolder \<Rightarrow> instant \<Rightarrow> FileLeaseStore \<Rightarrow> FileLease result \<times> FileLeaseStore" where
  "requireLiveLeaseLocked leaseID0 term holder now s =
     (let leaseID = TrimSpace leaseID0
      in if leaseID = [] then (Inl (Errorf ''lease.id is required'' []), s)
         else if term \<le> 0 then (Inl (Errorf ''lease.term is required'' []), s)
         else case validateFileLeaseHolder holder of
           Some e \<Rightarrow> (Inl e, s)
         | None \<Rightarrow>
           (case map_of (fs_leases s) leaseID of
              None \<Rightarrow> (Inl (Errorf ''lease %q not found'' [AStr leaseID]), s)
            | Some lease \<Rightarrow>
                if fl_Status lease \<noteq> FileLeaseStatusActive
                then (Inl (Errorf ''lease %s is %s'' [AStr (fl_ID lease), AStr (fl_Status lease)]), s)
                else if fl_Term lease \<noteq> term
                then (Inl (Errorf ''lease.term mismatch: got %d want %d'' [AInt term, AInt (fl_Term lease)]), s)
                else if leaseExpiredAt lease now
                then (Inl (Errorf ''lease %s is expired'' [AStr (fl_ID lease)]),
                      end_lease (fl_ID lease) lease FileLeaseStatusExpired now s)
                else case verifyFileLeaseHolder lease holder of
                  Some e \<Rightarrow> (Inl e, s)
                | None \<Rightarrow> (Inr lease, s)))"

subsection \<open>Operations\<close>

fun check_unleased :: "FileLeaseStore \<Rightarrow> string list \<Rightarrow> err option" where
  "check_unleased s [] = None"
| "check_unleased s (p # ps) =
     (let holderID = path_holder (fs_pathHolders s) p
      in if holderID \<noteq> [] then
           (case map_of (fs_leases s) holderID of
              Some holder \<Rightarrow> Some (Errorf ''path %q is already leased by %s term %d''
                 [AStr p, AStr (fl_ID holder), AInt (fl_Term holder)])
            | None \<Rightarrow> Some (Errorf ''path %q is already leased by %s term %d'' [AStr p, AStr [], AInt 0]))
         else check_unleased s ps)"

definition new_lease :: "Context \<Rightarrow> int \<Rightarrow> string \<Rightarrow> string list \<Rightarrow> instant \<Rightarrow> int \<Rightarrow> FileLease" where
  "new_lease authority term digest pathset now ttl =
     \<lparr>fl_Schema = FileLeaseSchemaVersion, fl_ID = buildFileLeaseID authority term digest, fl_Term = term,
      fl_Status = FileLeaseStatusActive, fl_WorkspaceID = ctx_WorkspaceID authority, fl_TaskID = ctx_TaskID authority,
      fl_SessionID = ctx_SessionID authority, fl_RunID = ctx_RunID authority, fl_AgentID = ctx_AgentID authority,
      fl_Principal = ctx_Principal authority, fl_CapabilitySnapshotID = cs_ID (ctx_CapabilitySnapshot authority),
      fl_RepoRoot = ctx_RepoRoot authority, fl_Pathset = pathset, fl_ContextDigest = digest,
      fl_AcquiredAt = formatLeaseTime now, fl_UpdatedAt = formatLeaseTime now,
      fl_ExpiresAt = formatLeaseTime (now + ttl)\<rparr>"

text \<open>The checks of \<open>Acquire\<close> before the lock is taken: the defaulted context, its digest and pathset.\<close>

definition acquire_request :: "AcquireFileLeaseInput \<Rightarrow> (Context \<times> string \<times> string list) result" where
  "acquire_request input =
     (let authority = WithDefaults (ac_Context input)
      in require (fail_if (ac_TTL input \<le> 0) (Errorf ''lease ttl must be positive'' []))
        (require (wrap_err ''repo authority context: %w'' (Context_Validate authority))
        (require (fail_if (TrimSpace (lr_ID (ctx_Lease authority)) \<noteq> []
              \<or> TrimSpace (pqr_ItemID (ctx_PatchQueue authority)) \<noteq> []
              \<or> TrimSpace (op_ID (ctx_Operation authority)) \<noteq> [])
            (Errorf ''lease acquisition context must not already attach lease, patch queue item, or operation'' []))
        (bind_result (Context_Digest authority) (\<lambda>digest.
         bind_result (NormalizePathSet (ctx_Pathset authority)) (\<lambda>pathset.
         require (fail_if (pathset = []) (Errorf ''pathset is required'' []))
           (Inr (authority, digest, pathset))))))))"

definition install_lease :: "FileLease \<Rightarrow> FileLeaseStore \<Rightarrow> FileLeaseStore" where
  "install_lease lease s =
     s\<lparr>fs_leases := AList.update (fl_ID lease) lease (fs_leases s),
       fs_pathHolders := fold (\<lambda>p ph. ph(p \<mapsto> fl_ID lease)) (fl_Pathset lease) (fs_pathHolders s)\<rparr>"

definition Acquire :: "instant \<Rightarrow> AcquireFileLeaseInput \<Rightarrow> FileLeaseStore \<Rightarrow> FileLease result \<times> FileLeaseStore" where
  "Acquire wall input s0 =
     (case acquire_request input of
        Inl e \<Rightarrow> (Inl e, s0)
      | Inr (authority, digest, pathset) \<Rightarrow>
          let now = normalizeLeaseTime wall (ac_Now input);
              s = expireLocked now s0
          in case check_unleased s pathset of
               Some e \<Rightarrow> (Inl e, s)
             | None \<Rightarrow>
                 let term = fs_nextTerm s;
                     lease = new_lease authority term digest pathset now (ac_TTL input)
                 in (Inr lease, install_lease lease (s\<lparr>fs_nextTerm := wrap64 (fs_nextTerm s + 1)\<rparr>)))"

definition Renew :: "instant \<Rightarrow> RenewFileLeaseInput \<Rightarrow> FileLeaseStore \<Rightarrow> FileLease result \<times> FileLeaseStore" where
  "Renew wall input s0 =
     (if rn_TTL input \<le> 0 then (Inl (Errorf ''lease ttl must be positive'' []), s0)
      else let now = normalizeLeaseTime wall (rn_Now input)
      in case requireLiveLeaseLocked (rn_LeaseID input) (rn_Term input) (rn_Holder input) now (expireLocked now s0) of
           (Inl e, s) \<Rightarrow> (Inl e, s)
         | (Inr lease0, s) \<Rightarrow>
             let lease = lease0\<lparr>fl_UpdatedAt := formatLeaseTime now, fl_ExpiresAt := formatLeaseTime (now + rn_TTL input)\<rparr>
             in (Inr lease, s\<lparr>fs_leases := AList.update (fl_ID lease) lease (fs_leases s)\<rparr>))"

definition Release :: "instant \<Rightarrow> ReleaseFileLeaseInput \<Rightarrow> FileLeaseStore \<Rightarrow> FileLease result \<times> FileLeaseStore" where
  "Release wall input s0 =
     (let now = normalizeLeaseTime wall (rl_Now input)
      in case requireLiveLeaseLocked (rl_LeaseID input) (rl_Term input) (rl_Holder input) now (expireLocked now s0) of
           (Inl e, s) \<Rightarrow> (Inl e, s)
         | (Inr lease, s) \<Rightarrow>
             (Inr (lease\<lparr>fl_Status := FileLeaseStatusReleased, fl_UpdatedAt := formatLeaseTime now\<rparr>),
              end_lease (fl_ID lease) lease FileLeaseStatusReleased now s))"

definition revoke_entry ::
  "FileLeaseHolder \<Rightarrow> instant \<Rightarrow> string \<times> FileLease \<Rightarrow> RevokeFileLeasesResult \<times> FileLeaseStore
   \<Rightarrow> RevokeFileLeasesResult \<times> FileLeaseStore" where
  "revoke_entry holder now e rs =
     (case (e, rs) of ((lid, lease), (r, s)) \<Rightarrow>
        if fl_Status lease \<noteq> FileLeaseStatusActive then (r, s)
        else if verifyFileLeaseHolder lease holder \<noteq> None then (r, s)
        else (r\<lparr>rr_Revoked := rr_Revoked r + 1,
                rr_Leases := rr_Leases r @ [lease\<lparr>fl_Status := FileLeaseStatusRevoked, fl_UpdatedAt := formatLeaseTime now\<rparr>]\<rparr>,
              end_lease lid lease FileLeaseStatusRevoked now s))"

definition RevokeLeasesForHolder ::
  "instant \<Rightarrow> RevokeFileLeasesInput \<Rightarrow> FileLeaseStore \<Rightarrow> RevokeFileLeasesResult result \<times> FileLeaseStore" where
  "RevokeLeasesForHolder wall input s0 =
     (case validateFileLeaseHolder (rv_Holder input) of
        Some e \<Rightarrow> (Inl e, s0)
      | None \<Rightarrow>
          let now = normalizeLeaseTime wall (rv_Now input);
              s = expireLocked now s0;
              (r, s') = fold (revoke_entry (rv_Holder input) now) (fs_leases s) (\<lparr>rr_Revoked = 0, rr_Leases = []\<rparr>, s)
          in (Inr r, s'))"

definition check_leased :: "FileLease \<Rightarrow> string list \<Rightarrow> err option" where
  "check_leased lease paths = guards
     (map (\<lambda>p. fail_if (p \<notin> set (fl_Pathset lease)) (Errorf ''path %q is not covered by lease %s'' [AStr p, AStr (fl_ID lease)])) paths)"

definition AuthorizeMutation ::
  "instant \<Rightarrow> AuthorizeFileMutationInput \<Rightarrow> FileLeaseStore \<Rightarrow> err option \<times> FileLeaseStore" where
  "AuthorizeMutation wall input s0 =
     (case NormalizePathSet (au_Paths input) of
        Inl e \<Rightarrow> (Some e, s0)
      | Inr paths \<Rightarrow>
          if paths = [] then (Some (Errorf ''mutation paths are required'' []), s0)
          else let now = normalizeLeaseTime wall (au_Now input)
          in case requireLiveLeaseLocked (au_LeaseID input) (au_Term input) (au_Holder input) now (expireLocked now s0) of
               (Inl e, s) \<Rightarrow> (Some e, s)
             | (Inr lease, s) \<Rightarrow> (check_leased lease paths, s))"

text \<open>\<open>Snapshot\<close>: the leases by term, then by identifier.\<close>

definition Snapshot :: "FileLeaseStore \<Rightarrow> FileLease list" where
  "Snapshot s = sort_key (\<lambda>l. (fl_Term l, fl_ID l)) (map snd (fs_leases s))"

text \<open>A nil store pointer: every method refuses it before doing anything.\<close>

definition on_store :: "(FileLeaseStore \<Rightarrow> 'a result \<times> FileLeaseStore) \<Rightarrow> FileLeaseStore option
   \<Rightarrow> 'a result \<times> FileLeaseStore option" where
  "on_store f s =
     (case s of
        None \<Rightarrow> (Inl (Errorf ''file lease store is required'' []), None)
      | Some st \<Rightarrow> (case f st of (r, st') \<Rightarrow> (r, Some st')))"

subsection \<open>Lease identifiers\<close>

lemma lease_status_distinct [simp]:
  "FileLeaseStatusExpired \<noteq> FileLeaseStatusActive" "FileLeaseStatusReleased \<noteq> FileLeaseStatusActive"
  "FileLeaseStatusRevoked \<noteq> FileLeaseStatusActive"
  by (simp_all add: FileLeaseStatusExpired_def FileLeaseStatusActive_def FileLeaseStatusReleased_def
      FileLeaseStatusRevoked_def)

lemma buildFileLeaseID_split:
  "split_on (CHR '':'') (buildFileLeaseID a t d) ! 5 = ''t'' @ dec_int t"
proof -
  have "CHR '':'' \<notin> set (dec_int t)" by (auto dest!: dec_int_chars simp: is_digit_def)
  then have t: "CHR '':'' \<notin> set (''t'' @ dec_int t)" by simp
  have r: "CHR '':'' \<notin> set ''repolease''" and v: "CHR '':'' \<notin> set ''v1''" by simp_all
  have parts: "buildFileLeaseID a t d =
      ''repolease'' @ CHR '':'' # ''v1'' @ CHR '':'' # cleanKeyPart (ctx_WorkspaceID a) @ CHR '':'' #
      cleanKeyPart (ctx_TaskID a) @ CHR '':'' # cleanKeyPart (ctx_AgentID a) @ CHR '':'' # (''t'' @ dec_int t) @
      CHR '':'' # short_digest 12 d"
    by (simp add: buildFileLeaseID_def)
  show ?thesis
    unfolding parts
    by (simp only: split_on_append_sep [OF r] split_on_append_sep [OF v] split_on_append_sep [OF cleanKeyPart_no_colon]
        split_on_append_sep [OF t]) simp
qed

lemma buildFileLeaseID_term: "buildFileLeaseID a t d = buildFileLeaseID a' t' d' \<Longrightarrow> t = t'"
  using buildFileLeaseID_split [of a t d] buildFileLeaseID_split [of a' t' d'] by (auto intro: dec_int_inj)

lemma buildFileLeaseID_not_Nil [simp]: "buildFileLeaseID a t d \<noteq> []"
  by (simp add: buildFileLeaseID_def)

lemma short_digest_props:
  assumes "0 < n"
  shows "short_digest n (sha256_text m) \<noteq> []" and "\<forall>c \<in> set (short_digest n (sha256_text m)). is_lower_hex c"
proof -
  have trim: "TrimPrefix (sha256_text m) ''sha256:'' = hex_encode (sha256 m)"
    by (simp add: sha256_text_def TrimPrefix_def HasPrefix_def)
  have "length (hex_encode (sha256 m)) = 64" by (simp add: length_sha256)
  then have "hex_encode (sha256 m) \<noteq> []" by (metis list.size(3) zero_neq_numeral)
  with assms trim show "short_digest n (sha256_text m) \<noteq> []" by (simp add: short_digest_def Let_def)
  show "\<forall>c \<in> set (short_digest n (sha256_text m)). is_lower_hex c"
    using trim hex_encode_chars [of "sha256 m"] by (auto simp: short_digest_def Let_def dest: in_set_takeD)
qed

lemma TrimSpace_buildFileLeaseID: "TrimSpace (buildFileLeaseID a t (json_digest j)) = buildFileLeaseID a t (json_digest j)"
proof (rule TrimSpace_graphic)
  let ?d = "short_digest 12 (json_digest j)"
  have d: "?d \<noteq> []" "last ?d \<in> set ?d" using short_digest_props(1) [of 12] by (simp_all add: json_digest_def)
  have "\<forall>c \<in> set ?d. is_lower_hex c" unfolding json_digest_def by (rule short_digest_props(2)) simp
  with d(2) have "graphic (last ?d)" by (blast intro: is_lower_hex_graphic)
  with d(1) show "graphic (last (buildFileLeaseID a t (json_digest j)))" by (simp add: buildFileLeaseID_def)
  show "graphic (hd (buildFileLeaseID a t (json_digest j)))" by (simp add: buildFileLeaseID_def graphic_def)
qed simp

subsection \<open>The invariant\<close>

definition lease_active :: "FileLease \<Rightarrow> bool" where
  "lease_active l \<longleftrightarrow> fl_Status l = FileLeaseStatusActive"

definition lease_ok :: "int \<Rightarrow> string \<Rightarrow> FileLease \<Rightarrow> bool" where
  "lease_ok next k l \<longleftrightarrow>
     fl_ID l = k \<and> 1 \<le> fl_Term l \<and> fl_Term l < next \<and> (\<exists>a d. k = buildFileLeaseID a (fl_Term l) d) \<and>
     canonical_pathset (fl_Pathset l) \<and> fl_Pathset l \<noteq> []"

text \<open>The path table says exactly which active lease holds a path.\<close>

definition holders_ok :: "FileLeaseStore \<Rightarrow> bool" where
  "holders_ok s \<longleftrightarrow> (\<forall>p k. fs_pathHolders s p = Some k \<longleftrightarrow>
     (\<exists>l. map_of (fs_leases s) k = Some l \<and> lease_active l \<and> p \<in> set (fl_Pathset l)))"

text \<open>The term is a fencing token: no two leases of a store share one.\<close>

definition terms_ok :: "FileLeaseStore \<Rightarrow> bool" where
  "terms_ok s \<longleftrightarrow> (\<forall>k k' l l'. map_of (fs_leases s) k = Some l \<longrightarrow> map_of (fs_leases s) k' = Some l' \<longrightarrow>
     fl_Term l = fl_Term l' \<longrightarrow> k = k')"

definition lease_inv :: "nat \<Rightarrow> FileLeaseStore \<Rightarrow> bool" where
  "lease_inv n s \<longleftrightarrow>
     distinct (map fst (fs_leases s)) \<and> 1 \<le> fs_nextTerm s \<and> fs_nextTerm s \<le> int n + 1 \<and>
     (\<forall>k l. map_of (fs_leases s) k = Some l \<longrightarrow> lease_ok (fs_nextTerm s) k l) \<and> holders_ok s \<and> terms_ok s"

lemma lease_invD:
  assumes "lease_inv n s"
  shows "distinct (map fst (fs_leases s))" and "map_of (fs_leases s) k = Some l \<Longrightarrow> lease_ok (fs_nextTerm s) k l"
    and "holders_ok s" and "1 \<le> fs_nextTerm s" and "terms_ok s"
  using assms by (simp_all add: lease_inv_def)

lemma lease_inv_mono: "lease_inv n s \<Longrightarrow> n \<le> m \<Longrightarrow> lease_inv m s"
  by (auto simp: lease_inv_def)

lemma lease_okD: "lease_ok nt k l \<Longrightarrow> fl_ID l = k \<and> k \<noteq> []"
  unfolding lease_ok_def by (metis buildFileLeaseID_not_Nil)

lemma lease_ok_cong:
  "fl_ID l' = fl_ID l \<Longrightarrow> fl_Term l' = fl_Term l \<Longrightarrow> fl_Pathset l' = fl_Pathset l \<Longrightarrow>
   lease_ok nt k l' = lease_ok nt k l"
  by (simp add: lease_ok_def)

lemma lease_inv_New: "lease_inv 0 NewFileLeaseStore"
  by (simp add: lease_inv_def NewFileLeaseStore_def holders_ok_def terms_ok_def)

lemma terms_ok_update:
  assumes "terms_ok s" and "map_of (fs_leases s') = (map_of (fs_leases s))(k \<mapsto> l')"
    and "map_of (fs_leases s) k = Some l" and "fl_Term l' = fl_Term l"
  shows "terms_ok s'"
  unfolding terms_ok_def
proof (intro allI impI)
  fix a b x y
  assume *: "map_of (fs_leases s') a = Some x" "map_of (fs_leases s') b = Some y" "fl_Term x = fl_Term y"
  have old: "\<exists>z. map_of (fs_leases s) a = Some z \<and> fl_Term z = fl_Term x" if "map_of (fs_leases s') a = Some x" for a x
    using that assms(2-4) by (auto split: if_splits)
  from old [OF *(1)] old [OF *(2)] *(3) assms(1) show "a = b" unfolding terms_ok_def by metis
qed

lemma drop_paths_apply:
  "drop_paths lid ps ph p = (if p \<in> set ps \<and> ph p = Some lid then None else ph p)"
  unfolding drop_paths_def
  by (induction ps arbitrary: ph) (auto simp: drop_path_def path_holder_def split: option.splits if_splits)

lemma end_lease_simps [simp]:
  "fs_nextTerm (end_lease k l st now s) = fs_nextTerm s"
  "map_of (fs_leases (end_lease k l st now s)) =
     (map_of (fs_leases s))(k \<mapsto> l\<lparr>fl_Status := st, fl_UpdatedAt := formatLeaseTime now\<rparr>)"
  by (simp_all add: end_lease_def)

lemma lease_inv_end:
  assumes inv: "lease_inv n s" and l: "map_of (fs_leases s) k = Some l" and st: "st \<noteq> FileLeaseStatusActive"
  shows "lease_inv n (end_lease k l st now s)"
proof -
  let ?l = "l\<lparr>fl_Status := st, fl_UpdatedAt := formatLeaseTime now\<rparr>"
  have "lease_ok (fs_nextTerm s) k ?l"
    using lease_invD(2) [OF inv l] by (simp add: lease_ok_cong [of ?l l])
  moreover have "holders_ok (end_lease k l st now s)"
    unfolding holders_ok_def
  proof (intro allI)
    fix p k'
    note held = lease_invD(3) [OF inv, unfolded holders_ok_def, rule_format, of p]
    have new: "fs_pathHolders (end_lease k l st now s) p =
        (if p \<in> set (fl_Pathset l) \<and> fs_pathHolders s p = Some k then None else fs_pathHolders s p)"
      by (simp add: end_lease_def drop_paths_apply)
    show "fs_pathHolders (end_lease k l st now s) p = Some k' \<longleftrightarrow>
        (\<exists>l'. map_of (fs_leases (end_lease k l st now s)) k' = Some l' \<and> lease_active l' \<and> p \<in> set (fl_Pathset l'))"
    proof (cases "k' = k")
      case True
      with held [of k] l st new show ?thesis by (auto simp: lease_active_def)
    next
      case False
      with held [of k'] held [of k] l new show ?thesis by auto
    qed
  qed
  moreover have "terms_ok (end_lease k l st now s)"
    by (rule terms_ok_update [OF lease_invD(5) [OF inv] end_lease_simps(2) l]) simp
  ultimately show ?thesis using inv by (simp add: lease_inv_def) (simp add: end_lease_def)
qed

text \<open>
  The loops that sweep the store: each entry is left alone or ended, so the invariant
  survives whatever the order in which the map is visited.
\<close>

lemma lease_inv_sweep:
  assumes act: "\<And>k l s. F (k, l) s = s \<or> (\<exists>st. st \<noteq> FileLeaseStatusActive \<and> F (k, l) s = end_lease k l st now s)"
  shows "lease_inv n s \<Longrightarrow> distinct (map fst es) \<Longrightarrow> \<forall>(k, l) \<in> set es. map_of (fs_leases s) k = Some l \<Longrightarrow>
    lease_inv n (fold F es s)"
proof (induction es arbitrary: s)
  case (Cons e es)
  obtain k l where e: "e = (k, l)" by (cases e)
  have inv: "lease_inv n (F e s)"
    using act [of k l s] Cons.prems lease_inv_end by (auto simp: e)
  moreover have "\<forall>(k', l') \<in> set es. map_of (fs_leases (F e s)) k' = Some l'"
    using act [of k l s] Cons.prems by (auto simp: e rev_image_eqI)
  ultimately show ?case using Cons.IH Cons.prems(2) by simp
qed simp

lemma entries_found: "distinct (map fst m) \<Longrightarrow> \<forall>(k, l) \<in> set m. map_of m k = Some l"
  by auto

lemma lease_inv_expire: "lease_inv n s \<Longrightarrow> lease_inv n (expireLocked now s)"
  unfolding expireLocked_def
  by (rule lease_inv_sweep [where now = now])
    (auto simp: expire_entry_def entries_found dest: lease_invD(1) intro: exI [of _ FileLeaseStatusExpired])

lemma sweep_map:
  assumes F: "\<And>k l s. F (k, l) s = (if P l then end_lease k l st now s else s)"
  shows "distinct (map fst es) \<Longrightarrow> \<forall>(k, l) \<in> set es. map_of (fs_leases s) k = Some l \<Longrightarrow>
   map_of (fs_leases (fold F es s)) k =
     (case map_of es k of None \<Rightarrow> map_of (fs_leases s) k
      | Some l \<Rightarrow> Some (if P l then l\<lparr>fl_Status := st, fl_UpdatedAt := formatLeaseTime now\<rparr> else l))"
proof (induction es arbitrary: s)
  case (Cons e es)
  obtain k' l' where e: "e = (k', l')" by (cases e)
  let ?l = "if P l' then l'\<lparr>fl_Status := st, fl_UpdatedAt := formatLeaseTime now\<rparr> else l'"
  have m: "map_of (fs_leases (F e s)) = (map_of (fs_leases s))(k' \<mapsto> ?l)"
    using Cons.prems by (auto simp: e F)
  have "k' \<notin> fst ` set es" using Cons.prems(1) by (simp add: e)
  then have "map_of es k' = None" by (simp add: map_of_eq_None_iff)
  moreover have "\<forall>(a, b) \<in> set es. map_of (fs_leases (F e s)) a = Some b"
    using Cons.prems \<open>k' \<notin> fst ` set es\<close> by (auto simp: m rev_image_eqI)
  moreover have "distinct (map fst es)" using Cons.prems(1) by simp
  ultimately have "map_of (fs_leases (fold F (e # es) s)) k =
      (case map_of es k of None \<Rightarrow> ((map_of (fs_leases s))(k' \<mapsto> ?l)) k
       | Some l \<Rightarrow> Some (if P l then l\<lparr>fl_Status := st, fl_UpdatedAt := formatLeaseTime now\<rparr> else l))"
    using Cons.IH [of "F e s"] by (simp only: m fold_simps)
  with \<open>map_of es k' = None\<close> show ?case by (auto simp: e split: option.splits)
qed simp

definition expire_lease :: "instant \<Rightarrow> FileLease \<Rightarrow> FileLease" where
  "expire_lease now l =
     (if lease_active l \<and> leaseExpiredAt l now
      then l\<lparr>fl_Status := FileLeaseStatusExpired, fl_UpdatedAt := formatLeaseTime now\<rparr> else l)"

lemma expireLocked_map:
  assumes "lease_inv n s"
  shows "map_of (fs_leases (expireLocked now s)) k = map_option (expire_lease now) (map_of (fs_leases s) k)"
proof -
  have F: "expire_entry now (k, l) s = (if lease_active l \<and> leaseExpiredAt l now
      then end_lease k l FileLeaseStatusExpired now s else s)" for k l s
    by (simp add: expire_entry_def lease_active_def)
  show ?thesis
    unfolding expireLocked_def sweep_map [where F = "expire_entry now", OF F lease_invD(1) [OF assms]
        entries_found [OF lease_invD(1) [OF assms]]]
    by (auto simp: expire_lease_def split: option.splits)
qed

lemma expire_entry_next: "fs_nextTerm (fold (expire_entry now) es s) = fs_nextTerm s"
  by (induction es arbitrary: s) (auto simp: expire_entry_def split: prod.splits)

lemma expireLocked_next [simp]: "fs_nextTerm (expireLocked now s) = fs_nextTerm s"
  by (simp add: expireLocked_def expire_entry_next)

subsection \<open>How one operation changes the leases\<close>

text \<open>
  A lease may change its status and its two clock fields, nothing else, and a lease that is no
  longer active does not change at all.
\<close>

definition lease_succ :: "FileLease \<Rightarrow> FileLease \<Rightarrow> bool" where
  "lease_succ l l' \<longleftrightarrow>
     l' = l\<lparr>fl_Status := fl_Status l', fl_UpdatedAt := fl_UpdatedAt l', fl_ExpiresAt := fl_ExpiresAt l'\<rparr> \<and>
     (\<not> lease_active l \<longrightarrow> l' = l)"

definition store_succ :: "FileLeaseStore \<Rightarrow> FileLeaseStore \<Rightarrow> bool" where
  "store_succ s s' \<longleftrightarrow> (\<forall>k l. map_of (fs_leases s) k = Some l \<longrightarrow>
     (\<exists>l'. map_of (fs_leases s') k = Some l' \<and> lease_succ l l'))"

lemma lease_succ_refl [simp]: "lease_succ l l"
  by (simp add: lease_succ_def)

lemma lease_succ_trans: "lease_succ a b \<Longrightarrow> lease_succ b c \<Longrightarrow> lease_succ a c"
  unfolding lease_succ_def by (cases a, cases b, cases c) auto

lemma lease_succ_fields:
  "lease_succ l l' \<Longrightarrow> fl_ID l' = fl_ID l \<and> fl_Term l' = fl_Term l \<and> fl_Pathset l' = fl_Pathset l"
  unfolding lease_succ_def by (cases l, cases l') auto

lemma store_succ_refl [simp]: "store_succ s s"
  by (simp add: store_succ_def)

lemma store_succ_trans: "store_succ a b \<Longrightarrow> store_succ b c \<Longrightarrow> store_succ a c"
  unfolding store_succ_def by (meson lease_succ_trans)

lemma store_succ_update:
  assumes "map_of (fs_leases s') = (map_of (fs_leases s))(k \<mapsto> l')"
    and "map_of (fs_leases s) k = None \<or> (\<exists>l. map_of (fs_leases s) k = Some l \<and> lease_succ l l')"
  shows "store_succ s s'"
  using assms by (auto simp: store_succ_def)

lemma store_succ_end:
  "map_of (fs_leases s) k = Some l \<Longrightarrow> lease_active l \<Longrightarrow> store_succ s (end_lease k l st now s)"
  by (rule store_succ_update [of _ _ k]) (auto simp: lease_succ_def)

lemma store_succ_expire: "lease_inv n s \<Longrightarrow> store_succ s (expireLocked now s)"
  by (auto simp: store_succ_def expireLocked_map expire_lease_def lease_succ_def)

lemma requireLive_Inr:
  "requireLiveLeaseLocked lid t h now s = (Inr l, s') \<longleftrightarrow>
     s' = s \<and> TrimSpace lid \<noteq> [] \<and> 0 < t \<and> validateFileLeaseHolder h = None \<and>
     map_of (fs_leases s) (TrimSpace lid) = Some l \<and> lease_active l \<and> fl_Term l = t \<and>
     \<not> leaseExpiredAt l now \<and> verifyFileLeaseHolder l h = None"
  by (auto simp: requireLiveLeaseLocked_def Let_def lease_active_def split: option.splits if_splits)

lemma requireLive_state:
  "snd (requireLiveLeaseLocked lid t h now s) = s \<or>
   (\<exists>k l. map_of (fs_leases s) k = Some l \<and> lease_active l \<and>
      snd (requireLiveLeaseLocked lid t h now s) = end_lease (fl_ID l) l FileLeaseStatusExpired now s)"
  by (auto simp: requireLiveLeaseLocked_def Let_def lease_active_def split: option.splits)

lemma requireLive_keeps:
  assumes inv: "lease_inv n s"
  shows "lease_inv n (snd (requireLiveLeaseLocked lid t h now s))"
    and "store_succ s (snd (requireLiveLeaseLocked lid t h now s))"
proof -
  have "lease_inv n s' \<and> store_succ s s'" if res: "s' = snd (requireLiveLeaseLocked lid t h now s)" for s'
    using requireLive_state [of lid t h now s]
  proof
    assume "snd (requireLiveLeaseLocked lid t h now s) = s"
    with res inv show ?thesis by simp
  next
    assume "\<exists>k l. map_of (fs_leases s) k = Some l \<and> lease_active l \<and>
      snd (requireLiveLeaseLocked lid t h now s) = end_lease (fl_ID l) l FileLeaseStatusExpired now s"
    then obtain k l where l: "map_of (fs_leases s) k = Some l" "lease_active l"
      and s': "s' = end_lease (fl_ID l) l FileLeaseStatusExpired now s" using res by blast
    moreover have "fl_ID l = k" using lease_invD(2) [OF inv l(1)] by (simp add: lease_ok_def)
    ultimately show ?thesis using lease_inv_end [OF inv l(1)] store_succ_end [OF l] by simp
  qed
  then show "lease_inv n (snd (requireLiveLeaseLocked lid t h now s))"
    and "store_succ s (snd (requireLiveLeaseLocked lid t h now s))" by blast+
qed

text \<open>What the checks of an operation on a lease leave behind, expiry sweep included.\<close>

lemma expire_then_require:
  assumes inv: "lease_inv n s" and r: "requireLiveLeaseLocked lid t h now (expireLocked now s) = (r, s')"
  shows "lease_inv n s'" and "store_succ s s'"
  using requireLive_keeps [OF lease_inv_expire [OF inv, of now], of lid t h now] r store_succ_expire [OF inv, of now]
  by (auto intro: store_succ_trans)

lemma live_after_expire:
  assumes "lease_inv n s" and "requireLiveLeaseLocked lid t h now (expireLocked now s) = (Inr l, s')"
  shows "s' = expireLocked now s" and "map_of (fs_leases s') (fl_ID l) = Some l" and "lease_active l"
proof -
  from assms(2) have l: "s' = expireLocked now s" "map_of (fs_leases s') (TrimSpace lid) = Some l" "lease_active l"
    by (auto simp: requireLive_Inr)
  moreover have "fl_ID l = TrimSpace lid"
    using lease_invD(2) [OF lease_inv_expire [OF assms(1), of now]] l by (simp add: lease_ok_def)
  ultimately show "s' = expireLocked now s" and "map_of (fs_leases s') (fl_ID l) = Some l" and "lease_active l"
    by simp_all
qed

lemma fold_holders: "fold (\<lambda>p ph. ph(p \<mapsto> k)) ps ph p = (if p \<in> set ps then Some k else ph p)"
  by (induction ps arbitrary: ph) auto

lemma check_unleased_None:
  assumes "lease_inv n s"
  shows "check_unleased s ps = None \<longleftrightarrow> (\<forall>p \<in> set ps. fs_pathHolders s p = None)"
proof -
  have "path_holder (fs_pathHolders s) p = [] \<longleftrightarrow> fs_pathHolders s p = None" for p
    using lease_invD(2,3) [OF assms] lease_okD
    by (fastforce simp: path_holder_def holders_ok_def split: option.splits)
  then show ?thesis by (induction ps) (auto simp: Let_def split: option.splits)
qed

lemma fresh_lease_id:
  assumes "lease_inv n s"
  shows "map_of (fs_leases s) (buildFileLeaseID a (fs_nextTerm s) d) = None"
proof (rule ccontr)
  assume "map_of (fs_leases s) (buildFileLeaseID a (fs_nextTerm s) d) \<noteq> None"
  then obtain l where "lease_ok (fs_nextTerm s) (buildFileLeaseID a (fs_nextTerm s) d) l"
    using lease_invD(2) [OF assms] by blast
  then show False unfolding lease_ok_def by (metis buildFileLeaseID_term less_irrefl)
qed

lemma acquire_request_Inr:
  assumes "acquire_request input = Inr (authority, digest, pathset)"
  shows "authority = WithDefaults (ac_Context input)" and "0 < ac_TTL input"
    and "Context_Validate authority = None" and "digest = json_digest (json_context authority)"
    and "pathset = ctx_Pathset authority" and "canonical_pathset pathset" and "pathset \<noteq> []"
    and "TrimSpace (lr_ID (ctx_Lease authority)) = []"
proof -
  from assms have a: "authority = WithDefaults (ac_Context input)" "0 < ac_TTL input"
      "Context_Validate authority = None" "Context_Digest authority = Inr digest"
      "NormalizePathSet (ctx_Pathset authority) = Inr pathset" "TrimSpace (lr_ID (ctx_Lease authority)) = []"
    by (auto simp: acquire_request_def Let_def bind_result_Inr)
  then show "authority = WithDefaults (ac_Context input)" "0 < ac_TTL input" "Context_Validate authority = None"
    "TrimSpace (lr_ID (ctx_Lease authority)) = []" by simp_all
  show "digest = json_digest (json_context authority)" using a(1,4) by (simp add: Context_Digest_Inr)
  show p: "pathset = ctx_Pathset authority"
    using a(5) NormalizePathSet_canonical [OF Context_Validate_pathset(1) [OF a(3)]] by simp
  show "canonical_pathset pathset" "pathset \<noteq> []" using Context_Validate_pathset [OF a(3)] p by simp_all
qed

lemma lease_inv_install:
  fixes a :: Context and d :: string and now :: instant and ttl :: int
  assumes inv: "lease_inv n s" and bound: "int n + 2 < 2 ^ 63"
    and free: "\<forall>p \<in> set pathset. fs_pathHolders s p = None" and ps: "canonical_pathset pathset" "pathset \<noteq> []"
  defines "l \<equiv> new_lease a (fs_nextTerm s) d pathset now ttl"
  defines "s' \<equiv> install_lease l (s\<lparr>fs_nextTerm := wrap64 (fs_nextTerm s + 1)\<rparr>)"
  shows "lease_inv (Suc n) s'" and "store_succ s s'"
    and "map_of (fs_leases s') = (map_of (fs_leases s))(fl_ID l \<mapsto> l)"
proof -
  have l: "fl_ID l = buildFileLeaseID a (fs_nextTerm s) d" "fl_Term l = fs_nextTerm s" "fl_Pathset l = pathset" "lease_active l"
    by (simp_all add: l_def new_lease_def lease_active_def)
  have fresh: "map_of (fs_leases s) (fl_ID l) = None" using fresh_lease_id [OF inv] by (simp add: l)
  have nxt: "wrap64 (fs_nextTerm s + 1) = fs_nextTerm s + 1" "fs_nextTerm s' = fs_nextTerm s + 1"
    using inv bound by (simp_all add: s'_def install_lease_def lease_inv_def wrap64_id)
  show map: "map_of (fs_leases s') = (map_of (fs_leases s))(fl_ID l \<mapsto> l)"
    by (simp add: s'_def install_lease_def)
  then show "store_succ s s'" by (rule store_succ_update) (simp add: fresh)
  have "lease_ok (fs_nextTerm s') k m" if "map_of (fs_leases s') k = Some m" for k m
  proof (cases "k = fl_ID l")
    case True
    with that map have "m = l" by simp
    with True l ps lease_invD(4) [OF inv] nxt(2) show ?thesis by (auto simp: lease_ok_def)
  next
    case False
    with that map lease_invD(2) [OF inv] nxt(2) show ?thesis by (fastforce simp: lease_ok_def)
  qed
  moreover have "fs_pathHolders s' p = (if p \<in> set pathset then Some (fl_ID l) else fs_pathHolders s p)" for p
    by (simp add: s'_def install_lease_def fold_holders l)
  then have "holders_ok s'"
    unfolding holders_ok_def map
  proof (intro allI)
    fix p k
    assume new: "\<And>p. fs_pathHolders s' p = (if p \<in> set pathset then Some (fl_ID l) else fs_pathHolders s p)"
    note held = lease_invD(3) [OF inv, unfolded holders_ok_def, rule_format, of p]
    show "fs_pathHolders s' p = Some k \<longleftrightarrow>
        (\<exists>m. ((map_of (fs_leases s))(fl_ID l \<mapsto> l)) k = Some m \<and> lease_active m \<and> p \<in> set (fl_Pathset m))"
      using held [of k] free fresh l(3,4) by (cases "k = fl_ID l"; cases "p \<in> set pathset") (simp_all add: new)
  qed
  moreover have "terms_ok s'"
    unfolding terms_ok_def
  proof (intro allI impI)
    fix k k' m m'
    assume m: "map_of (fs_leases s') k = Some m" "map_of (fs_leases s') k' = Some m'" "fl_Term m = fl_Term m'"
    have "fl_Term m < fs_nextTerm s" if "map_of (fs_leases s) k = Some m" for k m
      using lease_invD(2) [OF inv that] by (simp add: lease_ok_def)
    with m map l(2) lease_invD(5) [OF inv] show "k = k'"
      unfolding terms_ok_def by (cases "k = fl_ID l"; cases "k' = fl_ID l") fastforce+
  qed
  ultimately show "lease_inv (Suc n) s'"
    using inv nxt by (auto simp: lease_inv_def s'_def install_lease_def)
qed

subsection \<open>Each operation keeps the invariant\<close>

lemma Acquire_keeps:
  assumes inv: "lease_inv n s" and bound: "int n + 2 < 2 ^ 63"
  shows "lease_inv (Suc n) (snd (Acquire wall input s)) \<and> store_succ s (snd (Acquire wall input s))"
proof (cases "acquire_request input")
  case (Inl e)
  with lease_inv_mono [OF inv, of "Suc n"] show ?thesis by (simp add: Acquire_def)
next
  case (Inr r)
  obtain authority digest pathset where r: "r = (authority, digest, pathset)" by (cases r)
  let ?s = "expireLocked (normalizeLeaseTime wall (ac_Now input)) s"
  note req = acquire_request_Inr [OF Inr [unfolded r]]
  have swept: "lease_inv n ?s" "store_succ s ?s" using inv by (auto intro: lease_inv_expire store_succ_expire)
  show ?thesis
  proof (cases "check_unleased ?s pathset")
    case (Some e)
    with Inr r swept lease_inv_mono [OF swept(1), of "Suc n"] show ?thesis by (simp add: Acquire_def Let_def)
  next
    case None
    then have free: "\<forall>p \<in> set pathset. fs_pathHolders ?s p = None"
      by (simp add: check_unleased_None [OF swept(1)])
    from lease_inv_install(1,2) [OF swept(1) bound free req(6,7)] swept(2) Inr r None
    show ?thesis by (auto simp: Acquire_def Let_def intro: store_succ_trans)
  qed
qed

lemma update_live:
  assumes inv: "lease_inv n s" and l: "map_of (fs_leases s) k = Some l" "lease_active l"
    and l': "l' = l\<lparr>fl_UpdatedAt := u, fl_ExpiresAt := x\<rparr>"
  shows "lease_inv n (s\<lparr>fs_leases := AList.update k l' (fs_leases s)\<rparr>)"
    and "store_succ s (s\<lparr>fs_leases := AList.update k l' (fs_leases s)\<rparr>)"
proof -
  have "lease_ok (fs_nextTerm s) k l'" using lease_invD(2) [OF inv l(1)] by (simp add: l' lease_ok_def)
  moreover have "lease_active l'" "fl_Pathset l' = fl_Pathset l" using l by (simp_all add: l' lease_active_def)
  then have "holders_ok (s\<lparr>fs_leases := AList.update k l' (fs_leases s)\<rparr>)"
    using lease_invD(3) [OF inv] l by (simp add: holders_ok_def)
  moreover have "terms_ok (s\<lparr>fs_leases := AList.update k l' (fs_leases s)\<rparr>)"
    by (rule terms_ok_update [OF lease_invD(5) [OF inv] _ l(1), where l' = l']) (simp_all add: l')
  ultimately show "lease_inv n (s\<lparr>fs_leases := AList.update k l' (fs_leases s)\<rparr>)"
    using inv by (simp add: lease_inv_def)
  have "lease_succ l l'" using l(2) by (simp add: l' lease_succ_def)
  then show "store_succ s (s\<lparr>fs_leases := AList.update k l' (fs_leases s)\<rparr>)"
    by (intro store_succ_update [of _ _ k]) (auto simp: l)
qed

lemma Renew_keeps:
  assumes inv: "lease_inv n s"
  shows "lease_inv n (snd (Renew wall input s)) \<and> store_succ s (snd (Renew wall input s))"
proof -
  let ?now = "normalizeLeaseTime wall (rn_Now input)"
  obtain r s' where r: "requireLiveLeaseLocked (rn_LeaseID input) (rn_Term input) (rn_Holder input) ?now
      (expireLocked ?now s) = (r, s')" by (metis surj_pair)
  note keep = expire_then_require [OF inv r]
  show ?thesis
  proof (cases r)
    case (Inl e)
    with r keep inv show ?thesis by (simp add: Renew_def)
  next
    case (Inr l)
    note live = live_after_expire [OF inv r [unfolded Inr]]
    from update_live [OF keep(1) live(2,3) refl] keep r Inr inv show ?thesis
      by (auto simp: Renew_def Let_def intro: store_succ_trans)
  qed
qed

lemma Release_keeps:
  assumes inv: "lease_inv n s"
  shows "lease_inv n (snd (Release wall input s)) \<and> store_succ s (snd (Release wall input s))"
proof -
  let ?now = "normalizeLeaseTime wall (rl_Now input)"
  obtain r s' where r: "requireLiveLeaseLocked (rl_LeaseID input) (rl_Term input) (rl_Holder input) ?now
      (expireLocked ?now s) = (r, s')" by (metis surj_pair)
  note keep = expire_then_require [OF inv r]
  show ?thesis
  proof (cases r)
    case (Inl e)
    with r keep show ?thesis by (simp add: Release_def)
  next
    case (Inr l)
    note live = live_after_expire [OF inv r [unfolded Inr]]
    from lease_inv_end [OF keep(1) live(2)] store_succ_end [OF live(2,3)] keep r Inr show ?thesis
      by (auto simp: Release_def Let_def intro: store_succ_trans)
  qed
qed

lemma AuthorizeMutation_keeps:
  assumes inv: "lease_inv n s"
  shows "lease_inv n (snd (AuthorizeMutation wall input s)) \<and> store_succ s (snd (AuthorizeMutation wall input s))"
proof -
  let ?now = "normalizeLeaseTime wall (au_Now input)"
  obtain r s' where r: "requireLiveLeaseLocked (au_LeaseID input) (au_Term input) (au_Holder input) ?now
      (expireLocked ?now s) = (r, s')" by (metis surj_pair)
  from expire_then_require [OF inv r] r inv show ?thesis
    by (auto simp: AuthorizeMutation_def Let_def split: sum.splits)
qed

text \<open>The store part of the revocation loop does not depend on the result it accumulates.\<close>

definition revoke_store :: "FileLeaseHolder \<Rightarrow> instant \<Rightarrow> string \<times> FileLease \<Rightarrow> FileLeaseStore \<Rightarrow> FileLeaseStore" where
  "revoke_store holder now e s =
     (case e of (k, l) \<Rightarrow> if lease_active l \<and> verifyFileLeaseHolder l holder = None
        then end_lease k l FileLeaseStatusRevoked now s else s)"

lemma fold_revoke_store: "snd (fold (revoke_entry h now) es (r, s)) = fold (revoke_store h now) es s"
  by (induction es arbitrary: r s) (auto simp: revoke_entry_def revoke_store_def lease_active_def split: prod.splits)

lemma store_succ_sweep:
  assumes act: "\<And>k l s. F (k, l) s = s \<or> (\<exists>st. lease_active l \<and> F (k, l) s = end_lease k l st now s)"
  shows "distinct (map fst es) \<Longrightarrow> \<forall>(k, l) \<in> set es. map_of (fs_leases s) k = Some l \<Longrightarrow> store_succ s (fold F es s)"
proof (induction es arbitrary: s)
  case (Cons e es)
  obtain k l where e: "e = (k, l)" by (cases e)
  have "\<forall>(k', l') \<in> set es. map_of (fs_leases (F e s)) k' = Some l'"
    using act [of k l s] Cons.prems by (auto simp: e rev_image_eqI)
  with Cons have "store_succ (F e s) (fold F es (F e s))" by simp
  moreover have "store_succ s (F e s)" using act [of k l s] Cons.prems by (auto simp: e intro: store_succ_end)
  ultimately show ?case by (auto intro: store_succ_trans)
qed simp

lemma Revoke_keeps:
  assumes inv: "lease_inv n s"
  shows "lease_inv n (snd (RevokeLeasesForHolder wall input s)) \<and> store_succ s (snd (RevokeLeasesForHolder wall input s))"
proof -
  let ?now = "normalizeLeaseTime wall (rv_Now input)"
  let ?s = "expireLocked ?now s"
  let ?t = "fold (revoke_store (rv_Holder input) ?now) (fs_leases ?s) ?s"
  have swept: "lease_inv n ?s" "store_succ s ?s" using inv by (auto intro: lease_inv_expire store_succ_expire)
  note entries = lease_invD(1) [OF swept(1)] entries_found [OF lease_invD(1) [OF swept(1)]]
  have "lease_inv n ?t"
    by (rule lease_inv_sweep [OF _ swept(1) entries, where now = ?now])
      (auto simp: revoke_store_def intro: exI [of _ FileLeaseStatusRevoked])
  moreover have "store_succ ?s ?t"
    by (rule store_succ_sweep [OF _ entries, where now = ?now]) (auto simp: revoke_store_def)
  moreover have "validateFileLeaseHolder (rv_Holder input) = None \<Longrightarrow> snd (RevokeLeasesForHolder wall input s) = ?t"
    unfolding fold_revoke_store [of _ _ _ "\<lparr>rr_Revoked = 0, rr_Leases = []\<rparr>", symmetric]
    by (simp add: RevokeLeasesForHolder_def Let_def split: prod.split)
  moreover have "validateFileLeaseHolder (rv_Holder input) = Some e \<Longrightarrow> snd (RevokeLeasesForHolder wall input s) = s" for e
    by (simp add: RevokeLeasesForHolder_def)
  ultimately show ?thesis
    using inv swept(2) by (cases "validateFileLeaseHolder (rv_Holder input)") (auto intro: store_succ_trans)
qed

subsection \<open>The store as a state machine\<close>

text \<open>
  One step is one exported call, or a change of the order in which the Go runtime will
  iterate over the map of leases.
\<close>

datatype lease_op =
    OpAcquire instant AcquireFileLeaseInput
  | OpRenew instant RenewFileLeaseInput
  | OpRelease instant ReleaseFileLeaseInput
  | OpRevoke instant RevokeFileLeasesInput
  | OpAuthorize instant AuthorizeFileMutationInput
  | OpReorder

inductive lease_step :: "lease_op \<Rightarrow> FileLeaseStore \<Rightarrow> FileLeaseStore \<Rightarrow> bool" where
  acquire: "lease_step (OpAcquire wall ai) s (snd (Acquire wall ai s))"
| renew: "lease_step (OpRenew wall ni) s (snd (Renew wall ni s))"
| release: "lease_step (OpRelease wall li) s (snd (Release wall li s))"
| revoke: "lease_step (OpRevoke wall vi) s (snd (RevokeLeasesForHolder wall vi s))"
| authorize: "lease_step (OpAuthorize wall ui) s (snd (AuthorizeMutation wall ui s))"
| reorder: "mset ls = mset (fs_leases s) \<Longrightarrow> lease_step OpReorder s (s\<lparr>fs_leases := ls\<rparr>)"

lemma reorder_keeps:
  assumes inv: "lease_inv n s" and ls: "mset ls = mset (fs_leases s)"
  shows "lease_inv n (s\<lparr>fs_leases := ls\<rparr>) \<and> store_succ s (s\<lparr>fs_leases := ls\<rparr>)"
proof -
  have "mset (map fst ls) = mset (map fst (fs_leases s))" using ls by simp
  then have d: "distinct (map fst ls)" using lease_invD(1) [OF inv] mset_eq_imp_distinct_iff by blast
  have "set ls = set (fs_leases s)" by (rule mset_eq_setD [OF ls])
  then have m: "map_of ls = map_of (fs_leases s)" by (simp add: map_of_inject_set [OF d lease_invD(1) [OF inv]])
  with inv d show ?thesis by (simp add: lease_inv_def holders_ok_def terms_ok_def store_succ_def)
qed

lemma lease_step_keeps:
  assumes "lease_step oper s s'" and "lease_inv n s" and "n < 2 ^ 63 - 2"
  shows "lease_inv (Suc n) s' \<and> store_succ s s'"
proof -
  have bound: "int n + 2 < 2 ^ 63" using assms(3) by simp
  have up: "lease_inv n t \<Longrightarrow> lease_inv (Suc n) t" for t using lease_inv_mono [of n t "Suc n"] by simp
  from assms(1) show ?thesis
  proof cases
    case acquire
    then show ?thesis using Acquire_keeps [OF assms(2) bound] by simp
  next
    case renew
    then show ?thesis using Renew_keeps [OF assms(2)] up by simp
  next
    case release
    then show ?thesis using Release_keeps [OF assms(2)] up by simp
  next
    case revoke
    then show ?thesis using Revoke_keeps [OF assms(2)] up by simp
  next
    case authorize
    then show ?thesis using AuthorizeMutation_keeps [OF assms(2)] up by simp
  next
    case reorder
    then show ?thesis using reorder_keeps [OF assms(2)] up by simp
  qed
qed

interpretation lease_machine: invariant_machine "\<lambda>s. s = NewFileLeaseStore" lease_step lease_inv "2 ^ 63 - 2"
  using lease_step_keeps by unfold_locales (auto simp: lease_inv_New)

end
