(* ===== verification/Lease_Properties.thy ===== *)
theory Lease_Properties
  imports File_Lease
begin

section \<open>What the lease store guarantees\<close>

text \<open>
  The lease store as a lock manager. \<open>lock_table\<close> is the abstract state: which lease holds a
  path at a given instant. The operations of \<open>file_lease.go\<close> are shown to implement the
  obvious operations on that table, and the theorems about whole runs (mutual exclusion,
  fencing, permanence of ended leases) rest on the invariant of \<open>File_Lease\<close>.
\<close>

subsection \<open>The abstract lock table\<close>

definition lock_table :: "instant \<Rightarrow> FileLeaseStore \<Rightarrow> (string \<rightharpoonup> string)" where
  "lock_table now s = fs_pathHolders (expireLocked now s)"

definition spec_acquire :: "string list \<Rightarrow> string \<Rightarrow> (string \<rightharpoonup> string) \<Rightarrow> (string \<rightharpoonup> string) option" where
  "spec_acquire ps owner T =
     (if \<forall>p \<in> set ps. T p = None then Some (\<lambda>p. if p \<in> set ps then Some owner else T p) else None)"

definition spec_release :: "string \<Rightarrow> (string \<rightharpoonup> string) \<Rightarrow> (string \<rightharpoonup> string)" where
  "spec_release owner T = (\<lambda>p. if T p = Some owner then None else T p)"

definition live_at :: "instant \<Rightarrow> FileLease \<Rightarrow> bool" where
  "live_at now l \<longleftrightarrow> lease_active l \<and> \<not> leaseExpiredAt l now"

lemma lock_table_iff:
  assumes "lease_inv n s"
  shows "lock_table now s p = Some k \<longleftrightarrow>
     (\<exists>l. map_of (fs_leases s) k = Some l \<and> live_at now l \<and> p \<in> set (fl_Pathset l))"
proof -
  have live: "lease_active (expire_lease now l) \<longleftrightarrow> live_at now l" "fl_Pathset (expire_lease now l) = fl_Pathset l" for l
    by (auto simp: expire_lease_def live_at_def lease_active_def)
  show ?thesis
    using lease_invD(3) [OF lease_inv_expire [OF assms, of now]] live
    unfolding lock_table_def holders_ok_def expireLocked_map [OF assms] by auto
qed

lemma lock_table_cong:
  assumes "lease_inv m s'"
    and "\<And>k. (\<exists>l. map_of (fs_leases s') k = Some l \<and> live_at now l \<and> p \<in> set (fl_Pathset l)) \<longleftrightarrow> T p = Some k"
  shows "lock_table now s' p = T p"
  by (rule option_eqI) (simp only: lock_table_iff [OF assms(1)] assms(2))

lemma lock_table_expired:
  assumes "lease_inv n s" shows "lock_table now (expireLocked now s) = lock_table now s"
proof
  fix p
  have e: "live_at now (expire_lease now l) \<longleftrightarrow> live_at now l" "fl_Pathset (expire_lease now l) = fl_Pathset l" for l
    by (simp_all add: expire_lease_def live_at_def lease_active_def leaseExpiredAt_def)
  show "lock_table now (expireLocked now s) p = lock_table now s p"
    by (rule lock_table_cong [OF lease_inv_expire [OF assms]])
      (auto simp: lock_table_iff [OF assms] expireLocked_map [OF assms] e)
qed

lemma expiry_exact:
  assumes "in_years e" and "fl_ExpiresAt l = formatLeaseTime e"
  shows "leaseExpiredAt l now \<longleftrightarrow> e \<le> now"
  using assms by (auto simp: leaseExpiredAt_def formatLeaseTime_def time_Parse_Format)

lemma lock_table_install:
  fixes a :: Context and d :: string and ttl :: int
  assumes inv: "lease_inv n s" and bound: "int n + 2 < 2 ^ 63"
    and free: "\<forall>p \<in> set ps. fs_pathHolders s p = None" and ps: "canonical_pathset ps" "ps \<noteq> []"
    and time: "in_years (now + ttl)" "0 < ttl"
  defines "l \<equiv> new_lease a (fs_nextTerm s) d ps now ttl"
  defines "s' \<equiv> install_lease l (s\<lparr>fs_nextTerm := wrap64 (fs_nextTerm s + 1)\<rparr>)"
  shows "lock_table now s' = (\<lambda>p. if p \<in> set ps then Some (fl_ID l) else lock_table now s p)"
proof
  fix p
  note inst = lease_inv_install [OF inv bound free ps, where a = a and d = d and now = now and ttl = ttl,
      folded l_def, folded s'_def]
  have live: "live_at now l" "fl_Pathset l = ps"
    using time by (simp_all add: live_at_def lease_active_def l_def new_lease_def expiry_exact [of "now + ttl"])
  have fresh: "map_of (fs_leases s) (fl_ID l) = None"
    using fresh_lease_id [OF inv] by (simp add: l_def new_lease_def)
  have none: "\<not> (map_of (fs_leases s) k = Some m \<and> lease_active m \<and> p \<in> set (fl_Pathset m))"
    if "p \<in> set ps" for k m
    using free that lease_invD(3) [OF inv] unfolding holders_ok_def by (metis option.distinct(1))
  show "lock_table now s' p = (if p \<in> set ps then Some (fl_ID l) else lock_table now s p)"
  proof (rule lock_table_cong [OF inst(1), where T = "\<lambda>p. if p \<in> set ps then Some (fl_ID l) else lock_table now s p"])
    fix k
    show "(\<exists>m. map_of (fs_leases s') k = Some m \<and> live_at now m \<and> p \<in> set (fl_Pathset m)) \<longleftrightarrow>
        (if p \<in> set ps then Some (fl_ID l) else lock_table now s p) = Some k"
    proof (cases "k = fl_ID l")
      case True
      with fresh live show ?thesis by (auto simp: inst(3) lock_table_iff [OF inv])
    next
      case False
      with live none [of k] show ?thesis
        by (auto simp: inst(3) lock_table_iff [OF inv] live_at_def)
    qed
  qed
qed

lemma Acquire_cases:
  fixes wall :: instant
  assumes inv: "lease_inv n s" and req: "acquire_request input = Inr (a, d, ps)"
  defines "now \<equiv> normalizeLeaseTime wall (ac_Now input)"
  defines "l \<equiv> new_lease a (fs_nextTerm s) d ps now (ac_TTL input)"
  obtains (held) e where "spec_acquire ps (fl_ID l) (lock_table now s) = None"
      and "Acquire wall input s = (Inl e, expireLocked now s)"
  | (free) "\<forall>p \<in> set ps. lock_table now s p = None"
      and "Acquire wall input s = (Inr l, install_lease l
            ((expireLocked now s)\<lparr>fs_nextTerm := wrap64 (fs_nextTerm s + 1)\<rparr>))"
proof (cases "check_unleased (expireLocked now s) ps")
  case None
  then have "\<forall>p \<in> set ps. lock_table now s p = None"
    by (simp add: check_unleased_None [OF lease_inv_expire [OF inv]] lock_table_def)
  moreover have "Acquire wall input s = (Inr l, install_lease l
            ((expireLocked now s)\<lparr>fs_nextTerm := wrap64 (fs_nextTerm s + 1)\<rparr>))"
    using None req by (simp add: Acquire_def Let_def now_def l_def)
  ultimately show ?thesis by (rule free)
next
  case (Some e)
  then have "\<not> (\<forall>p \<in> set ps. lock_table now s p = None)"
    using check_unleased_None [OF lease_inv_expire [OF inv, of now], of ps] by (auto simp: lock_table_def)
  then have "spec_acquire ps (fl_ID l) (lock_table now s) = None" by (simp add: spec_acquire_def)
  moreover have "Acquire wall input s = (Inl e, expireLocked now s)"
    using Some req by (simp add: Acquire_def Let_def now_def)
  ultimately show ?thesis by (rule held)
qed

lemma lock_table_end:
  assumes inv: "lease_inv n s" and l: "map_of (fs_leases s) k = Some l" and st: "st \<noteq> FileLeaseStatusActive"
  shows "lock_table now (end_lease k l st t s) = spec_release k (lock_table now s)"
proof
  fix p
  have released: "spec_release k T p = Some k' \<longleftrightarrow> k' \<noteq> k \<and> T p = Some k'" for T k'
    by (auto simp: spec_release_def)
  show "lock_table now (end_lease k l st t s) p = spec_release k (lock_table now s) p"
  proof (rule lock_table_cong [OF lease_inv_end [OF inv l st]])
    fix k'
    show "(\<exists>m. map_of (fs_leases (end_lease k l st t s)) k' = Some m \<and> live_at now m \<and> p \<in> set (fl_Pathset m)) \<longleftrightarrow>
        spec_release k (lock_table now s) p = Some k'"
      using st by (cases "k' = k") (auto simp: released lock_table_iff [OF inv] live_at_def lease_active_def)
  qed
qed

subsection \<open>Later states of a run\<close>

lemma later_run:
  "run_of (\<lambda>t. t = s) lease_step ops s' \<Longrightarrow> lease_inv n s \<Longrightarrow> n + length ops \<le> 2 ^ 63 - 2 \<Longrightarrow>
   lease_inv (n + length ops) s' \<and> store_succ s s'"
proof (induction rule: run_of.induct)
  case (run_step ops t oper t')
  then have "lease_inv (n + length ops) t \<and> store_succ s t" by simp
  with run_step.hyps(2) run_step.prems(2) lease_step_keeps [of oper t t' "n + length ops"]
  show ?case by (auto intro: store_succ_trans)
qed simp

lemma start_inv:
  assumes "run_of (\<lambda>s. s = NewFileLeaseStore) lease_step ops s" and "length ops \<le> 2 ^ 63 - 2"
  shows "lease_inv (length ops) s"
  using lease_machine.inv_run [OF assms(1)] assms(2) by simp

subsection \<open>Authorisation\<close>

lemma live_after_sweep:
  assumes "lease_inv n s"
  shows "map_of (fs_leases (expireLocked now s)) k = Some l \<and> live_at now l \<longleftrightarrow>
    map_of (fs_leases s) k = Some l \<and> live_at now l"
  by (auto simp: expireLocked_map [OF assms] expire_lease_def live_at_def lease_active_def)

definition may_act :: "instant \<Rightarrow> string \<Rightarrow> int \<Rightarrow> FileLeaseHolder \<Rightarrow> FileLease \<Rightarrow> FileLeaseStore \<Rightarrow> bool" where
  "may_act now lid t h l s \<longleftrightarrow>
     TrimSpace lid \<noteq> [] \<and> 0 < t \<and> validateFileLeaseHolder h = None \<and> map_of (fs_leases s) (TrimSpace lid) = Some l \<and>
     live_at now l \<and> fl_Term l = t \<and> verifyFileLeaseHolder l h = None"

lemma require_after_sweep:
  assumes "lease_inv n s"
  shows "requireLiveLeaseLocked lid t h now (expireLocked now s) = (Inr l, s') \<longleftrightarrow>
    s' = expireLocked now s \<and> may_act now lid t h l s"
  using live_after_sweep [OF assms, of now "TrimSpace lid" l]
  unfolding requireLive_Inr may_act_def by (auto simp: live_at_def)

lemma require_keeps_swept:
  assumes "lease_inv n s"
  shows "snd (requireLiveLeaseLocked lid t h now (expireLocked now s)) = expireLocked now s"
proof -
  have "\<not> leaseExpiredAt l now" if "map_of (fs_leases (expireLocked now s)) k = Some l" "lease_active l" for k l
  proof -
    from that(1) obtain z where z: "l = expire_lease now z" by (auto simp: expireLocked_map [OF assms])
    show ?thesis
      using that(2) unfolding z
      by (cases "lease_active z \<and> leaseExpiredAt z now") (auto simp: expire_lease_def lease_active_def)
  qed
  then show ?thesis
    by (auto simp: requireLiveLeaseLocked_def Let_def lease_active_def split: option.splits)
qed

lemma check_leased_None: "check_leased l ps = None \<longleftrightarrow> set ps \<subseteq> set (fl_Pathset l)"
  by (auto simp: check_leased_def guards_None)

lemma authorize_iff:
  assumes inv: "lease_inv n s"
  shows "fst (AuthorizeMutation wall input s) = None \<longleftrightarrow>
    (\<exists>paths l. NormalizePathSet (au_Paths input) = Inr paths \<and> paths \<noteq> [] \<and>
       may_act (normalizeLeaseTime wall (au_Now input)) (au_LeaseID input) (au_Term input) (au_Holder input) l s \<and>
       set paths \<subseteq> set (fl_Pathset l))"
proof -
  let ?now = "normalizeLeaseTime wall (au_Now input)"
  obtain r s' where r: "requireLiveLeaseLocked (au_LeaseID input) (au_Term input) (au_Holder input) ?now
      (expireLocked ?now s) = (r, s')" by (metis surj_pair)
  have act: "may_act ?now (au_LeaseID input) (au_Term input) (au_Holder input) l s \<longleftrightarrow> r = Inr l" for l
    using require_after_sweep [OF inv, of "au_LeaseID input" "au_Term input" "au_Holder input" ?now l s'] r
      require_after_sweep [OF inv, of "au_LeaseID input" "au_Term input" "au_Holder input" ?now l "expireLocked ?now s"]
    by auto
  show ?thesis
    by (cases r; cases "NormalizePathSet (au_Paths input)")
      (auto simp: AuthorizeMutation_def Let_def r act check_leased_None)
qed

text \<open>The identity a lease is held under has no surrounding white space.\<close>

definition trimmed_identity :: "FileLease \<Rightarrow> bool" where
  "trimmed_identity l \<longleftrightarrow> list_all trimmed
     [fl_WorkspaceID l, fl_TaskID l, fl_SessionID l, fl_RunID l, fl_AgentID l, pr_Type (fl_Principal l),
      pr_ID (fl_Principal l), fl_CapabilitySnapshotID l, fl_ContextDigest l]"

lemma verify_own_holder:
  "verifyFileLeaseHolder l (HolderForLease l) = None \<longleftrightarrow> trimmed_identity l"
  by (auto simp: verifyFileLeaseHolder_def HolderForLease_def trimmed_identity_def trimmed_def)

lemma TrimSpace_trimmed: "TrimSpace x = y \<Longrightarrow> trimmed y"
  by auto

lemma verify_trims: "verifyFileLeaseHolder l h = None \<Longrightarrow> trimmed_identity l"
  by (auto simp: verifyFileLeaseHolder_def trimmed_identity_def intro: TrimSpace_trimmed)

lemma new_lease_holder_valid:
  assumes "Context_Validate a = None"
  shows "validateFileLeaseHolder (HolderForLease (new_lease a t (json_digest j) ps now ttl)) = None"
  using Context_Validate_ids [OF assms]
  by (simp add: validateFileLeaseHolder_def HolderForLease_def new_lease_def)

lemma acquired_lease:
  fixes wall :: instant
  assumes inv: "lease_inv n s" and bound: "int n + 2 < 2 ^ 63" and ok: "Acquire wall input s = (Inr l, s')"
  shows "lease_inv (Suc n) s'" and "map_of (fs_leases s') (fl_ID l) = Some l"
    and "\<exists>a ps. acquire_request input = Inr (a, json_digest (json_context a), ps) \<and> Context_Validate a = None \<and>
      l = new_lease a (fs_nextTerm s) (json_digest (json_context a)) ps (normalizeLeaseTime wall (ac_Now input)) (ac_TTL input)"
proof -
  show "lease_inv (Suc n) s'" using Acquire_keeps [OF inv bound, of wall input] ok by simp
  obtain a d ps where req: "acquire_request input = Inr (a, d, ps)"
    using ok by (cases "acquire_request input") (auto simp: Acquire_def)
  note a = acquire_request_Inr [OF req]
  have l: "l = new_lease a (fs_nextTerm s) d ps (normalizeLeaseTime wall (ac_Now input)) (ac_TTL input)"
    and s': "s' = install_lease l ((expireLocked (normalizeLeaseTime wall (ac_Now input)) s)\<lparr>fs_nextTerm := wrap64 (fs_nextTerm s + 1)\<rparr>)"
    using Acquire_cases [OF inv req, of wall] ok by force+
  show "map_of (fs_leases s') (fl_ID l) = Some l" by (simp add: s' install_lease_def)
  show "\<exists>a ps. acquire_request input = Inr (a, json_digest (json_context a), ps) \<and> Context_Validate a = None \<and>
      l = new_lease a (fs_nextTerm s) (json_digest (json_context a)) ps (normalizeLeaseTime wall (ac_Now input)) (ac_TTL input)"
    using req l a(3,4) by blast
qed

lemma acquired_may_act:
  assumes inv: "lease_inv n s" "int n + 2 < 2 ^ 63" and ok: "Acquire wall input s = (Inr l, s')"
    and tr: "trimmed_identity l"
    and time: "in_years (normalizeLeaseTime wall (ac_Now input) + ac_TTL input)"
      "now' < normalizeLeaseTime wall (ac_Now input) + ac_TTL input"
  shows "may_act now' (fl_ID l) (fl_Term l) (HolderForLease l) l s'"
proof -
  obtain a ps where a: "Context_Validate a = None"
    and l: "l = new_lease a (fs_nextTerm s) (json_digest (json_context a)) ps
              (normalizeLeaseTime wall (ac_Now input)) (ac_TTL input)"
    using acquired_lease(3) [OF inv ok] by blast
  have "TrimSpace (fl_ID l) = fl_ID l" by (simp add: l new_lease_def TrimSpace_buildFileLeaseID)
  moreover have "fl_ID l \<noteq> []" by (simp add: l new_lease_def)
  moreover have "live_at now' l"
    using time by (simp add: l live_at_def lease_active_def new_lease_def expiry_exact [OF time(1)])
  moreover have "0 < fl_Term l" using lease_invD(4) [OF inv(1)] by (simp add: l new_lease_def)
  ultimately show ?thesis
    using acquired_lease(2) [OF inv ok] new_lease_holder_valid [OF a] tr
    by (simp add: may_act_def verify_own_holder) (simp add: l)
qed

subsection \<open>A concrete store\<close>

text \<open>An acquisition on the concrete context and the store it leaves, for the witnesses.\<close>

definition demo_acquire :: AcquireFileLeaseInput where
  "demo_acquire = \<lparr>ac_Context = demo_context, ac_TTL = 5, ac_Now = 1\<rparr>"

definition demo_lease :: FileLease where
  "demo_lease = new_lease demo_context 1 (json_digest (json_context demo_context)) [''a.go'', ''b.go''] 1 5"

definition demo_store :: FileLeaseStore where
  "demo_store = install_lease demo_lease (NewFileLeaseStore\<lparr>fs_nextTerm := 2\<rparr>)"

lemma demo_request:
  "acquire_request demo_acquire =
     Inr (demo_context, json_digest (json_context demo_context), [''a.go'', ''b.go''])"
proof -
  have "NormalizePathSet (ctx_Pathset demo_context) = Inr [''a.go'', ''b.go'']" by code_simp
  moreover have "TrimSpace (lr_ID (ctx_Lease demo_context)) = [] \<and> TrimSpace (pqr_ItemID (ctx_PatchQueue demo_context)) = []
      \<and> TrimSpace (op_ID (ctx_Operation demo_context)) = []" by code_simp
  moreover have "Context_Digest demo_context = Inr (json_digest (json_context demo_context))"
    by (simp add: Context_Digest_Inr demo_context_valid)
  ultimately show ?thesis
    by (simp add: acquire_request_def demo_acquire_def demo_context_valid Let_def fail_if_def)
qed

lemma demo_acquire_simps [simp]: "ac_Now demo_acquire = 1" "ac_TTL demo_acquire = 5" "ac_Context demo_acquire = demo_context"
  by (simp_all add: demo_acquire_def)

lemma demo_acquired: "Acquire 1 demo_acquire NewFileLeaseStore = (Inr demo_lease, demo_store)"
  by (simp add: Acquire_def demo_request Let_def normalizeLeaseTime_def NewFileLeaseStore_def
      expireLocked_def path_holder_def demo_lease_def demo_store_def wrap64_def)

lemma demo_run: "run_of (\<lambda>s. s = NewFileLeaseStore) lease_step [OpAcquire 1 demo_acquire] demo_store"
proof -
  have "lease_step (OpAcquire 1 demo_acquire) NewFileLeaseStore demo_store"
    using lease_step.acquire [of 1 demo_acquire NewFileLeaseStore] by (simp add: demo_acquired)
  then show ?thesis by (blast intro: run_of.intros)
qed

lemma demo_inv: "lease_inv 1 demo_store"
  using start_inv [OF demo_run] by simp

lemma demo_lookup: "map_of (fs_leases demo_store) (fl_ID demo_lease) = Some demo_lease"
  by (simp add: demo_store_def install_lease_def)

lemma demo_lease_simps [simp]:
  "fl_Status demo_lease = FileLeaseStatusActive" "fl_Pathset demo_lease = [''a.go'', ''b.go'']" "fl_Term demo_lease = 1"
  by (simp_all add: demo_lease_def new_lease_def)

lemma demo_trimmed: "trimmed_identity demo_lease"
  by (simp add: trimmed_identity_def demo_lease_def new_lease_def demo_context_def trimmed_def TrimSpace_graphic graphic_def)

lemma demo_years: "in_years 6"
  by code_simp

subsection \<open>Properties\<close>

text \<open>C6. Mutual exclusion. In every store reached from a new one, by any sequence of calls with
  any map iteration order, at most one active lease covers a given path.\<close>

theorem lease_exclusive:
  assumes "run_of (\<lambda>s. s = NewFileLeaseStore) lease_step ops s" and "length ops \<le> 2 ^ 63 - 2"
    and "map_of (fs_leases s) k = Some l" and "map_of (fs_leases s) k' = Some l'"
    and "fl_Status l = FileLeaseStatusActive" and "fl_Status l' = FileLeaseStatusActive"
    and "p \<in> set (fl_Pathset l)" and "p \<in> set (fl_Pathset l')"
  shows "k = k' \<and> l = l'"
proof -
  have "fs_pathHolders s p = Some k" "fs_pathHolders s p = Some k'"
    using lease_invD(3) [OF start_inv [OF assms(1,2)]] assms(3-)
    unfolding holders_ok_def lease_active_def by blast+
  with assms(3,4) show ?thesis by simp
qed

theorem lease_exclusive_witness:
  "fl_ID demo_lease = fl_ID demo_lease \<and> demo_lease = demo_lease \<and>
   map_of (fs_leases demo_store) (fl_ID demo_lease) = Some demo_lease"
  using lease_exclusive [OF demo_run _ demo_lookup demo_lookup, of "''a.go''"] demo_lookup by simp

text \<open>C34. Fencing terms. In every reachable store the terms of the leases are positive, below the
  next term, and no two leases share one, so a term names one acquisition.\<close>

theorem lease_terms_unique:
  assumes "run_of (\<lambda>s. s = NewFileLeaseStore) lease_step ops s" and "length ops \<le> 2 ^ 63 - 2"
    and "map_of (fs_leases s) k = Some l"
  shows "fl_ID l = k \<and> 0 < fl_Term l \<and> fl_Term l < fs_nextTerm s \<and>
    (map_of (fs_leases s) k' = Some l' \<longrightarrow> fl_Term l' = fl_Term l \<longrightarrow> k' = k)"
  using lease_invD(2,5) [OF start_inv [OF assms(1,2)]] assms(3) unfolding lease_ok_def terms_ok_def by fastforce

theorem lease_terms_unique_witness: "0 < fl_Term demo_lease \<and> fl_Term demo_lease < fs_nextTerm demo_store"
  using lease_terms_unique [OF demo_run _ demo_lookup] by simp

text \<open>C35. Permanence. Whatever calls follow, a lease stays in the store under its identifier with
  all its identity fields; only its status and its two clock fields may change, and once it is
  expired, released or revoked it never changes again.\<close>

theorem lease_permanence:
  assumes "run_of (\<lambda>s. s = NewFileLeaseStore) lease_step ops s" and "run_of (\<lambda>t. t = s) lease_step later s'"
    and "length ops + length later \<le> 2 ^ 63 - 2" and "map_of (fs_leases s) k = Some l"
  shows "\<exists>l'. map_of (fs_leases s') k = Some l' \<and>
    l' = l\<lparr>fl_Status := fl_Status l', fl_UpdatedAt := fl_UpdatedAt l', fl_ExpiresAt := fl_ExpiresAt l'\<rparr> \<and>
    (fl_Status l \<noteq> FileLeaseStatusActive \<longrightarrow> l' = l)"
proof -
  have "length ops \<le> 2 ^ 63 - 2" using assms(3) by linarith
  from later_run [OF assms(2) start_inv [OF assms(1) this] assms(3)] assms(4) show ?thesis
    unfolding store_succ_def lease_succ_def lease_active_def by blast
qed

theorem lease_permanence_witness:
  "\<exists>l'. map_of (fs_leases demo_store) (fl_ID demo_lease) = Some l' \<and> fl_Pathset l' = [''a.go'', ''b.go'']"
  using lease_permanence [OF demo_run _ _ demo_lookup, of "[]" demo_store] demo_lookup by (simp add: run_of.intros)

text \<open>C8. Refinement of the lock manager. On an acceptable request, \<open>Acquire\<close> does on the table of
  live locks what the abstract manager does: it succeeds exactly when every path is free, then
  the new lease holds exactly the requested paths in addition; otherwise it fails and the table is
  unchanged.\<close>

theorem acquire_refines:
  assumes "lease_inv n s" and "int n + 2 < 2 ^ 63" and "acquire_request input = Inr (a, d, ps)"
    and "in_years (normalizeLeaseTime wall (ac_Now input) + ac_TTL input)"
  shows "case spec_acquire ps (buildFileLeaseID a (fs_nextTerm s) d)
             (lock_table (normalizeLeaseTime wall (ac_Now input)) s) of
           None \<Rightarrow> \<not> is_ok (fst (Acquire wall input s)) \<and>
             lock_table (normalizeLeaseTime wall (ac_Now input)) (snd (Acquire wall input s)) =
             lock_table (normalizeLeaseTime wall (ac_Now input)) s
         | Some T \<Rightarrow> is_ok (fst (Acquire wall input s)) \<and>
             lock_table (normalizeLeaseTime wall (ac_Now input)) (snd (Acquire wall input s)) = T"
proof -
  let ?now = "normalizeLeaseTime wall (ac_Now input)"
  let ?l = "new_lease a (fs_nextTerm s) d ps ?now (ac_TTL input)"
  have fid: "fl_ID ?l = buildFileLeaseID a (fs_nextTerm s) d" by (simp add: new_lease_def)
  note req = acquire_request_Inr [OF assms(3)]
  show ?thesis
  proof (cases rule: Acquire_cases [OF assms(1,3), of wall, case_names held free])
    case (held e)
    with lock_table_expired [OF assms(1)] show ?thesis by (simp add: fid is_ok_def)
  next
    case free
    then have unheld: "\<forall>p \<in> set ps. fs_pathHolders (expireLocked ?now s) p = None" by (simp add: lock_table_def)
    show ?thesis
      using free lock_table_install [OF lease_inv_expire [OF assms(1)] assms(2) unheld req(6,7) assms(4) req(2),
          where a = a and d = d]
      by (simp add: spec_acquire_def is_ok_def fid lock_table_expired [OF assms(1)] new_lease_def cong: if_cong)
  qed
qed

theorem acquire_refines_witness:
  "lock_table 1 (snd (Acquire 1 demo_acquire NewFileLeaseStore)) =
     (\<lambda>p. if p \<in> set [''a.go'', ''b.go''] then Some (fl_ID demo_lease) else None) \<and>
   is_ok (fst (Acquire 1 demo_acquire NewFileLeaseStore))"
proof -
  have empty: "lock_table 1 NewFileLeaseStore = (\<lambda>_. None)"
    by (simp add: lock_table_def expireLocked_def NewFileLeaseStore_def)
  have "fs_nextTerm NewFileLeaseStore = 1" by (simp add: NewFileLeaseStore_def)
  then show ?thesis
    using acquire_refines [OF lease_inv_New _ demo_request, of 1] demo_years
    by (simp add: normalizeLeaseTime_def empty spec_acquire_def demo_lease_def new_lease_def cong: if_cong)
qed

text \<open>\<open>Release\<close> implements the abstract release: when it succeeds, exactly the paths held by
  that lease become free, and the lease is recorded as released; when it fails, the table of live
  locks is unchanged.\<close>

theorem release_refines:
  assumes "lease_inv n s"
  shows "let now = normalizeLeaseTime wall (rl_Now input) in
    case Release wall input s of
      (Inl e, s') \<Rightarrow> lock_table now s' = lock_table now s
    | (Inr l, s') \<Rightarrow> lock_table now s' = spec_release (fl_ID l) (lock_table now s) \<and>
        map_of (fs_leases s') (fl_ID l) = Some l \<and> fl_Status l = FileLeaseStatusReleased"
proof -
  let ?now = "normalizeLeaseTime wall (rl_Now input)"
  obtain r s' where r: "requireLiveLeaseLocked (rl_LeaseID input) (rl_Term input) (rl_Holder input) ?now
      (expireLocked ?now s) = (r, s')" by (metis surj_pair)
  show ?thesis
  proof (cases r)
    case (Inl e)
    have "lock_table ?now s' = lock_table ?now s"
      using require_keeps_swept [OF assms, of "rl_LeaseID input" "rl_Term input" "rl_Holder input" ?now] r
        lock_table_expired [OF assms] by simp
    with Inl r show ?thesis by (simp add: Release_def Let_def)
  next
    case (Inr l)
    note live = live_after_expire [OF assms r [unfolded Inr]]
    have "lock_table ?now (end_lease (fl_ID l) l FileLeaseStatusReleased ?now s') = spec_release (fl_ID l) (lock_table ?now s)"
      using lock_table_end [OF lease_inv_expire [OF assms] live(2) [unfolded live(1)], where now = ?now]
      by (simp add: live(1) lock_table_expired [OF assms])
    with Inr r show ?thesis by (simp add: Release_def Let_def)
  qed
qed

theorem release_refines_witness:
  "case Release 1 \<lparr>rl_LeaseID = fl_ID demo_lease, rl_Term = 1, rl_Holder = HolderForLease demo_lease, rl_Now = 2\<rparr> demo_store of
     (Inl e, s') \<Rightarrow> lock_table 2 s' = lock_table 2 demo_store
   | (Inr l, s') \<Rightarrow> lock_table 2 s' = spec_release (fl_ID l) (lock_table 2 demo_store)"
  using release_refines [OF demo_inv, of 1 "\<lparr>rl_LeaseID = fl_ID demo_lease, rl_Term = 1,
      rl_Holder = HolderForLease demo_lease, rl_Now = 2\<rparr>"]
  by (auto simp: normalizeLeaseTime_def Let_def split: sum.splits prod.splits)

text \<open>C7. \<open>AuthorizeMutation\<close> accepts exactly when the normalised paths are non-empty and all
  covered by a lease that the call names by identifier and term, that is active and unexpired at
  that instant, and whose holder identity matches in every field.\<close>

theorem AuthorizeMutation_exact:
  assumes "lease_inv n s"
  shows "fst (AuthorizeMutation wall input s) = None \<longleftrightarrow>
    (\<exists>paths l. NormalizePathSet (au_Paths input) = Inr paths \<and> paths \<noteq> [] \<and> set paths \<subseteq> set (fl_Pathset l) \<and>
       TrimSpace (au_LeaseID input) \<noteq> [] \<and> map_of (fs_leases s) (TrimSpace (au_LeaseID input)) = Some l \<and>
       fl_Status l = FileLeaseStatusActive \<and> 0 < au_Term input \<and> fl_Term l = au_Term input \<and>
       \<not> leaseExpiredAt l (normalizeLeaseTime wall (au_Now input)) \<and>
       validateFileLeaseHolder (au_Holder input) = None \<and> verifyFileLeaseHolder l (au_Holder input) = None)"
  unfolding authorize_iff [OF assms] may_act_def live_at_def lease_active_def by blast

theorem AuthorizeMutation_exact_witness:
  "fst (AuthorizeMutation 1 \<lparr>au_LeaseID = fl_ID demo_lease, au_Term = 2, au_Holder = HolderForLease demo_lease,
      au_Paths = [''a.go''], au_Now = 2\<rparr> demo_store) \<noteq> None"
  using AuthorizeMutation_exact [OF demo_inv, of 1 "\<lparr>au_LeaseID = fl_ID demo_lease, au_Term = 2,
      au_Holder = HolderForLease demo_lease, au_Paths = [''a.go''], au_Now = 2\<rparr>"]
    acquired_may_act [OF lease_inv_New _ demo_acquired demo_trimmed, of 2] demo_years demo_lookup
  by (auto simp: may_act_def normalizeLeaseTime_def)

text \<open>A lease is usable until it expires: after a successful \<open>Acquire\<close>, its holder is
  authorised at every instant before the expiry, for every non-empty set of paths of the lease,
  provided the identity of the context carries no surrounding white space.\<close>

theorem acquire_then_authorize:
  assumes "lease_inv n s" and "int n + 2 < 2 ^ 63" and "Acquire wall input s = (Inr l, s')"
    and "trimmed_identity l" and "in_years (normalizeLeaseTime wall (ac_Now input) + ac_TTL input)"
    and "normalizeLeaseTime wall' t < normalizeLeaseTime wall (ac_Now input) + ac_TTL input"
    and "NormalizePathSet paths = Inr ps" and "ps \<noteq> []" and "set ps \<subseteq> set (fl_Pathset l)"
  shows "fst (AuthorizeMutation wall' \<lparr>au_LeaseID = fl_ID l, au_Term = fl_Term l, au_Holder = HolderForLease l,
      au_Paths = paths, au_Now = t\<rparr> s') = None"
  using acquired_may_act [OF assms(1-6)] assms(7-)
  unfolding authorize_iff [OF acquired_lease(1) [OF assms(1-3)]] by auto

theorem acquire_then_authorize_witness:
  "fst (AuthorizeMutation 1 \<lparr>au_LeaseID = fl_ID demo_lease, au_Term = fl_Term demo_lease,
      au_Holder = HolderForLease demo_lease, au_Paths = [''b.go''], au_Now = 3\<rparr> demo_store) = None"
proof -
  have "NormalizePathSet [''b.go''] = Inr [''b.go'']" by code_simp
  then show ?thesis
    using acquire_then_authorize [OF lease_inv_New _ demo_acquired demo_trimmed, of 1 3 "[''b.go'']" "[''b.go'']"] demo_years
    by (simp add: normalizeLeaseTime_def)
qed

text \<open>The texts of a context that identify the holder of a lease.\<close>

definition context_identity :: "Context \<Rightarrow> string list" where
  "context_identity a = [ctx_WorkspaceID a, ctx_TaskID a, ctx_SessionID a, ctx_RunID a, ctx_AgentID a, pr_Type (ctx_Principal a),
     pr_ID (ctx_Principal a), cs_ID (ctx_CapabilitySnapshot a)]"

lemma acquired_identity:
  assumes "lease_inv n s" and "int n + 2 < 2 ^ 63" and "Acquire wall input s = (Inr l, s')"
  shows "trimmed_identity l \<longleftrightarrow> list_all trimmed (context_identity (ac_Context input))"
proof -
  obtain ps where "l = new_lease (WithDefaults (ac_Context input)) (fs_nextTerm s) (json_digest (json_context (WithDefaults (ac_Context input)))) ps
      (normalizeLeaseTime wall (ac_Now input)) (ac_TTL input)"
    using acquired_lease(3) [OF assms] acquire_request_Inr(1) by blast
  then show ?thesis by (simp add: trimmed_identity_def context_identity_def new_lease_def trimmed_def)
qed

lemma untrimmed_refused:
  assumes inv: "lease_inv n s" and at: "map_of (fs_leases s) k = Some l" and un: "\<not> trimmed_identity l"
  shows "(TrimSpace (au_LeaseID ui) = k \<longrightarrow> fst (AuthorizeMutation wall ui s) \<noteq> None) \<and>
    (TrimSpace (rn_LeaseID ni) = k \<longrightarrow> \<not> is_ok (fst (Renew wall ni s))) \<and>
    (TrimSpace (rl_LeaseID li) = k \<longrightarrow> \<not> is_ok (fst (Release wall li s)))"
proof -
  have no: "\<not> may_act now lid t h m s" if "TrimSpace lid = k" for now lid t h m
    using that at un verify_trims by (auto simp: may_act_def)
  show ?thesis
    using no require_after_sweep [OF inv] authorize_iff [OF inv]
    by (auto simp: is_ok_def Renew_def Release_def Let_def split: prod.splits sum.splits)
qed

text \<open>C40. A lease that \<open>Acquire\<close> grants to an identity with surrounding white space in one of its texts
  (workspace, task, session, run, agent, type and name of the principal, capability snapshot) can never be used: in
  every state that any later calls on the store lead to, no call on that lease is authorised, and it can be
  neither renewed nor released.\<close>

theorem untrimmed_lease_unusable:
  assumes "run_of (\<lambda>s. s = NewFileLeaseStore) lease_step ops s" and "Acquire wall input s = (Inr l, s')"
    and "run_of (\<lambda>t. t = s') lease_step later s''" and "length ops + length later \<le> 2 ^ 63 - 4"
    and "\<not> list_all trimmed (context_identity (ac_Context input))"
  shows "(TrimSpace (au_LeaseID ui) = fl_ID l \<longrightarrow> fst (AuthorizeMutation wall' ui s'') \<noteq> None) \<and>
    (TrimSpace (rn_LeaseID ni) = fl_ID l \<longrightarrow> \<not> is_ok (fst (Renew wall' ni s''))) \<and>
    (TrimSpace (rl_LeaseID li) = fl_ID l \<longrightarrow> \<not> is_ok (fst (Release wall' li s'')))"
proof -
  have "length ops \<le> 2 ^ 63 - 2" and b: "int (length ops) + 2 < 2 ^ 63" using assms(4) by simp_all
  note inv = start_inv [OF assms(1) this(1)]
  note got = acquired_lease(1,2) [OF inv b assms(2)]
  have "Suc (length ops) + length later \<le> 2 ^ 63 - 2" using assms(4) by simp
  note after = later_run [OF assms(3) got(1) this]
  obtain l' where l': "map_of (fs_leases s'') (fl_ID l) = Some l'"
      "l' = l\<lparr>fl_Status := fl_Status l', fl_UpdatedAt := fl_UpdatedAt l', fl_ExpiresAt := fl_ExpiresAt l'\<rparr>"
    using conjunct2 [OF after] got(2) unfolding store_succ_def lease_succ_def by blast
  have "\<not> trimmed_identity l" using acquired_identity [OF inv b assms(2)] assms(5) by simp
  moreover have "trimmed_identity l' \<longleftrightarrow> trimmed_identity l" by (subst l'(2)) (simp add: trimmed_identity_def)
  ultimately show ?thesis using untrimmed_refused [OF conjunct1 [OF after] l'(1)] by blast
qed

theorem untrimmed_lease_unusable_witness:
  "fst (AuthorizeMutation 1
     \<lparr>au_LeaseID = fl_ID (new_lease (demo_context\<lparr>ctx_WorkspaceID := '' ws''\<rparr>) 1
          (json_digest (json_context (demo_context\<lparr>ctx_WorkspaceID := '' ws''\<rparr>))) [''a.go'', ''b.go''] 1 5),
      au_Term = 1, au_Holder = HolderForLease demo_lease, au_Paths = [''a.go''], au_Now = 2\<rparr>
     (snd (Acquire 1 (demo_acquire\<lparr>ac_Context := demo_context\<lparr>ctx_WorkspaceID := '' ws''\<rparr>\<rparr>) NewFileLeaseStore))) \<noteq> None"
proof -
  let ?c = "demo_context\<lparr>ctx_WorkspaceID := '' ws''\<rparr>"
  let ?i = "demo_acquire\<lparr>ac_Context := ?c\<rparr>"
  let ?l = "new_lease ?c 1 (json_digest (json_context ?c)) [''a.go'', ''b.go''] 1 5"
  have valid: "Context_Validate ?c = None" "WithDefaults ?c = ?c" "NormalizePathSet (ctx_Pathset ?c) = Inr [''a.go'', ''b.go'']"
    "TrimSpace (lr_ID (ctx_Lease ?c)) = []" "TrimSpace (pqr_ItemID (ctx_PatchQueue ?c)) = []"
    "TrimSpace (op_ID (ctx_Operation ?c)) = []" "\<not> trimmed (ctx_WorkspaceID ?c)"
    by code_simp+
  then have req: "acquire_request ?i = Inr (?c, json_digest (json_context ?c), [''a.go'', ''b.go''])"
    by (simp add: acquire_request_def Let_def fail_if_def Context_Digest_def)
  have acq: "Acquire 1 ?i NewFileLeaseStore = (Inr ?l, snd (Acquire 1 ?i NewFileLeaseStore))"
    by (simp add: Acquire_def req Let_def normalizeLeaseTime_def NewFileLeaseStore_def expireLocked_def path_holder_def)
  have "TrimSpace (fl_ID ?l) = fl_ID ?l" by (simp add: new_lease_def TrimSpace_buildFileLeaseID)
  moreover have "\<not> list_all trimmed (context_identity (ac_Context ?i))" using valid(7) by (simp add: context_identity_def)
  moreover have "run_of (\<lambda>t. t = u) lease_step [] u" for u by (simp add: run_of.intros)
  moreover have "length ([] :: lease_op list) + length ([] :: lease_op list) \<le> 2 ^ 63 - 4" by simp
  ultimately show ?thesis
    using untrimmed_lease_unusable [OF _ acq, of "[]" "[]" "snd (Acquire 1 ?i NewFileLeaseStore)" "\<lparr>au_LeaseID = fl_ID ?l, au_Term = 1,
        au_Holder = HolderForLease demo_lease, au_Paths = [''a.go''], au_Now = 2\<rparr>" 1 undefined undefined] by simp
qed

lemma Revoke_map:
  assumes inv: "lease_inv n s" and r: "RevokeLeasesForHolder wall input s = (Inr r, s')"
  defines "now \<equiv> normalizeLeaseTime wall (rv_Now input)"
  shows "map_of (fs_leases s') k = map_option (\<lambda>l.
      if lease_active l \<and> verifyFileLeaseHolder l (rv_Holder input) = None
      then l\<lparr>fl_Status := FileLeaseStatusRevoked, fl_UpdatedAt := formatLeaseTime now\<rparr> else l)
    (map_of (fs_leases (expireLocked now s)) k)"
proof -
  let ?s = "expireLocked now s"
  have d: "distinct (map fst (fs_leases ?s))" by (rule lease_invD(1) [OF lease_inv_expire [OF inv]])
  have F: "revoke_store (rv_Holder input) now (k, l) s = (if lease_active l \<and> verifyFileLeaseHolder l (rv_Holder input) = None
      then end_lease k l FileLeaseStatusRevoked now s else s)" for k l s
    by (simp add: revoke_store_def)
  have "s' = fold (revoke_store (rv_Holder input) now) (fs_leases ?s) ?s"
    using r unfolding fold_revoke_store [of _ _ _ "\<lparr>rr_Revoked = 0, rr_Leases = []\<rparr>", symmetric]
    by (auto simp: RevokeLeasesForHolder_def Let_def now_def split: option.splits prod.splits)
  then show ?thesis
    by (auto simp: sweep_map [where F = "revoke_store (rv_Holder input) now", OF F d entries_found [OF d]]
        split: option.splits)
qed

text \<open>C36. Revocation is complete and precise: a lease that is live when \<open>RevokeLeasesForHolder\<close> runs
  is revoked if it matches the holder in every field, and untouched otherwise.\<close>

theorem revoke_complete:
  assumes "lease_inv n s" and "RevokeLeasesForHolder wall input s = (Inr r, s')"
    and "map_of (fs_leases s) k = Some l" and "live_at (normalizeLeaseTime wall (rv_Now input)) l"
  shows "map_of (fs_leases s') k = Some (if verifyFileLeaseHolder l (rv_Holder input) = None
      then l\<lparr>fl_Status := FileLeaseStatusRevoked,
             fl_UpdatedAt := formatLeaseTime (normalizeLeaseTime wall (rv_Now input))\<rparr> else l)"
  using assms(3,4) Revoke_map [OF assms(1,2)] expireLocked_map [OF assms(1)]
  by (simp add: live_at_def expire_lease_def)

theorem revoke_complete_witness:
  "\<exists>l. map_of (fs_leases (snd (RevokeLeasesForHolder 1 \<lparr>rv_Holder = HolderForLease demo_lease, rv_Now = 2, rv_Reason = []\<rparr> demo_store)))
       (fl_ID demo_lease) = Some l \<and> fl_Status l = FileLeaseStatusRevoked"
proof -
  let ?i = "\<lparr>rv_Holder = HolderForLease demo_lease, rv_Now = 2, rv_Reason = []\<rparr>"
  have act: "may_act 2 (fl_ID demo_lease) (fl_Term demo_lease) (HolderForLease demo_lease) demo_lease demo_store"
    using acquired_may_act [OF lease_inv_New _ demo_acquired demo_trimmed, of 2] demo_years
    by (simp add: normalizeLeaseTime_def)
  have "\<exists>r s'. RevokeLeasesForHolder 1 ?i demo_store = (Inr r, s')"
    using act by (simp add: RevokeLeasesForHolder_def may_act_def Let_def split: prod.split)
  then obtain r s' where r: "RevokeLeasesForHolder 1 ?i demo_store = (Inr r, s')" by blast
  have "live_at (normalizeLeaseTime 1 (rv_Now ?i)) demo_lease"
    using act by (simp add: may_act_def normalizeLeaseTime_def)
  from revoke_complete [OF demo_inv r demo_lookup this] act r show ?thesis by (simp add: may_act_def)
qed

text \<open>C39. Expiry is exact: a lease whose expiry was written by \<open>formatLeaseTime\<close>, for an instant up to
  the year 9999, is expired from that instant on and not a nanosecond earlier; a lease whose expiry
  cannot be parsed counts as expired.\<close>

theorem leaseExpiredAt_exact:
  assumes "in_years e"
  shows "(leaseExpiredAt (l\<lparr>fl_ExpiresAt := formatLeaseTime e\<rparr>) now \<longleftrightarrow> e \<le> now) \<and>
    (time_Parse raw = None \<longrightarrow> leaseExpiredAt (l\<lparr>fl_ExpiresAt := raw\<rparr>) now)"
  using expiry_exact [OF assms, of "l\<lparr>fl_ExpiresAt := formatLeaseTime e\<rparr>"] by (simp add: leaseExpiredAt_def)

theorem leaseExpiredAt_exact_witness:
  "\<not> leaseExpiredAt (demo_lease\<lparr>fl_ExpiresAt := formatLeaseTime 6\<rparr>) 5 \<and>
   leaseExpiredAt (demo_lease\<lparr>fl_ExpiresAt := formatLeaseTime 6\<rparr>) 6 \<and>
   leaseExpiredAt (demo_lease\<lparr>fl_ExpiresAt := ''soon''\<rparr>) 0"
proof -
  have "time_Parse ''soon'' = None" by code_simp
  with leaseExpiredAt_exact [OF demo_years, of demo_lease 5] leaseExpiredAt_exact [OF demo_years, of demo_lease 6]
    leaseExpiredAt_exact [OF demo_years, of demo_lease 0 "''soon''"] show ?thesis by simp
qed

end
