(* ===== verification/Operation_Binding.thy ===== *)
theory Operation_Binding
  imports Lease_Properties
begin

section \<open>Binding a mutation operation to a live lease\<close>

text \<open>
  \<open>internal/repoauthority/operation_binding.go\<close>: before a repository mutation runs, its context
  is bound to the lease it names. The binding checks that the references of the context are
  concrete, that the lease exists and was acquired under the same identity, pathset and context
  digest, and that the lease store authorises the mutation at that instant. The lease store is a
  pointer, so it is an option here; the store is returned because authorisation sweeps expired
  leases.
\<close>

definition MutationOperationBindingSchemaVersion :: string where
  "MutationOperationBindingSchemaVersion = ''repo_mutation_operation_binding.v1''"

definition allowedMutationOperationKinds :: "string list" where
  "allowedMutationOperationKinds = [''repo_patch_apply'']"

record MutationOperationBindingInput =
  bi_Context :: Context
  bi_MutationPaths :: "string list"
  bi_Now :: instant

record MutationOperationBinding =
  mb_Schema :: string
  mb_Accepted :: bool
  mb_RepoLeaseID :: string
  mb_LeaseTerm :: int
  mb_PatchQueueID :: string
  mb_PatchQueueItemID :: string
  mb_OperationID :: string
  mb_OperationKind :: string
  mb_WorkspaceID :: string
  mb_TaskID :: string
  mb_SessionID :: string
  mb_RunID :: string
  mb_AgentID :: string
  mb_PrincipalType :: string
  mb_PrincipalID :: string
  mb_CapabilitySnapshotID :: string
  mb_CapabilitySnapshotSchema :: string
  mb_BaseRef :: string
  mb_BaseTreeHash :: string
  mb_ContextDigest :: string
  mb_LeaseContextDigest :: string
  mb_MutationPaths :: "string list"

definition vagueLabels :: "string list" where
  "vagueLabels = ['''', ''repo'', ''authority'', ''repoauthority'', ''lease'', ''repolease'', ''patch'', ''queue'',
     ''patchqueue'', ''operation'', ''mutation'', ''write'', ''file'', ''default'', ''generic'', ''unknown'', ''todo'',
     ''placeholder'', ''temp'', ''temporary'', ''none'', ''na'', ''all'']"

definition isVagueRepoAuthorityLabel :: "string \<Rightarrow> bool" where
  "isVagueRepoAuthorityLabel v \<longleftrightarrow>
     filter (\<lambda>c. c \<notin> set (CHR 0x5C # '' _-.:/'')) (ToLower (TrimSpace v)) \<in> set vagueLabels"

definition rejectVagueBindingLabel :: "string \<Rightarrow> string \<Rightarrow> err option" where
  "rejectVagueBindingLabel field v =
     (let trimmed = TrimSpace v
      in if trimmed = [] then Some (Errorf ''%s is required'' [AStr field])
         else if isVagueRepoAuthorityLabel trimmed
         then Some (Errorf ''%s has vague repo authority label %q'' [AStr field, AStr v])
         else None)"

definition requireConcreteMutationOperationRefs :: "Context \<Rightarrow> err option" where
  "requireConcreteMutationOperationRefs authority = guards
     [rejectVagueBindingLabel ''repo_lease_id'' (lr_ID (ctx_Lease authority)),
      fail_if (lr_Term (ctx_Lease authority) \<le> 0) (Errorf ''lease_term is required'' []),
      rejectVagueBindingLabel ''patch_queue_id'' (pqr_QueueID (ctx_PatchQueue authority)),
      rejectVagueBindingLabel ''patch_queue_item_id'' (pqr_ItemID (ctx_PatchQueue authority)),
      rejectVagueBindingLabel ''operation_id'' (op_ID (ctx_Operation authority)),
      rejectVagueBindingLabel ''operation_kind'' (op_Kind (ctx_Operation authority)),
      fail_if (TrimSpace (op_Kind (ctx_Operation authority)) \<notin> set allowedMutationOperationKinds)
        (Errorf ''operation_kind %q is not an accepted repo mutation kind'' [AStr (op_Kind (ctx_Operation authority))])]"

definition ValidateConcreteMutationOperationRefs :: "Context \<Rightarrow> err option" where
  "ValidateConcreteMutationOperationRefs authority = requireConcreteMutationOperationRefs (WithDefaults authority)"

definition findBindingLease :: "FileLeaseStore \<Rightarrow> string \<Rightarrow> FileLease result" where
  "findBindingLease store leaseID0 =
     (let leaseID = TrimSpace leaseID0
      in case find (\<lambda>lease. fl_ID lease = leaseID) (Snapshot store) of
           Some lease \<Rightarrow> Inr lease
         | None \<Rightarrow> Inl (Errorf ''repo_lease_id %q not found'' [AStr leaseID]))"

definition sameStringSlice :: "string list \<Rightarrow> string list \<Rightarrow> bool" where
  "sameStringSlice left right \<longleftrightarrow>
     (if length left \<noteq> length right then False else list_all (\<lambda>i. left ! i = right ! i) [0 ..< length left])"

definition verifyMutationBindingContext :: "Context \<Rightarrow> FileLease \<Rightarrow> err option" where
  "verifyMutationBindingContext authority lease = guards
     [fail_if (lr_Term (ctx_Lease authority) \<noteq> fl_Term lease)
        (Errorf ''lease_term mismatch: got %d want %d'' [AInt (lr_Term (ctx_Lease authority)), AInt (fl_Term lease)]),
      fail_if (TrimSpace (ctx_WorkspaceID authority) \<noteq> fl_WorkspaceID lease)
        (Errorf ''lease context workspace mismatch: got %q want %q'' [AStr (ctx_WorkspaceID authority), AStr (fl_WorkspaceID lease)]),
      fail_if (TrimSpace (ctx_TaskID authority) \<noteq> fl_TaskID lease)
        (Errorf ''lease context task mismatch: got %q want %q'' [AStr (ctx_TaskID authority), AStr (fl_TaskID lease)]),
      fail_if (TrimSpace (ctx_SessionID authority) \<noteq> fl_SessionID lease)
        (Errorf ''lease context session mismatch: got %q want %q'' [AStr (ctx_SessionID authority), AStr (fl_SessionID lease)]),
      fail_if (TrimSpace (ctx_RunID authority) \<noteq> fl_RunID lease)
        (Errorf ''lease context run mismatch: got %q want %q'' [AStr (ctx_RunID authority), AStr (fl_RunID lease)]),
      fail_if (TrimSpace (ctx_AgentID authority) \<noteq> fl_AgentID lease)
        (Errorf ''lease context agent mismatch: got %q want %q'' [AStr (ctx_AgentID authority), AStr (fl_AgentID lease)]),
      fail_if (TrimSpace (pr_Type (ctx_Principal authority)) \<noteq> pr_Type (fl_Principal lease)
          \<or> TrimSpace (pr_ID (ctx_Principal authority)) \<noteq> pr_ID (fl_Principal lease))
        (Errorf ''lease context principal mismatch'' []),
      fail_if (TrimSpace (cs_ID (ctx_CapabilitySnapshot authority)) \<noteq> fl_CapabilitySnapshotID lease)
        (Errorf ''lease context capability snapshot mismatch: got %q want %q''
          [AStr (cs_ID (ctx_CapabilitySnapshot authority)), AStr (fl_CapabilitySnapshotID lease)]),
      fail_if (TrimSpace (ctx_RepoRoot authority) \<noteq> fl_RepoRoot lease)
        (Errorf ''lease context repo root mismatch: got %q want %q'' [AStr (ctx_RepoRoot authority), AStr (fl_RepoRoot lease)]),
      (case NormalizePathSet (ctx_Pathset authority) of
         Inl e \<Rightarrow> Some (Errorf ''lease context pathset: %w'' [AErr e])
       | Inr pathset \<Rightarrow> fail_if (\<not> sameStringSlice pathset (fl_Pathset lease))
           (Errorf ''lease context pathset mismatch: got %#v want %#v'' [AList pathset, AList (fl_Pathset lease)]))]"

definition verifyLeaseAcquisitionContextDigest :: "Context \<Rightarrow> FileLease \<Rightarrow> err option" where
  "verifyLeaseAcquisitionContextDigest authority lease =
     (let preLease = authority\<lparr>ctx_Lease := no_lease, ctx_PatchQueue := no_patch_queue, ctx_Operation := no_operation\<rparr>
      in case Context_Digest preLease of
           Inl e \<Rightarrow> Some (Errorf ''lease acquisition context digest: %w'' [AErr e])
         | Inr digest \<Rightarrow> fail_if (digest \<noteq> fl_ContextDigest lease)
             (Errorf ''lease acquisition context digest mismatch: got %q want %q'' [AStr digest, AStr (fl_ContextDigest lease)]))"

text \<open>Everything \<open>BindMutationOperation\<close> checks before it asks the store for authorisation.\<close>

definition binding_request ::
  "MutationOperationBindingInput \<Rightarrow> FileLeaseStore \<Rightarrow> (Context \<times> string \<times> FileLease \<times> string list) result" where
  "binding_request input store =
     (let authority = WithDefaults (bi_Context input)
      in require (requireConcreteMutationOperationRefs authority)
        (bind_result (map_err (\<lambda>e. Errorf ''repo authority context: %w'' [AErr e]) (Context_Digest authority)) (\<lambda>contextDigest.
         bind_result (findBindingLease store (lr_ID (ctx_Lease authority))) (\<lambda>lease.
         require (verifyMutationBindingContext authority lease)
        (require (verifyLeaseAcquisitionContextDigest authority lease)
        (let mutationPaths = (if bi_MutationPaths input = [] then ctx_Pathset authority else bi_MutationPaths input)
         in bind_result (map_err (\<lambda>e. Errorf ''mutation paths: %w'' [AErr e]) (NormalizePathSet mutationPaths)) (\<lambda>normalizedPaths.
            require (fail_if (normalizedPaths = []) (Errorf ''mutation paths are required'' []))
              (Inr (authority, contextDigest, lease, normalizedPaths)))))))))"

definition new_binding :: "Context \<Rightarrow> string \<Rightarrow> FileLease \<Rightarrow> string list \<Rightarrow> MutationOperationBinding" where
  "new_binding authority contextDigest lease normalizedPaths =
     \<lparr>mb_Schema = MutationOperationBindingSchemaVersion, mb_Accepted = True,
      mb_RepoLeaseID = lr_ID (ctx_Lease authority), mb_LeaseTerm = lr_Term (ctx_Lease authority),
      mb_PatchQueueID = pqr_QueueID (ctx_PatchQueue authority), mb_PatchQueueItemID = pqr_ItemID (ctx_PatchQueue authority),
      mb_OperationID = op_ID (ctx_Operation authority), mb_OperationKind = op_Kind (ctx_Operation authority),
      mb_WorkspaceID = ctx_WorkspaceID authority, mb_TaskID = ctx_TaskID authority, mb_SessionID = ctx_SessionID authority,
      mb_RunID = ctx_RunID authority, mb_AgentID = ctx_AgentID authority,
      mb_PrincipalType = pr_Type (ctx_Principal authority), mb_PrincipalID = pr_ID (ctx_Principal authority),
      mb_CapabilitySnapshotID = cs_ID (ctx_CapabilitySnapshot authority),
      mb_CapabilitySnapshotSchema = cs_Schema (ctx_CapabilitySnapshot authority),
      mb_BaseRef = base_Ref (ctx_Base authority), mb_BaseTreeHash = base_TreeHash (ctx_Base authority),
      mb_ContextDigest = contextDigest, mb_LeaseContextDigest = fl_ContextDigest lease, mb_MutationPaths = normalizedPaths\<rparr>"

definition BindMutationOperation ::
  "instant \<Rightarrow> MutationOperationBindingInput \<Rightarrow> FileLeaseStore option \<Rightarrow> MutationOperationBinding result \<times> FileLeaseStore option" where
  "BindMutationOperation wall input =
     on_store (\<lambda>store.
       case binding_request input store of
         Inl e \<Rightarrow> (Inl e, store)
       | Inr (authority, contextDigest, lease, normalizedPaths) \<Rightarrow>
           (case AuthorizeMutation wall
                   \<lparr>au_LeaseID = lr_ID (ctx_Lease authority), au_Term = lr_Term (ctx_Lease authority),
                    au_Holder = HolderForLease lease, au_Paths = normalizedPaths, au_Now = bi_Now input\<rparr> store of
              (Some e, store') \<Rightarrow> (Inl (Errorf ''mutation operation lease authorization: %w'' [AErr e]), store')
            | (None, store') \<Rightarrow> (Inr (new_binding authority contextDigest lease normalizedPaths), store')))"

definition Binding_Evidence :: "MutationOperationBinding \<Rightarrow> (string \<times> json) list" where
  "Binding_Evidence b =
     [(''schema'', JStr (mb_Schema b)), (''accepted'', JBool (mb_Accepted b)), (''repo_lease_id'', JStr (mb_RepoLeaseID b)),
      (''lease_term'', JInt (mb_LeaseTerm b)), (''patch_queue_id'', JStr (mb_PatchQueueID b)),
      (''patch_queue_item_id'', JStr (mb_PatchQueueItemID b)), (''operation_id'', JStr (mb_OperationID b)),
      (''operation_kind'', JStr (mb_OperationKind b)), (''workspace_id'', JStr (mb_WorkspaceID b)),
      (''task_id'', JStr (mb_TaskID b)), (''session_id'', JStr (mb_SessionID b)), (''run_id'', JStr (mb_RunID b)),
      (''agent_id'', JStr (mb_AgentID b)), (''principal_type'', JStr (mb_PrincipalType b)),
      (''principal_id'', JStr (mb_PrincipalID b)), (''capability_snapshot_id'', JStr (mb_CapabilitySnapshotID b)),
      (''capability_snapshot_schema'', JStr (mb_CapabilitySnapshotSchema b)), (''base_ref'', JStr (mb_BaseRef b)),
      (''base_tree_hash'', JStr (mb_BaseTreeHash b)), (''context_digest'', JStr (mb_ContextDigest b)),
      (''lease_context_digest'', JStr (mb_LeaseContextDigest b)), (''mutation_paths'', JArr (map JStr (mb_MutationPaths b)))]"

subsection \<open>What the binding relies on\<close>

text \<open>
  The contract between the lease store and its clients: an accepted authorisation names a lease
  that is live at that instant and covers the paths, asking does not change which leases are live,
  and no path has two live leases.
\<close>

locale mutation_authority =
  fixes inv :: "'s \<Rightarrow> bool" and lookup :: "'s \<Rightarrow> string \<Rightarrow> FileLease option"
    and authorize :: "instant \<Rightarrow> AuthorizeFileMutationInput \<Rightarrow> 's \<Rightarrow> err option \<times> 's"
  assumes authorize_sound: "inv s \<Longrightarrow> fst (authorize wall i s) = None \<Longrightarrow>
      \<exists>l ps. lookup s (TrimSpace (au_LeaseID i)) = Some l \<and> live_at (normalizeLeaseTime wall (au_Now i)) l \<and>
        fl_Term l = au_Term i \<and> NormalizePathSet (au_Paths i) = Inr ps \<and> ps \<noteq> [] \<and> set ps \<subseteq> set (fl_Pathset l)"
    and authorize_inv: "inv s \<Longrightarrow> inv (snd (authorize wall i s))"
    and authorize_view: "inv s \<Longrightarrow> fst (authorize wall i s) = None \<Longrightarrow>
      lookup (snd (authorize wall i s)) k = Some l \<and> live_at (normalizeLeaseTime wall (au_Now i)) l \<longleftrightarrow>
      lookup s k = Some l \<and> live_at (normalizeLeaseTime wall (au_Now i)) l"
    and exclusive: "inv s \<Longrightarrow> lookup s k = Some l \<Longrightarrow> lookup s k' = Some l' \<Longrightarrow> live_at now l \<Longrightarrow> live_at now l' \<Longrightarrow>
      p \<in> set (fl_Pathset l) \<Longrightarrow> p \<in> set (fl_Pathset l') \<Longrightarrow> k = k'"
begin

text \<open>Two authorisations granted one after the other at one instant never share a path unless they name the same lease.\<close>

lemma authorized_exclusive:
  assumes "inv s" and "authorize wall i s = (None, s')" and "fst (authorize wall' j s') = None"
    and "normalizeLeaseTime wall' (au_Now j) = normalizeLeaseTime wall (au_Now i)"
    and "NormalizePathSet (au_Paths i) = Inr ps" and "NormalizePathSet (au_Paths j) = Inr qs" and "p \<in> set ps" and "p \<in> set qs"
  shows "TrimSpace (au_LeaseID i) = TrimSpace (au_LeaseID j) \<and> au_Term i = au_Term j"
proof -
  let ?now = "normalizeLeaseTime wall (au_Now i)"
  have s': "inv s'" using authorize_inv [OF assms(1), of wall i] assms(2) by simp
  obtain l where l: "lookup s (TrimSpace (au_LeaseID i)) = Some l" "live_at ?now l" "fl_Term l = au_Term i" "p \<in> set (fl_Pathset l)"
    using authorize_sound [OF assms(1), of wall i] assms(2,5,7) by auto
  obtain m where m: "lookup s' (TrimSpace (au_LeaseID j)) = Some m" "live_at ?now m" "fl_Term m = au_Term j" "p \<in> set (fl_Pathset m)"
    using authorize_sound [OF s' assms(3)] assms(4,6,8) by auto
  have "lookup s' (TrimSpace (au_LeaseID i)) = Some l"
    using authorize_view [OF assms(1), of wall i "TrimSpace (au_LeaseID i)" l] assms(2) l(1,2) by simp
  with exclusive [OF s' this m(1) l(2) m(2) l(4) m(4)] l(3) m show ?thesis by auto
qed

end

lemma lease_exclusive_live:
  assumes "lease_inv n s" and "map_of (fs_leases s) k = Some l" "map_of (fs_leases s) k' = Some l'"
    and "live_at now l" "live_at now l'" and "p \<in> set (fl_Pathset l)" "p \<in> set (fl_Pathset l')"
  shows "k = k'"
proof -
  have "lock_table now s p = Some k" "lock_table now s p = Some k'"
    using assms by (auto simp: lock_table_iff [OF assms(1)])
  then show ?thesis by simp
qed

lemma authorize_state:
  assumes "lease_inv n s" and "fst (AuthorizeMutation wall i s) = None"
  shows "snd (AuthorizeMutation wall i s) = expireLocked (normalizeLeaseTime wall (au_Now i)) s"
  using assms(2) require_keeps_swept [OF assms(1), of "au_LeaseID i" "au_Term i" "au_Holder i" "normalizeLeaseTime wall (au_Now i)"]
  by (auto simp: AuthorizeMutation_def Let_def split: sum.splits if_splits prod.splits)

interpretation lease_auth: mutation_authority "\<lambda>s. \<exists>n. lease_inv n s" "\<lambda>s. map_of (fs_leases s)" AuthorizeMutation
proof unfold_locales
  fix s wall i
  assume inv: "\<exists>n. lease_inv n s" and ok: "fst (AuthorizeMutation wall i s) = None"
  then obtain n where n: "lease_inv n s" by blast
  from ok show "\<exists>l ps. map_of (fs_leases s) (TrimSpace (au_LeaseID i)) = Some l \<and>
      live_at (normalizeLeaseTime wall (au_Now i)) l \<and> fl_Term l = au_Term i \<and> NormalizePathSet (au_Paths i) = Inr ps \<and>
      ps \<noteq> [] \<and> set ps \<subseteq> set (fl_Pathset l)"
    unfolding authorize_iff [OF n] may_act_def by blast
  fix k l
  show "map_of (fs_leases (snd (AuthorizeMutation wall i s))) k = Some l \<and> live_at (normalizeLeaseTime wall (au_Now i)) l \<longleftrightarrow>
      map_of (fs_leases s) k = Some l \<and> live_at (normalizeLeaseTime wall (au_Now i)) l"
    unfolding authorize_state [OF n ok] by (rule live_after_sweep [OF n])
next
  fix s wall i
  assume "\<exists>n. lease_inv n s"
  then show "\<exists>n. lease_inv n (snd (AuthorizeMutation wall i s))" using AuthorizeMutation_keeps by blast
qed (blast dest: lease_exclusive_live)

subsection \<open>The checks of the binding\<close>

lemma sameStringSlice_iff [simp]: "sameStringSlice xs ys \<longleftrightarrow> xs = ys"
  by (auto simp: sameStringSlice_def list_all_iff intro: nth_equalityI)

lemma findBindingLease_Inr:
  assumes "lease_inv n s"
  shows "findBindingLease s lid = Inr l \<longleftrightarrow> map_of (fs_leases s) (TrimSpace lid) = Some l"
proof -
  have snap: "set (Snapshot s) = snd ` set (fs_leases s)" by (simp add: Snapshot_def)
  have ids: "fl_ID m = k" if "(k, m) \<in> set (fs_leases s)" for k m
    using lease_invD(2) [OF assms] map_of_is_SomeI [OF lease_invD(1) [OF assms] that] by (simp add: lease_ok_def)
  have key: "map_of (fs_leases s) k = Some m \<longleftrightarrow> m \<in> set (Snapshot s) \<and> fl_ID m = k" for k m
    unfolding snap map_of_eq_Some_iff [OF lease_invD(1) [OF assms]] using ids by force
  show ?thesis
  proof (cases "find (\<lambda>m. fl_ID m = TrimSpace lid) (Snapshot s)")
    case None
    then have "map_of (fs_leases s) (TrimSpace lid) \<noteq> Some l" unfolding key by (auto simp: find_None_iff)
    with None show ?thesis by (simp add: findBindingLease_def Let_def)
  next
    case (Some m)
    then have "m \<in> set (Snapshot s)" "fl_ID m = TrimSpace lid" by (auto simp: find_Some_iff)
    then have "map_of (fs_leases s) (TrimSpace lid) = Some m" unfolding key by blast
    with Some show ?thesis by (simp add: findBindingLease_def Let_def)
  qed
qed

lemma binding_request_Inr:
  assumes inv: "lease_inv n s" and ok: "binding_request input s = Inr (a, d, l, ps)"
  shows "a = WithDefaults (bi_Context input)" and "requireConcreteMutationOperationRefs a = None"
    and "Context_Digest a = Inr d" and "map_of (fs_leases s) (TrimSpace (lr_ID (ctx_Lease a))) = Some l"
    and "verifyMutationBindingContext a l = None" and "verifyLeaseAcquisitionContextDigest a l = None"
    and "NormalizePathSet (if bi_MutationPaths input = [] then ctx_Pathset a else bi_MutationPaths input) = Inr ps"
    and "ps \<noteq> []"
  using ok by (auto simp: binding_request_def Let_def bind_result_Inr findBindingLease_Inr [OF inv] split: if_splits)

lemma BindMutationOperation_Inr:
  "BindMutationOperation wall input st = (Inr b, st') \<longleftrightarrow>
     (\<exists>s s' a d l ps. st = Some s \<and> st' = Some s' \<and> binding_request input s = Inr (a, d, l, ps) \<and> b = new_binding a d l ps \<and>
        AuthorizeMutation wall \<lparr>au_LeaseID = lr_ID (ctx_Lease a), au_Term = lr_Term (ctx_Lease a),
          au_Holder = HolderForLease l, au_Paths = ps, au_Now = bi_Now input\<rparr> s = (None, s'))"
  by (auto simp: BindMutationOperation_def on_store_def split: option.splits sum.splits prod.splits)

lemma new_binding_simps [simp]:
  "mb_RepoLeaseID (new_binding a d l ps) = lr_ID (ctx_Lease a)" "mb_LeaseTerm (new_binding a d l ps) = lr_Term (ctx_Lease a)"
  "mb_MutationPaths (new_binding a d l ps) = ps" "mb_LeaseContextDigest (new_binding a d l ps) = fl_ContextDigest l"
  by (simp_all add: new_binding_def)

lemma rejectVague_None: "rejectVagueBindingLabel f v = None \<longleftrightarrow> TrimSpace v \<noteq> [] \<and> \<not> isVagueRepoAuthorityLabel (TrimSpace v)"
  by (simp add: rejectVagueBindingLabel_def Let_def)

lemma Context_Validate_attach:
  assumes "Context_Validate c = None"
    and "c' = c\<lparr>ctx_Lease := l, ctx_PatchQueue := q, ctx_Operation := oper\<rparr>"
    and "requireConcreteMutationOperationRefs c' = None"
  shows "Context_Validate c' = None"
proof -
  have refs: "TrimSpace (lr_ID l) \<noteq> []" "0 < lr_Term l" "TrimSpace (pqr_QueueID q) \<noteq> []" "TrimSpace (pqr_ItemID q) \<noteq> []"
    "TrimSpace (op_ID oper) \<noteq> []" "TrimSpace (op_Kind oper) \<noteq> []"
    using assms(3) by (simp_all add: assms(2) requireConcreteMutationOperationRefs_def rejectVague_None)
  show ?thesis
    using assms(1) refs unfolding assms(2) Context_Validate_def guards_Cons_None
    by (simp add: validateLeaseRef_def validatePatchQueueRef_def validateOperationRef_def Let_def)
qed

lemma Bind_live:
  assumes inv: "lease_inv n s" and ok: "BindMutationOperation wall input (Some s) = (Inr b, st)"
  obtains a d l ps qs where "binding_request input s = Inr (a, d, l, ps)" and "b = new_binding a d l ps"
    and "live_at (normalizeLeaseTime wall (bi_Now input)) l" and "fl_Term l = lr_Term (ctx_Lease a)"
    and "map_of (fs_leases s) (TrimSpace (lr_ID (ctx_Lease a))) = Some l"
    and "NormalizePathSet ps = Inr qs" and "set qs \<subseteq> set (fl_Pathset l)"
proof -
  obtain a d l ps s' where req: "binding_request input s = Inr (a, d, l, ps)" and b: "b = new_binding a d l ps"
    and auth: "AuthorizeMutation wall \<lparr>au_LeaseID = lr_ID (ctx_Lease a), au_Term = lr_Term (ctx_Lease a),
          au_Holder = HolderForLease l, au_Paths = ps, au_Now = bi_Now input\<rparr> s = (None, s')"
    using ok unfolding BindMutationOperation_Inr by blast
  note found = binding_request_Inr(4) [OF inv req]
  from auth obtain qs where "NormalizePathSet ps = Inr qs" "set qs \<subseteq> set (fl_Pathset l)"
      "live_at (normalizeLeaseTime wall (bi_Now input)) l" "fl_Term l = lr_Term (ctx_Lease a)"
    using found authorize_iff [OF inv, of wall "\<lparr>au_LeaseID = lr_ID (ctx_Lease a), au_Term = lr_Term (ctx_Lease a),
          au_Holder = HolderForLease l, au_Paths = ps, au_Now = bi_Now input\<rparr>"] by (auto simp: may_act_def)
  with req b found that show ?thesis by blast
qed

text \<open>The binding of a context whose lease was just acquired on it: everything but the authorisation passes.\<close>

lemma acquired_request:
  assumes inv: "lease_inv n s" "int n + 2 < 2 ^ 63"
    and acq: "Acquire wall input s = (Inr l, s')"
    and ctx: "ctx_Lease (ac_Context input) = no_lease" "ctx_PatchQueue (ac_Context input) = no_patch_queue"
      "ctx_Operation (ac_Context input) = no_operation"
    and tr: "trimmed_identity l" "trimmed (ctx_RepoRoot (ac_Context input))"
    and c': "c' = (WithDefaults (ac_Context input))\<lparr>ctx_Lease := \<lparr>lr_ID = fl_ID l, lr_Term = fl_Term l\<rparr>,
        ctx_PatchQueue := q, ctx_Operation := oper\<rparr>"
    and conc: "requireConcreteMutationOperationRefs c' = None"
    and paths: "NormalizePathSet (if mp = [] then ctx_Pathset (ac_Context input) else mp) = Inr ps" "ps \<noteq> []"
  shows "binding_request \<lparr>bi_Context = c', bi_MutationPaths = mp, bi_Now = t\<rparr> s' = Inr (c', json_digest (json_context c'), l, ps)"
    and "Context_Validate c' = None" and "WithDefaults c' = c'" and "findBindingLease s' (fl_ID l) = Inr l"
proof -
  let ?c = "WithDefaults (ac_Context input)"
  obtain pset where a: "Context_Validate ?c = None" "pset = ctx_Pathset ?c" "canonical_pathset pset"
    and l: "l = new_lease ?c (fs_nextTerm s) (json_digest (json_context ?c)) pset (normalizeLeaseTime wall (ac_Now input)) (ac_TTL input)"
  proof -
    obtain a ps where r: "acquire_request input = Inr (a, json_digest (json_context a), ps)"
      and l: "l = new_lease a (fs_nextTerm s) (json_digest (json_context a)) ps
        (normalizeLeaseTime wall (ac_Now input)) (ac_TTL input)"
      using acquired_lease(3) [OF inv acq] by blast
    from acquire_request_Inr [OF r] l that [of ps] show ?thesis by simp
  qed
  show valid: "Context_Validate c' = None" by (rule Context_Validate_attach [OF a(1) c' conc])
  show defs: "WithDefaults c' = c'" by (simp add: c' WithDefaults_def)
  have lid: "TrimSpace (fl_ID l) = fl_ID l" by (simp add: l new_lease_def TrimSpace_buildFileLeaseID)
  show find: "findBindingLease s' (fl_ID l) = Inr l"
    by (simp add: findBindingLease_Inr [OF acquired_lease(1) [OF inv acq]] lid acquired_lease(2) [OF inv acq])
  have same: "verifyMutationBindingContext c' l = None"
    using tr NormalizePathSet_canonical [OF a(3)] a(2)
    by (simp add: verifyMutationBindingContext_def c' trimmed_identity_def trimmed_def l new_lease_def)
  have pre: "c'\<lparr>ctx_Lease := no_lease, ctx_PatchQueue := no_patch_queue, ctx_Operation := no_operation\<rparr> = ?c"
    using ctx by (simp add: c')
  have "verifyLeaseAcquisitionContextDigest c' l = None"
    unfolding verifyLeaseAcquisitionContextDigest_def pre Let_def
    using a(1) by (simp add: Context_Digest_def l new_lease_def)
  moreover have "lr_ID (ctx_Lease c') = fl_ID l" "ctx_Pathset c' = ctx_Pathset (ac_Context input)" by (simp_all add: c')
  ultimately show "binding_request \<lparr>bi_Context = c', bi_MutationPaths = mp, bi_Now = t\<rparr> s' =
      Inr (c', json_digest (json_context c'), l, ps)"
    using conc valid defs find same paths
    by (cases "mp = []") (simp_all add: binding_request_def Let_def Context_Digest_def map_err_def fail_if_def)
qed

lemma bind_acquired:
  assumes inv: "lease_inv n s" "int n + 2 < 2 ^ 63"
    and acq: "Acquire wall input s = (Inr l, s')"
    and ctx: "ctx_Lease (ac_Context input) = no_lease" "ctx_PatchQueue (ac_Context input) = no_patch_queue"
      "ctx_Operation (ac_Context input) = no_operation"
    and tr: "trimmed_identity l" "trimmed (ctx_RepoRoot (ac_Context input))"
    and time: "in_years (normalizeLeaseTime wall (ac_Now input) + ac_TTL input)"
      "normalizeLeaseTime wall' t < normalizeLeaseTime wall (ac_Now input) + ac_TTL input"
    and c': "c' = (WithDefaults (ac_Context input))\<lparr>ctx_Lease := \<lparr>lr_ID = fl_ID l, lr_Term = fl_Term l\<rparr>,
        ctx_PatchQueue := q, ctx_Operation := oper\<rparr>"
    and conc: "requireConcreteMutationOperationRefs c' = None"
    and paths: "NormalizePathSet (if mp = [] then ctx_Pathset (ac_Context input) else mp) = Inr ps" "ps \<noteq> []"
      "NormalizePathSet ps = Inr qs" "qs \<noteq> []" "set qs \<subseteq> set (fl_Pathset l)"
  shows "\<exists>d. BindMutationOperation wall' \<lparr>bi_Context = c', bi_MutationPaths = mp, bi_Now = t\<rparr> (Some s') =
    (Inr (new_binding c' d l ps), Some (expireLocked (normalizeLeaseTime wall' t) s'))"
proof -
  note req = acquired_request(1) [OF inv acq ctx tr c' conc paths(1,2), of t]
  note inv' = acquired_lease(1) [OF inv acq]
  let ?au = "\<lparr>au_LeaseID = fl_ID l, au_Term = fl_Term l, au_Holder = HolderForLease l, au_Paths = ps, au_Now = t\<rparr>"
  have "fst (AuthorizeMutation wall' ?au s') = None"
    using acquired_may_act [OF inv acq tr(1) time] paths(3-) unfolding authorize_iff [OF inv'] by auto
  with authorize_state [OF inv', of wall' ?au] have "AuthorizeMutation wall' ?au s' = (None, expireLocked (normalizeLeaseTime wall' t) s')"
    by (simp add: prod_eq_iff)
  with req show ?thesis unfolding BindMutationOperation_Inr by (force simp: c')
qed

subsection \<open>Properties\<close>

text \<open>C28. An accepted binding always stands on a lease that is live at that instant: the store holds,
  under the identifier and term of the binding, an active unexpired lease whose identity and pathset
  are those of the context, whose recorded digest is the one of the acquisition context, and whose
  pathset contains every mutation path after one more normalisation; so it contains the mutation
  paths themselves when they are stable under normalisation.\<close>

theorem bind_sound:
  assumes "lease_inv n s" and "BindMutationOperation wall input (Some s) = (Inr b, st)"
  shows "\<exists>l qs. map_of (fs_leases s) (TrimSpace (mb_RepoLeaseID b)) = Some l \<and> fl_Status l = FileLeaseStatusActive \<and>
    \<not> leaseExpiredAt l (normalizeLeaseTime wall (bi_Now input)) \<and> fl_Term l = mb_LeaseTerm b \<and>
    mb_MutationPaths b \<noteq> [] \<and> NormalizePathSet (mb_MutationPaths b) = Inr qs \<and> set qs \<subseteq> set (fl_Pathset l) \<and>
    (canonical_pathset (mb_MutationPaths b) \<longrightarrow> set (mb_MutationPaths b) \<subseteq> set (fl_Pathset l)) \<and>
    NormalizePathSet (ctx_Pathset (bi_Context input)) = Inr (fl_Pathset l) \<and>
    TrimSpace (ctx_WorkspaceID (bi_Context input)) = fl_WorkspaceID l \<and> TrimSpace (ctx_TaskID (bi_Context input)) = fl_TaskID l \<and>
    TrimSpace (ctx_AgentID (bi_Context input)) = fl_AgentID l \<and>
    Context_Digest ((WithDefaults (bi_Context input))\<lparr>ctx_Lease := no_lease, ctx_PatchQueue := no_patch_queue, ctx_Operation := no_operation\<rparr>)
      = Inr (fl_ContextDigest l)"
proof -
  obtain a d l ps qs where req: "binding_request input s = Inr (a, d, l, ps)" and b: "b = new_binding a d l ps"
    and l: "live_at (normalizeLeaseTime wall (bi_Now input)) l" "fl_Term l = lr_Term (ctx_Lease a)"
    and qs: "NormalizePathSet ps = Inr qs" "set qs \<subseteq> set (fl_Pathset l)"
    by (rule Bind_live [OF assms])
  note r = binding_request_Inr [OF assms(1) req]
  have stable: "canonical_pathset ps \<longrightarrow> set ps \<subseteq> set (fl_Pathset l)"
    using qs NormalizePathSet_canonical [of ps] by auto
  have "NormalizePathSet (ctx_Pathset a) = Inr (fl_Pathset l)" "TrimSpace (ctx_WorkspaceID a) = fl_WorkspaceID l"
      "TrimSpace (ctx_TaskID a) = fl_TaskID l" "TrimSpace (ctx_AgentID a) = fl_AgentID l"
    using r(5) by (auto simp: verifyMutationBindingContext_def split: sum.splits)
  moreover have "Context_Digest (a\<lparr>ctx_Lease := no_lease, ctx_PatchQueue := no_patch_queue, ctx_Operation := no_operation\<rparr>)
      = Inr (fl_ContextDigest l)"
    using r(6) by (auto simp: verifyLeaseAcquisitionContextDigest_def Let_def split: sum.splits)
  ultimately show ?thesis using r(1,4,8) l qs stable b by (simp add: live_at_def lease_active_def)
qed

text \<open>C29. Two bindings accepted one after the other at the same instant, on a store that satisfies the
  invariant, never touch a common path unless they stand on the same lease under the same term.\<close>

theorem bind_exclusive:
  assumes "lease_inv n s" and "BindMutationOperation wall i (Some s) = (Inr b, Some s')"
    and "BindMutationOperation wall' j (Some s') = (Inr b', st)"
    and "normalizeLeaseTime wall' (bi_Now j) = normalizeLeaseTime wall (bi_Now i)"
    and "NormalizePathSet (mb_MutationPaths b) = Inr ps" and "NormalizePathSet (mb_MutationPaths b') = Inr qs"
    and "p \<in> set ps" and "p \<in> set qs"
  shows "TrimSpace (mb_RepoLeaseID b) = TrimSpace (mb_RepoLeaseID b') \<and> mb_LeaseTerm b = mb_LeaseTerm b'"
proof -
  obtain a d l xs where b: "b = new_binding a d l xs"
    and auth: "AuthorizeMutation wall \<lparr>au_LeaseID = lr_ID (ctx_Lease a), au_Term = lr_Term (ctx_Lease a),
        au_Holder = HolderForLease l, au_Paths = xs, au_Now = bi_Now i\<rparr> s = (None, s')"
    using assms(2) unfolding BindMutationOperation_Inr by blast
  obtain a' d' l' ys t where b': "b' = new_binding a' d' l' ys"
    and auth': "AuthorizeMutation wall' \<lparr>au_LeaseID = lr_ID (ctx_Lease a'), au_Term = lr_Term (ctx_Lease a'),
        au_Holder = HolderForLease l', au_Paths = ys, au_Now = bi_Now j\<rparr> s' = (None, t)"
    using assms(3) unfolding BindMutationOperation_Inr by blast
  have "\<exists>n. lease_inv n s" using assms(1) by blast
  from lease_auth.authorized_exclusive [OF this auth, where wall' = wall' and
      j = "\<lparr>au_LeaseID = lr_ID (ctx_Lease a'), au_Term = lr_Term (ctx_Lease a'), au_Holder = HolderForLease l',
        au_Paths = ys, au_Now = bi_Now j\<rparr>"] auth' assms(4-) b b' show ?thesis by simp
qed

text \<open>A lease can be used to the end: when the context a lease was acquired on carries no
  surrounding white space, the same context with the lease, a queue item and an operation attached
  is bound at every instant before the expiry, for the whole pathset.\<close>

theorem acquire_then_bind:
  assumes "lease_inv n s" and "int n + 2 < 2 ^ 63" and "Acquire wall input s = (Inr l, s')"
    and "ctx_Lease (ac_Context input) = no_lease" and "ctx_PatchQueue (ac_Context input) = no_patch_queue"
    and "ctx_Operation (ac_Context input) = no_operation"
    and "trimmed_identity l" and "trimmed (ctx_RepoRoot (ac_Context input))"
    and "in_years (normalizeLeaseTime wall (ac_Now input) + ac_TTL input)"
    and "normalizeLeaseTime wall' t < normalizeLeaseTime wall (ac_Now input) + ac_TTL input"
    and "c' = (WithDefaults (ac_Context input))\<lparr>ctx_Lease := \<lparr>lr_ID = fl_ID l, lr_Term = fl_Term l\<rparr>,
        ctx_PatchQueue := q, ctx_Operation := oper\<rparr>"
    and "requireConcreteMutationOperationRefs c' = None"
  shows "\<exists>b s''. BindMutationOperation wall' \<lparr>bi_Context = c', bi_MutationPaths = [], bi_Now = t\<rparr> (Some s') =
    (Inr b, Some s'') \<and> mb_MutationPaths b = fl_Pathset l \<and> mb_LeaseTerm b = fl_Term l"
proof -
  obtain a ps where r: "acquire_request input = Inr (a, json_digest (json_context a), ps)"
    and l: "l = new_lease a (fs_nextTerm s) (json_digest (json_context a)) ps
        (normalizeLeaseTime wall (ac_Now input)) (ac_TTL input)"
    using acquired_lease(3) [OF assms(1-3)] by blast
  have ps: "ps = ctx_Pathset (ac_Context input)" "canonical_pathset ps" "ps \<noteq> []" "fl_Pathset l = ps"
    using acquire_request_Inr [OF r] l by (simp_all add: new_lease_def)
  from bind_acquired [OF assms(1-12), of "[]" ps ps] ps NormalizePathSet_canonical [OF ps(2)] assms(11) show ?thesis
    by auto
qed

subsection \<open>Witnesses\<close>

lemma ToLower_ascii: "(of_char a :: nat) < 128 \<Longrightarrow> ToLower (a # s) = ascii_lower a # ToLower s"
  by (cases s; cases "tl s") auto

lemma lease_id_concrete: "rejectVagueBindingLabel f (buildFileLeaseID a t (json_digest j)) = None"
proof -
  have "filter (\<lambda>c. c \<notin> set (CHR 0x5C # '' _-.:/'')) (ToLower (buildFileLeaseID a t d)) =
      ''repoleasev1'' @ filter (\<lambda>c. c \<notin> set (CHR 0x5C # '' _-.:/'')) (ToLower (drop 12 (buildFileLeaseID a t d)))" for d
    by (simp add: buildFileLeaseID_def ToLower_ascii ascii_lower_def)
  then show ?thesis
    by (simp add: rejectVague_None TrimSpace_buildFileLeaseID isVagueRepoAuthorityLabel_def vagueLabels_def)
qed

definition demo_bound :: Context where
  "demo_bound = demo_context\<lparr>ctx_Lease := \<lparr>lr_ID = fl_ID demo_lease, lr_Term = fl_Term demo_lease\<rparr>,
     ctx_PatchQueue := \<lparr>pqr_QueueID = ''q1'', pqr_ItemID = ''i1''\<rparr>,
     ctx_Operation := \<lparr>op_ID = ''op1'', op_Kind = ''repo_patch_apply''\<rparr>\<rparr>"

lemma demo_bound_concrete: "requireConcreteMutationOperationRefs demo_bound = None"
proof -
  have "rejectVagueBindingLabel ''patch_queue_id'' ''q1'' = None" "rejectVagueBindingLabel ''patch_queue_item_id'' ''i1'' = None"
    "rejectVagueBindingLabel ''operation_id'' ''op1'' = None" "rejectVagueBindingLabel ''operation_kind'' ''repo_patch_apply'' = None"
    "TrimSpace ''repo_patch_apply'' \<in> set allowedMutationOperationKinds"
    by code_simp+
  then show ?thesis
    using lease_id_concrete
    by (simp add: requireConcreteMutationOperationRefs_def demo_bound_def demo_lease_def new_lease_def)
qed

lemma demo_context_refs: "ctx_Lease demo_context = no_lease" "ctx_PatchQueue demo_context = no_patch_queue"
  "ctx_Operation demo_context = no_operation" "trimmed (ctx_RepoRoot demo_context)" "ctx_Pathset demo_context = [''a.go'', ''b.go'']"
  by (simp_all add: demo_context_def trimmed_def TrimSpace_graphic graphic_def)

lemma demo_bound_eq: "demo_bound = (WithDefaults (ac_Context demo_acquire))
    \<lparr>ctx_Lease := \<lparr>lr_ID = fl_ID demo_lease, lr_Term = fl_Term demo_lease\<rparr>,
     ctx_PatchQueue := \<lparr>pqr_QueueID = ''q1'', pqr_ItemID = ''i1''\<rparr>,
     ctx_Operation := \<lparr>op_ID = ''op1'', op_Kind = ''repo_patch_apply''\<rparr>\<rparr>"
  by (simp add: demo_bound_def demo_context_valid)

lemma demo_bind:
  assumes "NormalizePathSet (if mp = [] then [''a.go'', ''b.go''] else mp) = Inr ps" "ps \<noteq> []" "NormalizePathSet ps = Inr qs"
    and "qs \<noteq> []" "set qs \<subseteq> {''a.go'', ''b.go''}"
  shows "\<exists>d. BindMutationOperation 1 \<lparr>bi_Context = demo_bound, bi_MutationPaths = mp, bi_Now = 3\<rparr> (Some demo_store) =
    (Inr (new_binding demo_bound d demo_lease ps), Some (expireLocked 3 demo_store))"
  using bind_acquired [OF lease_inv_New _ demo_acquired _ _ _ demo_trimmed _ _ _ demo_bound_eq demo_bound_concrete, of 1 3 mp ps qs]
    assms demo_years
  by (simp add: demo_context_refs normalizeLeaseTime_def cong: if_cong)

theorem bind_sound_witness:
  "\<exists>b. fst (BindMutationOperation 1 \<lparr>bi_Context = demo_bound, bi_MutationPaths = [''b.go''], bi_Now = 3\<rparr> (Some demo_store)) = Inr b \<and>
     (\<exists>l. map_of (fs_leases demo_store) (TrimSpace (mb_RepoLeaseID b)) = Some l \<and> fl_Status l = FileLeaseStatusActive)"
proof -
  have "NormalizePathSet [''b.go''] = Inr [''b.go'']" by code_simp
  then obtain d where b: "BindMutationOperation 1 \<lparr>bi_Context = demo_bound, bi_MutationPaths = [''b.go''], bi_Now = 3\<rparr> (Some demo_store) =
      (Inr (new_binding demo_bound d demo_lease [''b.go'']), Some (expireLocked 3 demo_store))"
    using demo_bind [of "[''b.go'']" "[''b.go'']" "[''b.go'']"] by auto
  from bind_sound [OF demo_inv b] show ?thesis
    unfolding b by (intro exI [of _ "new_binding demo_bound d demo_lease [''b.go'']"]) auto
qed

lemma demo_unexpired: "expireLocked 3 demo_store = demo_store"
proof -
  have "\<not> leaseExpiredAt demo_lease 3"
    using expiry_exact [OF demo_years, of demo_lease 3] by (simp add: demo_lease_def new_lease_def)
  moreover have "fs_leases demo_store = [(fl_ID demo_lease, demo_lease)]"
    by (simp add: demo_store_def install_lease_def NewFileLeaseStore_def)
  ultimately show ?thesis by (simp add: expireLocked_def expire_entry_def)
qed

theorem bind_exclusive_witness:
  "\<exists>b b' st. BindMutationOperation 1 \<lparr>bi_Context = demo_bound, bi_MutationPaths = [''b.go''], bi_Now = 3\<rparr> (Some demo_store) = (Inr b, Some demo_store) \<and>
     BindMutationOperation 1 \<lparr>bi_Context = demo_bound, bi_MutationPaths = [], bi_Now = 3\<rparr> (Some demo_store) = (Inr b', st) \<and>
     mb_LeaseTerm b = mb_LeaseTerm b'"
proof -
  have n: "NormalizePathSet [''b.go''] = Inr [''b.go'']" "NormalizePathSet [''a.go'', ''b.go''] = Inr [''a.go'', ''b.go'']"
    by code_simp+
  obtain d where b: "BindMutationOperation 1 \<lparr>bi_Context = demo_bound, bi_MutationPaths = [''b.go''], bi_Now = 3\<rparr> (Some demo_store) =
      (Inr (new_binding demo_bound d demo_lease [''b.go'']), Some demo_store)"
    using demo_bind [of "[''b.go'']" "[''b.go'']" "[''b.go'']"] n by (auto simp: demo_unexpired)
  obtain d' where b': "BindMutationOperation 1 \<lparr>bi_Context = demo_bound, bi_MutationPaths = [], bi_Now = 3\<rparr> (Some demo_store) =
      (Inr (new_binding demo_bound d' demo_lease [''a.go'', ''b.go'']), Some demo_store)"
    using demo_bind [of "[]" "[''a.go'', ''b.go'']" "[''a.go'', ''b.go'']"] n by (auto simp: demo_unexpired)
  have "mb_LeaseTerm (new_binding demo_bound d demo_lease [''b.go'']) =
      mb_LeaseTerm (new_binding demo_bound d' demo_lease [''a.go'', ''b.go''])"
    using bind_exclusive [OF demo_inv b b', of "[''b.go'']" "[''a.go'', ''b.go'']" "''b.go''"] n by simp
  with b b' show ?thesis by blast
qed

theorem acquire_then_bind_witness:
  "\<exists>b s''. BindMutationOperation 1 \<lparr>bi_Context = demo_bound, bi_MutationPaths = [], bi_Now = 3\<rparr> (Some demo_store) = (Inr b, Some s'') \<and>
     mb_MutationPaths b = [''a.go'', ''b.go'']"
  using acquire_then_bind [OF lease_inv_New _ demo_acquired _ _ _ demo_trimmed _ _ _ demo_bound_eq demo_bound_concrete, of 1 3] demo_years
  by (simp add: demo_context_refs normalizeLeaseTime_def) blast

text \<open>A mutation path that is not stable under normalisation escapes the lease: the binding
  normalises the path once and records the result, while the lease store normalises it again before
  it compares it with the pathset. On a lease for \<open>a.go\<close> and \<open>b.go\<close>, a mutation of the path that is
  a.go with a leading space is accepted.\<close>

theorem bind_unstable_path:
  "\<exists>b. fst (BindMutationOperation 1 \<lparr>bi_Context = demo_bound, bi_MutationPaths = [''./ a.go''], bi_Now = 3\<rparr> (Some demo_store)) = Inr b \<and>
     mb_MutationPaths b = ['' a.go''] \<and> '' a.go'' \<notin> set (fl_Pathset demo_lease)"
proof -
  have "NormalizePathSet [''./ a.go''] = Inr ['' a.go'']" "NormalizePathSet ['' a.go''] = Inr [''a.go'']" by code_simp+
  then obtain d where b: "BindMutationOperation 1 \<lparr>bi_Context = demo_bound, bi_MutationPaths = [''./ a.go''], bi_Now = 3\<rparr> (Some demo_store) =
      (Inr (new_binding demo_bound d demo_lease ['' a.go'']), Some (expireLocked 3 demo_store))"
    using demo_bind [of "[''./ a.go'']" "['' a.go'']" "[''a.go'']"] by auto
  show ?thesis unfolding b by (intro exI [of _ "new_binding demo_bound d demo_lease ['' a.go'']"]) simp
qed

end
