(* ===== verification/Queue_Item.thy ===== *)
theory Queue_Item
  imports Cas_Evidence Operation_Binding
begin

section \<open>Patch queue items and the evidence recorded on them\<close>

text \<open>
  The data of \<open>internal/repoauthority/patch_queue.go\<close> and its functions on evidence: test evidence,
  recovery reasons, rollback evidence, the digests and the keys. The clone functions of the code copy
  slices so that stored items share no memory with what is returned; on the values here they are
  the identity. The loops over a map literal of required fields are the list of their entries; the
  order only decides which missing field is reported first.
\<close>

definition PatchQueueItemSchemaVersion :: string where "PatchQueueItemSchemaVersion = ''repo_patch_queue_item.v1''"
definition PatchQueueStateProposed :: string where "PatchQueueStateProposed = ''proposed''"
definition PatchQueueStateValidating :: string where "PatchQueueStateValidating = ''validating''"
definition PatchQueueStateApplied :: string where "PatchQueueStateApplied = ''applied''"
definition PatchQueueStateFailed :: string where "PatchQueueStateFailed = ''failed''"
definition PatchQueueStateConflict :: string where "PatchQueueStateConflict = ''conflict''"
definition PatchQueueStateTestConflict :: string where "PatchQueueStateTestConflict = ''test_conflict''"
definition PatchQueueStateCanceled :: string where "PatchQueueStateCanceled = ''canceled''"
definition PatchQueueStateRetryPending :: string where "PatchQueueStateRetryPending = ''retry_pending''"
definition PatchQueueStateDeadLetter :: string where "PatchQueueStateDeadLetter = ''dead_letter''"
definition PatchQueueStateRolledBack :: string where "PatchQueueStateRolledBack = ''rolled_back''"
definition PatchQueueTestEvidenceSchemaVersion :: string where
  "PatchQueueTestEvidenceSchemaVersion = ''repo_patch_queue_test_evidence.v1''"
definition PatchQueueRecoverySchemaVersion :: string where
  "PatchQueueRecoverySchemaVersion = ''repo_patch_queue_recovery_decision.v1''"
definition PatchQueueRollbackSchemaVersion :: string where
  "PatchQueueRollbackSchemaVersion = ''repo_patch_queue_rollback_evidence.v1''"
definition PatchQueueTestStatusPassed :: string where "PatchQueueTestStatusPassed = ''passed''"
definition PatchQueueTestStatusFailed :: string where "PatchQueueTestStatusFailed = ''failed''"
definition PatchQueueRecoveryDecisionRetry :: string where "PatchQueueRecoveryDecisionRetry = ''retry''"
definition PatchQueueRecoveryDecisionDeadLetter :: string where "PatchQueueRecoveryDecisionDeadLetter = ''dead_letter''"
definition patchQueueTestOutputSummaryMaxBytes :: nat where "patchQueueTestOutputSummaryMaxBytes = 4096"
definition patchQueueRecoveryReasonMaxBytes :: nat where "patchQueueRecoveryReasonMaxBytes = 4096"

lemmas queue_state_defs =
  PatchQueueStateProposed_def PatchQueueStateValidating_def PatchQueueStateApplied_def PatchQueueStateFailed_def
  PatchQueueStateConflict_def PatchQueueStateTestConflict_def PatchQueueStateCanceled_def PatchQueueStateRetryPending_def
  PatchQueueStateDeadLetter_def PatchQueueStateRolledBack_def

lemma queue_states_differ [simp]:
  "PatchQueueStateProposed \<noteq> PatchQueueStateValidating" "PatchQueueStateProposed \<noteq> PatchQueueStateApplied" "PatchQueueStateProposed \<noteq> PatchQueueStateFailed"
  "PatchQueueStateProposed \<noteq> PatchQueueStateConflict" "PatchQueueStateProposed \<noteq> PatchQueueStateTestConflict" "PatchQueueStateProposed \<noteq> PatchQueueStateCanceled"
  "PatchQueueStateProposed \<noteq> PatchQueueStateRetryPending" "PatchQueueStateProposed \<noteq> PatchQueueStateDeadLetter" "PatchQueueStateProposed \<noteq> PatchQueueStateRolledBack"
  "PatchQueueStateValidating \<noteq> PatchQueueStateProposed" "PatchQueueStateValidating \<noteq> PatchQueueStateApplied" "PatchQueueStateValidating \<noteq> PatchQueueStateFailed"
  "PatchQueueStateValidating \<noteq> PatchQueueStateConflict" "PatchQueueStateValidating \<noteq> PatchQueueStateTestConflict" "PatchQueueStateValidating \<noteq> PatchQueueStateCanceled"
  "PatchQueueStateValidating \<noteq> PatchQueueStateRetryPending" "PatchQueueStateValidating \<noteq> PatchQueueStateDeadLetter" "PatchQueueStateValidating \<noteq> PatchQueueStateRolledBack"
  "PatchQueueStateApplied \<noteq> PatchQueueStateProposed" "PatchQueueStateApplied \<noteq> PatchQueueStateValidating" "PatchQueueStateApplied \<noteq> PatchQueueStateFailed"
  "PatchQueueStateApplied \<noteq> PatchQueueStateConflict" "PatchQueueStateApplied \<noteq> PatchQueueStateTestConflict" "PatchQueueStateApplied \<noteq> PatchQueueStateCanceled"
  "PatchQueueStateApplied \<noteq> PatchQueueStateRetryPending" "PatchQueueStateApplied \<noteq> PatchQueueStateDeadLetter" "PatchQueueStateApplied \<noteq> PatchQueueStateRolledBack"
  "PatchQueueStateFailed \<noteq> PatchQueueStateProposed" "PatchQueueStateFailed \<noteq> PatchQueueStateValidating" "PatchQueueStateFailed \<noteq> PatchQueueStateApplied"
  "PatchQueueStateFailed \<noteq> PatchQueueStateConflict" "PatchQueueStateFailed \<noteq> PatchQueueStateTestConflict" "PatchQueueStateFailed \<noteq> PatchQueueStateCanceled"
  "PatchQueueStateFailed \<noteq> PatchQueueStateRetryPending" "PatchQueueStateFailed \<noteq> PatchQueueStateDeadLetter" "PatchQueueStateFailed \<noteq> PatchQueueStateRolledBack"
  "PatchQueueStateConflict \<noteq> PatchQueueStateProposed" "PatchQueueStateConflict \<noteq> PatchQueueStateValidating" "PatchQueueStateConflict \<noteq> PatchQueueStateApplied"
  "PatchQueueStateConflict \<noteq> PatchQueueStateFailed" "PatchQueueStateConflict \<noteq> PatchQueueStateTestConflict" "PatchQueueStateConflict \<noteq> PatchQueueStateCanceled"
  "PatchQueueStateConflict \<noteq> PatchQueueStateRetryPending" "PatchQueueStateConflict \<noteq> PatchQueueStateDeadLetter" "PatchQueueStateConflict \<noteq> PatchQueueStateRolledBack"
  "PatchQueueStateTestConflict \<noteq> PatchQueueStateProposed" "PatchQueueStateTestConflict \<noteq> PatchQueueStateValidating" "PatchQueueStateTestConflict \<noteq> PatchQueueStateApplied"
  "PatchQueueStateTestConflict \<noteq> PatchQueueStateFailed" "PatchQueueStateTestConflict \<noteq> PatchQueueStateConflict" "PatchQueueStateTestConflict \<noteq> PatchQueueStateCanceled"
  "PatchQueueStateTestConflict \<noteq> PatchQueueStateRetryPending" "PatchQueueStateTestConflict \<noteq> PatchQueueStateDeadLetter" "PatchQueueStateTestConflict \<noteq> PatchQueueStateRolledBack"
  "PatchQueueStateCanceled \<noteq> PatchQueueStateProposed" "PatchQueueStateCanceled \<noteq> PatchQueueStateValidating" "PatchQueueStateCanceled \<noteq> PatchQueueStateApplied"
  "PatchQueueStateCanceled \<noteq> PatchQueueStateFailed" "PatchQueueStateCanceled \<noteq> PatchQueueStateConflict" "PatchQueueStateCanceled \<noteq> PatchQueueStateTestConflict"
  "PatchQueueStateCanceled \<noteq> PatchQueueStateRetryPending" "PatchQueueStateCanceled \<noteq> PatchQueueStateDeadLetter" "PatchQueueStateCanceled \<noteq> PatchQueueStateRolledBack"
  "PatchQueueStateRetryPending \<noteq> PatchQueueStateProposed" "PatchQueueStateRetryPending \<noteq> PatchQueueStateValidating" "PatchQueueStateRetryPending \<noteq> PatchQueueStateApplied"
  "PatchQueueStateRetryPending \<noteq> PatchQueueStateFailed" "PatchQueueStateRetryPending \<noteq> PatchQueueStateConflict" "PatchQueueStateRetryPending \<noteq> PatchQueueStateTestConflict"
  "PatchQueueStateRetryPending \<noteq> PatchQueueStateCanceled" "PatchQueueStateRetryPending \<noteq> PatchQueueStateDeadLetter" "PatchQueueStateRetryPending \<noteq> PatchQueueStateRolledBack"
  "PatchQueueStateDeadLetter \<noteq> PatchQueueStateProposed" "PatchQueueStateDeadLetter \<noteq> PatchQueueStateValidating" "PatchQueueStateDeadLetter \<noteq> PatchQueueStateApplied"
  "PatchQueueStateDeadLetter \<noteq> PatchQueueStateFailed" "PatchQueueStateDeadLetter \<noteq> PatchQueueStateConflict" "PatchQueueStateDeadLetter \<noteq> PatchQueueStateTestConflict"
  "PatchQueueStateDeadLetter \<noteq> PatchQueueStateCanceled" "PatchQueueStateDeadLetter \<noteq> PatchQueueStateRetryPending" "PatchQueueStateDeadLetter \<noteq> PatchQueueStateRolledBack"
  "PatchQueueStateRolledBack \<noteq> PatchQueueStateProposed" "PatchQueueStateRolledBack \<noteq> PatchQueueStateValidating" "PatchQueueStateRolledBack \<noteq> PatchQueueStateApplied"
  "PatchQueueStateRolledBack \<noteq> PatchQueueStateFailed" "PatchQueueStateRolledBack \<noteq> PatchQueueStateConflict" "PatchQueueStateRolledBack \<noteq> PatchQueueStateTestConflict"
  "PatchQueueStateRolledBack \<noteq> PatchQueueStateCanceled" "PatchQueueStateRolledBack \<noteq> PatchQueueStateRetryPending" "PatchQueueStateRolledBack \<noteq> PatchQueueStateDeadLetter"
  by (simp_all add: queue_state_defs)

lemma queue_states_trimmed [simp]:
  "TrimSpace PatchQueueStateProposed = PatchQueueStateProposed" "TrimSpace PatchQueueStateValidating = PatchQueueStateValidating" "TrimSpace PatchQueueStateApplied = PatchQueueStateApplied" "TrimSpace PatchQueueStateFailed = PatchQueueStateFailed" "TrimSpace PatchQueueStateConflict = PatchQueueStateConflict"
  "TrimSpace PatchQueueStateTestConflict = PatchQueueStateTestConflict" "TrimSpace PatchQueueStateCanceled = PatchQueueStateCanceled" "TrimSpace PatchQueueStateRetryPending = PatchQueueStateRetryPending" "TrimSpace PatchQueueStateDeadLetter = PatchQueueStateDeadLetter" "TrimSpace PatchQueueStateRolledBack = PatchQueueStateRolledBack"
  by (simp_all add: queue_state_defs TrimSpace_graphic graphic_def)

subsection \<open>Records\<close>

record PatchQueueTestEvidence =
  te_Schema :: string
  te_Name :: string
  te_Command :: string
  te_Status :: string
  te_ExitCode :: int
  te_OutputDigest :: string
  te_OutputSummary :: string
  te_DurationMillis :: int

record PatchQueueRecovery =
  rc_Schema :: string
  rc_Decision :: string
  rc_SourceState :: string
  rc_Reason :: string
  rc_Attempt :: int
  rc_MaxAttempts :: int
  rc_Retryable :: bool
  rc_NextRetryAt :: string
  rc_DeadLetteredAt :: string
  rc_RecordedAt :: string

record PatchQueueRollbackPath =
  rp_Path :: string
  rp_SourceBaseHash :: string
  rp_SourceAppliedHash :: string
  rp_RollbackCandidateHash :: string

record PatchQueueRollback =
  rb_Schema :: string
  rb_SourceOperationID :: string
  rb_SourceOperationKind :: string
  rb_RollbackOperationID :: string
  rb_RollbackOperationKind :: string
  rb_Reason :: string
  rb_SourcePatchDigest :: string
  rb_RollbackPatchDigest :: string
  rb_RollbackPaths :: "PatchQueueRollbackPath list"
  rb_VerificationCommand :: string
  rb_VerificationStatus :: string
  rb_VerificationExitCode :: int
  rb_VerificationOutputDigest :: string
  rb_VerificationOutputSummary :: string
  rb_VerificationDurationMillis :: int
  rb_RecordedAt :: string

record PatchQueueReviewerAdvisory =
  ra_Schema :: string
  ra_Mode :: string
  ra_Verdict :: string
  ra_Scope :: string
  ra_HeadSHA :: string
  ra_DefeatsAcceptance :: bool
  ra_ReviewerID :: string
  ra_ReviewDocKey :: string
  ra_OperationID :: string
  ra_OperationKind :: string
  ra_CASPatchDigest :: string
  ra_CASEvaluationDigest :: string
  ra_RollbackEvidenceDigest :: string
  ra_Summary :: string
  ra_RecordedAt :: string

record PatchQueueOperatorEnablement =
  oe_Schema :: string
  oe_Scope :: string
  oe_Enabled :: bool
  oe_EnabledBy :: string
  oe_EnabledAt :: string
  oe_Reason :: string
  oe_WorkspaceID :: string
  oe_ProjectID :: string
  oe_QueueID :: string
  oe_ItemID :: string
  oe_OperationID :: string
  oe_CASPatchDigest :: string
  oe_RollbackEvidenceDigest :: string
  oe_ReviewerAdvisoryDigest :: string

record PatchQueueItem =
  pq_Schema :: string
  pq_ID :: string
  pq_QueueID :: string
  pq_ItemID :: string
  pq_ReviewDocKey :: string
  pq_State :: string
  pq_Attempt :: int
  pq_MaxAttempts :: int
  pq_NextRetryAt :: string
  pq_DeadLetteredAt :: string
  pq_ContextDigest :: string
  pq_RepoLeaseID :: string
  pq_LeaseTerm :: int
  pq_Pathset :: "string list"
  pq_WorkspaceID :: string
  pq_ProjectID :: string
  pq_TaskID :: string
  pq_SessionID :: string
  pq_RunID :: string
  pq_AgentID :: string
  pq_PrincipalType :: string
  pq_PrincipalID :: string
  pq_CapabilitySnapshotID :: string
  pq_CapabilitySnapshotSchema :: string
  pq_BaseRef :: string
  pq_BaseTreeHash :: string
  pq_CASResult :: CASPatchApplyResult
  pq_CASPatchDigest :: string
  pq_CASEvaluationDigest :: string
  pq_ConflictIssues :: "CASPatchIssue list"
  pq_TestEvidence :: PatchQueueTestEvidence
  pq_TestEvidenceDigest :: string
  pq_RecoveryDecisions :: "PatchQueueRecovery list"
  pq_RecoveryDecisionDigest :: string
  pq_RollbackEvidence :: PatchQueueRollback
  pq_RollbackEvidenceDigest :: string
  pq_ReviewerAdvisory :: PatchQueueReviewerAdvisory
  pq_ReviewerAdvisoryDigest :: string
  pq_OperatorEnablement :: PatchQueueOperatorEnablement
  pq_OperatorEnablementDigest :: string
  pq_OperationID :: string
  pq_OperationKind :: string
  pq_CreatedAt :: string
  pq_UpdatedAt :: string

text \<open>The zero values of the structures, as a Go composite literal leaves the fields it does not name.\<close>

definition zero_cas_result :: CASPatchApplyResult where
  "zero_cas_result = \<lparr>car_Schema = [], car_Status = [], car_PatchID = [], car_PatchDigest = [], car_ContextDigest = [],
     car_Paths = [], car_Issues = []\<rparr>"

definition zero_test_evidence :: PatchQueueTestEvidence where
  "zero_test_evidence = \<lparr>te_Schema = [], te_Name = [], te_Command = [], te_Status = [], te_ExitCode = 0,
     te_OutputDigest = [], te_OutputSummary = [], te_DurationMillis = 0\<rparr>"

definition zero_rollback :: PatchQueueRollback where
  "zero_rollback = \<lparr>rb_Schema = [], rb_SourceOperationID = [], rb_SourceOperationKind = [], rb_RollbackOperationID = [],
     rb_RollbackOperationKind = [], rb_Reason = [], rb_SourcePatchDigest = [], rb_RollbackPatchDigest = [],
     rb_RollbackPaths = [], rb_VerificationCommand = [], rb_VerificationStatus = [], rb_VerificationExitCode = 0,
     rb_VerificationOutputDigest = [], rb_VerificationOutputSummary = [], rb_VerificationDurationMillis = 0, rb_RecordedAt = []\<rparr>"

definition zero_advisory :: PatchQueueReviewerAdvisory where
  "zero_advisory = \<lparr>ra_Schema = [], ra_Mode = [], ra_Verdict = [], ra_Scope = [], ra_HeadSHA = [], ra_DefeatsAcceptance = False,
     ra_ReviewerID = [], ra_ReviewDocKey = [], ra_OperationID = [], ra_OperationKind = [], ra_CASPatchDigest = [],
     ra_CASEvaluationDigest = [], ra_RollbackEvidenceDigest = [], ra_Summary = [], ra_RecordedAt = []\<rparr>"

definition zero_enablement :: PatchQueueOperatorEnablement where
  "zero_enablement = \<lparr>oe_Schema = [], oe_Scope = [], oe_Enabled = False, oe_EnabledBy = [], oe_EnabledAt = [], oe_Reason = [],
     oe_WorkspaceID = [], oe_ProjectID = [], oe_QueueID = [], oe_ItemID = [], oe_OperationID = [], oe_CASPatchDigest = [],
     oe_RollbackEvidenceDigest = [], oe_ReviewerAdvisoryDigest = []\<rparr>"

subsection \<open>Counters, reasons and states\<close>

definition normalizePatchQueueAttempt :: "int \<Rightarrow> int" where
  "normalizePatchQueueAttempt attempt = (if attempt \<le> 0 then 1 else attempt)"

definition normalizePatchQueueMaxAttempts :: "int \<Rightarrow> int" where
  "normalizePatchQueueMaxAttempts maxAttempts = (if maxAttempts \<le> 0 then 1 else maxAttempts)"

definition normalizePatchQueueRecoveryReason :: "string \<Rightarrow> string result" where
  "normalizePatchQueueRecoveryReason reason0 =
     (let reason = TrimSpace reason0
      in if reason = [] then Inl (Errorf ''patch queue recovery reason is required'' [])
         else if patchQueueRecoveryReasonMaxBytes < length reason
         then Inl (Errorf ''patch queue recovery reason exceeds %d bytes'' [AInt (int patchQueueRecoveryReasonMaxBytes)])
         else Inr reason)"

definition patchQueueTerminalFailureState :: "string \<Rightarrow> bool" where
  "patchQueueTerminalFailureState state \<longleftrightarrow>
     TrimSpace state \<in> set [PatchQueueStateFailed, PatchQueueStateConflict, PatchQueueStateTestConflict]"

text \<open>
  The code ranges over the runes of the digest; a byte outside ASCII belongs to a rune above 'f', so
  the test on bytes is the same.
\<close>

definition isCanonicalSHA256Digest :: "string \<Rightarrow> bool" where
  "isCanonicalSHA256Digest value0 =
     (let value = TrimSpace value0
      in if \<not> HasPrefix value ''sha256:'' then False
         else let hexDigest = TrimPrefix value ''sha256:''
         in if length hexDigest \<noteq> 64 then False else list_all is_lower_hex hexDigest)"

subsection \<open>Keys\<close>

definition patchQueueInputIDs :: "string \<Rightarrow> string \<Rightarrow> Context \<Rightarrow> string \<times> string" where
  "patchQueueInputIDs queueID itemID authority =
     ((if TrimSpace queueID = [] then TrimSpace (pqr_QueueID (ctx_PatchQueue authority)) else TrimSpace queueID),
      (if TrimSpace itemID = [] then TrimSpace (pqr_ItemID (ctx_PatchQueue authority)) else TrimSpace itemID))"

definition patchQueueKey :: "string \<Rightarrow> string \<Rightarrow> string" where
  "patchQueueKey queueID itemID = TrimSpace queueID @ [CHR 0x00] @ TrimSpace itemID"

definition buildPatchQueueItemID :: "string \<Rightarrow> string \<Rightarrow> string \<Rightarrow> string" where
  "buildPatchQueueItemID queueID itemID contextDigest =
     (let d = TrimPrefix contextDigest ''sha256:'';
          shortDigest = (if 12 < length d then take 12 d else d)
      in join_with '':'' [''patchqitem'', ''v1'', cleanKeyPart queueID, cleanKeyPart itemID, shortDigest])"

definition patchQueueContextDigest :: "Context \<Rightarrow> string result" where
  "patchQueueContextDigest authority =
     map_err (\<lambda>e. Errorf ''patch queue context digest: %w'' [AErr e])
       (Context_Digest ((WithDefaults authority)\<lparr>ctx_Operation := no_operation\<rparr>))"

subsection \<open>Digests\<close>

definition json_path_result :: "CASPatchPathResult \<Rightarrow> json" where
  "json_path_result r = JObj
     ([(''path'', JStr (cp_Path r)), (''status'', JStr (cp_Status r))]
      @ omit_str ''change_kind'' (cp_ChangeKind r) @ omit_str ''base_hash'' (cp_BaseHash r)
      @ omit_str ''current_hash'' (cp_CurrentHash r) @ omit_str ''candidate_hash'' (cp_CandidateHash r))"

definition json_issue :: "CASPatchIssue \<Rightarrow> json" where
  "json_issue i = JObj
     ([(''status'', JStr (ci_Status i)), (''kind'', JStr (ci_Kind i))] @ omit_str ''path'' (ci_Path i)
      @ [(''message'', JStr (ci_Message i))] @ omit_str ''expected_hash'' (ci_ExpectedHash i)
      @ omit_str ''actual_hash'' (ci_ActualHash i) @ omit_str ''candidate_hash'' (ci_CandidateHash i))"

definition json_cas_result :: "CASPatchApplyResult \<Rightarrow> json" where
  "json_cas_result r = JObj
     ([(''schema'', JStr (car_Schema r)), (''status'', JStr (car_Status r))]
      @ omit_str ''patch_id'' (car_PatchID r) @ omit_str ''patch_digest'' (car_PatchDigest r)
      @ omit_str ''context_digest'' (car_ContextDigest r) @ omit_arr ''paths'' (map json_path_result (car_Paths r))
      @ omit_arr ''issues'' (map json_issue (car_Issues r)))"

definition digestCASPatchApplyResult :: "CASPatchApplyResult \<Rightarrow> string" where
  "digestCASPatchApplyResult r = json_digest (json_cas_result r)"

definition json_test_evidence :: "PatchQueueTestEvidence \<Rightarrow> json" where
  "json_test_evidence e = JObj
     ([(''schema'', JStr (te_Schema e)), (''name'', JStr (te_Name e)), (''command'', JStr (te_Command e)),
       (''status'', JStr (te_Status e)), (''exit_code'', JInt (te_ExitCode e)), (''output_digest'', JStr (te_OutputDigest e))]
      @ omit_str ''output_summary'' (te_OutputSummary e) @ omit_int ''duration_ms'' (te_DurationMillis e))"

definition digestPatchQueueTestEvidence :: "PatchQueueTestEvidence \<Rightarrow> string" where
  "digestPatchQueueTestEvidence e = json_digest (json_test_evidence e)"

definition json_recovery :: "PatchQueueRecovery \<Rightarrow> json" where
  "json_recovery d = JObj
     ([(''schema'', JStr (rc_Schema d)), (''decision'', JStr (rc_Decision d)), (''source_state'', JStr (rc_SourceState d)),
       (''reason'', JStr (rc_Reason d)), (''attempt'', JInt (rc_Attempt d)), (''max_attempts'', JInt (rc_MaxAttempts d)),
       (''retryable'', JBool (rc_Retryable d))]
      @ omit_str ''next_retry_at'' (rc_NextRetryAt d) @ omit_str ''dead_lettered_at'' (rc_DeadLetteredAt d)
      @ [(''recorded_at'', JStr (rc_RecordedAt d))])"

text \<open>Without decisions the slice is nil, which marshals as null.\<close>

definition digestPatchQueueRecoveryDecisions :: "PatchQueueRecovery list \<Rightarrow> string" where
  "digestPatchQueueRecoveryDecisions ds = json_digest (if ds = [] then JNull else JArr (map json_recovery ds))"

definition json_rollback_path :: "PatchQueueRollbackPath \<Rightarrow> json" where
  "json_rollback_path p = JObj
     [(''path'', JStr (rp_Path p)), (''source_base_hash'', JStr (rp_SourceBaseHash p)),
      (''source_applied_hash'', JStr (rp_SourceAppliedHash p)), (''rollback_candidate_hash'', JStr (rp_RollbackCandidateHash p))]"

definition json_rollback :: "PatchQueueRollback \<Rightarrow> json" where
  "json_rollback e = JObj
     ([(''schema'', JStr (rb_Schema e)), (''source_operation_id'', JStr (rb_SourceOperationID e)),
       (''source_operation_kind'', JStr (rb_SourceOperationKind e)), (''rollback_operation_id'', JStr (rb_RollbackOperationID e)),
       (''rollback_operation_kind'', JStr (rb_RollbackOperationKind e)), (''reason'', JStr (rb_Reason e)),
       (''source_patch_digest'', JStr (rb_SourcePatchDigest e)), (''rollback_patch_digest'', JStr (rb_RollbackPatchDigest e))]
      @ omit_arr ''rollback_paths'' (map json_rollback_path (rb_RollbackPaths e))
      @ [(''verification_command'', JStr (rb_VerificationCommand e)), (''verification_status'', JStr (rb_VerificationStatus e)),
         (''verification_exit_code'', JInt (rb_VerificationExitCode e)),
         (''verification_output_digest'', JStr (rb_VerificationOutputDigest e))]
      @ omit_str ''verification_output_summary'' (rb_VerificationOutputSummary e)
      @ omit_int ''verification_duration_ms'' (rb_VerificationDurationMillis e)
      @ [(''recorded_at'', JStr (rb_RecordedAt e))])"

definition digestPatchQueueRollbackEvidence :: "PatchQueueRollback \<Rightarrow> string" where
  "digestPatchQueueRollbackEvidence e = json_digest (json_rollback e)"

definition json_advisory :: "PatchQueueReviewerAdvisory \<Rightarrow> json" where
  "json_advisory e = JObj
     ([(''schema'', JStr (ra_Schema e)), (''mode'', JStr (ra_Mode e)), (''verdict'', JStr (ra_Verdict e))]
      @ omit_str ''scope'' (ra_Scope e) @ omit_str ''head_sha'' (ra_HeadSHA e)
      @ (if ra_DefeatsAcceptance e then [(''defeats_acceptance'', JBool True)] else [])
      @ [(''reviewer_id'', JStr (ra_ReviewerID e)), (''review_doc_key'', JStr (ra_ReviewDocKey e)),
         (''operation_id'', JStr (ra_OperationID e)), (''operation_kind'', JStr (ra_OperationKind e)),
         (''cas_patch_digest'', JStr (ra_CASPatchDigest e)), (''cas_evaluation_digest'', JStr (ra_CASEvaluationDigest e)),
         (''rollback_evidence_digest'', JStr (ra_RollbackEvidenceDigest e))]
      @ omit_str ''summary'' (ra_Summary e) @ [(''recorded_at'', JStr (ra_RecordedAt e))])"

definition digestPatchQueueReviewerAdvisory :: "PatchQueueReviewerAdvisory \<Rightarrow> string" where
  "digestPatchQueueReviewerAdvisory e = json_digest (json_advisory e)"

definition json_enablement :: "PatchQueueOperatorEnablement \<Rightarrow> json" where
  "json_enablement e = JObj
     [(''schema'', JStr (oe_Schema e)), (''scope'', JStr (oe_Scope e)), (''enabled'', JBool (oe_Enabled e)),
      (''enabled_by'', JStr (oe_EnabledBy e)), (''enabled_at'', JStr (oe_EnabledAt e)), (''reason'', JStr (oe_Reason e)),
      (''workspace_id'', JStr (oe_WorkspaceID e)), (''project_id'', JStr (oe_ProjectID e)), (''queue_id'', JStr (oe_QueueID e)),
      (''item_id'', JStr (oe_ItemID e)), (''operation_id'', JStr (oe_OperationID e)),
      (''cas_patch_digest'', JStr (oe_CASPatchDigest e)),
      (''rollback_evidence_digest'', JStr (oe_RollbackEvidenceDigest e)),
      (''reviewer_advisory_digest'', JStr (oe_ReviewerAdvisoryDigest e))]"

definition digestPatchQueueOperatorEnablement :: "PatchQueueOperatorEnablement \<Rightarrow> string" where
  "digestPatchQueueOperatorEnablement e = json_digest (json_enablement e)"

text \<open>The exported names of the digests.\<close>

definition PatchQueueCASEvaluationDigest :: "CASPatchApplyResult \<Rightarrow> string" where
  "PatchQueueCASEvaluationDigest = digestCASPatchApplyResult"
definition PatchQueueTestEvidenceDigest :: "PatchQueueTestEvidence \<Rightarrow> string" where
  "PatchQueueTestEvidenceDigest = digestPatchQueueTestEvidence"
definition PatchQueueRollbackEvidenceDigest :: "PatchQueueRollback \<Rightarrow> string" where
  "PatchQueueRollbackEvidenceDigest = digestPatchQueueRollbackEvidence"
definition PatchQueueReviewerAdvisoryDigest :: "PatchQueueReviewerAdvisory \<Rightarrow> string" where
  "PatchQueueReviewerAdvisoryDigest = digestPatchQueueReviewerAdvisory"
definition PatchQueueOperatorEnablementDigest :: "PatchQueueOperatorEnablement \<Rightarrow> string" where
  "PatchQueueOperatorEnablementDigest = digestPatchQueueOperatorEnablement"

subsection \<open>Test evidence\<close>

definition hasPatchQueueTestEvidence :: "PatchQueueTestEvidence \<Rightarrow> bool" where
  "hasPatchQueueTestEvidence e \<longleftrightarrow>
     TrimSpace (te_Schema e) \<noteq> [] \<or> TrimSpace (te_Name e) \<noteq> [] \<or> TrimSpace (te_Command e) \<noteq> [] \<or>
     TrimSpace (te_Status e) \<noteq> [] \<or> te_ExitCode e \<noteq> 0 \<or> TrimSpace (te_OutputDigest e) \<noteq> [] \<or>
     TrimSpace (te_OutputSummary e) \<noteq> [] \<or> te_DurationMillis e \<noteq> 0"

definition validatePatchQueueTestEvidence :: "PatchQueueTestEvidence \<Rightarrow> err option" where
  "validatePatchQueueTestEvidence e = guards
     ([fail_if (te_Schema e \<noteq> PatchQueueTestEvidenceSchemaVersion)
         (Errorf ''test evidence schema must be %q'' [AStr PatchQueueTestEvidenceSchemaVersion])]
      @ map (\<lambda>(field, v). fail_if (TrimSpace v = []) (Errorf ''test evidence %s is required'' [AStr field]))
          [(''name'', te_Name e), (''command'', te_Command e), (''status'', te_Status e), (''output_digest'', te_OutputDigest e)]
      @ [fail_if (\<not> isCanonicalSHA256Digest (te_OutputDigest e))
           (Errorf ''test evidence output_digest must be a canonical sha256 digest'' []),
         fail_if (patchQueueTestOutputSummaryMaxBytes < length (te_OutputSummary e))
           (Errorf ''test evidence output_summary exceeds %d bytes'' [AInt (int patchQueueTestOutputSummaryMaxBytes)]),
         fail_if (te_DurationMillis e < 0) (Errorf ''test evidence duration_ms must be non-negative'' []),
         (if te_Status e = PatchQueueTestStatusPassed then
            fail_if (te_ExitCode e \<noteq> 0) (Errorf ''passed test evidence exit_code must be 0'' [])
          else if te_Status e = PatchQueueTestStatusFailed then
            fail_if (te_ExitCode e = 0) (Errorf ''failed test evidence exit_code must be non-zero'' [])
          else Some (Errorf ''test evidence status %q is not supported'' [AStr (te_Status e)]))])"

text \<open>The evidence and whether there is any: an absent one is not validated.\<close>

definition normalizePatchQueueTestEvidence :: "PatchQueueTestEvidence \<Rightarrow> (PatchQueueTestEvidence \<times> bool) result" where
  "normalizePatchQueueTestEvidence e0 =
     (if \<not> hasPatchQueueTestEvidence e0 then Inr (zero_test_evidence, False)
      else let e = e0\<lparr>te_Schema := (if TrimSpace (te_Schema e0) = [] then PatchQueueTestEvidenceSchemaVersion
                                   else TrimSpace (te_Schema e0)),
                      te_Name := TrimSpace (te_Name e0), te_Command := TrimSpace (te_Command e0),
                      te_Status := TrimSpace (te_Status e0), te_OutputDigest := TrimSpace (te_OutputDigest e0),
                      te_OutputSummary := TrimSpace (te_OutputSummary e0)\<rparr>
      in require (validatePatchQueueTestEvidence e) (Inr (e, True)))"

subsection \<open>Rollback evidence\<close>

text \<open>The applied path results of an item, by path, as the first loop collects them.\<close>

fun collect_applied_paths ::
  "string list \<Rightarrow> nat \<Rightarrow> (string \<times> CASPatchPathResult) list \<Rightarrow> CASPatchPathResult list
   \<Rightarrow> (string \<times> CASPatchPathResult) list result" where
  "collect_applied_paths pathset i applied [] = Inr applied"
| "collect_applied_paths pathset i applied (pr # prs) =
     (case NormalizePath (cp_Path pr) of
        Inl e \<Rightarrow> Inl (Errorf ''rollback evidence CAS path[%d]: %w'' [AInt (int i), AErr e])
      | Inr p \<Rightarrow> require (guards
          [fail_if (cp_Path pr \<noteq> p) (Errorf ''rollback evidence CAS path[%d] is not normalized: got %q want %q''
             [AInt (int i), AStr (cp_Path pr), AStr p]),
           fail_if (cp_Status pr \<noteq> CASPatchStatusApplied)
             (Errorf ''rollback evidence CAS path %q is not applied'' [AStr (cp_Path pr)]),
           fail_if (\<not> pathsetCoversPath pathset (cp_Path pr))
             (Errorf ''rollback evidence CAS path %q is outside patch queue pathset'' [AStr (cp_Path pr)]),
           fail_if (map_of applied (cp_Path pr) \<noteq> None)
             (Errorf ''rollback evidence CAS path %q is duplicated'' [AStr (cp_Path pr)])])
          (collect_applied_paths pathset (Suc i) (applied @ [(cp_Path pr, pr)]) prs))"

definition trim_rollback_path :: "PatchQueueRollbackPath \<Rightarrow> PatchQueueRollbackPath" where
  "trim_rollback_path e = \<lparr>rp_Path = TrimSpace (rp_Path e), rp_SourceBaseHash = TrimSpace (rp_SourceBaseHash e),
     rp_SourceAppliedHash = TrimSpace (rp_SourceAppliedHash e), rp_RollbackCandidateHash = TrimSpace (rp_RollbackCandidateHash e)\<rparr>"

definition complete_rollback_path :: "CASPatchPathResult \<Rightarrow> PatchQueueRollbackPath \<Rightarrow> PatchQueueRollbackPath" where
  "complete_rollback_path pr e = e\<lparr>
     rp_SourceBaseHash := (if rp_SourceBaseHash e = [] then cp_BaseHash pr else rp_SourceBaseHash e),
     rp_SourceAppliedHash := (if rp_SourceAppliedHash e = [] then cp_CandidateHash pr else rp_SourceAppliedHash e),
     rp_RollbackCandidateHash := (if rp_RollbackCandidateHash e = [] then cp_BaseHash pr else rp_RollbackCandidateHash e)\<rparr>"

text \<open>One rollback path: completed from the applied result and checked against it.\<close>

definition normalize_rollback_path ::
  "string list \<Rightarrow> (string \<times> CASPatchPathResult) list \<Rightarrow> nat \<Rightarrow> string list \<Rightarrow> PatchQueueRollbackPath
   \<Rightarrow> PatchQueueRollbackPath result" where
  "normalize_rollback_path pathset applied i seen e0 =
     (let e = trim_rollback_path e0; p = rp_Path e
      in case NormalizePath p of
           Inl err \<Rightarrow> Inl (Errorf ''rollback evidence rollback_paths[%d] path: %w'' [AInt (int i), AErr err])
         | Inr normalized \<Rightarrow> require (guards
             [fail_if (normalized \<noteq> p) (Errorf ''rollback evidence rollback_paths[%d] path is not normalized: got %q want %q''
                [AInt (int i), AStr p, AStr normalized]),
              fail_if (\<not> pathsetCoversPath pathset p) (Errorf ''rollback evidence path %q is outside patch queue pathset'' [AStr p]),
              fail_if (p \<in> set seen) (Errorf ''rollback evidence duplicate path %q'' [AStr p])])
             (case map_of applied p of
                None \<Rightarrow> Inl (Errorf ''rollback evidence path %q requires matching applied CAS path'' [AStr p])
              | Some pr \<Rightarrow>
                  let c = complete_rollback_path pr e
                  in require (guards
                    [fail_if (cp_Status pr \<noteq> CASPatchStatusApplied)
                       (Errorf ''rollback evidence path %q requires matching applied CAS path'' [AStr p]),
                     fail_if (casPatchPathChangeKind pr = CASPatchChangeAdd)
                       (Errorf ''rollback evidence for added path %q requires deletion rollback support'' [AStr p]),
                     fail_if (rp_SourceBaseHash c \<noteq> cp_BaseHash pr)
                       (Errorf ''rollback evidence path %q source_base_hash mismatch'' [AStr p]),
                     fail_if (rp_SourceAppliedHash c \<noteq> cp_CandidateHash pr)
                       (Errorf ''rollback evidence path %q source_applied_hash mismatch'' [AStr p]),
                     fail_if (rp_RollbackCandidateHash c \<noteq> cp_BaseHash pr)
                       (Errorf ''rollback evidence path %q rollback_candidate_hash must restore source base hash'' [AStr p])])
                    (Inr c)))"

fun collect_rollback_paths ::
  "string list \<Rightarrow> (string \<times> CASPatchPathResult) list \<Rightarrow> nat \<Rightarrow> string list \<Rightarrow> PatchQueueRollbackPath list
   \<Rightarrow> PatchQueueRollbackPath list result" where
  "collect_rollback_paths pathset applied i seen [] = Inr []"
| "collect_rollback_paths pathset applied i seen (e # es) =
     bind_result (normalize_rollback_path pathset applied i seen e) (\<lambda>c.
     bind_result (collect_rollback_paths pathset applied (Suc i) (rp_Path c # seen) es) (\<lambda>cs. Inr (c # cs)))"

definition normalizePatchQueueRollbackPaths ::
  "PatchQueueRollbackPath list \<Rightarrow> PatchQueueItem \<Rightarrow> (PatchQueueRollbackPath list \<times> string) result" where
  "normalizePatchQueueRollbackPaths paths current =
     require (guards
       [fail_if (car_Status (pq_CASResult current) \<noteq> CASPatchStatusApplied)
          (Errorf ''rollback evidence requires applied CAS result'' []),
        fail_if (paths = []) (Errorf ''rollback evidence rollback_paths are required'' [])])
     (bind_result (map_err (\<lambda>e. Errorf ''rollback evidence pathset: %w'' [AErr e]) (NormalizePathSet (pq_Pathset current))) (\<lambda>pathset.
      bind_result (collect_applied_paths pathset 0 [] (car_Paths (pq_CASResult current))) (\<lambda>applied.
      bind_result (collect_rollback_paths pathset applied 0 [] paths) (\<lambda>out.
      require (guards
        (map (\<lambda>(p, pr). fail_if (p \<notin> rp_Path ` set out) (Errorf ''rollback evidence missing applied CAS path %q'' [AStr p])) applied
         @ map (\<lambda>p. fail_if (\<not> pathsetEntryIsScoped p \<and> p \<notin> rp_Path ` set out)
             (Errorf ''rollback evidence must cover every patch queue path'' [])) pathset))
      (Inr (sort_key rp_Path out,
            digestCASPatchCandidates (sort_key ce_path
              (map (\<lambda>c. \<lparr>ce_path = rp_Path c, ce_hash = rp_RollbackCandidateHash c\<rparr>) out))))))))"

definition trim_rollback :: "PatchQueueRollback \<Rightarrow> PatchQueueRollback" where
  "trim_rollback e = e\<lparr>
     rb_Schema := (if TrimSpace (rb_Schema e) = [] then PatchQueueRollbackSchemaVersion else TrimSpace (rb_Schema e)),
     rb_SourceOperationID := TrimSpace (rb_SourceOperationID e), rb_SourceOperationKind := TrimSpace (rb_SourceOperationKind e),
     rb_RollbackOperationID := TrimSpace (rb_RollbackOperationID e), rb_RollbackOperationKind := TrimSpace (rb_RollbackOperationKind e),
     rb_Reason := TrimSpace (rb_Reason e), rb_SourcePatchDigest := TrimSpace (rb_SourcePatchDigest e),
     rb_RollbackPatchDigest := TrimSpace (rb_RollbackPatchDigest e), rb_VerificationCommand := TrimSpace (rb_VerificationCommand e),
     rb_VerificationStatus := TrimSpace (rb_VerificationStatus e),
     rb_VerificationOutputDigest := TrimSpace (rb_VerificationOutputDigest e),
     rb_VerificationOutputSummary := TrimSpace (rb_VerificationOutputSummary e)\<rparr>"

definition default_rollback :: "PatchQueueItem \<Rightarrow> Context \<Rightarrow> instant \<Rightarrow> PatchQueueRollback \<Rightarrow> PatchQueueRollback" where
  "default_rollback current authority now e = e\<lparr>
     rb_SourceOperationID := (if rb_SourceOperationID e = [] then pq_OperationID current else rb_SourceOperationID e),
     rb_SourceOperationKind := (if rb_SourceOperationKind e = [] then pq_OperationKind current else rb_SourceOperationKind e),
     rb_RollbackOperationID := (if rb_RollbackOperationID e = [] then op_ID (ctx_Operation authority) else rb_RollbackOperationID e),
     rb_RollbackOperationKind := (if rb_RollbackOperationKind e = [] then op_Kind (ctx_Operation authority) else rb_RollbackOperationKind e),
     rb_SourcePatchDigest := (if rb_SourcePatchDigest e = [] then pq_CASPatchDigest current else rb_SourcePatchDigest e),
     rb_RecordedAt := formatLeaseTime now\<rparr>"

definition check_rollback :: "PatchQueueItem \<Rightarrow> Context \<Rightarrow> string \<Rightarrow> PatchQueueRollback \<Rightarrow> err option" where
  "check_rollback current authority rollbackPatchDigest e = guards
     ([fail_if (rb_Schema e \<noteq> PatchQueueRollbackSchemaVersion)
         (Errorf ''rollback evidence schema must be %q'' [AStr PatchQueueRollbackSchemaVersion])]
      @ map (\<lambda>(field, v). fail_if (TrimSpace v = []) (Errorf ''rollback evidence %s is required'' [AStr field]))
          [(''source_operation_id'', rb_SourceOperationID e), (''source_operation_kind'', rb_SourceOperationKind e),
           (''rollback_operation_id'', rb_RollbackOperationID e), (''rollback_operation_kind'', rb_RollbackOperationKind e),
           (''reason'', rb_Reason e), (''source_patch_digest'', rb_SourcePatchDigest e),
           (''rollback_patch_digest'', rb_RollbackPatchDigest e), (''verification_command'', rb_VerificationCommand e),
           (''verification_status'', rb_VerificationStatus e), (''verification_output_digest'', rb_VerificationOutputDigest e)]
      @ [fail_if (rb_SourceOperationID e \<noteq> pq_OperationID current \<or> rb_SourceOperationKind e \<noteq> pq_OperationKind current)
           (Errorf ''rollback evidence source operation must match applied patch queue item'' []),
         fail_if (rb_RollbackOperationID e \<noteq> op_ID (ctx_Operation authority) \<or> rb_RollbackOperationKind e \<noteq> op_Kind (ctx_Operation authority))
           (Errorf ''rollback evidence operation must match rollback context'' []),
         fail_if (rb_RollbackOperationID e = rb_SourceOperationID e)
           (Errorf ''rollback evidence rollback operation must be distinct from source operation'' []),
         fail_if (rb_SourcePatchDigest e \<noteq> pq_CASPatchDigest current)
           (Errorf ''rollback evidence source_patch_digest must match applied patch digest'' []),
         fail_if (\<not> isCanonicalSHA256Digest (rb_SourcePatchDigest e))
           (Errorf ''rollback evidence source_patch_digest must be a canonical sha256 digest'' []),
         fail_if (\<not> isCanonicalSHA256Digest (rb_RollbackPatchDigest e))
           (Errorf ''rollback evidence rollback_patch_digest must be a canonical sha256 digest'' []),
         fail_if (rb_RollbackPatchDigest e \<noteq> rollbackPatchDigest)
           (Errorf ''rollback evidence rollback_patch_digest mismatch: got %q want %q'' [AStr (rb_RollbackPatchDigest e), AStr rollbackPatchDigest]),
         fail_if (\<not> isCanonicalSHA256Digest (rb_VerificationOutputDigest e))
           (Errorf ''rollback evidence verification_output_digest must be a canonical sha256 digest'' []),
         fail_if (patchQueueRecoveryReasonMaxBytes < length (rb_Reason e))
           (Errorf ''rollback evidence reason exceeds %d bytes'' [AInt (int patchQueueRecoveryReasonMaxBytes)]),
         fail_if (patchQueueTestOutputSummaryMaxBytes < length (rb_VerificationOutputSummary e))
           (Errorf ''rollback evidence verification_output_summary exceeds %d bytes'' [AInt (int patchQueueTestOutputSummaryMaxBytes)]),
         fail_if (rb_VerificationDurationMillis e < 0) (Errorf ''rollback evidence verification_duration_ms must be non-negative'' []),
         fail_if (rb_VerificationStatus e \<noteq> PatchQueueTestStatusPassed)
           (Errorf ''rollback evidence verification_status must be %q'' [AStr PatchQueueTestStatusPassed]),
         fail_if (rb_VerificationExitCode e \<noteq> 0) (Errorf ''rollback evidence verification_exit_code must be 0'' [])])"

definition normalizePatchQueueRollbackEvidence ::
  "PatchQueueRollback \<Rightarrow> PatchQueueItem \<Rightarrow> Context \<Rightarrow> instant \<Rightarrow> PatchQueueRollback result" where
  "normalizePatchQueueRollbackEvidence e0 current authority now =
     (let e = default_rollback current authority now (trim_rollback e0)
      in bind_result (normalizePatchQueueRollbackPaths (rb_RollbackPaths e) current) (\<lambda>(paths, digest).
         let e' = e\<lparr>rb_RollbackPaths := paths,
                    rb_RollbackPatchDigest := (if rb_RollbackPatchDigest e = [] then digest else rb_RollbackPatchDigest e)\<rparr>
         in require (check_rollback current authority digest e') (Inr e')))"

text \<open>The exported form, with an operation in place of a whole context.\<close>

definition zero_context :: Context where
  "zero_context = \<lparr>ctx_Schema = [], ctx_Mode = [], ctx_WorkspaceID = [], ctx_TaskID = [], ctx_SessionID = [], ctx_RunID = [],
     ctx_AgentID = [], ctx_Principal = \<lparr>pr_Type = [], pr_ID = []\<rparr>, ctx_CapabilitySnapshot = \<lparr>cs_ID = [], cs_Schema = []\<rparr>,
     ctx_RepoRoot = [], ctx_Base = \<lparr>base_Ref = [], base_TreeHash = [], base_FileHashes = []\<rparr>, ctx_Pathset = [],
     ctx_Lease = \<lparr>lr_ID = [], lr_Term = 0\<rparr>, ctx_PatchQueue = \<lparr>pqr_QueueID = [], pqr_ItemID = []\<rparr>,
     ctx_Operation = \<lparr>op_ID = [], op_Kind = []\<rparr>\<rparr>"

definition NormalizePatchQueueRollbackEvidence ::
  "PatchQueueRollback \<Rightarrow> PatchQueueItem \<Rightarrow> OperationRef \<Rightarrow> instant \<Rightarrow> PatchQueueRollback result" where
  "NormalizePatchQueueRollbackEvidence e current rollbackOperation now =
     normalizePatchQueueRollbackEvidence e current
       (zero_context\<lparr>ctx_Operation := \<lparr>op_ID = TrimSpace (op_ID rollbackOperation), op_Kind = TrimSpace (op_Kind rollbackOperation)\<rparr>\<rparr>) now"

end
