(* ===== verification/Patch_Queue.thy ===== *)
theory Patch_Queue
  imports Queue_Item
begin

section \<open>The patch queue\<close>

text \<open>
  The operations of \<open>PatchQueueStore\<close> (\<open>internal/repoauthority/patch_queue.go\<close>). The store is the map
  from \<open>patchQueueKey\<close> to items; the lease store that the inputs point to is an argument of its own,
  returned as the call leaves it, since an authorisation expires leases. A call under the mutex is
  one step. When the \<open>Now\<close> of an input is the zero time the code reads the clock, once for the queue
  (\<open>wall\<close>) and once more in the lease store (\<open>lwall\<close>).
\<close>

record PatchQueueStore =
  qs_items :: "(string \<times> PatchQueueItem) list"

record ProposePatchQueueItemInput =
  pi_Context :: Context
  pi_Now :: instant
  pi_MaxAttempts :: int

record PatchQueueTransitionInput =
  ti_QueueID :: string
  ti_ItemID :: string
  ti_Context :: Context
  ti_Now :: instant

record StartPatchQueueRetryValidationInput =
  sr_QueueID :: string
  sr_ItemID :: string
  sr_Context :: Context
  sr_Now :: instant

record CompletePatchQueueValidationInput =
  vi_QueueID :: string
  vi_ItemID :: string
  vi_Context :: Context
  vi_CASResult :: CASPatchApplyResult
  vi_TestEvidence :: PatchQueueTestEvidence
  vi_Now :: instant

record RecordPatchQueueRecoveryInput =
  ri_QueueID :: string
  ri_ItemID :: string
  ri_Context :: Context
  ri_Reason :: string
  ri_RetryDelay :: int
  ri_Now :: instant

record RecordPatchQueueRollbackInput =
  bki_QueueID :: string
  bki_ItemID :: string
  bki_Context :: Context
  bki_Evidence :: PatchQueueRollback
  bki_Now :: instant

definition NewPatchQueueStore :: PatchQueueStore where
  "NewPatchQueueStore = \<lparr>qs_items = []\<rparr>"

subsection \<open>Checks shared by the operations\<close>

definition requirePatchQueueProposalRefs :: "Context \<Rightarrow> err option" where
  "requirePatchQueueProposalRefs authority = guards
     [fail_if (TrimSpace (op_ID (ctx_Operation authority)) \<noteq> [] \<or> TrimSpace (op_Kind (ctx_Operation authority)) \<noteq> [])
        (Errorf ''patch queue proposal context must not attach operation refs'' []),
      wrap_err ''repo authority context: %w'' (Context_Validate authority),
      rejectVagueBindingLabel ''repo_lease_id'' (lr_ID (ctx_Lease authority)),
      fail_if (lr_Term (ctx_Lease authority) \<le> 0) (Errorf ''lease_term is required'' []),
      rejectVagueBindingLabel ''patch_queue_id'' (pqr_QueueID (ctx_PatchQueue authority)),
      rejectVagueBindingLabel ''patch_queue_item_id'' (pqr_ItemID (ctx_PatchQueue authority))]"

definition verifyPatchQueueLeaseAuthority ::
  "instant \<Rightarrow> Context \<Rightarrow> instant \<Rightarrow> FileLeaseStore option \<Rightarrow> err option \<times> FileLeaseStore option" where
  "verifyPatchQueueLeaseAuthority lwall authority now ls =
     (case ls of
        None \<Rightarrow> (Some (Errorf ''file lease store is required'' []), None)
      | Some store \<Rightarrow>
          (case bind_result (findBindingLease store (lr_ID (ctx_Lease authority))) (\<lambda>lease.
                  require (guards [verifyMutationBindingContext authority lease,
                                   verifyLeaseAcquisitionContextDigest authority lease]) (Inr lease)) of
             Inl e \<Rightarrow> (Some e, Some store)
           | Inr lease \<Rightarrow>
               (case AuthorizeMutation lwall
                       \<lparr>au_LeaseID = lr_ID (ctx_Lease authority), au_Term = lr_Term (ctx_Lease authority),
                        au_Holder = HolderForLease lease, au_Paths = ctx_Pathset authority, au_Now = now\<rparr> store of
                  (r, store') \<Rightarrow> (r, Some store'))))"

definition verifyPatchQueueItemContext :: "PatchQueueItem \<Rightarrow> Context \<Rightarrow> err option" where
  "verifyPatchQueueItemContext item authority =
     (case patchQueueContextDigest authority of
        Inl e \<Rightarrow> Some e
      | Inr queueDigest \<Rightarrow> guards
          [fail_if (queueDigest \<noteq> pq_ContextDigest item)
             (Errorf ''patch queue context digest mismatch: got %q want %q'' [AStr queueDigest, AStr (pq_ContextDigest item)]),
           fail_if (TrimSpace (pqr_QueueID (ctx_PatchQueue authority)) \<noteq> pq_QueueID item)
             (Errorf ''patch_queue_id mismatch: got %q want %q'' [AStr (pqr_QueueID (ctx_PatchQueue authority)), AStr (pq_QueueID item)]),
           fail_if (TrimSpace (pqr_ItemID (ctx_PatchQueue authority)) \<noteq> pq_ItemID item)
             (Errorf ''patch_queue_item_id mismatch: got %q want %q'' [AStr (pqr_ItemID (ctx_PatchQueue authority)), AStr (pq_ItemID item)]),
           fail_if (TrimSpace (lr_ID (ctx_Lease authority)) \<noteq> pq_RepoLeaseID item)
             (Errorf ''repo_lease_id mismatch: got %q want %q'' [AStr (lr_ID (ctx_Lease authority)), AStr (pq_RepoLeaseID item)]),
           fail_if (lr_Term (ctx_Lease authority) \<noteq> pq_LeaseTerm item)
             (Errorf ''lease_term mismatch: got %d want %d'' [AInt (lr_Term (ctx_Lease authority)), AInt (pq_LeaseTerm item)]),
           (case NormalizePathSet (ctx_Pathset authority) of
              Inl e \<Rightarrow> Some (Errorf ''patch queue context pathset: %w'' [AErr e])
            | Inr pathset \<Rightarrow> fail_if (\<not> sameStringSlice pathset (pq_Pathset item))
                (Errorf ''patch queue pathset mismatch: got %#v want %#v'' [AList pathset, AList (pq_Pathset item)]))])"

text \<open>The identifiers of a request, refused when they are empty or vague, and the item they name.\<close>

definition request_ids :: "string \<Rightarrow> string \<Rightarrow> Context \<Rightarrow> (string \<times> string) result" where
  "request_ids queueID0 itemID0 authority =
     (case patchQueueInputIDs queueID0 itemID0 authority of (queueID, itemID) \<Rightarrow>
        require (guards [rejectVagueBindingLabel ''patch_queue_id'' queueID,
                         rejectVagueBindingLabel ''patch_queue_item_id'' itemID]) (Inr (queueID, itemID)))"

definition find_item :: "PatchQueueStore \<Rightarrow> string \<times> string \<Rightarrow> PatchQueueItem result" where
  "find_item q ids =
     (case ids of (queueID, itemID) \<Rightarrow>
        (case map_of (qs_items q) (patchQueueKey queueID itemID) of
           None \<Rightarrow> Inl (Errorf ''patch queue item %s/%s not found'' [AStr queueID, AStr itemID])
         | Some item \<Rightarrow> Inr item))"

definition put_item :: "string \<times> string \<Rightarrow> PatchQueueItem \<Rightarrow> PatchQueueStore \<Rightarrow> PatchQueueStore" where
  "put_item ids item q = (case ids of (queueID, itemID) \<Rightarrow>
     q\<lparr>qs_items := AList.update (patchQueueKey queueID itemID) item (qs_items q)\<rparr>)"

text \<open>A call that touches only the queue: the checks give the identifiers and the next item, or an error.\<close>

definition run_queue ::
  "((string \<times> string) \<times> PatchQueueItem) result \<Rightarrow> PatchQueueStore \<Rightarrow> PatchQueueItem result \<times> PatchQueueStore" where
  "run_queue r q = (case r of Inl e \<Rightarrow> (Inl e, q) | Inr (ids, item) \<Rightarrow> (Inr item, put_item ids item q))"

text \<open>A nil queue store: every method refuses it before it does anything.\<close>

definition on_queue ::
  "(PatchQueueStore \<Rightarrow> PatchQueueItem result \<times> PatchQueueStore \<times> 's) \<Rightarrow> 's \<Rightarrow> PatchQueueStore option
   \<Rightarrow> PatchQueueItem result \<times> PatchQueueStore option \<times> 's" where
  "on_queue f ls q =
     (case q of
        None \<Rightarrow> (Inl (Errorf ''patch queue store is required'' []), None, ls)
      | Some st \<Rightarrow> (case f st of (r, st', ls') \<Rightarrow> (r, Some st', ls')))"

subsection \<open>Propose\<close>

definition new_item :: "ProposePatchQueueItemInput \<Rightarrow> Context \<Rightarrow> string \<Rightarrow> string list \<Rightarrow> instant \<Rightarrow> PatchQueueItem" where
  "new_item input authority contextDigest pathset now =
     \<lparr>pq_Schema = PatchQueueItemSchemaVersion,
      pq_ID = buildPatchQueueItemID (pqr_QueueID (ctx_PatchQueue authority)) (pqr_ItemID (ctx_PatchQueue authority)) contextDigest,
      pq_QueueID = TrimSpace (pqr_QueueID (ctx_PatchQueue authority)), pq_ItemID = TrimSpace (pqr_ItemID (ctx_PatchQueue authority)),
      pq_ReviewDocKey = [], pq_State = PatchQueueStateProposed, pq_Attempt = 1,
      pq_MaxAttempts = normalizePatchQueueMaxAttempts (pi_MaxAttempts input), pq_NextRetryAt = [], pq_DeadLetteredAt = [],
      pq_ContextDigest = contextDigest, pq_RepoLeaseID = TrimSpace (lr_ID (ctx_Lease authority)),
      pq_LeaseTerm = lr_Term (ctx_Lease authority), pq_Pathset = pathset, pq_WorkspaceID = ctx_WorkspaceID authority,
      pq_ProjectID = [], pq_TaskID = ctx_TaskID authority, pq_SessionID = ctx_SessionID authority, pq_RunID = ctx_RunID authority,
      pq_AgentID = ctx_AgentID authority, pq_PrincipalType = pr_Type (ctx_Principal authority),
      pq_PrincipalID = pr_ID (ctx_Principal authority), pq_CapabilitySnapshotID = cs_ID (ctx_CapabilitySnapshot authority),
      pq_CapabilitySnapshotSchema = cs_Schema (ctx_CapabilitySnapshot authority), pq_BaseRef = base_Ref (ctx_Base authority),
      pq_BaseTreeHash = base_TreeHash (ctx_Base authority), pq_CASResult = zero_cas_result, pq_CASPatchDigest = [],
      pq_CASEvaluationDigest = [], pq_ConflictIssues = [], pq_TestEvidence = zero_test_evidence, pq_TestEvidenceDigest = [],
      pq_RecoveryDecisions = [], pq_RecoveryDecisionDigest = [], pq_RollbackEvidence = zero_rollback,
      pq_RollbackEvidenceDigest = [], pq_ReviewerAdvisory = zero_advisory, pq_ReviewerAdvisoryDigest = [],
      pq_OperatorEnablement = zero_enablement, pq_OperatorEnablementDigest = [], pq_OperationID = [], pq_OperationKind = [],
      pq_CreatedAt = formatLeaseTime now, pq_UpdatedAt = formatLeaseTime now\<rparr>"

text \<open>What follows the lease check: the new item, unless its key is taken.\<close>

definition propose_item ::
  "ProposePatchQueueItemInput \<Rightarrow> Context \<Rightarrow> instant \<Rightarrow> PatchQueueStore \<Rightarrow> ((string \<times> string) \<times> PatchQueueItem) result" where
  "propose_item input authority now q =
     bind_result (patchQueueContextDigest authority) (\<lambda>contextDigest.
     bind_result (map_err (\<lambda>e. Errorf ''patch queue pathset: %w'' [AErr e]) (NormalizePathSet (ctx_Pathset authority))) (\<lambda>pathset.
     let item = new_item input authority contextDigest pathset now
     in require (fail_if (map_of (qs_items q) (patchQueueKey (pq_QueueID item) (pq_ItemID item)) \<noteq> None)
          (Errorf ''patch queue item %s/%s already exists'' [AStr (pq_QueueID item), AStr (pq_ItemID item)]))
        (Inr ((pq_QueueID item, pq_ItemID item), item))))"

definition Propose ::
  "instant \<Rightarrow> instant \<Rightarrow> ProposePatchQueueItemInput \<Rightarrow> FileLeaseStore option \<Rightarrow> PatchQueueStore
   \<Rightarrow> PatchQueueItem result \<times> PatchQueueStore \<times> FileLeaseStore option" where
  "Propose wall lwall input ls q =
     (let authority = WithDefaults (pi_Context input)
      in case requirePatchQueueProposalRefs authority of
           Some e \<Rightarrow> (Inl e, q, ls)
         | None \<Rightarrow>
             (case verifyPatchQueueLeaseAuthority lwall authority (pi_Now input) ls of
                (Some e, ls') \<Rightarrow> (Inl e, q, ls')
              | (None, ls') \<Rightarrow>
                  (case run_queue (propose_item input authority (normalizeLeaseTime wall (pi_Now input)) q) q of
                     (r, q') \<Rightarrow> (r, q', ls'))))"

subsection \<open>Transitions without evidence\<close>

definition start_guard :: "PatchQueueItem \<Rightarrow> string \<Rightarrow> err option" where
  "start_guard current nextState =
     fail_if (pq_State current \<noteq> PatchQueueStateProposed \<or> nextState \<noteq> PatchQueueStateValidating)
       (Errorf ''illegal patch queue transition %s -> %s'' [AStr (pq_State current), AStr nextState])"

definition cancel_guard :: "PatchQueueItem \<Rightarrow> err option" where
  "cancel_guard current =
     fail_if (pq_State current \<noteq> PatchQueueStateProposed \<and> pq_State current \<noteq> PatchQueueStateValidating)
       (Errorf ''illegal patch queue transition %s -> %s'' [AStr (pq_State current), AStr PatchQueueStateCanceled])"

definition transition ::
  "instant \<Rightarrow> PatchQueueTransitionInput \<Rightarrow> string \<Rightarrow> (PatchQueueItem \<Rightarrow> err option) option \<Rightarrow> PatchQueueStore
   \<Rightarrow> PatchQueueItem result \<times> PatchQueueStore" where
  "transition wall input nextState guard q =
     (let authority = WithDefaults (ti_Context input)
      in run_queue
        (bind_result (request_ids (ti_QueueID input) (ti_ItemID input) authority) (\<lambda>ids.
         bind_result (find_item q ids) (\<lambda>current.
         require (verifyPatchQueueItemContext current authority)
        (require (case guard of Some g \<Rightarrow> g current | None \<Rightarrow> start_guard current nextState)
        (Inr (ids, current\<lparr>pq_State := nextState,
                           pq_UpdatedAt := formatLeaseTime (normalizeLeaseTime wall (ti_Now input))\<rparr>)))))) q)"

definition StartValidation :: "instant \<Rightarrow> PatchQueueTransitionInput \<Rightarrow> PatchQueueStore \<Rightarrow> PatchQueueItem result \<times> PatchQueueStore" where
  "StartValidation wall input q = transition wall input PatchQueueStateValidating None q"

definition Cancel :: "instant \<Rightarrow> PatchQueueTransitionInput \<Rightarrow> PatchQueueStore \<Rightarrow> PatchQueueItem result \<times> PatchQueueStore" where
  "Cancel wall input q = transition wall input PatchQueueStateCanceled (Some cancel_guard) q"

subsection \<open>Retry\<close>

text \<open>The detail of a parse error of package time, after the quoted value, is left out.\<close>

definition retry_due :: "PatchQueueItem \<Rightarrow> instant \<Rightarrow> err option" where
  "retry_due current now =
     (if TrimSpace (pq_NextRetryAt current) = [] then Some (Errorf ''retry_pending patch queue item requires next_retry_at'' [])
      else case time_Parse (pq_NextRetryAt current) of
        None \<Rightarrow> Some (Errorf ''retry_pending patch queue item has invalid next_retry_at: %w''
                  [AErr (Errorf ''parsing time %q'' [AStr (pq_NextRetryAt current)])])
      | Some nextRetryAt \<Rightarrow> fail_if (now < nextRetryAt)
          (Errorf ''retry_pending patch queue item is not retryable until %s'' [AStr (pq_NextRetryAt current)]))"

definition retry_item :: "PatchQueueItem \<Rightarrow> instant \<Rightarrow> PatchQueueItem" where
  "retry_item current now = current\<lparr>pq_State := PatchQueueStateValidating,
     pq_Attempt := wrap64 (normalizePatchQueueAttempt (pq_Attempt current) + 1), pq_NextRetryAt := [],
     pq_CASResult := zero_cas_result, pq_CASPatchDigest := [], pq_CASEvaluationDigest := [], pq_ConflictIssues := [],
     pq_TestEvidence := zero_test_evidence, pq_TestEvidenceDigest := [], pq_UpdatedAt := formatLeaseTime now\<rparr>"

definition retry_request ::
  "StartPatchQueueRetryValidationInput \<Rightarrow> Context \<Rightarrow> instant \<Rightarrow> PatchQueueStore \<Rightarrow> ((string \<times> string) \<times> PatchQueueItem) result" where
  "retry_request input authority now q =
     bind_result (request_ids (sr_QueueID input) (sr_ItemID input) authority) (\<lambda>ids.
     bind_result (find_item q ids) (\<lambda>current.
     require (fail_if (pq_State current \<noteq> PatchQueueStateRetryPending)
        (Errorf ''illegal patch queue transition %s -> %s'' [AStr (pq_State current), AStr PatchQueueStateValidating]))
    (require (verifyPatchQueueItemContext current authority)
    (require (retry_due current now) (Inr (ids, current))))))"

definition StartRetryValidation ::
  "instant \<Rightarrow> instant \<Rightarrow> StartPatchQueueRetryValidationInput \<Rightarrow> FileLeaseStore option \<Rightarrow> PatchQueueStore
   \<Rightarrow> PatchQueueItem result \<times> PatchQueueStore \<times> FileLeaseStore option" where
  "StartRetryValidation wall lwall input ls q =
     (let authority = WithDefaults (sr_Context input); now = normalizeLeaseTime wall (sr_Now input)
      in case retry_request input authority now q of
           Inl e \<Rightarrow> (Inl e, q, ls)
         | Inr (ids, current) \<Rightarrow>
             (case verifyPatchQueueLeaseAuthority lwall authority (sr_Now input) ls of
                (Some e, ls') \<Rightarrow> (Inl e, q, ls')
              | (None, ls') \<Rightarrow>
                  (case run_queue (Inr (ids, retry_item current now)) q of (r, q') \<Rightarrow> (r, q', ls'))))"

subsection \<open>The outcome of a validation\<close>

definition completed_item :: "CASPatchApplyResult \<Rightarrow> PatchQueueTestEvidence \<Rightarrow> bool \<Rightarrow> instant \<Rightarrow> PatchQueueItem \<Rightarrow> PatchQueueItem" where
  "completed_item result testEvidence hasTestEvidence now current = current\<lparr>pq_CASResult := result,
     pq_CASPatchDigest := TrimSpace (car_PatchDigest result), pq_CASEvaluationDigest := digestCASPatchApplyResult result,
     pq_TestEvidence := (if hasTestEvidence then testEvidence else zero_test_evidence),
     pq_TestEvidenceDigest := (if hasTestEvidence then digestPatchQueueTestEvidence testEvidence else []),
     pq_UpdatedAt := formatLeaseTime now\<rparr>"

text \<open>The checks before the outcome is decided: the evidence, the item and its context.\<close>

definition complete_request ::
  "CompletePatchQueueValidationInput \<Rightarrow> Context \<Rightarrow> PatchQueueStore
   \<Rightarrow> ((string \<times> string) \<times> PatchQueueItem \<times> PatchQueueTestEvidence \<times> bool) result" where
  "complete_request input authority q =
     bind_result (request_ids (vi_QueueID input) (vi_ItemID input) authority) (\<lambda>ids.
     require (validateCASEvidence (vi_CASResult input) authority)
    (bind_result (normalizePatchQueueTestEvidence (vi_TestEvidence input)) (\<lambda>(testEvidence, hasTestEvidence).
     require (fail_if (hasTestEvidence \<and> car_Status (vi_CASResult input) \<noteq> CASPatchStatusApplied)
        (Errorf ''patch queue test evidence requires applied CAS evidence, got %q'' [AStr (car_Status (vi_CASResult input))]))
    (bind_result (find_item q ids) (\<lambda>current.
     require (fail_if (pq_State current \<noteq> PatchQueueStateValidating)
        (Errorf ''illegal patch queue transition %s -> terminal'' [AStr (pq_State current)]))
    (require (verifyPatchQueueItemContext current authority) (Inr (ids, current, testEvidence, hasTestEvidence))))))))"

definition CompleteValidation ::
  "instant \<Rightarrow> instant \<Rightarrow> CompletePatchQueueValidationInput \<Rightarrow> FileLeaseStore option \<Rightarrow> PatchQueueStore
   \<Rightarrow> PatchQueueItem result \<times> PatchQueueStore \<times> FileLeaseStore option" where
  "CompleteValidation wall lwall input ls q =
     (let authority = WithDefaults (vi_Context input); result = vi_CASResult input
      in case complete_request input authority q of
           Inl e \<Rightarrow> (Inl e, q, ls)
         | Inr (ids, current, testEvidence, hasTestEvidence) \<Rightarrow>
             let item = completed_item result testEvidence hasTestEvidence (normalizeLeaseTime wall (vi_Now input)) current;
                 finish = (\<lambda>item ls. (Inr item, put_item ids item q, ls))
             in if car_Status result = CASPatchStatusApplied then
                  (if hasTestEvidence \<and> te_Status testEvidence = PatchQueueTestStatusFailed
                   then finish (item\<lparr>pq_State := PatchQueueStateTestConflict\<rparr>) ls
                   else case requireConcreteMutationOperationRefs authority of
                     Some e \<Rightarrow> (Inl (Errorf ''applied patch queue item requires B1.7-ready refs: %w'' [AErr e]), q, ls)
                   | None \<Rightarrow>
                       (case BindMutationOperation lwall
                               \<lparr>bi_Context = authority, bi_MutationPaths = pq_Pathset current, bi_Now = vi_Now input\<rparr> ls of
                          (Inl e, ls') \<Rightarrow>
                            (Inl (Errorf ''applied patch queue item requires live mutation operation binding: %w'' [AErr e]), q, ls')
                        | (Inr _, ls') \<Rightarrow>
                            finish (item\<lparr>pq_State := PatchQueueStateApplied,
                              pq_OperationID := TrimSpace (op_ID (ctx_Operation authority)),
                              pq_OperationKind := TrimSpace (op_Kind (ctx_Operation authority))\<rparr>) ls'))
                else if car_Status result = CASPatchStatusConflict then
                  finish (item\<lparr>pq_State := PatchQueueStateConflict, pq_ConflictIssues := conflictIssuesFromCAS result\<rparr>) ls
                else if car_Status result = CASPatchStatusFailed then finish (item\<lparr>pq_State := PatchQueueStateFailed\<rparr>) ls
                else (Inl (Errorf ''unsupported CAS status %q'' [AStr (car_Status result)]), q, ls))"

subsection \<open>Recovery decisions\<close>

definition recovery_item :: "string \<Rightarrow> int \<Rightarrow> instant \<Rightarrow> PatchQueueItem \<Rightarrow> PatchQueueItem" where
  "recovery_item reason delay now current =
     (let attempt = normalizePatchQueueAttempt (pq_Attempt current);
          maxAttempts = normalizePatchQueueMaxAttempts (pq_MaxAttempts current);
          retry = attempt < maxAttempts;
          decision = \<lparr>rc_Schema = PatchQueueRecoverySchemaVersion,
            rc_Decision = (if retry then PatchQueueRecoveryDecisionRetry else PatchQueueRecoveryDecisionDeadLetter),
            rc_SourceState = pq_State current, rc_Reason = reason, rc_Attempt = attempt, rc_MaxAttempts = maxAttempts,
            rc_Retryable = retry, rc_NextRetryAt = (if retry then formatLeaseTime (now + delay) else []),
            rc_DeadLetteredAt = (if retry then [] else formatLeaseTime now), rc_RecordedAt = formatLeaseTime now\<rparr>;
          decisions = pq_RecoveryDecisions current @ [decision]
      in current\<lparr>pq_State := (if retry then PatchQueueStateRetryPending else PatchQueueStateDeadLetter),
           pq_NextRetryAt := rc_NextRetryAt decision, pq_DeadLetteredAt := rc_DeadLetteredAt decision,
           pq_Attempt := attempt, pq_MaxAttempts := maxAttempts, pq_RecoveryDecisions := decisions,
           pq_RecoveryDecisionDigest := digestPatchQueueRecoveryDecisions decisions, pq_UpdatedAt := formatLeaseTime now\<rparr>)"

definition RecordRecoveryDecision ::
  "instant \<Rightarrow> RecordPatchQueueRecoveryInput \<Rightarrow> PatchQueueStore \<Rightarrow> PatchQueueItem result \<times> PatchQueueStore" where
  "RecordRecoveryDecision wall input q =
     (let authority = WithDefaults (ri_Context input)
      in run_queue
        (bind_result (request_ids (ri_QueueID input) (ri_ItemID input) authority) (\<lambda>ids.
         bind_result (normalizePatchQueueRecoveryReason (ri_Reason input)) (\<lambda>reason.
         require (fail_if (ri_RetryDelay input < 0) (Errorf ''patch queue retry_delay must be non-negative'' []))
        (bind_result (find_item q ids) (\<lambda>current.
         require (fail_if (\<not> patchQueueTerminalFailureState (pq_State current))
            (Errorf ''illegal patch queue recovery decision from state %s'' [AStr (pq_State current)]))
        (require (verifyPatchQueueItemContext current authority)
        (Inr (ids, recovery_item reason (ri_RetryDelay input) (normalizeLeaseTime wall (ri_Now input)) current)))))))) q)"

subsection \<open>Rollback\<close>

definition rolled_back_item :: "PatchQueueRollback \<Rightarrow> instant \<Rightarrow> PatchQueueItem \<Rightarrow> PatchQueueItem" where
  "rolled_back_item evidence now current = current\<lparr>pq_State := PatchQueueStateRolledBack, pq_RollbackEvidence := evidence,
     pq_RollbackEvidenceDigest := digestPatchQueueRollbackEvidence evidence, pq_UpdatedAt := formatLeaseTime now\<rparr>"

definition rollback_request ::
  "RecordPatchQueueRollbackInput \<Rightarrow> Context \<Rightarrow> instant \<Rightarrow> PatchQueueStore
   \<Rightarrow> ((string \<times> string) \<times> PatchQueueItem \<times> PatchQueueRollback) result" where
  "rollback_request input authority now q =
     bind_result (request_ids (bki_QueueID input) (bki_ItemID input) authority) (\<lambda>ids.
     require (wrap_err ''rolled back patch queue item requires B1.7-ready refs: %w'' (requireConcreteMutationOperationRefs authority))
    (bind_result (find_item q ids) (\<lambda>current.
     require (fail_if (pq_State current \<noteq> PatchQueueStateApplied)
        (Errorf ''illegal patch queue rollback from state %s'' [AStr (pq_State current)]))
    (require (verifyPatchQueueItemContext current authority)
    (bind_result (normalizePatchQueueRollbackEvidence (bki_Evidence input) current authority now) (\<lambda>evidence.
     Inr (ids, current, evidence)))))))"

definition RecordRollback ::
  "instant \<Rightarrow> instant \<Rightarrow> RecordPatchQueueRollbackInput \<Rightarrow> FileLeaseStore option \<Rightarrow> PatchQueueStore
   \<Rightarrow> PatchQueueItem result \<times> PatchQueueStore \<times> FileLeaseStore option" where
  "RecordRollback wall lwall input ls q =
     (let authority = WithDefaults (bki_Context input); now = normalizeLeaseTime wall (bki_Now input)
      in case rollback_request input authority now q of
           Inl e \<Rightarrow> (Inl e, q, ls)
         | Inr (ids, current, evidence) \<Rightarrow>
             (case BindMutationOperation lwall
                     \<lparr>bi_Context = authority, bi_MutationPaths = pq_Pathset current, bi_Now = bki_Now input\<rparr> ls of
                (Inl e, ls') \<Rightarrow>
                  (Inl (Errorf ''rolled back patch queue item requires live mutation operation binding: %w'' [AErr e]), q, ls')
              | (Inr _, ls') \<Rightarrow>
                  (case run_queue (Inr (ids, rolled_back_item evidence now current)) q of (r, q') \<Rightarrow> (r, q', ls'))))"

subsection \<open>Reading\<close>

text \<open>\<open>Get\<close> returns the item and whether it is there, None standing for absent; a nil store is empty.\<close>

definition Get :: "string \<Rightarrow> string \<Rightarrow> PatchQueueStore option \<Rightarrow> PatchQueueItem option" where
  "Get queueID itemID q = (case q of None \<Rightarrow> None | Some st \<Rightarrow> map_of (qs_items st) (patchQueueKey queueID itemID))"

definition Queue_Snapshot :: "PatchQueueStore option \<Rightarrow> PatchQueueItem list" where
  "Queue_Snapshot q = (case q of None \<Rightarrow> [] | Some st \<Rightarrow> sort_key (\<lambda>i. (pq_QueueID i, pq_ItemID i)) (map snd (qs_items st)))"

end
