(* ===== verification/Queue_Machine.thy ===== *)
theory Queue_Machine
  imports Patch_Queue
begin

section \<open>The patch queue as a state machine\<close>

text \<open>
  What a successful call of each queue operation does to its item, as a step relation on items; the
  queue as a machine whose steps are the calls; the invariant of its items and the progress that
  every step makes.
\<close>

subsection \<open>Successful calls\<close>

lemma run_queue_Inr: "run_queue r q = (Inr item, q') \<longleftrightarrow> (\<exists>ids. r = Inr (ids, item) \<and> q' = put_item ids item q)"
  by (auto simp: run_queue_def split: sum.splits)

lemma run_queue_Inl: "run_queue r q = (Inl e, q') \<longleftrightarrow> r = Inl e \<and> q' = q"
  by (auto simp: run_queue_def split: sum.splits)

lemma put_item_items: "map_of (qs_items (put_item (a, b) item q)) = (map_of (qs_items q))(patchQueueKey a b \<mapsto> item)"
  by (simp add: put_item_def)

lemma find_item_Inr: "find_item q (a, b) = Inr item \<longleftrightarrow> map_of (qs_items q) (patchQueueKey a b) = Some item"
  by (simp add: find_item_def split: option.splits)

lemma verifyPatchQueueItemContext_None:
  "verifyPatchQueueItemContext item a = None \<longleftrightarrow>
     patchQueueContextDigest a = Inr (pq_ContextDigest item) \<and> TrimSpace (pqr_QueueID (ctx_PatchQueue a)) = pq_QueueID item \<and>
     TrimSpace (pqr_ItemID (ctx_PatchQueue a)) = pq_ItemID item \<and> TrimSpace (lr_ID (ctx_Lease a)) = pq_RepoLeaseID item \<and>
     lr_Term (ctx_Lease a) = pq_LeaseTerm item \<and> NormalizePathSet (ctx_Pathset a) = Inr (pq_Pathset item)"
  by (auto simp: verifyPatchQueueItemContext_def split: sum.splits)

lemmas result_simps = bind_result_Inr require_Inr map_err_Inr

lemma transition_Inr:
  "transition wall input st g q = (Inr item, q') \<longleftrightarrow>
     (\<exists>ids current. request_ids (ti_QueueID input) (ti_ItemID input) (WithDefaults (ti_Context input)) = Inr ids \<and>
        find_item q ids = Inr current \<and> verifyPatchQueueItemContext current (WithDefaults (ti_Context input)) = None \<and>
        (case g of Some f \<Rightarrow> f current | None \<Rightarrow> start_guard current st) = None \<and>
        item = current\<lparr>pq_State := st, pq_UpdatedAt := formatLeaseTime (normalizeLeaseTime wall (ti_Now input))\<rparr> \<and>
        q' = put_item ids item q)"
  unfolding transition_def Let_def run_queue_Inr result_simps by auto

lemma StartValidation_Inr:
  "StartValidation wall input q = (Inr item, q') \<Longrightarrow>
   \<exists>ids current t. find_item q ids = Inr current \<and> verifyPatchQueueItemContext current (WithDefaults (ti_Context input)) = None \<and>
     pq_State current = PatchQueueStateProposed \<and>
     item = current\<lparr>pq_State := PatchQueueStateValidating, pq_UpdatedAt := t\<rparr> \<and> q' = put_item ids item q"
  unfolding StartValidation_def transition_Inr start_guard_def by auto

lemma Cancel_Inr:
  "Cancel wall input q = (Inr item, q') \<Longrightarrow>
   \<exists>ids current t. find_item q ids = Inr current \<and> verifyPatchQueueItemContext current (WithDefaults (ti_Context input)) = None \<and>
     (pq_State current = PatchQueueStateProposed \<or> pq_State current = PatchQueueStateValidating) \<and>
     item = current\<lparr>pq_State := PatchQueueStateCanceled, pq_UpdatedAt := t\<rparr> \<and> q' = put_item ids item q"
  unfolding Cancel_def transition_Inr cancel_guard_def by auto

lemma StartRetryValidation_Inr:
  assumes "StartRetryValidation wall lwall input ls q = (Inr item, q', ls')"
  shows "\<exists>ids current. find_item q ids = Inr current \<and> verifyPatchQueueItemContext current (WithDefaults (sr_Context input)) = None \<and>
     pq_State current = PatchQueueStateRetryPending \<and> retry_due current (normalizeLeaseTime wall (sr_Now input)) = None \<and>
     verifyPatchQueueLeaseAuthority lwall (WithDefaults (sr_Context input)) (sr_Now input) ls = (None, ls') \<and>
     item = retry_item current (normalizeLeaseTime wall (sr_Now input)) \<and> q' = put_item ids item q"
proof -
  let ?a = "WithDefaults (sr_Context input)" and ?now = "normalizeLeaseTime wall (sr_Now input)"
  obtain ids current where r: "retry_request input ?a ?now q = Inr (ids, current)"
    and "verifyPatchQueueLeaseAuthority lwall ?a (sr_Now input) ls = (None, ls')"
    "item = retry_item current ?now" "q' = put_item ids item q"
    using assms unfolding StartRetryValidation_def Let_def run_queue_def by (auto split: sum.splits prod.splits option.splits)
  moreover from r have "find_item q ids = Inr current" "verifyPatchQueueItemContext current ?a = None"
    "pq_State current = PatchQueueStateRetryPending" "retry_due current ?now = None"
    unfolding retry_request_def result_simps fail_if_None not_not prod.inject sum.inject by blast+
  ultimately show ?thesis by blast
qed

lemma Propose_Inr:
  assumes "Propose wall lwall input ls q = (Inr item, q', ls')"
  shows "\<exists>d ps. requirePatchQueueProposalRefs (WithDefaults (pi_Context input)) = None \<and>
     verifyPatchQueueLeaseAuthority lwall (WithDefaults (pi_Context input)) (pi_Now input) ls = (None, ls') \<and>
     patchQueueContextDigest (WithDefaults (pi_Context input)) = Inr d \<and>
     NormalizePathSet (ctx_Pathset (WithDefaults (pi_Context input))) = Inr ps \<and>
     item = new_item input (WithDefaults (pi_Context input)) d ps (normalizeLeaseTime wall (pi_Now input)) \<and>
     map_of (qs_items q) (patchQueueKey (pq_QueueID item) (pq_ItemID item)) = None \<and>
     q' = put_item (pq_QueueID item, pq_ItemID item) item q"
proof -
  let ?a = "WithDefaults (pi_Context input)" and ?now = "normalizeLeaseTime wall (pi_Now input)"
  have refs: "requirePatchQueueProposalRefs ?a = None"
    and auth: "verifyPatchQueueLeaseAuthority lwall ?a (pi_Now input) ls = (None, ls')"
    and run: "run_queue (propose_item input ?a ?now q) q = (Inr item, q')"
    using assms unfolding Propose_def Let_def by (auto split: option.splits prod.splits)
  from run obtain ids where p: "propose_item input ?a ?now q = Inr (ids, item)" and q': "q' = put_item ids item q"
    unfolding run_queue_Inr by blast
  from p obtain d ps where "patchQueueContextDigest ?a = Inr d" "NormalizePathSet (ctx_Pathset ?a) = Inr ps"
    "item = new_item input ?a d ps ?now" "map_of (qs_items q) (patchQueueKey (pq_QueueID item) (pq_ItemID item)) = None"
    "ids = (pq_QueueID item, pq_ItemID item)"
    unfolding propose_item_def result_simps Let_def by (auto simp del: WithDefaults_def)
  with refs auth q' show ?thesis by blast
qed

lemma RecordRecoveryDecision_Inr:
  assumes "RecordRecoveryDecision wall input q = (Inr item, q')"
  shows "\<exists>ids current reason. find_item q ids = Inr current \<and>
     verifyPatchQueueItemContext current (WithDefaults (ri_Context input)) = None \<and>
     normalizePatchQueueRecoveryReason (ri_Reason input) = Inr reason \<and> 0 \<le> ri_RetryDelay input \<and>
     patchQueueTerminalFailureState (pq_State current) \<and>
     item = recovery_item reason (ri_RetryDelay input) (normalizeLeaseTime wall (ri_Now input)) current \<and> q' = put_item ids item q"
  using assms unfolding RecordRecoveryDecision_def Let_def run_queue_Inr result_simps fail_if_None not_less not_not prod.inject sum.inject
  by blast

lemma RecordRollback_Inr:
  assumes "RecordRollback wall lwall input ls q = (Inr item, q', ls')"
  shows "\<exists>ids current evidence b. find_item q ids = Inr current \<and>
     verifyPatchQueueItemContext current (WithDefaults (bki_Context input)) = None \<and> pq_State current = PatchQueueStateApplied \<and>
     normalizePatchQueueRollbackEvidence (bki_Evidence input) current (WithDefaults (bki_Context input))
       (normalizeLeaseTime wall (bki_Now input)) = Inr evidence \<and>
     BindMutationOperation lwall \<lparr>bi_Context = WithDefaults (bki_Context input), bi_MutationPaths = pq_Pathset current,
       bi_Now = bki_Now input\<rparr> ls = (Inr b, ls') \<and>
     item = rolled_back_item evidence (normalizeLeaseTime wall (bki_Now input)) current \<and> q' = put_item ids item q"
proof -
  let ?a = "WithDefaults (bki_Context input)" and ?now = "normalizeLeaseTime wall (bki_Now input)"
  obtain ids current evidence b where r: "rollback_request input ?a ?now q = Inr (ids, current, evidence)"
    and "BindMutationOperation lwall \<lparr>bi_Context = ?a, bi_MutationPaths = pq_Pathset current, bi_Now = bki_Now input\<rparr> ls = (Inr b, ls')"
    "item = rolled_back_item evidence ?now current" "q' = put_item ids item q"
    using assms unfolding RecordRollback_def Let_def run_queue_def by (auto split: sum.splits prod.splits)
  moreover from r have "find_item q ids = Inr current" "verifyPatchQueueItemContext current ?a = None"
    "pq_State current = PatchQueueStateApplied" "normalizePatchQueueRollbackEvidence (bki_Evidence input) current ?a ?now = Inr evidence"
    unfolding rollback_request_def result_simps fail_if_None not_not prod.inject sum.inject by blast+
  ultimately show ?thesis by blast
qed

text \<open>A completed validation: the state that the evidence calls for, and for an applied item a live binding.\<close>

lemma complete_request_Inr:
  assumes "complete_request input a q = Inr (ids, current, te, has)"
  shows "find_item q ids = Inr current" "verifyPatchQueueItemContext current a = None" "pq_State current = PatchQueueStateValidating"
    "validateCASEvidence (vi_CASResult input) a = None" "normalizePatchQueueTestEvidence (vi_TestEvidence input) = Inr (te, has)"
    "has \<Longrightarrow> car_Status (vi_CASResult input) = CASPatchStatusApplied"
proof -
  from assms have "find_item q ids = Inr current \<and> verifyPatchQueueItemContext current a = None \<and>
    pq_State current = PatchQueueStateValidating \<and> validateCASEvidence (vi_CASResult input) a = None \<and>
    normalizePatchQueueTestEvidence (vi_TestEvidence input) = Inr (te, has) \<and>
    \<not> (has \<and> car_Status (vi_CASResult input) \<noteq> CASPatchStatusApplied)"
    unfolding complete_request_def by (auto simp: bind_result_Inr)
  then show "find_item q ids = Inr current" "verifyPatchQueueItemContext current a = None" "pq_State current = PatchQueueStateValidating"
    "validateCASEvidence (vi_CASResult input) a = None" "normalizePatchQueueTestEvidence (vi_TestEvidence input) = Inr (te, has)"
    "has \<Longrightarrow> car_Status (vi_CASResult input) = CASPatchStatusApplied" by blast+
qed

text \<open>The state and the operation that a completed item gets.\<close>

definition outcome :: "CASPatchApplyResult \<Rightarrow> PatchQueueTestEvidence \<Rightarrow> bool \<Rightarrow> OperationRef \<Rightarrow> PatchQueueItem \<Rightarrow> PatchQueueItem" where
  "outcome r te has oper item =
     (if car_Status r = CASPatchStatusApplied then
        (if has \<and> te_Status te = PatchQueueTestStatusFailed then item\<lparr>pq_State := PatchQueueStateTestConflict\<rparr>
         else item\<lparr>pq_State := PatchQueueStateApplied, pq_OperationID := TrimSpace (op_ID oper), pq_OperationKind := TrimSpace (op_Kind oper)\<rparr>)
      else if car_Status r = CASPatchStatusConflict
      then item\<lparr>pq_State := PatchQueueStateConflict, pq_ConflictIssues := conflictIssuesFromCAS r\<rparr>
      else item\<lparr>pq_State := PatchQueueStateFailed\<rparr>)"

lemma CompleteValidation_Inr:
  assumes "CompleteValidation wall lwall input ls q = (Inr item, q', ls')"
  shows "\<exists>ids current te has. complete_request input (WithDefaults (vi_Context input)) q = Inr (ids, current, te, has) \<and>
     item = outcome (vi_CASResult input) te has (ctx_Operation (WithDefaults (vi_Context input)))
       (completed_item (vi_CASResult input) te has (normalizeLeaseTime wall (vi_Now input)) current) \<and>
     (if car_Status (vi_CASResult input) = CASPatchStatusApplied \<and> \<not> (has \<and> te_Status te = PatchQueueTestStatusFailed)
      then requireConcreteMutationOperationRefs (WithDefaults (vi_Context input)) = None \<and>
        (\<exists>b. BindMutationOperation lwall \<lparr>bi_Context = WithDefaults (vi_Context input), bi_MutationPaths = pq_Pathset current,
          bi_Now = vi_Now input\<rparr> ls = (Inr b, ls'))
      else ls' = ls) \<and> q' = put_item ids item q"
proof -
  let ?a = "WithDefaults (vi_Context input)"
  obtain ids current te has where r: "complete_request input ?a q = Inr (ids, current, te, has)"
    using assms unfolding CompleteValidation_def Let_def by (auto split: sum.splits)
  have "item = outcome (vi_CASResult input) te has (ctx_Operation ?a)
       (completed_item (vi_CASResult input) te has (normalizeLeaseTime wall (vi_Now input)) current) \<and>
     (if car_Status (vi_CASResult input) = CASPatchStatusApplied \<and> \<not> (has \<and> te_Status te = PatchQueueTestStatusFailed)
      then requireConcreteMutationOperationRefs ?a = None \<and>
        (\<exists>b. BindMutationOperation lwall \<lparr>bi_Context = ?a, bi_MutationPaths = pq_Pathset current,
          bi_Now = vi_Now input\<rparr> ls = (Inr b, ls'))
      else ls' = ls) \<and> q' = put_item ids item q"
    using assms unfolding CompleteValidation_def Let_def r sum.case prod.case outcome_def
    by (auto split: if_splits option.splits prod.splits sum.splits)
  with r show ?thesis by blast
qed

subsection \<open>Steps of one item\<close>

text \<open>The steps an item takes, each with what the call has established about it.\<close>

inductive item_step :: "PatchQueueItem \<Rightarrow> PatchQueueItem \<Rightarrow> bool" where
  item_start: "pq_State i = PatchQueueStateProposed \<Longrightarrow>
     item_step i (i\<lparr>pq_State := PatchQueueStateValidating, pq_UpdatedAt := t\<rparr>)"
| item_cancel: "pq_State i = PatchQueueStateProposed \<or> pq_State i = PatchQueueStateValidating \<Longrightarrow>
     item_step i (i\<lparr>pq_State := PatchQueueStateCanceled, pq_UpdatedAt := t\<rparr>)"
| item_retry: "pq_State i = PatchQueueStateRetryPending \<Longrightarrow> retry_due i now = None \<Longrightarrow> item_step i (retry_item i now)"
| item_complete: "pq_State i = PatchQueueStateValidating \<Longrightarrow> verifyPatchQueueItemContext i a = None \<Longrightarrow>
     validateCASEvidence r a = None \<Longrightarrow> normalizePatchQueueTestEvidence e = Inr (te, has) \<Longrightarrow>
     (has \<Longrightarrow> car_Status r = CASPatchStatusApplied) \<Longrightarrow>
     (car_Status r = CASPatchStatusApplied \<Longrightarrow> \<not> (has \<and> te_Status te = PatchQueueTestStatusFailed) \<Longrightarrow>
        requireConcreteMutationOperationRefs a = None) \<Longrightarrow>
     item_step i (outcome r te has (ctx_Operation a) (completed_item r te has now i))"
| item_recover: "patchQueueTerminalFailureState (pq_State i) \<Longrightarrow> item_step i (recovery_item reason delay now i)"
| item_rollback: "pq_State i = PatchQueueStateApplied \<Longrightarrow>
     normalizePatchQueueRollbackEvidence e i a now = Inr evidence \<Longrightarrow> item_step i (rolled_back_item evidence now i)"

text \<open>A fresh item, under the key of its identifiers.\<close>

definition fresh_item :: "string \<Rightarrow> PatchQueueItem \<Rightarrow> bool" where
  "fresh_item k i \<longleftrightarrow> (\<exists>input a d ps now. requirePatchQueueProposalRefs a = None \<and> NormalizePathSet (ctx_Pathset a) = Inr ps \<and>
     pi_MaxAttempts input \<le> max_int64 \<and> i = new_item input a d ps now \<and> k = patchQueueKey (pq_QueueID i) (pq_ItemID i))"

subsection \<open>The machine\<close>

text \<open>
  The calls on a queue and a lease store. Between them the lease store may be changed by its own
  users in any way; the inputs are values of Go's int.
\<close>

datatype queue_op = OpPropose | OpStart | OpRetry | OpCancel | OpComplete | OpRecover | OpRollback | OpLeases

type_synonym queue_state = "PatchQueueStore \<times> FileLeaseStore option"

inductive queue_step :: "queue_op \<Rightarrow> queue_state \<Rightarrow> queue_state \<Rightarrow> bool" where
  step_propose: "Propose wall lwall input ls q = (r, q', ls') \<Longrightarrow> pi_MaxAttempts input \<le> max_int64 \<Longrightarrow>
     queue_step OpPropose (q, ls) (q', ls')"
| step_start: "StartValidation wall input' q = (r, q') \<Longrightarrow> queue_step OpStart (q, ls) (q', ls)"
| step_retry: "StartRetryValidation wall lwall input'' ls q = (r, q', ls') \<Longrightarrow> queue_step OpRetry (q, ls) (q', ls')"
| step_cancel: "Cancel wall input' q = (r, q') \<Longrightarrow> queue_step OpCancel (q, ls) (q', ls)"
| step_complete: "CompleteValidation wall lwall cinput ls q = (r, q', ls') \<Longrightarrow> queue_step OpComplete (q, ls) (q', ls')"
| step_recover: "RecordRecoveryDecision wall rinput q = (r, q') \<Longrightarrow> queue_step OpRecover (q, ls) (q', ls)"
| step_rollback: "RecordRollback wall lwall binput ls q = (r, q', ls') \<Longrightarrow> queue_step OpRollback (q, ls) (q', ls')"
| step_leases: "queue_step OpLeases (q, ls) (q, ls')"

text \<open>A call that returns an error leaves the items as they are.\<close>

lemma transition_error: "transition wall input st g q = (Inl e, q') \<Longrightarrow> q' = q"
  unfolding transition_def Let_def run_queue_Inl by simp

lemma error_unchanged:
  "Propose wall lwall pin ls q = (Inl e, q', ls') \<Longrightarrow> q' = q"
  "StartValidation wall tin q = (Inl e, q') \<Longrightarrow> q' = q"
  "StartRetryValidation wall lwall sin ls q = (Inl e, q', ls') \<Longrightarrow> q' = q"
  "Cancel wall tin q = (Inl e, q') \<Longrightarrow> q' = q"
  "CompleteValidation wall lwall cin ls q = (Inl e, q', ls') \<Longrightarrow> q' = q"
  "RecordRecoveryDecision wall rin q = (Inl e, q') \<Longrightarrow> q' = q"
  "RecordRollback wall lwall bin ls q = (Inl e, q', ls') \<Longrightarrow> q' = q"
  subgoal by (auto simp: Propose_def Let_def run_queue_def split: option.splits prod.splits sum.splits)
  subgoal by (auto simp: StartValidation_def dest: transition_error)
  subgoal by (auto simp: StartRetryValidation_def Let_def run_queue_def split: option.splits prod.splits sum.splits)
  subgoal by (auto simp: Cancel_def dest: transition_error)
  subgoal by (auto simp: CompleteValidation_def Let_def split: option.splits prod.splits sum.splits if_splits)
  subgoal unfolding RecordRecoveryDecision_def Let_def run_queue_Inl by simp
  subgoal by (auto simp: RecordRollback_def Let_def run_queue_def split: prod.splits sum.splits)
  done

text \<open>What one call may do to the items: nothing, one step of one item, or one fresh item.\<close>

inductive items_change :: "(string \<rightharpoonup> PatchQueueItem) \<Rightarrow> (string \<rightharpoonup> PatchQueueItem) \<Rightarrow> bool" for m where
  no_change: "items_change m m"
| one_step: "m k = Some i \<Longrightarrow> item_step i i' \<Longrightarrow> items_change m (m(k \<mapsto> i'))"
| one_fresh: "m k = None \<Longrightarrow> fresh_item k i \<Longrightarrow> items_change m (m(k \<mapsto> i))"

lemma put_step:
  assumes "find_item q ids = Inr i" and "item_step i i'"
  shows "items_change (map_of (qs_items q)) (map_of (qs_items (put_item ids i' q)))"
  using assms by (cases ids) (simp add: put_item_items find_item_Inr one_step)

lemma propose_change:
  assumes "Propose wall lwall input ls q = (Inr item, q', ls')" and "pi_MaxAttempts input \<le> max_int64"
  shows "items_change (map_of (qs_items q)) (map_of (qs_items q'))"
proof -
  from Propose_Inr [OF assms(1)] obtain d ps where refs: "requirePatchQueueProposalRefs (WithDefaults (pi_Context input)) = None"
    and ps: "NormalizePathSet (ctx_Pathset (WithDefaults (pi_Context input))) = Inr ps"
    and item: "item = new_item input (WithDefaults (pi_Context input)) d ps (normalizeLeaseTime wall (pi_Now input))"
    and new: "map_of (qs_items q) (patchQueueKey (pq_QueueID item) (pq_ItemID item)) = None"
    and q': "q' = put_item (pq_QueueID item, pq_ItemID item) item q" by blast
  have "fresh_item (patchQueueKey (pq_QueueID item) (pq_ItemID item)) item"
    unfolding fresh_item_def using refs ps item assms(2) by blast
  then show ?thesis unfolding q' put_item_items using new by (intro one_fresh)
qed

lemma complete_change:
  assumes "CompleteValidation wall lwall input ls q = (Inr item, q', ls')"
  shows "items_change (map_of (qs_items q)) (map_of (qs_items q'))"
proof -
  let ?a = "WithDefaults (vi_Context input)"
  from CompleteValidation_Inr [OF assms] obtain ids i te has where r: "complete_request input ?a q = Inr (ids, i, te, has)"
    and item: "item = outcome (vi_CASResult input) te has (ctx_Operation ?a)
       (completed_item (vi_CASResult input) te has (normalizeLeaseTime wall (vi_Now input)) i)"
    and refs: "car_Status (vi_CASResult input) = CASPatchStatusApplied \<Longrightarrow> \<not> (has \<and> te_Status te = PatchQueueTestStatusFailed) \<Longrightarrow>
        requireConcreteMutationOperationRefs ?a = None"
    and q': "q' = put_item ids item q" by (auto split: if_splits)
  note c = complete_request_Inr [OF r]
  have "item_step i item" unfolding item by (rule item_complete [OF c(3,2,4,5,6) refs])
  then show ?thesis unfolding q' by (rule put_step [OF c(1)])
qed

lemma queue_step_items:
  assumes "queue_step oper (q, ls) (q', ls')"
  shows "items_change (map_of (qs_items q)) (map_of (qs_items q'))"
proof -
  have error: "items_change (map_of (qs_items q)) (map_of (qs_items q'))" if "q' = q" using that by (simp add: no_change)
  from assms show ?thesis
  proof cases
    case (step_propose wall lwall input r)
    then show ?thesis by (cases r) (auto dest: error_unchanged(1) intro: error propose_change)
  next
    case (step_start wall input r)
    then show ?thesis by (cases r) (auto dest: error_unchanged(2) intro: error dest!: StartValidation_Inr intro!: put_step item_start)
  next
    case (step_retry wall lwall input r)
    then show ?thesis
      by (cases r) (auto dest: error_unchanged(3) intro: error dest!: StartRetryValidation_Inr intro!: put_step item_retry)
  next
    case (step_cancel wall input r)
    then show ?thesis by (cases r) (auto dest: error_unchanged(4) intro: error dest!: Cancel_Inr intro!: put_step item_cancel)
  next
    case (step_complete wall lwall input r)
    then show ?thesis by (cases r) (auto dest: error_unchanged(5) intro: error complete_change)
  next
    case (step_recover wall input r)
    then show ?thesis
      by (cases r) (auto dest: error_unchanged(6) intro: error dest!: RecordRecoveryDecision_Inr intro!: put_step item_recover)
  next
    case (step_rollback wall lwall input r)
    then show ?thesis
      by (cases r) (auto dest: error_unchanged(7) intro: error dest!: RecordRollback_Inr intro!: put_step item_rollback)
  next
    case step_leases
    then show ?thesis by (simp add: no_change)
  qed
qed

subsection \<open>Invariants of the items\<close>

definition all_items :: "(string \<Rightarrow> PatchQueueItem \<Rightarrow> bool) \<Rightarrow> queue_state \<Rightarrow> bool" where
  "all_items P s \<longleftrightarrow> (\<forall>k i. map_of (qs_items (fst s)) k = Some i \<longrightarrow> P k i)"

text \<open>What holds of a fresh item and is kept by the steps of an item holds of every item of a reachable queue.\<close>

locale item_invariant =
  fixes P :: "string \<Rightarrow> PatchQueueItem \<Rightarrow> bool"
  assumes item_fresh: "fresh_item k i \<Longrightarrow> P k i"
    and item_kept: "item_step i j \<Longrightarrow> P k i \<Longrightarrow> P k j"

sublocale item_invariant \<subseteq> every_item: step_invariant "\<lambda>s. fst s = NewPatchQueueStore" queue_step "all_items P"
proof
  show "all_items P s" if "fst s = NewPatchQueueStore" for s
    using that by (simp add: all_items_def NewPatchQueueStore_def)
next
  fix s s' :: queue_state and oper
  assume inv: "all_items P s" and step: "queue_step oper s s'"
  obtain q ls q' ls' where s: "s = (q, ls)" "s' = (q', ls')" by (cases s, cases s')
  from queue_step_items [OF step [unfolded s]] show "all_items P s'"
  proof cases
    case no_change
    then show ?thesis using inv by (simp add: all_items_def s)
  next
    case (one_step k i i')
    then show ?thesis using inv item_kept [of i i' k] by (auto simp: all_items_def s)
  next
    case (one_fresh k i)
    then show ?thesis using inv item_fresh [of k i] by (auto simp: all_items_def s)
  qed
qed

context item_invariant
begin

lemma reachable_item:
  "run_of (\<lambda>s. fst s = NewPatchQueueStore) queue_step ops s \<Longrightarrow> map_of (qs_items (fst s)) k = Some i \<Longrightarrow> P k i"
  using every_item.inv_run by (fastforce simp: all_items_def)

end

subsection \<open>The invariant of an item\<close>

definition queue_states :: "string list" where
  "queue_states = [PatchQueueStateProposed, PatchQueueStateValidating, PatchQueueStateApplied, PatchQueueStateFailed,
     PatchQueueStateConflict, PatchQueueStateTestConflict, PatchQueueStateCanceled, PatchQueueStateRetryPending,
     PatchQueueStateDeadLetter, PatchQueueStateRolledBack]"

lemma terminal_failure_iff:
  assumes "st \<in> set queue_states"
  shows "patchQueueTerminalFailureState st \<longleftrightarrow>
    st = PatchQueueStateFailed \<or> st = PatchQueueStateConflict \<or> st = PatchQueueStateTestConflict"
  using assms unfolding queue_states_def patchQueueTerminalFailureState_def by auto

text \<open>
  The attempts: between one and the maximum, each retry decision opening one more; a retry is only
  pending when attempts are left, and an item is dead-lettered only when none is.
\<close>

definition attempts_ok :: "PatchQueueItem \<Rightarrow> bool" where
  "attempts_ok i \<longleftrightarrow> 1 \<le> pq_Attempt i \<and> pq_Attempt i \<le> pq_MaxAttempts i \<and> pq_MaxAttempts i \<le> max_int64 \<and>
     (pq_State i = PatchQueueStateRetryPending \<longrightarrow> pq_Attempt i < pq_MaxAttempts i) \<and>
     (pq_State i = PatchQueueStateDeadLetter \<longrightarrow> pq_Attempt i = pq_MaxAttempts i) \<and>
     int (length (filter rc_Retryable (pq_RecoveryDecisions i))) =
       pq_Attempt i - 1 + (if pq_State i = PatchQueueStateRetryPending then 1 else 0) \<and>
     length (filter (Not \<circ> rc_Retryable) (pq_RecoveryDecisions i)) = (if pq_State i = PatchQueueStateDeadLetter then 1 else 0)"

text \<open>The recorded evidence: its status is the one the state stands for, and the digests are its own.\<close>

definition evidence_ok :: "PatchQueueItem \<Rightarrow> bool" where
  "evidence_ok i \<longleftrightarrow>
     (pq_State i \<in> {PatchQueueStateApplied, PatchQueueStateRolledBack, PatchQueueStateTestConflict} \<longrightarrow>
        car_Status (pq_CASResult i) = CASPatchStatusApplied) \<and>
     (pq_State i = PatchQueueStateConflict \<longrightarrow> car_Status (pq_CASResult i) = CASPatchStatusConflict) \<and>
     (pq_State i = PatchQueueStateFailed \<longrightarrow> car_Status (pq_CASResult i) = CASPatchStatusFailed) \<and>
     (pq_State i \<in> {PatchQueueStateApplied, PatchQueueStateRolledBack, PatchQueueStateTestConflict, PatchQueueStateConflict,
        PatchQueueStateFailed} \<longrightarrow>
        pq_CASEvaluationDigest i = digestCASPatchApplyResult (pq_CASResult i) \<and>
        pq_CASPatchDigest i = TrimSpace (car_PatchDigest (pq_CASResult i)))"

definition operation_ok :: "PatchQueueItem \<Rightarrow> bool" where
  "operation_ok i \<longleftrightarrow>
     (pq_State i \<in> {PatchQueueStateApplied, PatchQueueStateRolledBack} \<longrightarrow> pq_OperationID i \<noteq> [] \<and> pq_OperationKind i \<noteq> []) \<and>
     (pq_State i = PatchQueueStateTestConflict \<longrightarrow> te_Status (pq_TestEvidence i) = PatchQueueTestStatusFailed) \<and>
     (pq_State i \<in> {PatchQueueStateApplied, PatchQueueStateRolledBack} \<longrightarrow>
        pq_TestEvidence i = zero_test_evidence \<or> te_Status (pq_TestEvidence i) = PatchQueueTestStatusPassed)"

definition item_inv :: "string \<Rightarrow> PatchQueueItem \<Rightarrow> bool" where
  "item_inv k i \<longleftrightarrow> k = patchQueueKey (pq_QueueID i) (pq_ItemID i) \<and> pq_State i \<in> set queue_states \<and>
     canonical_pathset (pq_Pathset i) \<and> pq_Pathset i \<noteq> [] \<and> attempts_ok i \<and> evidence_ok i \<and> operation_ok i"

lemma fresh_item_inv:
  assumes "fresh_item k i" shows "item_inv k i" and "pq_State i = PatchQueueStateProposed"
proof -
  obtain input a d ps now where refs: "requirePatchQueueProposalRefs a = None" and ps: "NormalizePathSet (ctx_Pathset a) = Inr ps"
    and mx: "pi_MaxAttempts input \<le> max_int64" and i: "i = new_item input a d ps now" and k: "k = patchQueueKey (pq_QueueID i) (pq_ItemID i)"
    using assms unfolding fresh_item_def by blast
  have "Context_Validate a = None" using refs unfolding requirePatchQueueProposalRefs_def guards_Cons_None wrap_err_None by blast
  note can = Context_Validate_pathset [OF this]
  have "ps = ctx_Pathset a" using ps NormalizePathSet_canonical [OF can(1)] by simp
  with can have "canonical_pathset (pq_Pathset i)" "pq_Pathset i \<noteq> []" by (simp_all add: i new_item_def)
  moreover have "attempts_ok i" using mx by (simp add: attempts_ok_def i new_item_def normalizePatchQueueMaxAttempts_def)
  moreover have "evidence_ok i" "operation_ok i" by (simp_all add: evidence_ok_def operation_ok_def i new_item_def)
  moreover show "pq_State i = PatchQueueStateProposed" by (simp add: i new_item_def)
  ultimately show "item_inv k i" unfolding item_inv_def using k by (simp add: queue_states_def)
qed

text \<open>The fields that no step changes.\<close>

definition same_identity :: "PatchQueueItem \<Rightarrow> PatchQueueItem \<Rightarrow> bool" where
  "same_identity i j \<longleftrightarrow> j = i\<lparr>pq_State := pq_State j, pq_Attempt := pq_Attempt j, pq_MaxAttempts := pq_MaxAttempts j,
     pq_NextRetryAt := pq_NextRetryAt j, pq_DeadLetteredAt := pq_DeadLetteredAt j, pq_CASResult := pq_CASResult j,
     pq_CASPatchDigest := pq_CASPatchDigest j, pq_CASEvaluationDigest := pq_CASEvaluationDigest j,
     pq_ConflictIssues := pq_ConflictIssues j, pq_TestEvidence := pq_TestEvidence j, pq_TestEvidenceDigest := pq_TestEvidenceDigest j,
     pq_RecoveryDecisions := pq_RecoveryDecisions j, pq_RecoveryDecisionDigest := pq_RecoveryDecisionDigest j,
     pq_RollbackEvidence := pq_RollbackEvidence j, pq_RollbackEvidenceDigest := pq_RollbackEvidenceDigest j,
     pq_OperationID := pq_OperationID j, pq_OperationKind := pq_OperationKind j, pq_UpdatedAt := pq_UpdatedAt j\<rparr>"

lemmas item_update_defs = retry_item_def completed_item_def outcome_def recovery_item_def rolled_back_item_def Let_def

lemma item_step_identity: "item_step i j \<Longrightarrow> same_identity i j"
  by (induction rule: item_step.induct) (simp_all add: same_identity_def item_update_defs)

lemma same_identity_fields:
  assumes "same_identity i j"
  shows "pq_QueueID j = pq_QueueID i" "pq_ItemID j = pq_ItemID i" "pq_Pathset j = pq_Pathset i" "pq_ID j = pq_ID i"
    "pq_ContextDigest j = pq_ContextDigest i" "pq_RepoLeaseID j = pq_RepoLeaseID i" "pq_LeaseTerm j = pq_LeaseTerm i"
    "pq_CreatedAt j = pq_CreatedAt i"
  by (subst assms [unfolded same_identity_def], simp)+

text \<open>The attempts change only on a recovery decision and on a retry.\<close>

lemma attempts_ok_unchanged:
  assumes "attempts_ok i" and "pq_Attempt j = pq_Attempt i" "pq_MaxAttempts j = pq_MaxAttempts i"
    "pq_RecoveryDecisions j = pq_RecoveryDecisions i"
    and "pq_State i \<noteq> PatchQueueStateRetryPending" "pq_State i \<noteq> PatchQueueStateDeadLetter"
    "pq_State j \<noteq> PatchQueueStateRetryPending" "pq_State j \<noteq> PatchQueueStateDeadLetter"
  shows "attempts_ok j"
  using assms by (simp add: attempts_ok_def)

lemma outcome_fields [simp]:
  "pq_Attempt (outcome r te has oper i) = pq_Attempt i" "pq_MaxAttempts (outcome r te has oper i) = pq_MaxAttempts i"
  "pq_RecoveryDecisions (outcome r te has oper i) = pq_RecoveryDecisions i" "pq_CASResult (outcome r te has oper i) = pq_CASResult i"
  "pq_CASPatchDigest (outcome r te has oper i) = pq_CASPatchDigest i"
  "pq_CASEvaluationDigest (outcome r te has oper i) = pq_CASEvaluationDigest i"
  "pq_TestEvidence (outcome r te has oper i) = pq_TestEvidence i"
  by (simp_all add: outcome_def)

lemma outcome_state:
  "pq_State (outcome r te has oper i) =
     (if car_Status r = CASPatchStatusApplied then
        if has \<and> te_Status te = PatchQueueTestStatusFailed then PatchQueueStateTestConflict else PatchQueueStateApplied
      else if car_Status r = CASPatchStatusConflict then PatchQueueStateConflict else PatchQueueStateFailed)"
  by (simp add: outcome_def)

lemma queue_states_mem [simp]:
  "PatchQueueStateValidating \<in> set queue_states" "PatchQueueStateApplied \<in> set queue_states" "PatchQueueStateFailed \<in> set queue_states"
  "PatchQueueStateConflict \<in> set queue_states" "PatchQueueStateTestConflict \<in> set queue_states"
  "PatchQueueStateCanceled \<in> set queue_states" "PatchQueueStateRetryPending \<in> set queue_states"
  "PatchQueueStateDeadLetter \<in> set queue_states" "PatchQueueStateRolledBack \<in> set queue_states"
  by (simp_all add: queue_states_def)

lemma item_step_state: "item_step i j \<Longrightarrow> pq_State j \<in> set queue_states"
  by (induction rule: item_step.induct) (simp_all add: outcome_state retry_item_def recovery_item_def Let_def rolled_back_item_def)

lemma completed_fields [simp]:
  "pq_Attempt (completed_item r te has t i) = pq_Attempt i" "pq_MaxAttempts (completed_item r te has t i) = pq_MaxAttempts i"
  "pq_RecoveryDecisions (completed_item r te has t i) = pq_RecoveryDecisions i" "pq_CASResult (completed_item r te has t i) = r"
  "pq_CASPatchDigest (completed_item r te has t i) = TrimSpace (car_PatchDigest r)"
  "pq_CASEvaluationDigest (completed_item r te has t i) = digestCASPatchApplyResult r"
  "pq_TestEvidence (completed_item r te has t i) = (if has then te else zero_test_evidence)"
  by (simp_all add: completed_item_def)

lemma attempts_ok_recover:
  assumes "attempts_ok i" and "pq_State i \<in> set queue_states" and "patchQueueTerminalFailureState (pq_State i)"
  shows "attempts_ok (recovery_item reason delay now i)"
proof -
  have st: "pq_State i \<noteq> PatchQueueStateRetryPending" "pq_State i \<noteq> PatchQueueStateDeadLetter"
    using assms(3) unfolding terminal_failure_iff [OF assms(2)] by auto
  have n: "normalizePatchQueueAttempt (pq_Attempt i) = pq_Attempt i" "normalizePatchQueueMaxAttempts (pq_MaxAttempts i) = pq_MaxAttempts i"
    using assms(1) by (auto simp: attempts_ok_def normalizePatchQueueAttempt_def normalizePatchQueueMaxAttempts_def)
  show ?thesis using assms(1) st unfolding recovery_item_def Let_def n by (auto simp: attempts_ok_def)
qed

lemma attempts_ok_retry:
  assumes "attempts_ok i" and "pq_State i = PatchQueueStateRetryPending"
  shows "attempts_ok (retry_item i now)"
proof -
  have b: "1 \<le> pq_Attempt i" "pq_Attempt i < pq_MaxAttempts i" "pq_MaxAttempts i \<le> max_int64" using assms by (auto simp: attempts_ok_def)
  then have "wrap64 (pq_Attempt i + 1) = pq_Attempt i + 1" by (intro wrap64_id) auto
  with b have "pq_Attempt (retry_item i now) = pq_Attempt i + 1" by (simp add: retry_item_def normalizePatchQueueAttempt_def)
  then show ?thesis using assms b by (simp add: attempts_ok_def) (simp add: retry_item_def)
qed

lemma item_step_attempts:
  assumes "item_step i j" and "attempts_ok i" and "pq_State i \<in> set queue_states"
  shows "attempts_ok j"
  using assms(1)
proof cases
  case (item_complete a r e te has now)
  then show ?thesis by (intro attempts_ok_unchanged [OF assms(2)]) (simp_all add: outcome_state)
next
  case item_recover
  then show ?thesis using attempts_ok_recover [OF assms(2,3)] by simp
next
  case item_retry
  then show ?thesis using attempts_ok_retry [OF assms(2)] by simp
next
  case (item_start t)
  then show ?thesis by (intro attempts_ok_unchanged [OF assms(2)]) simp_all
next
  case (item_cancel t)
  then show ?thesis by (intro attempts_ok_unchanged [OF assms(2)]) auto
next
  case (item_rollback e a now evidence)
  then show ?thesis by (intro attempts_ok_unchanged [OF assms(2)]) (simp_all add: rolled_back_item_def)
qed

lemma test_evidence_status:
  assumes "normalizePatchQueueTestEvidence e = Inr (te, True)"
  shows "te_Status te = PatchQueueTestStatusPassed \<and> te_ExitCode te = 0 \<or> te_Status te = PatchQueueTestStatusFailed \<and> te_ExitCode te \<noteq> 0"
proof -
  have "validatePatchQueueTestEvidence te = None"
    using assms unfolding normalizePatchQueueTestEvidence_def Let_def by (auto split: if_splits)
  then show ?thesis
    unfolding validatePatchQueueTestEvidence_def guards_append by (simp split: option.splits if_splits)
qed

lemma evidence_status:
  assumes "validateCASEvidence r a = None" "car_Status r \<noteq> CASPatchStatusApplied" "car_Status r \<noteq> CASPatchStatusConflict"
  shows "car_Status r = CASPatchStatusFailed"
  using assms unfolding validateCASEvidence_None cas_statuses_iff by blast

lemma item_step_evidence:
  assumes "item_step i j" and "evidence_ok i"
  shows "evidence_ok j"
  using assms(1)
proof cases
  case (item_complete a r e te has now)
  show ?thesis unfolding item_complete(1) evidence_ok_def outcome_fields completed_fields outcome_state
    using evidence_status [OF item_complete(4)] by auto
next
  case item_recover
  then show ?thesis by (auto simp: evidence_ok_def recovery_item_def Let_def)
next
  case (item_rollback e a now evidence)
  then show ?thesis using assms(2) by (auto simp: evidence_ok_def rolled_back_item_def)
qed (auto simp: evidence_ok_def retry_item_def)

lemma item_step_operation:
  assumes "item_step i j" and "operation_ok i"
  shows "operation_ok j"
  using assms(1)
proof cases
  case (item_complete a r e te has now)
  have "pq_OperationID j \<noteq> [] \<and> pq_OperationKind j \<noteq> []" if "pq_State j = PatchQueueStateApplied"
  proof -
    from that have ap: "car_Status r = CASPatchStatusApplied" "\<not> (has \<and> te_Status te = PatchQueueTestStatusFailed)"
      unfolding item_complete(1) outcome_state by (auto split: if_splits)
    from item_complete(7) [OF this] have "TrimSpace (op_ID (ctx_Operation a)) \<noteq> []" "TrimSpace (op_Kind (ctx_Operation a)) \<noteq> []"
      unfolding requireConcreteMutationOperationRefs_def guards_Cons_None rejectVague_None by blast+
    with ap show ?thesis unfolding item_complete(1) outcome_def by auto
  qed
  moreover have "te_Status (pq_TestEvidence j) = PatchQueueTestStatusFailed" if "pq_State j = PatchQueueStateTestConflict"
    using that unfolding item_complete(1) outcome_fields completed_fields outcome_state by (auto split: if_splits)
  moreover have "pq_TestEvidence j = zero_test_evidence \<or> te_Status (pq_TestEvidence j) = PatchQueueTestStatusPassed"
    if "pq_State j = PatchQueueStateApplied"
    using that item_complete(5) test_evidence_status unfolding item_complete(1) outcome_fields completed_fields outcome_state
    by (cases has) (auto split: if_splits)
  moreover have "pq_State j \<noteq> PatchQueueStateRolledBack" unfolding item_complete(1) outcome_state by simp
  ultimately show ?thesis unfolding operation_ok_def by auto
next
  case item_recover
  then show ?thesis by (auto simp: operation_ok_def recovery_item_def Let_def)
next
  case (item_rollback e a now evidence)
  then show ?thesis using assms(2) by (auto simp: operation_ok_def rolled_back_item_def)
qed (auto simp: operation_ok_def retry_item_def)

lemma item_step_inv:
  assumes "item_step i j" and "item_inv k i" shows "item_inv k j"
proof -
  note id = same_identity_fields [OF item_step_identity [OF assms(1)]]
  show ?thesis
    using assms(2) item_step_state [OF assms(1)] item_step_attempts [OF assms(1)] item_step_evidence [OF assms(1)]
      item_step_operation [OF assms(1)]
    unfolding item_inv_def id by blast
qed

subsection \<open>The abstract life cycle\<close>

text \<open>
  What the queue promises of an item: a phase and the number of attempts that are left. Every
  validation that fails uses up the budget or ends in the dead letters; three phases are final.
\<close>

datatype phase = Proposed | Validating | Applied | Rejected | Retrying | Dead | Canceled | RolledBack

inductive spec_step :: "phase \<times> nat \<Rightarrow> phase \<times> nat \<Rightarrow> bool" where
  spec_start: "spec_step (Proposed, n) (Validating, n)"
| spec_cancel: "p = Proposed \<or> p = Validating \<Longrightarrow> spec_step (p, n) (Canceled, n)"
| spec_apply: "spec_step (Validating, n) (Applied, n)"
| spec_reject: "spec_step (Validating, n) (Rejected, n)"
| spec_again: "spec_step (Rejected, Suc n) (Retrying, Suc n)"
| spec_retry: "spec_step (Retrying, Suc n) (Validating, n)"
| spec_dead: "spec_step (Rejected, 0) (Dead, 0)"
| spec_undo: "spec_step (Applied, n) (RolledBack, n)"

inductive_simps spec_step_final: "spec_step (Canceled, n) b" "spec_step (Dead, n) b" "spec_step (RolledBack, n) b"

definition phase_of :: "string \<Rightarrow> phase" where
  "phase_of st =
     (if st = PatchQueueStateProposed then Proposed
      else if st = PatchQueueStateValidating then Validating
      else if st = PatchQueueStateApplied then Applied
      else if st = PatchQueueStateRetryPending then Retrying
      else if st = PatchQueueStateDeadLetter then Dead
      else if st = PatchQueueStateCanceled then Canceled
      else if st = PatchQueueStateRolledBack then RolledBack
      else Rejected)"

definition abs_item :: "PatchQueueItem \<Rightarrow> phase \<times> nat" where
  "abs_item i = (phase_of (pq_State i), nat (pq_MaxAttempts i - pq_Attempt i))"

definition work_left :: "phase \<times> nat \<Rightarrow> nat" where
  "work_left a = (case a of (p, n) \<Rightarrow>
     (case p of Proposed \<Rightarrow> 4 * n + 4 | Validating \<Rightarrow> 4 * n + 3 | Rejected \<Rightarrow> 4 * n + 2 | Retrying \<Rightarrow> 4 * n + 1
      | Applied \<Rightarrow> 1 | Dead \<Rightarrow> 0 | Canceled \<Rightarrow> 0 | RolledBack \<Rightarrow> 0))"

lemma spec_step_work: "spec_step a b \<Longrightarrow> work_left b < work_left a"
  by (induction rule: spec_step.induct) (auto simp: work_left_def)

lemma phase_of_simps [simp]:
  "phase_of PatchQueueStateProposed = Proposed" "phase_of PatchQueueStateValidating = Validating"
  "phase_of PatchQueueStateApplied = Applied" "phase_of PatchQueueStateRetryPending = Retrying"
  "phase_of PatchQueueStateDeadLetter = Dead" "phase_of PatchQueueStateCanceled = Canceled"
  "phase_of PatchQueueStateRolledBack = RolledBack" "phase_of PatchQueueStateFailed = Rejected"
  "phase_of PatchQueueStateConflict = Rejected" "phase_of PatchQueueStateTestConflict = Rejected"
  by (simp_all add: phase_of_def)

lemma spec_steps_of_recovery:
  assumes "item_inv k i" and "patchQueueTerminalFailureState (pq_State i)"
  shows "spec_step (abs_item i) (abs_item (recovery_item reason delay now i))"
proof -
  have at: "1 \<le> pq_Attempt i" "pq_Attempt i \<le> pq_MaxAttempts i" and st: "pq_State i \<in> set queue_states"
    using assms(1) by (auto simp: item_inv_def attempts_ok_def)
  have p: "phase_of (pq_State i) = Rejected" using assms(2) unfolding terminal_failure_iff [OF st] by auto
  have n: "normalizePatchQueueAttempt (pq_Attempt i) = pq_Attempt i" "normalizePatchQueueMaxAttempts (pq_MaxAttempts i) = pq_MaxAttempts i"
    using at by (auto simp: normalizePatchQueueAttempt_def normalizePatchQueueMaxAttempts_def)
  show ?thesis
  proof (cases "pq_Attempt i < pq_MaxAttempts i")
    case True
    then obtain m where "nat (pq_MaxAttempts i - pq_Attempt i) = Suc m" using not0_implies_Suc [of "nat (pq_MaxAttempts i - pq_Attempt i)"] by auto
    with True p n show ?thesis by (simp add: abs_item_def recovery_item_def Let_def spec_again)
  next
    case False
    with at have "pq_MaxAttempts i = pq_Attempt i" by simp
    with p n show ?thesis by (simp add: abs_item_def recovery_item_def Let_def spec_dead)
  qed
qed

lemma spec_step_of_retry:
  assumes "item_inv k i" and "pq_State i = PatchQueueStateRetryPending"
  shows "spec_step (abs_item i) (abs_item (retry_item i now))"
proof -
  have b: "1 \<le> pq_Attempt i" "pq_Attempt i < pq_MaxAttempts i" "pq_MaxAttempts i \<le> max_int64"
    using assms by (auto simp: item_inv_def attempts_ok_def)
  then have w: "wrap64 (pq_Attempt i + 1) = pq_Attempt i + 1" by (intro wrap64_id) auto
  have m: "nat (pq_MaxAttempts i - pq_Attempt i) = Suc (nat (pq_MaxAttempts i - (pq_Attempt i + 1)))" using b by linarith
  have "abs_item i = (Retrying, Suc (nat (pq_MaxAttempts i - (pq_Attempt i + 1))))" unfolding abs_item_def assms(2) m by simp
  moreover have "abs_item (retry_item i now) = (Validating, nat (pq_MaxAttempts i - (pq_Attempt i + 1)))"
    using b w by (simp add: abs_item_def retry_item_def normalizePatchQueueAttempt_def)
  ultimately show ?thesis by (simp add: spec_retry)
qed

lemma item_step_refines:
  assumes "item_step i j" and "item_inv k i"
  shows "spec_step (abs_item i) (abs_item j)"
  using assms(1)
proof cases
  case (item_complete a r e te has now)
  then show ?thesis by (auto simp: abs_item_def outcome_state intro: spec_apply spec_reject)
next
  case item_recover
  then show ?thesis using spec_steps_of_recovery [OF assms(2)] by simp
next
  case item_retry
  then show ?thesis using spec_step_of_retry [OF assms(2)] by simp
next
  case item_cancel
  then show ?thesis by (auto simp: abs_item_def intro: spec_cancel)
next
  case item_rollback
  then show ?thesis by (simp add: abs_item_def rolled_back_item_def spec_undo)
qed (simp add: abs_item_def spec_start)

lemma item_step_max: "item_step i j \<Longrightarrow> item_inv k i \<Longrightarrow> pq_MaxAttempts j = pq_MaxAttempts i"
  by (induction rule: item_step.induct)
    (simp_all add: retry_item_def recovery_item_def Let_def rolled_back_item_def item_inv_def attempts_ok_def
      normalizePatchQueueMaxAttempts_def)

subsection \<open>Invariant and progress of the queue\<close>

definition queue_inv :: "queue_state \<Rightarrow> bool" where
  "queue_inv s \<longleftrightarrow> (\<forall>k i. map_of (qs_items (fst s)) k = Some i \<longrightarrow> item_inv k i)"

text \<open>How an item may have moved on: its identity and budget kept, its work not grown, its history extended.\<close>

definition item_later :: "PatchQueueItem \<Rightarrow> PatchQueueItem \<Rightarrow> bool" where
  "item_later i j \<longleftrightarrow> same_identity i j \<and> spec_step\<^sup>*\<^sup>* (abs_item i) (abs_item j) \<and>
     prefix (pq_RecoveryDecisions i) (pq_RecoveryDecisions j) \<and> pq_MaxAttempts j = pq_MaxAttempts i \<and>
     (i = j \<or> work_left (abs_item j) < work_left (abs_item i))"

definition queue_later :: "queue_state \<Rightarrow> queue_state \<Rightarrow> bool" where
  "queue_later s t \<longleftrightarrow> (\<forall>k i. map_of (qs_items (fst s)) k = Some i \<longrightarrow>
     (\<exists>j. map_of (qs_items (fst t)) k = Some j \<and> item_later i j))"

lemma same_identity_trans: "same_identity i j \<Longrightarrow> same_identity j k \<Longrightarrow> same_identity i k"
  unfolding same_identity_def by (cases i, cases j, cases k) simp

lemma same_identity_refl: "same_identity i i"
  by (simp add: same_identity_def)

lemma item_step_decisions: "item_step i j \<Longrightarrow> prefix (pq_RecoveryDecisions i) (pq_RecoveryDecisions j)"
  by (induction rule: item_step.induct) (simp_all add: retry_item_def recovery_item_def Let_def rolled_back_item_def)

lemma item_later_refl: "item_later i i"
  by (simp add: item_later_def same_identity_refl)

lemma item_later_trans: "item_later i j \<Longrightarrow> item_later j k \<Longrightarrow> item_later i k"
  unfolding item_later_def
  by (auto intro: same_identity_trans prefix_order.trans rtranclp_trans)

lemma item_step_later:
  assumes "item_step i j" and "item_inv k i" shows "item_later i j"
  unfolding item_later_def
  using item_step_identity [OF assms(1)] item_step_decisions [OF assms(1)] item_step_max [OF assms]
    item_step_refines [OF assms] spec_step_work by blast

interpretation queue_items: item_invariant item_inv
  by unfold_locales (auto intro: fresh_item_inv item_step_inv)

lemma queue_inv_items: "queue_inv = all_items item_inv"
  by (simp add: fun_eq_iff queue_inv_def all_items_def)

interpretation queue_machine: step_progress "\<lambda>s. fst s = NewPatchQueueStore" queue_step queue_inv queue_later
proof
  show "queue_inv s" if "fst s = NewPatchQueueStore" for s
    unfolding queue_inv_items by (rule queue_items.every_item.inv_init [OF that])
  show "queue_inv s'" if "queue_inv s" "queue_step oper s s'" for s s' oper
    using that unfolding queue_inv_items by (rule queue_items.every_item.inv_step)
next
  fix s s' :: queue_state and oper
  assume inv: "queue_inv s" and step: "queue_step oper s s'"
  obtain q ls q' ls' where s: "s = (q, ls)" "s' = (q', ls')" by (cases s, cases s')
  from queue_step_items [OF step [unfolded s]] show "queue_later s s'"
  proof cases
    case (one_step k i i')
    then show ?thesis using inv item_step_later [of i i' k] by (auto simp: queue_inv_def queue_later_def s item_later_refl)
  qed (auto simp: queue_later_def s item_later_refl)
next
  show "queue_later s s" for s by (auto simp: queue_later_def item_later_refl)
next
  show "queue_later s u" if "queue_later s t" "queue_later t u" for s t u
    using that unfolding queue_later_def by (meson item_later_trans)
qed

end
