(* ===== verification/Queue_Rollback.thy ===== *)
theory Queue_Rollback
  imports Queue_Machine
begin

section \<open>Rollbacks\<close>

text \<open>
  What the rollback evidence that \<open>RecordRollback\<close> accepts says of the applied patch it undoes.
\<close>

subsection \<open>What accepted rollback evidence says\<close>

lemma collect_applied_paths_Inr:
  "collect_applied_paths ps i m prs = Inr m' \<Longrightarrow>
   m' = m @ map (\<lambda>pr. (cp_Path pr, pr)) prs \<and> (distinct (map fst m) \<longrightarrow> distinct (map fst m'))"
proof (induction prs arbitrary: i m)
  case (Cons pr prs)
  from Cons.prems have new: "map_of m (cp_Path pr) = None"
    and rest: "collect_applied_paths ps (Suc i) (m @ [(cp_Path pr, pr)]) prs = Inr m'"
    by (auto split: sum.splits)
  from new have "cp_Path pr \<notin> fst ` set m" by (simp add: map_of_eq_None_iff)
  then have d: "distinct (map fst m) \<Longrightarrow> distinct (map fst (m @ [(cp_Path pr, pr)]))" by simp
  note IH = Cons.IH [OF rest]
  show ?case
  proof (intro conjI impI)
    show "m' = m @ map (\<lambda>pr. (cp_Path pr, pr)) (pr # prs)" using conjunct1 [OF IH] by simp
    show "distinct (map fst m')" if "distinct (map fst m)" using conjunct2 [OF IH] d [OF that] by blast
  qed
qed simp

text \<open>A rollback path restores the base hash of an applied path that was modified, not added.\<close>

definition restores :: "CASPatchPathResult \<Rightarrow> PatchQueueRollbackPath \<Rightarrow> bool" where
  "restores pr c \<longleftrightarrow> rp_Path c = cp_Path pr \<and> rp_RollbackCandidateHash c = cp_BaseHash pr \<and> rp_SourceBaseHash c = cp_BaseHash pr \<and>
     rp_SourceAppliedHash c = cp_CandidateHash pr \<and> casPatchPathChangeKind pr \<noteq> CASPatchChangeAdd"

lemma normalize_rollback_path_Inr:
  assumes "normalize_rollback_path ps applied i seen e = Inr c" and "\<forall>(p, pr) \<in> set applied. p = cp_Path pr"
  shows "rp_Path c \<notin> set seen \<and> (\<exists>pr. (cp_Path pr, pr) \<in> set applied \<and> restores pr c)"
proof -
  define e' where "e' = trim_rollback_path e"
  obtain pr where pr: "map_of applied (rp_Path e') = Some pr" and c: "c = complete_rollback_path pr e'"
    and new: "rp_Path e' \<notin> set seen" and h: "casPatchPathChangeKind pr \<noteq> CASPatchChangeAdd" "rp_SourceBaseHash c = cp_BaseHash pr"
    "rp_SourceAppliedHash c = cp_CandidateHash pr" "rp_RollbackCandidateHash c = cp_BaseHash pr"
    using assms(1) unfolding normalize_rollback_path_def Let_def e'_def [symmetric] by (auto split: sum.splits option.splits)
  have "rp_Path c = rp_Path e'" by (simp add: c complete_rollback_path_def)
  moreover from map_of_SomeD [OF pr] assms(2) have "rp_Path e' = cp_Path pr" "(cp_Path pr, pr) \<in> set applied" by auto
  ultimately show ?thesis using new h by (auto simp: restores_def)
qed

lemma collect_rollback_paths_Inr:
  "collect_rollback_paths ps applied i seen es = Inr out \<Longrightarrow> \<forall>(p, pr) \<in> set applied. p = cp_Path pr \<Longrightarrow>
   distinct (map rp_Path out) \<and> rp_Path ` set out \<inter> set seen = {} \<and>
   (\<forall>c \<in> set out. \<exists>pr. (cp_Path pr, pr) \<in> set applied \<and> restores pr c)"
proof (induction es arbitrary: i seen out)
  case (Cons e es)
  from Cons.prems(1) obtain c cs where c: "normalize_rollback_path ps applied i seen e = Inr c"
    and cs: "collect_rollback_paths ps applied (Suc i) (rp_Path c # seen) es = Inr cs" and out: "out = c # cs"
    by (auto simp: bind_result_Inr)
  from normalize_rollback_path_Inr [OF c Cons.prems(2)] Cons.IH [OF cs Cons.prems(2)] show ?case
    unfolding out by auto
qed simp

lemma rollback_paths_Inr:
  assumes "normalizePatchQueueRollbackPaths paths current = Inr (out, d)"
  shows "map rp_Path out = sort (map cp_Path (car_Paths (pq_CASResult current))) \<and> distinct (map rp_Path out) \<and>
    (\<forall>c \<in> set out. \<exists>pr \<in> set (car_Paths (pq_CASResult current)). restores pr c) \<and>
    d = digestCASPatchCandidates (map (\<lambda>c. \<lparr>ce_path = rp_Path c, ce_hash = rp_RollbackCandidateHash c\<rparr>) out)"
proof -
  let ?prs = "car_Paths (pq_CASResult current)" and ?f = "\<lambda>c. \<lparr>ce_path = rp_Path c, ce_hash = rp_RollbackCandidateHash c\<rparr>"
  obtain ps applied es where app: "collect_applied_paths ps 0 [] ?prs = Inr applied"
    and es: "collect_rollback_paths ps applied 0 [] paths = Inr es"
    and all: "\<forall>g \<in> set applied. fst g \<in> rp_Path ` set es"
    and out: "out = sort_key rp_Path es" "d = digestCASPatchCandidates (sort_key ce_path (map ?f es))"
    using assms unfolding normalizePatchQueueRollbackPaths_def bind_result_Inr require_Inr
    by (auto simp: guards_None guards_append split_beta split: option.splits)
  note col = collect_applied_paths_Inr [OF app]
  have ap: "applied = map (\<lambda>pr. (cp_Path pr, pr)) ?prs" using conjunct1 [OF col] by simp
  have "distinct (map fst applied)" using conjunct2 [OF col] by (simp only: list.map distinct.simps simp_thms)
  then have ap2: "distinct (map cp_Path ?prs)" unfolding ap by (simp add: comp_def)
  have "\<forall>(p, pr) \<in> set applied. p = cp_Path pr" by (auto simp: ap)
  note r = collect_rollback_paths_Inr [OF es this]
  have "rp_Path ` set es = cp_Path ` set ?prs"
  proof
    show "rp_Path ` set es \<subseteq> cp_Path ` set ?prs" using r by (fastforce simp: ap restores_def)
    show "cp_Path ` set ?prs \<subseteq> rp_Path ` set es" using all by (auto simp: ap)
  qed
  then have "set (map rp_Path es) = set (map cp_Path ?prs)" by simp
  then have "mset (map rp_Path es) = mset (map cp_Path ?prs)"
    using set_eq_iff_mset_eq_distinct [OF conjunct1 [OF r] ap2] by blast
  then have "sort (map rp_Path es) = sort (map cp_Path ?prs)" by (rule sort_mset)
  moreover have "map rp_Path out = sort (map rp_Path es)" unfolding out using map_sort_key [of rp_Path "\<lambda>x. x" es] by simp
  moreover have "sort_key ce_path (map ?f es) = map ?f out" unfolding out using map_sort_key [of ?f ce_path es] by simp
  moreover have "\<forall>c \<in> set out. \<exists>pr \<in> set ?prs. restores pr c" using r by (fastforce simp: out ap)
  moreover have "distinct (map rp_Path out)" using ap2 calculation(1,2) by simp
  ultimately show ?thesis using out(2) by simp
qed

lemma check_rollback_None:
  assumes "check_rollback current a d e = None"
  shows "rb_RollbackPatchDigest e = d" "rb_SourcePatchDigest e = pq_CASPatchDigest current"
    "rb_SourceOperationID e = pq_OperationID current" "rb_RollbackOperationID e = op_ID (ctx_Operation a)"
    "rb_RollbackOperationID e \<noteq> rb_SourceOperationID e" "rb_VerificationStatus e = PatchQueueTestStatusPassed"
    "rb_VerificationExitCode e = 0" "rb_Reason e \<noteq> []" "isCanonicalSHA256Digest (rb_VerificationOutputDigest e)"
  using assms unfolding check_rollback_def guards_append by (auto split: option.splits)

lemma rollback_evidence_Inr:
  assumes "normalizePatchQueueRollbackEvidence e0 current a now = Inr e"
  shows "map rp_Path (rb_RollbackPaths e) = sort (map cp_Path (car_Paths (pq_CASResult current)))"
    and "distinct (map rp_Path (rb_RollbackPaths e))"
    and "\<forall>c \<in> set (rb_RollbackPaths e). \<exists>pr \<in> set (car_Paths (pq_CASResult current)). restores pr c"
    and "rb_RollbackPatchDigest e =
      digestCASPatchCandidates (map (\<lambda>c. \<lparr>ce_path = rp_Path c, ce_hash = rp_RollbackCandidateHash c\<rparr>) (rb_RollbackPaths e))"
    and "rb_SourcePatchDigest e = pq_CASPatchDigest current" and "rb_SourceOperationID e = pq_OperationID current"
    and "rb_RollbackOperationID e \<noteq> pq_OperationID current"
    and "rb_VerificationStatus e = PatchQueueTestStatusPassed \<and> rb_VerificationExitCode e = 0"
proof -
  obtain paths d where p: "normalizePatchQueueRollbackPaths (rb_RollbackPaths (default_rollback current a now (trim_rollback e0))) current = Inr (paths, d)"
    and c: "check_rollback current a d e = None" and paths: "rb_RollbackPaths e = paths"
    using assms unfolding normalizePatchQueueRollbackEvidence_def Let_def by (auto simp: bind_result_Inr)
  note r = rollback_paths_Inr [OF p, folded paths] and k = check_rollback_None [OF c]
  show "map rp_Path (rb_RollbackPaths e) = sort (map cp_Path (car_Paths (pq_CASResult current)))"
    and "distinct (map rp_Path (rb_RollbackPaths e))"
    and "\<forall>c \<in> set (rb_RollbackPaths e). \<exists>pr \<in> set (car_Paths (pq_CASResult current)). restores pr c"
    using r by blast+
  show "rb_RollbackPatchDigest e =
      digestCASPatchCandidates (map (\<lambda>c. \<lparr>ce_path = rp_Path c, ce_hash = rp_RollbackCandidateHash c\<rparr>) (rb_RollbackPaths e))"
    using r k(1) by simp
  show "rb_SourcePatchDigest e = pq_CASPatchDigest current" "rb_SourceOperationID e = pq_OperationID current"
    "rb_RollbackOperationID e \<noteq> pq_OperationID current" using k(2,3,5) by simp_all
  show "rb_VerificationStatus e = PatchQueueTestStatusPassed \<and> rb_VerificationExitCode e = 0" using k(6,7) by simp
qed

end
