(* ===== verification/Queue_Demo.thy ===== *)
theory Queue_Demo
  imports Queue_Rollback
begin

section \<open>A concrete queue\<close>

text \<open>
  A lease, a proposal on it and the queue it leaves, for the witnesses of the queue properties. The
  digests stay symbolic: nothing here computes a hash.
\<close>

subsection \<open>Canonical digests\<close>

lemma lower_hex_digit: "is_lower_hex c \<Longrightarrow> \<exists>n < 16. hex_digit n = c"
proof -
  assume "is_lower_hex c"
  then consider "(of_char c :: nat) \<in> {48..57}" | "(of_char c :: nat) \<in> {97..102}" by (auto simp: is_lower_hex_def)
  then show ?thesis
  proof cases
    case 1
    then show ?thesis by (intro exI [of _ "of_char c - 48"]) (auto simp: hex_digit_def)
  next
    case 2
    then show ?thesis by (intro exI [of _ "of_char c - 87"]) (auto simp: hex_digit_def)
  qed
qed

lemma hex_decode:
  "length s = 2 * n \<Longrightarrow> list_all is_lower_hex s \<Longrightarrow> \<exists>bs. length bs = n \<and> (\<forall>b \<in> set bs. b < 256) \<and> hex_encode bs = s"
proof (induction n arbitrary: s)
  case (Suc n)
  then obtain c d t where s: "s = c # d # t" by (cases s; cases "tl s") auto
  with Suc obtain bs where bs: "length bs = n" "\<forall>b \<in> set bs. b < 256" "hex_encode bs = t" by auto
  from s Suc.prems(2) obtain i j where ij: "i < 16" "hex_digit i = c" "j < 16" "hex_digit j = d"
    using lower_hex_digit [of c] lower_hex_digit [of d] by auto
  have "hex_byte (16 * i + j) = [c, d]" using ij by (simp add: hex_byte_def)
  then have "hex_encode ((16 * i + j) # bs) = s" using bs(3) s by (simp add: hex_encode_def)
  with bs ij show ?case by (intro exI [of _ "(16 * i + j) # bs"]) auto
qed (simp add: hex_encode_def)

lemma canonical_sha256_text [simp]: "isCanonicalSHA256Digest (sha256_text m)"
proof -
  have "TrimPrefix (sha256_text m) ''sha256:'' = hex_encode (sha256 m)"
    by (simp add: sha256_text_def TrimPrefix_def HasPrefix_def)
  then show ?thesis using hex_encode_chars [of "sha256 m"] by (simp add: isCanonicalSHA256Digest_def Let_def list_all_iff)
qed

lemma canonical_json_digest [simp]: "isCanonicalSHA256Digest (json_digest j)"
  by (simp add: json_digest_def)

subsection \<open>The contexts\<close>

definition demo_prop :: Context where
  "demo_prop = demo_bound\<lparr>ctx_Operation := no_operation\<rparr>"

lemma demo_schema: "TrimSpace (ctx_Schema demo_context) \<noteq> []"
  by code_simp

lemma demo_bound_valid: "Context_Validate demo_bound = None" "WithDefaults demo_bound = demo_bound"
proof -
  show "Context_Validate demo_bound = None"
    by (rule Context_Validate_attach [OF demo_context_valid(1) demo_bound_def demo_bound_concrete])
  show "WithDefaults demo_bound = demo_bound"
    using demo_schema by (simp add: demo_bound_def WithDefaults_def)
qed

lemma demo_prop_valid: "Context_Validate demo_prop = None" "WithDefaults demo_prop = demo_prop"
proof -
  have "validateOperationRef no_operation (ctx_Lease demo_bound) (ctx_PatchQueue demo_bound) = None"
    by (simp add: validateOperationRef_def no_operation_def Let_def)
  then show "Context_Validate demo_prop = None"
    using demo_bound_valid(1) unfolding Context_Validate_def guards_Cons_None demo_prop_def by simp
  show "WithDefaults demo_prop = demo_prop"
    using demo_schema by (simp add: demo_prop_def demo_bound_def WithDefaults_def)
qed

definition demo_digest :: string where
  "demo_digest = json_digest (json_context demo_prop)"

lemma demo_queue_digest: "patchQueueContextDigest demo_prop = Inr demo_digest" "patchQueueContextDigest demo_bound = Inr demo_digest"
proof -
  have "demo_prop\<lparr>ctx_Operation := no_operation\<rparr> = demo_prop" by (simp add: demo_prop_def)
  then show "patchQueueContextDigest demo_prop = Inr demo_digest"
    by (simp add: patchQueueContextDigest_def demo_prop_valid Context_Digest_Inr demo_digest_def)
  show "patchQueueContextDigest demo_bound = Inr demo_digest"
    by (simp add: patchQueueContextDigest_def demo_bound_valid demo_prop_def [symmetric] demo_prop_valid Context_Digest_Inr demo_digest_def)
qed

lemma demo_refs [simp]:
  "ctx_Lease demo_prop = \<lparr>lr_ID = fl_ID demo_lease, lr_Term = 1\<rparr>" "ctx_Lease demo_bound = \<lparr>lr_ID = fl_ID demo_lease, lr_Term = 1\<rparr>"
  "ctx_PatchQueue demo_prop = \<lparr>pqr_QueueID = ''q1'', pqr_ItemID = ''i1''\<rparr>"
  "ctx_PatchQueue demo_bound = \<lparr>pqr_QueueID = ''q1'', pqr_ItemID = ''i1''\<rparr>"
  "ctx_Pathset demo_prop = [''a.go'', ''b.go'']" "ctx_Pathset demo_bound = [''a.go'', ''b.go'']"
  "ctx_Operation demo_prop = no_operation" "ctx_Operation demo_bound = \<lparr>op_ID = ''op1'', op_Kind = ''repo_patch_apply''\<rparr>"
  by (simp_all add: demo_prop_def demo_bound_def demo_context_def)

lemma demo_trim [simp]: "TrimSpace ''q1'' = ''q1''" "TrimSpace ''i1'' = ''i1''" "TrimSpace (fl_ID demo_lease) = fl_ID demo_lease"
  by (simp_all add: TrimSpace_graphic graphic_def demo_lease_def new_lease_def TrimSpace_buildFileLeaseID)

lemma demo_paths: "NormalizePathSet [''a.go'', ''b.go''] = Inr [''a.go'', ''b.go'']"
  by code_simp

lemma demo_labels: "rejectVagueBindingLabel f ''q1'' = None" "rejectVagueBindingLabel f ''i1'' = None"
  "rejectVagueBindingLabel f (fl_ID demo_lease) = None"
proof -
  have "\<not> isVagueRepoAuthorityLabel ''q1''" "\<not> isVagueRepoAuthorityLabel ''i1''" by code_simp+
  then show "rejectVagueBindingLabel f ''q1'' = None" "rejectVagueBindingLabel f ''i1'' = None" by (simp_all add: rejectVague_None)
  show "rejectVagueBindingLabel f (fl_ID demo_lease) = None" by (simp add: demo_lease_def new_lease_def lease_id_concrete)
qed

lemma demo_authority:
  "verifyPatchQueueLeaseAuthority 1 demo_prop 3 (Some demo_store) = (None, Some demo_store)"
  "\<exists>b. BindMutationOperation 1 \<lparr>bi_Context = demo_bound, bi_MutationPaths = [''a.go'', ''b.go''], bi_Now = 3\<rparr> (Some demo_store) =
     (Inr b, Some demo_store)"
proof -
  obtain d where b: "BindMutationOperation 1 \<lparr>bi_Context = demo_bound, bi_MutationPaths = [''a.go'', ''b.go''], bi_Now = 3\<rparr> (Some demo_store) =
      (Inr (new_binding demo_bound d demo_lease [''a.go'', ''b.go'']), Some demo_store)"
    using demo_bind [of "[''a.go'', ''b.go'']" "[''a.go'', ''b.go'']" "[''a.go'', ''b.go'']"] demo_paths by (auto simp: demo_unexpired)
  then show "\<exists>b. BindMutationOperation 1 \<lparr>bi_Context = demo_bound, bi_MutationPaths = [''a.go'', ''b.go''], bi_Now = 3\<rparr> (Some demo_store) =
     (Inr b, Some demo_store)" by blast
  from b obtain a d' l ps where req: "binding_request \<lparr>bi_Context = demo_bound, bi_MutationPaths = [''a.go'', ''b.go''], bi_Now = 3\<rparr> demo_store
      = Inr (a, d', l, ps)"
    and auth: "AuthorizeMutation 1 \<lparr>au_LeaseID = lr_ID (ctx_Lease a), au_Term = lr_Term (ctx_Lease a),
          au_Holder = HolderForLease l, au_Paths = ps, au_Now = 3\<rparr> demo_store = (None, demo_store)"
    unfolding BindMutationOperation_Inr by auto
  note r = binding_request_Inr [OF demo_inv req]
  have a: "a = demo_bound" using r(1) by (simp add: demo_bound_valid)
  have l: "l = demo_lease" using r(4) demo_lookup by (simp add: a)
  have ps: "ps = [''a.go'', ''b.go'']" using r(7) by (simp add: demo_paths)
  have v: "verifyMutationBindingContext demo_prop demo_lease = None" "verifyLeaseAcquisitionContextDigest demo_prop demo_lease = None"
    using r(5,6) unfolding a l by (simp_all add: verifyMutationBindingContext_def verifyLeaseAcquisitionContextDigest_def demo_prop_def)
  show "verifyPatchQueueLeaseAuthority 1 demo_prop 3 (Some demo_store) = (None, Some demo_store)"
    using auth v unfolding a l ps
    by (simp add: verifyPatchQueueLeaseAuthority_def findBindingLease_Inr [OF demo_inv, THEN iffD2] demo_lookup)
qed

subsection \<open>The item\<close>

definition demo_propose :: ProposePatchQueueItemInput where
  "demo_propose = \<lparr>pi_Context = demo_prop, pi_Now = 3, pi_MaxAttempts = 2\<rparr>"

definition demo_item :: PatchQueueItem where
  "demo_item = new_item demo_propose demo_prop demo_digest [''a.go'', ''b.go''] 3"

definition demo_queue :: "PatchQueueItem \<Rightarrow> PatchQueueStore" where
  "demo_queue i = put_item (''q1'', ''i1'') i NewPatchQueueStore"

lemma demo_item_simps [simp]:
  "pq_State demo_item = PatchQueueStateProposed" "pq_Attempt demo_item = 1" "pq_MaxAttempts demo_item = 2"
  "pq_QueueID demo_item = ''q1''" "pq_ItemID demo_item = ''i1''" "pq_ContextDigest demo_item = demo_digest"
  "pq_Pathset demo_item = [''a.go'', ''b.go'']" "pq_RepoLeaseID demo_item = fl_ID demo_lease" "pq_LeaseTerm demo_item = 1"
  by (simp_all add: demo_item_def new_item_def demo_propose_def normalizePatchQueueMaxAttempts_def)

lemma demo_refs_ok: "requirePatchQueueProposalRefs demo_prop = None"
  using demo_labels by (simp add: requirePatchQueueProposalRefs_def demo_prop_valid no_operation_def)

lemma demo_propose_simps [simp]: "pi_Context demo_propose = demo_prop" "pi_Now demo_propose = 3" "pi_MaxAttempts demo_propose = 2"
  by (simp_all add: demo_propose_def)

lemma demo_proposed:
  "Propose 1 1 demo_propose (Some demo_store) NewPatchQueueStore = (Inr demo_item, demo_queue demo_item, Some demo_store)"
proof -
  have item: "new_item demo_propose demo_prop demo_digest [''a.go'', ''b.go''] 3 = demo_item" by (simp only: demo_item_def)
  have p: "propose_item demo_propose demo_prop 3 NewPatchQueueStore = Inr ((''q1'', ''i1''), demo_item)"
    unfolding propose_item_def demo_queue_digest bind_result_simps demo_refs demo_paths map_err_def sum.case Let_def item demo_item_simps
    by (simp add: NewPatchQueueStore_def)
  have now: "normalizeLeaseTime 1 3 = 3" by (simp add: normalizeLeaseTime_def)
  show ?thesis
    unfolding Propose_def Let_def demo_propose_simps demo_prop_valid(2) demo_refs_ok option.case demo_authority(1) prod.case now p
      run_queue_def sum.case demo_queue_def ..
qed

lemma demo_queue_run:
  "run_of (\<lambda>s. fst s = NewPatchQueueStore) queue_step [OpPropose] (demo_queue demo_item, Some demo_store)"
proof (rule run_step)
  show "run_of (\<lambda>s. fst s = NewPatchQueueStore) queue_step [] (NewPatchQueueStore, Some demo_store)" by (rule run_start) simp
  show "queue_step OpPropose (NewPatchQueueStore, Some demo_store) (demo_queue demo_item, Some demo_store)"
    by (rule step_propose [OF demo_proposed]) simp
qed

lemma demo_ids: "request_ids [] [] demo_prop = Inr (''q1'', ''i1'')" "request_ids [] [] demo_bound = Inr (''q1'', ''i1'')"
  by (simp_all add: request_ids_def patchQueueInputIDs_def demo_labels)

lemma demo_lookup_item: "find_item (demo_queue i) (''q1'', ''i1'') = Inr i"
  "map_of (qs_items (demo_queue i)) (patchQueueKey ''q1'' ''i1'') = Some i"
  by (simp_all add: find_item_Inr demo_queue_def put_item_items)

lemma demo_item_context:
  assumes "same_identity demo_item i"
  shows "verifyPatchQueueItemContext i demo_prop = None" "verifyPatchQueueItemContext i demo_bound = None"
proof -
  have "pq_ContextDigest i = demo_digest" "pq_QueueID i = ''q1''" "pq_ItemID i = ''i1''" "pq_RepoLeaseID i = fl_ID demo_lease"
    "pq_LeaseTerm i = 1" "pq_Pathset i = [''a.go'', ''b.go'']"
    by (subst assms [unfolded same_identity_def], simp)+
  then show "verifyPatchQueueItemContext i demo_prop = None" "verifyPatchQueueItemContext i demo_bound = None"
    by (simp_all add: verifyPatchQueueItemContext_None demo_queue_digest demo_paths)
qed

definition demo_started :: PatchQueueItem where
  "demo_started = demo_item\<lparr>pq_State := PatchQueueStateValidating, pq_UpdatedAt := formatLeaseTime 3\<rparr>"

lemma demo_start:
  "StartValidation 1 \<lparr>ti_QueueID = [], ti_ItemID = [], ti_Context = demo_prop, ti_Now = 3\<rparr> (demo_queue demo_item) =
     (Inr demo_started, put_item (''q1'', ''i1'') demo_started (demo_queue demo_item))"
  unfolding StartValidation_def transition_Inr
  by (rule exI [of _ "(''q1'', ''i1'')"], rule exI [of _ demo_item])
    (simp add: demo_prop_valid demo_ids demo_lookup_item demo_item_context same_identity_refl start_guard_def demo_started_def
      normalizeLeaseTime_def)

lemma demo_start_step: "queue_step OpStart (demo_queue demo_item, ls) (put_item (''q1'', ''i1'') demo_started (demo_queue demo_item), ls)"
  by (rule step_start [OF demo_start])

end
