(* ===== verification/Queue_Properties.thy ===== *)
theory Queue_Properties
  imports Queue_Demo
begin

section \<open>Properties of the patch queue\<close>

text \<open>
  The abstract queue and the refinement, the invariants of every reachable queue, what an applied
  and what a rolled back item stand for, and the retry clock.
\<close>

subsection \<open>Refinement of the abstract queue\<close>

text \<open>
  The abstract queue: a partial function from keys to a phase and a number of attempts left. A step
  does nothing, moves one item along its life cycle, or adds a proposed item.
\<close>

inductive spec_queue :: "(string \<rightharpoonup> phase \<times> nat) \<Rightarrow> (string \<rightharpoonup> phase \<times> nat) \<Rightarrow> bool" for m where
  spec_idle: "spec_queue m m"
| spec_move: "m k = Some a \<Longrightarrow> spec_step a b \<Longrightarrow> spec_queue m (m(k \<mapsto> b))"
| spec_new: "m k = None \<Longrightarrow> spec_queue m (m(k \<mapsto> (Proposed, n)))"

definition abs_queue :: "queue_state \<Rightarrow> string \<rightharpoonup> phase \<times> nat" where
  "abs_queue s = (\<lambda>k. map_option abs_item (map_of (qs_items (fst s)) k))"

lemma abs_update: "(\<lambda>k'. map_option f ((m(k \<mapsto> i)) k')) = (\<lambda>k'. map_option f (m k'))(k \<mapsto> f i)"
  by (rule ext) simp

lemma change_refines:
  assumes "items_change m m'" and "\<forall>k i. m k = Some i \<longrightarrow> item_inv k i"
  shows "spec_queue (\<lambda>k. map_option abs_item (m k)) (\<lambda>k. map_option abs_item (m' k))"
  using assms(1)
proof cases
  case (one_step k i i')
  then show ?thesis unfolding one_step(1) abs_update using assms(2) by (intro spec_move) (auto intro: item_step_refines)
next
  case (one_fresh k i)
  have "abs_item i = (Proposed, nat (pq_MaxAttempts i - pq_Attempt i))"
    using fresh_item_inv(2) [OF one_fresh(3)] by (simp add: abs_item_def)
  with one_fresh show ?thesis unfolding one_fresh(1) abs_update by (auto intro: spec_new)
qed (simp add: spec_idle)

lemma queue_inv_reachable: "run_of (\<lambda>s. fst s = NewPatchQueueStore) queue_step ops s \<Longrightarrow> queue_inv s"
  by (rule queue_machine.inv_run)

text \<open>C9. Every call on a reachable queue is a step of the abstract queue: it changes nothing, or it
  moves one item along the life cycle proposed, validating, applied or rejected, retrying while
  attempts are left, dead, canceled, rolled back, or it adds one proposed item.\<close>

theorem queue_refines:
  assumes "run_of (\<lambda>s. fst s = NewPatchQueueStore) queue_step ops s" and "queue_step oper s s'"
  shows "spec_queue (abs_queue s) (abs_queue s')"
proof -
  obtain q ls q' ls' where s: "s = (q, ls)" "s' = (q', ls')" by (cases s, cases s')
  from queue_inv_reachable [OF assms(1)] have "\<forall>k i. map_of (qs_items q) k = Some i \<longrightarrow> item_inv k i"
    by (simp add: queue_inv_def s)
  from change_refines [OF queue_step_items [OF assms(2) [unfolded s]] this] show ?thesis by (simp add: abs_queue_def s)
qed

theorem queue_refines_witness:
  "spec_queue (abs_queue (demo_queue demo_item, Some demo_store))
     (abs_queue (put_item (''q1'', ''i1'') demo_started (demo_queue demo_item), Some demo_store))"
  by (rule queue_refines [OF demo_queue_run demo_start_step])

subsection \<open>Invariants\<close>

text \<open>C11. Bounded retries. In every reachable queue an item has made between one attempt and its
  maximum, without overflow; it waits for a retry only when attempts are left, it is a dead letter only
  when none is left, and the attempts are exactly one more than the retries decided and started.\<close>

theorem queue_attempts_bounded:
  assumes "run_of (\<lambda>s. fst s = NewPatchQueueStore) queue_step ops s" and "map_of (qs_items (fst s)) k = Some i"
  shows "1 \<le> pq_Attempt i \<and> pq_Attempt i \<le> pq_MaxAttempts i \<and> pq_MaxAttempts i \<le> max_int64 \<and>
    (pq_State i = PatchQueueStateRetryPending \<longrightarrow> pq_Attempt i < pq_MaxAttempts i) \<and>
    (pq_State i = PatchQueueStateDeadLetter \<longrightarrow> pq_Attempt i = pq_MaxAttempts i) \<and>
    int (length (filter rc_Retryable (pq_RecoveryDecisions i))) =
      pq_Attempt i - 1 + (if pq_State i = PatchQueueStateRetryPending then 1 else 0)"
  using queue_inv_reachable [OF assms(1)] assms(2) by (simp add: queue_inv_def item_inv_def attempts_ok_def)

theorem queue_attempts_bounded_witness: "1 \<le> pq_Attempt demo_item \<and> pq_Attempt demo_item \<le> pq_MaxAttempts demo_item"
  using queue_attempts_bounded [OF demo_queue_run, of "patchQueueKey ''q1'' ''i1''" demo_item] by (simp add: demo_lookup_item)

text \<open>C14. What a state of a reachable item stands for: its key is that of its identifiers and its pathset
  is canonical and not empty; an applied or rolled back item has applied evidence, whose digests it
  records, an operation, and no failed test; a test conflict has applied evidence and a failed test; a
  conflict and a failure have evidence of that status.\<close>

theorem queue_evidence:
  assumes "run_of (\<lambda>s. fst s = NewPatchQueueStore) queue_step ops s" and "map_of (qs_items (fst s)) k = Some i"
  shows "k = patchQueueKey (pq_QueueID i) (pq_ItemID i) \<and> canonical_pathset (pq_Pathset i) \<and> pq_Pathset i \<noteq> [] \<and>
    (pq_State i \<in> {PatchQueueStateApplied, PatchQueueStateRolledBack} \<longrightarrow>
       car_Status (pq_CASResult i) = CASPatchStatusApplied \<and> pq_CASEvaluationDigest i = digestCASPatchApplyResult (pq_CASResult i) \<and>
       pq_OperationID i \<noteq> [] \<and> pq_OperationKind i \<noteq> [] \<and>
       (pq_TestEvidence i = zero_test_evidence \<or> te_Status (pq_TestEvidence i) = PatchQueueTestStatusPassed)) \<and>
    (pq_State i = PatchQueueStateTestConflict \<longrightarrow>
       car_Status (pq_CASResult i) = CASPatchStatusApplied \<and> te_Status (pq_TestEvidence i) = PatchQueueTestStatusFailed) \<and>
    (pq_State i = PatchQueueStateConflict \<longrightarrow> car_Status (pq_CASResult i) = CASPatchStatusConflict) \<and>
    (pq_State i = PatchQueueStateFailed \<longrightarrow> car_Status (pq_CASResult i) = CASPatchStatusFailed)"
proof -
  have "item_inv k i" using queue_inv_reachable [OF assms(1)] assms(2) by (simp add: queue_inv_def)
  then show ?thesis unfolding item_inv_def evidence_ok_def operation_ok_def by blast
qed

theorem queue_evidence_witness: "canonical_pathset (pq_Pathset demo_item)"
  using queue_evidence [OF demo_queue_run, of "patchQueueKey ''q1'' ''i1''" demo_item] by (simp add: demo_lookup_item)

text \<open>C12. Items are permanent and finish. Whatever calls follow, an item stays under its key with the
  fields that identify it and its maximum of attempts, its recovery history only grows, its phase
  follows the life cycle, and any change leaves it with less work to do; the work is at most four
  steps per attempt. So each item changes finitely often.\<close>

theorem queue_progress:
  assumes "run_of (\<lambda>s. fst s = NewPatchQueueStore) queue_step ops s" and "run_of (\<lambda>t. t = s) queue_step later s'"
    and "map_of (qs_items (fst s)) k = Some i"
  shows "\<exists>j. map_of (qs_items (fst s')) k = Some j \<and> pq_ID j = pq_ID i \<and> pq_ContextDigest j = pq_ContextDigest i \<and>
    pq_RepoLeaseID j = pq_RepoLeaseID i \<and> pq_LeaseTerm j = pq_LeaseTerm i \<and> pq_Pathset j = pq_Pathset i \<and>
    pq_CreatedAt j = pq_CreatedAt i \<and> pq_MaxAttempts j = pq_MaxAttempts i \<and>
    prefix (pq_RecoveryDecisions i) (pq_RecoveryDecisions j) \<and> spec_step\<^sup>*\<^sup>* (abs_item i) (abs_item j) \<and>
    (j = i \<or> work_left (abs_item j) < work_left (abs_item i)) \<and> int (work_left (abs_item i)) \<le> 4 * pq_MaxAttempts i"
proof -
  have inv: "queue_inv s" by (rule queue_inv_reachable [OF assms(1)])
  from queue_machine.rel_run [OF assms(2) inv] assms(3) obtain j where j: "map_of (qs_items (fst s')) k = Some j" "item_later i j"
    unfolding queue_later_def by blast
  have "same_identity i j" using j(2) by (simp add: item_later_def)
  note id = same_identity_fields [OF this]
  have "1 \<le> pq_Attempt i" "pq_Attempt i \<le> pq_MaxAttempts i"
    using inv assms(3) by (auto simp: queue_inv_def item_inv_def attempts_ok_def)
  then have "int (work_left (abs_item i)) \<le> 4 * pq_MaxAttempts i"
    by (auto simp: work_left_def abs_item_def split: phase.split)
  with id(3-) j show ?thesis unfolding item_later_def by blast
qed

theorem queue_progress_witness:
  "\<exists>j. map_of (qs_items (put_item (''q1'', ''i1'') demo_started (demo_queue demo_item))) (patchQueueKey ''q1'' ''i1'') = Some j \<and>
     pq_CreatedAt j = pq_CreatedAt demo_item \<and> int (work_left (abs_item demo_item)) \<le> 8"
proof -
  let ?s = "(demo_queue demo_item, Some demo_store)" and ?t = "(put_item (''q1'', ''i1'') demo_started (demo_queue demo_item), Some demo_store)"
  have "run_of (\<lambda>t. t = ?s) queue_step [OpStart] ?t"
  proof (rule run_step)
    show "run_of (\<lambda>t. t = ?s) queue_step [] ?s" by (rule run_start) (rule refl)
    show "queue_step OpStart ?s ?t" by (rule demo_start_step)
  qed
  from queue_progress [OF demo_queue_run this, of "patchQueueKey ''q1'' ''i1''" demo_item] show ?thesis
    by (simp add: demo_lookup_item) blast
qed

subsection \<open>Applied and rolled back items\<close>

text \<open>C10. An item becomes applied only under authority and on unchanged files: at that instant the lease
  that the item names is live under its term, for the context of the item, and covers exactly its
  pathset; the recorded evidence holds for that context, so every path had its base hash, lies in
  the pathset, and no unscoped entry of the pathset is missing.\<close>

theorem applied_item_sound:
  assumes "lease_inv n s" and "CompleteValidation wall lwall input (Some s) q = (Inr item, q', ls')"
    and "pq_State item = PatchQueueStateApplied"
  shows "(\<exists>l. map_of (fs_leases s) (pq_RepoLeaseID item) = Some l \<and> fl_Status l = FileLeaseStatusActive \<and>
      \<not> leaseExpiredAt l (normalizeLeaseTime lwall (vi_Now input)) \<and> fl_Term l = pq_LeaseTerm item \<and>
      fl_Pathset l = pq_Pathset item) \<and>
    pq_CASResult item = vi_CASResult input \<and> patchQueueContextDigest (vi_Context input) = Inr (pq_ContextDigest item) \<and>
    (\<forall>pr \<in> set (car_Paths (pq_CASResult item)). pathsetCoversPath (pq_Pathset item) (cp_Path pr) \<and>
      TrimSpace (cp_CurrentHash pr) = base_hash (vi_Context input) (cp_Path pr)) \<and>
    (\<forall>p \<in> set (pq_Pathset item). pathsetEntryIsScoped p \<or> p \<in> cp_Path ` set (car_Paths (pq_CASResult item)))"
proof -
  let ?a = "WithDefaults (vi_Context input)" and ?r = "vi_CASResult input"
  obtain ids i te has where c: "complete_request input ?a q = Inr (ids, i, te, has)"
    and item: "item = outcome ?r te has (ctx_Operation ?a) (completed_item ?r te has (normalizeLeaseTime wall (vi_Now input)) i)"
    and bind: "if car_Status ?r = CASPatchStatusApplied \<and> \<not> (has \<and> te_Status te = PatchQueueTestStatusFailed)
      then requireConcreteMutationOperationRefs ?a = None \<and>
        (\<exists>b. BindMutationOperation lwall \<lparr>bi_Context = ?a, bi_MutationPaths = pq_Pathset i, bi_Now = vi_Now input\<rparr> (Some s) = (Inr b, ls'))
      else ls' = Some s"
    using CompleteValidation_Inr [OF assms(2)] by blast
  have st: "car_Status ?r = CASPatchStatusApplied" "\<not> (has \<and> te_Status te = PatchQueueTestStatusFailed)"
    using assms(3) unfolding item outcome_state by (auto split: if_splits)
  from bind st obtain b where
    b: "BindMutationOperation lwall \<lparr>bi_Context = ?a, bi_MutationPaths = pq_Pathset i, bi_Now = vi_Now input\<rparr> (Some s) = (Inr b, ls')"
    by (simp split: if_splits) blast
  note r = complete_request_Inr [OF c]
  have ctx: "patchQueueContextDigest ?a = Inr (pq_ContextDigest i)" "TrimSpace (lr_ID (ctx_Lease ?a)) = pq_RepoLeaseID i"
    "lr_Term (ctx_Lease ?a) = pq_LeaseTerm i" "NormalizePathSet (ctx_Pathset ?a) = Inr (pq_Pathset i)"
    using r(2) unfolding verifyPatchQueueItemContext_None by blast+
  have f: "pq_RepoLeaseID item = pq_RepoLeaseID i" "pq_LeaseTerm item = pq_LeaseTerm i" "pq_Pathset item = pq_Pathset i"
    "pq_ContextDigest item = pq_ContextDigest i" "pq_CASResult item = ?r"
    using st by (simp_all add: item outcome_def completed_item_def)
  note ev = applied_evidence_facts [OF r(4) st(1)]
  obtain d where "Context_Digest ?a = Inr d" using r(4) unfolding validateCASEvidence_None by blast
  then have valid: "Context_Validate ?a = None" by (simp add: Context_Digest_Inr)
  have ps: "pq_Pathset i = ctx_Pathset ?a"
    using NormalizePathSet_canonical [OF Context_Validate_pathset(1) [OF valid]] ctx(4) by simp
  obtain a d' l ps' qs where req: "binding_request \<lparr>bi_Context = ?a, bi_MutationPaths = pq_Pathset i, bi_Now = vi_Now input\<rparr> s = Inr (a, d', l, ps')"
    and live: "live_at (normalizeLeaseTime lwall (vi_Now input)) l" "fl_Term l = lr_Term (ctx_Lease a)"
    and found: "map_of (fs_leases s) (TrimSpace (lr_ID (ctx_Lease a))) = Some l"
    by (rule Bind_live [OF assms(1) b]) auto
  have a: "a = ?a" using binding_request_Inr(1) [OF assms(1) req] by simp
  have "NormalizePathSet (ctx_Pathset a) = Inr (fl_Pathset l)"
    using binding_request_Inr(5) [OF assms(1) req] by (auto simp: verifyMutationBindingContext_def split: sum.splits)
  then have "fl_Pathset l = pq_Pathset i" using ctx(4) unfolding a by simp
  moreover have "map_of (fs_leases s) (pq_RepoLeaseID i) = Some l" "fl_Term l = pq_LeaseTerm i"
    using found live(2) unfolding a ctx by simp_all
  ultimately have lease: "\<exists>l. map_of (fs_leases s) (pq_RepoLeaseID i) = Some l \<and> fl_Status l = FileLeaseStatusActive \<and>
      \<not> leaseExpiredAt l (normalizeLeaseTime lwall (vi_Now input)) \<and> fl_Term l = pq_LeaseTerm i \<and> fl_Pathset l = pq_Pathset i"
    using live(1) unfolding live_at_def lease_active_def by blast
  have digest: "patchQueueContextDigest (vi_Context input) = Inr (pq_ContextDigest i)"
    using ctx(1) by (simp add: patchQueueContextDigest_def)
  have base: "ctx_Base ?a = ctx_Base (vi_Context input)" by simp
  show ?thesis using lease digest ev unfolding f base ps by blast
qed

text \<open>C13. A recorded rollback undoes exactly the applied patch: it lists each path of the applied
  compare-and-swap result once, in order; on each path it restores the base hash that the applied
  patch had replaced; no listed path was added by the patch; its digest is the digest of those
  restored candidates; and it ran as another operation, whose verification passed.\<close>

theorem rollback_restores:
  assumes "RecordRollback wall lwall input ls q = (Inr item, q', ls')"
  shows "pq_State item = PatchQueueStateRolledBack \<and>
    map rp_Path (rb_RollbackPaths (pq_RollbackEvidence item)) = sort (map cp_Path (car_Paths (pq_CASResult item))) \<and>
    distinct (map cp_Path (car_Paths (pq_CASResult item))) \<and>
    (\<forall>c \<in> set (rb_RollbackPaths (pq_RollbackEvidence item)). \<exists>pr \<in> set (car_Paths (pq_CASResult item)).
       rp_Path c = cp_Path pr \<and> rp_RollbackCandidateHash c = cp_BaseHash pr \<and> rp_SourceAppliedHash c = cp_CandidateHash pr \<and>
       casPatchPathChangeKind pr \<noteq> CASPatchChangeAdd) \<and>
    rb_RollbackPatchDigest (pq_RollbackEvidence item) = digestCASPatchCandidates
      (map (\<lambda>c. \<lparr>ce_path = rp_Path c, ce_hash = rp_RollbackCandidateHash c\<rparr>) (rb_RollbackPaths (pq_RollbackEvidence item))) \<and>
    rb_SourcePatchDigest (pq_RollbackEvidence item) = pq_CASPatchDigest item \<and>
    rb_RollbackOperationID (pq_RollbackEvidence item) \<noteq> pq_OperationID item \<and>
    rb_VerificationStatus (pq_RollbackEvidence item) = PatchQueueTestStatusPassed"
proof -
  obtain current evidence where e: "normalizePatchQueueRollbackEvidence (bki_Evidence input) current (WithDefaults (bki_Context input))
      (normalizeLeaseTime wall (bki_Now input)) = Inr evidence"
    and item: "item = rolled_back_item evidence (normalizeLeaseTime wall (bki_Now input)) current"
    using RecordRollback_Inr [OF assms] by blast
  have f: "pq_State item = PatchQueueStateRolledBack" "pq_RollbackEvidence item = evidence" "pq_CASResult item = pq_CASResult current"
    "pq_CASPatchDigest item = pq_CASPatchDigest current" "pq_OperationID item = pq_OperationID current"
    by (simp_all add: item rolled_back_item_def)
  note r = rollback_evidence_Inr [OF e]
  have "distinct (map cp_Path (car_Paths (pq_CASResult current)))" using r(1,2) by simp
  then show ?thesis unfolding f using r restores_def by auto
qed


subsection \<open>The retry clock\<close>

lemma year_text_head: "year_text y \<noteq> [] \<and> graphic (hd (year_text y))"
proof -
  have digit: "is_digit c \<Longrightarrow> graphic c" for c by (auto simp: is_digit_def graphic_def)
  have minus: "graphic (CHR ''-'')" by (simp add: graphic_def)
  define a where "a = (if nat \<bar>y\<bar> < 10000 then pad4 \<bar>y\<bar> else dec_nat (nat \<bar>y\<bar>))"
  have "a \<noteq> [] \<and> is_digit (hd a)"
    using bspec [OF dec_nat_digits hd_in_set [OF dec_nat_not_Nil], of "nat \<bar>y\<bar>"] by (simp add: a_def pad4_def)
  then show ?thesis unfolding year_text_def a_def [symmetric] Let_def by (auto intro: digit minus)
qed

lemma TrimSpace_time_Format: "TrimSpace (time_Format t) = time_Format t"
proof (rule TrimSpace_graphic)
  show "graphic (hd (time_Format t))" using year_text_head by (simp add: time_Format_def date_text_def Let_def)
  show "graphic (last (time_Format t))" by (simp add: time_Format_def Let_def graphic_def)
qed simp

lemma retry_due_formatted:
  assumes "in_years t" and "pq_NextRetryAt i = formatLeaseTime t" shows "retry_due i now = None \<longleftrightarrow> t \<le> now"
  using assms by (auto simp: retry_due_def formatLeaseTime_def time_Parse_Format TrimSpace_time_Format)

lemma recovery_fields:
  assumes "pq_State (recovery_item reason delay now i) = PatchQueueStateRetryPending"
  shows "pq_NextRetryAt (recovery_item reason delay now i) = formatLeaseTime (now + delay)"
  using assms by (simp add: recovery_item_def Let_def split: if_splits)

text \<open>C15. The retry clock is exact. After a recovery decision that grants a retry with a delay, the retry
  may start exactly from the instant of the decision plus the delay on, provided the lease still
  authorises the context; a nanosecond earlier it is refused.\<close>

theorem retry_exact:
  assumes "RecordRecoveryDecision wall input q = (Inr item, q')" and "pq_State item = PatchQueueStateRetryPending"
    and "in_years (normalizeLeaseTime wall (ri_Now input) + ri_RetryDelay input)"
  shows "is_ok (fst (StartRetryValidation wall' lwall
      \<lparr>sr_QueueID = ri_QueueID input, sr_ItemID = ri_ItemID input, sr_Context = ri_Context input, sr_Now = t\<rparr> ls q')) \<longleftrightarrow>
    normalizeLeaseTime wall (ri_Now input) + ri_RetryDelay input \<le> normalizeLeaseTime wall' t \<and>
    fst (verifyPatchQueueLeaseAuthority lwall (WithDefaults (ri_Context input)) t ls) = None"
proof -
  let ?a = "WithDefaults (ri_Context input)" and ?now = "normalizeLeaseTime wall (ri_Now input)" and ?u = "normalizeLeaseTime wall' t"
  let ?in = "\<lparr>sr_QueueID = ri_QueueID input, sr_ItemID = ri_ItemID input, sr_Context = ri_Context input, sr_Now = t\<rparr>"
  obtain ids i reason where ids: "request_ids (ri_QueueID input) (ri_ItemID input) ?a = Inr ids"
    and find: "find_item q ids = Inr i" and ctx: "verifyPatchQueueItemContext i ?a = None"
    and item: "item = recovery_item reason (ri_RetryDelay input) ?now i" and q': "q' = put_item ids item q"
    using assms(1) unfolding RecordRecoveryDecision_def Let_def run_queue_Inr result_simps prod.inject sum.inject by blast
  have found: "find_item q' ids = Inr item" by (cases ids) (simp add: q' find_item_Inr put_item_items)
  have ctx': "verifyPatchQueueItemContext item ?a = None"
    using ctx unfolding verifyPatchQueueItemContext_None by (simp add: item recovery_item_def Let_def)
  have due: "retry_due item ?u = None \<longleftrightarrow> ?now + ri_RetryDelay input \<le> ?u"
    using retry_due_formatted [OF assms(3)] recovery_fields assms(2) unfolding item by blast
  have req: "retry_request ?in ?a ?u q' = require (retry_due item ?u) (Inr (ids, item))"
    by (simp add: retry_request_def ids found ctx' assms(2) fail_if_def)
  show ?thesis
  proof (cases "retry_due item ?u")
    case None
    then have "retry_request ?in ?a ?u q' = Inr (ids, item)" unfolding req by simp
    then show ?thesis
      using None due by (simp add: StartRetryValidation_def Let_def is_ok_def run_queue_def split: prod.splits option.splits)
  next
    case (Some e)
    then have "retry_request ?in ?a ?u q' = Inl e" unfolding req by simp
    then show ?thesis using Some due by (simp add: StartRetryValidation_def Let_def is_ok_def)
  qed
qed

subsection \<open>Keys and digests\<close>

lemma split_at_first: "x \<notin> set a \<Longrightarrow> x \<notin> set b \<Longrightarrow> a @ x # c = b @ x # d \<longleftrightarrow> a = b \<and> c = d"
proof (induction a arbitrary: b)
  case Nil
  then show ?case by (cases b) auto
next
  case (Cons y a)
  then show ?case by (cases b) auto
qed

text \<open>Queue keys identify items: when the queue identifiers contain no NUL byte, two items have the
  same key exactly when their trimmed queue and item identifiers are the same.\<close>

theorem patchQueueKey_injective:
  assumes "CHR 0x00 \<notin> set q" and "CHR 0x00 \<notin> set q'"
  shows "patchQueueKey q i = patchQueueKey q' i' \<longleftrightarrow> TrimSpace q = TrimSpace q' \<and> TrimSpace i = TrimSpace i'"
proof -
  have "CHR 0x00 \<notin> set (TrimSpace q)" "CHR 0x00 \<notin> set (TrimSpace q')" using assms TrimSpace_subset by blast+
  then show ?thesis unfolding patchQueueKey_def by (simp add: split_at_first)
qed

theorem patchQueueKey_injective_witness: "patchQueueKey ''q1'' ''i1'' \<noteq> patchQueueKey ''q1'' ''i2''"
  using patchQueueKey_injective [of "''q1''" "''q1''" "''i1''" "''i2''"] by (simp add: TrimSpace_graphic graphic_def)

text \<open>With a NUL byte in an identifier two different items share a key.\<close>

lemma patchQueueKey_collision:
  "patchQueueKey [CHR ''a'', CHR 0x00, CHR ''b''] ''c'' = patchQueueKey ''a'' [CHR ''b'', CHR 0x00, CHR ''c'']"
  by code_simp

text \<open>The digest check accepts exactly the texts that name a SHA-256 value: surrounding white space
  apart, the prefix and the lower-case hexadecimal form of 32 bytes.\<close>

theorem isCanonicalSHA256Digest_iff:
  "isCanonicalSHA256Digest v \<longleftrightarrow> (\<exists>bs. length bs = 32 \<and> list_all (\<lambda>b. b < 256) bs \<and> TrimSpace v = ''sha256:'' @ hex_encode bs)"
proof
  assume "isCanonicalSHA256Digest v"
  then have "HasPrefix (TrimSpace v) ''sha256:''" "length (TrimPrefix (TrimSpace v) ''sha256:'') = 2 * 32"
    "list_all is_lower_hex (TrimPrefix (TrimSpace v) ''sha256:'')"
    by (simp_all add: isCanonicalSHA256Digest_def Let_def split: if_splits)
  then obtain bs where "length bs = 32" "list_all (\<lambda>b. b < 256) bs" "hex_encode bs = TrimPrefix (TrimSpace v) ''sha256:''"
    and p: "HasPrefix (TrimSpace v) ''sha256:''"
    using hex_decode [of "TrimPrefix (TrimSpace v) ''sha256:''" 32] by (auto simp: list_all_iff)
  moreover from p have "TrimSpace v = ''sha256:'' @ TrimPrefix (TrimSpace v) ''sha256:''"
    by (auto simp: HasPrefix_def TrimPrefix_def prefix_def)
  ultimately show "\<exists>bs. length bs = 32 \<and> list_all (\<lambda>b. b < 256) bs \<and> TrimSpace v = ''sha256:'' @ hex_encode bs" by metis
next
  assume "\<exists>bs. length bs = 32 \<and> list_all (\<lambda>b. b < 256) bs \<and> TrimSpace v = ''sha256:'' @ hex_encode bs"
  then obtain bs where "length bs = 32" "TrimSpace v = ''sha256:'' @ hex_encode bs" by blast
  then show "isCanonicalSHA256Digest v"
    using hex_encode_chars [of bs] unfolding isCanonicalSHA256Digest_def Let_def by (simp add: list_all_iff HasPrefix_def TrimPrefix_def)
qed

subsection \<open>Witnesses\<close>

definition demo_apply :: CASPatchApplyInput where
  "demo_apply = demo_patch\<lparr>cai_Context := demo_bound\<rparr>"

lemma demo_apply_simps:
  "cai_Context demo_apply = demo_bound" "cai_CandidateFileHashes demo_apply = cai_CandidateFileHashes demo_patch"
  "cai_CurrentFileHashes demo_apply = cai_CurrentFileHashes demo_patch"
  by (simp_all add: demo_apply_def)

lemma demo_apply_accepted:
  "car_Status (EvaluateCASPatchApply demo_apply) = CASPatchStatusApplied"
  "validateCASEvidence (EvaluateCASPatchApply demo_apply) demo_bound = None"
proof -
  have d: "distinct (map fst (cai_CandidateFileHashes demo_apply))" unfolding demo_apply_simps by (rule demo_patch_distinct)
  have base: "ctx_Base demo_bound = ctx_Base demo_context" by (simp add: demo_bound_def)
  have "list_all (\<lambda>p. normalizeResolverPath p = Inr p \<and> TrimSpace (get_str (cai_CandidateFileHashes demo_patch) p) \<noteq> [] \<and>
       pathsetCoversPath [''a.go'', ''b.go''] p \<and>
       TrimSpace (get_str (base_FileHashes (ctx_Base demo_context)) p) =
       TrimSpace (get_str (cai_CurrentFileHashes demo_patch) p)) (map fst (cai_CandidateFileHashes demo_patch))"
    "cai_CandidateFileHashes demo_patch \<noteq> []"
    by code_simp+
  then show st: "car_Status (EvaluateCASPatchApply demo_apply) = CASPatchStatusApplied"
    unfolding evaluate_applied_iff [OF d] demo_apply_simps demo_bound_valid(2) base demo_refs list_all_iff set_map
    using demo_bound_valid(1) by blast
  have "list_all (\<lambda>p. p \<in> set (map fst (cai_CandidateFileHashes demo_patch))) [''a.go'', ''b.go'']" by code_simp
  then show "validateCASEvidence (EvaluateCASPatchApply demo_apply) demo_bound = None"
    using applied_accepted_iff [OF d st] unfolding demo_apply_simps demo_bound_valid(2) demo_refs list_all_iff set_map by blast
qed

definition demo_complete :: CompletePatchQueueValidationInput where
  "demo_complete = \<lparr>vi_QueueID = [], vi_ItemID = [], vi_Context = demo_bound, vi_CASResult = EvaluateCASPatchApply demo_apply,
     vi_TestEvidence = zero_test_evidence, vi_Now = 3\<rparr>"

lemma demo_completed:
  "\<exists>item q'. CompleteValidation 1 1 demo_complete (Some demo_store) (demo_queue demo_started) = (Inr item, q', Some demo_store) \<and>
     pq_State item = PatchQueueStateApplied \<and> pq_RepoLeaseID item = fl_ID demo_lease"
proof -
  have te: "normalizePatchQueueTestEvidence zero_test_evidence = Inr (zero_test_evidence, False)"
    by (simp add: normalizePatchQueueTestEvidence_def hasPatchQueueTestEvidence_def zero_test_evidence_def)
  have f: "vi_Context demo_complete = demo_bound" "vi_CASResult demo_complete = EvaluateCASPatchApply demo_apply" "vi_Now demo_complete = 3"
    "vi_QueueID demo_complete = []" "vi_ItemID demo_complete = []" "vi_TestEvidence demo_complete = zero_test_evidence"
    by (simp_all add: demo_complete_def)
  have same: "same_identity demo_item demo_started" by (simp add: same_identity_def demo_started_def)
  have state: "pq_State demo_started = PatchQueueStateValidating" "pq_Pathset demo_started = [''a.go'', ''b.go'']"
    "pq_RepoLeaseID demo_started = fl_ID demo_lease"
    by (simp_all add: demo_started_def)
  have req: "complete_request demo_complete demo_bound (demo_queue demo_started) = Inr ((''q1'', ''i1''), demo_started, zero_test_evidence, False)"
    by (simp add: complete_request_def f demo_ids demo_apply_accepted te demo_lookup_item state demo_item_context [OF same] fail_if_def)
  obtain b where b: "BindMutationOperation 1 \<lparr>bi_Context = demo_bound, bi_MutationPaths = [''a.go'', ''b.go''], bi_Now = 3\<rparr> (Some demo_store) =
      (Inr b, Some demo_store)"
    using demo_authority(2) by blast
  show ?thesis
    by (simp add: CompleteValidation_def f demo_bound_valid(2) req Let_def demo_apply_accepted demo_bound_concrete state b completed_item_def)
qed

theorem applied_item_sound_witness: "\<exists>l. map_of (fs_leases demo_store) (fl_ID demo_lease) = Some l \<and> fl_Status l = FileLeaseStatusActive"
proof -
  obtain item q' where c: "CompleteValidation 1 1 demo_complete (Some demo_store) (demo_queue demo_started) = (Inr item, q', Some demo_store)"
    and st: "pq_State item = PatchQueueStateApplied" and id: "pq_RepoLeaseID item = fl_ID demo_lease"
    using demo_completed by blast
  from applied_item_sound [OF demo_inv c st] show ?thesis unfolding id by blast
qed

definition demo_conflict :: PatchQueueItem where
  "demo_conflict = demo_item\<lparr>pq_State := PatchQueueStateConflict\<rparr>"

definition demo_recovery :: RecordPatchQueueRecoveryInput where
  "demo_recovery = \<lparr>ri_QueueID = [], ri_ItemID = [], ri_Context = demo_prop, ri_Reason = ''drift'', ri_RetryDelay = 0, ri_Now = 3\<rparr>"

lemma demo_recovered:
  "RecordRecoveryDecision 1 demo_recovery (demo_queue demo_conflict) =
     (Inr (recovery_item ''drift'' 0 3 demo_conflict),
      put_item (''q1'', ''i1'') (recovery_item ''drift'' 0 3 demo_conflict) (demo_queue demo_conflict))"
proof -
  have "normalizePatchQueueRecoveryReason ''drift'' = Inr ''drift''" by code_simp
  moreover have "patchQueueTerminalFailureState (pq_State demo_conflict)"
    by (simp add: demo_conflict_def patchQueueTerminalFailureState_def)
  moreover have "same_identity demo_item demo_conflict" by (simp add: same_identity_def demo_conflict_def)
  ultimately show ?thesis
    by (simp add: RecordRecoveryDecision_def demo_recovery_def Let_def demo_prop_valid demo_ids demo_lookup_item demo_item_context
        fail_if_def run_queue_def normalizeLeaseTime_def)
qed

theorem retry_exact_witness:
  "is_ok (fst (StartRetryValidation 1 1 \<lparr>sr_QueueID = [], sr_ItemID = [], sr_Context = demo_prop, sr_Now = 3\<rparr> (Some demo_store)
     (put_item (''q1'', ''i1'') (recovery_item ''drift'' 0 3 demo_conflict) (demo_queue demo_conflict))))"
proof -
  have "pq_State (recovery_item ''drift'' 0 3 demo_conflict) = PatchQueueStateRetryPending"
    by (simp add: recovery_item_def demo_conflict_def Let_def normalizePatchQueueAttempt_def normalizePatchQueueMaxAttempts_def)
  moreover have "in_years 3" by (rule in_years_mono [OF demo_years]) simp_all
  ultimately show ?thesis
    using retry_exact [OF demo_recovered, of 1 1 3 "Some demo_store"] demo_authority(1)
    by (simp add: demo_recovery_def normalizeLeaseTime_def demo_prop_valid(2))
qed

definition demo_applied :: PatchQueueItem where
  "demo_applied = demo_item\<lparr>pq_State := PatchQueueStateApplied, pq_OperationID := ''op0'', pq_OperationKind := ''repo_patch_apply'',
     pq_CASPatchDigest := sha256_text [],
     pq_CASResult := zero_cas_result\<lparr>car_Status := CASPatchStatusApplied, car_Paths :=
       [\<lparr>cp_Path = ''a.go'', cp_Status = CASPatchStatusApplied, cp_ChangeKind = [], cp_BaseHash = ''h1'', cp_CurrentHash = ''h1'', cp_CandidateHash = ''n1''\<rparr>,
        \<lparr>cp_Path = ''b.go'', cp_Status = CASPatchStatusApplied, cp_ChangeKind = [], cp_BaseHash = ''h2'', cp_CurrentHash = ''h2'', cp_CandidateHash = ''n2''\<rparr>]\<rparr>\<rparr>"

definition demo_rollback_paths :: "PatchQueueRollbackPath list" where
  "demo_rollback_paths =
     [\<lparr>rp_Path = ''b.go'', rp_SourceBaseHash = [], rp_SourceAppliedHash = [], rp_RollbackCandidateHash = []\<rparr>,
      \<lparr>rp_Path = ''a.go'', rp_SourceBaseHash = [], rp_SourceAppliedHash = [], rp_RollbackCandidateHash = []\<rparr>]"

definition demo_undo :: PatchQueueRollback where
  "demo_undo = zero_rollback\<lparr>rb_Reason := ''undo'', rb_VerificationCommand := ''make'', rb_VerificationStatus := ''passed'',
     rb_VerificationOutputDigest := sha256_text [], rb_RollbackPaths := demo_rollback_paths\<rparr>"

lemma demo_applied_simps [simp]:
  "pq_State demo_applied = PatchQueueStateApplied" "pq_Pathset demo_applied = [''a.go'', ''b.go'']" "pq_OperationID demo_applied = ''op0''"
  "pq_OperationKind demo_applied = ''repo_patch_apply''" "pq_CASPatchDigest demo_applied = sha256_text []"
  "same_identity demo_item demo_applied" "car_Status (pq_CASResult demo_applied) = CASPatchStatusApplied"
  by (simp_all add: demo_applied_def same_identity_def)

lemma rollback_paths_intro:
  assumes "car_Status (pq_CASResult cur) = CASPatchStatusApplied" "paths \<noteq> []" "NormalizePathSet (pq_Pathset cur) = Inr ps"
    and "collect_applied_paths ps 0 [] (car_Paths (pq_CASResult cur)) = Inr app" "collect_rollback_paths ps app 0 [] paths = Inr out"
    and cover: "fst ` set app \<subseteq> rp_Path ` set out" "set ps \<subseteq> rp_Path ` set out"
  shows "\<exists>ps m. normalizePatchQueueRollbackPaths paths cur = Inr (ps, sha256_text m)"
proof -
  have g: "guards (map (\<lambda>(p, pr). fail_if (p \<notin> rp_Path ` set out) (Errorf ''rollback evidence missing applied CAS path %q'' [AStr p])) app
      @ map (\<lambda>p. fail_if (\<not> pathsetEntryIsScoped p \<and> p \<notin> rp_Path ` set out)
             (Errorf ''rollback evidence must cover every patch queue path'' [])) ps) = None"
    using cover unfolding guards_None set_append set_map by auto
  show ?thesis
    unfolding normalizePatchQueueRollbackPaths_def
    by (simp add: assms(1-5) map_err_def fail_if_def g digestCASPatchCandidates_def flip: fail_if_def) blast
qed

lemma demo_rollback_accepted:
  "\<exists>ps m. normalizePatchQueueRollbackPaths demo_rollback_paths demo_applied = Inr (ps, sha256_text m)"
proof (rule rollback_paths_intro)
  let ?prs = "[\<lparr>cp_Path = ''a.go'', cp_Status = CASPatchStatusApplied, cp_ChangeKind = [], cp_BaseHash = ''h1'', cp_CurrentHash = ''h1'', cp_CandidateHash = ''n1''\<rparr>,
        \<lparr>cp_Path = ''b.go'', cp_Status = CASPatchStatusApplied, cp_ChangeKind = [], cp_BaseHash = ''h2'', cp_CurrentHash = ''h2'', cp_CandidateHash = ''n2''\<rparr>]"
  let ?app = "map (\<lambda>pr. (cp_Path pr, pr)) ?prs"
  let ?out = "[\<lparr>rp_Path = ''b.go'', rp_SourceBaseHash = ''h2'', rp_SourceAppliedHash = ''n2'', rp_RollbackCandidateHash = ''h2''\<rparr>,
      \<lparr>rp_Path = ''a.go'', rp_SourceBaseHash = ''h1'', rp_SourceAppliedHash = ''n1'', rp_RollbackCandidateHash = ''h1''\<rparr>]"
  have prs: "car_Paths (pq_CASResult demo_applied) = ?prs" by (simp add: demo_applied_def)
  show "collect_applied_paths [''a.go'', ''b.go''] 0 [] (car_Paths (pq_CASResult demo_applied)) = Inr ?app"
    unfolding prs by code_simp
  show "collect_rollback_paths [''a.go'', ''b.go''] ?app 0 [] demo_rollback_paths = Inr ?out"
    by code_simp
  show "fst ` set ?app \<subseteq> rp_Path ` set ?out" by simp
  show "set [''a.go'', ''b.go''] \<subseteq> rp_Path ` set ?out" by simp
qed (simp_all add: demo_paths, simp add: demo_rollback_paths_def)

lemma check_rollback_intro:
  assumes "rb_Schema e = PatchQueueRollbackSchemaVersion" "rb_SourceOperationID e = pq_OperationID cur"
    "rb_SourceOperationKind e = pq_OperationKind cur" "rb_RollbackOperationID e = op_ID (ctx_Operation a)"
    "rb_RollbackOperationKind e = op_Kind (ctx_Operation a)" "rb_SourcePatchDigest e = pq_CASPatchDigest cur"
    "rb_RollbackPatchDigest e = d" "pq_OperationID cur \<noteq> op_ID (ctx_Operation a)" "rb_VerificationStatus e = PatchQueueTestStatusPassed"
    and "\<forall>v \<in> {rb_SourceOperationID e, rb_SourceOperationKind e, rb_RollbackOperationID e, rb_RollbackOperationKind e, rb_Reason e,
      rb_SourcePatchDigest e, rb_RollbackPatchDigest e, rb_VerificationCommand e, rb_VerificationStatus e, rb_VerificationOutputDigest e}.
      TrimSpace v \<noteq> []"
    and "isCanonicalSHA256Digest (rb_SourcePatchDigest e)" "isCanonicalSHA256Digest d" "isCanonicalSHA256Digest (rb_VerificationOutputDigest e)"
    and "length (rb_Reason e) \<le> 4096" "length (rb_VerificationOutputSummary e) \<le> 4096" "0 \<le> rb_VerificationDurationMillis e"
    "rb_VerificationExitCode e = 0"
  shows "check_rollback cur a d e = None"
  using assms unfolding check_rollback_def guards_None
  by (simp add: patchQueueRecoveryReasonMaxBytes_def patchQueueTestOutputSummaryMaxBytes_def)

lemma demo_undo_accepted: "\<exists>e. normalizePatchQueueRollbackEvidence demo_undo demo_applied demo_bound 3 = Inr e"
proof -
  obtain ps m where p: "normalizePatchQueueRollbackPaths demo_rollback_paths demo_applied = Inr (ps, sha256_text m)"
    using demo_rollback_accepted by blast
  define e where "e = default_rollback demo_applied demo_bound 3 (trim_rollback demo_undo)"
  have f: "rb_Schema e = PatchQueueRollbackSchemaVersion" "rb_SourceOperationID e = ''op0''" "rb_SourceOperationKind e = ''repo_patch_apply''"
    "rb_RollbackOperationID e = ''op1''" "rb_RollbackOperationKind e = ''repo_patch_apply''" "rb_SourcePatchDigest e = sha256_text []"
    "rb_RollbackPatchDigest e = []" "rb_VerificationStatus e = PatchQueueTestStatusPassed" "rb_Reason e = ''undo''"
    "rb_VerificationCommand e = ''make''" "rb_VerificationOutputDigest e = sha256_text []" "rb_VerificationOutputSummary e = []"
    "rb_VerificationDurationMillis e = 0" "rb_VerificationExitCode e = 0" "rb_RollbackPaths e = demo_rollback_paths"
    by (simp_all add: e_def default_rollback_def trim_rollback_def demo_undo_def zero_rollback_def TrimSpace_graphic graphic_def
        PatchQueueTestStatusPassed_def)
  define e' where "e' = e\<lparr>rb_RollbackPaths := ps, rb_RollbackPatchDigest := sha256_text m\<rparr>"
  have "check_rollback demo_applied demo_bound (sha256_text m) e' = None"
    by (rule check_rollback_intro) (simp_all add: e'_def f TrimSpace_graphic graphic_def PatchQueueTestStatusPassed_def)
  then show ?thesis
    unfolding normalizePatchQueueRollbackEvidence_def Let_def e_def [symmetric] f p e'_def by simp
qed

theorem rollback_restores_witness:
  "\<exists>item. fst (RecordRollback 1 1 \<lparr>bki_QueueID = [], bki_ItemID = [], bki_Context = demo_bound, bki_Evidence = demo_undo, bki_Now = 3\<rparr>
     (Some demo_store) (demo_queue demo_applied)) = Inr item \<and> pq_State item = PatchQueueStateRolledBack"
proof -
  let ?in = "\<lparr>bki_QueueID = [], bki_ItemID = [], bki_Context = demo_bound, bki_Evidence = demo_undo, bki_Now = 3\<rparr>"
  obtain e where e: "normalizePatchQueueRollbackEvidence demo_undo demo_applied demo_bound 3 = Inr e" using demo_undo_accepted by blast
  obtain b where b: "BindMutationOperation 1 \<lparr>bi_Context = demo_bound, bi_MutationPaths = [''a.go'', ''b.go''], bi_Now = 3\<rparr> (Some demo_store) =
      (Inr b, Some demo_store)"
    using demo_authority(2) by blast
  have "rollback_request ?in demo_bound 3 (demo_queue demo_applied) = Inr ((''q1'', ''i1''), demo_applied, e)"
    by (simp add: rollback_request_def demo_ids demo_bound_concrete wrap_err_def demo_lookup_item demo_item_context e fail_if_def)
  then obtain item q' where r: "RecordRollback 1 1 ?in (Some demo_store) (demo_queue demo_applied) = (Inr item, q', Some demo_store)"
    by (simp add: RecordRollback_def demo_bound_valid(2) normalizeLeaseTime_def b run_queue_def)
  from rollback_restores [OF r] r show ?thesis by simp
qed

end
