(* ===== verification/Conflict_Model.thy ===== *)
theory Conflict_Model
  imports Patch_Queue
begin

section \<open>Conflict records\<close>

text \<open>
  \<open>internal/repoauthority/conflict.go\<close>: the five kinds of conflict that the runtime records
  (base drift, two items on one path, failed tests, a write under a stale lease, a semantic
  collision), the builders that derive a record from queue, lease and compare-and-swap evidence, and
  the validator that every builder runs on its result and every reader runs on a record it is given.
  Pointers are options, the stores that an input points to are arguments of their own, and a loop
  over a map literal of required fields is the list of its entries, whose order only decides which
  field is reported first. A slice without elements marshals as null; the only slices marshalled
  without \<open>omitempty\<close> are the pathsets of contenders and leases and the list of contenders, and the
  checks before a digest refuse records in which one of them is empty.
\<close>

definition ConflictModelSchemaVersion :: string where "ConflictModelSchemaVersion = ''repo_conflict_model.v1''"
definition ConflictStatusConflict :: string where "ConflictStatusConflict = ''conflict''"
definition ConflictReasonPathConflict :: string where "ConflictReasonPathConflict = ''path_conflict''"
definition ConflictReasonBaseDrift :: string where "ConflictReasonBaseDrift = ''base_drift''"
definition ConflictReasonTestConflict :: string where "ConflictReasonTestConflict = ''test_conflict''"
definition ConflictReasonLateStaleWrite :: string where "ConflictReasonLateStaleWrite = ''late_stale_write''"
definition ConflictReasonSemantic :: string where "ConflictReasonSemantic = ''semantic_conflict''"
definition SemanticConflictKindAPIContract :: string where "SemanticConflictKindAPIContract = ''api_contract_collision''"
definition SemanticConflictKindTestFixture :: string where "SemanticConflictKindTestFixture = ''test_fixture_collision''"
definition SemanticConflictKindBehavior :: string where "SemanticConflictKindBehavior = ''behavior_collision''"
definition SemanticConflictKindPlaceholder :: string where "SemanticConflictKindPlaceholder = ''semantic_collision''"
definition SemanticConflictEvidenceSummaryMaxBytes :: nat where "SemanticConflictEvidenceSummaryMaxBytes = 2048"
definition LateStaleWriteRejectionExpiredLease :: string where "LateStaleWriteRejectionExpiredLease = ''expired_lease''"
definition LateStaleWriteRejectionReleasedLease :: string where "LateStaleWriteRejectionReleasedLease = ''released_lease''"
definition LateStaleWriteRejectionRevokedLease :: string where "LateStaleWriteRejectionRevokedLease = ''revoked_lease''"
definition LateStaleWriteRejectionStaleLeaseTerm :: string where "LateStaleWriteRejectionStaleLeaseTerm = ''stale_lease_term''"
definition LateStaleWriteRejectionStaleHolder :: string where "LateStaleWriteRejectionStaleHolder = ''stale_holder''"

lemmas conflict_reason_defs = ConflictReasonPathConflict_def ConflictReasonBaseDrift_def ConflictReasonTestConflict_def
  ConflictReasonLateStaleWrite_def ConflictReasonSemantic_def

lemmas rejection_kind_defs = LateStaleWriteRejectionExpiredLease_def LateStaleWriteRejectionReleasedLease_def
  LateStaleWriteRejectionRevokedLease_def LateStaleWriteRejectionStaleLeaseTerm_def LateStaleWriteRejectionStaleHolder_def

subsection \<open>Records\<close>

record ConflictContender =
  cc_WorkspaceID :: string
  cc_QueueID :: string
  cc_ItemID :: string
  cc_State :: string
  cc_ContextDigest :: string
  cc_RepoLeaseID :: string
  cc_LeaseTerm :: int
  cc_TaskID :: string
  cc_SessionID :: string
  cc_RunID :: string
  cc_AgentID :: string
  cc_BaseRef :: string
  cc_BaseTreeHash :: string
  cc_CASPatchDigest :: string
  cc_CASEvaluationDigest :: string

record SemanticConflictContender =
  sc_WorkspaceID :: string
  sc_QueueID :: string
  sc_ItemID :: string
  sc_State :: string
  sc_ContextDigest :: string
  sc_RepoLeaseID :: string
  sc_LeaseTerm :: int
  sc_Pathset :: "string list"
  sc_TaskID :: string
  sc_SessionID :: string
  sc_RunID :: string
  sc_AgentID :: string
  sc_PrincipalType :: string
  sc_PrincipalID :: string
  sc_CapabilitySnapshotID :: string
  sc_CapabilitySnapshotSchema :: string
  sc_BaseRef :: string
  sc_BaseTreeHash :: string
  sc_CASPatchDigest :: string
  sc_CASEvaluationDigest :: string

record ConflictModelResult =
  cm_Schema :: string
  cm_ConflictID :: string
  cm_Status :: string
  cm_Reason :: string
  cm_Path :: string
  cm_Paths :: "string list"
  cm_WorkspaceID :: string
  cm_TaskID :: string
  cm_SessionID :: string
  cm_RunID :: string
  cm_AgentID :: string
  cm_PrincipalType :: string
  cm_PrincipalID :: string
  cm_CapabilitySnapshotID :: string
  cm_CapabilitySnapshotSchema :: string
  cm_ContextDigest :: string
  cm_RepoLeaseID :: string
  cm_LeaseTerm :: int
  cm_PatchQueueID :: string
  cm_PatchQueueItemID :: string
  cm_PatchQueueState :: string
  cm_BaseRef :: string
  cm_BaseTreeHash :: string
  cm_ExpectedHash :: string
  cm_ActualHash :: string
  cm_CandidateHash :: string
  cm_CASStatus :: string
  cm_CASPatchDigest :: string
  cm_CASEvaluationDigest :: string
  cm_CASIssueKind :: string
  cm_TestEvidence :: "PatchQueueTestEvidence option"
  cm_TestEvidenceDigest :: string
  cm_OperationID :: string
  cm_OperationKind :: string
  cm_MutationPaths :: "string list"
  cm_AttemptedAt :: string
  cm_RejectionKind :: string
  cm_RejectionMessage :: string
  cm_AttemptedHolder :: "FileLeaseHolder option"
  cm_AttemptedHolderDigest :: string
  cm_ObservedLease :: "FileLease option"
  cm_ObservedLeaseDigest :: string
  cm_ObservedLeaseStatus :: string
  cm_ObservedLeaseTerm :: int
  cm_ObservedHolder :: "FileLeaseHolder option"
  cm_ObservedHolderDigest :: string
  cm_SemanticKind :: string
  cm_SemanticSubject :: string
  cm_SemanticEvidenceSummary :: string
  cm_SemanticEvidenceDigest :: string
  cm_SemanticContenders :: "SemanticConflictContender list"
  cm_Contenders :: "ConflictContender list"

record BuildBaseDriftConflictInput =
  bdi_Context :: Context
  bdi_CASResult :: CASPatchApplyResult
  bdi_PatchQueueItem :: PatchQueueItem
  bdi_Path :: string

record BuildPathConflictInput =
  pci_Path :: string
  pci_Left :: PatchQueueItem
  pci_Right :: PatchQueueItem

record BuildTestConflictInput =
  tci_Context :: Context
  tci_PatchQueueItem :: PatchQueueItem
  tci_Path :: string

record BuildLateStaleWriteConflictInput =
  lsi_Context :: Context
  lsi_MutationPaths :: "string list"
  lsi_Now :: instant
  lsi_Path :: string

record BuildSemanticConflictInput =
  sci_Kind :: string
  sci_Subject :: string
  sci_EvidenceSummary :: string
  sci_Left :: PatchQueueItem
  sci_Right :: PatchQueueItem
  sci_Path :: string

text \<open>The zero value, from which a composite literal names the fields it sets.\<close>

definition zero_conflict :: ConflictModelResult where
  "zero_conflict = \<lparr>cm_Schema = [], cm_ConflictID = [], cm_Status = [], cm_Reason = [], cm_Path = [], cm_Paths = [],
     cm_WorkspaceID = [], cm_TaskID = [], cm_SessionID = [], cm_RunID = [], cm_AgentID = [], cm_PrincipalType = [],
     cm_PrincipalID = [], cm_CapabilitySnapshotID = [], cm_CapabilitySnapshotSchema = [], cm_ContextDigest = [],
     cm_RepoLeaseID = [], cm_LeaseTerm = 0, cm_PatchQueueID = [], cm_PatchQueueItemID = [], cm_PatchQueueState = [],
     cm_BaseRef = [], cm_BaseTreeHash = [], cm_ExpectedHash = [], cm_ActualHash = [], cm_CandidateHash = [], cm_CASStatus = [],
     cm_CASPatchDigest = [], cm_CASEvaluationDigest = [], cm_CASIssueKind = [], cm_TestEvidence = None,
     cm_TestEvidenceDigest = [], cm_OperationID = [], cm_OperationKind = [], cm_MutationPaths = [], cm_AttemptedAt = [],
     cm_RejectionKind = [], cm_RejectionMessage = [], cm_AttemptedHolder = None, cm_AttemptedHolderDigest = [],
     cm_ObservedLease = None, cm_ObservedLeaseDigest = [], cm_ObservedLeaseStatus = [], cm_ObservedLeaseTerm = 0,
     cm_ObservedHolder = None, cm_ObservedHolderDigest = [], cm_SemanticKind = [], cm_SemanticSubject = [],
     cm_SemanticEvidenceSummary = [], cm_SemanticEvidenceDigest = [], cm_SemanticContenders = [], cm_Contenders = []\<rparr>"

subsection \<open>Digests\<close>

definition json_principal :: "PrincipalRef \<Rightarrow> json" where
  "json_principal p = JObj [(''type'', JStr (pr_Type p)), (''id'', JStr (pr_ID p))]"

definition json_slice :: "json list \<Rightarrow> json" where
  "json_slice xs = (if xs = [] then JNull else JArr xs)"

definition json_holder :: "FileLeaseHolder \<Rightarrow> json" where
  "json_holder h = JObj
     [(''workspace_id'', JStr (fh_WorkspaceID h)), (''task_id'', JStr (fh_TaskID h)), (''session_id'', JStr (fh_SessionID h)),
      (''run_id'', JStr (fh_RunID h)), (''agent_id'', JStr (fh_AgentID h)), (''principal'', json_principal (fh_Principal h)),
      (''capability_snapshot_id'', JStr (fh_CapabilitySnapshotID h)), (''context_digest'', JStr (fh_ContextDigest h))]"

definition json_lease :: "FileLease \<Rightarrow> json" where
  "json_lease l = JObj
     [(''schema'', JStr (fl_Schema l)), (''id'', JStr (fl_ID l)), (''term'', JInt (fl_Term l)), (''status'', JStr (fl_Status l)),
      (''workspace_id'', JStr (fl_WorkspaceID l)), (''task_id'', JStr (fl_TaskID l)), (''session_id'', JStr (fl_SessionID l)),
      (''run_id'', JStr (fl_RunID l)), (''agent_id'', JStr (fl_AgentID l)), (''principal'', json_principal (fl_Principal l)),
      (''capability_snapshot_id'', JStr (fl_CapabilitySnapshotID l)), (''repo_root'', JStr (fl_RepoRoot l)),
      (''pathset'', json_slice (map JStr (fl_Pathset l))), (''context_digest'', JStr (fl_ContextDigest l)),
      (''acquired_at'', JStr (fl_AcquiredAt l)), (''updated_at'', JStr (fl_UpdatedAt l)), (''expires_at'', JStr (fl_ExpiresAt l))]"

definition json_contender :: "ConflictContender \<Rightarrow> json" where
  "json_contender c = JObj
     ([(''workspace_id'', JStr (cc_WorkspaceID c)), (''queue_id'', JStr (cc_QueueID c)), (''item_id'', JStr (cc_ItemID c)),
       (''state'', JStr (cc_State c)), (''context_digest'', JStr (cc_ContextDigest c)),
       (''repo_lease_id'', JStr (cc_RepoLeaseID c)), (''lease_term'', JInt (cc_LeaseTerm c))]
      @ omit_str ''task_id'' (cc_TaskID c) @ omit_str ''session_id'' (cc_SessionID c) @ omit_str ''run_id'' (cc_RunID c)
      @ omit_str ''agent_id'' (cc_AgentID c) @ omit_str ''base_ref'' (cc_BaseRef c)
      @ omit_str ''base_tree_hash'' (cc_BaseTreeHash c) @ omit_str ''cas_patch_digest'' (cc_CASPatchDigest c)
      @ omit_str ''cas_evaluation_digest'' (cc_CASEvaluationDigest c))"

definition json_semantic_contender :: "SemanticConflictContender \<Rightarrow> json" where
  "json_semantic_contender c = JObj
     ([(''workspace_id'', JStr (sc_WorkspaceID c)), (''queue_id'', JStr (sc_QueueID c)), (''item_id'', JStr (sc_ItemID c)),
       (''state'', JStr (sc_State c)), (''context_digest'', JStr (sc_ContextDigest c)),
       (''repo_lease_id'', JStr (sc_RepoLeaseID c)), (''lease_term'', JInt (sc_LeaseTerm c)),
       (''pathset'', json_slice (map JStr (sc_Pathset c))), (''task_id'', JStr (sc_TaskID c)),
       (''session_id'', JStr (sc_SessionID c)), (''run_id'', JStr (sc_RunID c)), (''agent_id'', JStr (sc_AgentID c)),
       (''principal_type'', JStr (sc_PrincipalType c)), (''principal_id'', JStr (sc_PrincipalID c)),
       (''capability_snapshot_id'', JStr (sc_CapabilitySnapshotID c))]
      @ omit_str ''capability_snapshot_schema'' (sc_CapabilitySnapshotSchema c)
      @ [(''base_ref'', JStr (sc_BaseRef c)), (''base_tree_hash'', JStr (sc_BaseTreeHash c))]
      @ omit_str ''cas_patch_digest'' (sc_CASPatchDigest c) @ omit_str ''cas_evaluation_digest'' (sc_CASEvaluationDigest c))"

definition omit_opt :: "string \<Rightarrow> json option \<Rightarrow> (string \<times> json) list" where
  "omit_opt k v = (case v of None \<Rightarrow> [] | Some j \<Rightarrow> [(k, j)])"

definition json_conflict :: "ConflictModelResult \<Rightarrow> json" where
  "json_conflict r = JObj
     ([(''schema'', JStr (cm_Schema r)), (''conflict_id'', JStr (cm_ConflictID r)), (''status'', JStr (cm_Status r)),
       (''reason'', JStr (cm_Reason r)), (''path'', JStr (cm_Path r))]
      @ omit_arr ''paths'' (map JStr (cm_Paths r)) @ [(''workspace_id'', JStr (cm_WorkspaceID r))]
      @ omit_str ''task_id'' (cm_TaskID r) @ omit_str ''session_id'' (cm_SessionID r) @ omit_str ''run_id'' (cm_RunID r)
      @ omit_str ''agent_id'' (cm_AgentID r) @ omit_str ''principal_type'' (cm_PrincipalType r)
      @ omit_str ''principal_id'' (cm_PrincipalID r) @ omit_str ''capability_snapshot_id'' (cm_CapabilitySnapshotID r)
      @ omit_str ''capability_snapshot_schema'' (cm_CapabilitySnapshotSchema r) @ omit_str ''context_digest'' (cm_ContextDigest r)
      @ omit_str ''repo_lease_id'' (cm_RepoLeaseID r) @ omit_int ''lease_term'' (cm_LeaseTerm r)
      @ omit_str ''patch_queue_id'' (cm_PatchQueueID r) @ omit_str ''patch_queue_item_id'' (cm_PatchQueueItemID r)
      @ omit_str ''patch_queue_state'' (cm_PatchQueueState r) @ omit_str ''base_ref'' (cm_BaseRef r)
      @ omit_str ''base_tree_hash'' (cm_BaseTreeHash r) @ omit_str ''expected_hash'' (cm_ExpectedHash r)
      @ omit_str ''actual_hash'' (cm_ActualHash r) @ omit_str ''candidate_hash'' (cm_CandidateHash r)
      @ omit_str ''cas_status'' (cm_CASStatus r) @ omit_str ''cas_patch_digest'' (cm_CASPatchDigest r)
      @ omit_str ''cas_evaluation_digest'' (cm_CASEvaluationDigest r) @ omit_str ''cas_issue_kind'' (cm_CASIssueKind r)
      @ omit_opt ''test_evidence'' (map_option json_test_evidence (cm_TestEvidence r))
      @ omit_str ''test_evidence_digest'' (cm_TestEvidenceDigest r) @ omit_str ''operation_id'' (cm_OperationID r)
      @ omit_str ''operation_kind'' (cm_OperationKind r) @ omit_arr ''mutation_paths'' (map JStr (cm_MutationPaths r))
      @ omit_str ''attempted_at'' (cm_AttemptedAt r) @ omit_str ''rejection_kind'' (cm_RejectionKind r)
      @ omit_str ''rejection_message'' (cm_RejectionMessage r)
      @ omit_opt ''attempted_holder'' (map_option json_holder (cm_AttemptedHolder r))
      @ omit_str ''attempted_holder_digest'' (cm_AttemptedHolderDigest r)
      @ omit_opt ''observed_lease'' (map_option json_lease (cm_ObservedLease r))
      @ omit_str ''observed_lease_digest'' (cm_ObservedLeaseDigest r) @ omit_str ''observed_lease_status'' (cm_ObservedLeaseStatus r)
      @ omit_int ''observed_lease_term'' (cm_ObservedLeaseTerm r)
      @ omit_opt ''observed_holder'' (map_option json_holder (cm_ObservedHolder r))
      @ omit_str ''observed_holder_digest'' (cm_ObservedHolderDigest r) @ omit_str ''semantic_kind'' (cm_SemanticKind r)
      @ omit_str ''semantic_subject'' (cm_SemanticSubject r) @ omit_str ''semantic_evidence_summary'' (cm_SemanticEvidenceSummary r)
      @ omit_str ''semantic_evidence_digest'' (cm_SemanticEvidenceDigest r)
      @ omit_arr ''semantic_contenders'' (map json_semantic_contender (cm_SemanticContenders r))
      @ omit_arr ''contenders'' (map json_contender (cm_Contenders r)))"

definition conflictModelID :: "ConflictModelResult \<Rightarrow> string" where
  "conflictModelID result = ''conflict_'' @ hex_encode (take 8 (sha256 (json_text (json_conflict (result\<lparr>cm_ConflictID := []\<rparr>)))))"

definition digestFileLeaseHolder :: "FileLeaseHolder \<Rightarrow> string" where
  "digestFileLeaseHolder holder = json_digest (json_holder holder)"

definition digestFileLease :: "FileLease \<Rightarrow> string" where
  "digestFileLease lease = json_digest (json_lease lease)"

definition digestSemanticConflictEvidence :: "ConflictModelResult \<Rightarrow> string" where
  "digestSemanticConflictEvidence result = json_digest (JObj
     [(''kind'', JStr (cm_SemanticKind result)), (''subject'', JStr (cm_SemanticSubject result)),
      (''summary'', JStr (cm_SemanticEvidenceSummary result)),
      (''contenders'', json_slice (map json_semantic_contender (cm_SemanticContenders result)))])"

definition digestSemanticConflictContender :: "SemanticConflictContender \<Rightarrow> string" where
  "digestSemanticConflictContender contender = json_digest (json_semantic_contender contender)"

subsection \<open>Canonical values\<close>

definition requireCanonicalConflictValue :: "string \<Rightarrow> string \<Rightarrow> string \<Rightarrow> err option" where
  "requireCanonicalConflictValue pre field v =
     (if TrimSpace v = [] then Some (Errorf ''%s %s is required'' [AStr pre, AStr field])
      else fail_if (v \<noteq> TrimSpace v) (Errorf ''%s %s is not canonical'' [AStr pre, AStr field]))"

definition canonical_fields :: "string \<Rightarrow> (string \<times> string) list \<Rightarrow> err option" where
  "canonical_fields pre fs = guards (map (\<lambda>(field, v). requireCanonicalConflictValue pre field v) fs)"

definition validateConflictPath :: "string \<Rightarrow> err option" where
  "validateConflictPath path =
     (case NormalizePath path of
        Inl e \<Rightarrow> Some (Errorf ''conflict path: %w'' [AErr e])
      | Inr normalized \<Rightarrow> fail_if (normalized \<noteq> path)
          (Errorf ''conflict path is not normalized: got %q want %q'' [AStr path, AStr normalized]))"

definition stringSliceContainsPath :: "string list \<Rightarrow> string \<Rightarrow> bool" where
  "stringSliceContainsPath paths want \<longleftrightarrow> list_ex (\<lambda>path. TrimSpace path = want) paths"

definition pathsetsOverlap :: "string list \<Rightarrow> string list \<Rightarrow> bool" where
  "pathsetsOverlap left right \<longleftrightarrow> list_ex (\<lambda>path. path \<in> set left) right"

definition pathConflictContenderStateAllowed :: "string \<Rightarrow> bool" where
  "pathConflictContenderStateAllowed state \<longleftrightarrow> TrimSpace state \<in> set [PatchQueueStateProposed, PatchQueueStateValidating]"

definition semanticConflictContenderStateAllowed :: "string \<Rightarrow> bool" where
  "semanticConflictContenderStateAllowed state \<longleftrightarrow> TrimSpace state \<in> set [PatchQueueStateProposed, PatchQueueStateValidating]"

definition semanticConflictKindAllowed :: "string \<Rightarrow> bool" where
  "semanticConflictKindAllowed kind \<longleftrightarrow> kind \<in> set
     [SemanticConflictKindAPIContract, SemanticConflictKindTestFixture, SemanticConflictKindBehavior, SemanticConflictKindPlaceholder]"

definition normalizeSemanticConflictEvidence :: "string \<Rightarrow> string \<Rightarrow> string \<Rightarrow> (string \<times> string \<times> string) result" where
  "normalizeSemanticConflictEvidence kind0 subject0 summary0 =
     (let kind = TrimSpace kind0; subject = TrimSpace subject0; summary = TrimSpace summary0
      in require (guards
        [fail_if (kind = []) (Errorf ''semantic_conflict semantic_kind is required'' []),
         fail_if (\<not> semanticConflictKindAllowed kind) (Errorf ''semantic_conflict semantic_kind %q is not supported'' [AStr kind]),
         fail_if (subject = []) (Errorf ''semantic_conflict semantic_subject is required'' []),
         fail_if (summary = []) (Errorf ''semantic_conflict semantic_evidence_summary is required'' []),
         fail_if (SemanticConflictEvidenceSummaryMaxBytes < length summary)
           (Errorf ''semantic_conflict semantic_evidence_summary exceeds %d bytes'' [AInt (int SemanticConflictEvidenceSummaryMaxBytes)])])
        (Inr (kind, subject, summary)))"

subsection \<open>Choosing the path of a conflict\<close>

text \<open>A path that the caller asks for, the label naming the kind of conflict in the messages.\<close>

definition requested_path :: "string \<Rightarrow> string \<Rightarrow> string result" where
  "requested_path label requested =
     (case NormalizePath requested of
        Inl e \<Rightarrow> Inl (Errorf (label @ '' path: %w'') [AErr e])
      | Inr normalized \<Rightarrow>
          require (fail_if (normalized \<noteq> requested)
            (Errorf (label @ '' path is not normalized: got %q want %q'') [AStr requested, AStr normalized])) (Inr requested))"

text \<open>
  The drifted paths form a set in the code, whose single element is taken; here it is the list
  without duplicates.
\<close>

definition chooseBaseDriftPath :: "CASPatchApplyResult \<Rightarrow> string \<Rightarrow> string result" where
  "chooseBaseDriftPath result requested0 =
     (let requested = TrimSpace requested0
      in if requested \<noteq> [] then requested_path ''base_drift conflict'' requested
         else case remdups (map (\<lambda>i. TrimSpace (ci_Path i))
                (filter (\<lambda>i. ci_Status i = CASPatchStatusConflict \<and> ci_Kind i = CASPatchIssueBaseDrift) (car_Issues result))) of
           [path] \<Rightarrow> require (fail_if (path = []) (Errorf ''base_drift conflict path is required'' [])) (Inr path)
         | _ \<Rightarrow> Inl (Errorf ''base_drift conflict path is ambiguous; provide path'' []))"

definition chooseTestConflictPaths :: "string list \<Rightarrow> string \<Rightarrow> (string list \<times> string) result" where
  "chooseTestConflictPaths pathset requested0 =
     bind_result (map_err (\<lambda>e. Errorf ''test_conflict paths: %w'' [AErr e]) (NormalizePathSet pathset)) (\<lambda>paths.
     require (fail_if (paths = []) (Errorf ''test_conflict paths are required'' []))
     (let requested = TrimSpace requested0
      in if requested \<noteq> []
         then bind_result (requested_path ''test_conflict'' requested) (\<lambda>p.
           require (fail_if (\<not> stringSliceContainsPath paths p)
             (Errorf ''test_conflict path %q must be included in paths'' [AStr p])) (Inr (paths, p)))
         else Inr (paths, hd paths)))"

definition chooseLateStaleWritePaths :: "string list \<Rightarrow> string \<Rightarrow> (string list \<times> string) result" where
  "chooseLateStaleWritePaths mutationPaths requested0 =
     bind_result (map_err (\<lambda>e. Errorf ''late_stale_write paths: %w'' [AErr e]) (NormalizePathSet mutationPaths)) (\<lambda>paths.
     require (fail_if (paths = []) (Errorf ''late_stale_write paths are required'' []))
     (let requested = TrimSpace requested0
      in if requested \<noteq> []
         then bind_result (requested_path ''late_stale_write'' requested) (\<lambda>p.
           require (fail_if (\<not> stringSliceContainsPath paths p)
             (Errorf ''late_stale_write path %q must be included in mutation paths'' [AStr p])) (Inr (paths, p)))
         else Inr (paths, hd paths)))"

definition chooseSemanticConflictPath :: "string list \<Rightarrow> string \<Rightarrow> string result" where
  "chooseSemanticConflictPath paths requested0 =
     bind_result (map_err (\<lambda>e. Errorf ''semantic_conflict paths: %w'' [AErr e]) (NormalizePathSet paths)) (\<lambda>normalizedPaths.
     require (fail_if (normalizedPaths = []) (Errorf ''semantic_conflict paths are required'' []))
     (let requested = TrimSpace requested0
      in if requested \<noteq> []
         then bind_result (requested_path ''semantic_conflict'' requested) (\<lambda>p.
           require (fail_if (\<not> stringSliceContainsPath normalizedPaths p)
             (Errorf ''semantic_conflict path %q must be included in paths'' [AStr p])) (Inr p))
         else Inr (hd normalizedPaths)))"

text \<open>The only drift issue and the only path result of a path; a second one is an error.\<close>

definition baseDriftIssueAndPathResult :: "CASPatchApplyResult \<Rightarrow> string \<Rightarrow> (CASPatchIssue \<times> CASPatchPathResult) result" where
  "baseDriftIssueAndPathResult result path =
     (let issues = filter (\<lambda>i. ci_Status i = CASPatchStatusConflict \<and> ci_Kind i = CASPatchIssueBaseDrift \<and> ci_Path i = path) (car_Issues result);
          results = filter (\<lambda>pr. cp_Path pr = path) (car_Paths result)
      in if 1 < length issues then Inl (Errorf ''base_drift conflict has duplicate issue for %q'' [AStr path])
         else if 1 < length results then Inl (Errorf ''base_drift conflict has duplicate path result for %q'' [AStr path])
         else case issues of
           [] \<Rightarrow> Inl (Errorf ''base_drift conflict requires base_drift issue for %q'' [AStr path])
         | issue # _ \<Rightarrow>
             (case results of
                [] \<Rightarrow> Inl (Errorf ''base_drift conflict requires conflict path result for %q'' [AStr path])
              | pathResult # _ \<Rightarrow>
                  require (fail_if (cp_Status pathResult \<noteq> CASPatchStatusConflict)
                    (Errorf ''base_drift conflict requires conflict path result for %q'' [AStr path])) (Inr (issue, pathResult))))"

subsection \<open>Contenders\<close>

definition contender_of_item :: "PatchQueueItem \<Rightarrow> ConflictContender" where
  "contender_of_item item =
     \<lparr>cc_WorkspaceID = TrimSpace (pq_WorkspaceID item), cc_QueueID = TrimSpace (pq_QueueID item),
      cc_ItemID = TrimSpace (pq_ItemID item), cc_State = TrimSpace (pq_State item),
      cc_ContextDigest = TrimSpace (pq_ContextDigest item), cc_RepoLeaseID = TrimSpace (pq_RepoLeaseID item),
      cc_LeaseTerm = pq_LeaseTerm item, cc_TaskID = TrimSpace (pq_TaskID item), cc_SessionID = TrimSpace (pq_SessionID item),
      cc_RunID = TrimSpace (pq_RunID item), cc_AgentID = TrimSpace (pq_AgentID item), cc_BaseRef = TrimSpace (pq_BaseRef item),
      cc_BaseTreeHash = TrimSpace (pq_BaseTreeHash item), cc_CASPatchDigest = TrimSpace (pq_CASPatchDigest item),
      cc_CASEvaluationDigest = TrimSpace (pq_CASEvaluationDigest item)\<rparr>"

definition conflictContenderFromPatchQueueItem :: "PatchQueueItem \<Rightarrow> string \<Rightarrow> string \<Rightarrow> ConflictContender result" where
  "conflictContenderFromPatchQueueItem item path label =
     require (guards
       (map (\<lambda>(field, v). fail_if (TrimSpace v = []) (Errorf ''path_conflict %s %s is required'' [AStr label, AStr field]))
          [(''queue_id'', pq_QueueID item), (''item_id'', pq_ItemID item), (''state'', pq_State item),
           (''context_digest'', pq_ContextDigest item), (''repo_lease_id'', pq_RepoLeaseID item), (''workspace_id'', pq_WorkspaceID item)]
        @ [fail_if (pq_LeaseTerm item \<le> 0) (Errorf ''path_conflict %s lease_term is required'' [AStr label]),
           fail_if (\<not> pathConflictContenderStateAllowed (pq_State item))
             (Errorf ''path_conflict %s state %q is not an active path_conflict contender state'' [AStr label, AStr (pq_State item)]),
           fail_if (\<not> pathsetCoversPath (pq_Pathset item) path)
             (Errorf ''path_conflict %s item %s/%s does not cover path %q''
               [AStr label, AStr (pq_QueueID item), AStr (pq_ItemID item), AStr path])]))
       (Inr (contender_of_item item))"

definition semantic_contender_of_item :: "PatchQueueItem \<Rightarrow> string list \<Rightarrow> SemanticConflictContender" where
  "semantic_contender_of_item item pathset =
     \<lparr>sc_WorkspaceID = pq_WorkspaceID item, sc_QueueID = pq_QueueID item, sc_ItemID = pq_ItemID item, sc_State = pq_State item,
      sc_ContextDigest = pq_ContextDigest item, sc_RepoLeaseID = pq_RepoLeaseID item, sc_LeaseTerm = pq_LeaseTerm item,
      sc_Pathset = pathset, sc_TaskID = pq_TaskID item, sc_SessionID = pq_SessionID item, sc_RunID = pq_RunID item,
      sc_AgentID = pq_AgentID item, sc_PrincipalType = pq_PrincipalType item, sc_PrincipalID = pq_PrincipalID item,
      sc_CapabilitySnapshotID = pq_CapabilitySnapshotID item, sc_CapabilitySnapshotSchema = pq_CapabilitySnapshotSchema item,
      sc_BaseRef = pq_BaseRef item, sc_BaseTreeHash = pq_BaseTreeHash item, sc_CASPatchDigest = TrimSpace (pq_CASPatchDigest item),
      sc_CASEvaluationDigest = TrimSpace (pq_CASEvaluationDigest item)\<rparr>"

definition semanticContenderFromPatchQueueItem :: "PatchQueueItem \<Rightarrow> string \<Rightarrow> SemanticConflictContender result" where
  "semanticContenderFromPatchQueueItem item label =
     require (guards
       [canonical_fields (''semantic_conflict '' @ label)
          [(''queue_id'', pq_QueueID item), (''item_id'', pq_ItemID item), (''state'', pq_State item),
           (''context_digest'', pq_ContextDigest item), (''repo_lease_id'', pq_RepoLeaseID item),
           (''workspace_id'', pq_WorkspaceID item), (''task_id'', pq_TaskID item), (''session_id'', pq_SessionID item),
           (''run_id'', pq_RunID item), (''agent_id'', pq_AgentID item), (''principal_type'', pq_PrincipalType item),
           (''principal_id'', pq_PrincipalID item), (''capability_snapshot_id'', pq_CapabilitySnapshotID item),
           (''capability_snapshot_schema'', pq_CapabilitySnapshotSchema item), (''base_ref'', pq_BaseRef item),
           (''base_tree_hash'', pq_BaseTreeHash item)],
        fail_if (pq_LeaseTerm item \<le> 0) (Errorf ''semantic_conflict %s lease_term is required'' [AStr label]),
        fail_if (\<not> semanticConflictContenderStateAllowed (pq_State item))
          (Errorf ''semantic_conflict %s state %q is not an active semantic_conflict contender state'' [AStr label, AStr (pq_State item)])])
     (case NormalizePathSet (pq_Pathset item) of
        Inl e \<Rightarrow> Inl (Errorf ''semantic_conflict %s pathset: %w'' [AStr label, AErr e])
      | Inr pathset \<Rightarrow>
          require (fail_if (pathset = []) (Errorf ''semantic_conflict %s pathset is required'' [AStr label]))
            (Inr (semantic_contender_of_item item pathset)))"

definition mergeSemanticContenderPaths :: "SemanticConflictContender list \<Rightarrow> string list" where
  "mergeSemanticContenderPaths contenders =
     (case NormalizePathSet (concat (map sc_Pathset contenders)) of Inl e \<Rightarrow> [] | Inr normalized \<Rightarrow> normalized)"

definition contender_prefix :: "string \<Rightarrow> nat \<Rightarrow> string" where
  "contender_prefix kind i = kind @ '' contender['' @ dec_int (int i) @ '']''"

definition validateConflictContender :: "ConflictContender \<Rightarrow> string \<Rightarrow> nat \<Rightarrow> err option" where
  "validateConflictContender c workspaceID i =
     (let pre = contender_prefix ''path_conflict'' i
      in guards
        [canonical_fields pre
           [(''workspace_id'', cc_WorkspaceID c), (''queue_id'', cc_QueueID c), (''item_id'', cc_ItemID c), (''state'', cc_State c),
            (''context_digest'', cc_ContextDigest c), (''repo_lease_id'', cc_RepoLeaseID c), (''task_id'', cc_TaskID c),
            (''session_id'', cc_SessionID c), (''run_id'', cc_RunID c), (''agent_id'', cc_AgentID c), (''base_ref'', cc_BaseRef c),
            (''base_tree_hash'', cc_BaseTreeHash c), (''cas_patch_digest'', cc_CASPatchDigest c),
            (''cas_evaluation_digest'', cc_CASEvaluationDigest c)],
         fail_if (cc_WorkspaceID c \<noteq> workspaceID)
           (Errorf ''%s workspace mismatch: got %q want %q'' [AStr pre, AStr (cc_WorkspaceID c), AStr workspaceID]),
         fail_if (cc_LeaseTerm c \<le> 0) (Errorf ''%s lease_term is required'' [AStr pre]),
         fail_if (\<not> pathConflictContenderStateAllowed (cc_State c))
           (Errorf ''%s state %q is not an active path_conflict contender state'' [AStr pre, AStr (cc_State c)])])"

definition validateSemanticConflictContender :: "SemanticConflictContender \<Rightarrow> string \<Rightarrow> nat \<Rightarrow> err option" where
  "validateSemanticConflictContender c workspaceID i =
     (let pre = contender_prefix ''semantic_conflict'' i
      in guards
        [canonical_fields pre
           [(''workspace_id'', sc_WorkspaceID c), (''queue_id'', sc_QueueID c), (''item_id'', sc_ItemID c), (''state'', sc_State c),
            (''context_digest'', sc_ContextDigest c), (''repo_lease_id'', sc_RepoLeaseID c), (''task_id'', sc_TaskID c),
            (''session_id'', sc_SessionID c), (''run_id'', sc_RunID c), (''agent_id'', sc_AgentID c),
            (''principal_type'', sc_PrincipalType c), (''principal_id'', sc_PrincipalID c),
            (''capability_snapshot_id'', sc_CapabilitySnapshotID c),
            (''capability_snapshot_schema'', sc_CapabilitySnapshotSchema c), (''base_ref'', sc_BaseRef c),
            (''base_tree_hash'', sc_BaseTreeHash c)],
         fail_if (sc_WorkspaceID c \<noteq> workspaceID)
           (Errorf ''%s workspace mismatch: got %q want %q'' [AStr pre, AStr (sc_WorkspaceID c), AStr workspaceID]),
         fail_if (sc_LeaseTerm c \<le> 0) (Errorf ''%s lease_term is required'' [AStr pre]),
         fail_if (\<not> semanticConflictContenderStateAllowed (sc_State c))
           (Errorf ''%s state %q is not an active semantic_conflict contender state'' [AStr pre, AStr (sc_State c)]),
         (case NormalizePathSet (sc_Pathset c) of
            Inl e \<Rightarrow> Some (Errorf ''%s pathset: %w'' [AStr pre, AErr e])
          | Inr pathset \<Rightarrow> guards
              [fail_if (pathset = []) (Errorf ''%s pathset is required'' [AStr pre]),
               fail_if (\<not> sameStringSlice pathset (sc_Pathset c)) (Errorf ''%s pathset is not canonical'' [AStr pre])])])"

end
