(* ===== verification/Conflict_Build.thy ===== *)
theory Conflict_Build
  imports Conflict_Model
begin

section \<open>Validation and construction of conflict records\<close>

text \<open>
  The second half of \<open>internal/repoauthority/conflict.go\<close>: the validators of the five kinds and the
  five builders. \<open>BuildLateStaleWriteConflict\<close> attempts the mutation it reports on, so it returns the
  lease store as the attempt leaves it; \<open>wall\<close> is the clock read for the time of the attempt and
  \<open>lwall\<close> the one read inside the lease store, both used only when the input carries no time.
\<close>

subsection \<open>The kinds without a store\<close>

definition validateBaseDriftConflictModel :: "ConflictModelResult \<Rightarrow> err option" where
  "validateBaseDriftConflictModel r = guards
     [canonical_fields ''base_drift conflict''
        [(''context_digest'', cm_ContextDigest r), (''repo_lease_id'', cm_RepoLeaseID r), (''patch_queue_id'', cm_PatchQueueID r),
         (''patch_queue_item_id'', cm_PatchQueueItemID r), (''patch_queue_state'', cm_PatchQueueState r),
         (''expected_hash'', cm_ExpectedHash r), (''actual_hash'', cm_ActualHash r), (''candidate_hash'', cm_CandidateHash r),
         (''cas_patch_digest'', cm_CASPatchDigest r), (''cas_evaluation_digest'', cm_CASEvaluationDigest r),
         (''cas_issue_kind'', cm_CASIssueKind r)],
      fail_if (cm_LeaseTerm r \<le> 0) (Errorf ''base_drift conflict lease_term is required'' []),
      fail_if (cm_CASIssueKind r \<noteq> CASPatchIssueBaseDrift)
        (Errorf ''base_drift conflict cas_issue_kind must be %q'' [AStr CASPatchIssueBaseDrift]),
      fail_if (cm_PatchQueueState r \<noteq> PatchQueueStateConflict)
        (Errorf ''base_drift conflict patch_queue_state must be %q'' [AStr PatchQueueStateConflict]),
      fail_if (TrimSpace (cm_ExpectedHash r) = TrimSpace (cm_ActualHash r))
        (Errorf ''base_drift conflict expected_hash and actual_hash must differ'' []),
      fail_if (cm_Contenders r \<noteq> []) (Errorf ''base_drift conflict must not include path_conflict contenders'' [])]"

fun check_contenders :: "string \<Rightarrow> nat \<Rightarrow> string list \<Rightarrow> ConflictContender list \<Rightarrow> err option" where
  "check_contenders workspaceID i seen [] = None"
| "check_contenders workspaceID i seen (c # cs) =
     (case validateConflictContender c workspaceID i of
        Some e \<Rightarrow> Some e
      | None \<Rightarrow>
          let key = cc_QueueID c @ [CHR 0x00] @ cc_ItemID c
          in if key \<in> set seen
             then Some (Errorf ''path_conflict contender %s/%s is duplicated'' [AStr (cc_QueueID c), AStr (cc_ItemID c)])
             else check_contenders workspaceID (Suc i) (key # seen) cs)"

definition validatePathConflictModel :: "ConflictModelResult \<Rightarrow> err option" where
  "validatePathConflictModel r =
     (if length (cm_Contenders r) \<noteq> 2 then Some (Errorf ''path_conflict requires exactly two contenders'' [])
      else check_contenders (cm_WorkspaceID r) 0 [] (cm_Contenders r))"

text \<open>A list of paths that must be its own non-empty normal form.\<close>

definition canonical_path_list :: "string \<Rightarrow> string \<Rightarrow> string list \<Rightarrow> err option" where
  "canonical_path_list label wording paths =
     (case NormalizePathSet paths of
        Inl e \<Rightarrow> Some (Errorf (label @ '': %w'') [AErr e])
      | Inr normalized \<Rightarrow> guards
          [fail_if (normalized = []) (Errorf (label @ '' are required'') []),
           fail_if (\<not> sameStringSlice normalized paths) (Errorf (label @ '' are not '' @ wording) [])])"

definition check_test_evidence :: "ConflictModelResult \<Rightarrow> err option" where
  "check_test_evidence r =
     (case cm_TestEvidence r of
        None \<Rightarrow> Some (Errorf ''test_conflict test evidence is required'' [])
      | Some evidence \<Rightarrow>
          (case normalizePatchQueueTestEvidence evidence of
             Inl e \<Rightarrow> Some (Errorf ''test_conflict test evidence: %w'' [AErr e])
           | Inr (testEvidence, hasTestEvidence) \<Rightarrow> guards
               [fail_if (\<not> hasTestEvidence) (Errorf ''test_conflict test evidence is required'' []),
                fail_if (evidence \<noteq> testEvidence) (Errorf ''test_conflict test evidence is not canonical'' []),
                fail_if (te_Status testEvidence \<noteq> PatchQueueTestStatusFailed) (Errorf ''test_conflict requires failed test evidence'' []),
                fail_if (TrimSpace (cm_TestEvidenceDigest r) \<noteq> digestPatchQueueTestEvidence testEvidence)
                  (Errorf ''test_conflict test evidence digest mismatch'' [])]))"

definition validateTestConflictModel :: "ConflictModelResult \<Rightarrow> err option" where
  "validateTestConflictModel r = guards
     [validateConflictPath (cm_Path r),
      canonical_path_list ''test_conflict paths'' ''normalized'' (cm_Paths r),
      fail_if (\<not> stringSliceContainsPath (cm_Paths r) (cm_Path r))
        (Errorf ''test_conflict path %q must be included in paths'' [AStr (cm_Path r)]),
      canonical_fields ''test_conflict''
        [(''task_id'', cm_TaskID r), (''session_id'', cm_SessionID r), (''run_id'', cm_RunID r), (''agent_id'', cm_AgentID r),
         (''principal_type'', cm_PrincipalType r), (''principal_id'', cm_PrincipalID r),
         (''capability_snapshot_id'', cm_CapabilitySnapshotID r), (''capability_snapshot_schema'', cm_CapabilitySnapshotSchema r),
         (''context_digest'', cm_ContextDigest r), (''repo_lease_id'', cm_RepoLeaseID r), (''patch_queue_id'', cm_PatchQueueID r),
         (''patch_queue_item_id'', cm_PatchQueueItemID r), (''patch_queue_state'', cm_PatchQueueState r),
         (''base_ref'', cm_BaseRef r), (''base_tree_hash'', cm_BaseTreeHash r), (''cas_status'', cm_CASStatus r),
         (''cas_patch_digest'', cm_CASPatchDigest r), (''cas_evaluation_digest'', cm_CASEvaluationDigest r),
         (''test_evidence_digest'', cm_TestEvidenceDigest r)],
      fail_if (cm_LeaseTerm r \<le> 0) (Errorf ''test_conflict lease_term is required'' []),
      fail_if (cm_PatchQueueState r \<noteq> PatchQueueStateTestConflict)
        (Errorf ''test_conflict patch_queue_state must be %q'' [AStr PatchQueueStateTestConflict]),
      fail_if (cm_CASStatus r \<noteq> CASPatchStatusApplied) (Errorf ''test_conflict cas_status must be %q'' [AStr CASPatchStatusApplied]),
      fail_if (cm_OperationID r \<noteq> [] \<or> cm_OperationKind r \<noteq> [])
        (Errorf ''test_conflict must not include canonical mutation operation refs'' []),
      check_test_evidence r,
      fail_if (cm_Contenders r \<noteq> []) (Errorf ''test_conflict must not include path_conflict contenders'' [])]"

subsection \<open>Writes under a stale lease\<close>

definition sameFileLeaseHolder :: "FileLeaseHolder \<Rightarrow> FileLeaseHolder \<Rightarrow> bool" where
  "sameFileLeaseHolder left right \<longleftrightarrow>
     fh_WorkspaceID left = fh_WorkspaceID right \<and> fh_TaskID left = fh_TaskID right \<and> fh_SessionID left = fh_SessionID right \<and>
     fh_RunID left = fh_RunID right \<and> fh_AgentID left = fh_AgentID right \<and>
     pr_Type (fh_Principal left) = pr_Type (fh_Principal right) \<and> pr_ID (fh_Principal left) = pr_ID (fh_Principal right) \<and>
     fh_CapabilitySnapshotID left = fh_CapabilitySnapshotID right \<and> fh_ContextDigest left = fh_ContextDigest right"

definition sameFileLeaseHolderIdentity :: "FileLeaseHolder \<Rightarrow> FileLeaseHolder \<Rightarrow> bool" where
  "sameFileLeaseHolderIdentity left right \<longleftrightarrow>
     fh_WorkspaceID left = fh_WorkspaceID right \<and> fh_TaskID left = fh_TaskID right \<and> fh_SessionID left = fh_SessionID right \<and>
     fh_RunID left = fh_RunID right \<and> fh_AgentID left = fh_AgentID right \<and>
     pr_Type (fh_Principal left) = pr_Type (fh_Principal right) \<and> pr_ID (fh_Principal left) = pr_ID (fh_Principal right) \<and>
     fh_CapabilitySnapshotID left = fh_CapabilitySnapshotID right"

definition validateCanonicalFileLeaseHolder :: "string \<Rightarrow> FileLeaseHolder \<Rightarrow> err option" where
  "validateCanonicalFileLeaseHolder pre holder = guards
     [validateFileLeaseHolder holder,
      canonical_fields pre
        [(''workspace_id'', fh_WorkspaceID holder), (''task_id'', fh_TaskID holder), (''session_id'', fh_SessionID holder),
         (''run_id'', fh_RunID holder), (''agent_id'', fh_AgentID holder), (''principal_type'', pr_Type (fh_Principal holder)),
         (''principal_id'', pr_ID (fh_Principal holder)), (''capability_snapshot_id'', fh_CapabilitySnapshotID holder),
         (''context_digest'', fh_ContextDigest holder)]]"

definition fileLeaseHolderFromContext :: "Context \<Rightarrow> FileLeaseHolder result" where
  "fileLeaseHolderFromContext authority =
     bind_result (Context_Digest authority) (\<lambda>digest. Inr
       \<lparr>fh_WorkspaceID = ctx_WorkspaceID authority, fh_TaskID = ctx_TaskID authority, fh_SessionID = ctx_SessionID authority,
        fh_RunID = ctx_RunID authority, fh_AgentID = ctx_AgentID authority, fh_Principal = ctx_Principal authority,
        fh_CapabilitySnapshotID = cs_ID (ctx_CapabilitySnapshot authority), fh_ContextDigest = digest\<rparr>)"

definition classifyLateStaleWriteRejection ::
  "err option \<Rightarrow> Context \<Rightarrow> FileLease \<Rightarrow> FileLeaseHolder \<Rightarrow> string result" where
  "classifyLateStaleWriteRejection bindErr authority observedLease attemptedHolder =
     (case bindErr of
        None \<Rightarrow> Inl (Errorf ''late_stale_write requires rejected mutation operation binding'' [])
      | Some e \<Rightarrow>
          let message = ToLower (err_text e)
          in if fl_Status observedLease = FileLeaseStatusExpired \<or> Contains message ''expired''
             then Inr LateStaleWriteRejectionExpiredLease
             else if fl_Status observedLease = FileLeaseStatusReleased \<or> Contains message ''released''
             then Inr LateStaleWriteRejectionReleasedLease
             else if fl_Status observedLease = FileLeaseStatusRevoked \<or> Contains message ''revoked''
             then Inr LateStaleWriteRejectionRevokedLease
             else if lr_Term (ctx_Lease authority) \<noteq> fl_Term observedLease \<or> Contains message ''lease_term mismatch''
                \<or> Contains message ''lease.term mismatch''
             then Inr LateStaleWriteRejectionStaleLeaseTerm
             else if \<not> sameFileLeaseHolderIdentity attemptedHolder (HolderForLease observedLease)
                \<or> Contains message ''lease context'' \<or> Contains message ''lease holder''
                \<or> Contains message ''principal mismatch'' \<or> Contains message ''context digest mismatch''
             then Inr LateStaleWriteRejectionStaleHolder
             else Inl (Errorf ''late_stale_write requires stale lease rejection, got: %v'' [AErr e]))"

definition validateLateStaleWriteHolderRefs :: "ConflictModelResult \<Rightarrow> FileLeaseHolder \<Rightarrow> FileLeaseHolder \<Rightarrow> err option" where
  "validateLateStaleWriteHolderRefs r attempted observed = guards
     [fail_if (fh_WorkspaceID attempted \<noteq> cm_WorkspaceID r) (Errorf ''late_stale_write attempted_holder workspace mismatch'' []),
      fail_if (fh_TaskID attempted \<noteq> cm_TaskID r) (Errorf ''late_stale_write attempted_holder task mismatch'' []),
      fail_if (fh_SessionID attempted \<noteq> cm_SessionID r) (Errorf ''late_stale_write attempted_holder session mismatch'' []),
      fail_if (fh_RunID attempted \<noteq> cm_RunID r) (Errorf ''late_stale_write attempted_holder run mismatch'' []),
      fail_if (fh_AgentID attempted \<noteq> cm_AgentID r) (Errorf ''late_stale_write attempted_holder agent mismatch'' []),
      fail_if (pr_Type (fh_Principal attempted) \<noteq> cm_PrincipalType r \<or> pr_ID (fh_Principal attempted) \<noteq> cm_PrincipalID r)
        (Errorf ''late_stale_write attempted_holder principal mismatch'' []),
      fail_if (fh_CapabilitySnapshotID attempted \<noteq> cm_CapabilitySnapshotID r)
        (Errorf ''late_stale_write attempted_holder capability snapshot mismatch'' []),
      fail_if (fh_ContextDigest attempted \<noteq> cm_ContextDigest r)
        (Errorf ''late_stale_write attempted_holder context digest mismatch'' []),
      fail_if (fh_WorkspaceID observed \<noteq> cm_WorkspaceID r) (Errorf ''late_stale_write observed_holder workspace mismatch'' []),
      fail_if (fh_TaskID observed \<noteq> cm_TaskID r) (Errorf ''late_stale_write observed_holder task mismatch'' [])]"

definition validateLateStaleWriteObservedLeaseTime ::
  "FileLease \<Rightarrow> instant \<Rightarrow> instant \<Rightarrow> instant \<Rightarrow> instant \<Rightarrow> err option" where
  "validateLateStaleWriteObservedLeaseTime lease attemptedAt acquiredAt updatedAt expiresAt = guards
     [fail_if (updatedAt < acquiredAt) (Errorf ''late_stale_write observed_lease updated_at before acquired_at'' []),
      fail_if (\<not> acquiredAt < expiresAt) (Errorf ''late_stale_write observed_lease expires_at before acquired_at'' []),
      fail_if (attemptedAt < acquiredAt) (Errorf ''late_stale_write observed_lease attempted_at before acquired_at'' []),
      fail_if (attemptedAt < updatedAt) (Errorf ''late_stale_write observed_lease updated_at after attempted_at'' []),
      (if fl_Status lease = FileLeaseStatusActive
       then fail_if (\<not> attemptedAt < expiresAt) (Errorf ''late_stale_write observed_lease active lease expired at attempted_at'' [])
       else if fl_Status lease = FileLeaseStatusExpired
       then fail_if (attemptedAt < expiresAt \<or> updatedAt < expiresAt)
              (Errorf ''late_stale_write observed_lease expired lease timing is inconsistent'' [])
       else if fl_Status lease = FileLeaseStatusReleased \<or> fl_Status lease = FileLeaseStatusRevoked
       then fail_if (\<not> updatedAt < expiresAt) (Errorf ''late_stale_write observed_lease terminal lease timing is inconsistent'' [])
       else Some (Errorf ''late_stale_write observed_lease status %q is not supported'' [AStr (fl_Status lease)]))]"

definition check_lease_times :: "FileLease \<Rightarrow> string \<Rightarrow> err option" where
  "check_lease_times lease attempted =
     (let bad = (\<lambda>field. Errorf ''late_stale_write observed_lease %s timestamp is not canonical'' [AStr field])
      in case time_Parse (fl_AcquiredAt lease) of
           None \<Rightarrow> Some (bad ''acquired_at'')
         | Some acquiredAt \<Rightarrow>
             (case time_Parse (fl_UpdatedAt lease) of
                None \<Rightarrow> Some (bad ''updated_at'')
              | Some updatedAt \<Rightarrow>
                  (case time_Parse (fl_ExpiresAt lease) of
                     None \<Rightarrow> Some (bad ''expires_at'')
                   | Some expiresAt \<Rightarrow>
                       (case time_Parse attempted of
                          None \<Rightarrow> Some (Errorf ''late_stale_write attempted_at must be RFC3339Nano'' [])
                        | Some attemptedAt \<Rightarrow>
                            validateLateStaleWriteObservedLeaseTime lease attemptedAt acquiredAt updatedAt expiresAt))))"

definition validateLateStaleWriteObservedLease :: "ConflictModelResult \<Rightarrow> FileLease \<Rightarrow> FileLeaseHolder \<Rightarrow> err option" where
  "validateLateStaleWriteObservedLease r lease observed = guards
     [fail_if (cm_ObservedLeaseDigest r \<noteq> digestFileLease lease) (Errorf ''late_stale_write observed_lease_digest mismatch'' []),
      fail_if (fl_Schema lease \<noteq> FileLeaseSchemaVersion) (Errorf ''late_stale_write observed_lease schema mismatch'' []),
      canonical_fields ''observed_lease''
        [(''id'', fl_ID lease), (''status'', fl_Status lease), (''workspace_id'', fl_WorkspaceID lease), (''task_id'', fl_TaskID lease),
         (''session_id'', fl_SessionID lease), (''run_id'', fl_RunID lease), (''agent_id'', fl_AgentID lease),
         (''principal_type'', pr_Type (fl_Principal lease)), (''principal_id'', pr_ID (fl_Principal lease)),
         (''capability_snapshot_id'', fl_CapabilitySnapshotID lease), (''repo_root'', fl_RepoRoot lease),
         (''context_digest'', fl_ContextDigest lease), (''acquired_at'', fl_AcquiredAt lease),
         (''updated_at'', fl_UpdatedAt lease), (''expires_at'', fl_ExpiresAt lease)],
      check_lease_times lease (cm_AttemptedAt r),
      fail_if (fl_ID lease \<noteq> cm_RepoLeaseID r) (Errorf ''late_stale_write observed_lease id mismatch'' []),
      fail_if (fl_ID lease \<noteq> buildFileLeaseID (zero_context\<lparr>ctx_WorkspaceID := fl_WorkspaceID lease, ctx_TaskID := fl_TaskID lease,
          ctx_AgentID := fl_AgentID lease\<rparr>) (fl_Term lease) (fl_ContextDigest lease))
        (Errorf ''late_stale_write observed_lease id binding mismatch'' []),
      fail_if (fl_Term lease \<noteq> cm_ObservedLeaseTerm r) (Errorf ''late_stale_write observed_lease term mismatch'' []),
      fail_if (fl_Status lease \<noteq> cm_ObservedLeaseStatus r) (Errorf ''late_stale_write observed_lease status mismatch'' []),
      fail_if (fl_WorkspaceID lease \<noteq> cm_WorkspaceID r) (Errorf ''late_stale_write observed_lease workspace mismatch'' []),
      fail_if (fl_TaskID lease \<noteq> cm_TaskID r) (Errorf ''late_stale_write observed_lease task mismatch'' []),
      fail_if (\<not> sameFileLeaseHolder (HolderForLease lease) observed) (Errorf ''late_stale_write observed_lease holder mismatch'' []),
      (case NormalizePathSet (fl_Pathset lease) of
         Inl e \<Rightarrow> Some (Errorf ''late_stale_write observed_lease pathset: %w'' [AErr e])
       | Inr leasePathset \<Rightarrow> guards
           (fail_if (leasePathset = [] \<or> \<not> sameStringSlice leasePathset (fl_Pathset lease))
              (Errorf ''late_stale_write observed_lease pathset is not canonical'' [])
            # map (\<lambda>path. fail_if (\<not> stringSliceContainsPath leasePathset path)
                (Errorf ''late_stale_write observed_lease does not cover mutation path %q'' [AStr path])) (cm_MutationPaths r)))]"

text \<open>The messages that \<open>verifyMutationBindingContext\<close> can give for holders that differ.\<close>

definition stale_holder_messages :: "FileLeaseHolder \<Rightarrow> FileLeaseHolder \<Rightarrow> string list" where
  "stale_holder_messages attempted observed =
     (let mismatch = (\<lambda>part got want. err_text (Errorf (part @ '' mismatch: got %q want %q'') [AStr got, AStr want]));
          entry = (\<lambda>part get. if get attempted = get observed then [] else [mismatch part (get attempted) (get observed)])
      in entry ''lease context workspace'' fh_WorkspaceID @ entry ''lease context task'' fh_TaskID
         @ entry ''lease context session'' fh_SessionID @ entry ''lease context run'' fh_RunID
         @ entry ''lease context agent'' fh_AgentID
         @ (if pr_Type (fh_Principal attempted) \<noteq> pr_Type (fh_Principal observed)
              \<or> pr_ID (fh_Principal attempted) \<noteq> pr_ID (fh_Principal observed) then [''lease context principal mismatch''] else [])
         @ entry ''lease context capability snapshot'' fh_CapabilitySnapshotID
         @ entry ''lease acquisition context digest'' fh_ContextDigest)"

definition validateLateStaleWriteStaleHolderMessage :: "string \<Rightarrow> FileLeaseHolder \<Rightarrow> FileLeaseHolder \<Rightarrow> err option" where
  "validateLateStaleWriteStaleHolderMessage message attempted observed =
     fail_if (message \<notin> set (stale_holder_messages attempted observed))
       (Errorf ''late_stale_write stale_holder rejection message is inconsistent'' [])"

definition validateLateStaleWriteRejectionEvidence :: "ConflictModelResult \<Rightarrow> FileLeaseHolder \<Rightarrow> FileLeaseHolder \<Rightarrow> err option" where
  "validateLateStaleWriteRejectionEvidence r attempted observed =
     (let message = ToLower (cm_RejectionMessage r); same = sameFileLeaseHolderIdentity attempted observed
      in if cm_RejectionKind r = LateStaleWriteRejectionExpiredLease
         then fail_if (cm_ObservedLeaseStatus r \<noteq> FileLeaseStatusExpired \<or> \<not> Contains message ''expired'' \<or> \<not> same)
                (Errorf ''late_stale_write expired_lease evidence is inconsistent'' [])
         else if cm_RejectionKind r = LateStaleWriteRejectionReleasedLease
         then fail_if (cm_ObservedLeaseStatus r \<noteq> FileLeaseStatusReleased \<or> \<not> Contains message ''released'' \<or> \<not> same)
                (Errorf ''late_stale_write released_lease evidence is inconsistent'' [])
         else if cm_RejectionKind r = LateStaleWriteRejectionRevokedLease
         then fail_if (cm_ObservedLeaseStatus r \<noteq> FileLeaseStatusRevoked \<or> \<not> Contains message ''revoked'' \<or> \<not> same)
                (Errorf ''late_stale_write revoked_lease evidence is inconsistent'' [])
         else if cm_RejectionKind r = LateStaleWriteRejectionStaleLeaseTerm
         then fail_if (cm_ObservedLeaseStatus r \<noteq> FileLeaseStatusActive \<or> cm_LeaseTerm r = cm_ObservedLeaseTerm r
                  \<or> (\<not> Contains message ''lease_term mismatch'' \<and> \<not> Contains message ''lease.term mismatch'') \<or> \<not> same)
                (Errorf ''late_stale_write stale_lease_term evidence is inconsistent'' [])
         else if cm_RejectionKind r = LateStaleWriteRejectionStaleHolder
         then guards [fail_if (cm_ObservedLeaseStatus r \<noteq> FileLeaseStatusActive \<or> same)
                  (Errorf ''late_stale_write stale_holder evidence is inconsistent'' []),
                validateLateStaleWriteStaleHolderMessage (cm_RejectionMessage r) attempted observed]
         else Some (Errorf ''late_stale_write rejection_kind %q is not supported'' [AStr (cm_RejectionKind r)]))"

definition validateLateStaleWriteObservedLeaseStore :: "ConflictModelResult \<Rightarrow> FileLeaseStore option \<Rightarrow> err option" where
  "validateLateStaleWriteObservedLeaseStore r ls =
     (case ls of
        None \<Rightarrow> Some (Errorf ''late_stale_write requires lease store validation'' [])
      | Some store \<Rightarrow>
          (case findBindingLease store (cm_RepoLeaseID r) of
             Inl e \<Rightarrow> Some (Errorf ''late_stale_write observed_lease store lookup: %w'' [AErr e])
           | Inr lease \<Rightarrow>
               fail_if (digestFileLease lease \<noteq> cm_ObservedLeaseDigest r
                   \<or> (case cm_ObservedLease r of None \<Rightarrow> True | Some l \<Rightarrow> digestFileLease lease \<noteq> digestFileLease l))
                 (Errorf ''late_stale_write observed_lease store mismatch'' [])))"

text \<open>The part of the check that needs the three pointers to be set.\<close>

definition check_stale_evidence ::
  "ConflictModelResult \<Rightarrow> FileLeaseHolder \<Rightarrow> FileLease \<Rightarrow> FileLeaseHolder \<Rightarrow> FileLeaseStore option \<Rightarrow> err option" where
  "check_stale_evidence r attempted lease observed ls = guards
     [wrap_err ''late_stale_write attempted_holder: %w'' (validateCanonicalFileLeaseHolder ''attempted_holder'' attempted),
      wrap_err ''late_stale_write observed_holder: %w'' (validateCanonicalFileLeaseHolder ''observed_holder'' observed),
      fail_if (cm_AttemptedHolderDigest r \<noteq> digestFileLeaseHolder attempted)
        (Errorf ''late_stale_write attempted_holder_digest mismatch'' []),
      fail_if (cm_ObservedHolderDigest r \<noteq> digestFileLeaseHolder observed)
        (Errorf ''late_stale_write observed_holder_digest mismatch'' []),
      validateLateStaleWriteHolderRefs r attempted observed,
      validateLateStaleWriteObservedLease r lease observed,
      validateLateStaleWriteRejectionEvidence r attempted observed,
      validateLateStaleWriteObservedLeaseStore r ls]"

definition validateLateStaleWriteConflictModel :: "ConflictModelResult \<Rightarrow> FileLeaseStore option \<Rightarrow> err option" where
  "validateLateStaleWriteConflictModel r ls = guards
     [validateConflictPath (cm_Path r),
      canonical_path_list ''late_stale_write paths'' ''canonical'' (cm_Paths r),
      canonical_path_list ''late_stale_write mutation paths'' ''canonical'' (cm_MutationPaths r),
      fail_if (\<not> stringSliceContainsPath (cm_Paths r) (cm_Path r))
        (Errorf ''late_stale_write path %q must be included in paths'' [AStr (cm_Path r)]),
      fail_if (\<not> stringSliceContainsPath (cm_MutationPaths r) (cm_Path r))
        (Errorf ''late_stale_write path %q must be included in mutation paths'' [AStr (cm_Path r)]),
      canonical_fields ''late_stale_write''
        [(''task_id'', cm_TaskID r), (''session_id'', cm_SessionID r), (''run_id'', cm_RunID r), (''agent_id'', cm_AgentID r),
         (''principal_type'', cm_PrincipalType r), (''principal_id'', cm_PrincipalID r),
         (''capability_snapshot_id'', cm_CapabilitySnapshotID r), (''capability_snapshot_schema'', cm_CapabilitySnapshotSchema r),
         (''context_digest'', cm_ContextDigest r), (''repo_lease_id'', cm_RepoLeaseID r), (''patch_queue_id'', cm_PatchQueueID r),
         (''patch_queue_item_id'', cm_PatchQueueItemID r), (''base_ref'', cm_BaseRef r), (''base_tree_hash'', cm_BaseTreeHash r),
         (''operation_id'', cm_OperationID r), (''operation_kind'', cm_OperationKind r), (''attempted_at'', cm_AttemptedAt r),
         (''rejection_kind'', cm_RejectionKind r), (''rejection_message'', cm_RejectionMessage r),
         (''attempted_holder_digest'', cm_AttemptedHolderDigest r), (''observed_lease_digest'', cm_ObservedLeaseDigest r),
         (''observed_lease_status'', cm_ObservedLeaseStatus r), (''observed_holder_digest'', cm_ObservedHolderDigest r)],
      fail_if (cm_LeaseTerm r \<le> 0) (Errorf ''late_stale_write lease_term is required'' []),
      fail_if (cm_ObservedLeaseTerm r \<le> 0) (Errorf ''late_stale_write observed_lease_term is required'' []),
      fail_if (time_Parse (cm_AttemptedAt r) = None) (Errorf ''late_stale_write attempted_at must be RFC3339Nano'' []),
      wrap_err ''late_stale_write %w'' (rejectVagueBindingLabel ''repo_lease_id'' (cm_RepoLeaseID r)),
      wrap_err ''late_stale_write %w'' (rejectVagueBindingLabel ''patch_queue_id'' (cm_PatchQueueID r)),
      wrap_err ''late_stale_write %w'' (rejectVagueBindingLabel ''patch_queue_item_id'' (cm_PatchQueueItemID r)),
      wrap_err ''late_stale_write %w'' (rejectVagueBindingLabel ''operation_id'' (cm_OperationID r)),
      wrap_err ''late_stale_write %w'' (rejectVagueBindingLabel ''operation_kind'' (cm_OperationKind r)),
      fail_if (cm_OperationKind r \<notin> set allowedMutationOperationKinds)
        (Errorf ''late_stale_write operation_kind %q is not an accepted repo mutation kind'' [AStr (cm_OperationKind r)]),
      (case cm_AttemptedHolder r of
         None \<Rightarrow> Some (Errorf ''late_stale_write attempted_holder is required'' [])
       | Some attempted \<Rightarrow>
           (case cm_ObservedLease r of
              None \<Rightarrow> Some (Errorf ''late_stale_write observed_lease is required'' [])
            | Some lease \<Rightarrow>
                (case cm_ObservedHolder r of
                   None \<Rightarrow> Some (Errorf ''late_stale_write observed_holder is required'' [])
                 | Some observed \<Rightarrow> check_stale_evidence r attempted lease observed ls))),
      fail_if (cm_Contenders r \<noteq> []) (Errorf ''late_stale_write must not include path_conflict contenders'' []),
      fail_if (cm_TestEvidence r \<noteq> None \<or> cm_TestEvidenceDigest r \<noteq> [])
        (Errorf ''late_stale_write must not include test_conflict evidence'' []),
      fail_if (cm_CASStatus r \<noteq> [] \<or> cm_CASPatchDigest r \<noteq> [] \<or> cm_CASEvaluationDigest r \<noteq> [] \<or> cm_CASIssueKind r \<noteq> [])
        (Errorf ''late_stale_write must not include CAS conflict evidence'' [])]"

subsection \<open>Semantic collisions\<close>

definition check_neighbours :: "SemanticConflictContender \<Rightarrow> SemanticConflictContender \<Rightarrow> err option" where
  "check_neighbours prev c = guards
     [fail_if (sc_QueueID prev > sc_QueueID c \<or> (sc_QueueID prev = sc_QueueID c \<and> sc_ItemID prev > sc_ItemID c))
        (Errorf ''semantic_conflict contenders are not canonical'' []),
      fail_if (sc_WorkspaceID prev \<noteq> sc_WorkspaceID c) (Errorf ''semantic_conflict contenders must be in the same workspace'' []),
      fail_if (sc_QueueID prev \<noteq> sc_QueueID c) (Errorf ''semantic_conflict contenders must be in the same patch queue'' []),
      fail_if (sc_BaseRef prev \<noteq> sc_BaseRef c \<or> sc_BaseTreeHash prev \<noteq> sc_BaseTreeHash c)
        (Errorf ''semantic_conflict contenders must share the same base identity'' []),
      fail_if (pathsetsOverlap (sc_Pathset prev) (sc_Pathset c))
        (Errorf ''semantic_conflict contenders share a path; use path_conflict'' [])]"

fun check_semantic_contenders ::
  "string \<Rightarrow> nat \<Rightarrow> string list \<Rightarrow> SemanticConflictContender option \<Rightarrow> SemanticConflictContender list \<Rightarrow> err option" where
  "check_semantic_contenders workspaceID i seen prev [] = None"
| "check_semantic_contenders workspaceID i seen prev (c # cs) =
     (case validateSemanticConflictContender c workspaceID i of
        Some e \<Rightarrow> Some e
      | None \<Rightarrow>
          let key = sc_QueueID c @ [CHR 0x00] @ sc_ItemID c
          in if key \<in> set seen
             then Some (Errorf ''semantic_conflict contender %s/%s is duplicated'' [AStr (sc_QueueID c), AStr (sc_ItemID c)])
             else case (case prev of None \<Rightarrow> None | Some p \<Rightarrow> check_neighbours p c) of
               Some e \<Rightarrow> Some e
             | None \<Rightarrow> check_semantic_contenders workspaceID (Suc i) (key # seen) (Some c) cs)"

definition check_store_contender :: "PatchQueueStore option \<Rightarrow> SemanticConflictContender \<Rightarrow> err option" where
  "check_store_contender qs c =
     (case Get (sc_QueueID c) (sc_ItemID c) qs of
        None \<Rightarrow> Some (Errorf ''semantic_conflict contender store lookup: patch queue item %s/%s not found''
                  [AStr (sc_QueueID c), AStr (sc_ItemID c)])
      | Some item \<Rightarrow>
          (case semanticContenderFromPatchQueueItem item ''store'' of
             Inl e \<Rightarrow> Some (Errorf ''semantic_conflict contender store evidence: %w'' [AErr e])
           | Inr expected \<Rightarrow>
               fail_if (digestSemanticConflictContender expected \<noteq> digestSemanticConflictContender c)
                 (Errorf ''semantic_conflict contender store mismatch'' [])))"

definition validateSemanticConflictPatchQueueStore :: "ConflictModelResult \<Rightarrow> PatchQueueStore option \<Rightarrow> err option" where
  "validateSemanticConflictPatchQueueStore r qs =
     (case qs of
        None \<Rightarrow> Some (Errorf ''semantic_conflict requires patch queue store validation'' [])
      | Some _ \<Rightarrow> guards (map (check_store_contender qs) (cm_SemanticContenders r)))"

definition validateSemanticConflictModel :: "ConflictModelResult \<Rightarrow> PatchQueueStore option \<Rightarrow> err option" where
  "validateSemanticConflictModel r qs = guards
     [validateConflictPath (cm_Path r),
      canonical_path_list ''semantic_conflict paths'' ''canonical'' (cm_Paths r),
      fail_if (\<not> stringSliceContainsPath (cm_Paths r) (cm_Path r))
        (Errorf ''semantic_conflict path %q must be included in paths'' [AStr (cm_Path r)]),
      (case normalizeSemanticConflictEvidence (cm_SemanticKind r) (cm_SemanticSubject r) (cm_SemanticEvidenceSummary r) of
         Inl e \<Rightarrow> Some e
       | Inr (kind, subject, summary) \<Rightarrow>
           fail_if (cm_SemanticKind r \<noteq> kind \<or> cm_SemanticSubject r \<noteq> subject \<or> cm_SemanticEvidenceSummary r \<noteq> summary)
             (Errorf ''semantic_conflict evidence is not canonical'' [])),
      fail_if (length (cm_SemanticContenders r) \<noteq> 2) (Errorf ''semantic_conflict requires exactly two contenders'' []),
      check_semantic_contenders (cm_WorkspaceID r) 0 [] None (cm_SemanticContenders r),
      (case NormalizePathSet (concat (map sc_Pathset (cm_SemanticContenders r))) of
         Inl e \<Rightarrow> Some (Errorf ''semantic_conflict merged paths: %w'' [AErr e])
       | Inr merged \<Rightarrow> fail_if (\<not> sameStringSlice merged (cm_Paths r))
           (Errorf ''semantic_conflict paths do not match contender pathsets'' [])),
      fail_if (cm_SemanticEvidenceDigest r \<noteq> digestSemanticConflictEvidence r)
        (Errorf ''semantic_conflict evidence digest mismatch'' []),
      fail_if (cm_Contenders r \<noteq> []) (Errorf ''semantic_conflict must not include path_conflict contenders'' []),
      fail_if (cm_TestEvidence r \<noteq> None \<or> cm_TestEvidenceDigest r \<noteq> [])
        (Errorf ''semantic_conflict must not include test_conflict evidence'' []),
      fail_if (cm_CASStatus r \<noteq> [] \<or> cm_CASPatchDigest r \<noteq> [] \<or> cm_CASEvaluationDigest r \<noteq> [] \<or> cm_CASIssueKind r \<noteq> []
          \<or> cm_ExpectedHash r \<noteq> [] \<or> cm_ActualHash r \<noteq> [] \<or> cm_CandidateHash r \<noteq> [])
        (Errorf ''semantic_conflict must not include base_drift evidence'' []),
      fail_if (cm_OperationID r \<noteq> [] \<or> cm_OperationKind r \<noteq> [] \<or> cm_MutationPaths r \<noteq> [])
        (Errorf ''semantic_conflict must not include mutation operation evidence'' []),
      fail_if (cm_TaskID r \<noteq> [] \<or> cm_SessionID r \<noteq> [] \<or> cm_RunID r \<noteq> [] \<or> cm_AgentID r \<noteq> [] \<or> cm_PrincipalType r \<noteq> []
          \<or> cm_PrincipalID r \<noteq> [] \<or> cm_CapabilitySnapshotID r \<noteq> [] \<or> cm_CapabilitySnapshotSchema r \<noteq> [] \<or> cm_ContextDigest r \<noteq> []
          \<or> cm_RepoLeaseID r \<noteq> [] \<or> cm_LeaseTerm r \<noteq> 0 \<or> cm_PatchQueueID r \<noteq> [] \<or> cm_PatchQueueItemID r \<noteq> []
          \<or> cm_PatchQueueState r \<noteq> [] \<or> cm_BaseRef r \<noteq> [] \<or> cm_BaseTreeHash r \<noteq> [])
        (Errorf ''semantic_conflict must not include top-level contender evidence'' []),
      fail_if (cm_AttemptedAt r \<noteq> [] \<or> cm_RejectionKind r \<noteq> [] \<or> cm_RejectionMessage r \<noteq> [] \<or> cm_AttemptedHolder r \<noteq> None
          \<or> cm_AttemptedHolderDigest r \<noteq> [] \<or> cm_ObservedLease r \<noteq> None \<or> cm_ObservedLeaseDigest r \<noteq> []
          \<or> cm_ObservedLeaseStatus r \<noteq> [] \<or> cm_ObservedLeaseTerm r \<noteq> 0 \<or> cm_ObservedHolder r \<noteq> None \<or> cm_ObservedHolderDigest r \<noteq> [])
        (Errorf ''semantic_conflict must not include late_stale_write evidence'' []),
      validateSemanticConflictPatchQueueStore r qs]"

subsection \<open>The validator\<close>

definition validate_by_reason :: "ConflictModelResult \<Rightarrow> FileLeaseStore option \<Rightarrow> PatchQueueStore option \<Rightarrow> err option" where
  "validate_by_reason r ls qs =
     (if cm_Reason r = ConflictReasonBaseDrift then guards [validateConflictPath (cm_Path r), validateBaseDriftConflictModel r]
      else if cm_Reason r = ConflictReasonPathConflict then guards [validateConflictPath (cm_Path r), validatePathConflictModel r]
      else if cm_Reason r = ConflictReasonTestConflict then validateTestConflictModel r
      else if cm_Reason r = ConflictReasonLateStaleWrite then
        (if ls = None then Some (Errorf ''late_stale_write requires lease store validation'' [])
         else validateLateStaleWriteConflictModel r ls)
      else if cm_Reason r = ConflictReasonSemantic then
        (if qs = None then Some (Errorf ''semantic_conflict requires patch queue store validation'' [])
         else validateSemanticConflictModel r qs)
      else Some (Errorf ''conflict reason %q is not supported'' [AStr (cm_Reason r)]))"

definition validateConflictModelResult ::
  "ConflictModelResult \<Rightarrow> FileLeaseStore option \<Rightarrow> PatchQueueStore option \<Rightarrow> err option" where
  "validateConflictModelResult r ls qs = guards
     [fail_if (cm_Schema r \<noteq> ConflictModelSchemaVersion) (Errorf ''conflict schema is required'' []),
      fail_if (TrimSpace (cm_ConflictID r) = []) (Errorf ''conflict_id is required'' []),
      fail_if (cm_Status r \<noteq> ConflictStatusConflict) (Errorf ''conflict status must be %q'' [AStr ConflictStatusConflict]),
      requireCanonicalConflictValue ''conflict'' ''workspace_id'' (cm_WorkspaceID r),
      validate_by_reason r ls qs,
      fail_if (cm_ConflictID r \<noteq> conflictModelID r) (Errorf ''conflict_id mismatch'' [])]"

definition ValidateConflictModelResult :: "ConflictModelResult \<Rightarrow> err option" where
  "ValidateConflictModelResult r = validateConflictModelResult r None None"

definition ValidateConflictModelResultWithLeaseStore :: "ConflictModelResult \<Rightarrow> FileLeaseStore option \<Rightarrow> err option" where
  "ValidateConflictModelResultWithLeaseStore r ls = validateConflictModelResult r ls None"

definition ValidateConflictModelResultWithPatchQueueStore :: "ConflictModelResult \<Rightarrow> PatchQueueStore option \<Rightarrow> err option" where
  "ValidateConflictModelResultWithPatchQueueStore r qs = validateConflictModelResult r None qs"

subsection \<open>Builders\<close>

text \<open>The end of every builder: the identifier is set, and the record is returned only when it validates.\<close>

definition sealed :: "ConflictModelResult \<Rightarrow> ConflictModelResult" where
  "sealed r = r\<lparr>cm_ConflictID := conflictModelID r\<rparr>"

definition finish_conflict :: "(ConflictModelResult \<Rightarrow> err option) \<Rightarrow> ConflictModelResult \<Rightarrow> ConflictModelResult result" where
  "finish_conflict validate r = require (validate (sealed r)) (Inr (sealed r))"

text \<open>The fields that the records on one queue item take from its context.\<close>

definition context_conflict :: "string \<Rightarrow> Context \<Rightarrow> string \<Rightarrow> PatchQueueItem \<Rightarrow> ConflictModelResult" where
  "context_conflict reason authority contextDigest item = zero_conflict
     \<lparr>cm_Schema := ConflictModelSchemaVersion, cm_Status := ConflictStatusConflict, cm_Reason := reason,
      cm_WorkspaceID := TrimSpace (ctx_WorkspaceID authority), cm_TaskID := TrimSpace (ctx_TaskID authority),
      cm_SessionID := TrimSpace (ctx_SessionID authority), cm_RunID := TrimSpace (ctx_RunID authority),
      cm_AgentID := TrimSpace (ctx_AgentID authority), cm_PrincipalType := TrimSpace (pr_Type (ctx_Principal authority)),
      cm_PrincipalID := TrimSpace (pr_ID (ctx_Principal authority)),
      cm_CapabilitySnapshotID := TrimSpace (cs_ID (ctx_CapabilitySnapshot authority)),
      cm_CapabilitySnapshotSchema := TrimSpace (cs_Schema (ctx_CapabilitySnapshot authority)),
      cm_ContextDigest := contextDigest, cm_RepoLeaseID := TrimSpace (lr_ID (ctx_Lease authority)),
      cm_LeaseTerm := lr_Term (ctx_Lease authority), cm_PatchQueueID := TrimSpace (pqr_QueueID (ctx_PatchQueue authority)),
      cm_PatchQueueItemID := TrimSpace (pqr_ItemID (ctx_PatchQueue authority)), cm_PatchQueueState := TrimSpace (pq_State item),
      cm_BaseRef := TrimSpace (base_Ref (ctx_Base authority)), cm_BaseTreeHash := TrimSpace (base_TreeHash (ctx_Base authority))\<rparr>"

definition first_hash :: "string \<Rightarrow> string \<Rightarrow> string" where
  "first_hash a b = (if TrimSpace a = [] then TrimSpace b else TrimSpace a)"

definition base_drift_record ::
  "Context \<Rightarrow> string \<Rightarrow> CASPatchApplyResult \<Rightarrow> PatchQueueItem \<Rightarrow> string \<Rightarrow> CASPatchIssue \<Rightarrow> CASPatchPathResult \<Rightarrow> ConflictModelResult" where
  "base_drift_record authority contextDigest result item path issue pathResult =
     (context_conflict ConflictReasonBaseDrift authority contextDigest item)
     \<lparr>cm_Path := path, cm_ExpectedHash := first_hash (ci_ExpectedHash issue) (cp_BaseHash pathResult),
      cm_ActualHash := first_hash (ci_ActualHash issue) (cp_CurrentHash pathResult),
      cm_CandidateHash := first_hash (ci_CandidateHash issue) (cp_CandidateHash pathResult),
      cm_CASPatchDigest := TrimSpace (car_PatchDigest result), cm_CASEvaluationDigest := digestCASPatchApplyResult result,
      cm_CASIssueKind := CASPatchIssueBaseDrift\<rparr>"

definition base_drift_guards :: "CASPatchApplyResult \<Rightarrow> PatchQueueItem \<Rightarrow> Context \<Rightarrow> err option" where
  "base_drift_guards result item authority = guards
     [wrap_err ''base_drift conflict CAS evidence: %w'' (validateCASEvidence result authority),
      fail_if (car_Status result \<noteq> CASPatchStatusConflict)
        (Errorf ''base_drift conflict requires CAS status %q'' [AStr CASPatchStatusConflict]),
      fail_if (TrimSpace (pq_ID item) = []) (Errorf ''base_drift conflict requires patch queue item evidence'' []),
      fail_if (pq_State item \<noteq> PatchQueueStateConflict)
        (Errorf ''base_drift conflict requires patch queue state %q'' [AStr PatchQueueStateConflict]),
      fail_if (TrimSpace (pq_CASPatchDigest item) = [])
        (Errorf ''base_drift conflict requires patch queue CAS patch digest evidence'' []),
      fail_if (TrimSpace (pq_CASPatchDigest item) \<noteq> TrimSpace (car_PatchDigest result))
        (Errorf ''base_drift conflict CAS patch digest mismatch'' []),
      fail_if (TrimSpace (pq_CASEvaluationDigest item) = [])
        (Errorf ''base_drift conflict requires patch queue CAS evaluation digest evidence'' []),
      fail_if (TrimSpace (pq_CASEvaluationDigest item) \<noteq> digestCASPatchApplyResult result)
        (Errorf ''base_drift conflict CAS evaluation digest mismatch'' []),
      wrap_err ''base_drift conflict patch queue context: %w'' (verifyPatchQueueItemContext item authority)]"

definition BuildBaseDriftConflict :: "BuildBaseDriftConflictInput \<Rightarrow> ConflictModelResult result" where
  "BuildBaseDriftConflict input =
     (let authority = WithDefaults (bdi_Context input); result = bdi_CASResult input; item = bdi_PatchQueueItem input
      in require (base_drift_guards result item authority)
        (bind_result (chooseBaseDriftPath result (bdi_Path input)) (\<lambda>path.
         bind_result (baseDriftIssueAndPathResult result path) (\<lambda>(issue, pathResult).
         bind_result (map_err (\<lambda>e. Errorf ''base_drift conflict context digest: %w'' [AErr e]) (Context_Digest authority)) (\<lambda>contextDigest.
         finish_conflict ValidateConflictModelResult
           (base_drift_record authority contextDigest result item path issue pathResult))))))"

definition sort_contenders :: "ConflictContender list \<Rightarrow> ConflictContender list" where
  "sort_contenders cs = sort_key (\<lambda>c. (cc_QueueID c, cc_ItemID c)) cs"

definition path_conflict_record :: "string \<Rightarrow> string \<Rightarrow> ConflictContender list \<Rightarrow> ConflictModelResult" where
  "path_conflict_record path workspaceID contenders = zero_conflict
     \<lparr>cm_Schema := ConflictModelSchemaVersion, cm_Status := ConflictStatusConflict, cm_Reason := ConflictReasonPathConflict,
      cm_Path := path, cm_WorkspaceID := workspaceID, cm_Contenders := contenders\<rparr>"

definition BuildPathConflict :: "BuildPathConflictInput \<Rightarrow> ConflictModelResult result" where
  "BuildPathConflict input =
     bind_result (map_err (\<lambda>e. Errorf ''path_conflict path: %w'' [AErr e]) (NormalizePath (pci_Path input))) (\<lambda>path.
     bind_result (conflictContenderFromPatchQueueItem (pci_Left input) path ''left'') (\<lambda>left.
     bind_result (conflictContenderFromPatchQueueItem (pci_Right input) path ''right'') (\<lambda>right.
     require (guards
       [fail_if (cc_WorkspaceID left \<noteq> cc_WorkspaceID right) (Errorf ''path_conflict contenders must be in the same workspace'' []),
        fail_if (cc_QueueID left = cc_QueueID right \<and> cc_ItemID left = cc_ItemID right)
          (Errorf ''path_conflict contenders must be different patch queue items'' [])])
     (finish_conflict ValidateConflictModelResult
        (path_conflict_record path (cc_WorkspaceID left) (sort_contenders [left, right]))))))"

definition test_conflict_guards :: "PatchQueueItem \<Rightarrow> Context \<Rightarrow> err option" where
  "test_conflict_guards item authority = guards
     [fail_if (TrimSpace (pq_ID item) = []) (Errorf ''test_conflict requires patch queue item evidence'' []),
      fail_if (pq_State item \<noteq> PatchQueueStateTestConflict)
        (Errorf ''test_conflict requires patch queue state %q'' [AStr PatchQueueStateTestConflict]),
      fail_if (pq_OperationID item \<noteq> [] \<or> pq_OperationKind item \<noteq> [])
        (Errorf ''test_conflict must not include canonical mutation operation refs'' []),
      fail_if (op_ID (ctx_Operation authority) \<noteq> [] \<or> op_Kind (ctx_Operation authority) \<noteq> [])
        (Errorf ''test_conflict context must not include canonical mutation operation refs'' []),
      fail_if (car_Status (pq_CASResult item) \<noteq> CASPatchStatusApplied)
        (Errorf ''test_conflict requires applied CAS result, got %q'' [AStr (car_Status (pq_CASResult item))]),
      wrap_err ''test_conflict CAS evidence: %w'' (validateCASEvidence (pq_CASResult item) authority),
      fail_if (TrimSpace (pq_CASPatchDigest item) = []) (Errorf ''test_conflict requires patch queue CAS patch digest evidence'' []),
      fail_if (TrimSpace (pq_CASPatchDigest item) \<noteq> TrimSpace (car_PatchDigest (pq_CASResult item)))
        (Errorf ''test_conflict CAS patch digest mismatch'' []),
      fail_if (TrimSpace (pq_CASEvaluationDigest item) = [])
        (Errorf ''test_conflict requires patch queue CAS evaluation digest evidence'' []),
      fail_if (TrimSpace (pq_CASEvaluationDigest item) \<noteq> digestCASPatchApplyResult (pq_CASResult item))
        (Errorf ''test_conflict CAS evaluation digest mismatch'' []),
      wrap_err ''test_conflict patch queue context: %w'' (verifyPatchQueueItemContext item authority)]"

definition test_evidence_guards :: "PatchQueueItem \<Rightarrow> PatchQueueTestEvidence \<Rightarrow> bool \<Rightarrow> err option" where
  "test_evidence_guards item testEvidence hasTestEvidence = guards
     [fail_if (\<not> hasTestEvidence) (Errorf ''test_conflict requires test evidence'' []),
      fail_if (te_Status testEvidence \<noteq> PatchQueueTestStatusFailed) (Errorf ''test_conflict requires failed test evidence'' []),
      fail_if (TrimSpace (pq_TestEvidenceDigest item) = []) (Errorf ''test_conflict requires test evidence digest'' []),
      fail_if (TrimSpace (pq_TestEvidenceDigest item) \<noteq> digestPatchQueueTestEvidence testEvidence)
        (Errorf ''test_conflict test evidence digest mismatch'' [])]"

definition test_conflict_record ::
  "Context \<Rightarrow> string \<Rightarrow> PatchQueueItem \<Rightarrow> PatchQueueTestEvidence \<Rightarrow> string list \<Rightarrow> string \<Rightarrow> ConflictModelResult" where
  "test_conflict_record authority contextDigest item testEvidence paths path =
     (context_conflict ConflictReasonTestConflict authority contextDigest item)
     \<lparr>cm_Path := path, cm_Paths := paths, cm_CASStatus := TrimSpace (car_Status (pq_CASResult item)),
      cm_CASPatchDigest := TrimSpace (pq_CASPatchDigest item),
      cm_CASEvaluationDigest := digestCASPatchApplyResult (pq_CASResult item), cm_TestEvidence := Some testEvidence,
      cm_TestEvidenceDigest := TrimSpace (pq_TestEvidenceDigest item), cm_OperationID := TrimSpace (pq_OperationID item),
      cm_OperationKind := TrimSpace (pq_OperationKind item)\<rparr>"

definition BuildTestConflict :: "BuildTestConflictInput \<Rightarrow> ConflictModelResult result" where
  "BuildTestConflict input =
     (let authority = WithDefaults (tci_Context input); item = tci_PatchQueueItem input
      in require (test_conflict_guards item authority)
        (bind_result (map_err (\<lambda>e. Errorf ''test_conflict test evidence: %w'' [AErr e])
            (normalizePatchQueueTestEvidence (pq_TestEvidence item))) (\<lambda>(testEvidence, hasTestEvidence).
         require (test_evidence_guards item testEvidence hasTestEvidence)
        (bind_result (chooseTestConflictPaths (pq_Pathset item) (tci_Path input)) (\<lambda>(paths, path).
         bind_result (map_err (\<lambda>e. Errorf ''test_conflict context digest: %w'' [AErr e]) (Context_Digest authority)) (\<lambda>contextDigest.
         finish_conflict ValidateConflictModelResult
           (test_conflict_record authority contextDigest item testEvidence paths path)))))))"

text \<open>What \<open>BuildLateStaleWriteConflict\<close> establishes before it attempts the mutation.\<close>

definition stale_request ::
  "BuildLateStaleWriteConflictInput \<Rightarrow> Context \<Rightarrow> FileLeaseStore
   \<Rightarrow> (string \<times> FileLease \<times> string list \<times> string list \<times> string \<times> FileLeaseHolder) result" where
  "stale_request input authority store =
     require (wrap_err ''late_stale_write operation refs: %w'' (requireConcreteMutationOperationRefs authority))
    (bind_result (map_err (\<lambda>e. Errorf ''late_stale_write context digest: %w'' [AErr e]) (Context_Digest authority)) (\<lambda>contextDigest.
     bind_result (map_err (\<lambda>e. Errorf ''late_stale_write requires existing lease evidence: %w'' [AErr e])
         (findBindingLease store (lr_ID (ctx_Lease authority)))) (\<lambda>lease.
     bind_result (map_err (\<lambda>e. Errorf ''late_stale_write mutation paths: %w'' [AErr e])
         (NormalizePathSet (if lsi_MutationPaths input = [] then ctx_Pathset authority else lsi_MutationPaths input))) (\<lambda>normalizedPaths.
     require (fail_if (normalizedPaths = []) (Errorf ''late_stale_write mutation paths are required'' []))
    (bind_result (chooseLateStaleWritePaths normalizedPaths (lsi_Path input)) (\<lambda>(paths, path).
     bind_result (map_err (\<lambda>e. Errorf ''late_stale_write attempted holder: %w'' [AErr e])
         (fileLeaseHolderFromContext authority)) (\<lambda>attemptedHolder.
     Inr (contextDigest, lease, normalizedPaths, paths, path, attemptedHolder))))))))"

definition stale_record ::
  "Context \<Rightarrow> string \<Rightarrow> string list \<Rightarrow> string list \<Rightarrow> string \<Rightarrow> FileLeaseHolder \<Rightarrow> FileLease \<Rightarrow> string \<Rightarrow> err \<Rightarrow> instant \<Rightarrow> ConflictModelResult" where
  "stale_record authority contextDigest normalizedPaths paths path attemptedHolder observedLease rejectionKind bindErr now = zero_conflict
     \<lparr>cm_Schema := ConflictModelSchemaVersion, cm_Status := ConflictStatusConflict, cm_Reason := ConflictReasonLateStaleWrite,
      cm_Path := path, cm_Paths := paths, cm_WorkspaceID := ctx_WorkspaceID authority, cm_TaskID := ctx_TaskID authority,
      cm_SessionID := ctx_SessionID authority, cm_RunID := ctx_RunID authority, cm_AgentID := ctx_AgentID authority,
      cm_PrincipalType := pr_Type (ctx_Principal authority), cm_PrincipalID := pr_ID (ctx_Principal authority),
      cm_CapabilitySnapshotID := cs_ID (ctx_CapabilitySnapshot authority),
      cm_CapabilitySnapshotSchema := cs_Schema (ctx_CapabilitySnapshot authority), cm_ContextDigest := contextDigest,
      cm_RepoLeaseID := lr_ID (ctx_Lease authority), cm_LeaseTerm := lr_Term (ctx_Lease authority),
      cm_PatchQueueID := pqr_QueueID (ctx_PatchQueue authority), cm_PatchQueueItemID := pqr_ItemID (ctx_PatchQueue authority),
      cm_BaseRef := base_Ref (ctx_Base authority), cm_BaseTreeHash := base_TreeHash (ctx_Base authority),
      cm_OperationID := op_ID (ctx_Operation authority), cm_OperationKind := op_Kind (ctx_Operation authority),
      cm_MutationPaths := normalizedPaths, cm_AttemptedAt := formatLeaseTime now, cm_RejectionKind := rejectionKind,
      cm_RejectionMessage := err_text bindErr, cm_AttemptedHolder := Some attemptedHolder,
      cm_AttemptedHolderDigest := digestFileLeaseHolder attemptedHolder, cm_ObservedLease := Some observedLease,
      cm_ObservedLeaseDigest := digestFileLease observedLease, cm_ObservedLeaseStatus := fl_Status observedLease,
      cm_ObservedLeaseTerm := fl_Term observedLease, cm_ObservedHolder := Some (HolderForLease observedLease),
      cm_ObservedHolderDigest := digestFileLeaseHolder (HolderForLease observedLease)\<rparr>"

definition BuildLateStaleWriteConflict ::
  "instant \<Rightarrow> instant \<Rightarrow> BuildLateStaleWriteConflictInput \<Rightarrow> FileLeaseStore option \<Rightarrow> ConflictModelResult result \<times> FileLeaseStore option" where
  "BuildLateStaleWriteConflict wall lwall input ls =
     (case ls of
        None \<Rightarrow> (Inl (Errorf ''late_stale_write requires file lease store'' []), None)
      | Some store \<Rightarrow>
          let authority = WithDefaults (lsi_Context input)
          in case stale_request input authority store of
               Inl e \<Rightarrow> (Inl e, ls)
             | Inr (contextDigest, lease, normalizedPaths, paths, path, attemptedHolder) \<Rightarrow>
                 (case BindMutationOperation lwall
                         \<lparr>bi_Context = authority, bi_MutationPaths = normalizedPaths, bi_Now = lsi_Now input\<rparr> ls of
                    (Inr _, ls') \<Rightarrow> (Inl (Errorf ''late_stale_write requires rejected mutation operation binding'' []), ls')
                  | (Inl bindErr, ls') \<Rightarrow>
                      let observedLease = (case ls' of
                            None \<Rightarrow> lease
                          | Some store' \<Rightarrow> (case findBindingLease store' (lr_ID (ctx_Lease authority)) of Inl _ \<Rightarrow> lease | Inr l \<Rightarrow> l))
                      in (bind_result (classifyLateStaleWriteRejection (Some bindErr) authority observedLease attemptedHolder) (\<lambda>rejectionKind.
                          finish_conflict (\<lambda>r. ValidateConflictModelResultWithLeaseStore r ls')
                            (stale_record authority contextDigest normalizedPaths paths path attemptedHolder observedLease rejectionKind
                               bindErr (normalizeLeaseTime wall (lsi_Now input)))), ls')))"

definition sort_semantic_contenders :: "SemanticConflictContender list \<Rightarrow> SemanticConflictContender list" where
  "sort_semantic_contenders cs = sort_key (\<lambda>c. (sc_QueueID c, sc_ItemID c)) cs"

definition semantic_record ::
  "string \<Rightarrow> string \<Rightarrow> string \<Rightarrow> string \<Rightarrow> string list \<Rightarrow> string \<Rightarrow> SemanticConflictContender list \<Rightarrow> ConflictModelResult" where
  "semantic_record workspaceID kind subject summary paths path contenders =
     (let r = zero_conflict
        \<lparr>cm_Schema := ConflictModelSchemaVersion, cm_Status := ConflictStatusConflict, cm_Reason := ConflictReasonSemantic,
         cm_Path := path, cm_Paths := paths, cm_WorkspaceID := workspaceID, cm_SemanticKind := kind, cm_SemanticSubject := subject,
         cm_SemanticEvidenceSummary := summary, cm_SemanticContenders := contenders\<rparr>
      in r\<lparr>cm_SemanticEvidenceDigest := digestSemanticConflictEvidence r\<rparr>)"

definition semantic_guards :: "SemanticConflictContender \<Rightarrow> SemanticConflictContender \<Rightarrow> err option" where
  "semantic_guards left right = guards
     [fail_if (sc_WorkspaceID left \<noteq> sc_WorkspaceID right) (Errorf ''semantic_conflict contenders must be in the same workspace'' []),
      fail_if (sc_QueueID left \<noteq> sc_QueueID right) (Errorf ''semantic_conflict contenders must be in the same patch queue'' []),
      fail_if (sc_BaseRef left \<noteq> sc_BaseRef right \<or> sc_BaseTreeHash left \<noteq> sc_BaseTreeHash right)
        (Errorf ''semantic_conflict contenders must share the same base identity'' []),
      fail_if (sc_QueueID left = sc_QueueID right \<and> sc_ItemID left = sc_ItemID right)
        (Errorf ''semantic_conflict contenders must be different patch queue items'' []),
      fail_if (pathsetsOverlap (sc_Pathset left) (sc_Pathset right))
        (Errorf ''semantic_conflict contenders share a path; use path_conflict'' [])]"

definition BuildSemanticConflict :: "BuildSemanticConflictInput \<Rightarrow> PatchQueueStore option \<Rightarrow> ConflictModelResult result" where
  "BuildSemanticConflict input qs =
     require (fail_if (qs = None) (Errorf ''semantic_conflict requires patch queue store'' []))
    (bind_result (normalizeSemanticConflictEvidence (sci_Kind input) (sci_Subject input) (sci_EvidenceSummary input)) (\<lambda>(kind, subject, summary).
     bind_result (semanticContenderFromPatchQueueItem (sci_Left input) ''left'') (\<lambda>left.
     bind_result (semanticContenderFromPatchQueueItem (sci_Right input) ''right'') (\<lambda>right.
     require (semantic_guards left right)
    (let contenders = sort_semantic_contenders [left, right]; paths = mergeSemanticContenderPaths contenders
     in bind_result (chooseSemanticConflictPath paths (sci_Path input)) (\<lambda>path.
        finish_conflict (\<lambda>r. ValidateConflictModelResultWithPatchQueueStore r qs)
          (semantic_record (sc_WorkspaceID left) kind subject summary paths path contenders)))))))"

end
