(* ===== verification/Conflict_Lemmas.thy ===== *)
theory Conflict_Lemmas
  imports Conflict_Build Queue_Machine
begin

section \<open>Lemmas on conflict records\<close>

text \<open>
  What the checks on conflict records say, the end that all builders share, and two more invariants of
  the patch queue that the records rely on: the references of an item are concrete, and an item that
  is still open carries no compare-and-swap evidence.
\<close>

subsection \<open>Checks\<close>

definition canonical_value :: "string \<Rightarrow> bool" where
  "canonical_value v \<longleftrightarrow> v \<noteq> [] \<and> TrimSpace v = v"

lemma canonical_value_TrimSpace [simp]: "canonical_value (TrimSpace v) \<longleftrightarrow> TrimSpace v \<noteq> []"
  by (simp add: canonical_value_def)

lemma canonical_value_digest [simp]: "canonical_value (json_digest j)"
  by (simp add: canonical_value_def)

lemma requireCanonical_None [simp]: "requireCanonicalConflictValue p f v = None \<longleftrightarrow> canonical_value v"
  by (auto simp: requireCanonicalConflictValue_def canonical_value_def)

lemma canonical_fields_None [simp]: "canonical_fields p fs = None \<longleftrightarrow> (\<forall>v \<in> snd ` set fs. canonical_value v)"
  by (auto simp: canonical_fields_def guards_None)

lemma validateConflictPath_None [simp]: "validateConflictPath p = None \<longleftrightarrow> NormalizePath p = Inr p"
  by (auto simp: validateConflictPath_def split: sum.splits)

lemma canonical_path_list_None [simp]: "canonical_path_list l w ps = None \<longleftrightarrow> NormalizePathSet ps = Inr ps \<and> ps \<noteq> []"
  by (auto simp: canonical_path_list_def split: sum.splits)

lemma conflict_constants [simp]:
  "PatchQueueStateConflict \<noteq> []" "PatchQueueStateTestConflict \<noteq> []" "CASPatchIssueBaseDrift \<noteq> []" "CASPatchStatusApplied \<noteq> []"
  "TrimSpace CASPatchStatusApplied = CASPatchStatusApplied"
  by (simp_all add: queue_state_defs CASPatchIssueBaseDrift_def CASPatchStatusApplied_def TrimSpace_graphic graphic_def)

lemma conflict_reasons_differ [simp]:
  "ConflictReasonPathConflict \<noteq> ConflictReasonBaseDrift" "ConflictReasonTestConflict \<noteq> ConflictReasonBaseDrift"
  "ConflictReasonTestConflict \<noteq> ConflictReasonPathConflict" "ConflictReasonLateStaleWrite \<noteq> ConflictReasonBaseDrift"
  "ConflictReasonLateStaleWrite \<noteq> ConflictReasonPathConflict" "ConflictReasonLateStaleWrite \<noteq> ConflictReasonTestConflict"
  "ConflictReasonSemantic \<noteq> ConflictReasonBaseDrift" "ConflictReasonSemantic \<noteq> ConflictReasonPathConflict"
  "ConflictReasonSemantic \<noteq> ConflictReasonTestConflict" "ConflictReasonSemantic \<noteq> ConflictReasonLateStaleWrite"
  by (simp_all add: conflict_reason_defs)

lemma requested_path_Inr: "requested_path l p = Inr q \<longleftrightarrow> q = p \<and> NormalizePath p = Inr p"
  by (auto simp: requested_path_def split: sum.splits)

lemma stringSliceContains_canonical:
  "NormalizePath p = Inr p \<Longrightarrow> p \<in> set ps \<Longrightarrow> TrimSpace p = p \<Longrightarrow> stringSliceContainsPath ps p"
  by (auto simp: stringSliceContainsPath_def list_ex_iff)

subsection \<open>The end of a builder\<close>

lemma finish_conflict_Inr: "finish_conflict v r = Inr c \<longleftrightarrow> c = sealed r \<and> v (sealed r) = None"
  by (auto simp: finish_conflict_def)

lemma conflictModelID_sealed [simp]: "conflictModelID (sealed r) = conflictModelID r"
  by (simp add: conflictModelID_def sealed_def)

lemma conflictModelID_trimmed [simp]: "TrimSpace (conflictModelID r) = conflictModelID r"
proof -
  have "\<forall>c \<in> set (conflictModelID r). graphic c"
    using hex_encode_chars is_lower_hex_graphic by (auto simp: conflictModelID_def graphic_def)
  moreover have "conflictModelID r \<noteq> []" by (simp add: conflictModelID_def)
  ultimately show ?thesis by (intro TrimSpace_graphic) auto
qed

lemma conflictModelID_not_Nil [simp]: "conflictModelID r \<noteq> []"
  by (simp add: conflictModelID_def)

lemma sealed_fields [simp]: "cm_ConflictID (sealed r) = conflictModelID r" "cm_Reason (sealed r) = cm_Reason r"
  "cm_Path (sealed r) = cm_Path r" "cm_Schema (sealed r) = cm_Schema r" "cm_Status (sealed r) = cm_Status r"
  "cm_WorkspaceID (sealed r) = cm_WorkspaceID r"
  by (simp_all add: sealed_def)

text \<open>A sealed record validates when its header is right and the checks of its reason pass.\<close>

lemma validate_sealed:
  "validateConflictModelResult (sealed r) ls qs = None \<longleftrightarrow>
     cm_Schema r = ConflictModelSchemaVersion \<and> cm_Status r = ConflictStatusConflict \<and> canonical_value (cm_WorkspaceID r) \<and>
     validate_by_reason (sealed r) ls qs = None"
  unfolding validateConflictModelResult_def by auto

subsection \<open>Two more invariants of the queue\<close>

text \<open>The references of an item, and the open items: no evaluation of the patch has been recorded on them.\<close>

definition open_state :: "string \<Rightarrow> bool" where
  "open_state st \<longleftrightarrow> st = PatchQueueStateProposed \<or> st = PatchQueueStateValidating"

definition refs_ok :: "PatchQueueItem \<Rightarrow> bool" where
  "refs_ok i \<longleftrightarrow> TrimSpace (pq_ID i) \<noteq> [] \<and> canonical_value (pq_QueueID i) \<and> canonical_value (pq_ItemID i) \<and>
     canonical_value (pq_RepoLeaseID i) \<and> 0 < pq_LeaseTerm i"

definition open_ok :: "PatchQueueItem \<Rightarrow> bool" where
  "open_ok i \<longleftrightarrow> (open_state (pq_State i) \<longrightarrow> pq_CASPatchDigest i = [] \<and> pq_CASEvaluationDigest i = []) \<and>
     (pq_State i \<noteq> PatchQueueStateApplied \<longrightarrow> pq_State i \<noteq> PatchQueueStateRolledBack \<longrightarrow> pq_OperationID i = [] \<and> pq_OperationKind i = [])"

lemma fresh_item_refs:
  assumes "fresh_item k i" shows "refs_ok i \<and> open_ok i"
proof -
  obtain input a d ps now where refs: "requirePatchQueueProposalRefs a = None" and i: "i = new_item input a d ps now"
    using assms unfolding fresh_item_def by blast
  have "CHR ''p'' \<in> set (pq_ID i)" by (simp add: i new_item_def buildPatchQueueItemID_def Let_def)
  then have "TrimSpace (pq_ID i) \<noteq> []" by (rule TrimSpace_keeps_graphic) (simp add: graphic_def)
  with refs show ?thesis
    unfolding requirePatchQueueProposalRefs_def guards_Cons_None rejectVague_None
    by (simp add: refs_ok_def open_ok_def i new_item_def)
qed

lemma item_step_refs: "item_step i j \<Longrightarrow> refs_ok i \<Longrightarrow> refs_ok j"
  using same_identity_fields [OF item_step_identity, of i j] by (simp add: refs_ok_def)

lemma item_step_open:
  assumes "item_step i j" and "open_ok i" shows "open_ok j"
  using assms(1)
proof cases
  case (item_complete a r e te has now)
  have "pq_OperationID i = []" "pq_OperationKind i = []" using assms(2) item_complete(2) by (simp_all add: open_ok_def)
  then show ?thesis
    unfolding item_complete(1) open_ok_def open_state_def outcome_state by (simp add: outcome_def completed_item_def)
next
  case (item_recover reason delay now)
  have "pq_State i \<noteq> PatchQueueStateApplied" "pq_State i \<noteq> PatchQueueStateRolledBack"
    using item_recover(2) unfolding patchQueueTerminalFailureState_def by auto
  then show ?thesis using assms(2) unfolding item_recover(1)
    by (simp add: open_ok_def open_state_def recovery_item_def Let_def)
qed (use assms(2) in \<open>auto simp: open_ok_def open_state_def retry_item_def rolled_back_item_def\<close>)

interpretation queue_refs: item_invariant "\<lambda>k i. refs_ok i \<and> open_ok i"
  by unfold_locales (auto dest: fresh_item_refs intro: item_step_refs item_step_open)

subsection \<open>Accepted evidence of a drift\<close>

lemma filter_unique: "distinct (map f xs) \<Longrightarrow> x \<in> set xs \<Longrightarrow> filter (\<lambda>y. f y = f x) xs = [x]"
  by (induction xs) (auto simp: filter_empty_conv image_iff)

definition is_drift :: "CASPatchIssue \<Rightarrow> bool" where
  "is_drift i \<longleftrightarrow> ci_Status i = CASPatchStatusConflict \<and> ci_Kind i = CASPatchIssueBaseDrift"

lemma drift_issue_paths_distinct:
  "drift_issue_paths seen is = Inr ps \<Longrightarrow> distinct (map (\<lambda>i. TrimSpace (ci_Path i)) (filter is_drift is)) \<and>
     (\<lambda>i. TrimSpace (ci_Path i)) ` set (filter is_drift is) \<inter> set seen = {}"
  by (induction seen "is" rule: drift_issue_paths.induct) (auto simp: is_drift_def Let_def split: if_splits)

text \<open>For a drift issue of accepted evidence: its path, its hashes, and that it is the only one of its path.\<close>

lemma accepted_drift:
  assumes ok: "validateCASEvidence r a = None" "car_Status r = CASPatchStatusConflict"
    and i: "i \<in> set (car_Issues r)" "is_drift i" "TrimSpace (ci_Path i) = ci_Path i"
  obtains pr where "baseDriftIssueAndPathResult r (ci_Path i) = Inr (i, pr)" and "NormalizePath (ci_Path i) = Inr (ci_Path i)"
    and "ci_Path i \<noteq> []" and "TrimSpace (ci_ExpectedHash i) \<noteq> []" "TrimSpace (ci_ActualHash i) \<noteq> []" "TrimSpace (ci_CandidateHash i) \<noteq> []"
    and "TrimSpace (ci_ExpectedHash i) = TrimSpace (get_str (base_FileHashes (ctx_Base a)) (ci_Path i))"
    and "TrimSpace (ci_ActualHash i) \<noteq> TrimSpace (ci_ExpectedHash i)"
proof -
  let ?p = "ci_Path i"
  obtain ps m where m: "collect_path_results a ps [] (car_Paths r) = Inr m"
    and iss: "validateCASIssueEvidence i (car_Status r) ps m = None" and st: "check_by_status r ps m = None"
    using ok(1) i(1) unfolding validateCASEvidence_None by blast
  have m': "m = map path_entry (car_Paths r)" "distinct (map cp_Path (car_Paths r))"
    "\<forall>pr \<in> set (car_Paths r). check_path_result a ps [] pr = None"
    using m unfolding collect_path_results_Inr by auto
  have "?p \<noteq> []" "check_issue_path ps ?p = None" and dr: "check_drift_issue i ?p m = None"
    using iss i(2,3) unfolding validateCASIssueEvidence_def Let_def is_drift_def by auto
  then have p: "?p \<noteq> []" "normalizeResolverPath ?p = Inr ?p" by (auto simp: check_issue_path_def split: sum.splits)
  from dr obtain e where e: "map_of m ?p = Some e" "cp_Status e = CASPatchStatusConflict"
    and h: "TrimSpace (ci_ExpectedHash i) = TrimSpace (cp_BaseHash e)" "TrimSpace (ci_ActualHash i) = TrimSpace (cp_CurrentHash e)"
      "TrimSpace (cp_CurrentHash e) \<noteq> TrimSpace (cp_BaseHash e)"
    and ne: "TrimSpace (ci_ExpectedHash i) \<noteq> []" "TrimSpace (ci_ActualHash i) \<noteq> []" "TrimSpace (ci_CandidateHash i) \<noteq> []"
    unfolding check_drift_issue_def by (auto split: if_splits option.splits)
  then obtain pr where pr: "pr \<in> set (car_Paths r)" "(?p, e) = path_entry pr" using map_of_SomeD [OF e(1)] by (auto simp: m'(1))
  then have prs: "cp_Path pr = ?p" "cp_Status pr = CASPatchStatusConflict" "cp_BaseHash pr = cp_BaseHash e"
    using e(2) by (auto simp: path_entry_def)
  obtain k where k: "validateCASPathChangeKind pr = Inr k" "check_change pr (TrimSpace (get_str (base_FileHashes (ctx_Base a)) ?p)) k = None"
    using m'(3) pr(1) prs(1) unfolding check_path_result_None by auto
  have base: "TrimSpace (cp_BaseHash pr) = TrimSpace (get_str (base_FileHashes (ctx_Base a)) ?p)"
    using k(2) prs(2) by (auto simp: check_change_def split: if_splits)
  have "\<exists>out. drift_issue_paths [] (car_Issues r) = Inr out"
    using st ok(2) unfolding check_by_status_def verifyCASConflictPathIssueConsistency_def Let_def
    by (auto split: if_splits option.splits sum.splits)
  then have uniq: "distinct (map (\<lambda>i. TrimSpace (ci_Path i)) (filter is_drift (car_Issues r)))"
    using drift_issue_paths_distinct by blast
  have "filter (\<lambda>j. is_drift j \<and> ci_Path j = ?p) (car_Issues r) = [i]"
  proof -
    have "filter (\<lambda>j. TrimSpace (ci_Path j) = TrimSpace ?p) (filter is_drift (car_Issues r)) = [i]"
      by (rule filter_unique [OF uniq]) (use i in simp)
    then have one: "filter (\<lambda>j. TrimSpace (ci_Path j) = ?p \<and> is_drift j) (car_Issues r) = [i]" using i(3) by (simp add: conj_commute)
    have "filter (\<lambda>j. is_drift j \<and> ci_Path j = ?p) (car_Issues r) =
        filter (\<lambda>j. ci_Path j = ?p) (filter (\<lambda>j. TrimSpace (ci_Path j) = ?p \<and> is_drift j) (car_Issues r))"
      using i(3) by (auto simp: intro!: filter_cong)
    then show ?thesis unfolding one by simp
  qed
  moreover have "filter (\<lambda>q. cp_Path q = ?p) (car_Paths r) = [pr]"
    using filter_unique [OF m'(2) pr(1)] prs(1) by simp
  ultimately have "baseDriftIssueAndPathResult r ?p = Inr (i, pr)"
    unfolding baseDriftIssueAndPathResult_def Let_def is_drift_def using prs(2) by (simp add: conj_assoc)
  then show thesis
    using p h ne base prs(3) by (intro that [of pr]) (auto simp: normalizeResolverPath_iff)
qed

end
