(* ===== verification/Conflict_Properties.thy ===== *)
theory Conflict_Properties
  imports Conflict_Lemmas Queue_Properties
begin

section \<open>Properties of the conflict records\<close>

text \<open>
  How the builders of conflict records fit the components they take their evidence from: the
  patch queue, the compare-and-swap evaluator and the lease store.
\<close>

subsection \<open>Two items on one path\<close>

definition path_contender :: "PatchQueueItem \<Rightarrow> string \<Rightarrow> bool" where
  "path_contender i p \<longleftrightarrow> TrimSpace (pq_QueueID i) \<noteq> [] \<and> TrimSpace (pq_ItemID i) \<noteq> [] \<and> TrimSpace (pq_State i) \<noteq> [] \<and>
     TrimSpace (pq_ContextDigest i) \<noteq> [] \<and> TrimSpace (pq_RepoLeaseID i) \<noteq> [] \<and> TrimSpace (pq_WorkspaceID i) \<noteq> [] \<and>
     0 < pq_LeaseTerm i \<and> pathConflictContenderStateAllowed (pq_State i) \<and> pathsetCoversPath (pq_Pathset i) p"

lemma contender_Inr: "conflictContenderFromPatchQueueItem i p label = Inr c \<longleftrightarrow> path_contender i p \<and> c = contender_of_item i"
  by (auto simp: conflictContenderFromPatchQueueItem_def path_contender_def guards_append split: option.splits)

lemma sort_pair: "sort_key f [a, b] = (if f a \<le> f b then [a, b] else [b, a])"
  by simp

lemma sort_pair_swap: "f a \<noteq> f b \<Longrightarrow> sort_key f [a, b] = sort_key f [b, a]"
  by auto

definition path_pair :: "string \<Rightarrow> PatchQueueItem \<Rightarrow> PatchQueueItem \<Rightarrow> ConflictModelResult" where
  "path_pair p i j = path_conflict_record p (cc_WorkspaceID (contender_of_item i))
     (sort_contenders [contender_of_item i, contender_of_item j])"

lemma BuildPathConflict_Inr:
  "BuildPathConflict \<lparr>pci_Path = p0, pci_Left = i, pci_Right = j\<rparr> = Inr r \<longleftrightarrow>
     (\<exists>p. NormalizePath p0 = Inr p \<and> path_contender i p \<and> path_contender j p \<and>
        TrimSpace (pq_WorkspaceID i) = TrimSpace (pq_WorkspaceID j) \<and>
        \<not> (TrimSpace (pq_QueueID i) = TrimSpace (pq_QueueID j) \<and> TrimSpace (pq_ItemID i) = TrimSpace (pq_ItemID j)) \<and>
        r = sealed (path_pair p i j) \<and> ValidateConflictModelResult (sealed (path_pair p i j)) = None)"
  unfolding BuildPathConflict_def bind_result_Inr map_err_Inr contender_Inr require_Inr finish_conflict_Inr path_pair_def
  by (auto simp: contender_of_item_def)

lemma path_pair_swap:
  assumes "TrimSpace (pq_WorkspaceID i) = TrimSpace (pq_WorkspaceID j)"
    and "\<not> (TrimSpace (pq_QueueID i) = TrimSpace (pq_QueueID j) \<and> TrimSpace (pq_ItemID i) = TrimSpace (pq_ItemID j))"
  shows "path_pair p i j = path_pair p j i"
proof -
  have "sort_contenders [contender_of_item i, contender_of_item j] = sort_contenders [contender_of_item j, contender_of_item i]"
    unfolding sort_contenders_def by (rule sort_pair_swap) (use assms(2) in \<open>auto simp: contender_of_item_def\<close>)
  then show ?thesis using assms(1) by (simp add: path_pair_def contender_of_item_def)
qed

text \<open>A validated record of two contenders has an evaluation digest on each of them.\<close>

lemma path_pair_digests:
  assumes "ValidateConflictModelResult (sealed (path_pair p i j)) = None"
  shows "TrimSpace (pq_CASPatchDigest i) \<noteq> [] \<and> TrimSpace (pq_CASPatchDigest j) \<noteq> []"
proof -
  let ?cs = "sort_contenders [contender_of_item i, contender_of_item j]"
  have "validatePathConflictModel (sealed (path_pair p i j)) = None"
    using assms unfolding ValidateConflictModelResult_def validate_sealed validate_by_reason_def
    by (simp add: path_pair_def path_conflict_record_def)
  then have "\<exists>n seen. check_contenders (cm_WorkspaceID (sealed (path_pair p i j))) n seen ?cs = None"
    unfolding validatePathConflictModel_def by (auto simp: path_pair_def path_conflict_record_def sealed_def split: if_splits)
  moreover have "cc_CASPatchDigest c \<noteq> []" if "check_contenders w n seen cs = None" "c \<in> set cs" for w n seen cs c
    using that
    by (induction cs arbitrary: n seen)
      (auto simp: validateConflictContender_def Let_def canonical_value_def split: option.splits if_splits)
  moreover have "contender_of_item i \<in> set ?cs" "contender_of_item j \<in> set ?cs" by (auto simp: sort_contenders_def)
  ultimately have "cc_CASPatchDigest (contender_of_item i) \<noteq> []" "cc_CASPatchDigest (contender_of_item j) \<noteq> []" by blast+
  then show ?thesis by (simp add: contender_of_item_def)
qed

lemma open_item_no_digest:
  assumes "run_of (\<lambda>s. fst s = NewPatchQueueStore) queue_step ops s" and "map_of (qs_items (fst s)) k = Some i"
    and "pathConflictContenderStateAllowed (pq_State i)"
  shows "pq_CASPatchDigest i = []"
proof -
  have "item_inv k i" using queue_inv_reachable [OF assms(1)] assms(2) by (simp add: queue_inv_def)
  then have st: "TrimSpace (pq_State i) = pq_State i" by (auto simp: item_inv_def queue_states_def)
  have "open_ok i" using queue_refs.reachable_item [OF assms(1,2)] by simp
  then show ?thesis using assms(3) st by (auto simp: open_ok_def open_state_def pathConflictContenderStateAllowed_def)
qed

text \<open>A path conflict does not depend on which contender is called left: the builder accepts the
  items one way exactly when it accepts them the other way, and gives the same record with the same
  identifier.\<close>

theorem path_conflict_symmetric:
  "BuildPathConflict \<lparr>pci_Path = p, pci_Left = i, pci_Right = j\<rparr> = Inr r \<longleftrightarrow>
   BuildPathConflict \<lparr>pci_Path = p, pci_Left = j, pci_Right = i\<rparr> = Inr r"
  unfolding BuildPathConflict_Inr using path_pair_swap [of i j] by metis

text \<open>C21. No path conflict can be recorded for items of a patch queue: the contenders must be proposed or
  validating, and the validator asks each of them for the digests of a compare-and-swap evaluation,
  which an item of a queue in those states never has. So the builder fails whenever one of its
  contenders is an item of a reachable queue.\<close>

theorem path_conflict_unreachable:
  assumes "run_of (\<lambda>s. fst s = NewPatchQueueStore) queue_step ops s" and "map_of (qs_items (fst s)) k = Some i"
  shows "(\<exists>e. BuildPathConflict \<lparr>pci_Path = p, pci_Left = i, pci_Right = j\<rparr> = Inl e) \<and>
    (\<exists>e. BuildPathConflict \<lparr>pci_Path = p, pci_Left = j, pci_Right = i\<rparr> = Inl e)"
proof -
  have no: "BuildPathConflict \<lparr>pci_Path = p, pci_Left = a, pci_Right = b\<rparr> \<noteq> Inr c" if i: "i \<in> {a, b}" for a b c
  proof
    assume "BuildPathConflict \<lparr>pci_Path = p, pci_Left = a, pci_Right = b\<rparr> = Inr c"
    then obtain q where q: "path_contender a q" "path_contender b q" "ValidateConflictModelResult (sealed (path_pair q a b)) = None"
      unfolding BuildPathConflict_Inr by blast
    from q(1,2) i have "pathConflictContenderStateAllowed (pq_State i)" unfolding path_contender_def by blast
    then have "TrimSpace (pq_CASPatchDigest i) = []" using open_item_no_digest [OF assms] by simp
    with path_pair_digests [OF q(3)] i show False by blast
  qed
  have fails: "\<exists>e. r = Inl e" if "\<forall>c. r \<noteq> Inr c" for r :: "ConflictModelResult result" using that by (cases r) auto
  show ?thesis by (intro conjI fails allI no) simp_all
qed

theorem path_conflict_unreachable_witness:
  "\<exists>e. BuildPathConflict \<lparr>pci_Path = ''a.go'', pci_Left = demo_item, pci_Right = demo_item\<lparr>pq_ItemID := ''i2''\<rparr>\<rparr> = Inl e"
proof -
  have "map_of (qs_items (fst (demo_queue demo_item, Some demo_store))) (patchQueueKey ''q1'' ''i1'') = Some demo_item"
    by (simp add: demo_lookup_item)
  from path_conflict_unreachable [OF demo_queue_run this] show ?thesis by (rule conjunct1)
qed

subsection \<open>Outcomes of a validation\<close>

text \<open>What a completed validation of a reachable queue establishes for the conflict builders.\<close>

lemma completed_facts:
  assumes run: "run_of (\<lambda>s. fst s = NewPatchQueueStore) queue_step ops (q, ls)"
    and fin: "CompleteValidation wall lwall input ls q = (Inr item, q', ls')"
  defines "a \<equiv> WithDefaults (vi_Context input)" and "r \<equiv> vi_CASResult input"
  obtains te has where "refs_ok item" and "verifyPatchQueueItemContext item a = None" and "validateCASEvidence r a = None"
    and "normalizePatchQueueTestEvidence (vi_TestEvidence input) = Inr (te, has)"
    and "pq_State item = pq_State (outcome r te has (ctx_Operation a) item)" and "pq_CASResult item = r"
    and "pq_CASPatchDigest item = TrimSpace (car_PatchDigest r)" and "pq_CASEvaluationDigest item = digestCASPatchApplyResult r"
    and "pq_TestEvidence item = (if has then te else zero_test_evidence)"
    and "pq_TestEvidenceDigest item = (if has then digestPatchQueueTestEvidence te else [])"
    and "open_ok item" and "canonical_pathset (pq_Pathset item)" and "pq_Pathset item \<noteq> []"
proof -
  obtain ids i te has where c: "complete_request input a q = Inr (ids, i, te, has)"
    and item: "item = outcome r te has (ctx_Operation a) (completed_item r te has (normalizeLeaseTime wall (vi_Now input)) i)"
    and q': "q' = put_item ids item q"
    using CompleteValidation_Inr [OF fin] unfolding a_def r_def by blast
  note f = complete_request_Inr [OF c]
  have run': "run_of (\<lambda>s. fst s = NewPatchQueueStore) queue_step (OpComplete # ops) (q', ls')"
    by (rule run_step [OF run]) (rule step_complete [OF fin])
  obtain x y where ids: "ids = (x, y)" by (cases ids)
  have at: "map_of (qs_items (fst (q', ls'))) (patchQueueKey x y) = Some item" by (simp add: q' ids put_item_items)
  have inv: "refs_ok item" "open_ok item" using queue_refs.reachable_item [OF run' at] by simp_all
  have "item_inv (patchQueueKey x y) item" using queue_inv_reachable [OF run'] at unfolding queue_inv_def by blast
  then have ps: "canonical_pathset (pq_Pathset item)" "pq_Pathset item \<noteq> []" by (simp_all add: item_inv_def)
  have "pq_ContextDigest item = pq_ContextDigest i" "pq_QueueID item = pq_QueueID i" "pq_ItemID item = pq_ItemID i"
    "pq_RepoLeaseID item = pq_RepoLeaseID i" "pq_LeaseTerm item = pq_LeaseTerm i" "pq_Pathset item = pq_Pathset i"
    by (simp_all add: item outcome_def completed_item_def)
  then have "verifyPatchQueueItemContext item a = None" using f(2) unfolding verifyPatchQueueItemContext_None by simp
  moreover have "pq_State item = pq_State (outcome r te has (ctx_Operation a) item)" unfolding item outcome_state ..
  ultimately show thesis
    using inv ps f(4,5) by (intro that [of te has]) (simp_all add: item r_def outcome_def completed_item_def)
qed

lemma context_facts:
  assumes "validateCASEvidence r a = None" and "WithDefaults a = a"
  shows "Context_Validate a = None" and "Context_Digest a = Inr (json_digest (json_context a))"
  using assms unfolding validateCASEvidence_None Context_Digest_Inr by auto

lemma digestCAS_canonical [simp]: "canonical_value (digestCASPatchApplyResult r)"
  by (simp add: digestCASPatchApplyResult_def)

lemma base_drift_valid:
  assumes refs: "refs_ok item" and st: "pq_State item = PatchQueueStateConflict" and ver: "verifyPatchQueueItemContext item a = None"
    and ctx: "Context_Validate a = None" and p: "NormalizePath p = Inr p"
    and ne: "TrimSpace (ci_ExpectedHash i) \<noteq> []" "TrimSpace (ci_ActualHash i) \<noteq> []" "TrimSpace (ci_CandidateHash i) \<noteq> []"
    and differ: "TrimSpace (ci_ActualHash i) \<noteq> TrimSpace (ci_ExpectedHash i)" and pd: "TrimSpace (car_PatchDigest r) \<noteq> []"
  shows "ValidateConflictModelResult (sealed (base_drift_record a (json_digest j) r item p i pr)) = None"
proof -
  have ids: "TrimSpace (lr_ID (ctx_Lease a)) = pq_RepoLeaseID item" "lr_Term (ctx_Lease a) = pq_LeaseTerm item"
    "TrimSpace (pqr_QueueID (ctx_PatchQueue a)) = pq_QueueID item" "TrimSpace (pqr_ItemID (ctx_PatchQueue a)) = pq_ItemID item"
    using ver unfolding verifyPatchQueueItemContext_None by blast+
  have "validateBaseDriftConflictModel (sealed (base_drift_record a (json_digest j) r item p i pr)) = None"
    using refs st ids ne differ pd digestCAS_canonical [of r]
    by (simp add: validateBaseDriftConflictModel_def base_drift_record_def context_conflict_def sealed_def zero_conflict_def
        first_hash_def refs_ok_def canonical_value_def)
  then show ?thesis
    unfolding ValidateConflictModelResult_def validate_sealed validate_by_reason_def
    using p Context_Validate_ids(1) [OF ctx] by (simp add: base_drift_record_def context_conflict_def)
qed

text \<open>A drift issue in plain form is recorded when its path is asked for.\<close>

lemma base_drift_built:
  assumes "run_of (\<lambda>s. fst s = NewPatchQueueStore) queue_step ops (q, ls)"
    and "CompleteValidation wall lwall input ls q = (Inr item, q', ls')"
    and "car_Status (vi_CASResult input) = CASPatchStatusConflict"
    and "issue \<in> set (car_Issues (vi_CASResult input))" and "is_drift issue" and "ci_Path issue = TrimSpace p"
  shows "\<exists>r. BuildBaseDriftConflict \<lparr>bdi_Context = vi_Context input, bdi_CASResult = vi_CASResult input, bdi_PatchQueueItem = item,
      bdi_Path = p\<rparr> = Inr r \<and> cm_Path r = TrimSpace p \<and> cm_PatchQueueItemID r = pq_ItemID item \<and>
    cm_ExpectedHash r = TrimSpace (get_str (base_FileHashes (ctx_Base (vi_Context input))) (TrimSpace p)) \<and>
    cm_ActualHash r \<noteq> cm_ExpectedHash r \<and> ValidateConflictModelResult r = None"
proof -
  let ?a = "WithDefaults (vi_Context input)" and ?r = "vi_CASResult input"
  obtain te has where refs: "refs_ok item" and ver: "verifyPatchQueueItemContext item ?a = None"
    and ev: "validateCASEvidence ?r ?a = None"
    and st: "pq_State item = pq_State (outcome ?r te has (ctx_Operation ?a) item)"
    and dig: "pq_CASPatchDigest item = TrimSpace (car_PatchDigest ?r)" "pq_CASEvaluationDigest item = digestCASPatchApplyResult ?r"
    by (rule completed_facts [OF assms(1,2)])
  have state: "pq_State item = PatchQueueStateConflict" unfolding st outcome_state assms(3) by simp
  have trim: "TrimSpace (ci_Path issue) = ci_Path issue" by (simp add: assms(6))
  obtain pr where br: "baseDriftIssueAndPathResult ?r (ci_Path issue) = Inr (issue, pr)"
    and p: "NormalizePath (ci_Path issue) = Inr (ci_Path issue)" "ci_Path issue \<noteq> []"
    and ne: "TrimSpace (ci_ExpectedHash issue) \<noteq> []" "TrimSpace (ci_ActualHash issue) \<noteq> []" "TrimSpace (ci_CandidateHash issue) \<noteq> []"
    and base: "TrimSpace (ci_ExpectedHash issue) = TrimSpace (get_str (base_FileHashes (ctx_Base ?a)) (ci_Path issue))"
    and differ: "TrimSpace (ci_ActualHash issue) \<noteq> TrimSpace (ci_ExpectedHash issue)"
    by (rule accepted_drift [OF ev assms(3-5) trim])
  note ctx = context_facts [OF ev WithDefaults_idem]
  have pd: "TrimSpace (car_PatchDigest ?r) \<noteq> []"
    using ev assms(3) unfolding validateCASEvidence_None check_by_status_def by (auto split: if_splits)
  let ?rec = "base_drift_record ?a (json_digest (json_context ?a)) ?r item (ci_Path issue) issue pr"
  have g: "base_drift_guards ?r item ?a = None"
    using ev assms(3) refs state dig pd ver digestCAS_canonical [of ?r]
    by (simp add: base_drift_guards_def refs_ok_def canonical_value_def)
  have choose: "chooseBaseDriftPath ?r p = Inr (ci_Path issue)"
    using p unfolding assms(6) by (simp add: chooseBaseDriftPath_def Let_def requested_path_Inr)
  have "ValidateConflictModelResult (sealed ?rec) = None"
    by (rule base_drift_valid [OF refs state ver ctx(1) p(1) ne differ pd])
  moreover have "BuildBaseDriftConflict \<lparr>bdi_Context = vi_Context input, bdi_CASResult = ?r, bdi_PatchQueueItem = item,
      bdi_Path = p\<rparr> = Inr (sealed ?rec)"
    unfolding BuildBaseDriftConflict_def Let_def
    using g choose br ctx(2) calculation by (simp add: map_err_def finish_conflict_def)
  ultimately show ?thesis
    using ne differ base ver unfolding verifyPatchQueueItemContext_None
    by (intro exI [of _ "sealed ?rec"]) (simp add: base_drift_record_def context_conflict_def sealed_def first_hash_def assms(6))
qed

lemma drift_issue_found:
  assumes "baseDriftIssueAndPathResult r path = Inr (issue, pr)"
  shows "issue \<in> set (car_Issues r) \<and> is_drift issue \<and> ci_Path issue = path"
proof -
  obtain rest where f: "filter (\<lambda>i. ci_Status i = CASPatchStatusConflict \<and> ci_Kind i = CASPatchIssueBaseDrift \<and> ci_Path i = path) (car_Issues r) = issue # rest"
    using assms unfolding baseDriftIssueAndPathResult_def Let_def by (auto split: if_splits list.splits)
  have "issue \<in> set (filter (\<lambda>i. ci_Status i = CASPatchStatusConflict \<and> ci_Kind i = CASPatchIssueBaseDrift \<and> ci_Path i = path) (car_Issues r))"
    unfolding f by simp
  then show ?thesis by (simp add: is_drift_def)
qed

text \<open>C17. Which base drifts can be recorded: when a validation on a reachable queue was completed with the status
  conflict and a path is asked for by name, the conflict builder succeeds on the item, the evidence and the
  context of the validation exactly when the evidence has an issue for that path whose status is literally
  conflict, whose kind is literally base drift, and whose path carries no surrounding white space. The validation
  itself accepts an issue with a padded path, and such a drift cannot be recorded. Every record made
  names the path, the item and the hash that the base of the context expects there, which differs from the
  hash found, and passes the validator.\<close>

theorem base_drift_recorded:
  assumes "run_of (\<lambda>s. fst s = NewPatchQueueStore) queue_step ops (q, ls)"
    and "CompleteValidation wall lwall input ls q = (Inr item, q', ls')"
    and "car_Status (vi_CASResult input) = CASPatchStatusConflict" and "TrimSpace p \<noteq> []"
  shows "((\<exists>r. BuildBaseDriftConflict \<lparr>bdi_Context = vi_Context input, bdi_CASResult = vi_CASResult input, bdi_PatchQueueItem = item, bdi_Path = p\<rparr> = Inr r) \<longleftrightarrow>
      (\<exists>issue \<in> set (car_Issues (vi_CASResult input)). is_drift issue \<and> ci_Path issue = TrimSpace p)) \<and>
    (\<forall>r. BuildBaseDriftConflict \<lparr>bdi_Context = vi_Context input, bdi_CASResult = vi_CASResult input, bdi_PatchQueueItem = item, bdi_Path = p\<rparr> = Inr r \<longrightarrow>
      cm_Path r = TrimSpace p \<and> cm_PatchQueueItemID r = pq_ItemID item \<and>
      cm_ExpectedHash r = TrimSpace (get_str (base_FileHashes (ctx_Base (vi_Context input))) (TrimSpace p)) \<and>
      cm_ActualHash r \<noteq> cm_ExpectedHash r \<and> ValidateConflictModelResult r = None)"
proof -
  let ?built = "BuildBaseDriftConflict \<lparr>bdi_Context = vi_Context input, bdi_CASResult = vi_CASResult input, bdi_PatchQueueItem = item, bdi_Path = p\<rparr>"
  have found: "\<exists>issue \<in> set (car_Issues (vi_CASResult input)). is_drift issue \<and> ci_Path issue = TrimSpace p" if b: "?built = Inr r" for r
  proof -
    obtain issue pr where "baseDriftIssueAndPathResult (vi_CASResult input) (TrimSpace p) = Inr (issue, pr)"
      using b assms(4) unfolding BuildBaseDriftConflict_def Let_def
      by (auto simp: bind_result_Inr chooseBaseDriftPath_def requested_path_Inr)
    then show ?thesis using drift_issue_found by blast
  qed
  show ?thesis
  proof (cases "\<exists>issue \<in> set (car_Issues (vi_CASResult input)). is_drift issue \<and> ci_Path issue = TrimSpace p")
    case True
    then obtain issue where i: "issue \<in> set (car_Issues (vi_CASResult input))" "is_drift issue" "ci_Path issue = TrimSpace p" by blast
    obtain r where "?built = Inr r" and "cm_Path r = TrimSpace p" "cm_PatchQueueItemID r = pq_ItemID item"
      "cm_ExpectedHash r = TrimSpace (get_str (base_FileHashes (ctx_Base (vi_Context input))) (TrimSpace p))"
      "cm_ActualHash r \<noteq> cm_ExpectedHash r" "ValidateConflictModelResult r = None"
      using base_drift_built [OF assms(1-3) i] by (elim exE conjE) (rule that)
    with True show ?thesis by simp
  next
    case False
    with found have "?built \<noteq> Inr r" for r by blast
    with False show ?thesis by simp
  qed
qed

text \<open>Normalised test evidence is a fixed point of the normalisation.\<close>

lemma normalizePatchQueueTestEvidence_idem:
  assumes "normalizePatchQueueTestEvidence e = Inr (te, True)"
  shows "normalizePatchQueueTestEvidence te = Inr (te, True)"
proof -
  from assms have v: "validatePatchQueueTestEvidence te = None"
    and t: "TrimSpace (te_Schema te) = te_Schema te" "te_Schema te \<noteq> []" "TrimSpace (te_Name te) = te_Name te"
      "TrimSpace (te_Command te) = te_Command te" "TrimSpace (te_Status te) = te_Status te"
      "TrimSpace (te_OutputDigest te) = te_OutputDigest te" "TrimSpace (te_OutputSummary te) = te_OutputSummary te"
    unfolding normalizePatchQueueTestEvidence_def Let_def
    by (auto simp: PatchQueueTestEvidenceSchemaVersion_def TrimSpace_graphic graphic_def split: if_splits)
  from t have "te\<lparr>te_Schema := TrimSpace (te_Schema te), te_Name := TrimSpace (te_Name te), te_Command := TrimSpace (te_Command te),
      te_Status := TrimSpace (te_Status te), te_OutputDigest := TrimSpace (te_OutputDigest te),
      te_OutputSummary := TrimSpace (te_OutputSummary te)\<rparr> = te" by simp
  with v t(1,2) show ?thesis
    unfolding normalizePatchQueueTestEvidence_def Let_def by (simp add: hasPatchQueueTestEvidence_def)
qed

lemma chosen_test_path:
  assumes "canonical_pathset ps" "ps \<noteq> []" "p = [] \<or> p \<in> set ps"
  shows "\<exists>p'. chooseTestConflictPaths ps p = Inr (ps, p') \<and> p' \<in> set ps \<and> NormalizePath p' = Inr p' \<and>
    TrimSpace p' = p' \<and> (p \<noteq> [] \<longrightarrow> p' = p)"
proof -
  have fixed: "NormalizePath x = Inr x" "TrimSpace x = x" "x \<noteq> []" if "x \<in> set ps" for x
  proof -
    from assms(1) that show x: "NormalizePath x = Inr x" by (simp add: canonical_pathset_def)
    then show "TrimSpace x = x" by (rule NormalizePath_fixed_trimmed)
    with x show "x \<noteq> []" by (auto simp: NormalizePath_Inr)
  qed
  have n: "NormalizePathSet ps = Inr ps" by (rule NormalizePathSet_canonical [OF assms(1)])
  show ?thesis
  proof (cases "p = []")
    case True
    then show ?thesis
      using n assms(2) fixed [of "hd ps"] by (simp add: chooseTestConflictPaths_def map_err_def)
  next
    case False
    with assms(3) have p: "p \<in> set ps" by blast
    have "stringSliceContainsPath ps p" using p fixed(2) [OF p] by (auto simp: stringSliceContainsPath_def list_ex_iff)
    then show ?thesis
      using n assms(2) fixed [OF p] p False
      by (simp add: chooseTestConflictPaths_def map_err_def requested_path_def fail_if_def)
  qed
qed

text \<open>The record of failed tests validates exactly when the context names its schema and both parts of its base.\<close>

lemma test_conflict_valid:
  assumes refs: "refs_ok item" and st: "pq_State item = PatchQueueStateTestConflict" and ver: "verifyPatchQueueItemContext item a = None"
    and ctx: "Context_Validate a = None" and ps: "canonical_pathset ps" "p \<in> set ps" "NormalizePath p = Inr p" "TrimSpace p = p"
    and cas: "car_Status (pq_CASResult item) = CASPatchStatusApplied" "TrimSpace (pq_CASPatchDigest item) \<noteq> []"
    and te: "normalizePatchQueueTestEvidence te = Inr (te, True)" "te_Status te = PatchQueueTestStatusFailed"
      "pq_TestEvidenceDigest item = digestPatchQueueTestEvidence te"
    and oper: "pq_OperationID item = []" "pq_OperationKind item = []"
  shows "ValidateConflictModelResult (sealed (test_conflict_record a (json_digest j) item te ps p)) = None \<longleftrightarrow>
    TrimSpace (cs_Schema (ctx_CapabilitySnapshot a)) \<noteq> [] \<and> TrimSpace (base_Ref (ctx_Base a)) \<noteq> [] \<and>
    TrimSpace (base_TreeHash (ctx_Base a)) \<noteq> []"
proof -
  let ?r = "sealed (test_conflict_record a (json_digest j) item te ps p)"
  have ids: "TrimSpace (lr_ID (ctx_Lease a)) = pq_RepoLeaseID item" "lr_Term (ctx_Lease a) = pq_LeaseTerm item"
    "TrimSpace (pqr_QueueID (ctx_PatchQueue a)) = pq_QueueID item" "TrimSpace (pqr_ItemID (ctx_PatchQueue a)) = pq_ItemID item"
    using ver unfolding verifyPatchQueueItemContext_None by blast+
  have contains: "stringSliceContainsPath ps p" using ps(2,4) by (auto simp: stringSliceContainsPath_def list_ex_iff)
  have evidence: "check_test_evidence ?r = None"
    using te by (simp add: check_test_evidence_def test_conflict_record_def sealed_def digestPatchQueueTestEvidence_def)
  have nonempty: "ps \<noteq> []" using ps(2) by auto
  have "validateTestConflictModel ?r = None \<longleftrightarrow>
      TrimSpace (cs_Schema (ctx_CapabilitySnapshot a)) \<noteq> [] \<and> TrimSpace (base_Ref (ctx_Base a)) \<noteq> [] \<and>
      TrimSpace (base_TreeHash (ctx_Base a)) \<noteq> []"
    unfolding validateTestConflictModel_def guards_Cons_None evidence
    using refs st ids ps(3) contains nonempty NormalizePathSet_canonical [OF ps(1)] cas te(3) oper Context_Validate_ids [OF ctx]
    by (simp add: test_conflict_record_def context_conflict_def sealed_def zero_conflict_def refs_ok_def canonical_value_def
        digestPatchQueueTestEvidence_def digestCASPatchApplyResult_def)
  then show ?thesis
    unfolding ValidateConflictModelResult_def validate_sealed validate_by_reason_def
    using Context_Validate_ids(1) [OF ctx] by (simp add: test_conflict_record_def context_conflict_def)
qed

text \<open>C20. When tests fail on a reachable queue, the failure can be recorded as a test conflict, for no path in
  particular or for any path of the item, exactly when the context of the validation carries no operation and
  names a capability snapshot schema, a base ref and a base tree hash; nothing else stands in the way. A
  validation also accepts a failed test under a context with an operation, with one of ref and tree hash, or
  without the schema, so some failures of valid contexts cannot be recorded.\<close>

theorem test_conflict_recorded:
  assumes "run_of (\<lambda>s. fst s = NewPatchQueueStore) queue_step ops (q, ls)"
    and "CompleteValidation wall lwall input ls q = (Inr item, q', ls')"
    and "pq_State item = PatchQueueStateTestConflict" and "p = [] \<or> p \<in> set (pq_Pathset item)"
  shows "(\<exists>r. BuildTestConflict \<lparr>tci_Context = vi_Context input, tci_PatchQueueItem = item, tci_Path = p\<rparr> = Inr r) \<longleftrightarrow>
    ctx_Operation (vi_Context input) = no_operation \<and> TrimSpace (cs_Schema (ctx_CapabilitySnapshot (vi_Context input))) \<noteq> [] \<and>
    TrimSpace (base_Ref (ctx_Base (vi_Context input))) \<noteq> [] \<and> TrimSpace (base_TreeHash (ctx_Base (vi_Context input))) \<noteq> []"
proof -
  let ?a = "WithDefaults (vi_Context input)" and ?r = "vi_CASResult input"
  obtain te has where refs: "refs_ok item" and ver: "verifyPatchQueueItemContext item ?a = None"
    and ev: "validateCASEvidence ?r ?a = None" and nt: "normalizePatchQueueTestEvidence (vi_TestEvidence input) = Inr (te, has)"
    and st: "pq_State item = pq_State (outcome ?r te has (ctx_Operation ?a) item)" and cas: "pq_CASResult item = ?r"
    and dig: "pq_CASPatchDigest item = TrimSpace (car_PatchDigest ?r)" "pq_CASEvaluationDigest item = digestCASPatchApplyResult ?r"
    and te: "pq_TestEvidence item = (if has then te else zero_test_evidence)"
      "pq_TestEvidenceDigest item = (if has then digestPatchQueueTestEvidence te else [])"
    and oper: "open_ok item" and ps: "canonical_pathset (pq_Pathset item)" "pq_Pathset item \<noteq> []"
    by (rule completed_facts [OF assms(1,2)])
  have ap: "car_Status ?r = CASPatchStatusApplied" "has" "te_Status te = PatchQueueTestStatusFailed"
    using assms(3) unfolding st outcome_state by (auto split: if_splits)
  note fixed = normalizePatchQueueTestEvidence_idem [OF nt [unfolded eqTrueI [OF ap(2)]]]
  have pd: "TrimSpace (car_PatchDigest ?r) \<noteq> []"
    using ev ap(1) unfolding validateCASEvidence_None check_by_status_def by auto
  have none: "pq_OperationID item = []" "pq_OperationKind item = []" using oper assms(3) by (simp_all add: open_ok_def)
  note ctx = context_facts [OF ev WithDefaults_idem]
  obtain p' where p': "chooseTestConflictPaths (pq_Pathset item) p = Inr (pq_Pathset item, p')"
    "p' \<in> set (pq_Pathset item)" "NormalizePath p' = Inr p'" "TrimSpace p' = p'"
    using chosen_test_path [OF ps assms(4)] by blast
  have "ctx_Operation ?a = no_operation \<longleftrightarrow> op_ID (ctx_Operation ?a) = [] \<and> op_Kind (ctx_Operation ?a) = []"
    by (cases "ctx_Operation ?a") (simp add: no_operation_def)
  then have g: "test_conflict_guards item ?a = None \<longleftrightarrow> ctx_Operation (vi_Context input) = no_operation"
    using ev refs assms(3) cas ap(1) dig pd ver none digestCAS_canonical [of ?r]
    by (simp add: test_conflict_guards_def refs_ok_def canonical_value_def)
  have tg: "test_evidence_guards item te True = None"
    using ap te by (simp add: test_evidence_guards_def digestPatchQueueTestEvidence_def)
  let ?rec = "test_conflict_record ?a (json_digest (json_context ?a)) item te (pq_Pathset item) p'"
  have "BuildTestConflict \<lparr>tci_Context = vi_Context input, tci_PatchQueueItem = item, tci_Path = p\<rparr> =
      require (test_conflict_guards item ?a) (finish_conflict ValidateConflictModelResult ?rec)"
    unfolding BuildTestConflict_def Let_def using tg fixed te(1) ap(2) p'(1) ctx(2) by (simp add: map_err_def)
  then show ?thesis using g
    using test_conflict_valid [OF refs assms(3) ver ctx(1) ps(1) p'(2-4) _ _ fixed ap(3) _ none, of "json_context ?a"] cas ap te dig pd
    by (simp add: finish_conflict_Inr)
qed

subsection \<open>Witnesses\<close>

text \<open>The reachable queue with the item of the witnesses under validation, and the calls that complete it.\<close>

definition demo_started_queue :: PatchQueueStore where
  "demo_started_queue = put_item (''q1'', ''i1'') demo_started (demo_queue demo_item)"

lemma demo_started_run:
  "run_of (\<lambda>s. fst s = NewPatchQueueStore) queue_step [OpStart, OpPropose] (demo_started_queue, Some demo_store)"
  unfolding demo_started_queue_def
proof (rule run_step)
  show "run_of (\<lambda>s. fst s = NewPatchQueueStore) queue_step [OpPropose] (demo_queue demo_item, Some demo_store)" by (rule demo_queue_run)
qed (rule demo_start_step)

definition demo_validation :: "CASPatchApplyResult \<Rightarrow> PatchQueueTestEvidence \<Rightarrow> CompletePatchQueueValidationInput" where
  "demo_validation r e = \<lparr>vi_QueueID = [], vi_ItemID = [], vi_Context = demo_prop, vi_CASResult = r, vi_TestEvidence = e, vi_Now = 3\<rparr>"

lemma demo_validated:
  assumes ev: "validateCASEvidence r demo_prop = None" and te: "normalizePatchQueueTestEvidence e = Inr (te, has)"
    and st: "car_Status r = CASPatchStatusConflict \<and> \<not> has \<or> car_Status r = CASPatchStatusApplied \<and> has \<and> te_Status te = PatchQueueTestStatusFailed"
  obtains item q' where "CompleteValidation 1 1 (demo_validation r e) (Some demo_store) demo_started_queue = (Inr item, q', Some demo_store)"
    and "pq_State item = (if has then PatchQueueStateTestConflict else PatchQueueStateConflict)" and "pq_Pathset item = [''a.go'', ''b.go'']"
proof -
  have f: "vi_Context (demo_validation r e) = demo_prop" "vi_CASResult (demo_validation r e) = r" "vi_Now (demo_validation r e) = 3"
    "vi_QueueID (demo_validation r e) = []" "vi_ItemID (demo_validation r e) = []" "vi_TestEvidence (demo_validation r e) = e"
    by (simp_all add: demo_validation_def)
  have same: "same_identity demo_item demo_started" by (simp add: same_identity_def demo_started_def)
  have at: "find_item demo_started_queue (''q1'', ''i1'') = Inr demo_started"
    by (simp add: find_item_Inr demo_started_queue_def put_item_items)
  have state: "pq_State demo_started = PatchQueueStateValidating" by (simp add: demo_started_def)
  have req: "complete_request (demo_validation r e) demo_prop demo_started_queue = Inr ((''q1'', ''i1''), demo_started, te, has)"
    using st by (auto simp: complete_request_def f demo_ids ev te at state demo_item_context [OF same] fail_if_def)
  have differ: "CASPatchStatusConflict \<noteq> CASPatchStatusApplied" by (simp add: CASPatchStatusConflict_def CASPatchStatusApplied_def)
  show thesis
    using st by (auto simp: CompleteValidation_def f demo_prop_valid(2) req Let_def differ completed_item_def demo_started_def intro!: that)
qed

definition demo_drift :: CASPatchApplyInput where
  "demo_drift = demo_patch\<lparr>cai_Context := demo_prop, cai_CurrentFileHashes := [(''a.go'', ''h2'')]\<rparr>"

lemma demo_drift_simps:
  "cai_Context demo_drift = demo_prop" "cai_CandidateFileHashes demo_drift = cai_CandidateFileHashes demo_patch"
  "cai_CurrentFileHashes demo_drift = [(''a.go'', ''h2'')]"
  by (simp_all add: demo_drift_def)

lemma evaluator_drifts:
  assumes "distinct (map fst (cai_CandidateFileHashes input))" and "car_Status (EvaluateCASPatchApply input) = CASPatchStatusConflict"
  shows "\<exists>i \<in> set (car_Issues (EvaluateCASPatchApply input)). is_drift i \<and> TrimSpace (ci_Path i) = ci_Path i"
proof -
  let ?a = "WithDefaults (cai_Context input)" and ?raw = "cai_CandidateFileHashes input"
  have v: "Context_Validate ?a = None" and drift: "\<exists>p \<in> fst ` set ?raw. base_hash ?a p \<noteq> current_hash (cai_CurrentFileHashes input) p"
    and ok: "\<forall>p \<in> fst ` set ?raw. good_candidate ?raw p \<and> pathsetCoversPath (ctx_Pathset (cai_Context input)) p \<and>
      (base_hash (cai_Context input) p = [] \<longleftrightarrow> current_hash (cai_CurrentFileHashes input) p = [])"
    using assms(2) unfolding evaluate_conflict_iff [OF assms(1)] good_candidate_def by auto
  have ne: "?raw \<noteq> []" using drift by auto
  note e = evaluated_without_failure(8) [OF assms(1) v ne ok]
  from drift obtain p where p: "p \<in> fst ` set ?raw" "base_hash ?a p \<noteq> current_hash (cai_CurrentFileHashes input) p" by blast
  then have "drift_issue p (base_hash ?a p) (current_hash (cai_CurrentFileHashes input) p) (TrimSpace (get_str ?raw p))
      \<in> set (car_Issues (EvaluateCASPatchApply input))" unfolding e by auto
  moreover have "TrimSpace p = p" using ok p(1) resolver_path_trimmed by (auto simp: good_candidate_def)
  ultimately show ?thesis by (intro bexI) (auto simp: is_drift_def)
qed

lemma demo_drift_found:
  "car_Status (EvaluateCASPatchApply demo_drift) = CASPatchStatusConflict"
  "validateCASEvidence (EvaluateCASPatchApply demo_drift) demo_prop = None"
  "\<exists>i \<in> set (car_Issues (EvaluateCASPatchApply demo_drift)). is_drift i \<and> TrimSpace (ci_Path i) = ci_Path i"
proof -
  have d: "distinct (map fst (cai_CandidateFileHashes demo_drift))" unfolding demo_drift_simps by (rule demo_patch_distinct)
  have base: "ctx_Base demo_prop = ctx_Base demo_context" by (simp add: demo_prop_def demo_bound_def)
  have "list_all (\<lambda>p. normalizeResolverPath p = Inr p \<and> TrimSpace (get_str (cai_CandidateFileHashes demo_patch) p) \<noteq> [] \<and>
       pathsetCoversPath [''a.go'', ''b.go''] p \<and>
       (TrimSpace (get_str (base_FileHashes (ctx_Base demo_context)) p) = [] \<longleftrightarrow> TrimSpace (get_str [(''a.go'', ''h2'')] p) = []))
       (map fst (cai_CandidateFileHashes demo_patch))"
    "list_ex (\<lambda>p. TrimSpace (get_str (base_FileHashes (ctx_Base demo_context)) p) \<noteq> TrimSpace (get_str [(''a.go'', ''h2'')] p))
       (map fst (cai_CandidateFileHashes demo_patch))"
    by code_simp+
  then show st: "car_Status (EvaluateCASPatchApply demo_drift) = CASPatchStatusConflict"
    unfolding evaluate_conflict_iff [OF d] demo_drift_simps demo_prop_valid(2) base demo_refs list_all_iff list_ex_iff set_map
    using demo_prop_valid(1) by blast
  from conflict_accepted [OF d st] show ev: "validateCASEvidence (EvaluateCASPatchApply demo_drift) demo_prop = None"
    unfolding demo_drift_simps demo_prop_valid(2) .
  from evaluator_drifts [OF d st] show
    "\<exists>i \<in> set (car_Issues (EvaluateCASPatchApply demo_drift)). is_drift i \<and> TrimSpace (ci_Path i) = ci_Path i" by blast
qed

theorem base_drift_recorded_witness:
  "\<exists>item q' p r. CompleteValidation 1 1 (demo_validation (EvaluateCASPatchApply demo_drift) zero_test_evidence) (Some demo_store)
       demo_started_queue = (Inr item, q', Some demo_store) \<and>
     BuildBaseDriftConflict \<lparr>bdi_Context = demo_prop, bdi_CASResult = EvaluateCASPatchApply demo_drift, bdi_PatchQueueItem = item,
       bdi_Path = p\<rparr> = Inr r \<and> ValidateConflictModelResult r = None"
proof -
  let ?v = "demo_validation (EvaluateCASPatchApply demo_drift) zero_test_evidence"
  have none: "normalizePatchQueueTestEvidence zero_test_evidence = Inr (zero_test_evidence, False)"
    by (simp add: normalizePatchQueueTestEvidence_def hasPatchQueueTestEvidence_def zero_test_evidence_def)
  obtain item q' where c: "CompleteValidation 1 1 ?v (Some demo_store) demo_started_queue = (Inr item, q', Some demo_store)"
    using demo_validated [OF demo_drift_found(2) none] demo_drift_found(1) by blast
  obtain i where i: "i \<in> set (car_Issues (vi_CASResult ?v))" "is_drift i" "TrimSpace (ci_Path i) = ci_Path i"
    using demo_drift_found(3) by (auto simp: demo_validation_def)
  have "ci_Path i \<noteq> []"
    by (rule accepted_drift [OF demo_drift_found(2,1)]) (use i in \<open>auto simp: demo_validation_def\<close>)
  then have p: "TrimSpace (ci_Path i) \<noteq> []" by (simp add: i(3))
  have st: "car_Status (vi_CASResult ?v) = CASPatchStatusConflict" by (simp add: demo_validation_def demo_drift_found(1))
  have f: "vi_Context ?v = demo_prop" "vi_CASResult ?v = EvaluateCASPatchApply demo_drift" by (simp_all add: demo_validation_def)
  note exact = base_drift_recorded [OF demo_started_run c st p, unfolded f]
  have "\<exists>issue \<in> set (car_Issues (EvaluateCASPatchApply demo_drift)). is_drift issue \<and> ci_Path issue = TrimSpace (ci_Path i)"
    using i unfolding f by auto
  then obtain r where r: "BuildBaseDriftConflict \<lparr>bdi_Context = demo_prop, bdi_CASResult = EvaluateCASPatchApply demo_drift,
      bdi_PatchQueueItem = item, bdi_Path = ci_Path i\<rparr> = Inr r"
    using conjunct1 [OF exact] by blast
  then have "ValidateConflictModelResult r = None" using conjunct2 [OF exact] by blast
  note this r
  with c show ?thesis by blast
qed

definition demo_tested :: CASPatchApplyInput where
  "demo_tested = demo_patch\<lparr>cai_Context := demo_prop\<rparr>"

definition demo_failure :: PatchQueueTestEvidence where
  "demo_failure = \<lparr>te_Schema = PatchQueueTestEvidenceSchemaVersion, te_Name = ''unit'', te_Command = ''go test'', te_Status = ''failed'',
     te_ExitCode = 1, te_OutputDigest = sha256_text [], te_OutputSummary = [], te_DurationMillis = 0\<rparr>"

lemma demo_failure_normal: "normalizePatchQueueTestEvidence demo_failure = Inr (demo_failure, True)"
proof -
  have t: "TrimSpace (te_Schema demo_failure) = te_Schema demo_failure" "te_Schema demo_failure \<noteq> []"
    "TrimSpace (te_Name demo_failure) = te_Name demo_failure" "TrimSpace (te_Command demo_failure) = te_Command demo_failure"
    "TrimSpace (te_Status demo_failure) = te_Status demo_failure" "TrimSpace (te_OutputDigest demo_failure) = te_OutputDigest demo_failure"
    "TrimSpace (te_OutputSummary demo_failure) = te_OutputSummary demo_failure"
    by (simp_all add: demo_failure_def PatchQueueTestEvidenceSchemaVersion_def TrimSpace_graphic graphic_def)
  have v: "validatePatchQueueTestEvidence demo_failure = None"
    by (simp add: validatePatchQueueTestEvidence_def demo_failure_def PatchQueueTestStatusPassed_def PatchQueueTestStatusFailed_def
        TrimSpace_graphic graphic_def fail_if_def)
  show ?thesis
    unfolding normalizePatchQueueTestEvidence_def Let_def t using t(2) v by (simp add: hasPatchQueueTestEvidence_def t(1))
qed

lemma demo_tested_accepted:
  "car_Status (EvaluateCASPatchApply demo_tested) = CASPatchStatusApplied"
  "validateCASEvidence (EvaluateCASPatchApply demo_tested) demo_prop = None"
proof -
  have f: "cai_Context demo_tested = demo_prop" "cai_CandidateFileHashes demo_tested = cai_CandidateFileHashes demo_patch"
    "cai_CurrentFileHashes demo_tested = cai_CurrentFileHashes demo_patch" by (simp_all add: demo_tested_def)
  have d: "distinct (map fst (cai_CandidateFileHashes demo_tested))" unfolding f by (rule demo_patch_distinct)
  have base: "ctx_Base demo_prop = ctx_Base demo_context" by (simp add: demo_prop_def demo_bound_def)
  have "list_all (\<lambda>p. normalizeResolverPath p = Inr p \<and> TrimSpace (get_str (cai_CandidateFileHashes demo_patch) p) \<noteq> [] \<and>
       pathsetCoversPath [''a.go'', ''b.go''] p \<and>
       TrimSpace (get_str (base_FileHashes (ctx_Base demo_context)) p) =
       TrimSpace (get_str (cai_CurrentFileHashes demo_patch) p)) (map fst (cai_CandidateFileHashes demo_patch))"
    "cai_CandidateFileHashes demo_patch \<noteq> []"
    by code_simp+
  then show st: "car_Status (EvaluateCASPatchApply demo_tested) = CASPatchStatusApplied"
    unfolding evaluate_applied_iff [OF d] f demo_prop_valid(2) base demo_refs list_all_iff set_map
    using demo_prop_valid(1) by blast
  have "list_all (\<lambda>p. p \<in> set (map fst (cai_CandidateFileHashes demo_patch))) [''a.go'', ''b.go'']" by code_simp
  then show "validateCASEvidence (EvaluateCASPatchApply demo_tested) demo_prop = None"
    using applied_accepted_iff [OF d st] unfolding f demo_prop_valid(2) demo_refs list_all_iff set_map by blast
qed

text \<open>The context of the witnesses is valid, but names no schema and no tree hash, so the failure is not recorded.\<close>

theorem test_conflict_recorded_witness:
  "\<exists>item q'. CompleteValidation 1 1 (demo_validation (EvaluateCASPatchApply demo_tested) demo_failure) (Some demo_store)
       demo_started_queue = (Inr item, q', Some demo_store) \<and> pq_State item = PatchQueueStateTestConflict \<and>
     Context_Validate demo_prop = None \<and>
     \<not> (\<exists>r. BuildTestConflict \<lparr>tci_Context = demo_prop, tci_PatchQueueItem = item, tci_Path = ''a.go''\<rparr> = Inr r)"
proof -
  let ?v = "demo_validation (EvaluateCASPatchApply demo_tested) demo_failure"
  have failed: "te_Status demo_failure = PatchQueueTestStatusFailed" by (simp add: demo_failure_def PatchQueueTestStatusFailed_def)
  obtain item q' where c: "CompleteValidation 1 1 ?v (Some demo_store) demo_started_queue = (Inr item, q', Some demo_store)"
    and st: "pq_State item = PatchQueueStateTestConflict" and ps: "pq_Pathset item = [''a.go'', ''b.go'']"
    using demo_validated [OF demo_tested_accepted(2) demo_failure_normal] demo_tested_accepted(1) failed by (metis (full_types))
  have f: "vi_Context ?v = demo_prop" by (simp add: demo_validation_def)
  have op: "''a.go'' = [] \<or> ''a.go'' \<in> set (pq_Pathset item)" by (simp add: ps)
  have "TrimSpace (cs_Schema (ctx_CapabilitySnapshot demo_prop)) = []" by (simp add: demo_prop_def demo_bound_def demo_context_def)
  with test_conflict_recorded [OF demo_started_run c st op] have
    "\<not> (\<exists>r. BuildTestConflict \<lparr>tci_Context = demo_prop, tci_PatchQueueItem = item, tci_Path = ''a.go''\<rparr> = Inr r)"
    unfolding f by blast
  with c st demo_prop_valid(1) show ?thesis by blast
qed

end
