(* ===== verification/Stale_Write.thy ===== *)
theory Stale_Write
  imports Conflict_Properties
begin

section \<open>Writes under a stale lease\<close>

text \<open>
  The lease store, the operation binding and the conflict builder together: a record of a stale write
  always tells the truth about the lease, and when an agent that acquired a lease writes after its expiry, the
  refusal becomes a conflict record exactly for contexts whose references are complete.
\<close>

subsection \<open>Records are sound\<close>

text \<open>What a rejection kind says about the lease observed and the holder who tried to write.\<close>

definition rejection_fits :: "string \<Rightarrow> int \<Rightarrow> FileLeaseHolder \<Rightarrow> FileLease \<Rightarrow> bool" where
  "rejection_fits kind term attempted l \<longleftrightarrow>
     kind = LateStaleWriteRejectionExpiredLease \<and> fl_Status l = FileLeaseStatusExpired \<or>
     kind = LateStaleWriteRejectionReleasedLease \<and> fl_Status l = FileLeaseStatusReleased \<or>
     kind = LateStaleWriteRejectionRevokedLease \<and> fl_Status l = FileLeaseStatusRevoked \<or>
     kind = LateStaleWriteRejectionStaleLeaseTerm \<and> fl_Status l = FileLeaseStatusActive \<and> term \<noteq> fl_Term l \<or>
     kind = LateStaleWriteRejectionStaleHolder \<and> fl_Status l = FileLeaseStatusActive \<and>
       \<not> sameFileLeaseHolderIdentity attempted (HolderForLease l)"

lemma Bind_error_store:
  assumes "lease_inv n s" and "BindMutationOperation wall input (Some s) = (Inl e, ls')"
  obtains s' where "ls' = Some s'" and "\<exists>m. lease_inv m s'" and "store_succ s s'"
proof -
  have inv: "\<exists>m. lease_inv m (snd (AuthorizeMutation wall i s))" "store_succ s (snd (AuthorizeMutation wall i s))" for i
    using AuthorizeMutation_keeps [OF assms(1)] by blast+
  have same: "\<exists>m. lease_inv m s" "store_succ s s" using assms(1) by (auto simp: store_succ_def)
  show thesis
  proof (cases "binding_request input s")
    case (Inl e')
    with assms have "ls' = Some s" by (simp add: BindMutationOperation_def on_store_def)
    with that same show thesis by blast
  next
    case (Inr x)
    obtain a d l ps where x: "x = (a, d, l, ps)" by (cases x)
    let ?i = "\<lparr>au_LeaseID = lr_ID (ctx_Lease a), au_Term = lr_Term (ctx_Lease a), au_Holder = HolderForLease l,
        au_Paths = ps, au_Now = bi_Now input\<rparr>"
    have "ls' = Some (snd (AuthorizeMutation wall ?i s))"
      using assms(2) Inr x by (auto simp: BindMutationOperation_def on_store_def split: prod.splits option.splits)
    with inv that show thesis by blast
  qed
qed

lemma BuildLateStaleWriteConflict_Inr:
  assumes "BuildLateStaleWriteConflict wall lwall input (Some s) = (Inr r, ls')"
  defines "a \<equiv> WithDefaults (lsi_Context input)"
  obtains d lease0 ps paths path h e lease kind where "stale_request input a s = Inr (d, lease0, ps, paths, path, h)"
    and "BindMutationOperation lwall \<lparr>bi_Context = a, bi_MutationPaths = ps, bi_Now = lsi_Now input\<rparr> (Some s) = (Inl e, ls')"
    and "lease = (case ls' of None \<Rightarrow> lease0 | Some s' \<Rightarrow>
      (case findBindingLease s' (lr_ID (ctx_Lease a)) of Inl _ \<Rightarrow> lease0 | Inr l \<Rightarrow> l))"
    and "classifyLateStaleWriteRejection (Some e) a lease h = Inr kind"
    and "r = sealed (stale_record a d ps paths path h lease kind e (normalizeLeaseTime wall (lsi_Now input)))"
    and "ValidateConflictModelResultWithLeaseStore r ls' = None"
  using assms unfolding BuildLateStaleWriteConflict_def option.case Let_def
  by (auto split: sum.splits prod.splits simp: bind_result_Inr finish_conflict_Inr)

lemma stale_record_checks:
  assumes "ValidateConflictModelResultWithLeaseStore (sealed (stale_record a d ps paths path h lease kind e now)) (Some s') = None"
  shows "check_stale_evidence (sealed (stale_record a d ps paths path h lease kind e now)) h lease (HolderForLease lease) (Some s') = None"
    and "canonical_value (lr_ID (ctx_Lease a))"
proof -
  let ?r = "sealed (stale_record a d ps paths path h lease kind e now)"
  have "validateLateStaleWriteConflictModel ?r (Some s') = None"
    using assms unfolding ValidateConflictModelResultWithLeaseStore_def validate_sealed validate_by_reason_def
    by (simp add: stale_record_def)
  then show "check_stale_evidence ?r h lease (HolderForLease lease) (Some s') = None" "canonical_value (lr_ID (ctx_Lease a))"
    unfolding validateLateStaleWriteConflictModel_def guards_Cons_None
    by (simp_all add: stale_record_def sealed_def)
qed

lemma rejection_evidence_fits:
  assumes "validateLateStaleWriteRejectionEvidence r h (HolderForLease l) = None"
    and "cm_ObservedLeaseStatus r = fl_Status l" and "cm_ObservedLeaseTerm r = fl_Term l"
  shows "rejection_fits (cm_RejectionKind r) (cm_LeaseTerm r) h l"
  using assms unfolding validateLateStaleWriteRejectionEvidence_def Let_def rejection_fits_def by (auto split: if_splits)

lemma observed_lease_covers:
  assumes "validateLateStaleWriteObservedLease r l h = None" and "canonical_pathset (fl_Pathset l)"
  shows "set (cm_MutationPaths r) \<subseteq> set (fl_Pathset l)"
proof
  fix p assume p: "p \<in> set (cm_MutationPaths r)"
  have "stringSliceContainsPath (fl_Pathset l) p"
    using assms(1) p NormalizePathSet_canonical [OF assms(2)]
    unfolding validateLateStaleWriteObservedLease_def guards_Cons_None by (simp add: guards_None)
  then obtain x where "x \<in> set (fl_Pathset l)" "TrimSpace x = p" by (auto simp: stringSliceContainsPath_def list_ex_iff)
  moreover have "TrimSpace x = x" if "x \<in> set (fl_Pathset l)" for x
    using that assms(2) NormalizePath_fixed_trimmed unfolding canonical_pathset_def by blast
  ultimately show "p \<in> set (fl_Pathset l)" by simp
qed

text \<open>C16. A stale write is only recorded when it happened and for the right reason: when the builder returns a
  record, the lease store refused the very mutation that the record names, the lease in the record is the
  one the store holds after the refusal under the identifier of the record, it covers the mutation paths,
  and the kind of rejection is the state of that lease: expired, released, revoked, active under another
  term, or active for another holder.\<close>

theorem late_write_sound:
  assumes "lease_inv n s" and "BuildLateStaleWriteConflict wall lwall input (Some s) = (Inr r, ls')"
  shows "\<exists>s' l h. ls' = Some s' \<and> map_of (fs_leases s') (cm_RepoLeaseID r) = Some l \<and> cm_ObservedLease r = Some l \<and>
    cm_AttemptedHolder r = Some h \<and> set (cm_MutationPaths r) \<subseteq> set (fl_Pathset l) \<and>
    rejection_fits (cm_RejectionKind r) (cm_LeaseTerm r) h l \<and>
    (\<exists>e. BindMutationOperation lwall \<lparr>bi_Context = WithDefaults (lsi_Context input), bi_MutationPaths = cm_MutationPaths r,
       bi_Now = lsi_Now input\<rparr> (Some s) = (Inl e, ls'))"
proof -
  let ?a = "WithDefaults (lsi_Context input)"
  obtain d lease0 ps paths path h e l kind where
    bind: "BindMutationOperation lwall \<lparr>bi_Context = ?a, bi_MutationPaths = ps, bi_Now = lsi_Now input\<rparr> (Some s) = (Inl e, ls')"
    and l: "l = (case ls' of None \<Rightarrow> lease0 | Some s' \<Rightarrow>
      (case findBindingLease s' (lr_ID (ctx_Lease ?a)) of Inl _ \<Rightarrow> lease0 | Inr l \<Rightarrow> l))"
    and r: "r = sealed (stale_record ?a d ps paths path h l kind e (normalizeLeaseTime wall (lsi_Now input)))"
    and val: "ValidateConflictModelResultWithLeaseStore r ls' = None"
    by (rule BuildLateStaleWriteConflict_Inr [OF assms(2)])
  obtain s' m where s': "ls' = Some s'" "lease_inv m s'" using Bind_error_store [OF assms(1) bind] by blast
  have f: "cm_RepoLeaseID r = lr_ID (ctx_Lease ?a)" "cm_ObservedLease r = Some l" "cm_AttemptedHolder r = Some h"
    "cm_MutationPaths r = ps" "cm_ObservedLeaseStatus r = fl_Status l" "cm_ObservedLeaseTerm r = fl_Term l"
    by (simp_all add: r stale_record_def sealed_def)
  note c = stale_record_checks [OF val [unfolded r s'(1)], folded r]
  have parts: "validateLateStaleWriteObservedLease r l (HolderForLease l) = None"
    "validateLateStaleWriteRejectionEvidence r h (HolderForLease l) = None"
    "validateLateStaleWriteObservedLeaseStore r (Some s') = None"
    using c(1) unfolding check_stale_evidence_def guards_Cons_None by blast+
  obtain x where x: "findBindingLease s' (lr_ID (ctx_Lease ?a)) = Inr x"
    using parts(3) f(1) unfolding validateLateStaleWriteObservedLeaseStore_def by (auto split: sum.splits)
  then have "x = l" unfolding l s'(1) by simp
  with x c(2) have at: "map_of (fs_leases s') (cm_RepoLeaseID r) = Some l"
    unfolding findBindingLease_Inr [OF s'(2)] f(1) canonical_value_def by simp
  have "canonical_pathset (fl_Pathset l)" using lease_invD(2) [OF s'(2) at] by (simp add: lease_ok_def)
  note covers = observed_lease_covers [OF parts(1) this]
  from bind have "\<exists>e. BindMutationOperation lwall \<lparr>bi_Context = ?a, bi_MutationPaths = cm_MutationPaths r,
       bi_Now = lsi_Now input\<rparr> (Some s) = (Inl e, ls')" unfolding f(4) by blast
  with s'(1) at f(2,3) covers rejection_evidence_fits [OF parts(2) f(5,6)] show ?thesis by blast
qed

subsection \<open>The refusal\<close>

text \<open>Appending ASCII text commutes with lower-casing, whatever is before it.\<close>

lemma ToLower_before_ascii: "(of_char x :: nat) < 128 \<Longrightarrow> ToLower (b # x # s) = ascii_lower b # ToLower (x # s)"
  by (cases s) auto

lemma ToLower_append_ascii: "\<forall>c \<in> set t. (of_char c :: nat) < 128 \<Longrightarrow> ToLower (s @ t) = ToLower s @ ToLower t"
proof (induction s rule: ToLower.induct)
  case (2 a b)
  then show ?case by (cases t) (auto simp: ToLower_before_ascii ToLower_ascii)
next
  case (3 a)
  then show ?case by (cases t; cases "tl t") auto
qed auto

definition expired_error :: "FileLease \<Rightarrow> err" where
  "expired_error l = Errorf ''mutation operation lease authorization: %w''
     [AErr (Errorf ''lease %s is %s'' [AStr (fl_ID l), AStr FileLeaseStatusExpired])]"

lemma expired_error_text: "err_text (expired_error l) = ''mutation operation lease authorization: lease '' @ fl_ID l @ '' is expired''"
  by (simp add: expired_error_def FileLeaseStatusExpired_def)

lemma expired_error_message:
  "canonical_value (err_text (expired_error l))" "Contains (ToLower (err_text (expired_error l))) ''expired''"
proof -
  show "canonical_value (err_text (expired_error l))"
    unfolding canonical_value_def expired_error_text by (simp add: TrimSpace_graphic graphic_def)
  have "ToLower (err_text (expired_error l)) =
      ToLower (''mutation operation lease authorization: lease '' @ fl_ID l) @ ToLower '' is expired''"
    unfolding expired_error_text append_assoc [symmetric] by (rule ToLower_append_ascii) simp
  also have "ToLower '' is expired'' = '' is '' @ ''expired''" by code_simp
  finally have "ToLower (err_text (expired_error l)) =
      (ToLower (''mutation operation lease authorization: lease '' @ fl_ID l) @ '' is '') @ ''expired'' @ []" by (simp only: append_assoc append_Nil2)
  then show "Contains (ToLower (err_text (expired_error l))) ''expired''" unfolding Contains_iff by (intro exI)
qed

lemma expired_authorization:
  assumes inv: "lease_inv n s" and at: "map_of (fs_leases s) (fl_ID l) = Some l"
    and lid: "TrimSpace (fl_ID l) = fl_ID l" "fl_ID l \<noteq> []" and h: "validateFileLeaseHolder h = None"
    and ex: "leaseExpiredAt l (normalizeLeaseTime wall t)" "fl_Status l = FileLeaseStatusActive" and ps: "NormalizePathSet ps = Inr qs" "qs \<noteq> []"
  shows "AuthorizeMutation wall \<lparr>au_LeaseID = fl_ID l, au_Term = fl_Term l, au_Holder = h, au_Paths = ps, au_Now = t\<rparr> s =
    (Some (Errorf ''lease %s is %s'' [AStr (fl_ID l), AStr FileLeaseStatusExpired]), expireLocked (normalizeLeaseTime wall t) s)"
proof -
  let ?l = "expire_lease (normalizeLeaseTime wall t) l"
  have l': "map_of (fs_leases (expireLocked (normalizeLeaseTime wall t) s)) (fl_ID l) = Some ?l" using at by (simp add: expireLocked_map [OF inv])
  have st: "fl_Status ?l = FileLeaseStatusExpired" "fl_ID ?l = fl_ID l" using ex by (simp_all add: expire_lease_def lease_active_def)
  have "0 < fl_Term l" using lease_invD(2) [OF inv at] by (simp add: lease_ok_def)
  with l' st lid h ps show ?thesis
    by (simp add: AuthorizeMutation_def requireLiveLeaseLocked_def Let_def FileLeaseStatusExpired_def FileLeaseStatusActive_def)
qed

subsection \<open>The record\<close>

text \<open>A context in which no reference that a stale write record copies is empty or has surrounding white space.\<close>

definition canonical_refs :: "Context \<Rightarrow> bool" where
  "canonical_refs a \<longleftrightarrow> list_all canonical_value
     [ctx_WorkspaceID a, ctx_TaskID a, ctx_SessionID a, ctx_RunID a, ctx_AgentID a, pr_Type (ctx_Principal a), pr_ID (ctx_Principal a),
      cs_ID (ctx_CapabilitySnapshot a), cs_Schema (ctx_CapabilitySnapshot a), ctx_RepoRoot a, base_Ref (ctx_Base a),
      base_TreeHash (ctx_Base a), pqr_QueueID (ctx_PatchQueue a), pqr_ItemID (ctx_PatchQueue a), op_ID (ctx_Operation a),
      op_Kind (ctx_Operation a)]"

definition holder_of :: "Context \<Rightarrow> string \<Rightarrow> FileLeaseHolder" where
  "holder_of a d = \<lparr>fh_WorkspaceID = ctx_WorkspaceID a, fh_TaskID = ctx_TaskID a, fh_SessionID = ctx_SessionID a,
     fh_RunID = ctx_RunID a, fh_AgentID = ctx_AgentID a, fh_Principal = ctx_Principal a,
     fh_CapabilitySnapshotID = cs_ID (ctx_CapabilitySnapshot a), fh_ContextDigest = d\<rparr>"

text \<open>The lease as the store holds it after the sweep at the instant of the attempt.\<close>

definition swept_lease :: "Context \<Rightarrow> int \<Rightarrow> string \<Rightarrow> instant \<Rightarrow> int \<Rightarrow> instant \<Rightarrow> FileLease" where
  "swept_lease c term d x ttl t =
     (new_lease c term d (ctx_Pathset c) x ttl)\<lparr>fl_Status := FileLeaseStatusExpired, fl_UpdatedAt := formatLeaseTime t\<rparr>"

lemma swept_lease_fields [simp]:
  "fl_Schema (swept_lease c term d x ttl t) = FileLeaseSchemaVersion" "fl_ID (swept_lease c term d x ttl t) = buildFileLeaseID c term d"
  "fl_Term (swept_lease c term d x ttl t) = term" "fl_Status (swept_lease c term d x ttl t) = FileLeaseStatusExpired"
  "fl_WorkspaceID (swept_lease c term d x ttl t) = ctx_WorkspaceID c" "fl_TaskID (swept_lease c term d x ttl t) = ctx_TaskID c"
  "fl_SessionID (swept_lease c term d x ttl t) = ctx_SessionID c" "fl_RunID (swept_lease c term d x ttl t) = ctx_RunID c"
  "fl_AgentID (swept_lease c term d x ttl t) = ctx_AgentID c" "fl_Principal (swept_lease c term d x ttl t) = ctx_Principal c"
  "fl_CapabilitySnapshotID (swept_lease c term d x ttl t) = cs_ID (ctx_CapabilitySnapshot c)"
  "fl_RepoRoot (swept_lease c term d x ttl t) = ctx_RepoRoot c" "fl_Pathset (swept_lease c term d x ttl t) = ctx_Pathset c"
  "fl_ContextDigest (swept_lease c term d x ttl t) = d" "fl_AcquiredAt (swept_lease c term d x ttl t) = formatLeaseTime x"
  "fl_UpdatedAt (swept_lease c term d x ttl t) = formatLeaseTime t" "fl_ExpiresAt (swept_lease c term d x ttl t) = formatLeaseTime (x + ttl)"
  "HolderForLease (swept_lease c term d x ttl t) = holder_of c d"
  by (simp_all add: swept_lease_def new_lease_def HolderForLease_def holder_of_def)

lemma time_text_canonical [simp]: "canonical_value (formatLeaseTime t)"
  by (simp add: formatLeaseTime_def canonical_value_def TrimSpace_time_Format)

lemma swept_times:
  assumes "in_years t" and "0 \<le> x" and "0 < ttl" and "x + ttl \<le> t"
  shows "check_lease_times (swept_lease c term d x ttl t) (formatLeaseTime t) = None"
proof -
  have "in_years x" "in_years (x + ttl)" using in_years_mono [OF assms(1)] assms(2-4) by auto
  then show ?thesis
    using assms by (simp add: check_lease_times_def validateLateStaleWriteObservedLeaseTime_def formatLeaseTime_def time_Parse_Format
        FileLeaseStatusExpired_def FileLeaseStatusActive_def)
qed

lemma holder_of_canonical:
  assumes "canonical_refs a" and "canonical_value d"
  shows "validateCanonicalFileLeaseHolder f (holder_of a d) = None" and "validateFileLeaseHolder (holder_of a d) = None"
  using assms unfolding validateCanonicalFileLeaseHolder_def validateFileLeaseHolder_def canonical_refs_def
  by (simp_all add: holder_of_def canonical_value_def)

text \<open>The checks on the evidence of a write by the holder of the swept lease.\<close>

lemma swept_evidence:
  fixes c :: Context and tm ttl :: int and x t :: instant and j :: json
  defines "d \<equiv> json_digest j"
  defines "l \<equiv> swept_lease c tm d x ttl t"
  assumes a: "a = c\<lparr>ctx_Lease := \<lparr>lr_ID = buildFileLeaseID c tm d, lr_Term = tm\<rparr>, ctx_PatchQueue := q, ctx_Operation := oper\<rparr>"
    and can: "canonical_refs a" and ps: "canonical_pathset (ctx_Pathset c)" "ctx_Pathset c \<noteq> []"
    and time: "in_years t" "0 \<le> x" "0 < ttl" "x + ttl \<le> t"
    and at: "findBindingLease s' (buildFileLeaseID c tm d) = Inr l"
    and d': "canonical_value d'"
  shows "check_stale_evidence (sealed (stale_record a d' (ctx_Pathset c) (ctx_Pathset c) p (holder_of a d') l
    LateStaleWriteRejectionExpiredLease (expired_error l) t)) (holder_of a d') l (HolderForLease l) (Some s') = None"
proof -
  define r where "r = sealed (stale_record a d' (ctx_Pathset c) (ctx_Pathset c) p (holder_of a d') l
    LateStaleWriteRejectionExpiredLease (expired_error l) t)"
  have f: "cm_AttemptedHolderDigest r = digestFileLeaseHolder (holder_of a d')" "cm_ObservedHolderDigest r = digestFileLeaseHolder (HolderForLease l)"
    "cm_RepoLeaseID r = buildFileLeaseID c tm d" "cm_ObservedLeaseDigest r = digestFileLease l" "cm_ObservedLease r = Some l"
    "cm_AttemptedAt r = formatLeaseTime t" "cm_MutationPaths r = ctx_Pathset c" "cm_RejectionKind r = LateStaleWriteRejectionExpiredLease"
    "cm_RejectionMessage r = err_text (expired_error l)" "cm_ObservedLeaseStatus r = fl_Status l" "cm_ObservedLeaseTerm r = fl_Term l"
    "cm_WorkspaceID r = ctx_WorkspaceID c" "cm_TaskID r = ctx_TaskID c" "cm_SessionID r = ctx_SessionID c" "cm_RunID r = ctx_RunID c"
    "cm_AgentID r = ctx_AgentID c" "cm_PrincipalType r = pr_Type (ctx_Principal c)" "cm_PrincipalID r = pr_ID (ctx_Principal c)"
    "cm_CapabilitySnapshotID r = cs_ID (ctx_CapabilitySnapshot c)" "cm_ContextDigest r = d'"
    by (simp_all add: r_def stale_record_def sealed_def a)
  have canc: "canonical_value (ctx_WorkspaceID c)" "canonical_value (ctx_TaskID c)" "canonical_value (ctx_SessionID c)"
    "canonical_value (ctx_RunID c)" "canonical_value (ctx_AgentID c)" "canonical_value (pr_Type (ctx_Principal c))"
    "canonical_value (pr_ID (ctx_Principal c))" "canonical_value (cs_ID (ctx_CapabilitySnapshot c))" "canonical_value (ctx_RepoRoot c)"
    using can by (simp_all add: canonical_refs_def a)
  have lid: "canonical_value (buildFileLeaseID c tm d)"
    unfolding d_def canonical_value_def by (simp add: TrimSpace_buildFileLeaseID)
  have st: "canonical_value FileLeaseStatusExpired"
    by (simp add: canonical_value_def FileLeaseStatusExpired_def TrimSpace_graphic graphic_def)
  have h: "HolderForLease l = holder_of c d" by (simp add: l_def)
  have own: "validateCanonicalFileLeaseHolder w (holder_of c d) = None" for w
    using canc unfolding validateCanonicalFileLeaseHolder_def validateFileLeaseHolder_def
    by (simp add: holder_of_def canonical_value_def d_def)
  have refs: "validateLateStaleWriteHolderRefs r (holder_of a d') (HolderForLease l) = None"
    unfolding validateLateStaleWriteHolderRefs_def f h by (simp add: holder_of_def a)
  have "list_all (stringSliceContainsPath (ctx_Pathset c)) (ctx_Pathset c)"
    using ps(1) NormalizePath_fixed_trimmed by (auto simp: canonical_pathset_def stringSliceContainsPath_def list_all_iff list_ex_iff)
  then have lease: "validateLateStaleWriteObservedLease r l (HolderForLease l) = None"
    using canc lid st swept_times [OF time, of c tm d] NormalizePathSet_canonical [OF ps(1)] ps(2)
    unfolding validateLateStaleWriteObservedLease_def f guards_Cons_None l_def
    by (simp add: guards_None list_all_iff buildFileLeaseID_def sameFileLeaseHolder_def d_def)
  have rej: "validateLateStaleWriteRejectionEvidence r (holder_of a d') (HolderForLease l) = None"
    using expired_error_message(2) [of l]
    unfolding validateLateStaleWriteRejectionEvidence_def f Let_def h by (simp add: sameFileLeaseHolderIdentity_def holder_of_def a l_def)
  have "validateLateStaleWriteObservedLeaseStore r (Some s') = None"
    unfolding validateLateStaleWriteObservedLeaseStore_def option.case f at by simp
  with refs lease rej own holder_of_canonical(1) [OF can d'] show ?thesis
    unfolding r_def [symmetric] check_stale_evidence_def f h by simp
qed

lemma swept_record_valid:
  fixes c :: Context and tm ttl :: int and x t :: instant and j :: json
  defines "d \<equiv> json_digest j"
  defines "l \<equiv> swept_lease c tm d x ttl t"
  assumes a: "a = c\<lparr>ctx_Lease := \<lparr>lr_ID = buildFileLeaseID c tm d, lr_Term = tm\<rparr>, ctx_PatchQueue := q, ctx_Operation := oper\<rparr>"
    and can: "canonical_refs a" and ps: "canonical_pathset (ctx_Pathset c)" "ctx_Pathset c \<noteq> []"
    and time: "in_years t" "0 \<le> x" "0 < ttl" "x + ttl \<le> t"
    and at: "findBindingLease s' (buildFileLeaseID c tm d) = Inr l"
    and d': "canonical_value d'" and conc: "requireConcreteMutationOperationRefs a = None"
  shows "ValidateConflictModelResultWithLeaseStore (sealed (stale_record a d' (ctx_Pathset c) (ctx_Pathset c) (hd (ctx_Pathset c))
    (holder_of a d') l LateStaleWriteRejectionExpiredLease (expired_error l) t)) (Some s') = None"
proof -
  define r where "r = stale_record a d' (ctx_Pathset c) (ctx_Pathset c) (hd (ctx_Pathset c))
    (holder_of a d') l LateStaleWriteRejectionExpiredLease (expired_error l) t"
  have evidence: "check_stale_evidence (sealed r) (holder_of a d') l (HolderForLease l) (Some s') = None"
    unfolding r_def l_def d_def
    by (rule swept_evidence) (use a can ps time at d' in \<open>simp_all add: l_def d_def\<close>)
  have hd: "hd (ctx_Pathset c) \<in> set (ctx_Pathset c)" using ps(2) by simp
  then have p: "NormalizePath (hd (ctx_Pathset c)) = Inr (hd (ctx_Pathset c))" using ps(1) by (simp add: canonical_pathset_def)
  have contains: "stringSliceContainsPath (ctx_Pathset c) (hd (ctx_Pathset c))"
    by (rule stringSliceContains_canonical [OF p hd NormalizePath_fixed_trimmed [OF p]])
  have lid: "canonical_value (buildFileLeaseID c tm d)"
    unfolding d_def canonical_value_def by (simp add: TrimSpace_buildFileLeaseID)
  have st: "canonical_value FileLeaseStatusExpired" "canonical_value LateStaleWriteRejectionExpiredLease"
    by (simp_all add: canonical_value_def FileLeaseStatusExpired_def LateStaleWriteRejectionExpiredLease_def TrimSpace_graphic graphic_def)
  have refs: "rejectVagueBindingLabel ''repo_lease_id'' (buildFileLeaseID c tm d) = None" "0 < tm"
    "rejectVagueBindingLabel ''patch_queue_id'' (pqr_QueueID q) = None"
    "rejectVagueBindingLabel ''patch_queue_item_id'' (pqr_ItemID q) = None" "rejectVagueBindingLabel ''operation_id'' (op_ID oper) = None"
    "rejectVagueBindingLabel ''operation_kind'' (op_Kind oper) = None" "op_Kind oper \<in> set allowedMutationOperationKinds"
    using conc can unfolding requireConcreteMutationOperationRefs_def canonical_refs_def by (simp_all add: a canonical_value_def)
  have parse: "time_Parse (formatLeaseTime t) = Some t" by (simp add: formatLeaseTime_def time_Parse_Format [OF time(1)])
  have "validateLateStaleWriteConflictModel (sealed r) (Some s') = None"
    unfolding validateLateStaleWriteConflictModel_def guards_Cons_None
    using evidence p contains ps(2) NormalizePathSet_canonical [OF ps(1)] can lid st refs parse expired_error_message(1) [of l] d'
    by (simp add: r_def stale_record_def sealed_def zero_conflict_def a canonical_refs_def digestFileLeaseHolder_def digestFileLease_def l_def)
  then show ?thesis
    unfolding ValidateConflictModelResultWithLeaseStore_def r_def [symmetric] validate_sealed validate_by_reason_def
    using can by (simp add: r_def stale_record_def a canonical_refs_def)
qed

subsection \<open>The whole attempt\<close>

lemma expired_attempt:
  assumes inv: "lease_inv n s'" and at: "map_of (fs_leases s') (fl_ID l) = Some l"
    and l: "l = new_lease c tm (json_digest j) (ctx_Pathset c) x ttl"
    and ex: "in_years (x + ttl)" "x + ttl \<le> t" "t \<noteq> 0"
    and h: "validateFileLeaseHolder (HolderForLease l) = None" and ps: "NormalizePathSet ps = Inr qs" "qs \<noteq> []"
    and req: "binding_request i s' = Inr (a, dg, l, ps)" and lease: "ctx_Lease a = \<lparr>lr_ID = fl_ID l, lr_Term = fl_Term l\<rparr>" and now: "bi_Now i = t"
  shows "BindMutationOperation wall i (Some s') = (Inl (expired_error l), Some (expireLocked t s'))"
    and "findBindingLease (expireLocked t s') (fl_ID l) = Inr (swept_lease c tm (json_digest j) x ttl t)"
proof -
  have lid: "TrimSpace (fl_ID l) = fl_ID l" "fl_ID l \<noteq> []" by (simp_all add: l new_lease_def TrimSpace_buildFileLeaseID)
  have act: "fl_Status l = FileLeaseStatusActive" and over: "leaseExpiredAt l t"
    using expiry_exact [OF ex(1), of l t] ex(2) by (simp_all add: l new_lease_def)
  have norm: "normalizeLeaseTime wall t = t" using ex(3) by (simp add: normalizeLeaseTime_def)
  from expired_authorization [OF inv at lid h, of wall t ps qs] act over norm ps
  have "AuthorizeMutation wall \<lparr>au_LeaseID = fl_ID l, au_Term = fl_Term l, au_Holder = HolderForLease l, au_Paths = ps, au_Now = t\<rparr> s' =
      (Some (Errorf ''lease %s is %s'' [AStr (fl_ID l), AStr FileLeaseStatusExpired]), expireLocked t s')" by simp
  then show "BindMutationOperation wall i (Some s') = (Inl (expired_error l), Some (expireLocked t s'))"
    by (simp add: BindMutationOperation_def on_store_def req lease now expired_error_def)
  have "expire_lease t l = swept_lease c tm (json_digest j) x ttl t"
    using act over by (simp add: expire_lease_def lease_active_def swept_lease_def l)
  then show "findBindingLease (expireLocked t s') (fl_ID l) = Inr (swept_lease c tm (json_digest j) x ttl t)"
    using at lid(1) by (simp add: findBindingLease_Inr [OF lease_inv_expire [OF inv]] expireLocked_map [OF inv])
qed

lemma stale_request_Inr:
  assumes "requireConcreteMutationOperationRefs a = None" "Context_Validate a = None" "WithDefaults a = a"
    and "findBindingLease s (lr_ID (ctx_Lease a)) = Inr l" and "canonical_pathset (ctx_Pathset a)" "ctx_Pathset a \<noteq> []"
  defines "d \<equiv> json_digest (json_context a)"
  shows "stale_request \<lparr>lsi_Context = a, lsi_MutationPaths = [], lsi_Now = t, lsi_Path = []\<rparr> a s =
    Inr (d, l, ctx_Pathset a, ctx_Pathset a, hd (ctx_Pathset a), holder_of a d)"
proof -
  have "Context_Digest a = Inr d" using assms(2,3) by (simp add: Context_Digest_Inr d_def)
  moreover have "chooseLateStaleWritePaths (ctx_Pathset a) [] = Inr (ctx_Pathset a, hd (ctx_Pathset a))"
    using NormalizePathSet_canonical [OF assms(5)] assms(6) by (simp add: chooseLateStaleWritePaths_def map_err_def fail_if_def)
  ultimately show ?thesis
    using assms(1,4,6) NormalizePathSet_canonical [OF assms(5)]
    by (simp add: stale_request_def map_err_def wrap_err_def fileLeaseHolderFromContext_def holder_of_def fail_if_def)
qed

lemma expired_write_recorded:
  assumes "lease_inv n s" and "int n + 2 < 2 ^ 63" and "Acquire wall input s = (Inr l, s')"
    and "ctx_Lease (ac_Context input) = no_lease" and "ctx_PatchQueue (ac_Context input) = no_patch_queue"
    and "ctx_Operation (ac_Context input) = no_operation"
    and "0 \<le> normalizeLeaseTime wall (ac_Now input)" and "in_years t" and "normalizeLeaseTime wall (ac_Now input) + ac_TTL input \<le> t"
    and "c' = (WithDefaults (ac_Context input))\<lparr>ctx_Lease := \<lparr>lr_ID = fl_ID l, lr_Term = fl_Term l\<rparr>,
        ctx_PatchQueue := q, ctx_Operation := oper\<rparr>"
    and "requireConcreteMutationOperationRefs c' = None" and "canonical_refs c'"
  shows "\<exists>r. BuildLateStaleWriteConflict wall' lwall \<lparr>lsi_Context = c', lsi_MutationPaths = [], lsi_Now = t, lsi_Path = []\<rparr> (Some s') =
      (Inr r, Some (expireLocked t s')) \<and> cm_RejectionKind r = LateStaleWriteRejectionExpiredLease \<and>
    cm_ObservedLease r = map_of (fs_leases (expireLocked t s')) (fl_ID l) \<and> cm_MutationPaths r = fl_Pathset l"
proof -
  let ?c = "WithDefaults (ac_Context input)" and ?x = "normalizeLeaseTime wall (ac_Now input)" and ?ttl = "ac_TTL input"
  let ?d = "json_digest (json_context c')"
  obtain ps where r: "acquire_request input = Inr (?c, json_digest (json_context ?c), ps)" and v: "Context_Validate ?c = None"
    and l0: "l = new_lease ?c (fs_nextTerm s) (json_digest (json_context ?c)) ps ?x ?ttl"
    using acquired_lease(3) [OF assms(1-3)] acquire_request_Inr(1) by blast
  have ps: "ps = ctx_Pathset ?c" "canonical_pathset (ctx_Pathset ?c)" "ctx_Pathset ?c \<noteq> []" and ttl: "0 < ?ttl"
    using acquire_request_Inr [OF r] by simp_all
  note l = l0 [unfolded ps(1)]
  have fields: "fl_Term l = fs_nextTerm s" "fl_ID l = buildFileLeaseID ?c (fs_nextTerm s) (json_digest (json_context ?c))"
    "fl_Pathset l = ctx_Pathset ?c" by (simp_all add: l new_lease_def)
  have can: "canonical_refs c'" by (rule assms(12))
  have tr: "trimmed_identity l" "trimmed (ctx_RepoRoot (ac_Context input))"
    using can by (simp_all add: trimmed_identity_def trimmed_def l new_lease_def canonical_refs_def canonical_value_def assms(10))
  have path: "NormalizePathSet (if ctx_Pathset ?c = [] then ctx_Pathset (ac_Context input) else ctx_Pathset ?c) = Inr (ctx_Pathset ?c)"
    using NormalizePathSet_canonical [OF ps(2)] ps(3) by simp
  note a1 = acquired_request(1) [OF assms(1-6) tr assms(10,11) path ps(3), of t]
  note a = acquired_request(2-4) [OF assms(1-6) tr assms(10,11) path ps(3)]
  have c': "ctx_Lease c' = \<lparr>lr_ID = fl_ID l, lr_Term = fl_Term l\<rparr>" "ctx_Pathset c' = ctx_Pathset ?c" by (simp_all add: assms(10))
  have yr: "in_years (?x + ?ttl)" "t \<noteq> 0" using in_years_mono [OF assms(8), of "?x + ?ttl"] assms(7,9) ttl by auto
  have holder: "validateFileLeaseHolder (HolderForLease l) = None" using new_lease_holder_valid [OF v] by (simp add: l)
  have n1: "NormalizePathSet (ctx_Pathset ?c) = Inr (ctx_Pathset ?c)" by (rule NormalizePathSet_canonical [OF ps(2)])
  have now: "bi_Now \<lparr>bi_Context = c', bi_MutationPaths = ctx_Pathset ?c, bi_Now = t\<rparr> = t" by simp
  note att = expired_attempt [OF acquired_lease(1,2) [OF assms(1-3)] l yr(1) assms(9) yr(2) holder n1 ps(3) a1 c'(1) now]
  define sl where "sl = swept_lease ?c (fs_nextTerm s) (json_digest (json_context ?c)) ?x ?ttl t"
  have req: "stale_request \<lparr>lsi_Context = c', lsi_MutationPaths = [], lsi_Now = t, lsi_Path = []\<rparr> c' s' =
      Inr (?d, l, ctx_Pathset ?c, ctx_Pathset ?c, hd (ctx_Pathset ?c), holder_of c' ?d)"
    using stale_request_Inr [OF assms(11) a(1,2), of s' l t] a(3) ps(2,3) c' by simp
  have err: "expired_error sl = expired_error l" by (simp add: sl_def expired_error_def fields)
  let ?rec = "stale_record c' ?d (ctx_Pathset ?c) (ctx_Pathset ?c) (hd (ctx_Pathset ?c)) (holder_of c' ?d) sl
    LateStaleWriteRejectionExpiredLease (expired_error l) t"
  have valid: "ValidateConflictModelResultWithLeaseStore (sealed ?rec) (Some (expireLocked t s')) = None"
    unfolding err [symmetric] sl_def
    by (rule swept_record_valid [OF _ can ps(2,3) assms(8,7) ttl assms(9) _ canonical_value_digest assms(11)])
      (use att(2) in \<open>simp_all add: assms(10) fields\<close>)
  have cl: "classifyLateStaleWriteRejection (Some (expired_error l)) c' sl (holder_of c' ?d) = Inr LateStaleWriteRejectionExpiredLease"
    by (simp add: classifyLateStaleWriteRejection_def Let_def sl_def)
  have "BuildLateStaleWriteConflict wall' lwall \<lparr>lsi_Context = c', lsi_MutationPaths = [], lsi_Now = t, lsi_Path = []\<rparr> (Some s') =
      (Inr (sealed ?rec), Some (expireLocked t s'))"
    unfolding BuildLateStaleWriteConflict_def option.case Let_def
    using req att cl valid yr(2) a(2) c'(1)
    by (simp add: sl_def finish_conflict_def normalizeLeaseTime_def)
  moreover have "map_of (fs_leases (expireLocked t s')) (fl_ID l) = Some sl"
    using att(2) unfolding findBindingLease_Inr [OF lease_inv_expire [OF acquired_lease(1) [OF assms(1-3)]]] sl_def
    by (simp add: fields TrimSpace_buildFileLeaseID)
  ultimately show ?thesis by (intro exI [of _ "sealed ?rec"]) (simp add: stale_record_def sealed_def fields)
qed

text \<open>What the validator asks of the context of a recorded stale write, and of the lease in the store.\<close>

lemma recorded_refs:
  assumes inv: "lease_inv n s" and built: "BuildLateStaleWriteConflict wall lwall input (Some s) = (Inr r, ls')"
    and l: "map_of (fs_leases s) (lr_ID (ctx_Lease (lsi_Context input))) = Some l"
      "fl_RepoRoot l = ctx_RepoRoot (lsi_Context input)"
  shows "requireConcreteMutationOperationRefs (lsi_Context input) = None" and "canonical_refs (lsi_Context input)"
proof -
  let ?c = "lsi_Context input"
  let ?a = "WithDefaults ?c"
  obtain d lease0 ps paths path h e x kind where req: "stale_request input ?a s = Inr (d, lease0, ps, paths, path, h)"
    and bind: "BindMutationOperation lwall \<lparr>bi_Context = ?a, bi_MutationPaths = ps, bi_Now = lsi_Now input\<rparr> (Some s) = (Inl e, ls')"
    and x: "x = (case ls' of None \<Rightarrow> lease0 | Some s' \<Rightarrow>
      (case findBindingLease s' (lr_ID (ctx_Lease ?a)) of Inl _ \<Rightarrow> lease0 | Inr l \<Rightarrow> l))"
    and r: "r = sealed (stale_record ?a d ps paths path h x kind e (normalizeLeaseTime wall (lsi_Now input)))"
    and val: "ValidateConflictModelResultWithLeaseStore r ls' = None"
    by (rule BuildLateStaleWriteConflict_Inr [OF built])
  have "requireConcreteMutationOperationRefs ?a = None" using req by (simp add: stale_request_def)
  then show "requireConcreteMutationOperationRefs ?c = None" by (simp add: requireConcreteMutationOperationRefs_def)
  obtain s' m where s': "ls' = Some s'" "lease_inv m s'" "store_succ s s'" using Bind_error_store [OF inv bind] by blast
  have v: "validateLateStaleWriteConflictModel r (Some s') = None" and ws: "canonical_value (cm_WorkspaceID r)"
    using val unfolding s'(1) ValidateConflictModelResultWithLeaseStore_def r validate_sealed validate_by_reason_def
    by (simp_all add: stale_record_def)
  note c = stale_record_checks [OF val [unfolded r s'(1)]]
  have "canonical_value (fl_RepoRoot x)"
    using c(1) unfolding check_stale_evidence_def guards_Cons_None validateLateStaleWriteObservedLease_def by simp
  moreover have "fl_RepoRoot x = fl_RepoRoot l"
  proof -
    obtain l' where l': "map_of (fs_leases s') (lr_ID (ctx_Lease ?a)) = Some l'" "lease_succ l l'"
      using s'(3) l(1) unfolding store_succ_def by simp blast
    have "TrimSpace (lr_ID (ctx_Lease ?a)) = lr_ID (ctx_Lease ?a)" "lr_ID (ctx_Lease ?a) \<noteq> []" using c(2) by (simp_all add: canonical_value_def)
    then have "findBindingLease s' (lr_ID (ctx_Lease ?a)) = Inr l'" using l'(1) by (simp add: findBindingLease_Inr [OF s'(2)])
    then have "x = l'" unfolding x s'(1) by simp
    moreover have "fl_RepoRoot l' = fl_RepoRoot l"
      using arg_cong [OF conjunct1 [OF l'(2) [unfolded lease_succ_def]], of fl_RepoRoot] by simp
    ultimately show ?thesis by simp
  qed
  ultimately show "canonical_refs ?c"
    using v ws l(2) unfolding validateLateStaleWriteConflictModel_def guards_Cons_None r
    by (simp add: canonical_refs_def stale_record_def sealed_def)
qed

text \<open>C18. Which late writes leave a trace: when a lease was acquired on a context without references, and the
  context, now with this lease, a queue item and an operation, attempts the mutation of all paths at or after the
  expiry, with no other call on the store in between, then the refusal can be recorded exactly when the references
  of lease, queue and operation are concrete and every text that a record copies from the context is non-empty and
  without surrounding white space, the capability schema and both parts of the base among them. The record then is of
  a write under an expired lease, with the lease as the store now holds it, marked expired, and all of its paths.\<close>

theorem late_write_recorded:
  assumes "lease_inv n s" and "int n + 2 < 2 ^ 63" and "Acquire wall input s = (Inr l, s')"
    and "ctx_Lease (ac_Context input) = no_lease" and "ctx_PatchQueue (ac_Context input) = no_patch_queue"
    and "ctx_Operation (ac_Context input) = no_operation"
    and "0 \<le> normalizeLeaseTime wall (ac_Now input)" and "in_years t" and "normalizeLeaseTime wall (ac_Now input) + ac_TTL input \<le> t"
    and "c' = (WithDefaults (ac_Context input))\<lparr>ctx_Lease := \<lparr>lr_ID = fl_ID l, lr_Term = fl_Term l\<rparr>,
        ctx_PatchQueue := q, ctx_Operation := oper\<rparr>"
  shows "((\<exists>r ls'. BuildLateStaleWriteConflict wall' lwall \<lparr>lsi_Context = c', lsi_MutationPaths = [], lsi_Now = t, lsi_Path = []\<rparr> (Some s') =
      (Inr r, ls')) \<longleftrightarrow> requireConcreteMutationOperationRefs c' = None \<and> canonical_refs c') \<and>
    (\<forall>r ls'. BuildLateStaleWriteConflict wall' lwall \<lparr>lsi_Context = c', lsi_MutationPaths = [], lsi_Now = t, lsi_Path = []\<rparr> (Some s') =
      (Inr r, ls') \<longrightarrow> ls' = Some (expireLocked t s') \<and> cm_RejectionKind r = LateStaleWriteRejectionExpiredLease \<and>
      cm_ObservedLease r = map_of (fs_leases (expireLocked t s')) (fl_ID l) \<and> cm_MutationPaths r = fl_Pathset l)"
proof -
  let ?i = "\<lparr>lsi_Context = c', lsi_MutationPaths = [], lsi_Now = t, lsi_Path = []\<rparr>"
  note got = acquired_lease(1,2) [OF assms(1-3)]
  have "fl_RepoRoot l = ctx_RepoRoot (ac_Context input)"
    using acquired_lease(3) [OF assms(1-3)] acquire_request_Inr(1) by (fastforce simp: new_lease_def)
  then have at: "map_of (fs_leases s') (lr_ID (ctx_Lease (lsi_Context ?i))) = Some l" "fl_RepoRoot l = ctx_RepoRoot (lsi_Context ?i)"
    using got(2) by (simp_all add: assms(10))
  have need: "requireConcreteMutationOperationRefs c' = None \<and> canonical_refs c'" if "BuildLateStaleWriteConflict wall' lwall ?i (Some s') = (Inr r, ls')" for r ls'
    using recorded_refs [OF got(1) that at] by simp
  show ?thesis
  proof (cases "requireConcreteMutationOperationRefs c' = None \<and> canonical_refs c'")
    case True
    then have "requireConcreteMutationOperationRefs c' = None" "canonical_refs c'" by blast+
    from expired_write_recorded [OF assms this, of wall' lwall] obtain r where
      "BuildLateStaleWriteConflict wall' lwall ?i (Some s') = (Inr r, Some (expireLocked t s'))"
      "cm_RejectionKind r = LateStaleWriteRejectionExpiredLease"
      "cm_ObservedLease r = map_of (fs_leases (expireLocked t s')) (fl_ID l)" "cm_MutationPaths r = fl_Pathset l" by blast
    with True show ?thesis by simp
  next
    case False
    with need have "BuildLateStaleWriteConflict wall' lwall ?i (Some s') \<noteq> (Inr r, ls')" for r ls' by blast
    with False show ?thesis by simp
  qed
qed

subsection \<open>Witnesses\<close>

definition full_context :: Context where
  "full_context = demo_context\<lparr>ctx_CapabilitySnapshot := \<lparr>cs_ID = ''cap'', cs_Schema = ''cap.v1''\<rparr>,
     ctx_Base := \<lparr>base_Ref = ''main'', base_TreeHash = ''tree'', base_FileHashes = [(''a.go'', ''h1'')]\<rparr>\<rparr>"

definition full_lease :: FileLease where
  "full_lease = new_lease full_context 1 (json_digest (json_context full_context)) [''a.go'', ''b.go''] 1 5"

definition full_store :: FileLeaseStore where
  "full_store = install_lease full_lease (NewFileLeaseStore\<lparr>fs_nextTerm := 2\<rparr>)"

definition full_bound :: Context where
  "full_bound = (WithDefaults full_context)\<lparr>ctx_Lease := \<lparr>lr_ID = fl_ID full_lease, lr_Term = fl_Term full_lease\<rparr>,
     ctx_PatchQueue := \<lparr>pqr_QueueID = ''q1'', pqr_ItemID = ''i1''\<rparr>,
     ctx_Operation := \<lparr>op_ID = ''op1'', op_Kind = ''repo_patch_apply''\<rparr>\<rparr>"

lemma full_context_valid: "Context_Validate full_context = None" "WithDefaults full_context = full_context"
  "NormalizePathSet (ctx_Pathset full_context) = Inr [''a.go'', ''b.go'']"
  by code_simp+

lemma full_acquired: "Acquire 1 \<lparr>ac_Context = full_context, ac_TTL = 5, ac_Now = 1\<rparr> NewFileLeaseStore = (Inr full_lease, full_store)"
proof -
  have "TrimSpace (lr_ID (ctx_Lease full_context)) = [] \<and> TrimSpace (pqr_ItemID (ctx_PatchQueue full_context)) = []
      \<and> TrimSpace (op_ID (ctx_Operation full_context)) = []" by code_simp
  moreover have "Context_Digest full_context = Inr (json_digest (json_context full_context))"
    by (simp add: Context_Digest_Inr full_context_valid)
  ultimately have "acquire_request \<lparr>ac_Context = full_context, ac_TTL = 5, ac_Now = 1\<rparr> =
      Inr (full_context, json_digest (json_context full_context), [''a.go'', ''b.go''])"
    by (simp add: acquire_request_def full_context_valid Let_def fail_if_def)
  then show ?thesis
    by (simp add: Acquire_def Let_def normalizeLeaseTime_def NewFileLeaseStore_def expireLocked_def path_holder_def
        full_lease_def full_store_def wrap64_def)
qed

lemma full_bound_concrete: "requireConcreteMutationOperationRefs full_bound = None"
proof -
  have "rejectVagueBindingLabel ''patch_queue_id'' ''q1'' = None" "rejectVagueBindingLabel ''patch_queue_item_id'' ''i1'' = None"
    "rejectVagueBindingLabel ''operation_id'' ''op1'' = None" "rejectVagueBindingLabel ''operation_kind'' ''repo_patch_apply'' = None"
    "TrimSpace ''repo_patch_apply'' \<in> set allowedMutationOperationKinds"
    by code_simp+
  then show ?thesis
    using lease_id_concrete
    by (simp add: requireConcreteMutationOperationRefs_def full_bound_def full_lease_def new_lease_def)
qed

lemma full_bound_canonical: "canonical_refs full_bound"
  unfolding canonical_refs_def full_bound_def full_context_valid
  by (simp add: full_context_def demo_context_def canonical_value_def TrimSpace_graphic graphic_def)

lemma full_refs: "ctx_Lease full_context = no_lease" "ctx_PatchQueue full_context = no_patch_queue" "ctx_Operation full_context = no_operation"
  by (simp_all add: full_context_def demo_context_def)

definition full_acquire :: AcquireFileLeaseInput where
  "full_acquire = \<lparr>ac_Context = full_context, ac_TTL = 5, ac_Now = 1\<rparr>"

lemma full_hyps:
  "int 0 + 2 < 2 ^ 63" "ctx_Lease (ac_Context full_acquire) = no_lease" "ctx_PatchQueue (ac_Context full_acquire) = no_patch_queue"
  "ctx_Operation (ac_Context full_acquire) = no_operation" "0 \<le> normalizeLeaseTime 1 (ac_Now full_acquire)"
  "normalizeLeaseTime 1 (ac_Now full_acquire) + ac_TTL full_acquire \<le> 6"
  "full_bound = (WithDefaults (ac_Context full_acquire))\<lparr>ctx_Lease := \<lparr>lr_ID = fl_ID full_lease, lr_Term = fl_Term full_lease\<rparr>,
     ctx_PatchQueue := \<lparr>pqr_QueueID = ''q1'', pqr_ItemID = ''i1''\<rparr>, ctx_Operation := \<lparr>op_ID = ''op1'', op_Kind = ''repo_patch_apply''\<rparr>\<rparr>"
  by (simp_all add: full_acquire_def full_refs normalizeLeaseTime_def full_bound_def)

theorem late_write_recorded_witness:
  "\<exists>r. BuildLateStaleWriteConflict 9 9 \<lparr>lsi_Context = full_bound, lsi_MutationPaths = [], lsi_Now = 6, lsi_Path = []\<rparr> (Some full_store) =
      (Inr r, Some (expireLocked 6 full_store)) \<and> cm_RejectionKind r = LateStaleWriteRejectionExpiredLease"
  using late_write_recorded [OF lease_inv_New full_hyps(1) full_acquired [folded full_acquire_def] full_hyps(2-5) demo_years full_hyps(6,7), of 9 9]
    full_bound_concrete full_bound_canonical by blast

theorem late_write_sound_witness:
  "\<exists>r s' l h. BuildLateStaleWriteConflict 9 9 \<lparr>lsi_Context = full_bound, lsi_MutationPaths = [], lsi_Now = 6, lsi_Path = []\<rparr> (Some full_store) =
      (Inr r, Some s') \<and> map_of (fs_leases s') (cm_RepoLeaseID r) = Some l \<and> rejection_fits (cm_RejectionKind r) (cm_LeaseTerm r) h l"
proof -
  let ?i = "\<lparr>lsi_Context = full_bound, lsi_MutationPaths = [], lsi_Now = 6, lsi_Path = []\<rparr>"
  obtain r where r: "BuildLateStaleWriteConflict 9 9 ?i (Some full_store) = (Inr r, Some (expireLocked 6 full_store))"
    using expired_write_recorded [OF lease_inv_New full_hyps(1) full_acquired [folded full_acquire_def] full_hyps(2-5) demo_years full_hyps(6,7)
      full_bound_concrete full_bound_canonical] by blast
  have "lease_inv (Suc 0) full_store" by (rule acquired_lease(1) [OF lease_inv_New _ full_acquired]) simp
  from late_write_sound [OF this r] r show ?thesis by blast
qed

end
