(* ===== verification/Semantic_Conflict.thy ===== *)
theory Semantic_Conflict
  imports Stale_Write
begin

section \<open>Semantic conflicts between items of one queue\<close>

text \<open>
  When two items of a reachable queue can be recorded as a semantic conflict. The record is checked
  against the queue the items are stored in, so the statement ties the builder to the store.
\<close>

subsection \<open>Contenders\<close>

definition semantic_ready :: "PatchQueueItem \<Rightarrow> bool" where
  "semantic_ready i \<longleftrightarrow> list_all canonical_value
     [pq_QueueID i, pq_ItemID i, pq_State i, pq_ContextDigest i, pq_RepoLeaseID i, pq_WorkspaceID i, pq_TaskID i, pq_SessionID i,
      pq_RunID i, pq_AgentID i, pq_PrincipalType i, pq_PrincipalID i, pq_CapabilitySnapshotID i, pq_CapabilitySnapshotSchema i,
      pq_BaseRef i, pq_BaseTreeHash i] \<and> 0 < pq_LeaseTerm i \<and> semanticConflictContenderStateAllowed (pq_State i)"

definition contender :: "PatchQueueItem \<Rightarrow> SemanticConflictContender" where
  "contender i = semantic_contender_of_item i (pq_Pathset i)"

lemma semantic_contender_Inr:
  assumes "canonical_pathset (pq_Pathset i)" and "pq_Pathset i \<noteq> []"
  shows "semanticContenderFromPatchQueueItem i label = Inr c \<longleftrightarrow> semantic_ready i \<and> c = contender i"
  using NormalizePathSet_canonical [OF assms(1)] assms(2)
  by (auto simp: semanticContenderFromPatchQueueItem_def semantic_ready_def contender_def)

lemma contender_simps [simp]:
  "sc_WorkspaceID (contender i) = pq_WorkspaceID i" "sc_QueueID (contender i) = pq_QueueID i" "sc_ItemID (contender i) = pq_ItemID i"
  "sc_Pathset (contender i) = pq_Pathset i" "sc_BaseRef (contender i) = pq_BaseRef i" "sc_BaseTreeHash (contender i) = pq_BaseTreeHash i"
  by (simp_all add: contender_def semantic_contender_of_item_def)

lemma validate_contender:
  assumes "canonical_pathset (pq_Pathset i)" "pq_Pathset i \<noteq> []" "semantic_ready i"
  shows "validateSemanticConflictContender (contender i) (pq_WorkspaceID i) n = None"
  using assms NormalizePathSet_canonical [OF assms(1)]
  by (simp add: validateSemanticConflictContender_def contender_def semantic_contender_of_item_def semantic_ready_def Let_def)

lemma evidence_Inr:
  "normalizeSemanticConflictEvidence k s m = Inr (k', s', m') \<longleftrightarrow>
     k' = TrimSpace k \<and> s' = TrimSpace s \<and> m' = TrimSpace m \<and> semanticConflictKindAllowed k' \<and> s' \<noteq> [] \<and> m' \<noteq> [] \<and>
     length m' \<le> SemanticConflictEvidenceSummaryMaxBytes"
  by (auto simp: normalizeSemanticConflictEvidence_def Let_def semanticConflictKindAllowed_def SemanticConflictKindAPIContract_def
      SemanticConflictKindTestFixture_def SemanticConflictKindBehavior_def SemanticConflictKindPlaceholder_def)

subsection \<open>Merged paths\<close>

lemma NormalizePathSet_merge:
  assumes "canonical_pathset xs" "canonical_pathset ys" "set xs \<inter> set ys = {}" "xs \<noteq> []"
  shows "NormalizePathSet (xs @ ys) = Inr (sort (xs @ ys))" and "canonical_pathset (sort (xs @ ys))"
proof -
  have f: "\<forall>p \<in> set (xs @ ys). NormalizePath p = Inr p" "distinct (xs @ ys)" using assms by (auto simp: canonical_pathset_def)
  have "normalize_paths 0 [] (xs @ ys) = Inr (xs @ ys)" by (rule normalize_paths_fixed) (use f in auto)
  with assms(4) show "NormalizePathSet (xs @ ys) = Inr (sort (xs @ ys))" by (simp add: NormalizePathSet_def)
  show "canonical_pathset (sort (xs @ ys))" using f by (simp add: canonical_pathset_def)
qed

lemma pathsetsOverlap_iff: "pathsetsOverlap xs ys \<longleftrightarrow> set xs \<inter> set ys \<noteq> {}"
  by (auto simp: pathsetsOverlap_def list_ex_iff)

lemma sort_append_commute: "sort (xs @ ys) = sort (ys @ xs :: string list)"
  by (rule properties_for_sort) (simp_all add: union_commute)

lemma choose_path:
  assumes "canonical_pathset ps" "ps \<noteq> []" "p = [] \<or> p \<in> set ps"
  shows "\<exists>p' \<in> set ps. chooseSemanticConflictPath ps p = Inr p'"
proof (cases "p = []")
  case True
  then show ?thesis using NormalizePathSet_canonical [OF assms(1)] assms(2) by (auto simp: chooseSemanticConflictPath_def Let_def bind_result_Inr map_err_Inr)
next
  case False
  with assms have p: "p \<in> set ps" "NormalizePath p = Inr p" by (auto simp: canonical_pathset_def)
  then have "TrimSpace p = p" using NormalizePath_fixed_trimmed by blast
  with p False NormalizePathSet_canonical [OF assms(1)] show ?thesis
    by (intro bexI [OF _ p(1)])
      (auto simp: chooseSemanticConflictPath_def Let_def bind_result_Inr map_err_Inr requested_path_Inr stringSliceContainsPath_def list_ex_iff)
qed

subsection \<open>The record of two items\<close>

definition compatible :: "PatchQueueItem \<Rightarrow> PatchQueueItem \<Rightarrow> bool" where
  "compatible i j \<longleftrightarrow> pq_WorkspaceID i = pq_WorkspaceID j \<and> pq_QueueID i = pq_QueueID j \<and> pq_ItemID i \<noteq> pq_ItemID j \<and>
     pq_BaseRef i = pq_BaseRef j \<and> pq_BaseTreeHash i = pq_BaseTreeHash j \<and> set (pq_Pathset i) \<inter> set (pq_Pathset j) = {}"

lemma semantic_guards_None: "semantic_guards (contender i) (contender j) = None \<longleftrightarrow> compatible i j"
  by (auto simp: semantic_guards_def compatible_def pathsetsOverlap_iff)

definition stored_item :: "PatchQueueStore \<Rightarrow> PatchQueueItem \<Rightarrow> bool" where
  "stored_item q i \<longleftrightarrow> Get (pq_QueueID i) (pq_ItemID i) (Some q) = Some i \<and> canonical_pathset (pq_Pathset i) \<and> pq_Pathset i \<noteq> []"

lemma ordered_record_valid:
  assumes "stored_item q a" "stored_item q b" "semantic_ready a" "semantic_ready b" "compatible a b" "pq_ItemID a < pq_ItemID b"
    and ev: "normalizeSemanticConflictEvidence k s m = Inr (k, s, m)"
    and ps: "ps = sort (pq_Pathset a @ pq_Pathset b)" "p \<in> set ps"
  shows "ValidateConflictModelResultWithPatchQueueStore
    (sealed (semantic_record (pq_WorkspaceID a) k s m ps p [contender a, contender b])) (Some q) = None"
proof -
  let ?r = "semantic_record (pq_WorkspaceID a) k s m ps p [contender a, contender b]"
  have can: "canonical_pathset (pq_Pathset a)" "pq_Pathset a \<noteq> []" "canonical_pathset (pq_Pathset b)" "pq_Pathset b \<noteq> []"
    and got: "Get (pq_QueueID a) (pq_ItemID a) (Some q) = Some a" "Get (pq_QueueID b) (pq_ItemID b) (Some q) = Some b"
    using assms(1,2) by (auto simp: stored_item_def)
  have w: "pq_WorkspaceID b = pq_WorkspaceID a" and dis: "set (pq_Pathset a) \<inter> set (pq_Pathset b) = {}"
    using assms(5) by (simp_all add: compatible_def)
  note merged = NormalizePathSet_merge [OF can(1,3) dis can(2)]
  have cps: "canonical_pathset ps" unfolding ps(1) by (rule merged(2))
  have ne: "ps \<noteq> []" using ps(2) by auto
  have p: "NormalizePath p = Inr p" using cps ps(2) by (auto simp: canonical_pathset_def)
  have chk: "check_semantic_contenders (pq_WorkspaceID a) 0 [] None [contender a, contender b] = None"
  proof -
    have v: "validateSemanticConflictContender (contender a) (pq_WorkspaceID a) 0 = None"
      "validateSemanticConflictContender (contender b) (pq_WorkspaceID a) (Suc 0) = None"
      using validate_contender [OF can(1,2) assms(3)] validate_contender [OF can(3,4) assms(4)] by (simp_all add: w)
    have n: "check_neighbours (contender a) (contender b) = None"
      using assms(5,6) by (auto simp: check_neighbours_def compatible_def pathsetsOverlap_iff)
    show ?thesis using v n assms(5) by (auto simp: Let_def compatible_def)
  qed
  have st: "check_store_contender (Some q) (contender i) = None"
    if "Get (pq_QueueID i) (pq_ItemID i) (Some q) = Some i" "canonical_pathset (pq_Pathset i)" "pq_Pathset i \<noteq> []" "semantic_ready i" for i
  proof -
    have "semanticContenderFromPatchQueueItem i ''store'' = Inr (contender i)"
      using semantic_contender_Inr [OF that(2,3)] that(4) by blast
    then show ?thesis by (simp add: check_store_contender_def that(1))
  qed
  have "validateSemanticConflictModel (sealed ?r) (Some q) = None"
    unfolding validateSemanticConflictModel_def validateSemanticConflictPatchQueueStore_def
    using p ne NormalizePathSet_canonical [OF cps] stringSliceContains_canonical [OF p ps(2) NormalizePath_fixed_trimmed [OF p]]
      ev chk merged(1) st [OF got(1) can(1,2) assms(3)] st [OF got(2) can(3,4) assms(4)]
    by (simp add: semantic_record_def Let_def sealed_def zero_conflict_def digestSemanticConflictEvidence_def ps(1) [symmetric])
  moreover have "canonical_value (pq_WorkspaceID a)" using assms(3) by (simp add: semantic_ready_def)
  ultimately show ?thesis
    unfolding ValidateConflictModelResultWithPatchQueueStore_def validate_sealed validate_by_reason_def
    by (simp add: semantic_record_def Let_def)
qed

text \<open>What the builder does with two stored items, before the order of the contenders matters.\<close>

lemma BuildSemanticConflict_Inr:
  assumes "stored_item q i" "stored_item q j"
  shows "BuildSemanticConflict \<lparr>sci_Kind = kind, sci_Subject = subject, sci_EvidenceSummary = summary, sci_Left = i, sci_Right = j,
      sci_Path = p\<rparr> (Some q) = Inr r \<longleftrightarrow>
    (\<exists>k s m p'. normalizeSemanticConflictEvidence kind subject summary = Inr (k, s, m) \<and>
      semantic_ready i \<and> semantic_ready j \<and> compatible i j \<and>
      chooseSemanticConflictPath (mergeSemanticContenderPaths (sort_semantic_contenders [contender i, contender j])) p = Inr p' \<and>
      finish_conflict (\<lambda>r. ValidateConflictModelResultWithPatchQueueStore r (Some q))
        (semantic_record (pq_WorkspaceID i) k s m (mergeSemanticContenderPaths (sort_semantic_contenders [contender i, contender j])) p'
          (sort_semantic_contenders [contender i, contender j])) = Inr r)"
proof -
  have c: "semanticContenderFromPatchQueueItem i l = Inr x \<longleftrightarrow> semantic_ready i \<and> x = contender i"
    "semanticContenderFromPatchQueueItem j l = Inr x \<longleftrightarrow> semantic_ready j \<and> x = contender j" for l x
    using assms semantic_contender_Inr unfolding stored_item_def by blast+
  show ?thesis
    unfolding BuildSemanticConflict_def Let_def require_Inr bind_result_Inr split_paired_Ex prod.case BuildSemanticConflictInput.simps c
    by (auto simp: semantic_guards_None)
qed

lemma sorted_pair_valid:
  assumes st: "stored_item q i" "stored_item q j" and rd: "semantic_ready i" "semantic_ready j" and co: "compatible i j"
    and ev: "normalizeSemanticConflictEvidence k s m = Inr (k, s, m)"
  defines "cs \<equiv> sort_semantic_contenders [contender i, contender j]" and "ps \<equiv> sort (pq_Pathset i @ pq_Pathset j)"
  shows "mergeSemanticContenderPaths cs = ps" and "canonical_pathset ps" and "ps \<noteq> []"
    and "p \<in> set ps \<Longrightarrow> ValidateConflictModelResultWithPatchQueueStore (sealed (semantic_record (pq_WorkspaceID i) k s m ps p cs)) (Some q) = None"
proof -
  have can: "canonical_pathset (pq_Pathset i)" "canonical_pathset (pq_Pathset j)" "pq_Pathset i \<noteq> []" "pq_Pathset j \<noteq> []"
    using st by (simp_all add: stored_item_def)
  have dis: "set (pq_Pathset i) \<inter> set (pq_Pathset j) = {}" "set (pq_Pathset j) \<inter> set (pq_Pathset i) = {}"
    and w: "pq_WorkspaceID i = pq_WorkspaceID j" and ids: "pq_QueueID i = pq_QueueID j" "pq_ItemID i \<noteq> pq_ItemID j"
    using co by (auto simp: compatible_def)
  have co': "compatible j i" using co by (auto simp: compatible_def)
  have ps': "ps = sort (pq_Pathset j @ pq_Pathset i)" unfolding ps_def by (rule sort_append_commute)
  note m = NormalizePathSet_merge [OF can(1,2) dis(1) can(3)] NormalizePathSet_merge [OF can(2,1) dis(2) can(4)]
  show "canonical_pathset ps" unfolding ps_def by (rule m(2))
  show "ps \<noteq> []" using can(3) unfolding ps_def by (metis append_is_Nil_conv set_empty set_sort)
  have order: "pq_ItemID i < pq_ItemID j \<and> cs = [contender i, contender j] \<or> pq_ItemID j < pq_ItemID i \<and> cs = [contender j, contender i]"
    using ids unfolding cs_def sort_semantic_contenders_def sort_pair by auto
  have "NormalizePathSet (pq_Pathset i @ pq_Pathset j) = Inr ps" unfolding ps_def by (rule m(1))
  moreover have "NormalizePathSet (pq_Pathset j @ pq_Pathset i) = Inr ps" unfolding ps' by (rule m(3))
  ultimately show "mergeSemanticContenderPaths cs = ps"
    using order by (auto simp: mergeSemanticContenderPaths_def)
  show "ValidateConflictModelResultWithPatchQueueStore (sealed (semantic_record (pq_WorkspaceID i) k s m ps p cs)) (Some q) = None"
    if p: "p \<in> set ps"
    using order ordered_record_valid [OF st rd co _ ev ps_def [THEN meta_eq_to_obj_eq] p]
      ordered_record_valid [OF st(2,1) rd(2,1) co' _ ev ps' p] unfolding w by metis
qed

lemma reachable_stored:
  assumes "run_of (\<lambda>s. fst s = NewPatchQueueStore) queue_step ops s" and "map_of (qs_items (fst s)) k = Some i"
  shows "stored_item (fst s) i"
  using queue_inv_reachable [OF assms(1)] assms(2) by (auto simp: queue_inv_def stored_item_def item_inv_def Get_def)

lemma pair_recorded:
  assumes st: "stored_item q i" "stored_item q j" and p: "p = [] \<or> p \<in> set (pq_Pathset i) \<union> set (pq_Pathset j)"
  shows "(\<exists>r. BuildSemanticConflict \<lparr>sci_Kind = kind, sci_Subject = subject, sci_EvidenceSummary = summary, sci_Left = i,
        sci_Right = j, sci_Path = p\<rparr> (Some q) = Inr r) \<longleftrightarrow>
     (\<exists>e. normalizeSemanticConflictEvidence kind subject summary = Inr e) \<and> semantic_ready i \<and> semantic_ready j \<and> compatible i j"
proof
  assume "\<exists>r. BuildSemanticConflict \<lparr>sci_Kind = kind, sci_Subject = subject, sci_EvidenceSummary = summary, sci_Left = i,
        sci_Right = j, sci_Path = p\<rparr> (Some q) = Inr r"
  then show "(\<exists>e. normalizeSemanticConflictEvidence kind subject summary = Inr e) \<and> semantic_ready i \<and> semantic_ready j \<and> compatible i j"
    unfolding BuildSemanticConflict_Inr [OF st] by blast
next
  assume r: "(\<exists>e. normalizeSemanticConflictEvidence kind subject summary = Inr e) \<and> semantic_ready i \<and> semantic_ready j \<and> compatible i j"
  then obtain k s m where ev: "normalizeSemanticConflictEvidence kind subject summary = Inr (k, s, m)" by (metis prod_cases3)
  then have ev': "normalizeSemanticConflictEvidence k s m = Inr (k, s, m)" unfolding evidence_Inr by auto
  let ?cs = "sort_semantic_contenders [contender i, contender j]" and ?ps = "sort (pq_Pathset i @ pq_Pathset j)"
  have rd: "semantic_ready i" "semantic_ready j" "compatible i j" using r by blast+
  note v = sorted_pair_valid [OF st rd ev']
  have "p = [] \<or> p \<in> set ?ps" using p by simp
  from choose_path [OF v(2,3) this] obtain p' where p': "p' \<in> set ?ps" "chooseSemanticConflictPath ?ps p = Inr p'" by blast
  have "finish_conflict (\<lambda>r. ValidateConflictModelResultWithPatchQueueStore r (Some q)) (semantic_record (pq_WorkspaceID i) k s m ?ps p' ?cs) =
      Inr (sealed (semantic_record (pq_WorkspaceID i) k s m ?ps p' ?cs))"
    unfolding finish_conflict_Inr using v(4) [OF p'(1)] by simp
  then show "\<exists>r. BuildSemanticConflict \<lparr>sci_Kind = kind, sci_Subject = subject, sci_EvidenceSummary = summary, sci_Left = i,
        sci_Right = j, sci_Path = p\<rparr> (Some q) = Inr r"
    unfolding BuildSemanticConflict_Inr [OF st] v(1) using ev rd p'(2) by blast
qed

subsection \<open>Property\<close>

text \<open>C19. Two items stored in a reachable queue can be recorded as a semantic conflict, with no path or one of theirs named,
  exactly when the evidence names a known kind, a subject and a summary of at most 2048 bytes, both
  items are still open and have all their identifying fields, and they are different items of one
  queue and workspace on the same base with no path in common.\<close>

theorem semantic_conflict_iff:
  assumes "run_of (\<lambda>s. fst s = NewPatchQueueStore) queue_step ops (q, ls)"
    and "map_of (qs_items q) k = Some i" and "map_of (qs_items q) k' = Some j"
    and "p = [] \<or> p \<in> set (pq_Pathset i) \<union> set (pq_Pathset j)"
  shows "(\<exists>r. BuildSemanticConflict \<lparr>sci_Kind = kind, sci_Subject = subject, sci_EvidenceSummary = summary, sci_Left = i,
        sci_Right = j, sci_Path = p\<rparr> (Some q) = Inr r) \<longleftrightarrow>
     semanticConflictKindAllowed (TrimSpace kind) \<and> TrimSpace subject \<noteq> [] \<and> TrimSpace summary \<noteq> [] \<and> length (TrimSpace summary) \<le> 2048 \<and>
     semantic_ready i \<and> semantic_ready j \<and> compatible i j"
proof -
  have "stored_item q i" "stored_item q j" using reachable_stored [OF assms(1)] assms(2,3) by simp_all
  note pair_recorded [OF this assms(4), of kind subject summary]
  moreover have "(\<exists>e. normalizeSemanticConflictEvidence kind subject summary = Inr e) \<longleftrightarrow>
      semanticConflictKindAllowed (TrimSpace kind) \<and> TrimSpace subject \<noteq> [] \<and> TrimSpace summary \<noteq> [] \<and> length (TrimSpace summary) \<le> 2048"
    unfolding split_paired_Ex evidence_Inr by (auto simp: SemanticConflictEvidenceSummaryMaxBytes_def)
  ultimately show ?thesis by blast
qed

subsection \<open>A recorded collision\<close>

text \<open>A context that can be bound to an operation can be proposed without it.\<close>

lemma propose_bindable:
  fixes mx :: int and w :: instant
  assumes inv: "lease_inv n s"
    and b: "BindMutationOperation lw \<lparr>bi_Context = cb, bi_MutationPaths = [], bi_Now = t\<rparr> (Some s) = (Inr b, Some s')"
    and cb: "WithDefaults cb = cb" "Context_Validate cb = None" and c: "c = cb\<lparr>ctx_Operation := no_operation\<rparr>"
  defines "pin \<equiv> \<lparr>pi_Context = c, pi_Now = t, pi_MaxAttempts = mx\<rparr>"
  defines "i \<equiv> new_item pin c (json_digest (json_context c)) (ctx_Pathset c) (normalizeLeaseTime w t)"
  assumes new: "map_of (qs_items q) (patchQueueKey (pq_QueueID i) (pq_ItemID i)) = None"
  shows "Propose w lw pin (Some s) q = (Inr i, put_item (pq_QueueID i, pq_ItemID i) i q, Some s')"
proof -
  obtain a d l ps where req: "binding_request \<lparr>bi_Context = cb, bi_MutationPaths = [], bi_Now = t\<rparr> s = Inr (a, d, l, ps)"
    and auth: "AuthorizeMutation lw \<lparr>au_LeaseID = lr_ID (ctx_Lease a), au_Term = lr_Term (ctx_Lease a),
          au_Holder = HolderForLease l, au_Paths = ps, au_Now = t\<rparr> s = (None, s')"
    using b unfolding BindMutationOperation_Inr by auto
  note r = binding_request_Inr [OF inv req]
  have a: "a = cb" using r(1) cb(1) by simp
  have can: "canonical_pathset (ctx_Pathset c)" using Context_Validate_pathset(1) [OF cb(2)] by (simp add: c)
  have ps: "ps = ctx_Pathset c" using r(7) NormalizePathSet_canonical [OF can] by (simp add: a c)
  have fields: "ctx_Lease c = ctx_Lease cb" "ctx_Operation c = no_operation" "c\<lparr>ctx_Operation := no_operation\<rparr> = c" by (simp_all add: c)
  have "WithDefaults c = (WithDefaults cb)\<lparr>ctx_Operation := no_operation\<rparr>" by (simp add: WithDefaults_def c)
  then have d: "WithDefaults c = c" by (simp add: cb(1) c)
  have "validateOperationRef no_operation (ctx_Lease cb) (ctx_PatchQueue cb) = None"
    by (simp add: validateOperationRef_def no_operation_def Let_def)
  then have v: "Context_Validate c = None" using cb(2) unfolding Context_Validate_def guards_Cons_None c by simp
  have refs: "requirePatchQueueProposalRefs c = None"
    using r(2) v unfolding a requireConcreteMutationOperationRefs_def requirePatchQueueProposalRefs_def guards_Cons_None
    by (simp add: c no_operation_def)
  have ver: "verifyMutationBindingContext c l = None" "verifyLeaseAcquisitionContextDigest c l = None"
    using r(5,6) unfolding a by (simp_all add: verifyMutationBindingContext_def verifyLeaseAcquisitionContextDigest_def c)
  have lease: "verifyPatchQueueLeaseAuthority lw c t (Some s) = (None, Some s')"
    using auth ver r(4) unfolding a ps verifyPatchQueueLeaseAuthority_def
    by (simp add: findBindingLease_Inr [OF inv, THEN iffD2] fields)
  have dig: "patchQueueContextDigest c = Inr (json_digest (json_context c))"
    by (simp add: patchQueueContextDigest_def d fields v Context_Digest_Inr)
  have "propose_item pin c (normalizeLeaseTime w t) q = Inr ((pq_QueueID i, pq_ItemID i), i)"
    unfolding propose_item_def dig bind_result_simps NormalizePathSet_canonical [OF can] map_err_def sum.case Let_def i_def [symmetric]
    using new by (simp add: fail_if_def)
  then show ?thesis
    unfolding Propose_def Let_def by (simp add: pin_def d refs lease run_queue_def)
qed

text \<open>Two tasks on disjoint paths, each with its own lease and item.\<close>

definition side_context :: "string \<Rightarrow> Context" where
  "side_context p = full_context\<lparr>ctx_Pathset := [p], ctx_Base := \<lparr>base_Ref = ''main'', base_TreeHash = ''tree'', base_FileHashes = []\<rparr>\<rparr>"

definition side_acquire :: "string \<Rightarrow> AcquireFileLeaseInput" where
  "side_acquire p = \<lparr>ac_Context = side_context p, ac_TTL = 5, ac_Now = 1\<rparr>"

definition side_lease :: "string \<Rightarrow> FileLease" where
  "side_lease p = new_lease (side_context p) 1 (json_digest (json_context (side_context p))) [p] 1 5"

definition side_store :: "string \<Rightarrow> FileLeaseStore" where
  "side_store p = install_lease (side_lease p) (NewFileLeaseStore\<lparr>fs_nextTerm := 2\<rparr>)"

definition side_bound :: "string \<Rightarrow> string \<Rightarrow> Context" where
  "side_bound p n = (WithDefaults (side_context p))\<lparr>ctx_Lease := \<lparr>lr_ID = fl_ID (side_lease p), lr_Term = fl_Term (side_lease p)\<rparr>,
     ctx_PatchQueue := \<lparr>pqr_QueueID = ''q1'', pqr_ItemID = n\<rparr>, ctx_Operation := \<lparr>op_ID = ''op1'', op_Kind = ''repo_patch_apply''\<rparr>\<rparr>"

definition side_prop :: "string \<Rightarrow> string \<Rightarrow> Context" where
  "side_prop p n = (side_bound p n)\<lparr>ctx_Operation := no_operation\<rparr>"

definition side_propose :: "string \<Rightarrow> string \<Rightarrow> ProposePatchQueueItemInput" where
  "side_propose p n = \<lparr>pi_Context = side_prop p n, pi_Now = 3, pi_MaxAttempts = 2\<rparr>"

definition side_item :: "string \<Rightarrow> string \<Rightarrow> PatchQueueItem" where
  "side_item p n = new_item (side_propose p n) (side_prop p n) (json_digest (json_context (side_prop p n))) (ctx_Pathset (side_prop p n))
     (normalizeLeaseTime 1 3)"

definition side_pair :: "string \<Rightarrow> string \<Rightarrow> bool" where
  "side_pair p n \<longleftrightarrow> Context_Validate (side_context p) = None \<and> WithDefaults (side_context p) = side_context p \<and>
     NormalizePathSet [p] = Inr [p] \<and> TrimSpace n = n \<and> n \<noteq> [] \<and> \<not> isVagueRepoAuthorityLabel n"

lemma side_pairs: "side_pair ''a.go'' ''i1''" "side_pair ''b.go'' ''i2''"
  by code_simp+

lemma side_acquired:
  assumes "side_pair p n"
  shows "Acquire 1 (side_acquire p) NewFileLeaseStore = (Inr (side_lease p), side_store p)"
proof -
  have "TrimSpace (lr_ID (ctx_Lease (side_context p))) = []" "TrimSpace (pqr_ItemID (ctx_PatchQueue (side_context p))) = []"
    "TrimSpace (op_ID (ctx_Operation (side_context p))) = []" "ctx_Pathset (side_context p) = [p]"
    by (simp_all add: side_context_def full_refs no_lease_def no_patch_queue_def no_operation_def)
  moreover have "Context_Digest (side_context p) = Inr (json_digest (json_context (side_context p)))"
    using assms by (simp add: Context_Digest_Inr side_pair_def)
  ultimately have "acquire_request (side_acquire p) = Inr (side_context p, json_digest (json_context (side_context p)), [p])"
    using assms by (simp add: acquire_request_def side_acquire_def side_pair_def Let_def fail_if_def)
  then show ?thesis
    by (simp add: Acquire_def Let_def normalizeLeaseTime_def NewFileLeaseStore_def expireLocked_def path_holder_def
        side_lease_def side_store_def side_acquire_def wrap64_def)
qed

lemma side_proposed:
  assumes sp: "side_pair p n" and new: "map_of (qs_items q) (patchQueueKey ''q1'' n) = None"
  shows "\<exists>ls'. Propose 1 1 (side_propose p n) (Some (side_store p)) q = (Inr (side_item p n), put_item (''q1'', n) (side_item p n) q, ls')"
proof -
  have inv: "lease_inv (Suc 0) (side_store p)" by (rule acquired_lease(1) [OF lease_inv_New _ side_acquired [OF sp]]) simp
  have q1: "TrimSpace ''q1'' = ''q1''" "\<not> isVagueRepoAuthorityLabel ''q1''" "TrimSpace ''op1'' = ''op1''" "\<not> isVagueRepoAuthorityLabel ''op1''"
    "TrimSpace ''repo_patch_apply'' = ''repo_patch_apply''" "\<not> isVagueRepoAuthorityLabel ''repo_patch_apply''"
    "''repo_patch_apply'' \<in> set allowedMutationOperationKinds" by code_simp+
  have conc: "requireConcreteMutationOperationRefs (side_bound p n) = None"
    using lease_id_concrete sp q1
    by (simp add: requireConcreteMutationOperationRefs_def side_bound_def side_lease_def new_lease_def rejectVague_None side_pair_def)
  have refs: "ctx_Lease (ac_Context (side_acquire p)) = no_lease" "ctx_PatchQueue (ac_Context (side_acquire p)) = no_patch_queue"
    "ctx_Operation (ac_Context (side_acquire p)) = no_operation"
    by (simp_all add: side_acquire_def side_context_def full_refs)
  have tr: "trimmed_identity (side_lease p)" "trimmed (ctx_RepoRoot (ac_Context (side_acquire p)))"
    by (simp_all add: trimmed_identity_def trimmed_def side_lease_def new_lease_def side_acquire_def side_context_def full_context_def
        demo_context_def TrimSpace_graphic graphic_def)
  have time: "in_years (normalizeLeaseTime 1 (ac_Now (side_acquire p)) + ac_TTL (side_acquire p))"
    "normalizeLeaseTime 1 3 < normalizeLeaseTime 1 (ac_Now (side_acquire p)) + ac_TTL (side_acquire p)"
    using demo_years by (simp_all add: side_acquire_def normalizeLeaseTime_def)
  have sb: "side_bound p n = (WithDefaults (ac_Context (side_acquire p)))\<lparr>ctx_Lease := \<lparr>lr_ID = fl_ID (side_lease p),
      lr_Term = fl_Term (side_lease p)\<rparr>, ctx_PatchQueue := \<lparr>pqr_QueueID = ''q1'', pqr_ItemID = n\<rparr>,
      ctx_Operation := \<lparr>op_ID = ''op1'', op_Kind = ''repo_patch_apply''\<rparr>\<rparr>"
    by (simp add: side_bound_def side_acquire_def)
  have ps: "NormalizePathSet (if [] = ([] :: string list) then ctx_Pathset (ac_Context (side_acquire p)) else []) = Inr [p]"
    "[p] \<noteq> []" "NormalizePathSet [p] = Inr [p]" "[p] \<noteq> []" "set [p] \<subseteq> set (fl_Pathset (side_lease p))"
    using sp by (simp_all add: side_acquire_def side_context_def side_pair_def side_lease_def new_lease_def)
  have one: "int 0 + 2 < 2 ^ 63" by simp
  note acq = side_acquired [OF sp]
  from bind_acquired [OF lease_inv_New one acq refs tr time sb conc ps] obtain d where
    b: "BindMutationOperation 1 \<lparr>bi_Context = side_bound p n, bi_MutationPaths = [], bi_Now = 3\<rparr> (Some (side_store p)) =
      (Inr (new_binding (side_bound p n) d (side_lease p) [p]), Some (expireLocked (normalizeLeaseTime 1 3) (side_store p)))" by blast
  note v = acquired_request(2,3) [OF lease_inv_New one acq refs tr sb conc ps(1,2)]
  have ids: "pq_QueueID (side_item p n) = ''q1''" "pq_ItemID (side_item p n) = n"
    using sp q1 by (simp_all add: side_item_def new_item_def side_prop_def side_bound_def side_pair_def)
  have new': "map_of (qs_items q) (patchQueueKey (pq_QueueID (side_item p n)) (pq_ItemID (side_item p n))) = None"
    unfolding ids by (rule new)
  have "Propose 1 1 (side_propose p n) (Some (side_store p)) q = (Inr (side_item p n),
      put_item (pq_QueueID (side_item p n), pq_ItemID (side_item p n)) (side_item p n) q, Some (expireLocked (normalizeLeaseTime 1 3) (side_store p)))"
    using propose_bindable [OF inv b v(2,1) side_prop_def, where mx = 2 and w = 1 and q = q] new'
    unfolding side_item_def side_propose_def by blast
  then show ?thesis unfolding ids by blast
qed

definition side_queue :: PatchQueueStore where
  "side_queue = put_item (''q1'', ''i2'') (side_item ''b.go'' ''i2'') (put_item (''q1'', ''i1'') (side_item ''a.go'' ''i1'') NewPatchQueueStore)"

lemma side_keys: "patchQueueKey ''q1'' ''i1'' \<noteq> patchQueueKey ''q1'' ''i2''"
  by code_simp

lemma side_run: "\<exists>ls. run_of (\<lambda>s. fst s = NewPatchQueueStore) queue_step [OpPropose, OpLeases, OpPropose] (side_queue, ls)"
proof -
  let ?q = "put_item (''q1'', ''i1'') (side_item ''a.go'' ''i1'') NewPatchQueueStore"
  have "map_of (qs_items NewPatchQueueStore) (patchQueueKey ''q1'' ''i1'') = None" by (simp add: NewPatchQueueStore_def)
  from side_proposed [OF side_pairs(1) this] obtain l1 where
    p1: "Propose 1 1 (side_propose ''a.go'' ''i1'') (Some (side_store ''a.go'')) NewPatchQueueStore = (Inr (side_item ''a.go'' ''i1''), ?q, l1)" ..
  have "map_of (qs_items ?q) (patchQueueKey ''q1'' ''i2'') = None"
    using side_keys by (simp add: put_item_items NewPatchQueueStore_def)
  from side_proposed [OF side_pairs(2) this] obtain l2 where
    p2: "Propose 1 1 (side_propose ''b.go'' ''i2'') (Some (side_store ''b.go'')) ?q = (Inr (side_item ''b.go'' ''i2''), side_queue, l2)"
    unfolding side_queue_def ..
  have mx: "pi_MaxAttempts (side_propose p n) \<le> max_int64" for p n by (simp add: side_propose_def)
  let ?run = "run_of (\<lambda>s. fst s = NewPatchQueueStore) queue_step"
  have "?run [] (NewPatchQueueStore, Some (side_store ''a.go''))" by (rule run_start) simp
  then have "?run [OpPropose] (?q, l1)" by (rule run_step) (rule step_propose [OF p1 mx])
  then have "?run [OpLeases, OpPropose] (?q, Some (side_store ''b.go''))" by (rule run_step) (rule step_leases)
  then have "?run [OpPropose, OpLeases, OpPropose] (side_queue, l2)" by (rule run_step) (rule step_propose [OF p2 mx])
  then show ?thesis by blast
qed

lemma side_item_simps:
  assumes "side_pair p n"
  shows "pq_QueueID (side_item p n) = ''q1''" "pq_ItemID (side_item p n) = n" "pq_Pathset (side_item p n) = [p]"
    "pq_WorkspaceID (side_item p n) = ''ws''" "pq_BaseRef (side_item p n) = ''main''" "pq_BaseTreeHash (side_item p n) = ''tree''"
    "semantic_ready (side_item p n)"
proof -
  show f: "pq_QueueID (side_item p n) = ''q1''" "pq_ItemID (side_item p n) = n" "pq_Pathset (side_item p n) = [p]"
    "pq_WorkspaceID (side_item p n) = ''ws''" "pq_BaseRef (side_item p n) = ''main''" "pq_BaseTreeHash (side_item p n) = ''tree''"
    using assms by (simp_all add: side_item_def new_item_def side_prop_def side_bound_def side_pair_def side_context_def full_context_def
        demo_context_def)
  have n: "canonical_value n" using assms by (simp add: side_pair_def canonical_value_def)
  have "canonical_value (fl_ID (side_lease p))"
    using lease_id_concrete by (simp add: canonical_value_def side_lease_def new_lease_def TrimSpace_buildFileLeaseID rejectVague_None)
  with n show "semantic_ready (side_item p n)"
    unfolding semantic_ready_def f using assms
    by (simp add: side_item_def new_item_def side_prop_def side_bound_def side_pair_def side_context_def full_context_def demo_context_def
        side_lease_def new_lease_def canonical_value_def TrimSpace_graphic graphic_def semanticConflictContenderStateAllowed_def
        PatchQueueStateProposed_def)
qed

theorem semantic_conflict_iff_witness:
  "\<exists>r. BuildSemanticConflict \<lparr>sci_Kind = ''behavior_collision'', sci_Subject = ''retry policy'', sci_EvidenceSummary = ''both change it'',
      sci_Left = side_item ''b.go'' ''i2'', sci_Right = side_item ''a.go'' ''i1'', sci_Path = ''a.go''\<rparr> (Some side_queue) = Inr r"
proof -
  let ?i = "side_item ''a.go'' ''i1''" and ?j = "side_item ''b.go'' ''i2''"
  obtain ls where run: "run_of (\<lambda>s. fst s = NewPatchQueueStore) queue_step [OpPropose, OpLeases, OpPropose] (side_queue, ls)"
    using side_run by blast
  have m: "map_of (qs_items side_queue) (patchQueueKey ''q1'' ''i2'') = Some ?j" "map_of (qs_items side_queue) (patchQueueKey ''q1'' ''i1'') = Some ?i"
    using side_keys by (simp_all add: side_queue_def put_item_items)
  note f = side_item_simps [OF side_pairs(1)] side_item_simps [OF side_pairs(2)]
  have p: "''a.go'' = [] \<or> ''a.go'' \<in> set (pq_Pathset ?j) \<union> set (pq_Pathset ?i)" by (simp add: f)
  have co: "compatible ?j ?i" by (simp add: compatible_def f)
  have ev: "semanticConflictKindAllowed (TrimSpace ''behavior_collision'')" "TrimSpace ''retry policy'' \<noteq> []" "TrimSpace ''both change it'' \<noteq> []"
    "length (TrimSpace ''both change it'') \<le> 2048" by code_simp+
  show ?thesis unfolding semantic_conflict_iff [OF run m p] using ev co f(7,14) by blast
qed

end
