(* ===== verification/Materialization.thy ===== *)
theory Materialization
  imports Patch_Queue
begin

section \<open>Materialized patches\<close>

text \<open>
  \<open>internal/repoauthority/patch_materialization.go\<close>: the contents of the files of an applied patch,
  and the proof that a recorded materialization belongs to its queue item. Fields that the code
  compares in a loop over a map literal are a list of triples, whose order only decides which field is
  reported first. A list of files marshals as an array; an empty one is never accepted, so the
  difference between an empty and a nil slice does not show. A sum of content sizes stays below
  \<open>2 ^ 23\<close>, because the loop stops at the limit, so it is a natural number here.
\<close>

definition PatchMaterializationSchemaVersion :: string where "PatchMaterializationSchemaVersion = ''repo_patch_materialization.v1''"
definition PatchMaterializationEncodingUTF8 :: string where "PatchMaterializationEncodingUTF8 = ''utf-8''"
definition PatchMaterializationMaxFiles :: nat where "PatchMaterializationMaxFiles = 128"
definition PatchMaterializationMaxFileBytes :: nat where "PatchMaterializationMaxFileBytes = 1048576"
definition PatchMaterializationMaxTotalBytes :: nat where "PatchMaterializationMaxTotalBytes = 4194304"
definition PatchMaterializationAuthorityProofSchemaVersion :: string where
  "PatchMaterializationAuthorityProofSchemaVersion = ''repo_patch_materialization_authority_proof.v1''"
definition PatchMaterializationAuthorityProofSourceSQLite :: string where
  "PatchMaterializationAuthorityProofSourceSQLite = ''sqlite.project_patch_queue.materialization_record''"

subsection \<open>Data\<close>

record PatchMaterializedFile =
  mf_Path :: string
  mf_ChangeKind :: string
  mf_BaseHash :: string
  mf_CandidateHash :: string
  mf_ContentEncoding :: string
  mf_Content :: string
  mf_ContentDigest :: string

record PatchMaterialization =
  pm_Schema :: string
  pm_WorkspaceID :: string
  pm_ProjectID :: string
  pm_QueueID :: string
  pm_ItemID :: string
  pm_OperationID :: string
  pm_OperationKind :: string
  pm_CASPatchDigest :: string
  pm_CASEvaluationDigest :: string
  pm_Files :: "PatchMaterializedFile list"
  pm_RecordedBy :: string
  pm_RecordedAt :: string
  pm_MaterializationDigest :: string

record PatchMaterializedFileAuthorityProofPath =
  ap_Path :: string
  ap_ChangeKind :: string
  ap_BaseHash :: string
  ap_CandidateHash :: string
  ap_ContentEncoding :: string
  ap_ContentDigest :: string

record PatchMaterializationAuthorityProof =
  ma_Schema :: string
  ma_Source :: string
  ma_WorkspaceID :: string
  ma_ProjectID :: string
  ma_QueueID :: string
  ma_ItemID :: string
  ma_OperationID :: string
  ma_OperationKind :: string
  ma_CASPatchDigest :: string
  ma_CASEvaluationDigest :: string
  ma_MaterializationDigest :: string
  ma_MaterializationJSONDigest :: string
  ma_FileCount :: int
  ma_Files :: "PatchMaterializedFileAuthorityProofPath list"
  ma_RecordedBy :: string
  ma_RecordedAt :: string
  ma_AuthorityDigest :: string

subsection \<open>Digests\<close>

definition json_materialized_file :: "PatchMaterializedFile \<Rightarrow> json" where
  "json_materialized_file f = JObj
     ([(''path'', JStr (mf_Path f))] @ omit_str ''change_kind'' (mf_ChangeKind f)
      @ [(''base_hash'', JStr (mf_BaseHash f)), (''candidate_hash'', JStr (mf_CandidateHash f)),
         (''content_encoding'', JStr (mf_ContentEncoding f)), (''content'', JStr (mf_Content f)),
         (''content_digest'', JStr (mf_ContentDigest f))])"

definition json_materialization :: "PatchMaterialization \<Rightarrow> json" where
  "json_materialization m = JObj
     ([(''schema'', JStr (pm_Schema m)), (''workspace_id'', JStr (pm_WorkspaceID m))] @ omit_str ''project_id'' (pm_ProjectID m)
      @ [(''queue_id'', JStr (pm_QueueID m)), (''item_id'', JStr (pm_ItemID m)), (''operation_id'', JStr (pm_OperationID m)),
         (''operation_kind'', JStr (pm_OperationKind m)), (''cas_patch_digest'', JStr (pm_CASPatchDigest m)),
         (''cas_evaluation_digest'', JStr (pm_CASEvaluationDigest m)), (''files'', JArr (map json_materialized_file (pm_Files m)))]
      @ omit_str ''recorded_by'' (pm_RecordedBy m) @ omit_str ''recorded_at'' (pm_RecordedAt m)
      @ omit_str ''materialization_digest'' (pm_MaterializationDigest m))"

definition json_authority_path :: "PatchMaterializedFileAuthorityProofPath \<Rightarrow> json" where
  "json_authority_path f = JObj
     ([(''path'', JStr (ap_Path f))] @ omit_str ''change_kind'' (ap_ChangeKind f) @ omit_str ''base_hash'' (ap_BaseHash f)
      @ omit_str ''candidate_hash'' (ap_CandidateHash f) @ omit_str ''content_encoding'' (ap_ContentEncoding f)
      @ omit_str ''content_digest'' (ap_ContentDigest f))"

definition json_authority :: "PatchMaterializationAuthorityProof \<Rightarrow> json" where
  "json_authority a = JObj
     ([(''schema'', JStr (ma_Schema a)), (''source'', JStr (ma_Source a)), (''workspace_id'', JStr (ma_WorkspaceID a))]
      @ omit_str ''project_id'' (ma_ProjectID a)
      @ [(''queue_id'', JStr (ma_QueueID a)), (''item_id'', JStr (ma_ItemID a)), (''operation_id'', JStr (ma_OperationID a)),
         (''operation_kind'', JStr (ma_OperationKind a)), (''cas_patch_digest'', JStr (ma_CASPatchDigest a)),
         (''cas_evaluation_digest'', JStr (ma_CASEvaluationDigest a)), (''materialization_digest'', JStr (ma_MaterializationDigest a)),
         (''materialization_json_digest'', JStr (ma_MaterializationJSONDigest a)), (''file_count'', JInt (ma_FileCount a))]
      @ omit_arr ''files'' (map json_authority_path (ma_Files a))
      @ omit_str ''recorded_by'' (ma_RecordedBy a) @ omit_str ''recorded_at'' (ma_RecordedAt a)
      @ omit_str ''authority_digest'' (ma_AuthorityDigest a))"

definition PatchMaterializationDigest :: "PatchMaterialization \<Rightarrow> string" where
  "PatchMaterializationDigest m = json_digest (json_materialization (m\<lparr>pm_MaterializationDigest := []\<rparr>))"

definition PatchMaterializationJSONDigest :: "PatchMaterialization \<Rightarrow> string" where
  "PatchMaterializationJSONDigest m = json_digest (json_materialization m)"

definition PatchMaterializationAuthorityProofDigest :: "PatchMaterializationAuthorityProof \<Rightarrow> string" where
  "PatchMaterializationAuthorityProofDigest a = json_digest (json_authority (a\<lparr>ma_AuthorityDigest := []\<rparr>))"

definition patchMaterializationContentDigest :: "string \<Rightarrow> string" where
  "patchMaterializationContentDigest content = sha256_text content"

definition PatchMaterializationContentDigest :: "string \<Rightarrow> string" where
  "PatchMaterializationContentDigest content = patchMaterializationContentDigest content"

subsection \<open>Helpers\<close>

fun patchMaterializationFirstNonEmpty :: "string list \<Rightarrow> string" where
  "patchMaterializationFirstNonEmpty [] = []"
| "patchMaterializationFirstNonEmpty (v # vs) = (if TrimSpace v \<noteq> [] then TrimSpace v else patchMaterializationFirstNonEmpty vs)"

definition patchMaterializationMatch :: "string \<Rightarrow> string \<Rightarrow> string \<Rightarrow> err option" where
  "patchMaterializationMatch field got0 want0 =
     (let got = TrimSpace got0; want = TrimSpace want0
      in guards
        [fail_if (got = [] \<or> want = []) (Errorf ''%s is required'' [AStr field]),
         fail_if (got \<noteq> want) (Errorf ''%s mismatch: got %q want %q'' [AStr field, AStr got, AStr want])])"

definition patchMaterializationChangeKind :: "PatchMaterializedFile \<Rightarrow> CASPatchPathResult \<Rightarrow> string result" where
  "patchMaterializationChangeKind file casPath =
     bind_result (validateCASPathChangeKind casPath) (\<lambda>casChangeKind.
     let fileChangeKind = (if TrimSpace (mf_ChangeKind file) = [] then CASPatchChangeModify else TrimSpace (mf_ChangeKind file))
     in require (fail_if (fileChangeKind \<noteq> casChangeKind)
          (Errorf ''change_kind mismatch: got %q want %q'' [AStr fileChangeKind, AStr casChangeKind])) (Inr casChangeKind))"

definition zero_path_result :: CASPatchPathResult where
  "zero_path_result = \<lparr>cp_Path = [], cp_Status = [], cp_ChangeKind = [], cp_BaseHash = [], cp_CurrentHash = [], cp_CandidateHash = []\<rparr>"

text \<open>A later result of a path replaces an earlier one; a path that is missing reads as the zero value.\<close>

definition patchMaterializationCASPathMap :: "CASPatchApplyResult \<Rightarrow> string \<rightharpoonup> CASPatchPathResult" where
  "patchMaterializationCASPathMap result =
     map_of (rev (map (\<lambda>pr. (TrimSpace (cp_Path pr), pr)) (filter (\<lambda>pr. TrimSpace (cp_Path pr) \<noteq> []) (car_Paths result))))"

definition cas_path_at :: "(string \<rightharpoonup> CASPatchPathResult) \<Rightarrow> string \<Rightarrow> CASPatchPathResult" where
  "cas_path_at m p = (case m p of None \<Rightarrow> zero_path_result | Some pr \<Rightarrow> pr)"

fun collect_applied_cas ::
  "string list \<Rightarrow> nat \<Rightarrow> (string \<times> CASPatchPathResult) list \<Rightarrow> CASPatchPathResult list \<Rightarrow> (string \<times> CASPatchPathResult) list result" where
  "collect_applied_cas pathset i seen [] = Inr seen"
| "collect_applied_cas pathset i seen (pr # prs) =
     (case NormalizePath (cp_Path pr) of
        Inl e \<Rightarrow> Inl (Errorf ''patch materialization CAS path[%d] invalid: %w'' [AInt (int i), AErr e])
      | Inr path \<Rightarrow>
          require (guards
            [fail_if (cp_Path pr \<noteq> path)
               (Errorf ''patch materialization CAS path[%d] is not normalized: got %q want %q'' [AInt (int i), AStr (cp_Path pr), AStr path]),
             fail_if (cp_Status pr \<noteq> CASPatchStatusApplied)
               (Errorf ''patch materialization CAS path %s status is %q'' [AStr path, AStr (cp_Status pr)]),
             fail_if (\<not> pathsetCoversPath pathset path)
               (Errorf ''patch materialization CAS path %s is outside patch queue pathset'' [AStr path]),
             fail_if (map_of seen path \<noteq> None) (Errorf ''patch materialization CAS path %s is duplicated'' [AStr path])])
            (collect_applied_cas pathset (Suc i) (seen @ [(path, pr)]) prs))"

definition patchMaterializationAppliedCASPaths :: "PatchQueueItem \<Rightarrow> (string list \<times> (string \<times> CASPatchPathResult) list) result" where
  "patchMaterializationAppliedCASPaths item =
     bind_result (map_err (\<lambda>e. Errorf ''patch materialization item pathset invalid: %w'' [AErr e]) (NormalizePathSet (pq_Pathset item))) (\<lambda>pathset.
     require (fail_if (pathset = []) (Errorf ''patch materialization requires non-empty pathset'' []))
    (bind_result (collect_applied_cas pathset 0 [] (car_Paths (pq_CASResult item))) (\<lambda>seen.
     require (guards
       (fail_if (seen = []) (Errorf ''patch materialization requires applied CAS paths'' []) #
        map (\<lambda>scope. fail_if (\<not> pathsetEntryIsScoped scope \<and> map_of seen scope = None)
          (Errorf ''patch materialization applied CAS evidence missing concrete path %q from patch queue pathset'' [AStr scope])) pathset))
       (Inr (sort (map fst seen), seen)))))"

subsection \<open>Validation\<close>

fun check_content_bounds :: "nat \<Rightarrow> PatchMaterializedFile list \<Rightarrow> err option" where
  "check_content_bounds sofar [] = None"
| "check_content_bounds sofar (file # files) =
     (let contentBytes = length (mf_Content file); totalBytes = sofar + contentBytes
      in if PatchMaterializationMaxFileBytes < contentBytes
         then Some (Errorf ''patch materialization content policy exceeded: file %q size %d exceeds limit %d bytes''
                [AStr (TrimSpace (mf_Path file)), AInt (int contentBytes), AInt (int PatchMaterializationMaxFileBytes)])
         else if PatchMaterializationMaxTotalBytes < totalBytes
         then Some (Errorf ''patch materialization content policy exceeded: total size %d exceeds limit %d bytes''
                [AInt (int totalBytes), AInt (int PatchMaterializationMaxTotalBytes)])
         else check_content_bounds totalBytes files)"

definition ValidatePatchMaterializationContentBounds :: "PatchMaterialization \<Rightarrow> err option" where
  "ValidatePatchMaterializationContentBounds m =
     (if PatchMaterializationMaxFiles < length (pm_Files m)
      then Some (Errorf ''patch materialization content policy exceeded: file count %d exceeds limit %d''
             [AInt (int (length (pm_Files m))), AInt (int PatchMaterializationMaxFiles)])
      else check_content_bounds 0 (pm_Files m))"

text \<open>The hashes of one file against the result of its path.\<close>

definition in_file :: "string \<Rightarrow> err option \<Rightarrow> err option" where
  "in_file path e = map_option (\<lambda>x. Errorf ''materialized file %s: %w'' [AStr path, AErr x]) e"

definition check_file_hashes :: "PatchMaterializedFile \<Rightarrow> CASPatchPathResult \<Rightarrow> err option" where
  "check_file_hashes file casPath =
     (case patchMaterializationChangeKind file casPath of
        Inl e \<Rightarrow> in_file (mf_Path file) (Some e)
      | Inr changeKind \<Rightarrow> guards
          [(if changeKind = CASPatchChangeAdd
            then fail_if (TrimSpace (mf_BaseHash file) \<noteq> [] \<or> TrimSpace (cp_BaseHash casPath) \<noteq> [])
                   (Errorf ''materialized file %s: added path must not carry base_hash'' [AStr (mf_Path file)])
            else in_file (mf_Path file) (patchMaterializationMatch ''base_hash'' (mf_BaseHash file) (cp_BaseHash casPath))),
           in_file (mf_Path file) (patchMaterializationMatch ''candidate_hash'' (mf_CandidateHash file) (cp_CandidateHash casPath)),
           fail_if (TrimSpace (mf_ContentEncoding file) \<noteq> PatchMaterializationEncodingUTF8)
             (Errorf ''materialized file %s has unsupported content_encoding %q'' [AStr (mf_Path file), AStr (mf_ContentEncoding file)]),
           fail_if (TrimSpace (mf_ContentDigest file) \<noteq> patchMaterializationContentDigest (mf_Content file))
             (Errorf ''materialized file %s content_digest mismatch'' [AStr (mf_Path file)]),
           fail_if (TrimSpace (mf_CandidateHash file) \<noteq> patchMaterializationContentDigest (mf_Content file))
             (Errorf ''materialized file %s candidate_hash does not match content_digest'' [AStr (mf_Path file)])])"

text \<open>The loop over the files, beside the expected paths; \<open>prev\<close> is the path of the file before.\<close>

fun check_files ::
  "(string \<times> CASPatchPathResult) list \<Rightarrow> nat \<Rightarrow> string option \<Rightarrow> string list \<Rightarrow> PatchMaterializedFile list \<Rightarrow> err option" where
  "check_files casPaths i prev (expected # expectedPaths) (file # files) =
     (case NormalizePath (mf_Path file) of
        Inl e \<Rightarrow> Some (Errorf ''materialized file[%d] path invalid: %w'' [AInt (int i), AErr e])
      | Inr path \<Rightarrow> guards
          [fail_if (mf_Path file \<noteq> path)
             (Errorf ''materialized file[%d] path is not normalized: got %q want %q'' [AInt (int i), AStr (mf_Path file), AStr path]),
           fail_if (case prev of None \<Rightarrow> False | Some p \<Rightarrow> p \<ge> mf_Path file) (Errorf ''materialized files must be sorted and unique'' []),
           fail_if (expected \<noteq> mf_Path file)
             (Errorf ''materialized file[%d] path %q does not match applied CAS path %q'' [AInt (int i), AStr (mf_Path file), AStr expected]),
           (case map_of casPaths (mf_Path file) of
              None \<Rightarrow> Some (Errorf ''materialized file %s is missing from CAS result'' [AStr (mf_Path file)])
            | Some casPath \<Rightarrow> guards
                [fail_if (cp_Status casPath \<noteq> CASPatchStatusApplied)
                   (Errorf ''materialized file %s CAS status is %q'' [AStr (mf_Path file), AStr (cp_Status casPath)]),
                 check_file_hashes file casPath]),
           check_files casPaths (Suc i) (Some (mf_Path file)) expectedPaths files])"
| "check_files casPaths i prev _ _ = None"

definition ValidatePatchMaterialization :: "PatchMaterialization \<Rightarrow> PatchQueueItem \<Rightarrow> err option" where
  "ValidatePatchMaterialization m item = guards
     [fail_if (TrimSpace (pm_Schema m) \<noteq> PatchMaterializationSchemaVersion) (Errorf ''patch materialization schema is unsupported'' []),
      ValidatePatchMaterializationContentBounds m,
      fail_if (TrimSpace (pq_Schema item) \<noteq> PatchQueueItemSchemaVersion) (Errorf ''patch queue item schema is unsupported'' []),
      fail_if (TrimSpace (pq_State item) \<noteq> PatchQueueStateApplied)
        (Errorf ''patch materialization requires applied patch queue item, got %q'' [AStr (pq_State item)]),
      fail_if (car_Status (pq_CASResult item) \<noteq> CASPatchStatusApplied)
        (Errorf ''patch materialization requires applied CAS result, got %q'' [AStr (car_Status (pq_CASResult item))]),
      fail_if (pq_OperationID item = [] \<or> pq_OperationKind item = []) (Errorf ''patch materialization requires operation binding'' []),
      patchMaterializationMatch ''workspace_id'' (pm_WorkspaceID m) (pq_WorkspaceID item),
      (if TrimSpace (pq_ProjectID item) \<noteq> [] then patchMaterializationMatch ''project_id'' (pm_ProjectID m) (pq_ProjectID item) else None),
      patchMaterializationMatch ''queue_id'' (pm_QueueID m) (pq_QueueID item),
      patchMaterializationMatch ''item_id'' (pm_ItemID m) (pq_ItemID item),
      patchMaterializationMatch ''operation_id'' (pm_OperationID m) (pq_OperationID item),
      patchMaterializationMatch ''operation_kind'' (pm_OperationKind m) (pq_OperationKind item),
      patchMaterializationMatch ''cas_patch_digest'' (pm_CASPatchDigest m) (pq_CASPatchDigest item),
      patchMaterializationMatch ''cas_evaluation_digest'' (pm_CASEvaluationDigest m) (pq_CASEvaluationDigest item),
      fail_if (\<not> isCanonicalSHA256Digest (pm_MaterializationDigest m)) (Errorf ''patch materialization digest is required'' []),
      fail_if (pm_MaterializationDigest m \<noteq> PatchMaterializationDigest m) (Errorf ''patch materialization digest mismatch'' []),
      (case patchMaterializationAppliedCASPaths item of
         Inl e \<Rightarrow> Some e
       | Inr (expectedPaths, casPaths) \<Rightarrow> guards
           [fail_if (length (pm_Files m) \<noteq> length expectedPaths)
              (Errorf ''patch materialization file count %d does not match applied CAS path count %d''
                [AInt (int (length (pm_Files m))), AInt (int (length expectedPaths))]),
            check_files casPaths 0 None expectedPaths (pm_Files m)])]"

subsection \<open>Normalisation\<close>

definition normalize_file :: "(string \<rightharpoonup> CASPatchPathResult) \<Rightarrow> PatchMaterializedFile \<Rightarrow> PatchMaterializedFile result" where
  "normalize_file casPaths rawFile =
     bind_result (map_err (\<lambda>e. Errorf ''materialized file path: %w'' [AErr e]) (NormalizePath (mf_Path rawFile))) (\<lambda>path.
     let casPath = cas_path_at casPaths path; contentDigest = patchMaterializationContentDigest (mf_Content rawFile);
         supplied = TrimSpace (mf_ContentDigest rawFile)
     in require (fail_if (supplied \<noteq> [] \<and> supplied \<noteq> contentDigest)
          (Errorf ''materialized file %s content_digest does not match content'' [AStr path]))
        (Inr \<lparr>mf_Path = path,
          mf_ChangeKind = patchMaterializationFirstNonEmpty [TrimSpace (mf_ChangeKind rawFile), TrimSpace (cp_ChangeKind casPath)],
          mf_BaseHash = patchMaterializationFirstNonEmpty [TrimSpace (mf_BaseHash rawFile), TrimSpace (cp_BaseHash casPath)],
          mf_CandidateHash = patchMaterializationFirstNonEmpty [TrimSpace (mf_CandidateHash rawFile), TrimSpace (cp_CandidateHash casPath)],
          mf_ContentEncoding = patchMaterializationFirstNonEmpty [TrimSpace (mf_ContentEncoding rawFile), PatchMaterializationEncodingUTF8],
          mf_Content = mf_Content rawFile, mf_ContentDigest = contentDigest\<rparr>))"

fun normalize_files :: "(string \<rightharpoonup> CASPatchPathResult) \<Rightarrow> PatchMaterializedFile list \<Rightarrow> PatchMaterializedFile list result" where
  "normalize_files casPaths [] = Inr []"
| "normalize_files casPaths (f # fs) =
     bind_result (normalize_file casPaths f) (\<lambda>g. bind_result (normalize_files casPaths fs) (\<lambda>gs. Inr (g # gs)))"

definition normalize_header :: "PatchMaterialization \<Rightarrow> PatchQueueItem \<Rightarrow> instant \<Rightarrow> PatchMaterialization" where
  "normalize_header input item recordedAt =
     (let first = (\<lambda>a b. patchMaterializationFirstNonEmpty [TrimSpace a, TrimSpace b])
      in \<lparr>pm_Schema = patchMaterializationFirstNonEmpty [TrimSpace (pm_Schema input), PatchMaterializationSchemaVersion],
          pm_WorkspaceID = first (pm_WorkspaceID input) (pq_WorkspaceID item), pm_ProjectID = first (pm_ProjectID input) (pq_ProjectID item),
          pm_QueueID = first (pm_QueueID input) (pq_QueueID item), pm_ItemID = first (pm_ItemID input) (pq_ItemID item),
          pm_OperationID = first (pm_OperationID input) (pq_OperationID item),
          pm_OperationKind = first (pm_OperationKind input) (pq_OperationKind item),
          pm_CASPatchDigest = first (pm_CASPatchDigest input) (pq_CASPatchDigest item),
          pm_CASEvaluationDigest = first (pm_CASEvaluationDigest input) (pq_CASEvaluationDigest item), pm_Files = [],
          pm_RecordedBy = TrimSpace (pm_RecordedBy input),
          pm_RecordedAt = (if TrimSpace (pm_RecordedAt input) \<noteq> [] then TrimSpace (pm_RecordedAt input)
            else if recordedAt \<noteq> 0 then formatLeaseTime recordedAt else []), pm_MaterializationDigest = []\<rparr>)"

definition NormalizePatchMaterialization :: "instant \<Rightarrow> PatchMaterialization \<Rightarrow> PatchQueueItem \<Rightarrow> instant \<Rightarrow> PatchMaterialization result" where
  "NormalizePatchMaterialization wall input item recordedAt =
     require (ValidatePatchMaterializationContentBounds input)
    (bind_result (normalize_files (patchMaterializationCASPathMap (pq_CASResult item)) (pm_Files input)) (\<lambda>files.
     let m = (normalize_header input item (normalizeLeaseTime wall recordedAt))\<lparr>pm_Files := sort_key mf_Path files\<rparr>;
         m' = m\<lparr>pm_MaterializationDigest := PatchMaterializationDigest m\<rparr>
     in require (ValidatePatchMaterialization m' item) (Inr m')))"

subsection \<open>The authority proof\<close>

definition authority_path :: "PatchMaterializedFile \<Rightarrow> PatchMaterializedFileAuthorityProofPath" where
  "authority_path file =
     \<lparr>ap_Path = TrimSpace (mf_Path file), ap_ChangeKind = TrimSpace (mf_ChangeKind file), ap_BaseHash = TrimSpace (mf_BaseHash file),
      ap_CandidateHash = TrimSpace (mf_CandidateHash file), ap_ContentEncoding = TrimSpace (mf_ContentEncoding file),
      ap_ContentDigest = TrimSpace (mf_ContentDigest file)\<rparr>"

definition authority_of :: "PatchMaterialization \<Rightarrow> PatchMaterializationAuthorityProof" where
  "authority_of m =
     (let a = \<lparr>ma_Schema = PatchMaterializationAuthorityProofSchemaVersion, ma_Source = PatchMaterializationAuthorityProofSourceSQLite,
        ma_WorkspaceID = TrimSpace (pm_WorkspaceID m), ma_ProjectID = TrimSpace (pm_ProjectID m), ma_QueueID = TrimSpace (pm_QueueID m),
        ma_ItemID = TrimSpace (pm_ItemID m), ma_OperationID = TrimSpace (pm_OperationID m),
        ma_OperationKind = TrimSpace (pm_OperationKind m), ma_CASPatchDigest = TrimSpace (pm_CASPatchDigest m),
        ma_CASEvaluationDigest = TrimSpace (pm_CASEvaluationDigest m), ma_MaterializationDigest = TrimSpace (pm_MaterializationDigest m),
        ma_MaterializationJSONDigest = PatchMaterializationJSONDigest m, ma_FileCount = int (length (pm_Files m)),
        ma_Files = map authority_path (pm_Files m), ma_RecordedBy = TrimSpace (pm_RecordedBy m),
        ma_RecordedAt = TrimSpace (pm_RecordedAt m), ma_AuthorityDigest = []\<rparr>
      in a\<lparr>ma_AuthorityDigest := PatchMaterializationAuthorityProofDigest a\<rparr>)"

definition same_fields :: "string \<Rightarrow> err_arg list \<Rightarrow> (string \<times> string \<times> string) list \<Rightarrow> err option" where
  "same_fields format args rows = guards
     (map (\<lambda>(field, got, want). fail_if (TrimSpace got \<noteq> TrimSpace want) (Errorf format (args @ [AStr field]))) rows)"

fun check_authority_files :: "nat \<Rightarrow> PatchMaterializedFileAuthorityProofPath list \<Rightarrow> PatchMaterializedFile list \<Rightarrow> err option" where
  "check_authority_files i (got # gots) (file # files) = guards
     [same_fields ''patch materialization authority proof file[%d] %s mismatch'' [AInt (int i)]
        [(''path'', ap_Path got, mf_Path file), (''change_kind'', ap_ChangeKind got, mf_ChangeKind file),
         (''base_hash'', ap_BaseHash got, mf_BaseHash file), (''candidate_hash'', ap_CandidateHash got, mf_CandidateHash file),
         (''content_encoding'', ap_ContentEncoding got, mf_ContentEncoding file),
         (''content_digest'', ap_ContentDigest got, mf_ContentDigest file)],
      check_authority_files (Suc i) gots files]"
| "check_authority_files i _ _ = None"

definition ValidatePatchMaterializationAuthorityProof ::
  "PatchMaterializationAuthorityProof \<Rightarrow> PatchMaterialization \<Rightarrow> PatchQueueItem \<Rightarrow> err option" where
  "ValidatePatchMaterializationAuthorityProof a m item = guards
     [ValidatePatchMaterialization m item,
      fail_if (TrimSpace (ma_Schema a) \<noteq> PatchMaterializationAuthorityProofSchemaVersion)
        (Errorf ''patch materialization authority proof schema is unsupported'' []),
      fail_if (TrimSpace (ma_Source a) \<noteq> PatchMaterializationAuthorityProofSourceSQLite)
        (Errorf ''patch materialization authority proof source is unsupported'' []),
      same_fields ''patch materialization authority proof %s mismatch'' []
        [(''workspace_id'', ma_WorkspaceID a, pm_WorkspaceID m), (''project_id'', ma_ProjectID a, pm_ProjectID m),
         (''queue_id'', ma_QueueID a, pm_QueueID m), (''item_id'', ma_ItemID a, pm_ItemID m),
         (''operation_id'', ma_OperationID a, pm_OperationID m), (''operation_kind'', ma_OperationKind a, pm_OperationKind m),
         (''cas_patch_digest'', ma_CASPatchDigest a, pm_CASPatchDigest m),
         (''cas_evaluation_digest'', ma_CASEvaluationDigest a, pm_CASEvaluationDigest m),
         (''materialization_digest'', ma_MaterializationDigest a, pm_MaterializationDigest m),
         (''materialization_json_digest'', ma_MaterializationJSONDigest a, PatchMaterializationJSONDigest m),
         (''recorded_by'', ma_RecordedBy a, pm_RecordedBy m), (''recorded_at'', ma_RecordedAt a, pm_RecordedAt m)],
      fail_if (ma_FileCount a \<noteq> int (length (pm_Files m)) \<or> length (ma_Files a) \<noteq> length (pm_Files m))
        (Errorf ''patch materialization authority proof file count mismatch'' []),
      check_authority_files 0 (ma_Files a) (pm_Files m),
      fail_if (\<not> isCanonicalSHA256Digest (ma_MaterializationDigest a))
        (Errorf ''patch materialization authority proof materialization digest is required'' []),
      fail_if (\<not> isCanonicalSHA256Digest (ma_MaterializationJSONDigest a))
        (Errorf ''patch materialization authority proof materialization JSON digest is required'' []),
      fail_if (\<not> isCanonicalSHA256Digest (ma_AuthorityDigest a)) (Errorf ''patch materialization authority proof digest is required'' []),
      fail_if (ma_AuthorityDigest a \<noteq> PatchMaterializationAuthorityProofDigest a)
        (Errorf ''patch materialization authority proof digest mismatch'' [])]"

definition BuildPatchMaterializationAuthorityProof ::
  "PatchMaterialization \<Rightarrow> PatchQueueItem \<Rightarrow> PatchMaterializationAuthorityProof result" where
  "BuildPatchMaterializationAuthorityProof m item =
     require (ValidatePatchMaterialization m item)
    (require (ValidatePatchMaterializationAuthorityProof (authority_of m) m item) (Inr (authority_of m)))"

end
