(* ===== verification/Materialization_Properties.thy ===== *)
theory Materialization_Properties
  imports Materialization Conflict_Properties
begin

section \<open>Properties of materialized patches\<close>

text \<open>
  A materialization that is accepted for an item has exactly the applied paths and, for each of them,
  a content of the recorded hash; for an applied item of a reachable queue nothing else is asked of the
  caller. The authority proof of a materialization is determined by it.
\<close>

subsection \<open>The checks\<close>

lemma match_None [simp]: "patchMaterializationMatch f got want = None \<longleftrightarrow> TrimSpace got = TrimSpace want \<and> TrimSpace want \<noteq> []"
  by (auto simp: patchMaterializationMatch_def Let_def)

lemma in_file_None [simp]: "in_file p e = None \<longleftrightarrow> e = None"
  by (simp add: in_file_def)

lemma first_of_two [simp]:
  "patchMaterializationFirstNonEmpty [a, b] = (if TrimSpace a \<noteq> [] then TrimSpace a else TrimSpace b)"
  by simp

lemma content_bounds_None:
  "n \<le> PatchMaterializationMaxTotalBytes \<Longrightarrow> check_content_bounds n fs = None \<longleftrightarrow>
     (\<forall>f \<in> set fs. length (mf_Content f) \<le> PatchMaterializationMaxFileBytes) \<and>
     n + sum_list (map (\<lambda>f. length (mf_Content f)) fs) \<le> PatchMaterializationMaxTotalBytes"
proof (induction n fs rule: check_content_bounds.induct)
  case (2 n f fs)
  show ?case
  proof (cases "length (mf_Content f) \<le> PatchMaterializationMaxFileBytes \<and> n + length (mf_Content f) \<le> PatchMaterializationMaxTotalBytes")
    case True
    then show ?thesis using "2.IH" [OF refl refl] by (simp add: Let_def add.assoc)
  qed (auto simp: Let_def)
qed simp

lemma bounds_None:
  "ValidatePatchMaterializationContentBounds m = None \<longleftrightarrow> length (pm_Files m) \<le> 128 \<and>
     (\<forall>f \<in> set (pm_Files m). length (mf_Content f) \<le> 1048576) \<and> sum_list (map (\<lambda>f. length (mf_Content f)) (pm_Files m)) \<le> 4194304"
  using content_bounds_None [of 0 "pm_Files m"]
  by (auto simp: ValidatePatchMaterializationContentBounds_def PatchMaterializationMaxFiles_def PatchMaterializationMaxFileBytes_def
      PatchMaterializationMaxTotalBytes_def)

text \<open>The applied results as the code keeps them, and what makes them acceptable.\<close>

abbreviation path_results :: "CASPatchPathResult list \<Rightarrow> (string \<times> CASPatchPathResult) list" where
  "path_results prs \<equiv> map (\<lambda>pr. (cp_Path pr, pr)) prs"

lemma collect_applied_cas_Inr:
  "collect_applied_cas ps i seen prs = Inr out \<longleftrightarrow> out = seen @ path_results prs \<and> distinct (map cp_Path prs) \<and>
     cp_Path ` set prs \<inter> fst ` set seen = {} \<and>
     (\<forall>pr \<in> set prs. NormalizePath (cp_Path pr) = Inr (cp_Path pr) \<and> cp_Status pr = CASPatchStatusApplied \<and> pathsetCoversPath ps (cp_Path pr))"
proof (induction prs arbitrary: i seen)
  case (Cons pr prs)
  have step: "collect_applied_cas ps i seen (pr # prs) = Inr out \<longleftrightarrow> NormalizePath (cp_Path pr) = Inr (cp_Path pr) \<and>
      cp_Status pr = CASPatchStatusApplied \<and> pathsetCoversPath ps (cp_Path pr) \<and> cp_Path pr \<notin> fst ` set seen \<and>
      collect_applied_cas ps (Suc i) (seen @ [(cp_Path pr, pr)]) prs = Inr out"
    by (auto simp: map_of_eq_None_iff split: sum.splits)
  show ?case unfolding step Cons.IH by auto
qed auto

lemma applied_cas_paths_Inr:
  "patchMaterializationAppliedCASPaths i = Inr (es, m) \<longleftrightarrow>
     (\<exists>ps. NormalizePathSet (pq_Pathset i) = Inr ps \<and> ps \<noteq> [] \<and> car_Paths (pq_CASResult i) \<noteq> [] \<and>
       m = path_results (car_Paths (pq_CASResult i)) \<and> es = sort (map cp_Path (car_Paths (pq_CASResult i))) \<and>
       distinct (map cp_Path (car_Paths (pq_CASResult i))) \<and>
       (\<forall>pr \<in> set (car_Paths (pq_CASResult i)). NormalizePath (cp_Path pr) = Inr (cp_Path pr) \<and> cp_Status pr = CASPatchStatusApplied \<and>
          pathsetCoversPath ps (cp_Path pr)) \<and>
       (\<forall>p \<in> set ps. pathsetEntryIsScoped p \<or> p \<in> cp_Path ` set (car_Paths (pq_CASResult i))))"
proof -
  have f: "map fst (path_results prs) = map cp_Path prs" for prs by simp
  have g: "guards (map (\<lambda>p. fail_if (\<not> pathsetEntryIsScoped p \<and> map_of (path_results prs) p = None) (e p)) ps) = None \<longleftrightarrow>
      (\<forall>p \<in> set ps. pathsetEntryIsScoped p \<or> p \<in> cp_Path ` set prs)" for prs ps and e :: "string \<Rightarrow> err"
  proof -
    have "map_of (path_results prs) p = None \<longleftrightarrow> p \<notin> cp_Path ` set prs" for p by (auto simp: map_of_eq_None_iff image_image)
    then show ?thesis by (simp only: guards_None set_map ball_simps fail_if_None) blast
  qed
  show ?thesis
    unfolding patchMaterializationAppliedCASPaths_def bind_result_Inr map_err_Inr require_Inr collect_applied_cas_Inr guards_Cons_None
    by (auto simp: f g simp del: map_map)
qed

text \<open>The loop over the files, on as many files as there are expected paths.\<close>

definition file_ok :: "CASPatchPathResult list \<Rightarrow> PatchMaterializedFile \<Rightarrow> bool" where
  "file_ok prs f \<longleftrightarrow> (\<exists>pr. map_of (path_results prs) (mf_Path f) = Some pr \<and> cp_Status pr = CASPatchStatusApplied \<and> check_file_hashes f pr = None)"

lemma check_files_None:
  "length es = length fs \<Longrightarrow> check_files (path_results prs) i prev es fs = None \<longleftrightarrow>
     map mf_Path fs = es \<and> (\<forall>f \<in> set fs. NormalizePath (mf_Path f) = Inr (mf_Path f) \<and> file_ok prs f) \<and>
     sorted_wrt (<) (case prev of None \<Rightarrow> es | Some p \<Rightarrow> p # es)"
proof (induction es fs arbitrary: i prev rule: list_induct2)
  case Nil
  then show ?case by (auto split: option.splits)
next
  case (Cons e es f fs)
  have step: "check_files (path_results prs) i prev (e # es) (f # fs) = None \<longleftrightarrow> NormalizePath (mf_Path f) = Inr (mf_Path f) \<and>
      (case prev of None \<Rightarrow> True | Some p \<Rightarrow> p < mf_Path f) \<and> e = mf_Path f \<and> file_ok prs f \<and>
      check_files (path_results prs) (Suc i) (Some (mf_Path f)) es fs = None"
    by (auto simp: file_ok_def split: sum.splits option.splits)
  have "sorted_wrt (<) (p # mf_Path f # es) \<longleftrightarrow> p < mf_Path f \<and> sorted_wrt (<) (mf_Path f # es)" for p by auto
  then show ?case unfolding step Cons.IH by (auto split: option.splits)
qed

lemma path_results_Some:
  "distinct (map cp_Path prs) \<Longrightarrow> map_of (path_results prs) p = Some pr \<longleftrightarrow> pr \<in> set prs \<and> cp_Path pr = p"
  by (auto simp: comp_def)

lemma check_file_hashes_None:
  "check_file_hashes f pr = None \<longleftrightarrow> (\<exists>k. validateCASPathChangeKind pr = Inr k \<and>
     k = (if TrimSpace (mf_ChangeKind f) = [] then CASPatchChangeModify else TrimSpace (mf_ChangeKind f)) \<and>
     (if k = CASPatchChangeAdd then TrimSpace (mf_BaseHash f) = [] \<and> TrimSpace (cp_BaseHash pr) = []
      else TrimSpace (mf_BaseHash f) = TrimSpace (cp_BaseHash pr) \<and> TrimSpace (cp_BaseHash pr) \<noteq> [])) \<and>
     TrimSpace (mf_CandidateHash f) = TrimSpace (cp_CandidateHash pr) \<and> TrimSpace (cp_CandidateHash pr) \<noteq> [] \<and>
     TrimSpace (mf_ContentEncoding f) = PatchMaterializationEncodingUTF8 \<and> TrimSpace (mf_ContentDigest f) = sha256_text (mf_Content f) \<and>
     TrimSpace (mf_CandidateHash f) = sha256_text (mf_Content f)"
proof -
  have "patchMaterializationChangeKind f pr = Inr k \<longleftrightarrow> validateCASPathChangeKind pr = Inr k \<and>
      k = (if TrimSpace (mf_ChangeKind f) = [] then CASPatchChangeModify else TrimSpace (mf_ChangeKind f))" for k
    unfolding patchMaterializationChangeKind_def bind_result_Inr Let_def require_Inr by auto
  then have kind: "(\<exists>k. validateCASPathChangeKind pr = Inr k \<and>
      k = (if TrimSpace (mf_ChangeKind f) = [] then CASPatchChangeModify else TrimSpace (mf_ChangeKind f)) \<and> Q k) \<longleftrightarrow>
      (\<exists>k. patchMaterializationChangeKind f pr = Inr k \<and> Q k)" for Q
    by (simp only: conj_assoc)
  show ?thesis
    unfolding kind check_file_hashes_def patchMaterializationContentDigest_def
    by (cases "patchMaterializationChangeKind f pr") (simp_all add: conj_ac)
qed

subsection \<open>Soundness\<close>

lemma validate_materialization_files:
  assumes "ValidatePatchMaterialization m i = None"
  defines "prs \<equiv> car_Paths (pq_CASResult i)"
  shows "map mf_Path (pm_Files m) = sort (map cp_Path prs)" and "sorted_wrt (<) (map mf_Path (pm_Files m))"
    and "distinct (map cp_Path prs)" and "\<forall>f \<in> set (pm_Files m). file_ok prs f"
proof -
  obtain es c where e: "patchMaterializationAppliedCASPaths i = Inr (es, c)" "length (pm_Files m) = length es"
    "check_files c 0 None es (pm_Files m) = None"
    using assms(1) unfolding ValidatePatchMaterialization_def by (auto split: sum.splits)
  have "c = path_results prs" "es = sort (map cp_Path prs)" "distinct (map cp_Path prs)"
    using e(1) unfolding applied_cas_paths_Inr prs_def by auto
  with e check_files_None [OF e(2) [symmetric], of prs 0 None] show
    "map mf_Path (pm_Files m) = sort (map cp_Path prs)" "sorted_wrt (<) (map mf_Path (pm_Files m))"
    "distinct (map cp_Path prs)" "\<forall>f \<in> set (pm_Files m). file_ok prs f"
    by auto
qed

text \<open>C23. What is accepted as the materialization of a patch is the patch that was validated: the files are
  exactly the applied paths, sorted and without repetition; the content of each file has the candidate hash
  that the compare-and-swap evaluation recorded for its path; it names the queue item and the operation;
  and there are at most 128 files, of at most 1 MiB each and 4 MiB together.\<close>

theorem materialization_sound:
  assumes "ValidatePatchMaterialization m i = None"
  shows "map mf_Path (pm_Files m) = sort (map cp_Path (car_Paths (pq_CASResult i))) \<and> sorted_wrt (<) (map mf_Path (pm_Files m)) \<and>
    (\<forall>f \<in> set (pm_Files m). \<exists>pr \<in> set (car_Paths (pq_CASResult i)). cp_Path pr = mf_Path f \<and>
       cp_Status pr = CASPatchStatusApplied \<and> sha256_text (mf_Content f) = TrimSpace (cp_CandidateHash pr)) \<and>
    TrimSpace (pm_QueueID m) = TrimSpace (pq_QueueID i) \<and> TrimSpace (pm_ItemID m) = TrimSpace (pq_ItemID i) \<and>
    TrimSpace (pm_OperationID m) = TrimSpace (pq_OperationID i) \<and>
    length (pm_Files m) \<le> 128 \<and> (\<forall>f \<in> set (pm_Files m). length (mf_Content f) \<le> 1048576) \<and>
    sum_list (map (\<lambda>f. length (mf_Content f)) (pm_Files m)) \<le> 4194304"
proof -
  note v = validate_materialization_files [OF assms]
  have "\<exists>pr \<in> set (car_Paths (pq_CASResult i)). cp_Path pr = mf_Path f \<and> cp_Status pr = CASPatchStatusApplied \<and>
      sha256_text (mf_Content f) = TrimSpace (cp_CandidateHash pr)" if "f \<in> set (pm_Files m)" for f
    using v(4) that unfolding file_ok_def path_results_Some [OF v(3)] check_file_hashes_None by fastforce
  moreover have "ValidatePatchMaterializationContentBounds m = None" "TrimSpace (pm_QueueID m) = TrimSpace (pq_QueueID i)"
    "TrimSpace (pm_ItemID m) = TrimSpace (pq_ItemID i)" "TrimSpace (pm_OperationID m) = TrimSpace (pq_OperationID i)"
    using assms by (simp_all add: ValidatePatchMaterialization_def)
  ultimately show ?thesis using v(1,2) unfolding bounds_None by blast
qed

subsection \<open>Applied items can be materialized\<close>

text \<open>The evidence on which an item of a reachable queue became applied.\<close>

definition applied_ok :: "PatchQueueItem \<Rightarrow> bool" where
  "applied_ok i \<longleftrightarrow> pq_Schema i = PatchQueueItemSchemaVersion \<and> TrimSpace (pq_WorkspaceID i) \<noteq> [] \<and> pq_ProjectID i = [] \<and>
     (pq_State i = PatchQueueStateApplied \<longrightarrow> TrimSpace (pq_OperationID i) \<noteq> [] \<and> TrimSpace (pq_OperationKind i) \<noteq> [] \<and>
        (\<exists>a. validateCASEvidence (pq_CASResult i) a = None \<and> ctx_Pathset a = pq_Pathset i))"

lemma fresh_item_applied_ok:
  assumes "fresh_item k i" shows "applied_ok i"
proof -
  obtain input a d ps now where refs: "requirePatchQueueProposalRefs a = None" and i: "i = new_item input a d ps now"
    using assms unfolding fresh_item_def by blast
  have "Context_Validate a = None" using refs unfolding requirePatchQueueProposalRefs_def guards_Cons_None wrap_err_None by blast
  from Context_Validate_ids(1) [OF this] show ?thesis by (simp add: applied_ok_def i new_item_def)
qed

lemma item_step_applied_ok:
  assumes "item_step i j" and "applied_ok i" shows "applied_ok j"
  using assms(1)
proof cases
  case (item_complete a r e te has now)
  have ctx: "NormalizePathSet (ctx_Pathset a) = Inr (pq_Pathset i)" using item_complete(3) unfolding verifyPatchQueueItemContext_None by blast
  obtain d where "Context_Digest a = Inr d" using item_complete(4) unfolding validateCASEvidence_None by blast
  then have "canonical_pathset (ctx_Pathset a)" using Context_Validate_pathset(1) [of "WithDefaults a"] by (simp add: Context_Digest_Inr)
  with ctx have ps: "ctx_Pathset a = pq_Pathset i" by (simp add: NormalizePathSet_canonical)
  have ops: "TrimSpace (op_ID (ctx_Operation a)) \<noteq> [] \<and> TrimSpace (op_Kind (ctx_Operation a)) \<noteq> []"
    if "car_Status r = CASPatchStatusApplied" "\<not> (has \<and> te_Status te = PatchQueueTestStatusFailed)"
    using item_complete(7) [OF that] unfolding requireConcreteMutationOperationRefs_def guards_Cons_None rejectVague_None by blast
  show ?thesis
    using assms(2) ps ops item_complete(4) unfolding item_complete(1)
    by (auto simp: applied_ok_def outcome_def completed_item_def)
next
  case (item_recover reason delay now)
  then show ?thesis using assms(2) by (simp add: applied_ok_def recovery_item_def Let_def)
qed (use assms(2) in \<open>auto simp: applied_ok_def retry_item_def rolled_back_item_def\<close>)

interpretation queue_applied: item_invariant "\<lambda>k i. applied_ok i"
  by unfold_locales (auto intro: fresh_item_applied_ok item_step_applied_ok)

text \<open>What the accepted evidence of an applied patch says of each of its paths.\<close>

definition usable_result :: "CASPatchPathResult \<Rightarrow> bool" where
  "usable_result pr \<longleftrightarrow> NormalizePath (cp_Path pr) = Inr (cp_Path pr) \<and> cp_Status pr = CASPatchStatusApplied \<and>
     TrimSpace (cp_CandidateHash pr) \<noteq> [] \<and> (\<exists>k. validateCASPathChangeKind pr = Inr k \<and>
       (if k = CASPatchChangeAdd then TrimSpace (cp_BaseHash pr) = [] else TrimSpace (cp_BaseHash pr) \<noteq> []))"

lemma accepted_usable:
  assumes "validateCASEvidence r a = None" and "car_Status r = CASPatchStatusApplied" and "pr \<in> set (car_Paths r)"
  shows "usable_result pr"
proof -
  obtain ps m where "collect_path_results a ps [] (car_Paths r) = Inr m" using assms(1) unfolding validateCASEvidence_None by blast
  then have c: "check_path_result a ps [] pr = None" using assms(3) unfolding collect_path_results_Inr by blast
  note f = applied_evidence_facts [OF assms(1,2)]
  from c obtain k where k: "validateCASPathChangeKind pr = Inr k" "check_change pr (base_hash a (cp_Path pr)) k = None"
    and n: "normalizeResolverPath (cp_Path pr) = Inr (cp_Path pr)" unfolding check_path_result_None by blast
  have "if k = CASPatchChangeAdd then TrimSpace (cp_BaseHash pr) = [] else TrimSpace (cp_BaseHash pr) \<noteq> []"
    using k(2) by (auto simp: check_change_def)
  with k(1) n f assms(3) show ?thesis unfolding usable_result_def by (auto simp: normalizeResolverPath_iff)
qed

lemma cas_path_map:
  assumes "distinct (map cp_Path (car_Paths r))" and "\<forall>pr \<in> set (car_Paths r). usable_result pr"
  shows "patchMaterializationCASPathMap r = map_of (path_results (car_Paths r))"
proof -
  have t: "TrimSpace (cp_Path pr) = cp_Path pr \<and> cp_Path pr \<noteq> []" if "pr \<in> set (car_Paths r)" for pr
    using assms(2) that NormalizePath_fixed_trimmed NormalizePath_not_Nil unfolding usable_result_def by blast
  then have f: "filter (\<lambda>pr. TrimSpace (cp_Path pr) \<noteq> []) (car_Paths r) = car_Paths r" by (simp add: filter_id_conv)
  have m: "map (\<lambda>pr. (TrimSpace (cp_Path pr), pr)) (car_Paths r) = path_results (car_Paths r)" using t by simp
  have "distinct (map fst (path_results (car_Paths r)))" using assms(1) by (simp add: comp_def)
  then show ?thesis unfolding patchMaterializationCASPathMap_def f m
    by (subst map_of_inject_set) (simp_all add: rev_map [symmetric] del: map_map)
qed

subsection \<open>Files with a path and a content\<close>

definition bare_file :: "string \<times> string \<Rightarrow> PatchMaterializedFile" where
  "bare_file x = \<lparr>mf_Path = fst x, mf_ChangeKind = [], mf_BaseHash = [], mf_CandidateHash = [], mf_ContentEncoding = [],
     mf_Content = snd x, mf_ContentDigest = []\<rparr>"

definition bare_patch :: "(string \<times> string) list \<Rightarrow> PatchMaterialization" where
  "bare_patch fs = \<lparr>pm_Schema = [], pm_WorkspaceID = [], pm_ProjectID = [], pm_QueueID = [], pm_ItemID = [], pm_OperationID = [],
     pm_OperationKind = [], pm_CASPatchDigest = [], pm_CASEvaluationDigest = [], pm_Files = map bare_file fs, pm_RecordedBy = [],
     pm_RecordedAt = [], pm_MaterializationDigest = []\<rparr>"

definition full_file :: "(string \<rightharpoonup> CASPatchPathResult) \<Rightarrow> string \<times> string \<Rightarrow> PatchMaterializedFile" where
  "full_file m x = \<lparr>mf_Path = fst x, mf_ChangeKind = TrimSpace (cp_ChangeKind (cas_path_at m (fst x))),
     mf_BaseHash = TrimSpace (cp_BaseHash (cas_path_at m (fst x))), mf_CandidateHash = TrimSpace (cp_CandidateHash (cas_path_at m (fst x))),
     mf_ContentEncoding = PatchMaterializationEncodingUTF8, mf_Content = snd x, mf_ContentDigest = sha256_text (snd x)\<rparr>"

lemma TrimSpace_utf8 [simp]: "TrimSpace PatchMaterializationEncodingUTF8 = PatchMaterializationEncodingUTF8"
  "PatchMaterializationEncodingUTF8 \<noteq> []" "TrimSpace PatchMaterializationSchemaVersion = PatchMaterializationSchemaVersion"
  by (simp_all add: PatchMaterializationEncodingUTF8_def PatchMaterializationSchemaVersion_def TrimSpace_graphic graphic_def)

lemma normalize_bare_files:
  "\<forall>x \<in> set fs. NormalizePath (fst x) = Inr (fst x) \<Longrightarrow> normalize_files m (map bare_file fs) = Inr (map (full_file m) fs)"
proof (induction fs)
  case (Cons x fs)
  then have "normalize_file m (bare_file x) = Inr (full_file m x)"
    by (simp add: normalize_file_def bind_result_Inr map_err_Inr Let_def bare_file_def full_file_def patchMaterializationContentDigest_def)
  with Cons show ?case by (simp add: bind_result_Inr)
qed simp

lemma full_file_ok:
  assumes "distinct (map cp_Path prs)" and "\<forall>pr \<in> set prs. usable_result pr"
  shows "file_ok prs (full_file (map_of (path_results prs)) x) \<longleftrightarrow>
    (\<exists>pr \<in> set prs. cp_Path pr = fst x \<and> sha256_text (snd x) = TrimSpace (cp_CandidateHash pr))"
proof -
  have h: "check_file_hashes (full_file (map_of (path_results prs)) x) pr = None \<longleftrightarrow> sha256_text (snd x) = TrimSpace (cp_CandidateHash pr)"
    if pr: "pr \<in> set prs" "cp_Path pr = fst x" for pr
  proof -
    have at: "cas_path_at (map_of (path_results prs)) (fst x) = pr"
      using path_results_Some [OF assms(1), of "fst x" pr] pr by (simp add: cas_path_at_def)
    obtain k where k: "validateCASPathChangeKind pr = Inr k" "TrimSpace (cp_CandidateHash pr) \<noteq> []"
      "if k = CASPatchChangeAdd then TrimSpace (cp_BaseHash pr) = [] else TrimSpace (cp_BaseHash pr) \<noteq> []"
      using assms(2) pr(1) unfolding usable_result_def by blast
    have kind: "k = (if TrimSpace (cp_ChangeKind pr) = [] then CASPatchChangeModify else TrimSpace (cp_ChangeKind pr))"
      using k(1) unfolding validateCASPathChangeKind_Inr casPatchPathChangeKind_def Let_def by (rule conjunct1)
    let ?f = "full_file (map_of (path_results prs)) x"
    have f: "mf_ChangeKind ?f = TrimSpace (cp_ChangeKind pr)" "mf_BaseHash ?f = TrimSpace (cp_BaseHash pr)"
      "mf_CandidateHash ?f = TrimSpace (cp_CandidateHash pr)" "mf_ContentEncoding ?f = PatchMaterializationEncodingUTF8"
      "mf_Content ?f = snd x" "mf_ContentDigest ?f = sha256_text (snd x)"
      by (simp_all add: full_file_def at)
    have "\<exists>k. validateCASPathChangeKind pr = Inr k \<and>
        k = (if TrimSpace (mf_ChangeKind ?f) = [] then CASPatchChangeModify else TrimSpace (mf_ChangeKind ?f)) \<and>
        (if k = CASPatchChangeAdd then TrimSpace (mf_BaseHash ?f) = [] \<and> TrimSpace (cp_BaseHash pr) = []
         else TrimSpace (mf_BaseHash ?f) = TrimSpace (cp_BaseHash pr) \<and> TrimSpace (cp_BaseHash pr) \<noteq> [])"
      unfolding f TrimSpace_idem kind [symmetric] using k(1,3) by (intro exI [of _ k]) simp
    then show ?thesis unfolding check_file_hashes_None using k(2) by (auto simp: f)
  qed
  have st: "cp_Status pr = CASPatchStatusApplied" if "pr \<in> set prs" for pr using assms(2) that by (simp add: usable_result_def)
  have p: "mf_Path (full_file (map_of (path_results prs)) x) = fst x" by (simp add: full_file_def)
  show ?thesis unfolding file_ok_def p path_results_Some [OF assms(1)] using h st by blast
qed

lemma map_sort_self: "map f (sort_key f xs) = sort (map f xs)" for f :: "'a \<Rightarrow> string"
  by (rule properties_for_sort [symmetric]) simp_all

lemma sort_eq_iff:
  fixes xs ys :: "string list"
  assumes "distinct ys"
  shows "sort xs = sort ys \<longleftrightarrow> distinct xs \<and> set xs = set ys"
proof
  assume "sort xs = sort ys"
  then have "mset xs = mset ys" by (metis mset_sort)
  then show "distinct xs \<and> set xs = set ys" using assms by (metis mset_eq_setD mset_eq_imp_distinct_iff)
next
  assume "distinct xs \<and> set xs = set ys"
  then have "mset xs = mset ys" using assms set_eq_iff_mset_eq_distinct by blast
  then show "sort xs = sort ys" by (metis properties_for_sort mset_sort sorted_sort)
qed

lemma materialization_digest_fixed [simp]:
  "PatchMaterializationDigest (m\<lparr>pm_MaterializationDigest := d\<rparr>) = PatchMaterializationDigest m"
  by (simp add: PatchMaterializationDigest_def)

lemma canonical_materialization_digest [simp]: "isCanonicalSHA256Digest (PatchMaterializationDigest m)"
  by (simp add: PatchMaterializationDigest_def)

text \<open>The header that a bare patch takes from its item passes, so that only the files are left to check.\<close>

lemma header_valid:
  fixes fs :: "(string \<times> string) list" and t :: instant and gs :: "PatchMaterializedFile list"
  assumes "applied_ok i" "refs_ok i" "item_inv k i" "pq_State i = PatchQueueStateApplied"
  defines "m \<equiv> (normalize_header (bare_patch fs) i t)\<lparr>pm_Files := gs\<rparr>"
  shows "ValidatePatchMaterialization (m\<lparr>pm_MaterializationDigest := PatchMaterializationDigest m\<rparr>) i = None \<longleftrightarrow>
    ValidatePatchMaterializationContentBounds m = None \<and>
    (\<exists>es c. patchMaterializationAppliedCASPaths i = Inr (es, c) \<and> length gs = length es \<and> check_files c 0 None es gs = None)"
proof -
  obtain a where ev: "validateCASEvidence (pq_CASResult i) a = None" using assms(1,4) unfolding applied_ok_def by blast
  have st: "car_Status (pq_CASResult i) = CASPatchStatusApplied" "pq_CASPatchDigest i = TrimSpace (car_PatchDigest (pq_CASResult i))"
    "pq_CASEvaluationDigest i = digestCASPatchApplyResult (pq_CASResult i)" "pq_OperationID i \<noteq> []" "pq_OperationKind i \<noteq> []"
    using assms(3,4) unfolding item_inv_def evidence_ok_def operation_ok_def by simp_all
  have "TrimSpace (car_PatchDigest (pq_CASResult i)) \<noteq> []"
    using ev st(1) unfolding validateCASEvidence_None check_by_status_def by auto
  then have d: "TrimSpace (pq_CASPatchDigest i) \<noteq> []" "TrimSpace (pq_CASEvaluationDigest i) \<noteq> []"
    using st(2,3) canonical_value_digest by (simp_all add: digestCASPatchApplyResult_def canonical_value_def)
  have r: "TrimSpace (pq_QueueID i) \<noteq> []" "TrimSpace (pq_ItemID i) \<noteq> []" using assms(2) by (auto simp: refs_ok_def canonical_value_def)
  have ok: "TrimSpace (pq_WorkspaceID i) \<noteq> []" "TrimSpace (pq_ProjectID i) = []" "TrimSpace (pq_OperationID i) \<noteq> []"
    "TrimSpace (pq_OperationKind i) \<noteq> []" "TrimSpace (pq_Schema i) = PatchQueueItemSchemaVersion"
    using assms(1,4) by (simp_all add: applied_ok_def PatchQueueItemSchemaVersion_def TrimSpace_graphic graphic_def)
  let ?m = "\<lambda>x. m\<lparr>pm_MaterializationDigest := x\<rparr>"
  have f: "pm_WorkspaceID (?m x) = TrimSpace (pq_WorkspaceID i)" "pm_QueueID (?m x) = TrimSpace (pq_QueueID i)"
    "pm_ItemID (?m x) = TrimSpace (pq_ItemID i)" "pm_OperationID (?m x) = TrimSpace (pq_OperationID i)"
    "pm_OperationKind (?m x) = TrimSpace (pq_OperationKind i)" "pm_CASPatchDigest (?m x) = TrimSpace (pq_CASPatchDigest i)"
    "pm_CASEvaluationDigest (?m x) = TrimSpace (pq_CASEvaluationDigest i)" "pm_Schema (?m x) = PatchMaterializationSchemaVersion"
    "pm_Files (?m x) = gs" "pm_MaterializationDigest (?m x) = x" for x
    by (simp_all add: m_def normalize_header_def bare_patch_def Let_def)
  have b: "ValidatePatchMaterializationContentBounds (m\<lparr>pm_MaterializationDigest := x\<rparr>) = ValidatePatchMaterializationContentBounds m" for x
    by (simp add: ValidatePatchMaterializationContentBounds_def)
  have cas: "(case patchMaterializationAppliedCASPaths i of Inl e \<Rightarrow> Some e | Inr (es, c) \<Rightarrow> guards
        [fail_if (length gs \<noteq> length es) (w es), check_files c 0 None es gs]) = None \<longleftrightarrow>
      (\<exists>es c. patchMaterializationAppliedCASPaths i = Inr (es, c) \<and> length gs = length es \<and> check_files c 0 None es gs = None)" for w
    by (auto split: sum.splits)
  have s: "TrimSpace (pq_State i) = PatchQueueStateApplied" using assms(4) by simp
  show ?thesis
    unfolding ValidatePatchMaterialization_def guards_Cons_None b f cas
    using st d r ok s by simp
qed

text \<open>What an applied item of a reachable queue is asked for.\<close>

lemma bare_patch_Inr:
  assumes inv: "applied_ok i" "refs_ok i" "item_inv k i" and st: "pq_State i = PatchQueueStateApplied"
    and fs: "\<forall>x \<in> set fs. NormalizePath (fst x) = Inr (fst x)"
  defines "prs \<equiv> car_Paths (pq_CASResult i)"
  shows "(\<exists>m. NormalizePatchMaterialization wall (bare_patch fs) i t = Inr m) \<longleftrightarrow>
    length fs \<le> 128 \<and> (\<forall>x \<in> set fs. length (snd x) \<le> 1048576) \<and> sum_list (map (\<lambda>x. length (snd x)) fs) \<le> 4194304 \<and>
    distinct (map fst fs) \<and> fst ` set fs = cp_Path ` set prs \<and>
    (\<forall>x \<in> set fs. \<exists>pr \<in> set prs. cp_Path pr = fst x \<and> sha256_text (snd x) = TrimSpace (cp_CandidateHash pr))"
proof -
  obtain a where ev: "validateCASEvidence (pq_CASResult i) a = None" and psa: "ctx_Pathset a = pq_Pathset i"
    using inv(1) st unfolding applied_ok_def by blast
  have app: "car_Status (pq_CASResult i) = CASPatchStatusApplied" using inv(3) st by (simp add: item_inv_def evidence_ok_def)
  note facts = applied_evidence_facts [OF ev app]
  have dist: "distinct (map cp_Path prs)" and us: "\<forall>pr \<in> set prs. usable_result pr"
    using facts accepted_usable [OF ev app] by (auto simp: prs_def)
  have can: "canonical_pathset (pq_Pathset i)" "pq_Pathset i \<noteq> []" using inv(3) by (simp_all add: item_inv_def)
  have exp: "patchMaterializationAppliedCASPaths i = Inr (es, c) \<longleftrightarrow> es = sort (map cp_Path prs) \<and> c = path_results prs" for es c
    using facts us dist can NormalizePathSet_canonical [OF can(1)] psa
    unfolding applied_cas_paths_Inr prs_def usable_result_def by auto
  have cm: "patchMaterializationCASPathMap (pq_CASResult i) = map_of (path_results prs)"
    unfolding prs_def by (rule cas_path_map) (use dist us in \<open>simp_all add: prs_def\<close>)
  define gs where "gs = sort_key mf_Path (map (full_file (map_of (path_results prs))) fs)"
  define m where "m = (normalize_header (bare_patch fs) i (normalizeLeaseTime wall t))\<lparr>pm_Files := gs\<rparr>"
  have paths: "map mf_Path gs = sort (map fst fs)"
    unfolding gs_def map_sort_self by (simp add: comp_def full_file_def)
  have each: "(\<forall>g \<in> set gs. P g) \<longleftrightarrow> (\<forall>x \<in> set fs. P (full_file (map_of (path_results prs)) x))" for P by (simp add: gs_def)
  have b: "ValidatePatchMaterializationContentBounds (bare_patch fs) = None \<longleftrightarrow>
      length fs \<le> 128 \<and> (\<forall>x \<in> set fs. length (snd x) \<le> 1048576) \<and> sum_list (map (\<lambda>x. length (snd x)) fs) \<le> 4194304"
    unfolding bounds_None by (simp add: bare_patch_def bare_file_def comp_def)
  have "sum_list (map (\<lambda>f. length (mf_Content f)) gs) = sum_list (map (\<lambda>x. length (snd x)) fs)"
    by (subst sum_mset_sum_list [symmetric], simp add: gs_def full_file_def image_mset.compositionality comp_def sum_mset_sum_list [symmetric])
  then have "ValidatePatchMaterializationContentBounds m = None \<longleftrightarrow>
      length fs \<le> 128 \<and> (\<forall>x \<in> set fs. length (snd x) \<le> 1048576) \<and> sum_list (map (\<lambda>x. length (snd x)) fs) \<le> 4194304"
    unfolding bounds_None by (simp add: m_def each) (simp add: gs_def full_file_def)
  then have b': "ValidatePatchMaterializationContentBounds m = None \<longleftrightarrow> ValidatePatchMaterializationContentBounds (bare_patch fs) = None"
    by (simp only: b)
  have "(\<exists>m. NormalizePatchMaterialization wall (bare_patch fs) i t = Inr m) \<longleftrightarrow>
      ValidatePatchMaterializationContentBounds (bare_patch fs) = None \<and>
      ValidatePatchMaterialization (m\<lparr>pm_MaterializationDigest := PatchMaterializationDigest m\<rparr>) i = None"
  proof -
    have files: "pm_Files (bare_patch fs) = map bare_file fs" by (simp add: bare_patch_def)
    show ?thesis
      unfolding NormalizePatchMaterialization_def require_Inr bind_result_Inr files cm normalize_bare_files [OF fs] Let_def
      by (simp add: m_def gs_def)
  qed
  also have "\<dots> \<longleftrightarrow> ValidatePatchMaterializationContentBounds (bare_patch fs) = None \<and> map mf_Path gs = sort (map cp_Path prs) \<and>
      (\<forall>g \<in> set gs. NormalizePath (mf_Path g) = Inr (mf_Path g) \<and> file_ok prs g)"
  proof -
    have "sorted_wrt (<) (sort (map cp_Path prs))" using dist by (simp add: strict_sorted_iff)
    moreover have "length gs = length (sort (map cp_Path prs))" if "map mf_Path gs = sort (map cp_Path prs)"
      using arg_cong [OF that, of length] by simp
    ultimately show ?thesis
      unfolding m_def header_valid [OF inv st, where fs = fs and t = "normalizeLeaseTime wall t" and gs = gs] exp
      using b' check_files_None [of "sort (map cp_Path prs)" gs prs 0 None] by (auto simp: m_def)
  qed
  also have "\<dots> \<longleftrightarrow> ValidatePatchMaterializationContentBounds (bare_patch fs) = None \<and> distinct (map fst fs) \<and> fst ` set fs = cp_Path ` set prs \<and>
    (\<forall>x \<in> set fs. \<exists>pr \<in> set prs. cp_Path pr = fst x \<and> sha256_text (snd x) = TrimSpace (cp_CandidateHash pr))"
    unfolding paths each full_file_ok [OF dist us] sort_eq_iff [OF dist] using fs by (simp add: full_file_def)
  finally show ?thesis unfolding b by simp
qed

text \<open>C22. The contents of an applied patch can be recorded exactly when they are the patch: for an applied item
  of a reachable queue and files that name a normalised path and a content, and nothing else, the
  materialization is accepted if and only if it is within the size limits, has one file for each applied path
  and no other, and every content has the candidate hash of its path. Identifiers, digests and hashes are
  filled in from the item.\<close>

theorem materialization_iff:
  assumes "run_of (\<lambda>s. fst s = NewPatchQueueStore) queue_step ops s" and "map_of (qs_items (fst s)) k = Some i"
    and "pq_State i = PatchQueueStateApplied" and "\<forall>x \<in> set fs. NormalizePath (fst x) = Inr (fst x)"
  shows "(\<exists>m. NormalizePatchMaterialization wall (bare_patch fs) i t = Inr m) \<longleftrightarrow>
    length fs \<le> 128 \<and> (\<forall>x \<in> set fs. length (snd x) \<le> 1048576) \<and> sum_list (map (\<lambda>x. length (snd x)) fs) \<le> 4194304 \<and>
    distinct (map fst fs) \<and> fst ` set fs = cp_Path ` set (car_Paths (pq_CASResult i)) \<and>
    (\<forall>x \<in> set fs. \<exists>pr \<in> set (car_Paths (pq_CASResult i)). cp_Path pr = fst x \<and> sha256_text (snd x) = TrimSpace (cp_CandidateHash pr))"
  using bare_patch_Inr [OF queue_applied.reachable_item [OF assms(1,2)] conjunct1 [OF queue_refs.reachable_item [OF assms(1,2)]]
      queue_items.reachable_item [OF assms(1,2)] assms(3,4)] .

subsection \<open>Authority proofs\<close>

definition trimmed_path :: "PatchMaterializedFileAuthorityProofPath \<Rightarrow> bool" where
  "trimmed_path f \<longleftrightarrow> list_all trimmed [ap_Path f, ap_ChangeKind f, ap_BaseHash f, ap_CandidateHash f, ap_ContentEncoding f, ap_ContentDigest f]"

definition trimmed_proof :: "PatchMaterializationAuthorityProof \<Rightarrow> bool" where
  "trimmed_proof a \<longleftrightarrow> list_all trimmed [ma_Schema a, ma_Source a, ma_WorkspaceID a, ma_ProjectID a, ma_QueueID a, ma_ItemID a,
     ma_OperationID a, ma_OperationKind a, ma_CASPatchDigest a, ma_CASEvaluationDigest a, ma_MaterializationDigest a,
     ma_MaterializationJSONDigest a, ma_RecordedBy a, ma_RecordedAt a] \<and> list_all trimmed_path (ma_Files a)"

lemma same_fields_None: "same_fields fm xs rows = None \<longleftrightarrow> (\<forall>(f, got, want) \<in> set rows. TrimSpace got = TrimSpace want)"
  by (auto simp: same_fields_def guards_None)

lemma authority_files_None:
  "length gs = length fs \<Longrightarrow> list_all trimmed_path gs \<Longrightarrow> check_authority_files i gs fs = None \<longleftrightarrow> gs = map authority_path fs"
proof (induction gs fs arbitrary: i rule: list_induct2)
  case (Cons g gs f fs)
  have "g = authority_path f \<longleftrightarrow> ap_Path g = TrimSpace (mf_Path f) \<and> ap_ChangeKind g = TrimSpace (mf_ChangeKind f) \<and>
      ap_BaseHash g = TrimSpace (mf_BaseHash f) \<and> ap_CandidateHash g = TrimSpace (mf_CandidateHash f) \<and>
      ap_ContentEncoding g = TrimSpace (mf_ContentEncoding f) \<and> ap_ContentDigest g = TrimSpace (mf_ContentDigest f)"
    by (cases g) (simp add: authority_path_def)
  with Cons show ?case by (simp add: same_fields_None trimmed_path_def trimmed_def)
qed simp

lemma trimmed_constants:
  "TrimSpace PatchMaterializationAuthorityProofSchemaVersion = PatchMaterializationAuthorityProofSchemaVersion"
  "TrimSpace PatchMaterializationAuthorityProofSourceSQLite = PatchMaterializationAuthorityProofSourceSQLite"
  by (simp_all add: PatchMaterializationAuthorityProofSchemaVersion_def PatchMaterializationAuthorityProofSourceSQLite_def
      TrimSpace_graphic graphic_def)

text \<open>The fields of the proof without its own digest.\<close>

definition authority_body :: "PatchMaterialization \<Rightarrow> PatchMaterializationAuthorityProof" where
  "authority_body m = (authority_of m)\<lparr>ma_AuthorityDigest := []\<rparr>"

lemma authority_of_body: "authority_of m = (authority_body m)\<lparr>ma_AuthorityDigest := PatchMaterializationAuthorityProofDigest (authority_body m)\<rparr>"
  by (simp add: authority_body_def authority_of_def Let_def PatchMaterializationAuthorityProofDigest_def)

lemma digest_of_body: "PatchMaterializationAuthorityProofDigest (a\<lparr>ma_AuthorityDigest := d\<rparr>) = PatchMaterializationAuthorityProofDigest a"
  by (simp add: PatchMaterializationAuthorityProofDigest_def)

lemma trimmed_authority: "trimmed_proof (authority_of m)"
  by (simp add: trimmed_proof_def trimmed_path_def authority_of_def Let_def authority_path_def trimmed_def list_all_iff trimmed_constants
      PatchMaterializationJSONDigest_def)

lemma authority_valid:
  assumes "ValidatePatchMaterialization m i = None"
  shows "ValidatePatchMaterializationAuthorityProof (authority_of m) m i = None"
proof -
  have d: "pm_MaterializationDigest m = PatchMaterializationDigest m" using assms by (simp add: ValidatePatchMaterialization_def)
  have f: "check_authority_files 0 (map authority_path (pm_Files m)) (pm_Files m) = None"
    using trimmed_authority [of m] by (subst authority_files_None) (simp_all add: trimmed_proof_def authority_of_def Let_def)
  have g: "ma_AuthorityDigest (authority_of m) = PatchMaterializationAuthorityProofDigest (authority_of m)"
    unfolding authority_of_body digest_of_body by simp
  have c: "isCanonicalSHA256Digest (PatchMaterializationAuthorityProofDigest x)" for x by (simp add: PatchMaterializationAuthorityProofDigest_def)
  have h: "ma_FileCount (authority_of m) = int (length (pm_Files m))" "ma_Files (authority_of m) = map authority_path (pm_Files m)"
    "ma_MaterializationDigest (authority_of m) = PatchMaterializationDigest m" "ma_MaterializationJSONDigest (authority_of m) = PatchMaterializationJSONDigest m"
    by (simp_all add: authority_of_def Let_def d PatchMaterializationDigest_def)
  have rows: "same_fields ''patch materialization authority proof %s mismatch'' [] r = None \<longleftrightarrow> (\<forall>(f, got, want) \<in> set r. TrimSpace got = TrimSpace want)" for r
    by (rule same_fields_None)
  show ?thesis
    unfolding ValidatePatchMaterializationAuthorityProof_def guards_Cons_None rows h g
    using assms f c by (simp add: authority_of_def Let_def trimmed_constants d PatchMaterializationJSONDigest_def PatchMaterializationDigest_def)
qed

lemma authority_unique:
  assumes "trimmed_proof a" and ok: "ValidatePatchMaterializationAuthorityProof a m i = None"
  shows "a = authority_of m"
proof -
  have t: "TrimSpace x = x" if "trimmed x" for x using that by (simp add: trimmed_def)
  have len: "length (ma_Files a) = length (pm_Files m)" "check_authority_files 0 (ma_Files a) (pm_Files m) = None"
    and own: "ma_AuthorityDigest a = PatchMaterializationAuthorityProofDigest a"
    using ok by (simp_all add: ValidatePatchMaterializationAuthorityProof_def)
  have files: "ma_Files a = map authority_path (pm_Files m)"
    using authority_files_None [OF len(1)] len(2) assms(1) by (simp add: trimmed_proof_def)
  have rest: "ma_Schema a = PatchMaterializationAuthorityProofSchemaVersion" "ma_Source a = PatchMaterializationAuthorityProofSourceSQLite"
    "ma_WorkspaceID a = TrimSpace (pm_WorkspaceID m)" "ma_ProjectID a = TrimSpace (pm_ProjectID m)" "ma_QueueID a = TrimSpace (pm_QueueID m)"
    "ma_ItemID a = TrimSpace (pm_ItemID m)" "ma_OperationID a = TrimSpace (pm_OperationID m)" "ma_OperationKind a = TrimSpace (pm_OperationKind m)"
    "ma_CASPatchDigest a = TrimSpace (pm_CASPatchDigest m)" "ma_CASEvaluationDigest a = TrimSpace (pm_CASEvaluationDigest m)"
    "ma_MaterializationDigest a = TrimSpace (pm_MaterializationDigest m)" "ma_MaterializationJSONDigest a = PatchMaterializationJSONDigest m"
    "ma_FileCount a = int (length (pm_Files m))" "ma_RecordedBy a = TrimSpace (pm_RecordedBy m)" "ma_RecordedAt a = TrimSpace (pm_RecordedAt m)"
    using ok assms(1)
    by (simp_all add: ValidatePatchMaterializationAuthorityProof_def same_fields_None trimmed_proof_def t PatchMaterializationJSONDigest_def)
  have body: "a\<lparr>ma_AuthorityDigest := []\<rparr> = authority_body m"
    by (rule PatchMaterializationAuthorityProof.equality) (simp_all add: rest files authority_body_def authority_of_def Let_def)
  have "a = (a\<lparr>ma_AuthorityDigest := []\<rparr>)\<lparr>ma_AuthorityDigest := PatchMaterializationAuthorityProofDigest a\<rparr>" by (simp add: own [symmetric])
  also have "\<dots> = authority_of m" unfolding body authority_of_body using digest_of_body [where a = a and d = "[]"] by (simp add: body)
  finally show ?thesis .
qed

text \<open>A proof with the white space around its texts taken away and its digest computed anew.\<close>

definition trim_path :: "PatchMaterializedFileAuthorityProofPath \<Rightarrow> PatchMaterializedFileAuthorityProofPath" where
  "trim_path f = \<lparr>ap_Path = TrimSpace (ap_Path f), ap_ChangeKind = TrimSpace (ap_ChangeKind f), ap_BaseHash = TrimSpace (ap_BaseHash f),
     ap_CandidateHash = TrimSpace (ap_CandidateHash f), ap_ContentEncoding = TrimSpace (ap_ContentEncoding f),
     ap_ContentDigest = TrimSpace (ap_ContentDigest f)\<rparr>"

definition trim_proof :: "PatchMaterializationAuthorityProof \<Rightarrow> PatchMaterializationAuthorityProof" where
  "trim_proof a =
     (let t = a\<lparr>ma_Schema := TrimSpace (ma_Schema a), ma_Source := TrimSpace (ma_Source a), ma_WorkspaceID := TrimSpace (ma_WorkspaceID a),
        ma_ProjectID := TrimSpace (ma_ProjectID a), ma_QueueID := TrimSpace (ma_QueueID a), ma_ItemID := TrimSpace (ma_ItemID a),
        ma_OperationID := TrimSpace (ma_OperationID a), ma_OperationKind := TrimSpace (ma_OperationKind a),
        ma_CASPatchDigest := TrimSpace (ma_CASPatchDigest a), ma_CASEvaluationDigest := TrimSpace (ma_CASEvaluationDigest a),
        ma_MaterializationDigest := TrimSpace (ma_MaterializationDigest a),
        ma_MaterializationJSONDigest := TrimSpace (ma_MaterializationJSONDigest a), ma_Files := map trim_path (ma_Files a),
        ma_RecordedBy := TrimSpace (ma_RecordedBy a), ma_RecordedAt := TrimSpace (ma_RecordedAt a)\<rparr>
      in t\<lparr>ma_AuthorityDigest := PatchMaterializationAuthorityProofDigest t\<rparr>)"

lemma check_trimmed_files: "check_authority_files i (map trim_path gs) fs = None \<longleftrightarrow> check_authority_files i gs fs = None"
  by (induction i gs fs rule: check_authority_files.induct) (simp_all add: same_fields_None trim_path_def)

lemma trimmed_trim_proof: "trimmed_proof (trim_proof a)"
  by (simp add: trimmed_proof_def trim_proof_def Let_def trimmed_path_def trim_path_def trimmed_def list_all_iff)

lemma trim_proof_fields:
  "TrimSpace (ma_Schema (trim_proof a)) = TrimSpace (ma_Schema a)" "TrimSpace (ma_Source (trim_proof a)) = TrimSpace (ma_Source a)"
  "TrimSpace (ma_WorkspaceID (trim_proof a)) = TrimSpace (ma_WorkspaceID a)" "TrimSpace (ma_ProjectID (trim_proof a)) = TrimSpace (ma_ProjectID a)"
  "TrimSpace (ma_QueueID (trim_proof a)) = TrimSpace (ma_QueueID a)" "TrimSpace (ma_ItemID (trim_proof a)) = TrimSpace (ma_ItemID a)"
  "TrimSpace (ma_OperationID (trim_proof a)) = TrimSpace (ma_OperationID a)"
  "TrimSpace (ma_OperationKind (trim_proof a)) = TrimSpace (ma_OperationKind a)"
  "TrimSpace (ma_CASPatchDigest (trim_proof a)) = TrimSpace (ma_CASPatchDigest a)"
  "TrimSpace (ma_CASEvaluationDigest (trim_proof a)) = TrimSpace (ma_CASEvaluationDigest a)"
  "TrimSpace (ma_MaterializationDigest (trim_proof a)) = TrimSpace (ma_MaterializationDigest a)"
  "TrimSpace (ma_MaterializationJSONDigest (trim_proof a)) = TrimSpace (ma_MaterializationJSONDigest a)"
  "TrimSpace (ma_RecordedBy (trim_proof a)) = TrimSpace (ma_RecordedBy a)" "TrimSpace (ma_RecordedAt (trim_proof a)) = TrimSpace (ma_RecordedAt a)"
  "ma_FileCount (trim_proof a) = ma_FileCount a" "ma_Files (trim_proof a) = map trim_path (ma_Files a)"
  "isCanonicalSHA256Digest (ma_MaterializationDigest (trim_proof a)) = isCanonicalSHA256Digest (ma_MaterializationDigest a)"
  "isCanonicalSHA256Digest (ma_MaterializationJSONDigest (trim_proof a)) = isCanonicalSHA256Digest (ma_MaterializationJSONDigest a)"
  by (simp_all add: trim_proof_def Let_def isCanonicalSHA256Digest_def)

lemma trim_proof_sealed: "ma_AuthorityDigest (trim_proof a) = PatchMaterializationAuthorityProofDigest (trim_proof a)"
  unfolding trim_proof_def Let_def digest_of_body by simp

lemma validate_trimmed:
  "ValidatePatchMaterializationAuthorityProof a m i = None \<longleftrightarrow>
     ValidatePatchMaterializationAuthorityProof (trim_proof a) m i = None \<and> ma_AuthorityDigest a = PatchMaterializationAuthorityProofDigest a"
proof -
  have c: "isCanonicalSHA256Digest (PatchMaterializationAuthorityProofDigest x)" for x by (simp add: PatchMaterializationAuthorityProofDigest_def)
  show ?thesis
    unfolding ValidatePatchMaterializationAuthorityProof_def trim_proof_sealed
    using c by (auto simp: trim_proof_fields same_fields_None check_trimmed_files)
qed

text \<open>C24. The authority proof of a materialization exists exactly when the materialization is valid for the item,
  and up to white space there is only one: a proof is accepted for a materialization if and only if, without
  the white space around its texts and with its digest computed anew, it is the proof that the builder returns
  for the materialization, and its own digest is the digest of its fields as they stand.\<close>

theorem authority_proof_unique:
  "(ValidatePatchMaterializationAuthorityProof a m i = None \<longleftrightarrow>
     BuildPatchMaterializationAuthorityProof m i = Inr (trim_proof a) \<and>
     ma_AuthorityDigest a = PatchMaterializationAuthorityProofDigest a) \<and>
   ((\<exists>b. BuildPatchMaterializationAuthorityProof m i = Inr b) \<longleftrightarrow> ValidatePatchMaterialization m i = None)"
proof -
  have m: "ValidatePatchMaterialization m i = None" if "ValidatePatchMaterializationAuthorityProof a m i = None" for a
    using that by (simp add: ValidatePatchMaterializationAuthorityProof_def)
  have b: "BuildPatchMaterializationAuthorityProof m i = Inr b \<longleftrightarrow> ValidatePatchMaterialization m i = None \<and> b = authority_of m" for b
    using authority_valid by (auto simp: BuildPatchMaterializationAuthorityProof_def)
  have "ValidatePatchMaterializationAuthorityProof (trim_proof a) m i = None \<longleftrightarrow> ValidatePatchMaterialization m i = None \<and> trim_proof a = authority_of m"
  proof
    assume v: "ValidatePatchMaterializationAuthorityProof (trim_proof a) m i = None"
    with m [OF v] authority_unique [OF trimmed_trim_proof v] show "ValidatePatchMaterialization m i = None \<and> trim_proof a = authority_of m" by blast
  next
    assume "ValidatePatchMaterialization m i = None \<and> trim_proof a = authority_of m"
    then show "ValidatePatchMaterializationAuthorityProof (trim_proof a) m i = None" using authority_valid [of m i] by metis
  qed
  then show ?thesis unfolding b validate_trimmed [of a m i] by blast
qed

subsection \<open>Witnesses\<close>

text \<open>A patch of two files whose candidate hashes are the digests of their contents, applied in a reachable queue.\<close>

definition made_patch :: CASPatchApplyInput where
  "made_patch = demo_patch\<lparr>cai_Context := demo_bound,
     cai_CandidateFileHashes := [(''b.go'', sha256_text ''two''), (''a.go'', sha256_text ''one'')]\<rparr>"

lemma made_patch_simps:
  "cai_Context made_patch = demo_bound" "cai_CurrentFileHashes made_patch = cai_CurrentFileHashes demo_patch"
  "cai_CandidateFileHashes made_patch = [(''b.go'', sha256_text ''two''), (''a.go'', sha256_text ''one'')]"
  by (simp_all add: made_patch_def)

lemma made_hashes: "TrimSpace (get_str (cai_CandidateFileHashes made_patch) ''a.go'') = sha256_text ''one''"
  "TrimSpace (get_str (cai_CandidateFileHashes made_patch) ''b.go'') = sha256_text ''two''"
  by (simp_all add: made_patch_simps get_str_def)

lemma made_distinct: "distinct (map fst (cai_CandidateFileHashes made_patch))" "cai_CandidateFileHashes made_patch \<noteq> []"
  by (simp_all add: made_patch_simps)

lemma made_keys: "map fst (cai_CandidateFileHashes made_patch) = [''b.go'', ''a.go'']"
  by (simp add: made_patch_simps)

lemma made_accepted:
  "car_Status (EvaluateCASPatchApply made_patch) = CASPatchStatusApplied"
  "validateCASEvidence (EvaluateCASPatchApply made_patch) demo_bound = None"
proof -
  have base: "ctx_Base demo_bound = ctx_Base demo_context" by (simp add: demo_bound_def)
  have "list_all (\<lambda>p. normalizeResolverPath p = Inr p \<and> pathsetCoversPath [''a.go'', ''b.go''] p \<and>
       TrimSpace (get_str (base_FileHashes (ctx_Base demo_context)) p) =
       TrimSpace (get_str (cai_CurrentFileHashes demo_patch) p)) [''b.go'', ''a.go'']"
    by code_simp
  moreover have "\<forall>p \<in> set [''b.go'', ''a.go'']. TrimSpace (get_str (cai_CandidateFileHashes made_patch) p) \<noteq> []"
    using made_hashes by (simp add: sha256_text_def)
  moreover have keys: "fst ` set (cai_CandidateFileHashes made_patch) = set [''b.go'', ''a.go'']"
    by (simp only: made_keys [symmetric] set_map)
  ultimately show st: "car_Status (EvaluateCASPatchApply made_patch) = CASPatchStatusApplied"
    unfolding evaluate_applied_iff [OF made_distinct(1)] keys made_patch_simps(1,2) demo_bound_valid(2) base demo_refs list_all_iff
    using demo_bound_valid(1) made_distinct(2) by blast
  have "\<forall>p \<in> set [''a.go'', ''b.go'']. p \<in> set [''b.go'', ''a.go'']" by simp
  then show "validateCASEvidence (EvaluateCASPatchApply made_patch) demo_bound = None"
    using applied_accepted_iff [OF made_distinct(1) st] unfolding keys made_patch_simps(1) demo_bound_valid(2) demo_refs by blast
qed

lemma made_paths:
  "cp_Path ` set (car_Paths (EvaluateCASPatchApply made_patch)) = {''a.go'', ''b.go''}"
  "pr \<in> set (car_Paths (EvaluateCASPatchApply made_patch)) \<Longrightarrow>
     TrimSpace (cp_CandidateHash pr) = TrimSpace (get_str (cai_CandidateFileHashes made_patch) (cp_Path pr))"
proof -
  have v: "Context_Validate (WithDefaults (cai_Context made_patch)) = None" by (simp add: made_patch_simps demo_bound_valid)
  note f = evaluate_fields(1) [OF made_distinct(1) v made_distinct(2)]
  have "list_all (\<lambda>p. normalizeResolverPath p = Inr p) [''b.go'', ''a.go'']" by code_simp
  then have "set (accepted_candidates (cai_CandidateFileHashes made_patch)) = {''a.go'', ''b.go''}"
    using made_hashes made_keys
    by (auto simp: accepted_candidates_def good_candidate_def list_all_iff sha256_text_def simp del: set_map)
  then show "cp_Path ` set (car_Paths (EvaluateCASPatchApply made_patch)) = {''a.go'', ''b.go''}"
    unfolding f by (simp add: image_image entry_of_def)
  show "TrimSpace (cp_CandidateHash pr) = TrimSpace (get_str (cai_CandidateFileHashes made_patch) (cp_Path pr))"
    if "pr \<in> set (car_Paths (EvaluateCASPatchApply made_patch))"
    using that unfolding f by (auto simp: entry_of_def)
qed

definition made_complete :: CompletePatchQueueValidationInput where
  "made_complete = \<lparr>vi_QueueID = [], vi_ItemID = [], vi_Context = demo_bound, vi_CASResult = EvaluateCASPatchApply made_patch,
     vi_TestEvidence = zero_test_evidence, vi_Now = 3\<rparr>"

lemma made_item:
  "\<exists>item. CompleteValidation 1 1 made_complete (Some demo_store) demo_started_queue =
      (Inr item, put_item (''q1'', ''i1'') item demo_started_queue, Some demo_store) \<and>
    pq_State item = PatchQueueStateApplied \<and> pq_CASResult item = EvaluateCASPatchApply made_patch"
proof -
  have te: "normalizePatchQueueTestEvidence zero_test_evidence = Inr (zero_test_evidence, False)"
    by (simp add: normalizePatchQueueTestEvidence_def hasPatchQueueTestEvidence_def zero_test_evidence_def)
  have f: "vi_Context made_complete = demo_bound" "vi_CASResult made_complete = EvaluateCASPatchApply made_patch" "vi_Now made_complete = 3"
    "vi_QueueID made_complete = []" "vi_ItemID made_complete = []" "vi_TestEvidence made_complete = zero_test_evidence"
    by (simp_all add: made_complete_def)
  have same: "same_identity demo_item demo_started" by (simp add: same_identity_def demo_started_def)
  have at: "find_item demo_started_queue (''q1'', ''i1'') = Inr demo_started"
    by (simp add: find_item_Inr demo_started_queue_def put_item_items)
  have state: "pq_State demo_started = PatchQueueStateValidating" "pq_Pathset demo_started = [''a.go'', ''b.go'']"
    by (simp_all add: demo_started_def)
  have req: "complete_request made_complete demo_bound demo_started_queue = Inr ((''q1'', ''i1''), demo_started, zero_test_evidence, False)"
    by (simp add: complete_request_def f demo_ids made_accepted te at state demo_item_context [OF same] fail_if_def)
  obtain b where b: "BindMutationOperation 1 \<lparr>bi_Context = demo_bound, bi_MutationPaths = [''a.go'', ''b.go''], bi_Now = 3\<rparr> (Some demo_store) =
      (Inr b, Some demo_store)"
    using demo_authority(2) by blast
  show ?thesis
    by (simp add: CompleteValidation_def f demo_bound_valid(2) req Let_def made_accepted demo_bound_concrete state b completed_item_def)
qed

lemma made_run:
  obtains item q where "run_of (\<lambda>s. fst s = NewPatchQueueStore) queue_step [OpComplete, OpStart, OpPropose] (q, Some demo_store)"
    and "map_of (qs_items q) (patchQueueKey ''q1'' ''i1'') = Some item" and "pq_State item = PatchQueueStateApplied"
    and "pq_CASResult item = EvaluateCASPatchApply made_patch"
proof -
  obtain item where c: "CompleteValidation 1 1 made_complete (Some demo_store) demo_started_queue =
      (Inr item, put_item (''q1'', ''i1'') item demo_started_queue, Some demo_store)"
    "pq_State item = PatchQueueStateApplied" "pq_CASResult item = EvaluateCASPatchApply made_patch"
    using made_item by blast
  have "run_of (\<lambda>s. fst s = NewPatchQueueStore) queue_step [OpComplete, OpStart, OpPropose]
      (put_item (''q1'', ''i1'') item demo_started_queue, Some demo_store)"
    by (rule run_step [OF demo_started_run]) (rule step_complete [OF c(1)])
  then show thesis by (rule that) (use c in \<open>simp_all add: put_item_items\<close>)
qed

lemma made_contents:
  assumes "pq_CASResult item = EvaluateCASPatchApply made_patch"
  shows "\<forall>x \<in> set [(''a.go'', ''one''), (''b.go'', ''two'')]. \<exists>pr \<in> set (car_Paths (pq_CASResult item)).
    cp_Path pr = fst x \<and> sha256_text (snd x) = TrimSpace (cp_CandidateHash pr)"
proof -
  have "''a.go'' \<in> cp_Path ` set (car_Paths (pq_CASResult item))" unfolding assms made_paths(1) by (rule insertI1)
  then obtain p where p: "''a.go'' = cp_Path p" "p \<in> set (car_Paths (pq_CASResult item))" by (rule imageE)
  have "''b.go'' \<in> cp_Path ` set (car_Paths (pq_CASResult item))" unfolding assms made_paths(1) by (rule insertI2) (rule insertI1)
  then obtain q where q: "''b.go'' = cp_Path q" "q \<in> set (car_Paths (pq_CASResult item))" by (rule imageE)
  have "TrimSpace (cp_CandidateHash p) = sha256_text ''one''" "TrimSpace (cp_CandidateHash q) = sha256_text ''two''"
    using made_paths(2) [OF p(2) [unfolded assms]] made_paths(2) [OF q(2) [unfolded assms]]
    unfolding p(1) [symmetric] q(1) [symmetric] made_hashes by simp_all
  with p q have "\<exists>pr \<in> set (car_Paths (pq_CASResult item)). cp_Path pr = ''a.go'' \<and> sha256_text ''one'' = TrimSpace (cp_CandidateHash pr)"
    "\<exists>pr \<in> set (car_Paths (pq_CASResult item)). cp_Path pr = ''b.go'' \<and> sha256_text ''two'' = TrimSpace (cp_CandidateHash pr)"
    by (force, force)
  then show ?thesis by simp
qed

lemma made_normal:
  "\<forall>x \<in> set [(''a.go'', ''one''), (''b.go'', ''two'')]. NormalizePath (fst x) = Inr (fst x)"
proof -
  have "list_all (\<lambda>x. NormalizePath (fst x) = Inr (fst x)) [(''a.go'', ''one''), (''b.go'', ''two'')]" by code_simp
  then show ?thesis by (simp only: list_all_iff)
qed

lemma made_files_paths:
  assumes "pq_CASResult item = EvaluateCASPatchApply made_patch"
  shows "fst ` set [(''a.go'', ''one''), (''b.go'', ''two'')] = cp_Path ` set (car_Paths (pq_CASResult item))"
  unfolding assms made_paths(1) by auto

theorem materialization_iff_witness:
  "\<exists>item m. pq_State item = PatchQueueStateApplied \<and>
     NormalizePatchMaterialization 1 (bare_patch [(''a.go'', ''one''), (''b.go'', ''two'')]) item 3 = Inr m"
proof -
  let ?fs = "[(''a.go'', ''one''), (''b.go'', ''two'')]"
  obtain item q where r: "run_of (\<lambda>s. fst s = NewPatchQueueStore) queue_step [OpComplete, OpStart, OpPropose] (q, Some demo_store)"
    and at: "map_of (qs_items q) (patchQueueKey ''q1'' ''i1'') = Some item" and st: "pq_State item = PatchQueueStateApplied"
    and cas: "pq_CASResult item = EvaluateCASPatchApply made_patch"
    by (rule made_run)
  have at': "map_of (qs_items (fst (q, Some demo_store))) (patchQueueKey ''q1'' ''i1'') = Some item" by (simp add: at)
  have "\<exists>m. NormalizePatchMaterialization 1 (bare_patch ?fs) item 3 = Inr m"
    unfolding materialization_iff [OF r at' st made_normal] using made_files_paths [OF cas] made_contents [OF cas] by simp
  with st show ?thesis by blast
qed

lemma made_materialization:
  obtains item m where "ValidatePatchMaterialization m item = None"
proof -
  let ?fs = "[(''a.go'', ''one''), (''b.go'', ''two'')]"
  obtain item q where r: "run_of (\<lambda>s. fst s = NewPatchQueueStore) queue_step [OpComplete, OpStart, OpPropose] (q, Some demo_store)"
    and at: "map_of (qs_items q) (patchQueueKey ''q1'' ''i1'') = Some item" and st: "pq_State item = PatchQueueStateApplied"
    and cas: "pq_CASResult item = EvaluateCASPatchApply made_patch"
    by (rule made_run)
  have at': "map_of (qs_items (fst (q, Some demo_store))) (patchQueueKey ''q1'' ''i1'') = Some item" by (simp add: at)
  obtain m where "NormalizePatchMaterialization 1 (bare_patch ?fs) item 3 = Inr m"
    using bare_patch_Inr [OF queue_applied.reachable_item [OF r at'] conjunct1 [OF queue_refs.reachable_item [OF r at']]
      queue_items.reachable_item [OF r at'] st made_normal, of 1 3] made_files_paths [OF cas] made_contents [OF cas] by auto
  then have "ValidatePatchMaterialization m item = None"
    unfolding NormalizePatchMaterialization_def require_Inr bind_result_Inr Let_def by auto
  then show thesis by (rule that)
qed

theorem materialization_sound_witness:
  "\<exists>item m. ValidatePatchMaterialization m item = None \<and> sorted_wrt (<) (map mf_Path (pm_Files m)) \<and> length (pm_Files m) \<le> 128"
proof -
  obtain item m where m: "ValidatePatchMaterialization m item = None" by (rule made_materialization)
  with materialization_sound [OF m] show ?thesis by blast
qed

end
