(* ===== verification/Activation_Model.thy ===== *)
theory Activation_Model
  imports Materialization
begin

section \<open>Activation gates: data and readiness checks\<close>

text \<open>
  The data of \<open>internal/repoauthority/activation_gates.go\<close>, its trimming copies, its digest, and the
  checks that the gates run on an item and its evidence. The seven kinds of evidence repeat thirteen
  fields: how the check ended, and which queue item it was about. They are the record
  \<open>ItemEvidence\<close> here, which the kinds extend. A loop over a map literal is the list of its entries;
  with several bad entries the code reports any one of them. \<open>filepath.Clean\<close> and
  \<open>mutationActivationPathsEqual\<close> are those of a Unix build. What \<open>time.Parse\<close> appends to an error is
  left out.
\<close>

definition MutationActivationGateSchemaVersion :: string where "MutationActivationGateSchemaVersion = ''repo_mutation_activation_gates.v1''"
definition MutationActivationStatusBlocked :: string where "MutationActivationStatusBlocked = ''blocked''"
definition MutationActivationStatusReady :: string where "MutationActivationStatusReady = ''ready''"
definition MutationActivationAuthorityModeControlledQueue :: string where
  "MutationActivationAuthorityModeControlledQueue = ModeControlledQueue"
definition MutationActivationReviewerMeshAdvisoryOnly :: string where "MutationActivationReviewerMeshAdvisoryOnly = ''advisory_only''"
definition PatchQueueReviewerAdvisorySchema :: string where "PatchQueueReviewerAdvisorySchema = ''repo_patch_queue_reviewer_advisory.v1''"
definition PatchQueueOperatorEnablementSchema :: string where "PatchQueueOperatorEnablementSchema = ''repo_patch_queue_operator_enablement.v1''"
definition PatchQueueReviewerAdvisoryVerdictReviewed :: string where "PatchQueueReviewerAdvisoryVerdictReviewed = ''reviewed''"
definition PatchQueueOperatorEnablementScopeMutationActivation :: string where
  "PatchQueueOperatorEnablementScopeMutationActivation = ''repo_mutation_activation''"
definition MutationActivationOperatorEnablementScope :: string where
  "MutationActivationOperatorEnablementScope = PatchQueueOperatorEnablementScopeMutationActivation"
definition MutationActivationSourceSyntheticPatchOnly :: string where
  "MutationActivationSourceSyntheticPatchOnly = ''synthetic_patch_only''"
definition MutationActivationSourceDurableQueueNoControlledCandidate :: string where
  "MutationActivationSourceDurableQueueNoControlledCandidate = ''durable_queue_no_controlled_candidate''"
definition MutationActivationSourceDurableControlledQueueCandidate :: string where
  "MutationActivationSourceDurableControlledQueueCandidate = ''durable_controlled_queue_candidate''"
definition MutationActivationSourceDurableControlledQueueCandidateError :: string where
  "MutationActivationSourceDurableControlledQueueCandidateError = ''durable_controlled_queue_candidate_read_failed''"
definition MutationActivationLiveVerifierSourceEnv :: string where
  "MutationActivationLiveVerifierSourceEnv = ''env:RHIZOME_REPO_MUTATION_LIVE_VERIFIER''"
definition MutationActivationLiveActuatorSourceRuntime :: string where
  "MutationActivationLiveActuatorSourceRuntime = ''runtime:repo_mutation_actuator''"
definition MaterializationPreflightAuthorityProofRequired :: string where
  "MaterializationPreflightAuthorityProofRequired = ''materialization preflight requires non-redacted materialization authority proof''"

definition mutationActivationRequiredGateNames :: "string list" where
  "mutationActivationRequiredGateNames =
     [''controlled_authority_mode'', ''controlled_context_mode'', ''direct_merge_disabled'', ''durable_patch_queue'',
      ''canonical_worktree_identity'', ''live_actuator_target_identity'', ''mutation_binding'', ''merge_admission_conflict_safe'',
      ''bounded_retry'', ''rollback_proven'', ''reviewer_advisory_recorded'', ''reviewer_mesh_advisory_only'',
      ''operator_enablement_recorded'', ''materialization_preflight_verified'', ''live_mutation_verifier_enabled'',
      ''live_mutation_actuator_enabled'']"

subsection \<open>Data\<close>

record WorktreeIdentityEvidence =
  wt_RepoID :: string
  wt_CheckoutID :: string
  wt_BranchID :: string
  wt_BranchName :: string
  wt_MachineID :: string
  wt_LocalPath :: string
  wt_BaseSHA :: string
  wt_HeadSHA :: string
  wt_ReadbackState :: string
  wt_ReadbackError :: string
  wt_ObservedWorktreeRoot :: string
  wt_ObservedBranchName :: string
  wt_ObservedHeadSHA :: string
  wt_ObservedDirtyState :: string

record MutationActivationCandidateSummary =
  cd_WorkspaceID :: string
  cd_ProjectID :: string
  cd_RepoID :: string
  cd_QueueID :: string
  cd_ItemID :: string
  cd_BranchID :: string
  cd_BranchName :: string
  cd_CheckoutID :: string
  cd_TargetCheckoutID :: string
  cd_TargetBranchName :: string
  cd_State :: string
  cd_BaseSHA :: string
  cd_HeadSHA :: string

record MutationActivationGate =
  ga_Name :: string
  ga_Passed :: bool
  ga_Reason :: string

record ItemEvidence =
  ev_State :: string
  ev_Ready :: bool
  ev_ReadyError :: string
  ev_Schema :: string
  ev_RecordID :: string
  ev_QueueID :: string
  ev_ItemID :: string
  ev_ItemState :: string
  ev_Context :: string
  ev_RepoLeaseID :: string
  ev_LeaseTerm :: int
  ev_OperationID :: string
  ev_OperationKind :: string

record MutationBindingEvidence = ItemEvidence +
  be_ContextMode :: string
  be_WorkspaceID :: string
  be_TaskID :: string
  be_SessionID :: string
  be_RunID :: string
  be_AgentID :: string
  be_PrincipalType :: string
  be_PrincipalID :: string
  be_CapabilitySnapshotID :: string
  be_CapabilitySnapshotSchema :: string
  be_RepoRoot :: string
  be_BaseRef :: string
  be_BaseTreeHash :: string
  be_BaseFileHashCount :: int
  be_BaseFileHashPaths :: "string list"
  be_BaseFileHashes :: "(string \<times> string) list"
  be_RepoLeaseID :: string
  be_LeaseTerm :: int
  be_PatchQueueID :: string
  be_PatchQueueItemID :: string
  be_OperationID :: string
  be_OperationKind :: string
  be_OperationKindAccepted :: bool
  be_ContextDigest :: string
  be_ContextDigestError :: string
  be_PatchQueueContextDigest :: string
  be_PatchQueueContextError :: string
  be_Pathset :: "string list"
  be_PatchQueueItemPathset :: "string list"
  be_MissingRefs :: "string list"
  be_Mismatches :: "string list"

record MergeAdmissionEvidence = ItemEvidence +
  me_PatchQueueItemPathset :: "string list"
  me_CASStatus :: string
  me_CASPatchDigest :: string
  me_CASEvaluationDigest :: string
  me_CASResult :: CASPatchApplyResult
  me_TestEvidence :: PatchQueueTestEvidence
  me_TestEvidenceDigest :: string

record RetryBoundEvidence = ItemEvidence +
  re_Attempt :: int
  re_MaxAttempts :: int
  re_NextRetryAt :: string
  re_DeadLetteredAt :: string

record RollbackProofEvidence = ItemEvidence +
  rpe_CASPatchDigest :: string
  rpe_CASEvaluationDigest :: string
  rpe_RollbackEvidence :: PatchQueueRollback
  rpe_RollbackEvidenceDigest :: string

record ReviewerAdvisoryEvidence = ItemEvidence +
  rve_CASPatchDigest :: string
  rve_CASEvaluationDigest :: string
  rve_RollbackEvidenceDigest :: string
  rve_WorkspaceID :: string
  rve_ProjectID :: string
  rve_Advisory :: PatchQueueReviewerAdvisory
  rve_AdvisoryDigest :: string

record OperatorEnablementEvidence = ItemEvidence +
  oee_CASPatchDigest :: string
  oee_RollbackEvidenceDigest :: string
  oee_ReviewerAdvisoryDigest :: string
  oee_WorkspaceID :: string
  oee_ProjectID :: string
  oee_Enablement :: PatchQueueOperatorEnablement
  oee_EnablementDigest :: string

record PatchMaterializedFileDiagnostic =
  fd_Path :: string
  fd_ChangeKind :: string
  fd_BaseHash :: string
  fd_CandidateHash :: string
  fd_ContentEncoding :: string
  fd_ContentDigest :: string

record PatchMaterializationDiagnostic =
  pd_Schema :: string
  pd_WorkspaceID :: string
  pd_ProjectID :: string
  pd_QueueID :: string
  pd_ItemID :: string
  pd_OperationID :: string
  pd_OperationKind :: string
  pd_CASPatchDigest :: string
  pd_CASEvaluationDigest :: string
  pd_FileCount :: int
  pd_Files :: "PatchMaterializedFileDiagnostic list"
  pd_RecordedBy :: string
  pd_RecordedAt :: string
  pd_MaterializationDigest :: string

record MaterializationPreflightEvidence = ItemEvidence +
  mp_CASPatchDigest :: string
  mp_CASEvaluationDigest :: string
  mp_RollbackEvidenceDigest :: string
  mp_ReviewerAdvisoryDigest :: string
  mp_OperatorEnablementDigest :: string
  mp_WorkspaceID :: string
  mp_ProjectID :: string
  mp_WorktreeIdentity :: WorktreeIdentityEvidence
  mp_Materialization :: PatchMaterializationDiagnostic
  mp_MaterializationDigest :: string
  mp_AuthorityProof :: "PatchMaterializationAuthorityProof option"

record MutationActivationGateInput =
  gi_AuthorityMode :: string
  gi_DirectMergeDisabled :: bool
  gi_QueueDurable :: bool
  gi_ReviewerMeshMode :: string
  gi_LiveMutationVerifierEnabled :: bool
  gi_LiveMutationVerifierSource :: string
  gi_LiveMutationActuatorEnabled :: bool
  gi_LiveMutationActuatorSource :: string
  gi_Source :: string
  gi_SourceError :: string
  gi_Candidate :: "MutationActivationCandidateSummary option"
  gi_WorktreeIdentity :: WorktreeIdentityEvidence
  gi_TargetWorktreeIdentity :: WorktreeIdentityEvidence
  gi_Context :: Context
  gi_PatchQueueItem :: PatchQueueItem
  gi_RollbackEvidence :: PatchQueueRollback
  gi_ReviewerAdvisory :: PatchQueueReviewerAdvisory
  gi_OperatorEnablement :: PatchQueueOperatorEnablement
  gi_PatchMaterialization :: PatchMaterialization
  gi_PatchMaterializationProof :: PatchMaterializationAuthorityProof

record MutationActivationGateResult =
  gr_Schema :: string
  gr_Status :: string
  gr_MutationAllowed :: bool
  gr_AuthorityMode :: string
  gr_ContextMode :: string
  gr_ReviewerMeshMode :: string
  gr_LiveMutationVerifierEnabled :: bool
  gr_LiveMutationVerifierSource :: string
  gr_LiveMutationActuatorEnabled :: bool
  gr_LiveMutationActuatorSource :: string
  gr_QueueDurable :: bool
  gr_Source :: string
  gr_SourceError :: string
  gr_Candidate :: "MutationActivationCandidateSummary option"
  gr_WorktreeIdentity :: "WorktreeIdentityEvidence option"
  gr_TargetWorktreeIdentity :: "WorktreeIdentityEvidence option"
  gr_MutationBindingEvidence :: "MutationBindingEvidence option"
  gr_MergeAdmissionEvidence :: "MergeAdmissionEvidence option"
  gr_RetryBoundEvidence :: "RetryBoundEvidence option"
  gr_RollbackProofEvidence :: "RollbackProofEvidence option"
  gr_ReviewerAdvisoryEvidence :: "ReviewerAdvisoryEvidence option"
  gr_OperatorEnablementEvidence :: "OperatorEnablementEvidence option"
  gr_MaterializationPreflight :: "MaterializationPreflightEvidence option"
  gr_DirectMergeDisabled :: bool
  gr_Gates :: "MutationActivationGate list"
  gr_BlockingReasons :: "string list"
  gr_Digest :: string

subsection \<open>Digests\<close>

definition json_item_evidence :: "'a ItemEvidence_scheme \<Rightarrow> (string \<times> json) list" where
  "json_item_evidence e =
     [(''state'', JStr (ev_State e)), (''ready'', JBool (ev_Ready e))] @ omit_str ''ready_error'' (ev_ReadyError e)
     @ omit_str ''patch_queue_item_schema'' (ev_Schema e) @ omit_str ''patch_queue_item_record_id'' (ev_RecordID e)
     @ omit_str ''patch_queue_item_queue_id'' (ev_QueueID e) @ omit_str ''patch_queue_item_item_id'' (ev_ItemID e)
     @ omit_str ''patch_queue_item_state'' (ev_ItemState e) @ omit_str ''patch_queue_item_context_digest'' (ev_Context e)
     @ omit_str ''patch_queue_item_repo_lease_id'' (ev_RepoLeaseID e)
     @ omit_int ''patch_queue_item_lease_term'' (ev_LeaseTerm e)
     @ omit_str ''patch_queue_item_operation_id'' (ev_OperationID e)
     @ omit_str ''patch_queue_item_operation_kind'' (ev_OperationKind e)"

definition json_worktree :: "WorktreeIdentityEvidence \<Rightarrow> json" where
  "json_worktree e = JObj
     ([(''repo_id'', JStr (wt_RepoID e)), (''checkout_id'', JStr (wt_CheckoutID e)), (''branch_id'', JStr (wt_BranchID e)),
         (''branch_name'', JStr (wt_BranchName e)), (''machine_id'', JStr (wt_MachineID e)), (''local_path'', JStr (wt_LocalPath e)),
         (''base_sha'', JStr (wt_BaseSHA e)), (''head_sha'', JStr (wt_HeadSHA e))]
      @ omit_str ''readback_state'' (wt_ReadbackState e) @ omit_str ''readback_error'' (wt_ReadbackError e)
      @ omit_str ''observed_worktree_root'' (wt_ObservedWorktreeRoot e)
      @ omit_str ''observed_branch_name'' (wt_ObservedBranchName e) @ omit_str ''observed_head_sha'' (wt_ObservedHeadSHA e)
      @ omit_str ''observed_dirty_state'' (wt_ObservedDirtyState e))"

definition json_candidate :: "MutationActivationCandidateSummary \<Rightarrow> json" where
  "json_candidate e = JObj
     (omit_str ''workspace_id'' (cd_WorkspaceID e) @ omit_str ''project_id'' (cd_ProjectID e)
      @ omit_str ''repo_id'' (cd_RepoID e) @ omit_str ''queue_id'' (cd_QueueID e) @ omit_str ''item_id'' (cd_ItemID e)
      @ omit_str ''branch_id'' (cd_BranchID e) @ omit_str ''branch_name'' (cd_BranchName e)
      @ omit_str ''checkout_id'' (cd_CheckoutID e) @ omit_str ''target_checkout_id'' (cd_TargetCheckoutID e)
      @ omit_str ''target_branch_name'' (cd_TargetBranchName e) @ omit_str ''state'' (cd_State e)
      @ omit_str ''base_sha'' (cd_BaseSHA e) @ omit_str ''head_sha'' (cd_HeadSHA e))"

definition json_gate :: "MutationActivationGate \<Rightarrow> json" where
  "json_gate e = JObj
     ([(''name'', JStr (ga_Name e)), (''passed'', JBool (ga_Passed e))] @ omit_str ''reason'' (ga_Reason e))"

definition json_binding_evidence :: "MutationBindingEvidence \<Rightarrow> json" where
  "json_binding_evidence e = JObj
     ([(''state'', JStr (ev_State e)), (''ready'', JBool (ev_Ready e))] @ omit_str ''ready_error'' (ev_ReadyError e)
      @ omit_str ''context_mode'' (be_ContextMode e) @ omit_str ''workspace_id'' (be_WorkspaceID e)
      @ omit_str ''task_id'' (be_TaskID e) @ omit_str ''session_id'' (be_SessionID e) @ omit_str ''run_id'' (be_RunID e)
      @ omit_str ''agent_id'' (be_AgentID e) @ omit_str ''principal_type'' (be_PrincipalType e)
      @ omit_str ''principal_id'' (be_PrincipalID e) @ omit_str ''capability_snapshot_id'' (be_CapabilitySnapshotID e)
      @ omit_str ''capability_snapshot_schema'' (be_CapabilitySnapshotSchema e) @ omit_str ''repo_root'' (be_RepoRoot e)
      @ omit_str ''base_ref'' (be_BaseRef e) @ omit_str ''base_tree_hash'' (be_BaseTreeHash e)
      @ omit_int ''base_file_hash_count'' (be_BaseFileHashCount e)
      @ omit_arr ''base_file_hash_paths'' (map JStr (be_BaseFileHashPaths e))
      @ (if be_BaseFileHashes e = [] then [] else [(''base_file_hashes'', json_map (be_BaseFileHashes e))])
      @ omit_str ''repo_lease_id'' (be_RepoLeaseID e) @ omit_int ''lease_term'' (be_LeaseTerm e)
      @ omit_str ''patch_queue_id'' (be_PatchQueueID e) @ omit_str ''patch_queue_item_id'' (be_PatchQueueItemID e)
      @ omit_str ''operation_id'' (be_OperationID e) @ omit_str ''operation_kind'' (be_OperationKind e)
      @ [(''operation_kind_accepted'', JBool (be_OperationKindAccepted e))]
      @ omit_str ''context_digest'' (be_ContextDigest e) @ omit_str ''context_digest_error'' (be_ContextDigestError e)
      @ omit_str ''patch_queue_context_digest'' (be_PatchQueueContextDigest e)
      @ omit_str ''patch_queue_context_error'' (be_PatchQueueContextError e)
      @ omit_str ''patch_queue_item_schema'' (ev_Schema e) @ omit_str ''patch_queue_item_record_id'' (ev_RecordID e)
      @ omit_str ''patch_queue_item_queue_id'' (ev_QueueID e) @ omit_str ''patch_queue_item_item_id'' (ev_ItemID e)
      @ omit_str ''patch_queue_item_state'' (ev_ItemState e) @ omit_str ''patch_queue_item_context_digest'' (ev_Context e)
      @ omit_str ''patch_queue_item_repo_lease_id'' (ev_RepoLeaseID e)
      @ omit_int ''patch_queue_item_lease_term'' (ev_LeaseTerm e)
      @ omit_str ''patch_queue_item_operation_id'' (ev_OperationID e)
      @ omit_str ''patch_queue_item_operation_kind'' (ev_OperationKind e) @ omit_arr ''pathset'' (map JStr (be_Pathset e))
      @ omit_arr ''patch_queue_item_pathset'' (map JStr (be_PatchQueueItemPathset e))
      @ omit_arr ''missing_refs'' (map JStr (be_MissingRefs e)) @ omit_arr ''mismatches'' (map JStr (be_Mismatches e)))"

definition json_merge_evidence :: "MergeAdmissionEvidence \<Rightarrow> json" where
  "json_merge_evidence e = JObj
     (json_item_evidence e
      @ omit_arr ''patch_queue_item_pathset'' (map JStr (me_PatchQueueItemPathset e))
      @ omit_str ''cas_status'' (me_CASStatus e) @ omit_str ''cas_patch_digest'' (me_CASPatchDigest e)
      @ omit_str ''cas_evaluation_digest'' (me_CASEvaluationDigest e)
      @ [(''cas_result'', json_cas_result (me_CASResult e)), (''test_evidence'', json_test_evidence (me_TestEvidence e))]
      @ omit_str ''test_evidence_digest'' (me_TestEvidenceDigest e))"

definition json_retry_evidence :: "RetryBoundEvidence \<Rightarrow> json" where
  "json_retry_evidence e = JObj
     (json_item_evidence e
      @ [(''attempt'', JInt (re_Attempt e)), (''max_attempts'', JInt (re_MaxAttempts e))]
      @ omit_str ''next_retry_at'' (re_NextRetryAt e) @ omit_str ''dead_lettered_at'' (re_DeadLetteredAt e))"

definition json_rollback_proof :: "RollbackProofEvidence \<Rightarrow> json" where
  "json_rollback_proof e = JObj
     (json_item_evidence e
      @ omit_str ''cas_patch_digest'' (rpe_CASPatchDigest e) @ omit_str ''cas_evaluation_digest'' (rpe_CASEvaluationDigest e)
      @ [(''rollback_evidence'', json_rollback (rpe_RollbackEvidence e))]
      @ omit_str ''rollback_evidence_digest'' (rpe_RollbackEvidenceDigest e))"

definition json_advisory_evidence :: "ReviewerAdvisoryEvidence \<Rightarrow> json" where
  "json_advisory_evidence e = JObj
     (json_item_evidence e
      @ omit_str ''cas_patch_digest'' (rve_CASPatchDigest e) @ omit_str ''cas_evaluation_digest'' (rve_CASEvaluationDigest e)
      @ omit_str ''rollback_evidence_digest'' (rve_RollbackEvidenceDigest e) @ omit_str ''workspace_id'' (rve_WorkspaceID e)
      @ omit_str ''project_id'' (rve_ProjectID e) @ [(''advisory'', json_advisory (rve_Advisory e))]
      @ omit_str ''advisory_digest'' (rve_AdvisoryDigest e))"

definition json_enablement_evidence :: "OperatorEnablementEvidence \<Rightarrow> json" where
  "json_enablement_evidence e = JObj
     (json_item_evidence e
      @ omit_str ''cas_patch_digest'' (oee_CASPatchDigest e)
      @ omit_str ''rollback_evidence_digest'' (oee_RollbackEvidenceDigest e)
      @ omit_str ''reviewer_advisory_digest'' (oee_ReviewerAdvisoryDigest e) @ omit_str ''workspace_id'' (oee_WorkspaceID e)
      @ omit_str ''project_id'' (oee_ProjectID e) @ [(''enablement'', json_enablement (oee_Enablement e))]
      @ omit_str ''enablement_digest'' (oee_EnablementDigest e))"

definition json_file_diagnostic :: "PatchMaterializedFileDiagnostic \<Rightarrow> json" where
  "json_file_diagnostic e = JObj
     ([(''path'', JStr (fd_Path e))] @ omit_str ''change_kind'' (fd_ChangeKind e) @ omit_str ''base_hash'' (fd_BaseHash e)
      @ omit_str ''candidate_hash'' (fd_CandidateHash e) @ omit_str ''content_encoding'' (fd_ContentEncoding e)
      @ omit_str ''content_digest'' (fd_ContentDigest e))"

definition json_diagnostic :: "PatchMaterializationDiagnostic \<Rightarrow> json" where
  "json_diagnostic e = JObj
     (omit_str ''schema'' (pd_Schema e) @ omit_str ''workspace_id'' (pd_WorkspaceID e)
      @ omit_str ''project_id'' (pd_ProjectID e) @ omit_str ''queue_id'' (pd_QueueID e) @ omit_str ''item_id'' (pd_ItemID e)
      @ omit_str ''operation_id'' (pd_OperationID e) @ omit_str ''operation_kind'' (pd_OperationKind e)
      @ omit_str ''cas_patch_digest'' (pd_CASPatchDigest e) @ omit_str ''cas_evaluation_digest'' (pd_CASEvaluationDigest e)
      @ [(''file_count'', JInt (pd_FileCount e))] @ omit_arr ''files'' (map json_file_diagnostic (pd_Files e))
      @ omit_str ''recorded_by'' (pd_RecordedBy e) @ omit_str ''recorded_at'' (pd_RecordedAt e)
      @ omit_str ''materialization_digest'' (pd_MaterializationDigest e))"

definition json_preflight :: "MaterializationPreflightEvidence \<Rightarrow> json" where
  "json_preflight e = JObj
     (json_item_evidence e
      @ omit_str ''cas_patch_digest'' (mp_CASPatchDigest e) @ omit_str ''cas_evaluation_digest'' (mp_CASEvaluationDigest e)
      @ omit_str ''rollback_evidence_digest'' (mp_RollbackEvidenceDigest e)
      @ omit_str ''reviewer_advisory_digest'' (mp_ReviewerAdvisoryDigest e)
      @ omit_str ''operator_enablement_digest'' (mp_OperatorEnablementDigest e)
      @ omit_str ''workspace_id'' (mp_WorkspaceID e) @ omit_str ''project_id'' (mp_ProjectID e)
      @ [(''worktree_identity'', json_worktree (mp_WorktreeIdentity e)), (''materialization'', json_diagnostic (mp_Materialization e))]
      @ omit_str ''materialization_digest'' (mp_MaterializationDigest e)
      @ omit_ptr ''authority_proof'' json_authority (mp_AuthorityProof e))"

definition json_gate_result :: "MutationActivationGateResult \<Rightarrow> json" where
  "json_gate_result e = JObj
     ([(''schema'', JStr (gr_Schema e)), (''status'', JStr (gr_Status e)), (''mutation_allowed'', JBool (gr_MutationAllowed e)),
         (''authority_mode'', JStr (gr_AuthorityMode e)), (''context_mode'', JStr (gr_ContextMode e)),
         (''reviewer_mesh_mode'', JStr (gr_ReviewerMeshMode e)), (''live_mutation_verifier_enabled'', JBool (gr_LiveMutationVerifierEnabled e))]
      @ omit_str ''live_mutation_verifier_source'' (gr_LiveMutationVerifierSource e)
      @ [(''live_mutation_actuator_enabled'', JBool (gr_LiveMutationActuatorEnabled e))]
      @ omit_str ''live_mutation_actuator_source'' (gr_LiveMutationActuatorSource e)
      @ [(''queue_durable'', JBool (gr_QueueDurable e))] @ omit_str ''source'' (gr_Source e)
      @ omit_str ''source_error'' (gr_SourceError e) @ omit_ptr ''candidate'' json_candidate (gr_Candidate e)
      @ omit_ptr ''worktree_identity'' json_worktree (gr_WorktreeIdentity e)
      @ omit_ptr ''target_worktree_identity'' json_worktree (gr_TargetWorktreeIdentity e)
      @ omit_ptr ''mutation_binding_evidence'' json_binding_evidence (gr_MutationBindingEvidence e)
      @ omit_ptr ''merge_admission_evidence'' json_merge_evidence (gr_MergeAdmissionEvidence e)
      @ omit_ptr ''retry_bound_evidence'' json_retry_evidence (gr_RetryBoundEvidence e)
      @ omit_ptr ''rollback_proof_evidence'' json_rollback_proof (gr_RollbackProofEvidence e)
      @ omit_ptr ''reviewer_advisory_evidence'' json_advisory_evidence (gr_ReviewerAdvisoryEvidence e)
      @ omit_ptr ''operator_enablement_evidence'' json_enablement_evidence (gr_OperatorEnablementEvidence e)
      @ omit_ptr ''materialization_preflight'' json_preflight (gr_MaterializationPreflight e)
      @ [(''direct_merge_disabled'', JBool (gr_DirectMergeDisabled e)), (''gates'', JArr (map json_gate (gr_Gates e)))]
      @ omit_arr ''blocking_reasons'' (map JStr (gr_BlockingReasons e)) @ [(''digest'', JStr (gr_Digest e))])"

definition digestMutationActivationGateResult :: "MutationActivationGateResult \<Rightarrow> string" where
  "digestMutationActivationGateResult r = json_digest (json_gate_result (r\<lparr>gr_Digest := []\<rparr>))"

subsection \<open>Trimming copies\<close>

definition cloneMutationActivationCandidateSummary ::
  "MutationActivationCandidateSummary option \<Rightarrow> MutationActivationCandidateSummary option" where
  "cloneMutationActivationCandidateSummary candidate = map_option (\<lambda>c.
     \<lparr>cd_WorkspaceID = TrimSpace (cd_WorkspaceID c), cd_ProjectID = TrimSpace (cd_ProjectID c), cd_RepoID = TrimSpace (cd_RepoID c),
      cd_QueueID = TrimSpace (cd_QueueID c), cd_ItemID = TrimSpace (cd_ItemID c), cd_BranchID = TrimSpace (cd_BranchID c),
      cd_BranchName = TrimSpace (cd_BranchName c), cd_CheckoutID = TrimSpace (cd_CheckoutID c),
      cd_TargetCheckoutID = TrimSpace (cd_TargetCheckoutID c), cd_TargetBranchName = TrimSpace (cd_TargetBranchName c),
      cd_State = TrimSpace (cd_State c), cd_BaseSHA = TrimSpace (cd_BaseSHA c), cd_HeadSHA = TrimSpace (cd_HeadSHA c)\<rparr>) candidate"

definition trim_worktree :: "WorktreeIdentityEvidence \<Rightarrow> WorktreeIdentityEvidence" where
  "trim_worktree e =
     \<lparr>wt_RepoID = TrimSpace (wt_RepoID e), wt_CheckoutID = TrimSpace (wt_CheckoutID e), wt_BranchID = TrimSpace (wt_BranchID e),
      wt_BranchName = TrimSpace (wt_BranchName e), wt_MachineID = TrimSpace (wt_MachineID e), wt_LocalPath = TrimSpace (wt_LocalPath e),
      wt_BaseSHA = TrimSpace (wt_BaseSHA e), wt_HeadSHA = TrimSpace (wt_HeadSHA e), wt_ReadbackState = TrimSpace (wt_ReadbackState e),
      wt_ReadbackError = TrimSpace (wt_ReadbackError e), wt_ObservedWorktreeRoot = TrimSpace (wt_ObservedWorktreeRoot e),
      wt_ObservedBranchName = TrimSpace (wt_ObservedBranchName e), wt_ObservedHeadSHA = TrimSpace (wt_ObservedHeadSHA e),
      wt_ObservedDirtyState = TrimSpace (wt_ObservedDirtyState e)\<rparr>"

text \<open>A copy without any text is nil.\<close>

definition cloneWorktreeIdentityEvidence :: "WorktreeIdentityEvidence \<Rightarrow> WorktreeIdentityEvidence option" where
  "cloneWorktreeIdentityEvidence e =
     (let c = trim_worktree e
      in if list_ex (\<lambda>v. v \<noteq> [])
          [wt_RepoID c, wt_CheckoutID c, wt_BranchID c, wt_BranchName c, wt_MachineID c, wt_LocalPath c, wt_BaseSHA c, wt_HeadSHA c,
           wt_ReadbackState c, wt_ReadbackError c, wt_ObservedWorktreeRoot c, wt_ObservedBranchName c, wt_ObservedHeadSHA c,
           wt_ObservedDirtyState c]
         then Some c else None)"

definition zero_worktree :: WorktreeIdentityEvidence where
  "zero_worktree = \<lparr>wt_RepoID = [], wt_CheckoutID = [], wt_BranchID = [], wt_BranchName = [], wt_MachineID = [], wt_LocalPath = [],
     wt_BaseSHA = [], wt_HeadSHA = [], wt_ReadbackState = [], wt_ReadbackError = [], wt_ObservedWorktreeRoot = [],
     wt_ObservedBranchName = [], wt_ObservedHeadSHA = [], wt_ObservedDirtyState = []\<rparr>"

definition cloneWorktreeIdentityEvidenceValue :: "WorktreeIdentityEvidence \<Rightarrow> WorktreeIdentityEvidence" where
  "cloneWorktreeIdentityEvidenceValue e =
     (case cloneWorktreeIdentityEvidence e of None \<Rightarrow> zero_worktree | Some c \<Rightarrow> c)"

definition clonePatchQueueRollbackEvidence :: "PatchQueueRollback \<Rightarrow> PatchQueueRollback" where
  "clonePatchQueueRollbackEvidence e =
     \<lparr>rb_Schema = TrimSpace (rb_Schema e), rb_SourceOperationID = TrimSpace (rb_SourceOperationID e),
      rb_SourceOperationKind = TrimSpace (rb_SourceOperationKind e), rb_RollbackOperationID = TrimSpace (rb_RollbackOperationID e),
      rb_RollbackOperationKind = TrimSpace (rb_RollbackOperationKind e), rb_Reason = TrimSpace (rb_Reason e),
      rb_SourcePatchDigest = TrimSpace (rb_SourcePatchDigest e), rb_RollbackPatchDigest = TrimSpace (rb_RollbackPatchDigest e),
      rb_RollbackPaths = map trim_rollback_path (rb_RollbackPaths e), rb_VerificationCommand = TrimSpace (rb_VerificationCommand e),
      rb_VerificationStatus = TrimSpace (rb_VerificationStatus e), rb_VerificationExitCode = rb_VerificationExitCode e,
      rb_VerificationOutputDigest = TrimSpace (rb_VerificationOutputDigest e),
      rb_VerificationOutputSummary = TrimSpace (rb_VerificationOutputSummary e),
      rb_VerificationDurationMillis = rb_VerificationDurationMillis e, rb_RecordedAt = TrimSpace (rb_RecordedAt e)\<rparr>"

text \<open>The copy of an advisory has no scope, no head and no veto: the code does not copy these fields.\<close>

definition clonePatchQueueReviewerAdvisory :: "PatchQueueReviewerAdvisory \<Rightarrow> PatchQueueReviewerAdvisory" where
  "clonePatchQueueReviewerAdvisory e =
     \<lparr>ra_Schema = TrimSpace (ra_Schema e), ra_Mode = TrimSpace (ra_Mode e), ra_Verdict = TrimSpace (ra_Verdict e),
      ra_Scope = [], ra_HeadSHA = [], ra_DefeatsAcceptance = False, ra_ReviewerID = TrimSpace (ra_ReviewerID e),
      ra_ReviewDocKey = TrimSpace (ra_ReviewDocKey e), ra_OperationID = TrimSpace (ra_OperationID e),
      ra_OperationKind = TrimSpace (ra_OperationKind e), ra_CASPatchDigest = TrimSpace (ra_CASPatchDigest e),
      ra_CASEvaluationDigest = TrimSpace (ra_CASEvaluationDigest e),
      ra_RollbackEvidenceDigest = TrimSpace (ra_RollbackEvidenceDigest e), ra_Summary = TrimSpace (ra_Summary e),
      ra_RecordedAt = TrimSpace (ra_RecordedAt e)\<rparr>"

definition clonePatchQueueOperatorEnablement :: "PatchQueueOperatorEnablement \<Rightarrow> PatchQueueOperatorEnablement" where
  "clonePatchQueueOperatorEnablement e =
     \<lparr>oe_Schema = TrimSpace (oe_Schema e), oe_Scope = TrimSpace (oe_Scope e), oe_Enabled = oe_Enabled e,
      oe_EnabledBy = TrimSpace (oe_EnabledBy e), oe_EnabledAt = TrimSpace (oe_EnabledAt e), oe_Reason = TrimSpace (oe_Reason e),
      oe_WorkspaceID = TrimSpace (oe_WorkspaceID e), oe_ProjectID = TrimSpace (oe_ProjectID e), oe_QueueID = TrimSpace (oe_QueueID e),
      oe_ItemID = TrimSpace (oe_ItemID e), oe_OperationID = TrimSpace (oe_OperationID e),
      oe_CASPatchDigest = TrimSpace (oe_CASPatchDigest e), oe_RollbackEvidenceDigest = TrimSpace (oe_RollbackEvidenceDigest e),
      oe_ReviewerAdvisoryDigest = TrimSpace (oe_ReviewerAdvisoryDigest e)\<rparr>"

subsection \<open>Worktree identities\<close>

definition mutationActivationPathsEqual :: "string \<Rightarrow> string \<Rightarrow> bool" where
  "mutationActivationPathsEqual left0 right0 =
     (let left = TrimSpace left0; right = TrimSpace right0
      in if left = [] \<or> right = [] then left = right else path_Clean left = path_Clean right)"

text \<open>Ranging over the runes: a byte outside ASCII belongs to a rune above \<open>f\<close>, so the test on bytes is the same.\<close>

definition isCanonicalGitObjectID :: "string \<Rightarrow> bool" where
  "isCanonicalGitObjectID value0 =
     (let value = TrimSpace value0
      in if length value \<noteq> 40 \<and> length value \<noteq> 64 then False else list_all is_lower_hex value)"

definition worktreeIdentityReady :: "WorktreeIdentityEvidence \<Rightarrow> bool" where
  "worktreeIdentityReady e \<longleftrightarrow>
     list_all (\<lambda>v. TrimSpace v \<noteq> [])
       [wt_RepoID e, wt_CheckoutID e, wt_BranchID e, wt_BranchName e, wt_MachineID e, wt_LocalPath e, wt_BaseSHA e, wt_HeadSHA e] \<and>
     isCanonicalGitObjectID (wt_BaseSHA e) \<and> isCanonicalGitObjectID (wt_HeadSHA e) \<and>
     TrimSpace (wt_ReadbackState e) = ''ok'' \<and>
     TrimSpace (wt_ObservedWorktreeRoot e) \<noteq> [] \<and> mutationActivationPathsEqual (wt_ObservedWorktreeRoot e) (wt_LocalPath e) \<and>
     TrimSpace (wt_ObservedDirtyState e) = ''clean'' \<and>
     TrimSpace (wt_ObservedBranchName e) = TrimSpace (wt_BranchName e) \<and>
     TrimSpace (wt_ObservedHeadSHA e) = TrimSpace (wt_HeadSHA e) \<and>
     isCanonicalGitObjectID (wt_ObservedHeadSHA e)"

definition actuatorTargetWorktreeIdentityReady :: "WorktreeIdentityEvidence \<Rightarrow> WorktreeIdentityEvidence \<Rightarrow> bool" where
  "actuatorTargetWorktreeIdentityReady source target \<longleftrightarrow>
     worktreeIdentityReady source \<and> worktreeIdentityReady target \<and>
     \<not> (TrimSpace (wt_RepoID source) = [] \<or> TrimSpace (wt_RepoID source) \<noteq> TrimSpace (wt_RepoID target)) \<and>
     \<not> (TrimSpace (wt_CheckoutID source) \<noteq> [] \<and> TrimSpace (wt_CheckoutID source) = TrimSpace (wt_CheckoutID target)) \<and>
     \<not> (TrimSpace (wt_LocalPath source) \<noteq> [] \<and> mutationActivationPathsEqual (wt_LocalPath source) (wt_LocalPath target)) \<and>
     \<not> (TrimSpace (wt_BranchName source) \<noteq> [] \<and> TrimSpace (wt_BranchName source) = TrimSpace (wt_BranchName target)) \<and>
     \<not> (TrimSpace (wt_BaseSHA source) = [] \<or> TrimSpace (wt_BaseSHA target) \<noteq> TrimSpace (wt_BaseSHA source) \<or>
        TrimSpace (wt_HeadSHA target) \<noteq> TrimSpace (wt_BaseSHA source))"

subsection \<open>Readiness of an item and its evidence\<close>

definition required_fields :: "string \<Rightarrow> (string \<times> string) list \<Rightarrow> err option" where
  "required_fields format rows = guards (map (\<lambda>(field, v). fail_if (TrimSpace v = []) (Errorf format [AStr field])) rows)"

definition bad_time :: "string \<Rightarrow> string \<Rightarrow> err option" where
  "bad_time format v = fail_if (time_Parse v = None) (Errorf format [AErr (Errorf ''parsing time %q'' [AStr v])])"

definition boundedRetryReady :: "PatchQueueItem \<Rightarrow> err option" where
  "boundedRetryReady item = guards
     [fail_if (pq_MaxAttempts item \<le> 0) (Errorf ''max_attempts must be positive'' []),
      fail_if (pq_Attempt item \<le> 0) (Errorf ''attempt must be positive'' []),
      fail_if (pq_Attempt item > pq_MaxAttempts item)
        (Errorf ''attempt %d exceeds max_attempts %d'' [AInt (pq_Attempt item), AInt (pq_MaxAttempts item)])]"

definition patchQueueVerificationEvidenceReady :: "PatchQueueTestEvidence \<Rightarrow> string \<Rightarrow> err option" where
  "patchQueueVerificationEvidenceReady e evidenceDigest = guards
     [fail_if (TrimSpace (te_Schema e) \<noteq> PatchQueueTestEvidenceSchemaVersion) (Errorf ''test evidence schema is required'' []),
      required_fields ''%s is required''
        [(''test_name'', te_Name e), (''test_command'', te_Command e), (''test_status'', te_Status e),
         (''test_output_digest'', te_OutputDigest e), (''test_evidence_digest'', evidenceDigest)],
      fail_if (te_Status e \<noteq> PatchQueueTestStatusPassed)
        (Errorf ''test evidence status is %q, not %q'' [AStr (te_Status e), AStr PatchQueueTestStatusPassed]),
      fail_if (te_ExitCode e \<noteq> 0) (Errorf ''test evidence exit code must be 0'' []),
      fail_if (\<not> isCanonicalSHA256Digest (te_OutputDigest e)) (Errorf ''test evidence output digest must be canonical sha256'' []),
      fail_if (\<not> isCanonicalSHA256Digest evidenceDigest) (Errorf ''test evidence digest must be canonical sha256'' []),
      fail_if (digestPatchQueueTestEvidence e \<noteq> evidenceDigest) (Errorf ''test evidence digest mismatch'' [])]"

definition rollbackEvidenceReady :: "PatchQueueRollback \<Rightarrow> PatchQueueItem \<Rightarrow> err option" where
  "rollbackEvidenceReady e item = guards
     [fail_if (TrimSpace (rb_Schema e) \<noteq> PatchQueueRollbackSchemaVersion) (Errorf ''rollback evidence schema is required'' []),
      required_fields ''rollback evidence %s is required''
        [(''source_operation_id'', rb_SourceOperationID e), (''source_operation_kind'', rb_SourceOperationKind e),
         (''rollback_operation_id'', rb_RollbackOperationID e), (''rollback_operation_kind'', rb_RollbackOperationKind e),
         (''reason'', rb_Reason e), (''source_patch_digest'', rb_SourcePatchDigest e),
         (''rollback_patch_digest'', rb_RollbackPatchDigest e), (''verification_command'', rb_VerificationCommand e),
         (''verification_status'', rb_VerificationStatus e), (''verification_output_digest'', rb_VerificationOutputDigest e),
         (''recorded_at'', rb_RecordedAt e)],
      fail_if (rb_SourceOperationID e = rb_RollbackOperationID e) (Errorf ''rollback operation must be distinct from source operation'' []),
      fail_if (rb_SourceOperationID e \<noteq> pq_OperationID item \<or> rb_SourceOperationKind e \<noteq> pq_OperationKind item)
        (Errorf ''rollback source operation must match patch queue item'' []),
      fail_if (rb_SourcePatchDigest e \<noteq> pq_CASPatchDigest item)
        (Errorf ''rollback source patch digest must match patch queue item'' []),
      fail_if (\<not> isCanonicalSHA256Digest (rb_SourcePatchDigest e)) (Errorf ''rollback source patch digest must be canonical sha256'' []),
      fail_if (\<not> isCanonicalSHA256Digest (rb_RollbackPatchDigest e)) (Errorf ''rollback patch digest must be canonical sha256'' []),
      fail_if (rb_VerificationStatus e \<noteq> PatchQueueTestStatusPassed)
        (Errorf ''rollback verification status is %q, not %q'' [AStr (rb_VerificationStatus e), AStr PatchQueueTestStatusPassed]),
      fail_if (rb_VerificationExitCode e \<noteq> 0) (Errorf ''rollback verification exit code must be 0'' []),
      fail_if (\<not> isCanonicalSHA256Digest (rb_VerificationOutputDigest e))
        (Errorf ''rollback verification output digest must be canonical sha256'' []),
      bad_time ''rollback evidence recorded_at must be RFC3339Nano: %v'' (TrimSpace (rb_RecordedAt e)),
      fail_if (rb_VerificationDurationMillis e < 0) (Errorf ''rollback verification duration must be non-negative'' []),
      fail_if (rb_RollbackPaths e = []) (Errorf ''rollback paths are required'' []),
      (case normalizePatchQueueRollbackPaths (rb_RollbackPaths e) item of
         Inl x \<Rightarrow> Some x
       | Inr (_, rollbackPatchDigest) \<Rightarrow>
           fail_if (rb_RollbackPatchDigest e \<noteq> rollbackPatchDigest) (Errorf ''rollback patch digest mismatch'' []))]"

definition reviewerAdvisoryReady :: "PatchQueueReviewerAdvisory \<Rightarrow> PatchQueueItem \<Rightarrow> err option" where
  "reviewerAdvisoryReady advisory0 item =
     (let a = clonePatchQueueReviewerAdvisory advisory0
      in guards
       [required_fields ''reviewer advisory %s is required''
          [(''schema'', ra_Schema a), (''mode'', ra_Mode a), (''verdict'', ra_Verdict a), (''reviewer_id'', ra_ReviewerID a),
           (''review_doc_key'', ra_ReviewDocKey a), (''operation_id'', ra_OperationID a), (''operation_kind'', ra_OperationKind a),
           (''cas_patch_digest'', ra_CASPatchDigest a), (''cas_evaluation_digest'', ra_CASEvaluationDigest a),
           (''rollback_evidence_digest'', ra_RollbackEvidenceDigest a), (''recorded_at'', ra_RecordedAt a)],
        fail_if (ra_Schema a \<noteq> PatchQueueReviewerAdvisorySchema)
          (Errorf ''reviewer advisory schema is %q, not %q'' [AStr (ra_Schema a), AStr PatchQueueReviewerAdvisorySchema]),
        fail_if (ra_Mode a \<noteq> MutationActivationReviewerMeshAdvisoryOnly)
          (Errorf ''reviewer advisory mode is %q, not %q'' [AStr (ra_Mode a), AStr MutationActivationReviewerMeshAdvisoryOnly]),
        fail_if (ra_Verdict a \<noteq> PatchQueueReviewerAdvisoryVerdictReviewed)
          (Errorf ''reviewer advisory verdict is %q, not %q'' [AStr (ra_Verdict a), AStr PatchQueueReviewerAdvisoryVerdictReviewed]),
        bad_time ''reviewer advisory recorded_at must be RFC3339Nano: %v'' (ra_RecordedAt a),
        same_fields ''reviewer advisory %s does not match patch queue item'' []
          ([(''operation_id'', pq_OperationID item, ra_OperationID a), (''operation_kind'', pq_OperationKind item, ra_OperationKind a),
            (''cas_patch_digest'', pq_CASPatchDigest item, ra_CASPatchDigest a),
            (''cas_evaluation_digest'', pq_CASEvaluationDigest item, ra_CASEvaluationDigest a),
            (''rollback_evidence_digest'', pq_RollbackEvidenceDigest item, ra_RollbackEvidenceDigest a)]
           @ (if TrimSpace (pq_ReviewDocKey item) \<noteq> [] then [(''review_doc_key'', pq_ReviewDocKey item, ra_ReviewDocKey a)] else [])),
        fail_if (TrimSpace (pq_ReviewerAdvisoryDigest item) \<noteq> [] \<and> pq_ReviewerAdvisoryDigest item \<noteq> digestPatchQueueReviewerAdvisory a)
          (Errorf ''reviewer advisory digest does not match patch queue item'' [])])"

definition operatorEnablementReady ::
  "PatchQueueOperatorEnablement \<Rightarrow> PatchQueueItem \<Rightarrow> PatchQueueReviewerAdvisory \<Rightarrow> err option" where
  "operatorEnablementReady enablement0 item advisory =
     (let e = clonePatchQueueOperatorEnablement enablement0; advisoryDigest = digestPatchQueueReviewerAdvisory advisory
      in guards
       [required_fields ''operator enablement %s is required''
          [(''schema'', oe_Schema e), (''scope'', oe_Scope e), (''enabled_by'', oe_EnabledBy e), (''enabled_at'', oe_EnabledAt e),
           (''reason'', oe_Reason e), (''workspace_id'', oe_WorkspaceID e), (''queue_id'', oe_QueueID e), (''item_id'', oe_ItemID e),
           (''operation_id'', oe_OperationID e), (''cas_patch_digest'', oe_CASPatchDigest e),
           (''rollback_evidence_digest'', oe_RollbackEvidenceDigest e), (''reviewer_advisory_digest'', oe_ReviewerAdvisoryDigest e)],
        fail_if (oe_Schema e \<noteq> PatchQueueOperatorEnablementSchema)
          (Errorf ''operator enablement schema is %q, not %q'' [AStr (oe_Schema e), AStr PatchQueueOperatorEnablementSchema]),
        fail_if (oe_Scope e \<noteq> MutationActivationOperatorEnablementScope)
          (Errorf ''operator enablement scope is %q, not %q'' [AStr (oe_Scope e), AStr MutationActivationOperatorEnablementScope]),
        fail_if (\<not> oe_Enabled e) (Errorf ''operator enablement must be explicitly enabled'' []),
        bad_time ''operator enablement enabled_at must be RFC3339Nano: %v'' (oe_EnabledAt e),
        same_fields ''operator enablement %s does not match patch queue item'' []
          ([(''workspace_id'', pq_WorkspaceID item, oe_WorkspaceID e), (''queue_id'', pq_QueueID item, oe_QueueID e),
            (''item_id'', pq_ItemID item, oe_ItemID e), (''operation_id'', pq_OperationID item, oe_OperationID e),
            (''cas_patch_digest'', pq_CASPatchDigest item, oe_CASPatchDigest e),
            (''rollback_evidence_digest'', pq_RollbackEvidenceDigest item, oe_RollbackEvidenceDigest e),
            (''reviewer_advisory_digest'', advisoryDigest, oe_ReviewerAdvisoryDigest e)]
           @ (if TrimSpace (pq_ProjectID item) \<noteq> [] then [(''project_id'', pq_ProjectID item, oe_ProjectID e)] else [])),
        fail_if (TrimSpace (pq_OperatorEnablementDigest item) \<noteq> [] \<and> pq_OperatorEnablementDigest item \<noteq> digestPatchQueueOperatorEnablement e)
          (Errorf ''operator enablement digest does not match patch queue item'' [])])"

definition mutationBindingReady :: "Context \<Rightarrow> PatchQueueItem \<Rightarrow> err option" where
  "mutationBindingReady authority0 item =
     (let authority = WithDefaults authority0
      in guards
       [requireConcreteMutationOperationRefs authority,
        fail_if (ctx_Pathset authority = []) (Errorf ''pathset is required'' []),
        wrap_err ''repo authority context: %w'' (err_of (Context_Digest authority)),
        fail_if (TrimSpace (pq_Schema item) \<noteq> PatchQueueItemSchemaVersion) (Errorf ''patch queue item schema is required'' []),
        verifyPatchQueueItemContext item authority,
        fail_if (TrimSpace (pq_OperationID item) \<noteq> TrimSpace (op_ID (ctx_Operation authority)) \<or>
                 TrimSpace (pq_OperationKind item) \<noteq> TrimSpace (op_Kind (ctx_Operation authority)))
          (Errorf ''patch queue item operation refs must match mutation context'' [])])"

definition mergeAdmissionReady :: "Context \<Rightarrow> PatchQueueItem \<Rightarrow> err option" where
  "mergeAdmissionReady authority0 item =
     (let authority = WithDefaults authority0
      in guards
       [fail_if (pq_State item \<noteq> PatchQueueStateApplied)
          (Errorf ''patch queue state is %q, not %q'' [AStr (pq_State item), AStr PatchQueueStateApplied]),
        validateCASEvidence (pq_CASResult item) authority,
        fail_if (TrimSpace (pq_OperationID item) \<noteq> TrimSpace (op_ID (ctx_Operation authority)) \<or>
                 TrimSpace (pq_OperationKind item) \<noteq> TrimSpace (op_Kind (ctx_Operation authority)))
          (Errorf ''patch queue operation refs must match mutation context'' []),
        fail_if (car_Status (pq_CASResult item) \<noteq> CASPatchStatusApplied)
          (Errorf ''CAS status is %q, not %q'' [AStr (car_Status (pq_CASResult item)), AStr CASPatchStatusApplied]),
        fail_if (\<not> isCanonicalSHA256Digest (pq_CASPatchDigest item)) (Errorf ''canonical CAS patch digest is required'' []),
        fail_if (TrimSpace (car_PatchDigest (pq_CASResult item)) \<noteq> TrimSpace (pq_CASPatchDigest item)) (Errorf ''CAS patch digest mismatch'' []),
        verifyCASPatchDigestFromPathResults (pq_CASResult item),
        fail_if (\<not> isCanonicalSHA256Digest (pq_CASEvaluationDigest item)) (Errorf ''canonical CAS evaluation digest is required'' []),
        fail_if (digestCASPatchApplyResult (pq_CASResult item) \<noteq> pq_CASEvaluationDigest item) (Errorf ''CAS evaluation digest mismatch'' []),
        fail_if (pq_ConflictIssues item \<noteq> []) (Errorf ''conflict issues must be empty'' []),
        patchQueueVerificationEvidenceReady (pq_TestEvidence item) (pq_TestEvidenceDigest item)])"

text \<open>The exported names of the checks.\<close>

definition ValidatePatchQueueReviewerAdvisory :: "PatchQueueReviewerAdvisory \<Rightarrow> PatchQueueItem \<Rightarrow> err option" where
  "ValidatePatchQueueReviewerAdvisory = reviewerAdvisoryReady"
definition ValidatePatchQueueOperatorEnablement ::
  "PatchQueueOperatorEnablement \<Rightarrow> PatchQueueItem \<Rightarrow> PatchQueueReviewerAdvisory \<Rightarrow> err option" where
  "ValidatePatchQueueOperatorEnablement = operatorEnablementReady"
definition ValidatePatchQueueMergeAdmission :: "Context \<Rightarrow> PatchQueueItem \<Rightarrow> err option" where
  "ValidatePatchQueueMergeAdmission = mergeAdmissionReady"
definition ValidatePatchQueueRollbackEvidence :: "PatchQueueRollback \<Rightarrow> PatchQueueItem \<Rightarrow> err option" where
  "ValidatePatchQueueRollbackEvidence = rollbackEvidenceReady"

definition materializationPreflightReady :: "PatchMaterialization \<Rightarrow> PatchQueueItem \<Rightarrow> WorktreeIdentityEvidence \<Rightarrow> err option" where
  "materializationPreflightReady m item worktree = guards
     [fail_if (\<not> worktreeIdentityReady worktree) (Errorf ''materialization preflight requires canonical worktree identity'' []),
      fail_if (TrimSpace (pm_Schema m) = [] \<and> pm_Files m = []) (Errorf ''patch materialization is required'' []),
      wrap_err ''patch materialization invalid: %w'' (ValidatePatchMaterialization m item)]"

end
