(* ===== verification/Activation_Evidence.thy ===== *)
theory Activation_Evidence
  imports Activation_Model
begin

section \<open>Activation gates: the recorded evidence\<close>

text \<open>
  The seven kinds of evidence of \<open>internal/repoauthority/activation_gates.go\<close>: how each is built from
  an item, and how a recorded one is verified again. Building runs the readiness check of the kind and
  keeps its outcome; verifying rebuilds an item from the recorded fields, repeats the check and compares
  the outcomes. What the functions of the several kinds share is stated once, over the record scheme.
\<close>

subsection \<open>What the kinds share\<close>

definition source_is_candidate :: "string \<Rightarrow> bool" where
  "source_is_candidate source \<longleftrightarrow> TrimSpace source = MutationActivationSourceDurableControlledQueueCandidate"

text \<open>The outcome of the check on a kind with the states ready and invalid.\<close>

definition settle :: "err option \<Rightarrow> 'a ItemEvidence_scheme \<Rightarrow> 'a ItemEvidence_scheme" where
  "settle outcome e =
     (case outcome of
        Some x \<Rightarrow> e\<lparr>ev_Ready := False, ev_ReadyError := err_text x, ev_State := ''invalid''\<rparr>
      | None \<Rightarrow> e\<lparr>ev_Ready := True, ev_State := ''ready''\<rparr>)"

definition settled_ready :: "err option \<Rightarrow> 'a ItemEvidence_scheme \<Rightarrow> bool" where
  "settled_ready recomputed e \<longleftrightarrow>
     \<not> (\<not> ev_Ready e \<or> TrimSpace (ev_State e) \<noteq> ''ready'' \<or> TrimSpace (ev_ReadyError e) \<noteq> []) \<and> recomputed = None"

definition ready_error :: "err option \<Rightarrow> string" where
  "ready_error outcome = (case outcome of None \<Rightarrow> [] | Some x \<Rightarrow> err_text x)"

definition check_settled :: "string \<Rightarrow> err option \<Rightarrow> 'a ItemEvidence_scheme \<Rightarrow> err option" where
  "check_settled kind recomputed e =
     (let state = TrimSpace (ev_State e)
      in guards
       [fail_if (state \<notin> set [''ready'', ''invalid'']) (Errorf (kind @ '' evidence state %q is unsupported'') [AStr (ev_State e)]),
        fail_if (ev_Ready e \<noteq> (recomputed = None)) (Errorf (kind @ '' evidence ready flag is inconsistent'') []),
        fail_if (TrimSpace (ev_ReadyError e) \<noteq> ready_error recomputed) (Errorf (kind @ '' evidence ready_error is inconsistent'') []),
        fail_if (ev_Ready e \<and> state \<noteq> ''ready'') (Errorf (''ready '' @ kind @ '' evidence must use ready state'') []),
        fail_if (\<not> ev_Ready e \<and> state = ''ready'') (Errorf (''non-ready '' @ kind @ '' evidence must not use ready state'') [])])"

definition canonical_digests :: "(string \<times> string) list \<Rightarrow> err option" where
  "canonical_digests rows = guards (map (\<lambda>(label, d).
     fail_if (TrimSpace d \<noteq> [] \<and> \<not> isCanonicalSHA256Digest d) (Errorf (label @ '' must be canonical sha256'') [])) rows)"

text \<open>Two pieces of evidence name the same item.\<close>

definition item_rows :: "'a ItemEvidence_scheme \<Rightarrow> 'b ItemEvidence_scheme \<Rightarrow> (string \<times> string \<times> string) list" where
  "item_rows b e =
     [(''patch_queue_schema'', ev_Schema b, ev_Schema e), (''patch_queue_id'', ev_QueueID b, ev_QueueID e),
      (''patch_queue_item_id'', ev_ItemID b, ev_ItemID e), (''patch_queue_context'', ev_Context b, ev_Context e),
      (''repo_lease_id'', ev_RepoLeaseID b, ev_RepoLeaseID e), (''operation_id'', ev_OperationID b, ev_OperationID e),
      (''operation_kind'', ev_OperationKind b, ev_OperationKind e)]"

definition matches_item ::
  "string \<Rightarrow> string \<Rightarrow> (string \<times> string \<times> string) list \<Rightarrow> 'a ItemEvidence_scheme \<Rightarrow> 'b ItemEvidence_scheme \<Rightarrow> err option" where
  "matches_item kind other rows b e = guards
     [same_fields (kind @ '' evidence %s does not match '' @ other @ '' evidence'') [] (item_rows b e @ rows),
      fail_if (ev_LeaseTerm b \<noteq> ev_LeaseTerm e) (Errorf (kind @ '' evidence lease_term does not match '' @ other @ '' evidence'') [])]"

definition normal_paths :: "string \<Rightarrow> string list \<Rightarrow> err option" where
  "normal_paths format paths = guards (map (\<lambda>p. fail_if (NormalizePath p \<noteq> Inr p) (Errorf format [AStr p])) paths)"

definition normal_or_given :: "string list \<Rightarrow> string list" where
  "normal_or_given paths = (case NormalizePathSet paths of Inr normalized \<Rightarrow> normalized | Inl _ \<Rightarrow> paths)"

definition zero_item :: PatchQueueItem where
  "zero_item = \<lparr>pq_Schema = [], pq_ID = [], pq_QueueID = [], pq_ItemID = [], pq_ReviewDocKey = [], pq_State = [], pq_Attempt = 0,
     pq_MaxAttempts = 0, pq_NextRetryAt = [], pq_DeadLetteredAt = [], pq_ContextDigest = [], pq_RepoLeaseID = [], pq_LeaseTerm = 0,
     pq_Pathset = [], pq_WorkspaceID = [], pq_ProjectID = [], pq_TaskID = [], pq_SessionID = [], pq_RunID = [], pq_AgentID = [],
     pq_PrincipalType = [], pq_PrincipalID = [], pq_CapabilitySnapshotID = [], pq_CapabilitySnapshotSchema = [], pq_BaseRef = [],
     pq_BaseTreeHash = [], pq_CASResult = zero_cas_result, pq_CASPatchDigest = [], pq_CASEvaluationDigest = [], pq_ConflictIssues = [],
     pq_TestEvidence = zero_test_evidence, pq_TestEvidenceDigest = [], pq_RecoveryDecisions = [], pq_RecoveryDecisionDigest = [],
     pq_RollbackEvidence = zero_rollback, pq_RollbackEvidenceDigest = [], pq_ReviewerAdvisory = zero_advisory,
     pq_ReviewerAdvisoryDigest = [], pq_OperatorEnablement = zero_enablement, pq_OperatorEnablementDigest = [], pq_OperationID = [],
     pq_OperationKind = [], pq_CreatedAt = [], pq_UpdatedAt = []\<rparr>"

text \<open>The fields of an item that every kind of evidence records.\<close>

definition item_of_evidence :: "'a ItemEvidence_scheme \<Rightarrow> PatchQueueItem" where
  "item_of_evidence e = zero_item\<lparr>
     pq_Schema := TrimSpace (ev_Schema e), pq_ID := TrimSpace (ev_RecordID e), pq_QueueID := TrimSpace (ev_QueueID e),
     pq_ItemID := TrimSpace (ev_ItemID e), pq_State := TrimSpace (ev_ItemState e), pq_ContextDigest := TrimSpace (ev_Context e),
     pq_RepoLeaseID := TrimSpace (ev_RepoLeaseID e), pq_LeaseTerm := ev_LeaseTerm e,
     pq_OperationID := TrimSpace (ev_OperationID e), pq_OperationKind := TrimSpace (ev_OperationKind e)\<rparr>"

definition any_text :: "string list \<Rightarrow> bool" where
  "any_text vs \<longleftrightarrow> list_ex (\<lambda>v. TrimSpace v \<noteq> []) vs"

subsection \<open>Mutation binding\<close>

definition mutationBindingInputHasAnyEvidence :: "Context \<Rightarrow> PatchQueueItem \<Rightarrow> bool" where
  "mutationBindingInputHasAnyEvidence a item \<longleftrightarrow>
     any_text [ctx_WorkspaceID a, ctx_TaskID a, ctx_SessionID a, ctx_RunID a, ctx_AgentID a, pr_Type (ctx_Principal a),
       pr_ID (ctx_Principal a), cs_ID (ctx_CapabilitySnapshot a), ctx_RepoRoot a, base_Ref (ctx_Base a), base_TreeHash (ctx_Base a),
       lr_ID (ctx_Lease a), pqr_QueueID (ctx_PatchQueue a), pqr_ItemID (ctx_PatchQueue a), op_ID (ctx_Operation a),
       op_Kind (ctx_Operation a), pq_Schema item, pq_ID item, pq_QueueID item, pq_ItemID item, pq_ContextDigest item,
       pq_RepoLeaseID item, pq_OperationID item, pq_OperationKind item] \<or>
     lr_Term (ctx_Lease a) \<noteq> 0 \<or> pq_LeaseTerm item \<noteq> 0 \<or> ctx_Pathset a \<noteq> [] \<or> base_FileHashes (ctx_Base a) \<noteq> [] \<or> pq_Pathset item \<noteq> []"

definition missing_text :: "string \<Rightarrow> string \<Rightarrow> string list" where
  "missing_text field v = (if TrimSpace v = [] then [field] else [])"

definition missing_label :: "string \<Rightarrow> string \<Rightarrow> string list" where
  "missing_label field v = (if rejectVagueBindingLabel field v \<noteq> None then [field] else [])"

definition missing_kind :: "string \<Rightarrow> string \<Rightarrow> string list" where
  "missing_kind field v =
     (if rejectVagueBindingLabel field v \<noteq> None then [field]
      else if TrimSpace v \<notin> set allowedMutationOperationKinds then [field] else [])"

definition mutationBindingEvidenceMissingRefs :: "MutationBindingEvidence \<Rightarrow> string list" where
  "mutationBindingEvidenceMissingRefs e = concat
     [missing_text ''mode'' (be_ContextMode e), missing_text ''workspace_id'' (be_WorkspaceID e), missing_text ''task_id'' (be_TaskID e),
      missing_text ''session_id'' (be_SessionID e), missing_text ''run_id'' (be_RunID e), missing_text ''agent_id'' (be_AgentID e),
      missing_text ''principal.type'' (be_PrincipalType e), missing_text ''principal.id'' (be_PrincipalID e),
      missing_text ''capability_snapshot.id'' (be_CapabilitySnapshotID e), missing_text ''repo_root'' (be_RepoRoot e),
      (if TrimSpace (be_BaseRef e) = [] \<and> TrimSpace (be_BaseTreeHash e) = [] then [''base.ref_or_tree_hash''] else []),
      (if be_Pathset e = [] then [''pathset''] else []),
      missing_label ''repo_lease_id'' (be_RepoLeaseID e), (if be_LeaseTerm e \<le> 0 then [''lease_term''] else []),
      missing_label ''patch_queue_id'' (be_PatchQueueID e), missing_label ''patch_queue_item_id'' (be_PatchQueueItemID e),
      missing_label ''operation_id'' (be_OperationID e), missing_kind ''operation_kind'' (be_OperationKind e),
      missing_text ''patch_queue_item.schema'' (ev_Schema e), missing_text ''patch_queue_item.queue_id'' (ev_QueueID e),
      missing_text ''patch_queue_item.item_id'' (ev_ItemID e), missing_text ''patch_queue_item.context_digest'' (ev_Context e),
      missing_text ''patch_queue_item.repo_lease_id'' (ev_RepoLeaseID e),
      (if ev_LeaseTerm e \<le> 0 then [''patch_queue_item.lease_term''] else []),
      missing_text ''patch_queue_item.operation_id'' (ev_OperationID e),
      missing_kind ''patch_queue_item.operation_kind'' (ev_OperationKind e),
      (if be_PatchQueueItemPathset e = [] then [''patch_queue_item.pathset''] else [])]"

definition mismatch_text :: "string \<Rightarrow> string \<Rightarrow> string \<Rightarrow> string list" where
  "mismatch_text field left0 right0 =
     (let left = TrimSpace left0; right = TrimSpace right0
      in if left \<noteq> [] \<and> right \<noteq> [] \<and> left \<noteq> right then [field] else [])"

definition mutationBindingEvidenceMismatches :: "MutationBindingEvidence \<Rightarrow> string list" where
  "mutationBindingEvidenceMismatches e = concat
     [mismatch_text ''patch_queue_id'' (be_PatchQueueID e) (ev_QueueID e),
      mismatch_text ''patch_queue_item_id'' (be_PatchQueueItemID e) (ev_ItemID e),
      mismatch_text ''repo_lease_id'' (be_RepoLeaseID e) (ev_RepoLeaseID e),
      (if 0 < be_LeaseTerm e \<and> 0 < ev_LeaseTerm e \<and> be_LeaseTerm e \<noteq> ev_LeaseTerm e then [''lease_term''] else []),
      mismatch_text ''patch_queue_context_digest'' (be_PatchQueueContextDigest e) (ev_Context e),
      (if be_Pathset e \<noteq> [] \<and> be_PatchQueueItemPathset e \<noteq> [] \<and> \<not> sameStringSlice (be_Pathset e) (be_PatchQueueItemPathset e)
       then [''pathset''] else []),
      mismatch_text ''operation_id'' (be_OperationID e) (ev_OperationID e),
      mismatch_text ''operation_kind'' (be_OperationKind e) (ev_OperationKind e)]"

definition mutationBindingEvidenceDigestResult :: "string result \<Rightarrow> string \<times> string" where
  "mutationBindingEvidenceDigestResult r = (case r of Inl e \<Rightarrow> ([], err_text e) | Inr digest \<Rightarrow> (TrimSpace digest, []))"

text \<open>A map with trimmed keys and values: a later entry replaces one whose key is the same after trimming.\<close>

definition trim_hashes :: "(string \<times> string) list \<Rightarrow> (string \<times> string) list" where
  "trim_hashes hashes = fold (\<lambda>(p, h). AList.update (TrimSpace p) (TrimSpace h)) hashes []"

definition mutationBindingEvidenceContext :: "MutationBindingEvidence \<Rightarrow> Context" where
  "mutationBindingEvidenceContext e =
     \<lparr>ctx_Schema = [], ctx_Mode = TrimSpace (be_ContextMode e), ctx_WorkspaceID = TrimSpace (be_WorkspaceID e),
      ctx_TaskID = TrimSpace (be_TaskID e), ctx_SessionID = TrimSpace (be_SessionID e), ctx_RunID = TrimSpace (be_RunID e),
      ctx_AgentID = TrimSpace (be_AgentID e),
      ctx_Principal = \<lparr>pr_Type = TrimSpace (be_PrincipalType e), pr_ID = TrimSpace (be_PrincipalID e)\<rparr>,
      ctx_CapabilitySnapshot = \<lparr>cs_ID = TrimSpace (be_CapabilitySnapshotID e), cs_Schema = TrimSpace (be_CapabilitySnapshotSchema e)\<rparr>,
      ctx_RepoRoot = TrimSpace (be_RepoRoot e),
      ctx_Base = \<lparr>base_Ref = TrimSpace (be_BaseRef e), base_TreeHash = TrimSpace (be_BaseTreeHash e),
        base_FileHashes = trim_hashes (filter (\<lambda>(p, h). TrimSpace p \<noteq> []) (be_BaseFileHashes e))\<rparr>,
      ctx_Pathset = be_Pathset e,
      ctx_Lease = \<lparr>lr_ID = TrimSpace (be_RepoLeaseID e), lr_Term = be_LeaseTerm e\<rparr>,
      ctx_PatchQueue = \<lparr>pqr_QueueID = TrimSpace (be_PatchQueueID e), pqr_ItemID = TrimSpace (be_PatchQueueItemID e)\<rparr>,
      ctx_Operation = \<lparr>op_ID = TrimSpace (be_OperationID e), op_Kind = TrimSpace (be_OperationKind e)\<rparr>\<rparr>"

text \<open>The fields of the binding, before the references are compared and the check is run.\<close>

definition binding_fields :: "Context \<Rightarrow> PatchQueueItem \<Rightarrow> MutationBindingEvidence" where
  "binding_fields a item =
     \<lparr>ev_State = [], ev_Ready = False, ev_ReadyError = [], ev_Schema = TrimSpace (pq_Schema item), ev_RecordID = TrimSpace (pq_ID item),
      ev_QueueID = TrimSpace (pq_QueueID item), ev_ItemID = TrimSpace (pq_ItemID item), ev_ItemState = TrimSpace (pq_State item),
      ev_Context = TrimSpace (pq_ContextDigest item), ev_RepoLeaseID = TrimSpace (pq_RepoLeaseID item),
      ev_LeaseTerm = pq_LeaseTerm item, ev_OperationID = TrimSpace (pq_OperationID item), ev_OperationKind = TrimSpace (pq_OperationKind item),
      be_ContextMode = TrimSpace (ctx_Mode a), be_WorkspaceID = TrimSpace (ctx_WorkspaceID a), be_TaskID = TrimSpace (ctx_TaskID a),
      be_SessionID = TrimSpace (ctx_SessionID a), be_RunID = TrimSpace (ctx_RunID a), be_AgentID = TrimSpace (ctx_AgentID a),
      be_PrincipalType = TrimSpace (pr_Type (ctx_Principal a)), be_PrincipalID = TrimSpace (pr_ID (ctx_Principal a)),
      be_CapabilitySnapshotID = TrimSpace (cs_ID (ctx_CapabilitySnapshot a)),
      be_CapabilitySnapshotSchema = TrimSpace (cs_Schema (ctx_CapabilitySnapshot a)), be_RepoRoot = TrimSpace (ctx_RepoRoot a),
      be_BaseRef = TrimSpace (base_Ref (ctx_Base a)), be_BaseTreeHash = TrimSpace (base_TreeHash (ctx_Base a)),
      be_BaseFileHashCount = int (length (base_FileHashes (ctx_Base a))),
      be_BaseFileHashPaths = normal_or_given (map (\<lambda>(p, h). TrimSpace p) (base_FileHashes (ctx_Base a))),
      be_BaseFileHashes = trim_hashes (base_FileHashes (ctx_Base a)),
      be_RepoLeaseID = TrimSpace (lr_ID (ctx_Lease a)), be_LeaseTerm = lr_Term (ctx_Lease a),
      be_PatchQueueID = TrimSpace (pqr_QueueID (ctx_PatchQueue a)), be_PatchQueueItemID = TrimSpace (pqr_ItemID (ctx_PatchQueue a)),
      be_OperationID = TrimSpace (op_ID (ctx_Operation a)), be_OperationKind = TrimSpace (op_Kind (ctx_Operation a)),
      be_OperationKindAccepted = (TrimSpace (op_Kind (ctx_Operation a)) \<in> set allowedMutationOperationKinds),
      be_ContextDigest = (case Context_Digest a of Inl e \<Rightarrow> [] | Inr digest \<Rightarrow> digest),
      be_ContextDigestError = ready_error (err_of (Context_Digest a)),
      be_PatchQueueContextDigest = (case patchQueueContextDigest a of Inl e \<Rightarrow> [] | Inr digest \<Rightarrow> digest),
      be_PatchQueueContextError = ready_error (err_of (patchQueueContextDigest a)),
      be_Pathset = normal_or_given (ctx_Pathset a), be_PatchQueueItemPathset = normal_or_given (pq_Pathset item),
      be_MissingRefs = [], be_Mismatches = []\<rparr>"

definition buildMutationBindingEvidence :: "Context \<Rightarrow> PatchQueueItem \<Rightarrow> bool \<Rightarrow> MutationBindingEvidence option" where
  "buildMutationBindingEvidence authority0 item force =
     (let authority = WithDefaults authority0
      in if \<not> force \<and> \<not> mutationBindingInputHasAnyEvidence authority item then None
         else let e0 = binding_fields authority item;
                  e1 = e0\<lparr>be_MissingRefs := mutationBindingEvidenceMissingRefs e0\<rparr>;
                  e = e1\<lparr>be_Mismatches := mutationBindingEvidenceMismatches e1\<rparr>
              in Some (case mutationBindingReady authority item of
                   Some x \<Rightarrow> e\<lparr>ev_Ready := False, ev_ReadyError := err_text x,
                     ev_State := (if be_MissingRefs e \<noteq> [] then ''missing_refs''
                       else if be_Mismatches e \<noteq> [] then ''mismatch'' else ''invalid'')\<rparr>
                 | None \<Rightarrow> e\<lparr>ev_Ready := True, ev_State := ''ready''\<rparr>))"

definition verifyMutationBindingEvidenceDigests :: "MutationBindingEvidence \<Rightarrow> err option" where
  "verifyMutationBindingEvidenceDigests e =
     (let authority = mutationBindingEvidenceContext e;
          context = mutationBindingEvidenceDigestResult (Context_Digest authority);
          queue = mutationBindingEvidenceDigestResult (patchQueueContextDigest authority)
      in guards
       [fail_if (TrimSpace (be_ContextDigest e) \<noteq> fst context \<or> TrimSpace (be_ContextDigestError e) \<noteq> snd context)
          (Errorf ''mutation binding evidence context digest is inconsistent'' []),
        fail_if (TrimSpace (be_PatchQueueContextDigest e) \<noteq> fst queue \<or> TrimSpace (be_PatchQueueContextError e) \<noteq> snd queue)
          (Errorf ''mutation binding evidence patch queue context digest is inconsistent'' [])])"

definition mutationBindingEvidenceReady :: "MutationBindingEvidence \<Rightarrow> bool" where
  "mutationBindingEvidenceReady e \<longleftrightarrow>
     \<not> (\<not> ev_Ready e \<or> TrimSpace (ev_State e) \<noteq> ''ready'') \<and>
     \<not> (TrimSpace (ev_ReadyError e) \<noteq> [] \<or> TrimSpace (be_ContextDigestError e) \<noteq> [] \<or> TrimSpace (be_PatchQueueContextError e) \<noteq> [] \<or>
        be_MissingRefs e \<noteq> [] \<or> be_Mismatches e \<noteq> []) \<and>
     be_OperationKindAccepted e \<and>
     list_all (\<lambda>v. TrimSpace v \<noteq> [])
       [be_ContextMode e, be_WorkspaceID e, be_TaskID e, be_SessionID e, be_RunID e, be_AgentID e, be_PrincipalType e, be_PrincipalID e,
        be_CapabilitySnapshotID e, be_RepoRoot e, be_RepoLeaseID e, be_PatchQueueID e, be_PatchQueueItemID e, be_OperationID e,
        be_OperationKind e, ev_Schema e, ev_QueueID e, ev_ItemID e, ev_Context e, ev_RepoLeaseID e, ev_OperationID e, ev_OperationKind e] \<and>
     \<not> (be_LeaseTerm e \<le> 0 \<or> ev_LeaseTerm e \<le> 0) \<and>
     \<not> (be_Pathset e = [] \<or> be_PatchQueueItemPathset e = []) \<and>
     TrimSpace (ev_Schema e) = PatchQueueItemSchemaVersion \<and>
     \<not> (\<not> isCanonicalSHA256Digest (be_ContextDigest e) \<or> \<not> isCanonicalSHA256Digest (be_PatchQueueContextDigest e)) \<and>
     TrimSpace (be_PatchQueueContextDigest e) = TrimSpace (ev_Context e) \<and>
     sameStringSlice (be_Pathset e) (be_PatchQueueItemPathset e)"

definition verifyMutationBindingEvidence :: "MutationBindingEvidence \<Rightarrow> err option" where
  "verifyMutationBindingEvidence e =
     (let state = TrimSpace (ev_State e)
      in guards
       [fail_if (state \<notin> set [''ready'', ''missing_refs'', ''mismatch'', ''invalid''])
          (Errorf ''mutation binding evidence state %q is unsupported'' [AStr (ev_State e)]),
        fail_if (ev_Ready e \<noteq> mutationBindingEvidenceReady e) (Errorf ''mutation binding evidence ready flag is inconsistent'' []),
        fail_if (ev_Ready e \<and> state \<noteq> ''ready'') (Errorf ''ready mutation binding evidence must use ready state'' []),
        fail_if (\<not> ev_Ready e \<and> state = ''ready'') (Errorf ''non-ready mutation binding evidence must not use ready state'' []),
        fail_if (\<not> sameStringSlice (be_MissingRefs e) (mutationBindingEvidenceMissingRefs e))
          (Errorf ''mutation binding evidence missing_refs are inconsistent'' []),
        fail_if (\<not> sameStringSlice (be_Mismatches e) (mutationBindingEvidenceMismatches e))
          (Errorf ''mutation binding evidence mismatches are inconsistent'' []),
        verifyMutationBindingEvidenceDigests e,
        canonical_digests [(''mutation binding context_digest'', be_ContextDigest e),
          (''mutation binding patch_queue_context_digest'', be_PatchQueueContextDigest e)],
        fail_if (be_BaseFileHashCount e \<noteq> int (length (be_BaseFileHashes e)))
          (Errorf ''mutation binding base_file_hash_count is inconsistent'' []),
        fail_if (\<not> sameStringSlice (be_BaseFileHashPaths e) (normal_or_given (map (\<lambda>(p, h). TrimSpace p) (be_BaseFileHashes e))))
          (Errorf ''mutation binding base_file_hash_paths are inconsistent'' []),
        normal_paths ''mutation binding pathset contains non-normalized path %q'' (be_Pathset e),
        normal_paths ''mutation binding patch queue item pathset contains non-normalized path %q'' (be_PatchQueueItemPathset e),
        guards (map (\<lambda>p. guards
          [fail_if (NormalizePath p \<noteq> Inr p) (Errorf ''mutation binding base file hash paths contain non-normalized path %q'' [AStr p]),
           fail_if (be_Pathset e \<noteq> [] \<and> \<not> pathsetCoversPath (be_Pathset e) p)
             (Errorf ''mutation binding base file hash path %q is outside pathset'' [AStr p])]) (be_BaseFileHashPaths e))])"

subsection \<open>Merge admission\<close>

definition mergeAdmissionInputHasAnyEvidence :: "PatchQueueItem \<Rightarrow> bool" where
  "mergeAdmissionInputHasAnyEvidence item \<longleftrightarrow>
     (let c = pq_CASResult item; t = pq_TestEvidence item
      in TrimSpace (pq_State item) = PatchQueueStateApplied \<or> car_Paths c \<noteq> [] \<or> car_Issues c \<noteq> [] \<or>
         any_text [car_Schema c, car_Status c, car_PatchID c, car_PatchDigest c, car_ContextDigest c, pq_CASPatchDigest item,
           pq_CASEvaluationDigest item, te_Schema t, te_Name t, te_Command t, te_Status t, te_OutputDigest t, te_OutputSummary t,
           pq_TestEvidenceDigest item] \<or>
         te_ExitCode t \<noteq> 0 \<or> te_DurationMillis t \<noteq> 0)"

definition merge_fields :: "PatchQueueItem \<Rightarrow> MergeAdmissionEvidence" where
  "merge_fields item =
     \<lparr>ev_State = [], ev_Ready = False, ev_ReadyError = [], ev_Schema = TrimSpace (pq_Schema item), ev_RecordID = TrimSpace (pq_ID item),
      ev_QueueID = TrimSpace (pq_QueueID item), ev_ItemID = TrimSpace (pq_ItemID item), ev_ItemState = TrimSpace (pq_State item),
      ev_Context = TrimSpace (pq_ContextDigest item), ev_RepoLeaseID = TrimSpace (pq_RepoLeaseID item),
      ev_LeaseTerm = pq_LeaseTerm item, ev_OperationID = TrimSpace (pq_OperationID item), ev_OperationKind = TrimSpace (pq_OperationKind item),
      me_PatchQueueItemPathset = normal_or_given (pq_Pathset item), me_CASStatus = TrimSpace (car_Status (pq_CASResult item)),
      me_CASPatchDigest = TrimSpace (pq_CASPatchDigest item), me_CASEvaluationDigest = TrimSpace (pq_CASEvaluationDigest item),
      me_CASResult = pq_CASResult item, me_TestEvidence = pq_TestEvidence item,
      me_TestEvidenceDigest = TrimSpace (pq_TestEvidenceDigest item)\<rparr>"

definition buildMergeAdmissionEvidence :: "Context \<Rightarrow> PatchQueueItem \<Rightarrow> bool \<Rightarrow> MergeAdmissionEvidence option" where
  "buildMergeAdmissionEvidence authority0 item force =
     (let authority = WithDefaults authority0
      in if \<not> force \<and> \<not> mergeAdmissionInputHasAnyEvidence item then None
         else Some (settle (mergeAdmissionReady authority item) (merge_fields item)))"

definition verifyMergeAdmissionEvidenceMatchesMutationBinding :: "MutationBindingEvidence \<Rightarrow> MergeAdmissionEvidence \<Rightarrow> err option" where
  "verifyMergeAdmissionEvidenceMatchesMutationBinding binding e = guards
     [matches_item ''merge admission'' ''mutation binding'' [] binding e,
      fail_if (\<not> sameStringSlice (be_PatchQueueItemPathset binding) (me_PatchQueueItemPathset e))
        (Errorf ''merge admission evidence pathset does not match mutation binding evidence'' [])]"

definition patchQueueItemFromMergeAdmissionEvidence :: "MergeAdmissionEvidence \<Rightarrow> PatchQueueItem" where
  "patchQueueItemFromMergeAdmissionEvidence e = (item_of_evidence e)\<lparr>
     pq_Pathset := me_PatchQueueItemPathset e, pq_CASResult := me_CASResult e, pq_CASPatchDigest := TrimSpace (me_CASPatchDigest e),
     pq_CASEvaluationDigest := TrimSpace (me_CASEvaluationDigest e), pq_TestEvidence := me_TestEvidence e,
     pq_TestEvidenceDigest := TrimSpace (me_TestEvidenceDigest e)\<rparr>"

definition recomputeMergeAdmissionEvidence :: "MutationBindingEvidence \<Rightarrow> MergeAdmissionEvidence \<Rightarrow> err option" where
  "recomputeMergeAdmissionEvidence binding e = guards
     [verifyMergeAdmissionEvidenceMatchesMutationBinding binding e,
      mergeAdmissionReady (mutationBindingEvidenceContext binding) (patchQueueItemFromMergeAdmissionEvidence e)]"

definition mergeAdmissionEvidenceReady :: "MutationBindingEvidence \<Rightarrow> MergeAdmissionEvidence \<Rightarrow> bool" where
  "mergeAdmissionEvidenceReady binding e = settled_ready (recomputeMergeAdmissionEvidence binding e) e"

definition verifyMergeAdmissionEvidence :: "MutationBindingEvidence \<Rightarrow> MergeAdmissionEvidence \<Rightarrow> err option" where
  "verifyMergeAdmissionEvidence binding e = guards
     [check_settled ''merge admission'' (recomputeMergeAdmissionEvidence binding e) e,
      canonical_digests [(''merge admission CAS patch digest'', me_CASPatchDigest e),
        (''merge admission CAS evaluation digest'', me_CASEvaluationDigest e), (''merge admission test evidence digest'', me_TestEvidenceDigest e)],
      normal_paths ''merge admission patch queue item pathset contains non-normalized path %q'' (me_PatchQueueItemPathset e)]"

subsection \<open>Bounded retry\<close>

definition retryBoundInputHasAnyEvidence :: "PatchQueueItem \<Rightarrow> bool" where
  "retryBoundInputHasAnyEvidence item \<longleftrightarrow>
     pq_Attempt item \<noteq> 0 \<or> pq_MaxAttempts item \<noteq> 0 \<or> TrimSpace (pq_NextRetryAt item) \<noteq> [] \<or> TrimSpace (pq_DeadLetteredAt item) \<noteq> []"

definition retry_fields :: "PatchQueueItem \<Rightarrow> RetryBoundEvidence" where
  "retry_fields item =
     \<lparr>ev_State = [], ev_Ready = False, ev_ReadyError = [], ev_Schema = TrimSpace (pq_Schema item), ev_RecordID = TrimSpace (pq_ID item),
      ev_QueueID = TrimSpace (pq_QueueID item), ev_ItemID = TrimSpace (pq_ItemID item), ev_ItemState = TrimSpace (pq_State item),
      ev_Context = TrimSpace (pq_ContextDigest item), ev_RepoLeaseID = TrimSpace (pq_RepoLeaseID item),
      ev_LeaseTerm = pq_LeaseTerm item, ev_OperationID = TrimSpace (pq_OperationID item), ev_OperationKind = TrimSpace (pq_OperationKind item),
      re_Attempt = pq_Attempt item, re_MaxAttempts = pq_MaxAttempts item, re_NextRetryAt = TrimSpace (pq_NextRetryAt item),
      re_DeadLetteredAt = TrimSpace (pq_DeadLetteredAt item)\<rparr>"

definition buildRetryBoundEvidence :: "PatchQueueItem \<Rightarrow> bool \<Rightarrow> RetryBoundEvidence option" where
  "buildRetryBoundEvidence item force =
     (if \<not> force \<and> \<not> retryBoundInputHasAnyEvidence item then None else Some (settle (boundedRetryReady item) (retry_fields item)))"

definition verifyRetryBoundEvidenceMatchesMutationBinding :: "MutationBindingEvidence \<Rightarrow> RetryBoundEvidence \<Rightarrow> err option" where
  "verifyRetryBoundEvidenceMatchesMutationBinding binding e = matches_item ''retry bound'' ''mutation binding'' [] binding e"

definition patchQueueItemFromRetryBoundEvidence :: "RetryBoundEvidence \<Rightarrow> PatchQueueItem" where
  "patchQueueItemFromRetryBoundEvidence e = (item_of_evidence e)\<lparr>
     pq_Attempt := re_Attempt e, pq_MaxAttempts := re_MaxAttempts e, pq_NextRetryAt := TrimSpace (re_NextRetryAt e),
     pq_DeadLetteredAt := TrimSpace (re_DeadLetteredAt e)\<rparr>"

definition recomputeRetryBoundEvidence :: "MutationBindingEvidence \<Rightarrow> RetryBoundEvidence \<Rightarrow> err option" where
  "recomputeRetryBoundEvidence binding e = guards
     [verifyRetryBoundEvidenceMatchesMutationBinding binding e, boundedRetryReady (patchQueueItemFromRetryBoundEvidence e)]"

definition retryBoundEvidenceReady :: "MutationBindingEvidence \<Rightarrow> RetryBoundEvidence \<Rightarrow> bool" where
  "retryBoundEvidenceReady binding e = settled_ready (recomputeRetryBoundEvidence binding e) e"

definition verifyRetryBoundEvidenceTimestamps :: "RetryBoundEvidence \<Rightarrow> err option" where
  "verifyRetryBoundEvidenceTimestamps e = guards (map (\<lambda>(field, v).
     if TrimSpace v = [] then None
     else fail_if (time_Parse (TrimSpace v) = None)
       (Errorf ''retry bound evidence %s must be RFC3339Nano: %v'' [AStr field, AErr (Errorf ''parsing time %q'' [AStr (TrimSpace v)])]))
     [(''next_retry_at'', re_NextRetryAt e), (''dead_lettered_at'', re_DeadLetteredAt e)])"

definition verifyRetryBoundEvidence :: "MutationBindingEvidence \<Rightarrow> RetryBoundEvidence \<Rightarrow> err option" where
  "verifyRetryBoundEvidence binding e = guards
     [check_settled ''retry bound'' (recomputeRetryBoundEvidence binding e) e, verifyRetryBoundEvidenceTimestamps e]"

subsection \<open>Rollback proof\<close>

definition rollbackEvidenceInputHasAnyEvidence :: "PatchQueueRollback \<Rightarrow> bool" where
  "rollbackEvidenceInputHasAnyEvidence e \<longleftrightarrow>
     rb_RollbackPaths e \<noteq> [] \<or> rb_VerificationExitCode e \<noteq> 0 \<or> rb_VerificationDurationMillis e \<noteq> 0 \<or>
     any_text [rb_Schema e, rb_SourceOperationID e, rb_SourceOperationKind e, rb_RollbackOperationID e, rb_RollbackOperationKind e,
       rb_Reason e, rb_SourcePatchDigest e, rb_RollbackPatchDigest e, rb_VerificationCommand e, rb_VerificationStatus e,
       rb_VerificationOutputDigest e, rb_VerificationOutputSummary e, rb_RecordedAt e]"

definition rollbackProofInputHasAnyEvidence :: "PatchQueueItem \<Rightarrow> PatchQueueRollback \<Rightarrow> bool" where
  "rollbackProofInputHasAnyEvidence item rollback \<longleftrightarrow>
     TrimSpace (pq_RollbackEvidenceDigest item) \<noteq> [] \<or> rollbackEvidenceInputHasAnyEvidence (pq_RollbackEvidence item) \<or>
     rollbackEvidenceInputHasAnyEvidence rollback"

definition rollback_fields :: "PatchQueueItem \<Rightarrow> PatchQueueRollback \<Rightarrow> RollbackProofEvidence" where
  "rollback_fields item rollback =
     \<lparr>ev_State = [], ev_Ready = False, ev_ReadyError = [], ev_Schema = TrimSpace (pq_Schema item), ev_RecordID = TrimSpace (pq_ID item),
      ev_QueueID = TrimSpace (pq_QueueID item), ev_ItemID = TrimSpace (pq_ItemID item), ev_ItemState = TrimSpace (pq_State item),
      ev_Context = TrimSpace (pq_ContextDigest item), ev_RepoLeaseID = TrimSpace (pq_RepoLeaseID item),
      ev_LeaseTerm = pq_LeaseTerm item, ev_OperationID = TrimSpace (pq_OperationID item), ev_OperationKind = TrimSpace (pq_OperationKind item),
      rpe_CASPatchDigest = TrimSpace (pq_CASPatchDigest item), rpe_CASEvaluationDigest = TrimSpace (pq_CASEvaluationDigest item),
      rpe_RollbackEvidence = clonePatchQueueRollbackEvidence rollback,
      rpe_RollbackEvidenceDigest = (let d = TrimSpace (pq_RollbackEvidenceDigest item); r = clonePatchQueueRollbackEvidence rollback
        in if d = [] \<and> rollbackEvidenceInputHasAnyEvidence r then digestPatchQueueRollbackEvidence r else d)\<rparr>"

definition buildRollbackProofEvidence :: "PatchQueueItem \<Rightarrow> PatchQueueRollback \<Rightarrow> bool \<Rightarrow> RollbackProofEvidence option" where
  "buildRollbackProofEvidence item rollback force =
     (if \<not> force \<and> \<not> rollbackProofInputHasAnyEvidence item rollback then None
      else Some (settle (rollbackEvidenceReady (clonePatchQueueRollbackEvidence rollback) item) (rollback_fields item rollback)))"

definition verifyRollbackProofEvidenceMatchesMutationBinding :: "MutationBindingEvidence \<Rightarrow> RollbackProofEvidence \<Rightarrow> err option" where
  "verifyRollbackProofEvidenceMatchesMutationBinding binding e = matches_item ''rollback proof'' ''mutation binding'' [] binding e"

definition verifyRollbackProofEvidenceMatchesMergeAdmission :: "MergeAdmissionEvidence \<Rightarrow> RollbackProofEvidence \<Rightarrow> err option" where
  "verifyRollbackProofEvidenceMatchesMergeAdmission merge e = matches_item ''rollback proof'' ''merge admission''
     [(''cas_patch_digest'', me_CASPatchDigest merge, rpe_CASPatchDigest e),
      (''cas_eval_digest'', me_CASEvaluationDigest merge, rpe_CASEvaluationDigest e),
      (''source_patch_digest'', me_CASPatchDigest merge, rb_SourcePatchDigest (rpe_RollbackEvidence e))] merge e"

definition recomputeRollbackProofEvidence ::
  "MutationBindingEvidence \<Rightarrow> MergeAdmissionEvidence \<Rightarrow> RollbackProofEvidence \<Rightarrow> err option" where
  "recomputeRollbackProofEvidence binding merge e = guards
     [verifyRollbackProofEvidenceMatchesMutationBinding binding e,
      verifyRollbackProofEvidenceMatchesMergeAdmission merge e,
      rollbackEvidenceReady (rpe_RollbackEvidence e) (patchQueueItemFromMergeAdmissionEvidence merge),
      fail_if (TrimSpace (rpe_RollbackEvidenceDigest e) = []) (Errorf ''rollback evidence digest is required'' []),
      fail_if (digestPatchQueueRollbackEvidence (rpe_RollbackEvidence e) \<noteq> TrimSpace (rpe_RollbackEvidenceDigest e))
        (Errorf ''rollback evidence digest mismatch'' [])]"

definition rollbackProofEvidenceReady :: "MutationBindingEvidence \<Rightarrow> MergeAdmissionEvidence \<Rightarrow> RollbackProofEvidence \<Rightarrow> bool" where
  "rollbackProofEvidenceReady binding merge e = settled_ready (recomputeRollbackProofEvidence binding merge e) e"

definition verifyRollbackProofEvidence ::
  "MutationBindingEvidence \<Rightarrow> MergeAdmissionEvidence \<Rightarrow> RollbackProofEvidence \<Rightarrow> err option" where
  "verifyRollbackProofEvidence binding merge e = guards
     [check_settled ''rollback proof'' (recomputeRollbackProofEvidence binding merge e) e,
      canonical_digests [(''rollback proof CAS patch digest'', rpe_CASPatchDigest e),
        (''rollback proof CAS evaluation digest'', rpe_CASEvaluationDigest e), (''rollback proof evidence digest'', rpe_RollbackEvidenceDigest e)],
      (if TrimSpace (rb_RecordedAt (rpe_RollbackEvidence e)) \<noteq> []
       then bad_time ''rollback proof evidence recorded_at must be RFC3339Nano: %v'' (TrimSpace (rb_RecordedAt (rpe_RollbackEvidence e)))
       else None)]"

subsection \<open>Reviewer advisory\<close>

definition reviewerAdvisoryRawHasAnyEvidence :: "PatchQueueReviewerAdvisory \<Rightarrow> bool" where
  "reviewerAdvisoryRawHasAnyEvidence e \<longleftrightarrow>
     any_text [ra_Schema e, ra_Mode e, ra_Verdict e, ra_ReviewerID e, ra_ReviewDocKey e, ra_OperationID e, ra_OperationKind e,
       ra_CASPatchDigest e, ra_CASEvaluationDigest e, ra_RollbackEvidenceDigest e, ra_Summary e, ra_RecordedAt e]"

definition reviewerAdvisoryInputHasAnyEvidence :: "PatchQueueItem \<Rightarrow> PatchQueueReviewerAdvisory \<Rightarrow> bool" where
  "reviewerAdvisoryInputHasAnyEvidence item advisory \<longleftrightarrow>
     TrimSpace (pq_ReviewerAdvisoryDigest item) \<noteq> [] \<or> reviewerAdvisoryRawHasAnyEvidence (pq_ReviewerAdvisory item) \<or>
     reviewerAdvisoryRawHasAnyEvidence advisory"

definition advisory_fields :: "PatchQueueItem \<Rightarrow> PatchQueueReviewerAdvisory \<Rightarrow> ReviewerAdvisoryEvidence" where
  "advisory_fields item advisory =
     \<lparr>ev_State = [], ev_Ready = False, ev_ReadyError = [], ev_Schema = TrimSpace (pq_Schema item), ev_RecordID = TrimSpace (pq_ID item),
      ev_QueueID = TrimSpace (pq_QueueID item), ev_ItemID = TrimSpace (pq_ItemID item), ev_ItemState = TrimSpace (pq_State item),
      ev_Context = TrimSpace (pq_ContextDigest item), ev_RepoLeaseID = TrimSpace (pq_RepoLeaseID item),
      ev_LeaseTerm = pq_LeaseTerm item, ev_OperationID = TrimSpace (pq_OperationID item), ev_OperationKind = TrimSpace (pq_OperationKind item),
      rve_CASPatchDigest = TrimSpace (pq_CASPatchDigest item), rve_CASEvaluationDigest = TrimSpace (pq_CASEvaluationDigest item),
      rve_RollbackEvidenceDigest = TrimSpace (pq_RollbackEvidenceDigest item), rve_WorkspaceID = TrimSpace (pq_WorkspaceID item),
      rve_ProjectID = TrimSpace (pq_ProjectID item), rve_Advisory = clonePatchQueueReviewerAdvisory advisory,
      rve_AdvisoryDigest = (let d = TrimSpace (pq_ReviewerAdvisoryDigest item); a = clonePatchQueueReviewerAdvisory advisory
        in if d = [] \<and> reviewerAdvisoryRawHasAnyEvidence a then digestPatchQueueReviewerAdvisory a else d)\<rparr>"

definition buildReviewerAdvisoryEvidence :: "PatchQueueItem \<Rightarrow> PatchQueueReviewerAdvisory \<Rightarrow> bool \<Rightarrow> ReviewerAdvisoryEvidence option" where
  "buildReviewerAdvisoryEvidence item advisory force =
     (if \<not> force \<and> \<not> reviewerAdvisoryInputHasAnyEvidence item advisory then None
      else Some (settle (reviewerAdvisoryReady (clonePatchQueueReviewerAdvisory advisory) item) (advisory_fields item advisory)))"

definition patchQueueItemFromReviewerAdvisoryEvidence :: "ReviewerAdvisoryEvidence \<Rightarrow> PatchQueueItem" where
  "patchQueueItemFromReviewerAdvisoryEvidence e = (item_of_evidence e)\<lparr>
     pq_CASPatchDigest := TrimSpace (rve_CASPatchDigest e), pq_CASEvaluationDigest := TrimSpace (rve_CASEvaluationDigest e),
     pq_RollbackEvidenceDigest := TrimSpace (rve_RollbackEvidenceDigest e), pq_ReviewerAdvisoryDigest := TrimSpace (rve_AdvisoryDigest e),
     pq_WorkspaceID := TrimSpace (rve_WorkspaceID e), pq_ProjectID := TrimSpace (rve_ProjectID e)\<rparr>"

definition verifyReviewerAdvisoryEvidenceMatchesMutationBinding :: "MutationBindingEvidence \<Rightarrow> ReviewerAdvisoryEvidence \<Rightarrow> err option" where
  "verifyReviewerAdvisoryEvidenceMatchesMutationBinding binding e = matches_item ''reviewer advisory'' ''mutation binding'' [] binding e"

definition verifyReviewerAdvisoryEvidenceMatchesMergeAdmission :: "MergeAdmissionEvidence \<Rightarrow> ReviewerAdvisoryEvidence \<Rightarrow> err option" where
  "verifyReviewerAdvisoryEvidenceMatchesMergeAdmission merge e = matches_item ''reviewer advisory'' ''merge admission''
     [(''cas_patch_digest'', me_CASPatchDigest merge, rve_CASPatchDigest e),
      (''cas_eval_digest'', me_CASEvaluationDigest merge, rve_CASEvaluationDigest e)] merge e"

definition recomputeReviewerAdvisoryEvidence ::
  "MutationBindingEvidence \<Rightarrow> MergeAdmissionEvidence \<Rightarrow> RollbackProofEvidence \<Rightarrow> ReviewerAdvisoryEvidence \<Rightarrow> err option" where
  "recomputeReviewerAdvisoryEvidence binding merge rollback e = guards
     [reviewerAdvisoryReady (rve_Advisory e) (patchQueueItemFromReviewerAdvisoryEvidence e),
      verifyReviewerAdvisoryEvidenceMatchesMutationBinding binding e,
      verifyReviewerAdvisoryEvidenceMatchesMergeAdmission merge e,
      fail_if (TrimSpace (rpe_RollbackEvidenceDigest rollback) \<noteq> TrimSpace (rve_RollbackEvidenceDigest e))
        (Errorf ''reviewer advisory evidence rollback digest does not match rollback proof evidence'' []),
      fail_if (TrimSpace (rve_AdvisoryDigest e) = []) (Errorf ''reviewer advisory digest is required'' []),
      fail_if (digestPatchQueueReviewerAdvisory (rve_Advisory e) \<noteq> TrimSpace (rve_AdvisoryDigest e))
        (Errorf ''reviewer advisory digest mismatch'' [])]"

definition reviewerAdvisoryEvidenceReady ::
  "MutationBindingEvidence \<Rightarrow> MergeAdmissionEvidence \<Rightarrow> RollbackProofEvidence \<Rightarrow> ReviewerAdvisoryEvidence \<Rightarrow> bool" where
  "reviewerAdvisoryEvidenceReady binding merge rollback e = settled_ready (recomputeReviewerAdvisoryEvidence binding merge rollback e) e"

definition verifyReviewerAdvisoryEvidence ::
  "MutationBindingEvidence \<Rightarrow> MergeAdmissionEvidence \<Rightarrow> RollbackProofEvidence \<Rightarrow> ReviewerAdvisoryEvidence \<Rightarrow> err option" where
  "verifyReviewerAdvisoryEvidence binding merge rollback e = guards
     [check_settled ''reviewer advisory'' (recomputeReviewerAdvisoryEvidence binding merge rollback e) e,
      canonical_digests [(''reviewer advisory CAS patch digest'', rve_CASPatchDigest e),
        (''reviewer advisory CAS evaluation digest'', rve_CASEvaluationDigest e),
        (''reviewer advisory rollback evidence digest'', rve_RollbackEvidenceDigest e), (''reviewer advisory digest'', rve_AdvisoryDigest e)]]"

subsection \<open>Operator enablement\<close>

definition operatorEnablementRawHasAnyEvidence :: "PatchQueueOperatorEnablement \<Rightarrow> bool" where
  "operatorEnablementRawHasAnyEvidence e \<longleftrightarrow>
     oe_Enabled e \<or>
     any_text [oe_Schema e, oe_Scope e, oe_EnabledBy e, oe_EnabledAt e, oe_Reason e, oe_WorkspaceID e, oe_ProjectID e, oe_QueueID e,
       oe_ItemID e, oe_OperationID e, oe_CASPatchDigest e, oe_RollbackEvidenceDigest e, oe_ReviewerAdvisoryDigest e]"

definition operatorEnablementInputHasAnyEvidence :: "PatchQueueItem \<Rightarrow> PatchQueueOperatorEnablement \<Rightarrow> bool" where
  "operatorEnablementInputHasAnyEvidence item enablement \<longleftrightarrow>
     TrimSpace (pq_OperatorEnablementDigest item) \<noteq> [] \<or> operatorEnablementRawHasAnyEvidence (pq_OperatorEnablement item) \<or>
     operatorEnablementRawHasAnyEvidence enablement"

definition enablement_fields ::
  "PatchQueueItem \<Rightarrow> PatchQueueOperatorEnablement \<Rightarrow> PatchQueueReviewerAdvisory \<Rightarrow> OperatorEnablementEvidence" where
  "enablement_fields item enablement advisory =
     \<lparr>ev_State = [], ev_Ready = False, ev_ReadyError = [], ev_Schema = TrimSpace (pq_Schema item), ev_RecordID = TrimSpace (pq_ID item),
      ev_QueueID = TrimSpace (pq_QueueID item), ev_ItemID = TrimSpace (pq_ItemID item), ev_ItemState = TrimSpace (pq_State item),
      ev_Context = TrimSpace (pq_ContextDigest item), ev_RepoLeaseID = TrimSpace (pq_RepoLeaseID item),
      ev_LeaseTerm = pq_LeaseTerm item, ev_OperationID = TrimSpace (pq_OperationID item), ev_OperationKind = TrimSpace (pq_OperationKind item),
      oee_CASPatchDigest = TrimSpace (pq_CASPatchDigest item), oee_RollbackEvidenceDigest = TrimSpace (pq_RollbackEvidenceDigest item),
      oee_ReviewerAdvisoryDigest = (let d = TrimSpace (pq_ReviewerAdvisoryDigest item)
        in if d = [] \<and> reviewerAdvisoryRawHasAnyEvidence advisory then digestPatchQueueReviewerAdvisory advisory else d),
      oee_WorkspaceID = TrimSpace (pq_WorkspaceID item), oee_ProjectID = TrimSpace (pq_ProjectID item),
      oee_Enablement = clonePatchQueueOperatorEnablement enablement,
      oee_EnablementDigest = (let d = TrimSpace (pq_OperatorEnablementDigest item); x = clonePatchQueueOperatorEnablement enablement
        in if d = [] \<and> operatorEnablementRawHasAnyEvidence x then digestPatchQueueOperatorEnablement x else d)\<rparr>"

definition buildOperatorEnablementEvidence ::
  "PatchQueueItem \<Rightarrow> PatchQueueOperatorEnablement \<Rightarrow> PatchQueueReviewerAdvisory \<Rightarrow> bool \<Rightarrow> OperatorEnablementEvidence option" where
  "buildOperatorEnablementEvidence item enablement advisory force =
     (if \<not> force \<and> \<not> operatorEnablementInputHasAnyEvidence item enablement then None
      else Some (settle (operatorEnablementReady (clonePatchQueueOperatorEnablement enablement) item advisory)
             (enablement_fields item enablement advisory)))"

definition patchQueueItemFromOperatorEnablementEvidence :: "OperatorEnablementEvidence \<Rightarrow> PatchQueueItem" where
  "patchQueueItemFromOperatorEnablementEvidence e = (item_of_evidence e)\<lparr>
     pq_CASPatchDigest := TrimSpace (oee_CASPatchDigest e), pq_RollbackEvidenceDigest := TrimSpace (oee_RollbackEvidenceDigest e),
     pq_ReviewerAdvisoryDigest := TrimSpace (oee_ReviewerAdvisoryDigest e), pq_OperatorEnablementDigest := TrimSpace (oee_EnablementDigest e),
     pq_WorkspaceID := TrimSpace (oee_WorkspaceID e), pq_ProjectID := TrimSpace (oee_ProjectID e)\<rparr>"

definition verifyOperatorEnablementEvidenceMatchesMutationBinding :: "MutationBindingEvidence \<Rightarrow> OperatorEnablementEvidence \<Rightarrow> err option" where
  "verifyOperatorEnablementEvidenceMatchesMutationBinding binding e = matches_item ''operator enablement'' ''mutation binding'' [] binding e"

definition verifyOperatorEnablementEvidenceMatchesMergeAdmission :: "MergeAdmissionEvidence \<Rightarrow> OperatorEnablementEvidence \<Rightarrow> err option" where
  "verifyOperatorEnablementEvidenceMatchesMergeAdmission merge e = matches_item ''operator enablement'' ''merge admission''
     [(''cas_patch_digest'', me_CASPatchDigest merge, oee_CASPatchDigest e)] merge e"

definition recomputeOperatorEnablementEvidence ::
  "MutationBindingEvidence \<Rightarrow> MergeAdmissionEvidence \<Rightarrow> RollbackProofEvidence \<Rightarrow> ReviewerAdvisoryEvidence
   \<Rightarrow> OperatorEnablementEvidence \<Rightarrow> err option" where
  "recomputeOperatorEnablementEvidence binding merge rollback reviewer e = guards
     [operatorEnablementReady (oee_Enablement e) (patchQueueItemFromOperatorEnablementEvidence e) (rve_Advisory reviewer),
      verifyOperatorEnablementEvidenceMatchesMutationBinding binding e,
      verifyOperatorEnablementEvidenceMatchesMergeAdmission merge e,
      fail_if (TrimSpace (rpe_RollbackEvidenceDigest rollback) \<noteq> TrimSpace (oee_RollbackEvidenceDigest e))
        (Errorf ''operator enablement evidence rollback digest does not match rollback proof evidence'' []),
      fail_if (TrimSpace (rve_AdvisoryDigest reviewer) \<noteq> TrimSpace (oee_ReviewerAdvisoryDigest e))
        (Errorf ''operator enablement evidence reviewer advisory digest does not match reviewer evidence'' []),
      fail_if (TrimSpace (oee_EnablementDigest e) = []) (Errorf ''operator enablement digest is required'' []),
      fail_if (digestPatchQueueOperatorEnablement (oee_Enablement e) \<noteq> TrimSpace (oee_EnablementDigest e))
        (Errorf ''operator enablement digest mismatch'' [])]"

definition operatorEnablementEvidenceReady ::
  "MutationBindingEvidence \<Rightarrow> MergeAdmissionEvidence \<Rightarrow> RollbackProofEvidence \<Rightarrow> ReviewerAdvisoryEvidence
   \<Rightarrow> OperatorEnablementEvidence \<Rightarrow> bool" where
  "operatorEnablementEvidenceReady binding merge rollback reviewer e =
     settled_ready (recomputeOperatorEnablementEvidence binding merge rollback reviewer e) e"

definition verifyOperatorEnablementEvidence ::
  "MutationBindingEvidence \<Rightarrow> MergeAdmissionEvidence \<Rightarrow> RollbackProofEvidence \<Rightarrow> ReviewerAdvisoryEvidence
   \<Rightarrow> OperatorEnablementEvidence \<Rightarrow> err option" where
  "verifyOperatorEnablementEvidence binding merge rollback reviewer e = guards
     [check_settled ''operator enablement'' (recomputeOperatorEnablementEvidence binding merge rollback reviewer e) e,
      canonical_digests [(''operator enablement CAS patch digest'', oee_CASPatchDigest e),
        (''operator enablement rollback evidence digest'', oee_RollbackEvidenceDigest e),
        (''operator enablement reviewer advisory digest'', oee_ReviewerAdvisoryDigest e), (''operator enablement digest'', oee_EnablementDigest e)]]"

end
