(* ===== verification/Activation_Preflight.thy ===== *)
theory Activation_Preflight
  imports Activation_Evidence
begin

section \<open>Activation gates: the materialization preflight\<close>

text \<open>
  The last kind of evidence of \<open>internal/repoauthority/activation_gates.go\<close>: the materialization of the
  patch without its contents, against the applied paths and the authority proof. The verifier sees only
  digests of the contents, so it can compare the digests with the candidate hashes but not recompute them.
\<close>

definition patchMaterializationDiagnosticChangeKind :: "string \<Rightarrow> string" where
  "patchMaterializationDiagnosticChangeKind changeKind = (if TrimSpace changeKind = [] then CASPatchChangeModify else TrimSpace changeKind)"

definition file_diagnostic :: "PatchMaterializedFile \<Rightarrow> PatchMaterializedFileDiagnostic" where
  "file_diagnostic file =
     \<lparr>fd_Path = TrimSpace (mf_Path file), fd_ChangeKind = patchMaterializationDiagnosticChangeKind (mf_ChangeKind file),
      fd_BaseHash = TrimSpace (mf_BaseHash file), fd_CandidateHash = TrimSpace (mf_CandidateHash file),
      fd_ContentEncoding = TrimSpace (mf_ContentEncoding file), fd_ContentDigest = TrimSpace (mf_ContentDigest file)\<rparr>"

definition patchMaterializationDiagnostic :: "PatchMaterialization \<Rightarrow> PatchMaterializationDiagnostic" where
  "patchMaterializationDiagnostic m =
     \<lparr>pd_Schema = TrimSpace (pm_Schema m), pd_WorkspaceID = TrimSpace (pm_WorkspaceID m), pd_ProjectID = TrimSpace (pm_ProjectID m),
      pd_QueueID = TrimSpace (pm_QueueID m), pd_ItemID = TrimSpace (pm_ItemID m), pd_OperationID = TrimSpace (pm_OperationID m),
      pd_OperationKind = TrimSpace (pm_OperationKind m), pd_CASPatchDigest = TrimSpace (pm_CASPatchDigest m),
      pd_CASEvaluationDigest = TrimSpace (pm_CASEvaluationDigest m), pd_FileCount = int (length (pm_Files m)),
      pd_Files = map file_diagnostic (pm_Files m), pd_RecordedBy = TrimSpace (pm_RecordedBy m), pd_RecordedAt = TrimSpace (pm_RecordedAt m),
      pd_MaterializationDigest = TrimSpace (pm_MaterializationDigest m)\<rparr>"

definition hasPatchMaterializationAuthorityProof :: "PatchMaterializationAuthorityProof \<Rightarrow> bool" where
  "hasPatchMaterializationAuthorityProof a \<longleftrightarrow>
     ma_Files a \<noteq> [] \<or>
     any_text [ma_Schema a, ma_Source a, ma_WorkspaceID a, ma_QueueID a, ma_ItemID a, ma_OperationID a, ma_OperationKind a,
       ma_CASPatchDigest a, ma_CASEvaluationDigest a, ma_MaterializationDigest a, ma_MaterializationJSONDigest a, ma_AuthorityDigest a]"

subsection \<open>Building\<close>

definition materializationPreflightInputHasAnyEvidence ::
  "PatchQueueItem \<Rightarrow> PatchMaterialization \<Rightarrow> PatchMaterializationAuthorityProof \<Rightarrow> WorktreeIdentityEvidence \<Rightarrow> bool" where
  "materializationPreflightInputHasAnyEvidence item m a worktree \<longleftrightarrow>
     any_text [pm_Schema m, pm_WorkspaceID m, pm_QueueID m, pm_ItemID m, pm_OperationID m, pm_MaterializationDigest m] \<or> pm_Files m \<noteq> [] \<or>
     hasPatchMaterializationAuthorityProof a \<or> (TrimSpace (pq_CASPatchDigest item) \<noteq> [] \<and> worktreeIdentityReady worktree)"

definition preflight_fields ::
  "PatchQueueItem \<Rightarrow> WorktreeIdentityEvidence \<Rightarrow> PatchMaterialization \<Rightarrow> PatchMaterializationAuthorityProof
   \<Rightarrow> MaterializationPreflightEvidence" where
  "preflight_fields item worktree m a =
     \<lparr>ev_State = [], ev_Ready = False, ev_ReadyError = [], ev_Schema = TrimSpace (pq_Schema item), ev_RecordID = TrimSpace (pq_ID item),
      ev_QueueID = TrimSpace (pq_QueueID item), ev_ItemID = TrimSpace (pq_ItemID item), ev_ItemState = TrimSpace (pq_State item),
      ev_Context = TrimSpace (pq_ContextDigest item), ev_RepoLeaseID = TrimSpace (pq_RepoLeaseID item),
      ev_LeaseTerm = pq_LeaseTerm item, ev_OperationID = TrimSpace (pq_OperationID item), ev_OperationKind = TrimSpace (pq_OperationKind item),
      mp_CASPatchDigest = TrimSpace (pq_CASPatchDigest item), mp_CASEvaluationDigest = TrimSpace (pq_CASEvaluationDigest item),
      mp_RollbackEvidenceDigest = TrimSpace (pq_RollbackEvidenceDigest item),
      mp_ReviewerAdvisoryDigest = TrimSpace (pq_ReviewerAdvisoryDigest item),
      mp_OperatorEnablementDigest = TrimSpace (pq_OperatorEnablementDigest item), mp_WorkspaceID = TrimSpace (pq_WorkspaceID item),
      mp_ProjectID = TrimSpace (pq_ProjectID item), mp_WorktreeIdentity = cloneWorktreeIdentityEvidenceValue worktree,
      mp_Materialization = patchMaterializationDiagnostic m, mp_MaterializationDigest = TrimSpace (pm_MaterializationDigest m),
      mp_AuthorityProof = (if hasPatchMaterializationAuthorityProof a then Some a else None)\<rparr>"

definition buildMaterializationPreflightEvidence ::
  "PatchQueueItem \<Rightarrow> WorktreeIdentityEvidence \<Rightarrow> PatchMaterialization \<Rightarrow> PatchMaterializationAuthorityProof \<Rightarrow> bool
   \<Rightarrow> MaterializationPreflightEvidence option" where
  "buildMaterializationPreflightEvidence item worktree m a force =
     (if \<not> force \<and> \<not> materializationPreflightInputHasAnyEvidence item m a worktree then None
      else let e = preflight_fields item worktree m a
      in Some (case materializationPreflightReady m item worktree of
           Some x \<Rightarrow> e\<lparr>ev_Ready := False, ev_ReadyError := err_text x,
             ev_State := (if TrimSpace (pm_Schema m) = [] \<and> pm_Files m = [] then ''missing_refs'' else ''invalid'')\<rparr>
         | None \<Rightarrow>
             if \<not> hasPatchMaterializationAuthorityProof a
             then e\<lparr>ev_Ready := False, ev_ReadyError := MaterializationPreflightAuthorityProofRequired, ev_State := ''authority_required''\<rparr>
             else case ValidatePatchMaterializationAuthorityProof a m item of
               Some x \<Rightarrow> e\<lparr>ev_Ready := False, ev_ReadyError := ''materialization authority proof invalid: '' @ err_text x, ev_State := ''invalid''\<rparr>
             | None \<Rightarrow> e\<lparr>ev_Ready := True, ev_State := ''ready''\<rparr>))"

subsection \<open>Verifying\<close>

definition verifyMaterializationPreflightEvidenceMatchesMutationBinding ::
  "MutationBindingEvidence \<Rightarrow> MaterializationPreflightEvidence \<Rightarrow> err option" where
  "verifyMaterializationPreflightEvidenceMatchesMutationBinding binding e = matches_item ''materialization preflight'' ''mutation binding''
     [(''workspace_id'', be_WorkspaceID binding, mp_WorkspaceID e)] binding e"

definition verifyMaterializationPreflightEvidenceMatchesMergeAdmission ::
  "MergeAdmissionEvidence \<Rightarrow> MaterializationPreflightEvidence \<Rightarrow> err option" where
  "verifyMaterializationPreflightEvidenceMatchesMergeAdmission merge e = matches_item ''materialization preflight'' ''merge admission''
     [(''cas_patch_digest'', me_CASPatchDigest merge, mp_CASPatchDigest e),
      (''cas_eval_digest'', me_CASEvaluationDigest merge, mp_CASEvaluationDigest e)] merge e"

definition verifyMaterializationPreflightEvidenceMatchesWorktree ::
  "WorktreeIdentityEvidence \<Rightarrow> WorktreeIdentityEvidence \<Rightarrow> err option" where
  "verifyMaterializationPreflightEvidenceMatchesWorktree want got = guards
     [same_fields ''materialization preflight worktree %s does not match activation worktree identity'' []
        [(''repo_id'', wt_RepoID want, wt_RepoID got), (''checkout_id'', wt_CheckoutID want, wt_CheckoutID got),
         (''branch_id'', wt_BranchID want, wt_BranchID got), (''branch_name'', wt_BranchName want, wt_BranchName got),
         (''machine_id'', wt_MachineID want, wt_MachineID got), (''local_path'', wt_LocalPath want, wt_LocalPath got),
         (''base_sha'', wt_BaseSHA want, wt_BaseSHA got), (''head_sha'', wt_HeadSHA want, wt_HeadSHA got),
         (''readback_state'', wt_ReadbackState want, wt_ReadbackState got),
         (''observed_worktree_root'', wt_ObservedWorktreeRoot want, wt_ObservedWorktreeRoot got),
         (''observed_branch_name'', wt_ObservedBranchName want, wt_ObservedBranchName got),
         (''observed_head_sha'', wt_ObservedHeadSHA want, wt_ObservedHeadSHA got),
         (''observed_dirty_state'', wt_ObservedDirtyState want, wt_ObservedDirtyState got)],
      fail_if (\<not> worktreeIdentityReady got) (Errorf ''materialization preflight worktree identity is not ready'' [])]"

text \<open>One file of the diagnostic against the result of its path.\<close>

definition check_diagnostic_hashes :: "PatchMaterializedFileDiagnostic \<Rightarrow> CASPatchPathResult \<Rightarrow> err option" where
  "check_diagnostic_hashes file casPath =
     (let changeKind = patchMaterializationDiagnosticChangeKind (fd_ChangeKind file);
          inside = (\<lambda>e. map_option (\<lambda>x. Errorf ''patch materialization invalid: materialized file %s: %w'' [AStr (fd_Path file), AErr x]) e)
      in guards
       [fail_if (cp_Status casPath \<noteq> CASPatchStatusApplied)
          (Errorf ''patch materialization invalid: materialized file %s CAS status is %q'' [AStr (fd_Path file), AStr (cp_Status casPath)]),
        fail_if (changeKind \<noteq> casPatchPathChangeKind casPath)
          (Errorf ''patch materialization invalid: materialized file %s change_kind mismatch: got %q want %q''
            [AStr (fd_Path file), AStr (fd_ChangeKind file), AStr (casPatchPathChangeKind casPath)]),
        (if changeKind = CASPatchChangeAdd
         then fail_if (TrimSpace (fd_BaseHash file) \<noteq> [] \<or> TrimSpace (cp_BaseHash casPath) \<noteq> [])
                (Errorf ''patch materialization invalid: materialized file %s: added path must not carry base_hash'' [AStr (fd_Path file)])
         else inside (patchMaterializationMatch ''base_hash'' (fd_BaseHash file) (cp_BaseHash casPath))),
        inside (patchMaterializationMatch ''candidate_hash'' (fd_CandidateHash file) (cp_CandidateHash casPath)),
        fail_if (TrimSpace (fd_ContentEncoding file) \<noteq> PatchMaterializationEncodingUTF8)
          (Errorf ''patch materialization invalid: materialized file %s has unsupported content_encoding %q''
            [AStr (fd_Path file), AStr (fd_ContentEncoding file)]),
        fail_if (\<not> isCanonicalSHA256Digest (fd_ContentDigest file))
          (Errorf ''patch materialization invalid: materialized file %s content_digest mismatch'' [AStr (fd_Path file)]),
        fail_if (TrimSpace (fd_CandidateHash file) \<noteq> TrimSpace (fd_ContentDigest file))
          (Errorf ''patch materialization invalid: materialized file %s candidate_hash does not match content_digest'' [AStr (fd_Path file)])])"

fun check_diagnostic_files ::
  "(string \<times> CASPatchPathResult) list \<Rightarrow> nat \<Rightarrow> string option \<Rightarrow> string list \<Rightarrow> PatchMaterializedFileDiagnostic list \<Rightarrow> err option" where
  "check_diagnostic_files casPaths i prev (expected # expectedPaths) (file # files) =
     (case NormalizePath (fd_Path file) of
        Inl e \<Rightarrow> Some (Errorf ''patch materialization invalid: materialized file[%d] path invalid: %w'' [AInt (int i), AErr e])
      | Inr path \<Rightarrow> guards
          [fail_if (fd_Path file \<noteq> path)
             (Errorf ''patch materialization invalid: materialized file[%d] path is not normalized: got %q want %q''
               [AInt (int i), AStr (fd_Path file), AStr path]),
           fail_if (case prev of None \<Rightarrow> False | Some p \<Rightarrow> p \<ge> fd_Path file)
             (Errorf ''patch materialization invalid: materialized files must be sorted and unique'' []),
           fail_if (expected \<noteq> fd_Path file)
             (Errorf ''patch materialization invalid: materialized file[%d] path %q does not match applied CAS path %q''
               [AInt (int i), AStr (fd_Path file), AStr expected]),
           (case map_of casPaths (fd_Path file) of
              None \<Rightarrow> Some (Errorf ''patch materialization invalid: materialized file %s is missing from CAS result'' [AStr (fd_Path file)])
            | Some casPath \<Rightarrow> check_diagnostic_hashes file casPath),
           check_diagnostic_files casPaths (Suc i) (Some (fd_Path file)) expectedPaths files])"
| "check_diagnostic_files casPaths i prev _ _ = None"

definition validatePatchMaterializationDiagnostic ::
  "PatchMaterializationDiagnostic \<Rightarrow> PatchQueueItem \<Rightarrow> WorktreeIdentityEvidence \<Rightarrow> string \<Rightarrow> err option" where
  "validatePatchMaterializationDiagnostic d item worktree expectedDigest =
     (let match = (\<lambda>field got want. wrap_err ''patch materialization invalid: %w'' (patchMaterializationMatch field got want))
      in guards
       [fail_if (\<not> worktreeIdentityReady worktree) (Errorf ''materialization preflight requires canonical worktree identity'' []),
        fail_if (TrimSpace (pd_Schema d) = [] \<and> pd_FileCount d = 0 \<and> pd_Files d = []) (Errorf ''patch materialization is required'' []),
        fail_if (TrimSpace (pd_Schema d) \<noteq> PatchMaterializationSchemaVersion)
          (Errorf ''patch materialization invalid: patch materialization schema is unsupported'' []),
        match ''workspace_id'' (pd_WorkspaceID d) (pq_WorkspaceID item),
        (if TrimSpace (pq_ProjectID item) \<noteq> [] then match ''project_id'' (pd_ProjectID d) (pq_ProjectID item) else None),
        match ''queue_id'' (pd_QueueID d) (pq_QueueID item),
        match ''item_id'' (pd_ItemID d) (pq_ItemID item),
        match ''operation_id'' (pd_OperationID d) (pq_OperationID item),
        match ''operation_kind'' (pd_OperationKind d) (pq_OperationKind item),
        match ''cas_patch_digest'' (pd_CASPatchDigest d) (pq_CASPatchDigest item),
        match ''cas_evaluation_digest'' (pd_CASEvaluationDigest d) (pq_CASEvaluationDigest item),
        match ''materialization_digest'' (pd_MaterializationDigest d) expectedDigest,
        fail_if (\<not> isCanonicalSHA256Digest (pd_MaterializationDigest d))
          (Errorf ''patch materialization invalid: patch materialization digest is required'' []),
        (case patchMaterializationAppliedCASPaths item of
           Inl e \<Rightarrow> Some (Errorf ''patch materialization invalid: %w'' [AErr e])
         | Inr (expectedPaths, casPaths) \<Rightarrow> guards
             [fail_if (pd_FileCount d \<noteq> int (length expectedPaths) \<or> length (pd_Files d) \<noteq> length expectedPaths)
                (Errorf ''patch materialization invalid: patch materialization file count %d does not match applied CAS path count %d''
                  [AInt (int (length (pd_Files d))), AInt (int (length expectedPaths))]),
              check_diagnostic_files casPaths 0 None expectedPaths (pd_Files d)])])"

fun check_authority_diagnostic :: "nat \<Rightarrow> PatchMaterializedFileAuthorityProofPath list \<Rightarrow> PatchMaterializedFileDiagnostic list \<Rightarrow> err option" where
  "check_authority_diagnostic i (got # gots) (file # files) = guards
     [fail_if (patchMaterializationDiagnosticChangeKind (ap_ChangeKind got) \<noteq> patchMaterializationDiagnosticChangeKind (fd_ChangeKind file))
        (Errorf ''file[%d] change_kind mismatch'' [AInt (int i)]),
      same_fields ''file[%d] %s mismatch'' [AInt (int i)]
        [(''path'', ap_Path got, fd_Path file), (''base_hash'', ap_BaseHash got, fd_BaseHash file),
         (''candidate_hash'', ap_CandidateHash got, fd_CandidateHash file),
         (''content_encoding'', ap_ContentEncoding got, fd_ContentEncoding file),
         (''content_digest'', ap_ContentDigest got, fd_ContentDigest file)],
      check_authority_diagnostic (Suc i) gots files]"
| "check_authority_diagnostic i _ _ = None"

definition validatePatchMaterializationAuthorityProofDiagnostic ::
  "PatchMaterializationAuthorityProof \<Rightarrow> PatchMaterializationDiagnostic \<Rightarrow> PatchQueueItem \<Rightarrow> string \<Rightarrow> err option" where
  "validatePatchMaterializationAuthorityProofDiagnostic a d item expectedDigest = guards
     [fail_if (TrimSpace (ma_Schema a) \<noteq> PatchMaterializationAuthorityProofSchemaVersion) (Errorf ''schema is unsupported'' []),
      fail_if (TrimSpace (ma_Source a) \<noteq> PatchMaterializationAuthorityProofSourceSQLite) (Errorf ''source is unsupported'' []),
      same_fields ''%s mismatch'' []
        ([(''workspace_id'', ma_WorkspaceID a, pq_WorkspaceID item), (''queue_id'', ma_QueueID a, pq_QueueID item),
          (''item_id'', ma_ItemID a, pq_ItemID item), (''operation_id'', ma_OperationID a, pq_OperationID item),
          (''operation_kind'', ma_OperationKind a, pq_OperationKind item),
          (''cas_patch_digest'', ma_CASPatchDigest a, pq_CASPatchDigest item),
          (''cas_evaluation_digest'', ma_CASEvaluationDigest a, pq_CASEvaluationDigest item),
          (''materialization_digest'', ma_MaterializationDigest a, expectedDigest),
          (''recorded_by'', ma_RecordedBy a, pd_RecordedBy d), (''recorded_at'', ma_RecordedAt a, pd_RecordedAt d)]
         @ (if TrimSpace (pq_ProjectID item) \<noteq> [] then [(''project_id'', ma_ProjectID a, pq_ProjectID item)] else [])),
      fail_if (TrimSpace (ma_MaterializationDigest a) \<noteq> TrimSpace (pd_MaterializationDigest d))
        (Errorf ''materialization digest does not match diagnostic'' []),
      fail_if (\<not> isCanonicalSHA256Digest (ma_MaterializationDigest a)) (Errorf ''materialization digest must be canonical sha256'' []),
      fail_if (\<not> isCanonicalSHA256Digest (ma_MaterializationJSONDigest a)) (Errorf ''materialization JSON digest must be canonical sha256'' []),
      fail_if (\<not> isCanonicalSHA256Digest (ma_AuthorityDigest a)) (Errorf ''authority digest must be canonical sha256'' []),
      fail_if (ma_AuthorityDigest a \<noteq> PatchMaterializationAuthorityProofDigest a) (Errorf ''authority digest mismatch'' []),
      fail_if (ma_FileCount a \<noteq> pd_FileCount d \<or> length (ma_Files a) \<noteq> length (pd_Files d)) (Errorf ''file count mismatch'' []),
      check_authority_diagnostic 0 (ma_Files a) (pd_Files d)]"

definition recomputeMaterializationPreflightEvidence ::
  "MutationBindingEvidence \<Rightarrow> MergeAdmissionEvidence \<Rightarrow> RollbackProofEvidence \<Rightarrow> ReviewerAdvisoryEvidence \<Rightarrow> OperatorEnablementEvidence
   \<Rightarrow> WorktreeIdentityEvidence \<Rightarrow> MaterializationPreflightEvidence \<Rightarrow> err option" where
  "recomputeMaterializationPreflightEvidence binding merge rollback reviewer operator worktree e =
     (let d = mp_Materialization e;
          item = (patchQueueItemFromMergeAdmissionEvidence merge)\<lparr>pq_WorkspaceID := TrimSpace (mp_WorkspaceID e), pq_ProjectID := TrimSpace (mp_ProjectID e)\<rparr>
      in guards
       [fail_if (\<not> worktreeIdentityReady (mp_WorktreeIdentity e)) (Errorf ''materialization preflight requires canonical worktree identity'' []),
        fail_if (TrimSpace (pd_Schema d) = [] \<and> pd_FileCount d = 0 \<and> pd_Files d = []) (Errorf ''patch materialization is required'' []),
        verifyMaterializationPreflightEvidenceMatchesMutationBinding binding e,
        verifyMaterializationPreflightEvidenceMatchesMergeAdmission merge e,
        fail_if (TrimSpace (rpe_RollbackEvidenceDigest rollback) \<noteq> TrimSpace (mp_RollbackEvidenceDigest e))
          (Errorf ''materialization preflight rollback digest does not match rollback proof evidence'' []),
        fail_if (TrimSpace (rve_AdvisoryDigest reviewer) \<noteq> TrimSpace (mp_ReviewerAdvisoryDigest e))
          (Errorf ''materialization preflight reviewer advisory digest does not match reviewer evidence'' []),
        fail_if (TrimSpace (oee_EnablementDigest operator) \<noteq> TrimSpace (mp_OperatorEnablementDigest e))
          (Errorf ''materialization preflight operator enablement digest does not match operator evidence'' []),
        verifyMaterializationPreflightEvidenceMatchesWorktree worktree (mp_WorktreeIdentity e),
        fail_if (TrimSpace (mp_MaterializationDigest e) = []) (Errorf ''materialization preflight digest is required'' []),
        fail_if (TrimSpace (pd_MaterializationDigest d) \<noteq> TrimSpace (mp_MaterializationDigest e))
          (Errorf ''materialization preflight digest does not match materialization'' []),
        validatePatchMaterializationDiagnostic d item (mp_WorktreeIdentity e) (mp_MaterializationDigest e),
        (case mp_AuthorityProof e of
           None \<Rightarrow> Some (Errorf MaterializationPreflightAuthorityProofRequired [])
         | Some a \<Rightarrow>
             if \<not> hasPatchMaterializationAuthorityProof a then Some (Errorf MaterializationPreflightAuthorityProofRequired [])
             else wrap_err ''materialization authority proof invalid: %w''
               (validatePatchMaterializationAuthorityProofDiagnostic a d item (mp_MaterializationDigest e)))])"

definition materializationPreflightEvidenceReady ::
  "MutationBindingEvidence \<Rightarrow> MergeAdmissionEvidence \<Rightarrow> RollbackProofEvidence \<Rightarrow> ReviewerAdvisoryEvidence \<Rightarrow> OperatorEnablementEvidence
   \<Rightarrow> WorktreeIdentityEvidence \<Rightarrow> MaterializationPreflightEvidence \<Rightarrow> bool" where
  "materializationPreflightEvidenceReady binding merge rollback reviewer operator worktree e \<longleftrightarrow>
     ev_Ready e \<and> recomputeMaterializationPreflightEvidence binding merge rollback reviewer operator worktree e = None"

definition preflight_digests :: "MaterializationPreflightEvidence \<Rightarrow> err option" where
  "preflight_digests e = guards
     [canonical_digests [(''materialization preflight CAS patch digest'', mp_CASPatchDigest e),
        (''materialization preflight CAS evaluation digest'', mp_CASEvaluationDigest e),
        (''materialization preflight rollback evidence digest'', mp_RollbackEvidenceDigest e),
        (''materialization preflight reviewer advisory digest'', mp_ReviewerAdvisoryDigest e),
        (''materialization preflight operator enablement digest'', mp_OperatorEnablementDigest e),
        (''materialization preflight digest'', mp_MaterializationDigest e)],
      (case mp_AuthorityProof e of
         None \<Rightarrow> None
       | Some a \<Rightarrow> fail_if (\<not> hasPatchMaterializationAuthorityProof a) (Errorf ''materialization preflight authority proof is empty'' []))]"

definition verifyMaterializationPreflightDiagnosticEvidence :: "MaterializationPreflightEvidence \<Rightarrow> err option" where
  "verifyMaterializationPreflightDiagnosticEvidence e = guards
     [fail_if (TrimSpace (ev_State e) \<notin> set [''missing_refs'', ''invalid'', ''authority_required''])
        (Errorf ''materialization preflight evidence state %q is unsupported without upstream evidence'' [AStr (ev_State e)]),
      fail_if (ev_Ready e) (Errorf ''ready materialization preflight evidence requires upstream evidence'' []),
      fail_if (TrimSpace (ev_ReadyError e) = []) (Errorf ''non-ready materialization preflight evidence requires ready_error'' []),
      preflight_digests e]"

definition verifyMaterializationPreflightEvidence ::
  "MutationBindingEvidence \<Rightarrow> MergeAdmissionEvidence \<Rightarrow> RollbackProofEvidence \<Rightarrow> ReviewerAdvisoryEvidence \<Rightarrow> OperatorEnablementEvidence
   \<Rightarrow> WorktreeIdentityEvidence \<Rightarrow> MaterializationPreflightEvidence \<Rightarrow> err option" where
  "verifyMaterializationPreflightEvidence binding merge rollback reviewer operator worktree e =
     (let state = TrimSpace (ev_State e);
          recomputed = recomputeMaterializationPreflightEvidence binding merge rollback reviewer operator worktree e;
          expectedReady = (recomputed = None)
      in guards
       [fail_if (state \<notin> set [''ready'', ''missing_refs'', ''invalid'', ''authority_required''])
          (Errorf ''materialization preflight evidence state %q is unsupported'' [AStr (ev_State e)]),
        fail_if (ev_Ready e \<noteq> expectedReady) (Errorf ''materialization preflight evidence ready flag is inconsistent'' []),
        fail_if (expectedReady \<and> TrimSpace (ev_ReadyError e) \<noteq> [])
          (Errorf ''ready materialization preflight evidence must not include ready_error'' []),
        fail_if (\<not> expectedReady \<and> TrimSpace (ev_ReadyError e) = [])
          (Errorf ''non-ready materialization preflight evidence requires ready_error'' []),
        fail_if (TrimSpace (ev_ReadyError e) \<noteq> ready_error recomputed)
          (Errorf ''materialization preflight evidence ready_error is inconsistent'' []),
        fail_if (ev_Ready e \<and> state \<noteq> ''ready'') (Errorf ''ready materialization preflight evidence must use ready state'' []),
        fail_if (\<not> ev_Ready e \<and> state = ''ready'') (Errorf ''non-ready materialization preflight evidence must not use ready state'' []),
        preflight_digests e])"

end
