(* ===== verification/Activation_Gates.thy ===== *)
theory Activation_Gates
  imports Activation_Preflight
begin

section \<open>Activation gates: evaluation and verification\<close>

text \<open>
  \<open>EvaluateMutationActivationGates\<close> and \<open>VerifyMutationActivationGateResult\<close> of
  \<open>internal/repoauthority/activation_gates.go\<close>. Sixteen gates decide whether an applied patch may be
  written to the repository; the result carries the evidence of the gates and a digest, and the verifier
  accepts a result only when its gates, its evidence and its status agree.
\<close>

subsection \<open>Whether the evidence of a result is ready\<close>

definition mutationActivationResultWorktreeIdentityReady :: "MutationActivationGateResult \<Rightarrow> bool" where
  "mutationActivationResultWorktreeIdentityReady r =
     (case gr_WorktreeIdentity r of None \<Rightarrow> False | Some w \<Rightarrow> worktreeIdentityReady w)"

definition mutationActivationResultTargetWorktreeIdentityReady :: "MutationActivationGateResult \<Rightarrow> bool" where
  "mutationActivationResultTargetWorktreeIdentityReady r =
     (case (gr_WorktreeIdentity r, gr_TargetWorktreeIdentity r) of
        (Some w, Some t) \<Rightarrow> actuatorTargetWorktreeIdentityReady w t | _ \<Rightarrow> False)"

definition mutationActivationResultMutationBindingReady :: "MutationActivationGateResult \<Rightarrow> bool" where
  "mutationActivationResultMutationBindingReady r =
     (case gr_MutationBindingEvidence r of None \<Rightarrow> False | Some b \<Rightarrow> mutationBindingEvidenceReady b)"

definition mutationActivationResultMergeAdmissionReady :: "MutationActivationGateResult \<Rightarrow> bool" where
  "mutationActivationResultMergeAdmissionReady r =
     (case (gr_MutationBindingEvidence r, gr_MergeAdmissionEvidence r) of
        (Some b, Some m) \<Rightarrow> mergeAdmissionEvidenceReady b m | _ \<Rightarrow> False)"

definition mutationActivationResultRetryBoundReady :: "MutationActivationGateResult \<Rightarrow> bool" where
  "mutationActivationResultRetryBoundReady r =
     (case (gr_MutationBindingEvidence r, gr_RetryBoundEvidence r) of
        (Some b, Some e) \<Rightarrow> retryBoundEvidenceReady b e | _ \<Rightarrow> False)"

definition mutationActivationResultRollbackProofReady :: "MutationActivationGateResult \<Rightarrow> bool" where
  "mutationActivationResultRollbackProofReady r =
     (case (gr_MutationBindingEvidence r, gr_MergeAdmissionEvidence r, gr_RollbackProofEvidence r) of
        (Some b, Some m, Some p) \<Rightarrow> rollbackProofEvidenceReady b m p | _ \<Rightarrow> False)"

definition mutationActivationResultReviewerAdvisoryReady :: "MutationActivationGateResult \<Rightarrow> bool" where
  "mutationActivationResultReviewerAdvisoryReady r =
     (case (gr_MutationBindingEvidence r, gr_MergeAdmissionEvidence r, gr_RollbackProofEvidence r, gr_ReviewerAdvisoryEvidence r) of
        (Some b, Some m, Some p, Some v) \<Rightarrow> reviewerAdvisoryEvidenceReady b m p v | _ \<Rightarrow> False)"

definition mutationActivationResultOperatorEnablementReady :: "MutationActivationGateResult \<Rightarrow> bool" where
  "mutationActivationResultOperatorEnablementReady r =
     (case (gr_MutationBindingEvidence r, gr_MergeAdmissionEvidence r, gr_RollbackProofEvidence r, gr_ReviewerAdvisoryEvidence r,
            gr_OperatorEnablementEvidence r) of
        (Some b, Some m, Some p, Some v, Some u) \<Rightarrow> operatorEnablementEvidenceReady b m p v u | _ \<Rightarrow> False)"

definition mutationActivationResultMaterializationPreflightReady :: "MutationActivationGateResult \<Rightarrow> bool" where
  "mutationActivationResultMaterializationPreflightReady r =
     (case (gr_MutationBindingEvidence r, gr_MergeAdmissionEvidence r, gr_RollbackProofEvidence r, gr_ReviewerAdvisoryEvidence r,
            gr_OperatorEnablementEvidence r, gr_MaterializationPreflight r, gr_WorktreeIdentity r) of
        (Some b, Some m, Some p, Some v, Some u, Some e, Some w) \<Rightarrow> materializationPreflightEvidenceReady b m p v u w e | _ \<Rightarrow> False)"

subsection \<open>Evaluation\<close>

definition addGate :: "string \<Rightarrow> bool \<Rightarrow> string \<Rightarrow> MutationActivationGate" where
  "addGate name passed reason = \<lparr>ga_Name = name, ga_Passed = passed, ga_Reason = (if passed then [] else TrimSpace reason)\<rparr>"

definition err_gate :: "string \<Rightarrow> err option \<Rightarrow> MutationActivationGate" where
  "err_gate name outcome = (case outcome of Some e \<Rightarrow> addGate name False (err_text e) | None \<Rightarrow> addGate name True [])"

definition or_default :: "string \<Rightarrow> string \<Rightarrow> string" where
  "or_default d v = (if TrimSpace v = [] then d else TrimSpace v)"

text \<open>The result with its evidence, before the gates.\<close>

definition gate_base :: "MutationActivationGateInput \<Rightarrow> MutationActivationGateResult" where
  "gate_base input =
     (let force = source_is_candidate (gi_Source input); item = gi_PatchQueueItem input
      in \<lparr>gr_Schema = MutationActivationGateSchemaVersion, gr_Status = [], gr_MutationAllowed = False,
          gr_AuthorityMode = or_default ModePatchOnlyTempRepo (gi_AuthorityMode input),
          gr_ContextMode = or_default ModePatchOnlyTempRepo (ctx_Mode (gi_Context input)),
          gr_ReviewerMeshMode = or_default ''unknown'' (gi_ReviewerMeshMode input),
          gr_LiveMutationVerifierEnabled = gi_LiveMutationVerifierEnabled input,
          gr_LiveMutationVerifierSource = TrimSpace (gi_LiveMutationVerifierSource input),
          gr_LiveMutationActuatorEnabled = gi_LiveMutationActuatorEnabled input,
          gr_LiveMutationActuatorSource = TrimSpace (gi_LiveMutationActuatorSource input), gr_QueueDurable = gi_QueueDurable input,
          gr_Source = TrimSpace (gi_Source input), gr_SourceError = TrimSpace (gi_SourceError input),
          gr_Candidate = cloneMutationActivationCandidateSummary (gi_Candidate input),
          gr_WorktreeIdentity = cloneWorktreeIdentityEvidence (gi_WorktreeIdentity input),
          gr_TargetWorktreeIdentity = cloneWorktreeIdentityEvidence (gi_TargetWorktreeIdentity input),
          gr_MutationBindingEvidence = buildMutationBindingEvidence (gi_Context input) item force,
          gr_MergeAdmissionEvidence = buildMergeAdmissionEvidence (gi_Context input) item force,
          gr_RetryBoundEvidence = buildRetryBoundEvidence item force,
          gr_RollbackProofEvidence = buildRollbackProofEvidence item (gi_RollbackEvidence input) force,
          gr_ReviewerAdvisoryEvidence = buildReviewerAdvisoryEvidence item (gi_ReviewerAdvisory input) force,
          gr_OperatorEnablementEvidence =
            buildOperatorEnablementEvidence item (gi_OperatorEnablement input) (gi_ReviewerAdvisory input) force,
          gr_MaterializationPreflight = buildMaterializationPreflightEvidence item (gi_WorktreeIdentity input)
            (gi_PatchMaterialization input) (gi_PatchMaterializationProof input) force,
          gr_DirectMergeDisabled = gi_DirectMergeDisabled input, gr_Gates = [], gr_BlockingReasons = [], gr_Digest = []\<rparr>)"

definition preflight_reason :: "MutationActivationGateResult \<Rightarrow> string" where
  "preflight_reason r =
     (case gr_MaterializationPreflight r of
        None \<Rightarrow> ''materialization preflight evidence is required''
      | Some e \<Rightarrow>
          if TrimSpace (ev_ReadyError e) \<noteq> [] then ev_ReadyError e
          else if ev_Ready e
          then ''materialization preflight requires ready mutation binding, merge admission, rollback, reviewer advisory, operator enablement, and worktree identity evidence''
          else ''materialization preflight evidence is required'')"

definition mode_gate :: "string \<Rightarrow> string \<Rightarrow> string \<Rightarrow> string \<Rightarrow> MutationActivationGate" where
  "mode_gate name format got want = addGate name (got = want) (err_text (Errorf format [AStr got, AStr want]))"

definition gate_list :: "MutationActivationGateInput \<Rightarrow> MutationActivationGateResult \<Rightarrow> MutationActivationGate list" where
  "gate_list input r =
     (let item = gi_PatchQueueItem input
      in [mode_gate ''controlled_authority_mode'' ''authority mode is %q, not %q'' (gr_AuthorityMode r) MutationActivationAuthorityModeControlledQueue,
          mode_gate ''controlled_context_mode'' ''repo authority context mode is %q, not %q'' (gr_ContextMode r) MutationActivationAuthorityModeControlledQueue,
          addGate ''direct_merge_disabled'' (gi_DirectMergeDisabled input) ''direct merge/push/rebase must stay disabled while controlled queue activates'',
          addGate ''durable_patch_queue'' (gi_QueueDurable input) ''patch queue durability across restart is not proven'',
          addGate ''canonical_worktree_identity'' (worktreeIdentityReady (gi_WorktreeIdentity input))
            ''repo, checkout, branch, machine, local path, base sha, and head sha are required'',
          addGate ''live_actuator_target_identity'' (actuatorTargetWorktreeIdentityReady (gi_WorktreeIdentity input) (gi_TargetWorktreeIdentity input))
            ''live actuator target integration worktree is missing, non-canonical, or aliases the candidate checkout'',
          err_gate ''mutation_binding'' (mutationBindingReady (gi_Context input) item),
          err_gate ''merge_admission_conflict_safe'' (mergeAdmissionReady (gi_Context input) item),
          err_gate ''bounded_retry'' (boundedRetryReady item),
          err_gate ''rollback_proven'' (rollbackEvidenceReady (gi_RollbackEvidence input) item),
          err_gate ''reviewer_advisory_recorded'' (reviewerAdvisoryReady (gi_ReviewerAdvisory input) item),
          mode_gate ''reviewer_mesh_advisory_only'' ''reviewer mesh mode is %q, not %q'' (gr_ReviewerMeshMode r) MutationActivationReviewerMeshAdvisoryOnly,
          err_gate ''operator_enablement_recorded''
            (operatorEnablementReady (gi_OperatorEnablement input) item (gi_ReviewerAdvisory input)),
          addGate ''materialization_preflight_verified'' (mutationActivationResultMaterializationPreflightReady r) (preflight_reason r),
          addGate ''live_mutation_verifier_enabled'' (gi_LiveMutationVerifierEnabled input)
            ''live mutation verifier is disabled; mutation activation remains fail-closed'',
          addGate ''live_mutation_actuator_enabled'' (gi_LiveMutationActuatorEnabled input)
            ''live mutation actuator is disabled; verifier readiness does not execute mutations''])"

definition failed_gates :: "MutationActivationGate list \<Rightarrow> MutationActivationGate list" where
  "failed_gates gates = filter (\<lambda>g. \<not> ga_Passed g) gates"

definition EvaluateMutationActivationGates :: "MutationActivationGateInput \<Rightarrow> MutationActivationGateResult" where
  "EvaluateMutationActivationGates input =
     (let r0 = gate_base input; gates = gate_list input r0; failed = failed_gates gates;
          r = r0\<lparr>gr_Gates := gates,
            gr_Status := (if failed = [] then MutationActivationStatusReady else MutationActivationStatusBlocked),
            gr_MutationAllowed := (failed = []),
            gr_BlockingReasons := map (\<lambda>g. ga_Name g @ '': '' @ ga_Reason g) failed\<rparr>
      in r\<lparr>gr_Digest := digestMutationActivationGateResult r\<rparr>)"

subsection \<open>Verification\<close>

definition verifyMutationActivationBlockingReasons :: "MutationActivationGateResult \<Rightarrow> err option" where
  "verifyMutationActivationBlockingReasons r =
     (let failed = failed_gates (gr_Gates r)
      in guards (fail_if (length (gr_BlockingReasons r) \<noteq> length failed)
            (Errorf ''blocked mutation activation blocking reasons must match failed gates'' []) #
          map (\<lambda>(i, reason, gate). fail_if (\<not> HasPrefix reason (ga_Name gate @ '': ''))
            (Errorf ''blocked mutation activation reason %d must describe failed gate %q'' [AInt (int i), AStr (ga_Name gate)]))
            (zip [0 ..< length failed] (zip (gr_BlockingReasons r) failed))))"

fun collect_gates :: "(string \<times> MutationActivationGate) list \<Rightarrow> MutationActivationGate list \<Rightarrow> (string \<times> MutationActivationGate) list result" where
  "collect_gates lookup [] = Inr lookup"
| "collect_gates lookup (gate # gates) =
     (let name = TrimSpace (ga_Name gate)
      in if name = [] then Inl (Errorf ''mutation activation gate name is required'' [])
         else if map_of lookup name \<noteq> None then Inl (Errorf ''mutation activation gate %q is duplicated'' [AStr name])
         else collect_gates (AList.update name gate lookup) gates)"

definition verifyMutationActivationGateSet :: "MutationActivationGate list \<Rightarrow> (string \<times> MutationActivationGate) list result" where
  "verifyMutationActivationGateSet gates =
     require (fail_if (length gates \<noteq> length mutationActivationRequiredGateNames)
       (Errorf ''mutation activation canonical gate set is required'' []))
    (bind_result (collect_gates [] gates) (\<lambda>lookup.
     require (guards (map (\<lambda>name. fail_if (map_of lookup name = None)
       (Errorf ''mutation activation required gate %q is missing'' [AStr name])) mutationActivationRequiredGateNames)) (Inr lookup)))"

definition mutationActivationGateLookup :: "MutationActivationGate list \<Rightarrow> string \<Rightarrow> MutationActivationGate" where
  "mutationActivationGateLookup gates name =
     (case find (\<lambda>g. TrimSpace (ga_Name g) = TrimSpace name) gates of
        Some g \<Rightarrow> g | None \<Rightarrow> \<lparr>ga_Name = [], ga_Passed = False, ga_Reason = []\<rparr>)"

definition expected_gates :: "MutationActivationGateResult \<Rightarrow> (string \<times> bool) list" where
  "expected_gates r =
     [(''controlled_authority_mode'', gr_AuthorityMode r = MutationActivationAuthorityModeControlledQueue),
      (''controlled_context_mode'', gr_ContextMode r = MutationActivationAuthorityModeControlledQueue),
      (''direct_merge_disabled'', gr_DirectMergeDisabled r), (''durable_patch_queue'', gr_QueueDurable r),
      (''canonical_worktree_identity'', mutationActivationResultWorktreeIdentityReady r),
      (''live_actuator_target_identity'', mutationActivationResultTargetWorktreeIdentityReady r),
      (''mutation_binding'', mutationActivationResultMutationBindingReady r),
      (''merge_admission_conflict_safe'', mutationActivationResultMergeAdmissionReady r),
      (''bounded_retry'', mutationActivationResultRetryBoundReady r),
      (''rollback_proven'', mutationActivationResultRollbackProofReady r),
      (''reviewer_advisory_recorded'', mutationActivationResultReviewerAdvisoryReady r),
      (''reviewer_mesh_advisory_only'', gr_ReviewerMeshMode r = MutationActivationReviewerMeshAdvisoryOnly),
      (''operator_enablement_recorded'', mutationActivationResultOperatorEnablementReady r),
      (''materialization_preflight_verified'', mutationActivationResultMaterializationPreflightReady r),
      (''live_mutation_verifier_enabled'', gr_LiveMutationVerifierEnabled r),
      (''live_mutation_actuator_enabled'', gr_LiveMutationActuatorEnabled r)]"

definition gate_passed_in :: "(string \<times> MutationActivationGate) list \<Rightarrow> string \<Rightarrow> bool" where
  "gate_passed_in gates name = (case map_of gates name of None \<Rightarrow> False | Some g \<Rightarrow> ga_Passed g)"

definition verifyMutationActivationTopLevelGateInvariants ::
  "MutationActivationGateResult \<Rightarrow> (string \<times> MutationActivationGate) list \<Rightarrow> err option" where
  "verifyMutationActivationTopLevelGateInvariants r gates = guards (map (\<lambda>(name, want).
     fail_if (gate_passed_in gates name \<noteq> want) (Errorf ''mutation activation gate %q does not match top-level invariant'' [AStr name]))
     (expected_gates r))"

definition verifyMutationActivationCandidateMatchesMutationBinding ::
  "MutationActivationCandidateSummary \<Rightarrow> MutationBindingEvidence \<Rightarrow> err option" where
  "verifyMutationActivationCandidateMatchesMutationBinding c b =
     same_fields ''mutation activation candidate %s does not match mutation binding evidence'' []
       [(''workspace_id'', cd_WorkspaceID c, be_WorkspaceID b), (''patch_queue_id'', cd_QueueID c, be_PatchQueueID b),
        (''patch_queue_item_id'', cd_ItemID c, be_PatchQueueItemID b)]"

definition verifyMutationActivationCandidateMatchesWorktree ::
  "MutationActivationCandidateSummary \<Rightarrow> WorktreeIdentityEvidence \<Rightarrow> err option" where
  "verifyMutationActivationCandidateMatchesWorktree c w =
     same_fields ''mutation activation candidate %s does not match worktree identity'' []
       [(''repo_id'', cd_RepoID c, wt_RepoID w), (''checkout_id'', cd_CheckoutID c, wt_CheckoutID w), (''branch_id'', cd_BranchID c, wt_BranchID w),
        (''branch_name'', cd_BranchName c, wt_BranchName w), (''base_sha'', cd_BaseSHA c, wt_BaseSHA w), (''head_sha'', cd_HeadSHA c, wt_HeadSHA w)]"

definition verifyMutationActivationCandidateMatchesTargetWorktree ::
  "MutationActivationCandidateSummary \<Rightarrow> WorktreeIdentityEvidence \<Rightarrow> err option" where
  "verifyMutationActivationCandidateMatchesTargetWorktree c t = guards
     ([fail_if (TrimSpace (cd_TargetCheckoutID c) = [])
         (Errorf ''mutation activation candidate target_checkout_id is required with target worktree identity'' []),
       fail_if (TrimSpace (cd_TargetBranchName c) = [])
         (Errorf ''mutation activation candidate target_branch_name is required with target worktree identity'' [])]
      @ map (\<lambda>(field, want, got). fail_if (TrimSpace want \<noteq> [] \<and> TrimSpace want \<noteq> TrimSpace got)
          (Errorf ''mutation activation candidate %s does not match target worktree identity'' [AStr field]))
         [(''repo_id'', cd_RepoID c, wt_RepoID t), (''target_checkout_id'', cd_TargetCheckoutID c, wt_CheckoutID t),
          (''target_branch_name'', cd_TargetBranchName c, wt_BranchName t), (''target_base_sha'', cd_BaseSHA c, wt_BaseSHA t),
          (''target_expected_head'', cd_BaseSHA c, wt_HeadSHA t)])"

definition verifyMutationActivationCandidateSummary :: "MutationActivationCandidateSummary \<Rightarrow> err option" where
  "verifyMutationActivationCandidateSummary c = guards
     [required_fields ''mutation activation candidate %s is required''
        [(''workspace_id'', cd_WorkspaceID c), (''project_id'', cd_ProjectID c), (''repo_id'', cd_RepoID c), (''queue_id'', cd_QueueID c),
         (''item_id'', cd_ItemID c), (''branch_id'', cd_BranchID c), (''branch_name'', cd_BranchName c), (''checkout_id'', cd_CheckoutID c),
         (''state'', cd_State c), (''base_sha'', cd_BaseSHA c), (''head_sha'', cd_HeadSHA c)],
      fail_if (ToUpper (TrimSpace (cd_State c)) \<notin> set [''PROPOSED'', ''CLAIMED''])
        (Errorf ''mutation activation candidate state %q is not live'' [AStr (cd_State c)]),
      fail_if (\<not> isCanonicalGitObjectID (cd_BaseSHA c)) (Errorf ''mutation activation candidate base_sha must be canonical git object id'' []),
      fail_if (\<not> isCanonicalGitObjectID (cd_HeadSHA c)) (Errorf ''mutation activation candidate head_sha must be canonical git object id'' []),
      fail_if (TrimSpace (cd_TargetCheckoutID c) \<noteq> [] \<and> TrimSpace (cd_TargetBranchName c) = [])
        (Errorf ''mutation activation candidate target_branch_name is required with target_checkout_id'' [])]"

text \<open>The sources of the live switches.\<close>

definition verify_switches :: "MutationActivationGateResult \<Rightarrow> err option" where
  "verify_switches r =
     (let source = TrimSpace (gr_Source r); candidate = MutationActivationSourceDurableControlledQueueCandidate;
          liveVerifierSource = TrimSpace (gr_LiveMutationVerifierSource r); liveActuatorSource = TrimSpace (gr_LiveMutationActuatorSource r)
      in guards
       [fail_if (gr_LiveMutationVerifierEnabled r \<and> liveVerifierSource \<noteq> MutationActivationLiveVerifierSourceEnv)
          (Errorf ''live mutation verifier source must be %q when verifier is enabled'' [AStr MutationActivationLiveVerifierSourceEnv]),
        fail_if (\<not> gr_LiveMutationVerifierEnabled r \<and> liveVerifierSource \<noteq> [])
          (Errorf ''live mutation verifier source requires verifier to be enabled'' []),
        fail_if (gr_LiveMutationVerifierEnabled r \<and> source \<noteq> candidate) (Errorf ''live mutation verifier requires source %q'' [AStr candidate]),
        fail_if (gr_LiveMutationActuatorEnabled r \<and> liveActuatorSource \<noteq> MutationActivationLiveActuatorSourceRuntime)
          (Errorf ''live mutation actuator source must be %q when actuator is enabled'' [AStr MutationActivationLiveActuatorSourceRuntime]),
        fail_if (\<not> gr_LiveMutationActuatorEnabled r \<and> liveActuatorSource \<noteq> [])
          (Errorf ''live mutation actuator source requires actuator to be enabled'' []),
        fail_if (gr_LiveMutationActuatorEnabled r \<and> \<not> gr_LiveMutationVerifierEnabled r)
          (Errorf ''live mutation actuator requires live mutation verifier'' []),
        fail_if (gr_LiveMutationActuatorEnabled r \<and> source \<noteq> candidate) (Errorf ''live mutation actuator requires source %q'' [AStr candidate]),
        fail_if (gr_Candidate r \<noteq> None \<and> source \<noteq> candidate)
          (Errorf ''mutation activation candidate summary requires source %q'' [AStr candidate]),
        fail_if (gr_TargetWorktreeIdentity r \<noteq> None \<and> source \<noteq> candidate)
          (Errorf ''mutation activation target worktree identity requires source %q'' [AStr candidate])])"

text \<open>Each piece of evidence, when there is one, against those before it.\<close>

definition verify_evidence :: "MutationActivationGateResult \<Rightarrow> err option" where
  "verify_evidence r = guards
     [(case gr_MutationBindingEvidence r of None \<Rightarrow> None | Some b \<Rightarrow> verifyMutationBindingEvidence b),
      (case gr_MergeAdmissionEvidence r of
         None \<Rightarrow> None
       | Some m \<Rightarrow> (case gr_MutationBindingEvidence r of
           None \<Rightarrow> Some (Errorf ''merge admission evidence requires mutation binding evidence'' [])
         | Some b \<Rightarrow> verifyMergeAdmissionEvidence b m)),
      (case gr_RetryBoundEvidence r of
         None \<Rightarrow> None
       | Some e \<Rightarrow> (case gr_MutationBindingEvidence r of
           None \<Rightarrow> Some (Errorf ''retry bound evidence requires mutation binding evidence'' [])
         | Some b \<Rightarrow> verifyRetryBoundEvidence b e)),
      (case gr_RollbackProofEvidence r of
         None \<Rightarrow> None
       | Some p \<Rightarrow> (case (gr_MutationBindingEvidence r, gr_MergeAdmissionEvidence r) of
           (Some b, Some m) \<Rightarrow> verifyRollbackProofEvidence b m p
         | _ \<Rightarrow> Some (Errorf ''rollback proof evidence requires mutation binding and merge admission evidence'' []))),
      (case gr_ReviewerAdvisoryEvidence r of
         None \<Rightarrow> None
       | Some v \<Rightarrow> (case (gr_MutationBindingEvidence r, gr_MergeAdmissionEvidence r, gr_RollbackProofEvidence r) of
           (Some b, Some m, Some p) \<Rightarrow> verifyReviewerAdvisoryEvidence b m p v
         | _ \<Rightarrow> Some (Errorf ''reviewer advisory evidence requires mutation binding, merge admission, and rollback proof evidence'' []))),
      (case gr_OperatorEnablementEvidence r of
         None \<Rightarrow> None
       | Some u \<Rightarrow> (case (gr_MutationBindingEvidence r, gr_MergeAdmissionEvidence r, gr_RollbackProofEvidence r, gr_ReviewerAdvisoryEvidence r) of
           (Some b, Some m, Some p, Some v) \<Rightarrow> verifyOperatorEnablementEvidence b m p v u
         | _ \<Rightarrow> Some (Errorf ''operator enablement evidence requires mutation binding, merge admission, rollback proof, and reviewer advisory evidence'' []))),
      (case gr_MaterializationPreflight r of
         None \<Rightarrow> None
       | Some e \<Rightarrow> (case (gr_MutationBindingEvidence r, gr_MergeAdmissionEvidence r, gr_RollbackProofEvidence r, gr_ReviewerAdvisoryEvidence r,
                           gr_OperatorEnablementEvidence r, gr_WorktreeIdentity r) of
           (Some b, Some m, Some p, Some v, Some u, Some w) \<Rightarrow> verifyMaterializationPreflightEvidence b m p v u w e
         | _ \<Rightarrow> guards
             [fail_if (ev_Ready e)
                (Errorf ''materialization preflight evidence requires mutation binding, merge admission, rollback proof, reviewer advisory, operator enablement, and worktree identity evidence'' []),
              verifyMaterializationPreflightDiagnosticEvidence e]))]"

definition verify_candidate :: "MutationActivationGateResult \<Rightarrow> err option" where
  "verify_candidate r =
     (let source = TrimSpace (gr_Source r)
      in case gr_Candidate r of
           None \<Rightarrow> Some (Errorf ''mutation activation source %q requires candidate summary'' [AStr source])
         | Some c \<Rightarrow> guards
             [fail_if (TrimSpace (gr_SourceError r) \<noteq> []) (Errorf ''mutation activation source %q must not include source_error'' [AStr source]),
              fail_if (gr_AuthorityMode r \<noteq> MutationActivationAuthorityModeControlledQueue \<or>
                       gr_ContextMode r \<noteq> MutationActivationAuthorityModeControlledQueue)
                (Errorf ''mutation activation source %q requires controlled authority and context modes'' [AStr source]),
              verifyMutationActivationCandidateSummary c,
              (case gr_WorktreeIdentity r of
                 None \<Rightarrow> Some (Errorf ''mutation activation source %q requires worktree identity evidence'' [AStr source])
               | Some w \<Rightarrow> guards
                   [verifyMutationActivationCandidateMatchesWorktree c w,
                    (case gr_TargetWorktreeIdentity r of
                       None \<Rightarrow> None
                     | Some t \<Rightarrow> guards
                         [verifyMutationActivationCandidateMatchesTargetWorktree c t,
                          fail_if (\<not> actuatorTargetWorktreeIdentityReady w t \<and>
                                   ga_Passed (mutationActivationGateLookup (gr_Gates r) ''live_actuator_target_identity''))
                            (Errorf ''mutation activation target worktree identity gate is inconsistent'' [])])]),
              (case gr_MutationBindingEvidence r of
                 None \<Rightarrow> Some (Errorf ''mutation activation source %q requires mutation binding evidence'' [AStr source])
               | Some b \<Rightarrow> verifyMutationActivationCandidateMatchesMutationBinding c b)])"

definition verify_source :: "MutationActivationGateResult \<Rightarrow> err option" where
  "verify_source r =
     (let source = TrimSpace (gr_Source r); sourceError = TrimSpace (gr_SourceError r)
      in if source = [] then fail_if (sourceError \<noteq> []) (Errorf ''mutation activation source_error requires diagnostic source'' [])
         else if source = MutationActivationSourceSyntheticPatchOnly \<or> source = MutationActivationSourceDurableQueueNoControlledCandidate
         then fail_if (sourceError \<noteq> [])
                (Errorf ''mutation activation source_error requires source %q'' [AStr MutationActivationSourceDurableControlledQueueCandidateError])
         else if source = MutationActivationSourceDurableControlledQueueCandidate then verify_candidate r
         else if source = MutationActivationSourceDurableControlledQueueCandidateError
         then guards
           [fail_if (gr_Candidate r \<noteq> None) (Errorf ''mutation activation read-failed source must not include candidate summary'' []),
            fail_if (sourceError = []) (Errorf ''mutation activation source %q requires source_error'' [AStr source])]
         else Some (Errorf ''unsupported mutation activation source %q'' [AStr source]))"

definition verifyMutationActivationDiagnosticMetadata :: "MutationActivationGateResult \<Rightarrow> err option" where
  "verifyMutationActivationDiagnosticMetadata r = guards [verify_switches r, verify_evidence r, verify_source r]"

definition verify_status :: "MutationActivationGateResult \<Rightarrow> err option" where
  "verify_status r =
     (let allPassed = list_all ga_Passed (gr_Gates r)
      in if gr_Status r = MutationActivationStatusBlocked then guards
           [fail_if (gr_MutationAllowed r) (Errorf ''blocked mutation activation must not allow mutation'' []),
            fail_if allPassed (Errorf ''blocked mutation activation must have at least one failed gate'' []),
            verifyMutationActivationBlockingReasons r]
         else if gr_Status r = MutationActivationStatusReady then guards
           [fail_if (\<not> gr_MutationAllowed r) (Errorf ''ready mutation activation must allow mutation'' []),
            fail_if (\<not> allPassed) (Errorf ''ready mutation activation must have all gates passed'' []),
            fail_if (gr_BlockingReasons r \<noteq> []) (Errorf ''ready mutation activation must not include blocking reasons'' []),
            fail_if (gr_AuthorityMode r \<noteq> MutationActivationAuthorityModeControlledQueue \<or>
                     gr_ContextMode r \<noteq> MutationActivationAuthorityModeControlledQueue)
              (Errorf ''ready mutation activation requires controlled authority and context modes'' []),
            fail_if (\<not> gr_LiveMutationVerifierEnabled r) (Errorf ''ready mutation activation requires live mutation verifier'' []),
            fail_if (\<not> gr_LiveMutationActuatorEnabled r) (Errorf ''ready mutation activation requires live mutation actuator'' []),
            fail_if (TrimSpace (gr_Source r) \<noteq> MutationActivationSourceDurableControlledQueueCandidate)
              (Errorf ''ready mutation activation requires durable controlled queue candidate source'' [])]
         else Some (Errorf ''unsupported mutation activation status %q'' [AStr (gr_Status r)]))"

definition VerifyMutationActivationGateResult :: "MutationActivationGateResult \<Rightarrow> err option" where
  "VerifyMutationActivationGateResult r = guards
     [fail_if (TrimSpace (gr_Schema r) \<noteq> MutationActivationGateSchemaVersion) (Errorf ''mutation activation schema is unsupported'' []),
      fail_if (\<not> isCanonicalSHA256Digest (gr_Digest r)) (Errorf ''mutation activation digest is required'' []),
      fail_if (gr_Digest r \<noteq> digestMutationActivationGateResult r) (Errorf ''mutation activation digest mismatch'' []),
      (case verifyMutationActivationGateSet (gr_Gates r) of
         Inl e \<Rightarrow> Some e
       | Inr gates \<Rightarrow> verifyMutationActivationTopLevelGateInvariants r gates),
      verifyMutationActivationDiagnosticMetadata r,
      verify_status r]"

end
