(* ===== verification/Activation_Lemmas.thy ===== *)
theory Activation_Lemmas
  imports Activation_Gates Materialization_Properties
begin

section \<open>Activation gates: the checks read off their success\<close>

text \<open>
  The contract of the kinds of evidence as a locale, interpreted on five of them; what the gates of a
  verified result say; and what each readiness check guarantees when it passes.
\<close>

subsection \<open>The contract of recorded evidence\<close>

text \<open>
  A kind of evidence has a check that can be repeated on a recorded piece, further conditions on its
  form, a verifier and a test of readiness.
\<close>

locale settled_evidence =
  fixes check :: "'a ItemEvidence_scheme \<Rightarrow> err option" and form :: "'a ItemEvidence_scheme \<Rightarrow> bool"
    and verify :: "'a ItemEvidence_scheme \<Rightarrow> err option" and ready :: "'a ItemEvidence_scheme \<Rightarrow> bool" and kind :: string
  assumes verify_None: "verify e = None \<longleftrightarrow> check_settled kind (check e) e = None \<and> form e"
    and ready_iff: "ready e \<longleftrightarrow> settled_ready (check e) e"
begin

lemma ready_facts: "ready e \<longleftrightarrow> ev_Ready e \<and> TrimSpace (ev_State e) = ''ready'' \<and> TrimSpace (ev_ReadyError e) = [] \<and> check e = None"
  by (auto simp: ready_iff settled_ready_def)

lemma ready_verified:
  assumes "ready e" and "form e" shows "verify e = None"
proof -
  have r: "ev_Ready e" "TrimSpace (ev_State e) = ''ready''" "TrimSpace (ev_ReadyError e) = []" "check e = None"
    using assms(1) unfolding ready_facts by simp_all
  show ?thesis
    unfolding verify_None check_settled_def Let_def r ready_error_def using assms(2) r(1) by simp
qed

lemma verified_flag:
  assumes "verify e = None" shows "ev_Ready e \<longleftrightarrow> ready e"
proof -
  have s: "ev_Ready e = (check e = None)" "TrimSpace (ev_ReadyError e) = ready_error (check e)" "ev_Ready e \<Longrightarrow> TrimSpace (ev_State e) = ''ready''"
    using assms unfolding verify_None check_settled_def Let_def guards_Cons_None fail_if_None by simp_all
  show ?thesis unfolding ready_facts using s by (auto simp: ready_error_def)
qed

text \<open>Evidence that is not ready records exactly the error that the check reports.\<close>

lemma verified_error:
  assumes "verify e = None" and "\<not> ev_Ready e" shows "\<exists>x. check e = Some x \<and> TrimSpace (ev_ReadyError e) = err_text x"
proof -
  have "ev_Ready e = (check e = None)" "TrimSpace (ev_ReadyError e) = ready_error (check e)"
    using assms(1) unfolding verify_None check_settled_def Let_def guards_Cons_None fail_if_None by simp_all
  with assms(2) show ?thesis by (cases "check e") (simp_all add: ready_error_def)
qed

end

lemma canonical_digests_None:
  "canonical_digests rows = None \<longleftrightarrow> (\<forall>(l, d) \<in> set rows. TrimSpace d = [] \<or> isCanonicalSHA256Digest d)"
  by (auto simp: canonical_digests_def guards_None)

definition merge_form :: "MergeAdmissionEvidence \<Rightarrow> bool" where
  "merge_form e \<longleftrightarrow> list_all (\<lambda>d. TrimSpace d = [] \<or> isCanonicalSHA256Digest d)
     [me_CASPatchDigest e, me_CASEvaluationDigest e, me_TestEvidenceDigest e] \<and>
     list_all (\<lambda>p. NormalizePath p = Inr p) (me_PatchQueueItemPathset e)"

definition rollback_form :: "RollbackProofEvidence \<Rightarrow> bool" where
  "rollback_form e \<longleftrightarrow> list_all (\<lambda>d. TrimSpace d = [] \<or> isCanonicalSHA256Digest d)
     [rpe_CASPatchDigest e, rpe_CASEvaluationDigest e, rpe_RollbackEvidenceDigest e] \<and>
     (TrimSpace (rb_RecordedAt (rpe_RollbackEvidence e)) = [] \<or> time_Parse (TrimSpace (rb_RecordedAt (rpe_RollbackEvidence e))) \<noteq> None)"

definition advisory_form :: "ReviewerAdvisoryEvidence \<Rightarrow> bool" where
  "advisory_form e \<longleftrightarrow> list_all (\<lambda>d. TrimSpace d = [] \<or> isCanonicalSHA256Digest d)
     [rve_CASPatchDigest e, rve_CASEvaluationDigest e, rve_RollbackEvidenceDigest e, rve_AdvisoryDigest e]"

definition enablement_form :: "OperatorEnablementEvidence \<Rightarrow> bool" where
  "enablement_form e \<longleftrightarrow> list_all (\<lambda>d. TrimSpace d = [] \<or> isCanonicalSHA256Digest d)
     [oee_CASPatchDigest e, oee_RollbackEvidenceDigest e, oee_ReviewerAdvisoryDigest e, oee_EnablementDigest e]"

interpretation merge_evidence: settled_evidence "recomputeMergeAdmissionEvidence b" merge_form "verifyMergeAdmissionEvidence b"
  "mergeAdmissionEvidenceReady b" "''merge admission''" for b
  by unfold_locales (simp_all add: verifyMergeAdmissionEvidence_def mergeAdmissionEvidenceReady_def merge_form_def canonical_digests_None
      normal_paths_def guards_None list_all_iff)

interpretation retry_evidence: settled_evidence "recomputeRetryBoundEvidence b" "\<lambda>e. verifyRetryBoundEvidenceTimestamps e = None"
  "verifyRetryBoundEvidence b" "retryBoundEvidenceReady b" "''retry bound''" for b
  by unfold_locales (simp_all add: verifyRetryBoundEvidence_def retryBoundEvidenceReady_def)

interpretation rollback_evidence: settled_evidence "recomputeRollbackProofEvidence b m" rollback_form "verifyRollbackProofEvidence b m"
  "rollbackProofEvidenceReady b m" "''rollback proof''" for b m
  by unfold_locales (simp_all add: verifyRollbackProofEvidence_def rollbackProofEvidenceReady_def rollback_form_def canonical_digests_None bad_time_def)

interpretation advisory_evidence: settled_evidence "recomputeReviewerAdvisoryEvidence b m p" advisory_form "verifyReviewerAdvisoryEvidence b m p"
  "reviewerAdvisoryEvidenceReady b m p" "''reviewer advisory''" for b m p
  by unfold_locales (simp_all add: verifyReviewerAdvisoryEvidence_def reviewerAdvisoryEvidenceReady_def advisory_form_def canonical_digests_None)

interpretation enablement_evidence: settled_evidence "recomputeOperatorEnablementEvidence b m p v" enablement_form
  "verifyOperatorEnablementEvidence b m p v" "operatorEnablementEvidenceReady b m p v" "''operator enablement''" for b m p v
  by unfold_locales (simp_all add: verifyOperatorEnablementEvidence_def operatorEnablementEvidenceReady_def enablement_form_def canonical_digests_None)

subsection \<open>The gates of a verified result\<close>

lemma collect_gates_Inr:
  "collect_gates lookup gs = Inr out \<longleftrightarrow> out = lookup @ map (\<lambda>g. (TrimSpace (ga_Name g), g)) gs \<and>
     distinct (map (\<lambda>g. TrimSpace (ga_Name g)) gs) \<and> [] \<notin> set (map (\<lambda>g. TrimSpace (ga_Name g)) gs) \<and>
     set (map (\<lambda>g. TrimSpace (ga_Name g)) gs) \<inter> fst ` set lookup = {}"
proof (induction gs arbitrary: lookup)
  case (Cons g gs)
  have new: "AList.update k v l = l @ [(k, v)]" if "map_of l k = None" for k v and l :: "(string \<times> MutationActivationGate) list"
    using that by (induction l) (auto split: if_splits)
  have step: "collect_gates lookup (g # gs) = Inr out \<longleftrightarrow> TrimSpace (ga_Name g) \<noteq> [] \<and> TrimSpace (ga_Name g) \<notin> fst ` set lookup \<and>
      collect_gates (lookup @ [(TrimSpace (ga_Name g), g)]) gs = Inr out"
    using new by (auto simp: Let_def map_of_eq_None_iff)
  show ?case unfolding step Cons.IH by auto
qed auto

lemma gate_names_16: "length mutationActivationRequiredGateNames = 16" "distinct mutationActivationRequiredGateNames"
  by code_simp+

lemma expected_names: "map fst (expected_gates r) = mutationActivationRequiredGateNames"
  by (simp add: expected_gates_def mutationActivationRequiredGateNames_def)

lemma gate_set_Inr:
  assumes "verifyMutationActivationGateSet gs = Inr lookup"
  shows "lookup = map (\<lambda>g. (TrimSpace (ga_Name g), g)) gs" and "distinct (map (\<lambda>g. TrimSpace (ga_Name g)) gs)"
    and "set (map (\<lambda>g. TrimSpace (ga_Name g)) gs) = set mutationActivationRequiredGateNames"
proof -
  let ?ns = "map (\<lambda>g. TrimSpace (ga_Name g)) gs"
  have c: "collect_gates [] gs = Inr lookup" and l: "length gs = length mutationActivationRequiredGateNames"
    and sub: "\<forall>n \<in> set mutationActivationRequiredGateNames. map_of lookup n \<noteq> None"
    using assms unfolding verifyMutationActivationGateSet_def require_Inr bind_result_Inr by (auto simp: guards_None)
  from c show lk: "lookup = map (\<lambda>g. (TrimSpace (ga_Name g), g)) gs" and d: "distinct ?ns"
    unfolding collect_gates_Inr by simp_all
  have "set mutationActivationRequiredGateNames \<subseteq> set ?ns"
    using sub unfolding lk by (auto simp: map_of_eq_None_iff image_image)
  moreover have "card (set mutationActivationRequiredGateNames) = card (set ?ns)"
    using distinct_card [OF d] distinct_card [OF gate_names_16(2)] l by simp
  ultimately show "set ?ns = set mutationActivationRequiredGateNames" by (metis card_subset_eq finite_set)
qed

text \<open>In a verified result the gates are the recomputed ones, and the mutation is allowed exactly when all pass.\<close>

lemma verified_allowed:
  assumes "VerifyMutationActivationGateResult r = None"
  shows "gr_MutationAllowed r \<longleftrightarrow> list_all snd (expected_gates r)"
proof -
  obtain lookup where lk: "verifyMutationActivationGateSet (gr_Gates r) = Inr lookup"
    and inv: "verifyMutationActivationTopLevelGateInvariants r lookup = None" and st: "verify_status r = None"
    using assms unfolding VerifyMutationActivationGateResult_def by (auto split: sum.splits)
  note g = gate_set_Inr [OF lk]
  have passed: "gate_passed_in lookup (TrimSpace (ga_Name g)) = ga_Passed g" if "g \<in> set (gr_Gates r)" for g
  proof -
    have "map_of lookup (TrimSpace (ga_Name g)) = Some g"
      unfolding g(1) using that g(2) by (intro map_of_is_SomeI) (simp_all add: comp_def)
    then show ?thesis by (simp add: gate_passed_in_def)
  qed
  have want: "\<forall>(n, w) \<in> set (expected_gates r). gate_passed_in lookup n = w"
    using inv unfolding verifyMutationActivationTopLevelGateInvariants_def by (auto simp: guards_None)
  have "list_all snd (expected_gates r) \<longleftrightarrow> (\<forall>n \<in> fst ` set (expected_gates r). gate_passed_in lookup n)"
    using want by (force simp: list_all_iff)
  also have "\<dots> \<longleftrightarrow> (\<forall>n \<in> set mutationActivationRequiredGateNames. gate_passed_in lookup n)"
    by (simp only: expected_names [of r, symmetric] set_map)
  also have "\<dots> \<longleftrightarrow> list_all ga_Passed (gr_Gates r)"
    unfolding g(3) [symmetric] using passed by (auto simp: list_all_iff)
  also have "\<dots> \<longleftrightarrow> gr_MutationAllowed r" using st unfolding verify_status_def Let_def by (auto split: if_splits)
  finally show ?thesis by simp
qed

end
