(* ===== verification/Activation_Properties.thy ===== *)
theory Activation_Properties
  imports Activation_Lemmas
begin

section \<open>Properties of the activation gates\<close>

text \<open>
  What a verified activation that allows the mutation guarantees: of the patch, and of who allowed it
  and where it may be written.
\<close>

subsection \<open>What the readiness checks guarantee\<close>

lemma merge_item_fields [simp]:
  "pq_State (patchQueueItemFromMergeAdmissionEvidence m) = TrimSpace (ev_ItemState m)"
  "pq_CASResult (patchQueueItemFromMergeAdmissionEvidence m) = me_CASResult m"
  "pq_CASPatchDigest (patchQueueItemFromMergeAdmissionEvidence m) = TrimSpace (me_CASPatchDigest m)"
  "pq_TestEvidence (patchQueueItemFromMergeAdmissionEvidence m) = me_TestEvidence m"
  "pq_Pathset (patchQueueItemFromMergeAdmissionEvidence m) = me_PatchQueueItemPathset m"
  by (simp_all add: patchQueueItemFromMergeAdmissionEvidence_def item_of_evidence_def)

lemma merge_ready_facts:
  assumes "mergeAdmissionReady a i = None"
  shows "pq_State i = PatchQueueStateApplied" and "validateCASEvidence (pq_CASResult i) (WithDefaults a) = None"
    and "car_Status (pq_CASResult i) = CASPatchStatusApplied" and "te_Status (pq_TestEvidence i) = PatchQueueTestStatusPassed"
    and "te_ExitCode (pq_TestEvidence i) = 0" and "TrimSpace (car_PatchDigest (pq_CASResult i)) = TrimSpace (pq_CASPatchDigest i)"
  using assms unfolding mergeAdmissionReady_def Let_def guards_Cons_None patchQueueVerificationEvidenceReady_def fail_if_None by simp_all

lemma rollback_ready_facts:
  assumes "rollbackEvidenceReady e i = None"
  shows "\<exists>out. normalizePatchQueueRollbackPaths (rb_RollbackPaths e) i = Inr (out, rb_RollbackPatchDigest e)"
    and "rb_VerificationStatus e = PatchQueueTestStatusPassed" and "rb_VerificationExitCode e = 0"
    and "rb_SourcePatchDigest e = pq_CASPatchDigest i"
proof -
  have "(case normalizePatchQueueRollbackPaths (rb_RollbackPaths e) i of Inl x \<Rightarrow> Some x
      | Inr (out, d) \<Rightarrow> fail_if (rb_RollbackPatchDigest e \<noteq> d) (Errorf ''rollback patch digest mismatch'' [])) = None"
    and "rb_VerificationStatus e = PatchQueueTestStatusPassed" "rb_VerificationExitCode e = 0" "rb_SourcePatchDigest e = pq_CASPatchDigest i"
    using assms unfolding rollbackEvidenceReady_def guards_Cons_None fail_if_None by simp_all
  then show "\<exists>out. normalizePatchQueueRollbackPaths (rb_RollbackPaths e) i = Inr (out, rb_RollbackPatchDigest e)"
    and "rb_VerificationStatus e = PatchQueueTestStatusPassed" and "rb_VerificationExitCode e = 0"
    and "rb_SourcePatchDigest e = pq_CASPatchDigest i"
    by (auto split: sum.splits)
qed

lemma check_diagnostic_files_None:
  "length es = length fs \<Longrightarrow> check_diagnostic_files (path_results prs) i prev es fs = None \<longleftrightarrow>
     map fd_Path fs = es \<and> sorted_wrt (<) (case prev of None \<Rightarrow> es | Some p \<Rightarrow> p # es) \<and>
     (\<forall>f \<in> set fs. NormalizePath (fd_Path f) = Inr (fd_Path f) \<and>
       (\<exists>pr. map_of (path_results prs) (fd_Path f) = Some pr \<and> check_diagnostic_hashes f pr = None))"
proof (induction es fs arbitrary: i prev rule: list_induct2)
  case Nil
  then show ?case by (auto split: option.splits)
next
  case (Cons e es f fs)
  have step: "check_diagnostic_files (path_results prs) i prev (e # es) (f # fs) = None \<longleftrightarrow> NormalizePath (fd_Path f) = Inr (fd_Path f) \<and>
      (case prev of None \<Rightarrow> True | Some p \<Rightarrow> p < fd_Path f) \<and> e = fd_Path f \<and>
      (\<exists>pr. map_of (path_results prs) (fd_Path f) = Some pr \<and> check_diagnostic_hashes f pr = None) \<and>
      check_diagnostic_files (path_results prs) (Suc i) (Some (fd_Path f)) es fs = None"
    by (auto split: sum.splits option.splits)
  have "sorted_wrt (<) (p # fd_Path f # es) \<longleftrightarrow> p < fd_Path f \<and> sorted_wrt (<) (fd_Path f # es)" for p by auto
  then show ?case unfolding step Cons.IH by (auto split: option.splits)
qed

lemma diagnostic_hashes_facts:
  assumes "check_diagnostic_hashes f pr = None"
  shows "TrimSpace (fd_CandidateHash f) = TrimSpace (cp_CandidateHash pr)" "TrimSpace (fd_ContentDigest f) = TrimSpace (cp_CandidateHash pr)"
    "patchMaterializationDiagnosticChangeKind (fd_ChangeKind f) = casPatchPathChangeKind pr" "isCanonicalSHA256Digest (fd_ContentDigest f)"
proof -
  have c: "TrimSpace (fd_CandidateHash f) = TrimSpace (fd_ContentDigest f)"
    using assms unfolding check_diagnostic_hashes_def Let_def guards_Cons_None fail_if_None not_not by (elim conjE)
  show d: "TrimSpace (fd_CandidateHash f) = TrimSpace (cp_CandidateHash pr)"
    using assms by (simp add: check_diagnostic_hashes_def Let_def)
  from c d show "TrimSpace (fd_ContentDigest f) = TrimSpace (cp_CandidateHash pr)" by simp
qed (use assms in \<open>simp_all add: check_diagnostic_hashes_def Let_def\<close>)

lemma diagnostic_facts:
  assumes "validatePatchMaterializationDiagnostic d i w digest = None"
  defines "prs \<equiv> car_Paths (pq_CASResult i)"
  shows "map fd_Path (pd_Files d) = sort (map cp_Path prs)" and "distinct (map cp_Path prs)"
    and "\<forall>f \<in> set (pd_Files d). \<exists>pr \<in> set prs. cp_Path pr = fd_Path f \<and> check_diagnostic_hashes f pr = None"
proof -
  obtain es c where e: "patchMaterializationAppliedCASPaths i = Inr (es, c)" and l: "length (pd_Files d) = length es"
    and chk: "check_diagnostic_files c 0 None es (pd_Files d) = None"
    using assms(1) unfolding validatePatchMaterializationDiagnostic_def Let_def guards_Cons_None by (auto split: sum.splits)
  have c: "c = path_results prs" "es = sort (map cp_Path prs)" and dist: "distinct (map cp_Path prs)"
    using e unfolding applied_cas_paths_Inr prs_def by auto
  from dist show "distinct (map cp_Path prs)" .
  have "map fd_Path (pd_Files d) = es \<and> (\<forall>f \<in> set (pd_Files d).
      \<exists>pr. map_of (path_results prs) (fd_Path f) = Some pr \<and> check_diagnostic_hashes f pr = None)"
    using chk check_diagnostic_files_None [OF l [symmetric], of prs 0 None] unfolding c(1) by auto
  then show "map fd_Path (pd_Files d) = sort (map cp_Path prs)"
    and "\<forall>f \<in> set (pd_Files d). \<exists>pr \<in> set prs. cp_Path pr = fd_Path f \<and> check_diagnostic_hashes f pr = None"
    unfolding path_results_Some [OF dist] c(2) by auto
qed

lemma preflight_facts:
  assumes "recomputeMaterializationPreflightEvidence b m p v u w e = None"
  shows "map fd_Path (pd_Files (mp_Materialization e)) = sort (map cp_Path (car_Paths (me_CASResult m)))"
    and "\<forall>f \<in> set (pd_Files (mp_Materialization e)). \<exists>pr \<in> set (car_Paths (me_CASResult m)). cp_Path pr = fd_Path f \<and>
      check_diagnostic_hashes f pr = None"
    and "\<exists>a. mp_AuthorityProof e = Some a \<and> ma_AuthorityDigest a = PatchMaterializationAuthorityProofDigest a \<and>
      TrimSpace (ma_MaterializationDigest a) = TrimSpace (mp_MaterializationDigest e)"
proof -
  let ?i = "(patchQueueItemFromMergeAdmissionEvidence m)\<lparr>pq_WorkspaceID := TrimSpace (mp_WorkspaceID e), pq_ProjectID := TrimSpace (mp_ProjectID e)\<rparr>"
  have d: "validatePatchMaterializationDiagnostic (mp_Materialization e) ?i (mp_WorktreeIdentity e) (mp_MaterializationDigest e) = None"
    and dig: "TrimSpace (pd_MaterializationDigest (mp_Materialization e)) = TrimSpace (mp_MaterializationDigest e)"
    and a: "(case mp_AuthorityProof e of
           None \<Rightarrow> Some (Errorf MaterializationPreflightAuthorityProofRequired [])
         | Some a \<Rightarrow>
             if \<not> hasPatchMaterializationAuthorityProof a then Some (Errorf MaterializationPreflightAuthorityProofRequired [])
             else wrap_err ''materialization authority proof invalid: %w''
               (validatePatchMaterializationAuthorityProofDiagnostic a (mp_Materialization e) ?i (mp_MaterializationDigest e))) = None"
    using assms unfolding recomputeMaterializationPreflightEvidence_def Let_def guards_Cons_None fail_if_None by simp_all
  show "map fd_Path (pd_Files (mp_Materialization e)) = sort (map cp_Path (car_Paths (me_CASResult m)))"
    "\<forall>f \<in> set (pd_Files (mp_Materialization e)). \<exists>pr \<in> set (car_Paths (me_CASResult m)). cp_Path pr = fd_Path f \<and>
      check_diagnostic_hashes f pr = None"
    using diagnostic_facts [OF d] by simp_all
  from a obtain x where x: "mp_AuthorityProof e = Some x"
    and v: "validatePatchMaterializationAuthorityProofDiagnostic x (mp_Materialization e) ?i (mp_MaterializationDigest e) = None"
    by (auto split: option.splits if_splits)
  have "ma_AuthorityDigest x = PatchMaterializationAuthorityProofDigest x"
    "TrimSpace (ma_MaterializationDigest x) = TrimSpace (pd_MaterializationDigest (mp_Materialization e))"
    using v unfolding validatePatchMaterializationAuthorityProofDiagnostic_def guards_Cons_None fail_if_None by simp_all
  with x dig show "\<exists>a. mp_AuthorityProof e = Some a \<and> ma_AuthorityDigest a = PatchMaterializationAuthorityProofDigest a \<and>
      TrimSpace (ma_MaterializationDigest a) = TrimSpace (mp_MaterializationDigest e)" by simp
qed

subsection \<open>The parts of a verified activation\<close>

lemma allowed_parts:
  assumes "VerifyMutationActivationGateResult r = None" and "gr_MutationAllowed r"
  obtains b m rt p v u e w t where "gr_MutationBindingEvidence r = Some b" "gr_MergeAdmissionEvidence r = Some m" "gr_RetryBoundEvidence r = Some rt"
    "gr_RollbackProofEvidence r = Some p" "gr_ReviewerAdvisoryEvidence r = Some v" "gr_OperatorEnablementEvidence r = Some u"
    "gr_MaterializationPreflight r = Some e" "gr_WorktreeIdentity r = Some w" "gr_TargetWorktreeIdentity r = Some t"
    "recomputeMergeAdmissionEvidence b m = None" "recomputeRetryBoundEvidence b rt = None" "recomputeRollbackProofEvidence b m p = None"
    "recomputeReviewerAdvisoryEvidence b m p v = None" "recomputeOperatorEnablementEvidence b m p v u = None"
    "recomputeMaterializationPreflightEvidence b m p v u w e = None" "actuatorTargetWorktreeIdentityReady w t"
    "gr_LiveMutationVerifierEnabled r" "gr_LiveMutationActuatorEnabled r" "gr_DirectMergeDisabled r" "gr_QueueDurable r"
proof -
  have g: "list_all snd (expected_gates r)" using verified_allowed [OF assms(1)] assms(2) by simp
  have parts: "mutationActivationResultTargetWorktreeIdentityReady r" "mutationActivationResultMergeAdmissionReady r"
    "mutationActivationResultRetryBoundReady r" "mutationActivationResultRollbackProofReady r" "mutationActivationResultReviewerAdvisoryReady r"
    "mutationActivationResultOperatorEnablementReady r" "mutationActivationResultMaterializationPreflightReady r"
    and flags: "gr_LiveMutationVerifierEnabled r" "gr_LiveMutationActuatorEnabled r" "gr_DirectMergeDisabled r" "gr_QueueDurable r"
    using g unfolding expected_gates_def by simp_all
  obtain b m p v u e w where ev: "gr_MutationBindingEvidence r = Some b" "gr_MergeAdmissionEvidence r = Some m" "gr_RollbackProofEvidence r = Some p"
    "gr_ReviewerAdvisoryEvidence r = Some v" "gr_OperatorEnablementEvidence r = Some u" "gr_MaterializationPreflight r = Some e"
    "gr_WorktreeIdentity r = Some w" and pre: "materializationPreflightEvidenceReady b m p v u w e"
    using parts(7) unfolding mutationActivationResultMaterializationPreflightReady_def by (auto split: option.splits)
  obtain rt where rt: "gr_RetryBoundEvidence r = Some rt" "retryBoundEvidenceReady b rt"
    using parts(3) ev(1) unfolding mutationActivationResultRetryBoundReady_def by (auto split: option.splits)
  obtain t where t: "gr_TargetWorktreeIdentity r = Some t" "actuatorTargetWorktreeIdentityReady w t"
    using parts(1) ev(7) unfolding mutationActivationResultTargetWorktreeIdentityReady_def by (auto split: option.splits)
  have "mergeAdmissionEvidenceReady b m" "rollbackProofEvidenceReady b m p" "reviewerAdvisoryEvidenceReady b m p v" "operatorEnablementEvidenceReady b m p v u"
    using parts(2,4,5,6) unfolding mutationActivationResultMergeAdmissionReady_def mutationActivationResultRollbackProofReady_def
      mutationActivationResultReviewerAdvisoryReady_def mutationActivationResultOperatorEnablementReady_def by (simp_all add: ev)
  then have "recomputeMergeAdmissionEvidence b m = None" "recomputeRollbackProofEvidence b m p = None"
    "recomputeReviewerAdvisoryEvidence b m p v = None" "recomputeOperatorEnablementEvidence b m p v u = None"
    using merge_evidence.ready_facts rollback_evidence.ready_facts advisory_evidence.ready_facts enablement_evidence.ready_facts by simp_all
  moreover have "recomputeRetryBoundEvidence b rt = None" using rt(2) retry_evidence.ready_facts by simp
  moreover have "recomputeMaterializationPreflightEvidence b m p v u w e = None" using pre by (simp add: materializationPreflightEvidenceReady_def)
  ultimately show thesis using that ev rt(1) t flags by metis
qed

text \<open>C1.
  A verified activation that allows the mutation is about one patch that was applied, tested and can be
  undone: the recorded item is applied; every path of its evaluation is a modification inside the pathset,
  found unchanged against the base of the recorded context; the tests passed; a verified rollback
  restores the base of exactly these paths; and the materialization has exactly these paths, each with a
  content of the candidate hash.
\<close>

theorem activation_patch_sound:
  assumes "VerifyMutationActivationGateResult r = None" and "gr_MutationAllowed r"
  shows "\<exists>b m p e out. gr_MutationBindingEvidence r = Some b \<and> gr_MergeAdmissionEvidence r = Some m \<and>
    gr_RollbackProofEvidence r = Some p \<and> gr_MaterializationPreflight r = Some e \<and>
    TrimSpace (ev_ItemState m) = PatchQueueStateApplied \<and> car_Paths (me_CASResult m) \<noteq> [] \<and>
    list_all (\<lambda>pr. cp_Status pr = CASPatchStatusApplied \<and> casPatchPathChangeKind pr \<noteq> CASPatchChangeAdd \<and>
        pathsetCoversPath (be_Pathset b) (cp_Path pr) \<and>
        TrimSpace (cp_CurrentHash pr) = base_hash (mutationBindingEvidenceContext b) (cp_Path pr)) (car_Paths (me_CASResult m)) \<and>
    te_Status (me_TestEvidence m) = PatchQueueTestStatusPassed \<and> te_ExitCode (me_TestEvidence m) = 0 \<and>
    normalizePatchQueueRollbackPaths (rb_RollbackPaths (rpe_RollbackEvidence p)) (patchQueueItemFromMergeAdmissionEvidence m) =
      Inr (out, rb_RollbackPatchDigest (rpe_RollbackEvidence p)) \<and>
    rb_VerificationStatus (rpe_RollbackEvidence p) = PatchQueueTestStatusPassed \<and>
    map rp_Path out = sort (map cp_Path (car_Paths (me_CASResult m))) \<and>
    list_all (\<lambda>c. list_ex (\<lambda>pr. restores pr c) (car_Paths (me_CASResult m))) out \<and>
    map fd_Path (pd_Files (mp_Materialization e)) = sort (map cp_Path (car_Paths (me_CASResult m))) \<and>
    list_all (\<lambda>f. list_ex (\<lambda>pr. cp_Path pr = fd_Path f \<and> TrimSpace (cp_CandidateHash pr) = TrimSpace (fd_ContentDigest f))
      (car_Paths (me_CASResult m))) (pd_Files (mp_Materialization e))"
proof -
  obtain b m p v u e w where ev: "gr_MutationBindingEvidence r = Some b" "gr_MergeAdmissionEvidence r = Some m"
    "gr_RollbackProofEvidence r = Some p" "gr_MaterializationPreflight r = Some e"
    and merge: "recomputeMergeAdmissionEvidence b m = None" and roll: "recomputeRollbackProofEvidence b m p = None"
    and pre: "recomputeMaterializationPreflightEvidence b m p v u w e = None"
    by (rule allowed_parts [OF assms])
  let ?i = "patchQueueItemFromMergeAdmissionEvidence m" and ?a = "mutationBindingEvidenceContext b"
  have "mergeAdmissionReady ?a ?i = None" using merge by (simp add: recomputeMergeAdmissionEvidence_def)
  note mf = merge_ready_facts [OF this, unfolded merge_item_fields]
  note cas = applied_evidence_facts [OF mf(2,3)]
  have "rollbackEvidenceReady (rpe_RollbackEvidence p) ?i = None" using roll by (simp add: recomputeRollbackProofEvidence_def)
  note rf = rollback_ready_facts [OF this]
  obtain out where out: "normalizePatchQueueRollbackPaths (rb_RollbackPaths (rpe_RollbackEvidence p)) ?i =
      Inr (out, rb_RollbackPatchDigest (rpe_RollbackEvidence p))" using rf(1) by blast
  note undo = rollback_paths_Inr [OF out, unfolded merge_item_fields]
  note pf = preflight_facts [OF pre]
  have mods: "casPatchPathChangeKind pr \<noteq> CASPatchChangeAdd" if "pr \<in> set (car_Paths (me_CASResult m))" for pr
  proof -
    have "cp_Path pr \<in> set (map rp_Path out)" using that undo by simp
    then obtain c where c: "c \<in> set out" "rp_Path c = cp_Path pr" by auto
    with undo obtain pr' where pr': "pr' \<in> set (car_Paths (me_CASResult m))" "restores pr' c" by blast
    then have "cp_Path pr' = cp_Path pr" using c by (simp add: restores_def)
    then have "pr' = pr" using cas pr'(1) that by (auto simp: distinct_map inj_on_def)
    with pr' show ?thesis by (simp add: restores_def)
  qed
  have "ctx_Pathset ?a = be_Pathset b" by (simp add: mutationBindingEvidenceContext_def)
  moreover have "base_hash (WithDefaults ?a) = base_hash ?a" by (simp add: fun_eq_iff)
  ultimately have each: "list_all (\<lambda>pr. cp_Status pr = CASPatchStatusApplied \<and> casPatchPathChangeKind pr \<noteq> CASPatchChangeAdd \<and>
        pathsetCoversPath (be_Pathset b) (cp_Path pr) \<and> TrimSpace (cp_CurrentHash pr) = base_hash ?a (cp_Path pr)) (car_Paths (me_CASResult m))"
    using cas mods by (simp add: list_all_iff)
  have files: "list_all (\<lambda>f. list_ex (\<lambda>pr. cp_Path pr = fd_Path f \<and> TrimSpace (cp_CandidateHash pr) = TrimSpace (fd_ContentDigest f))
      (car_Paths (me_CASResult m))) (pd_Files (mp_Materialization e))"
    unfolding list_all_iff list_ex_iff using pf(2) diagnostic_hashes_facts(2) by metis
  have rest: "list_all (\<lambda>c. list_ex (\<lambda>pr. restores pr c) (car_Paths (me_CASResult m))) out"
    using undo by (simp add: list_all_iff list_ex_iff)
  show ?thesis
    by (intro exI conjI) (rule ev mf(1,4,5) conjunct1 [OF conjunct2 [OF cas]] each out rf(2) conjunct1 [OF undo] rest pf(1) files)+
qed

subsection \<open>Who allowed it, and where\<close>

lemma matches_item_None:
  assumes "matches_item kind other rows b e = None"
  shows "TrimSpace (ev_QueueID b) = TrimSpace (ev_QueueID e)" "TrimSpace (ev_ItemID b) = TrimSpace (ev_ItemID e)"
    "\<forall>(f, x, y) \<in> set rows. TrimSpace x = TrimSpace y"
  using assms by (simp_all add: matches_item_def item_rows_def same_fields_None)

lemma advisory_ready_facts:
  assumes "reviewerAdvisoryReady a i = None"
  shows "TrimSpace (ra_Verdict a) = PatchQueueReviewerAdvisoryVerdictReviewed"
    and "TrimSpace (pq_CASPatchDigest i) = TrimSpace (ra_CASPatchDigest a)"
    and "TrimSpace (pq_RollbackEvidenceDigest i) = TrimSpace (ra_RollbackEvidenceDigest a)"
  using assms unfolding reviewerAdvisoryReady_def Let_def guards_Cons_None fail_if_None clonePatchQueueReviewerAdvisory_def
  by (simp_all add: same_fields_None)

lemma operator_ready_facts:
  assumes "operatorEnablementReady u i a = None"
  shows "oe_Enabled u" and "TrimSpace (oe_Scope u) = MutationActivationOperatorEnablementScope" and "TrimSpace (oe_EnabledBy u) \<noteq> []"
    and "TrimSpace (pq_QueueID i) = TrimSpace (oe_QueueID u)" and "TrimSpace (pq_ItemID i) = TrimSpace (oe_ItemID u)"
    and "TrimSpace (pq_CASPatchDigest i) = TrimSpace (oe_CASPatchDigest u)"
    and "TrimSpace (pq_RollbackEvidenceDigest i) = TrimSpace (oe_RollbackEvidenceDigest u)"
    and "TrimSpace (oe_ReviewerAdvisoryDigest u) = digestPatchQueueReviewerAdvisory a"
proof -
  have d: "TrimSpace (digestPatchQueueReviewerAdvisory a) = digestPatchQueueReviewerAdvisory a"
    by (simp add: digestPatchQueueReviewerAdvisory_def)
  show "oe_Enabled u" "TrimSpace (oe_Scope u) = MutationActivationOperatorEnablementScope" "TrimSpace (oe_EnabledBy u) \<noteq> []"
    "TrimSpace (pq_QueueID i) = TrimSpace (oe_QueueID u)" "TrimSpace (pq_ItemID i) = TrimSpace (oe_ItemID u)"
    "TrimSpace (pq_CASPatchDigest i) = TrimSpace (oe_CASPatchDigest u)"
    "TrimSpace (pq_RollbackEvidenceDigest i) = TrimSpace (oe_RollbackEvidenceDigest u)"
    "TrimSpace (oe_ReviewerAdvisoryDigest u) = digestPatchQueueReviewerAdvisory a"
    using assms unfolding operatorEnablementReady_def Let_def guards_Cons_None fail_if_None clonePatchQueueOperatorEnablement_def
    by (simp_all add: same_fields_None d required_fields_def)
qed

lemma operator_item_fields [simp]:
  "pq_QueueID (patchQueueItemFromOperatorEnablementEvidence u) = TrimSpace (ev_QueueID u)"
  "pq_ItemID (patchQueueItemFromOperatorEnablementEvidence u) = TrimSpace (ev_ItemID u)"
  "pq_CASPatchDigest (patchQueueItemFromOperatorEnablementEvidence u) = TrimSpace (oee_CASPatchDigest u)"
  "pq_RollbackEvidenceDigest (patchQueueItemFromOperatorEnablementEvidence u) = TrimSpace (oee_RollbackEvidenceDigest u)"
  by (simp_all add: patchQueueItemFromOperatorEnablementEvidence_def item_of_evidence_def)

lemma binding_ready_ids:
  assumes "verifyMutationBindingEvidence b = None" and "mutationBindingEvidenceReady b"
  shows "TrimSpace (be_PatchQueueID b) = TrimSpace (ev_QueueID b)" "TrimSpace (be_PatchQueueItemID b) = TrimSpace (ev_ItemID b)"
proof -
  have "mutationBindingEvidenceMismatches b = []"
    using assms unfolding verifyMutationBindingEvidence_def mutationBindingEvidenceReady_def Let_def guards_Cons_None fail_if_None by simp
  then have "mismatch_text ''patch_queue_id'' (be_PatchQueueID b) (ev_QueueID b) = []"
    "mismatch_text ''patch_queue_item_id'' (be_PatchQueueItemID b) (ev_ItemID b) = []"
    unfolding mutationBindingEvidenceMismatches_def by simp_all
  moreover have "TrimSpace (be_PatchQueueID b) \<noteq> []" "TrimSpace (ev_QueueID b) \<noteq> []" "TrimSpace (be_PatchQueueItemID b) \<noteq> []" "TrimSpace (ev_ItemID b) \<noteq> []"
    using assms(2) unfolding mutationBindingEvidenceReady_def by simp_all
  ultimately show "TrimSpace (be_PatchQueueID b) = TrimSpace (ev_QueueID b)" "TrimSpace (be_PatchQueueItemID b) = TrimSpace (ev_ItemID b)"
    unfolding mismatch_text_def Let_def by (auto split: if_splits)
qed

text \<open>C2.
  A verified activation that allows the mutation was enabled by an operator for exactly this patch, and
  may be written only beside the candidate: the enablement is on and names the queue item of the live
  candidate, the digest of the applied patch, the digest of the recorded reviewer advisory (with the
  verdict reviewed) and the digest of the recorded rollback; the target worktree is clean, stands at
  the base of the candidate, and is another checkout on another branch; verifier and actuator are
  switched on, direct merging is off.
\<close>

theorem activation_authority_sound:
  assumes "VerifyMutationActivationGateResult r = None" and "gr_MutationAllowed r"
  shows "\<exists>c m p v u w t. gr_Candidate r = Some c \<and> gr_MergeAdmissionEvidence r = Some m \<and> gr_RollbackProofEvidence r = Some p \<and>
    gr_ReviewerAdvisoryEvidence r = Some v \<and> gr_OperatorEnablementEvidence r = Some u \<and> gr_WorktreeIdentity r = Some w \<and>
    gr_TargetWorktreeIdentity r = Some t \<and>
    oe_Enabled (oee_Enablement u) \<and> TrimSpace (oe_EnabledBy (oee_Enablement u)) \<noteq> [] \<and>
    TrimSpace (oe_QueueID (oee_Enablement u)) = TrimSpace (cd_QueueID c) \<and> TrimSpace (oe_ItemID (oee_Enablement u)) = TrimSpace (cd_ItemID c) \<and>
    TrimSpace (oe_CASPatchDigest (oee_Enablement u)) = TrimSpace (car_PatchDigest (me_CASResult m)) \<and>
    TrimSpace (oe_ReviewerAdvisoryDigest (oee_Enablement u)) = digestPatchQueueReviewerAdvisory (rve_Advisory v) \<and>
    TrimSpace (ra_Verdict (rve_Advisory v)) = PatchQueueReviewerAdvisoryVerdictReviewed \<and>
    TrimSpace (oe_RollbackEvidenceDigest (oee_Enablement u)) = digestPatchQueueRollbackEvidence (rpe_RollbackEvidence p) \<and>
    ToUpper (TrimSpace (cd_State c)) \<in> set [''PROPOSED'', ''CLAIMED''] \<and>
    TrimSpace (cd_BaseSHA c) = TrimSpace (wt_BaseSHA w) \<and> TrimSpace (wt_HeadSHA t) = TrimSpace (wt_BaseSHA w) \<and>
    TrimSpace (wt_ObservedHeadSHA t) = TrimSpace (wt_BaseSHA w) \<and> TrimSpace (wt_ObservedDirtyState t) = ''clean'' \<and>
    TrimSpace (wt_CheckoutID t) \<noteq> TrimSpace (wt_CheckoutID w) \<and> TrimSpace (wt_BranchName t) \<noteq> TrimSpace (wt_BranchName w) \<and>
    gr_LiveMutationVerifierEnabled r \<and> gr_LiveMutationActuatorEnabled r \<and> gr_DirectMergeDisabled r"
proof -
  obtain b m rt p v u e w t where ev: "gr_MutationBindingEvidence r = Some b" "gr_MergeAdmissionEvidence r = Some m"
    "gr_RollbackProofEvidence r = Some p" "gr_ReviewerAdvisoryEvidence r = Some v" "gr_OperatorEnablementEvidence r = Some u"
    "gr_WorktreeIdentity r = Some w" "gr_TargetWorktreeIdentity r = Some t"
    and re: "recomputeMergeAdmissionEvidence b m = None" "recomputeRollbackProofEvidence b m p = None"
    "recomputeReviewerAdvisoryEvidence b m p v = None" "recomputeOperatorEnablementEvidence b m p v u = None"
    and tgt: "actuatorTargetWorktreeIdentityReady w t"
    and flags: "gr_LiveMutationVerifierEnabled r" "gr_LiveMutationActuatorEnabled r" "gr_DirectMergeDisabled r"
    by (rule allowed_parts [OF assms])
  have meta: "verify_switches r = None" "verify_evidence r = None" "verify_source r = None"
    using assms(1) unfolding VerifyMutationActivationGateResult_def verifyMutationActivationDiagnosticMetadata_def by simp_all
  have "TrimSpace (gr_Source r) = MutationActivationSourceDurableControlledQueueCandidate"
    using meta(1) flags(1) unfolding verify_switches_def Let_def by simp
  then have cand: "verify_candidate r = None"
    using meta(3) unfolding verify_source_def Let_def
    by (simp add: MutationActivationSourceDurableControlledQueueCandidate_def MutationActivationSourceSyntheticPatchOnly_def
        MutationActivationSourceDurableQueueNoControlledCandidate_def)
  then obtain c where c: "gr_Candidate r = Some c" "verifyMutationActivationCandidateSummary c = None"
    "verifyMutationActivationCandidateMatchesWorktree c w = None" "verifyMutationActivationCandidateMatchesMutationBinding c b = None"
    unfolding verify_candidate_def Let_def by (auto simp: ev split: option.splits)
  have bind: "verifyMutationBindingEvidence b = None" using meta(2) unfolding verify_evidence_def by (simp add: ev)
  have bready: "mutationBindingEvidenceReady b"
    using verified_allowed [OF assms(1)] assms(2)
    by (simp add: expected_gates_def mutationActivationResultMutationBindingReady_def ev)
  note ids = binding_ready_ids [OF bind bready]
  have op: "operatorEnablementReady (oee_Enablement u) (patchQueueItemFromOperatorEnablementEvidence u) (rve_Advisory v) = None"
    and opb: "verifyOperatorEnablementEvidenceMatchesMutationBinding b u = None" and opm: "verifyOperatorEnablementEvidenceMatchesMergeAdmission m u = None"
    and opr: "TrimSpace (rpe_RollbackEvidenceDigest p) = TrimSpace (oee_RollbackEvidenceDigest u)"
    using re(4) unfolding recomputeOperatorEnablementEvidence_def by simp_all
  note of = operator_ready_facts [OF op, unfolded operator_item_fields TrimSpace_idem]
  note ob = matches_item_None [OF opb [unfolded verifyOperatorEnablementEvidenceMatchesMutationBinding_def]]
  note om = matches_item_None [OF opm [unfolded verifyOperatorEnablementEvidenceMatchesMergeAdmission_def]]
  have rd: "digestPatchQueueRollbackEvidence (rpe_RollbackEvidence p) = TrimSpace (rpe_RollbackEvidenceDigest p)"
    using re(2) unfolding recomputeRollbackProofEvidence_def by simp
  have "mergeAdmissionReady (mutationBindingEvidenceContext b) (patchQueueItemFromMergeAdmissionEvidence m) = None"
    using re(1) by (simp add: recomputeMergeAdmissionEvidence_def)
  from merge_ready_facts(6) [OF this] have patch: "TrimSpace (car_PatchDigest (me_CASResult m)) = TrimSpace (me_CASPatchDigest m)" by simp
  have "reviewerAdvisoryReady (rve_Advisory v) (patchQueueItemFromReviewerAdvisoryEvidence v) = None"
    using re(3) unfolding recomputeReviewerAdvisoryEvidence_def by simp
  note verdict = advisory_ready_facts(1) [OF this]
  have tf: "worktreeIdentityReady t" "TrimSpace (wt_HeadSHA t) = TrimSpace (wt_BaseSHA w)" "TrimSpace (wt_CheckoutID t) \<noteq> TrimSpace (wt_CheckoutID w)"
    "TrimSpace (wt_BranchName t) \<noteq> TrimSpace (wt_BranchName w)"
    using tgt unfolding actuatorTargetWorktreeIdentityReady_def worktreeIdentityReady_def by auto
  have head: "TrimSpace (wt_ObservedHeadSHA t) = TrimSpace (wt_HeadSHA t)" "TrimSpace (wt_ObservedDirtyState t) = ''clean''"
    using tf(1) unfolding worktreeIdentityReady_def by simp_all
  have live: "ToUpper (TrimSpace (cd_State c)) \<in> set [''PROPOSED'', ''CLAIMED'']"
    using c(2) unfolding verifyMutationActivationCandidateSummary_def guards_Cons_None fail_if_None not_not by (elim conjE)
  have base: "TrimSpace (cd_BaseSHA c) = TrimSpace (wt_BaseSHA w)" "TrimSpace (cd_QueueID c) = TrimSpace (be_PatchQueueID b)"
    "TrimSpace (cd_ItemID c) = TrimSpace (be_PatchQueueItemID b)"
    using c(3,4) unfolding verifyMutationActivationCandidateMatchesWorktree_def verifyMutationActivationCandidateMatchesMutationBinding_def
    by (simp_all add: same_fields_None)
  have names: "TrimSpace (oe_QueueID (oee_Enablement u)) = TrimSpace (cd_QueueID c)" "TrimSpace (oe_ItemID (oee_Enablement u)) = TrimSpace (cd_ItemID c)"
    using of(4,5) ob(1,2) ids base(2,3) by simp_all
  have digests: "TrimSpace (oe_CASPatchDigest (oee_Enablement u)) = TrimSpace (car_PatchDigest (me_CASResult m))"
    "TrimSpace (oe_RollbackEvidenceDigest (oee_Enablement u)) = digestPatchQueueRollbackEvidence (rpe_RollbackEvidence p)"
    using of(6,7) om(3) patch opr rd by simp_all
  show ?thesis
    by (intro exI conjI) (rule ev c(1) of(1,3,8) names digests verdict live base(1) tf(2,3,4) trans [OF head(1) tf(2)] head(2) flags)+
qed

text \<open>
  The check of a reviewer advisory does not see its scope, its head or its veto: it works on a copy
  without them.
\<close>

theorem advisory_veto_ignored:
  "reviewerAdvisoryReady (a\<lparr>ra_Scope := s, ra_HeadSHA := h, ra_DefeatsAcceptance := v\<rparr>) i = reviewerAdvisoryReady a i"
  by (simp add: reviewerAdvisoryReady_def clonePatchQueueReviewerAdvisory_def)

end
