(* ===== verification/Activation_Roundtrip.thy ===== *)
theory Activation_Roundtrip
  imports Activation_Properties
begin

section \<open>Activation gates: what the evaluator allows, the verifier accepts\<close>

text \<open>
  The evaluator checks the item it is given; the verifier checks an item rebuilt from the recorded
  evidence. For inputs whose texts carry no surrounding white space it is shown exactly when the two agree.
\<close>

subsection \<open>Clean inputs\<close>

definition clean_context :: "Context \<Rightarrow> bool" where
  "clean_context a \<longleftrightarrow> list_all trimmed
     [ctx_Schema a, ctx_Mode a, ctx_WorkspaceID a, ctx_TaskID a, ctx_SessionID a, ctx_RunID a, ctx_AgentID a, pr_Type (ctx_Principal a),
      pr_ID (ctx_Principal a), cs_ID (ctx_CapabilitySnapshot a), cs_Schema (ctx_CapabilitySnapshot a), ctx_RepoRoot a,
      base_Ref (ctx_Base a), base_TreeHash (ctx_Base a), lr_ID (ctx_Lease a), pqr_QueueID (ctx_PatchQueue a), pqr_ItemID (ctx_PatchQueue a),
      op_ID (ctx_Operation a), op_Kind (ctx_Operation a)] \<and>
     list_all (\<lambda>(p, h). trimmed h) (base_FileHashes (ctx_Base a)) \<and> distinct (map fst (base_FileHashes (ctx_Base a)))"

definition trimmed_item :: "PatchQueueItem \<Rightarrow> bool" where
  "trimmed_item i \<longleftrightarrow> list_all trimmed
     [pq_State i, pq_QueueID i, pq_ItemID i, pq_ContextDigest i, pq_RepoLeaseID i, pq_OperationID i, pq_OperationKind i,
      pq_CASPatchDigest i, pq_CASEvaluationDigest i, pq_TestEvidenceDigest i, pq_RollbackEvidenceDigest i, pq_ReviewerAdvisoryDigest i,
      pq_OperatorEnablementDigest i, pq_WorkspaceID i, pq_ProjectID i]"

text \<open>The retry times of an item are blank or can be read.\<close>

definition retry_times :: "PatchQueueItem \<Rightarrow> bool" where
  "retry_times i \<longleftrightarrow> list_all (\<lambda>v. TrimSpace v = [] \<or> time_Parse (TrimSpace v) \<noteq> None) [pq_NextRetryAt i, pq_DeadLetteredAt i]"

definition clean_item :: "PatchQueueItem \<Rightarrow> bool" where
  "clean_item i \<longleftrightarrow> trimmed_item i \<and> retry_times i"

lemmas clean_item_defs = clean_item_def trimmed_item_def retry_times_def

text \<open>No white space surrounds a text of the context, the item, the rollback evidence or the enablement.\<close>

definition trimmed_input :: "MutationActivationGateInput \<Rightarrow> bool" where
  "trimmed_input input \<longleftrightarrow> clean_context (gi_Context input) \<and> trimmed_item (gi_PatchQueueItem input) \<and>
     clonePatchQueueRollbackEvidence (gi_RollbackEvidence input) = gi_RollbackEvidence input \<and>
     clonePatchQueueOperatorEnablement (gi_OperatorEnablement input) = gi_OperatorEnablement input"

text \<open>Further, the advisory is as the code copies it, and the item records the digest of the rollback evidence.\<close>

definition clean_input :: "MutationActivationGateInput \<Rightarrow> bool" where
  "clean_input input \<longleftrightarrow> trimmed_input input \<and> retry_times (gi_PatchQueueItem input) \<and>
     clonePatchQueueReviewerAdvisory (gi_ReviewerAdvisory input) = gi_ReviewerAdvisory input \<and>
     pq_RollbackEvidenceDigest (gi_PatchQueueItem input) = digestPatchQueueRollbackEvidence (gi_RollbackEvidence input)"

lemma trim_hashes_clean:
  assumes "distinct (map fst hs)" and "\<forall>(p, h) \<in> set hs. TrimSpace p = p \<and> TrimSpace h = h"
  shows "trim_hashes hs = hs"
proof -
  have app: "AList.update k v l = l @ [(k, v)]" if "k \<notin> fst ` set l" for k v and l :: "(string \<times> string) list"
    using that by (induction l) auto
  have "fold (\<lambda>(p, h). AList.update (TrimSpace p) (TrimSpace h)) hs acc = acc @ hs"
    if "distinct (map fst (acc @ hs))" "\<forall>(p, h) \<in> set hs. TrimSpace p = p \<and> TrimSpace h = h" for acc hs
    using that
  proof (induction hs arbitrary: acc)
    case (Cons x hs)
    obtain p h where x: "x = (p, h)" by (cases x)
    have "AList.update p h acc = acc @ [(p, h)]" using Cons.prems(1) by (intro app) (auto simp: x)
    then show ?case using Cons.IH [of "acc @ [(p, h)]"] Cons.prems by (auto simp: x)
  qed simp
  from this [of "[]" hs] assms show ?thesis by (simp add: trim_hashes_def)
qed

subsection \<open>The binding\<close>

text \<open>What the readiness of the binding says of the context and the item.\<close>

lemma binding_ready_facts:
  assumes "mutationBindingReady a i = None"
  defines "A \<equiv> WithDefaults a"
  shows "Context_Validate A = None" and "requireConcreteMutationOperationRefs A = None" and "ctx_Pathset A \<noteq> []"
    and "canonical_pathset (ctx_Pathset A)" and "pq_Pathset i = ctx_Pathset A"
    and "TrimSpace (pq_Schema i) = PatchQueueItemSchemaVersion" and "patchQueueContextDigest A = Inr (pq_ContextDigest i)"
    and "pq_QueueID i = TrimSpace (pqr_QueueID (ctx_PatchQueue A))" and "pq_ItemID i = TrimSpace (pqr_ItemID (ctx_PatchQueue A))"
    and "pq_RepoLeaseID i = TrimSpace (lr_ID (ctx_Lease A))" and "pq_LeaseTerm i = lr_Term (ctx_Lease A)"
    and "TrimSpace (pq_OperationID i) = TrimSpace (op_ID (ctx_Operation A))" and "TrimSpace (pq_OperationKind i) = TrimSpace (op_Kind (ctx_Operation A))"
proof -
  have g: "requireConcreteMutationOperationRefs A = None" "ctx_Pathset A \<noteq> []" "err_of (Context_Digest A) = None"
    "TrimSpace (pq_Schema i) = PatchQueueItemSchemaVersion" "verifyPatchQueueItemContext i A = None"
    "TrimSpace (pq_OperationID i) = TrimSpace (op_ID (ctx_Operation A))" "TrimSpace (pq_OperationKind i) = TrimSpace (op_Kind (ctx_Operation A))"
    using assms(1) unfolding mutationBindingReady_def Let_def A_def guards_Cons_None fail_if_None by simp_all
  have idem: "WithDefaults A = A" unfolding A_def by (rule WithDefaults_idem)
  show v: "Context_Validate A = None" using g(3) unfolding Context_Digest_def idem Let_def by auto
  show "requireConcreteMutationOperationRefs A = None" "ctx_Pathset A \<noteq> []" "TrimSpace (pq_Schema i) = PatchQueueItemSchemaVersion"
    "TrimSpace (pq_OperationID i) = TrimSpace (op_ID (ctx_Operation A))" "TrimSpace (pq_OperationKind i) = TrimSpace (op_Kind (ctx_Operation A))"
    by (fact g)+
  show can: "canonical_pathset (ctx_Pathset A)" by (rule Context_Validate_pathset [OF v])
  show "pq_Pathset i = ctx_Pathset A" "patchQueueContextDigest A = Inr (pq_ContextDigest i)"
    "pq_QueueID i = TrimSpace (pqr_QueueID (ctx_PatchQueue A))" "pq_ItemID i = TrimSpace (pqr_ItemID (ctx_PatchQueue A))"
    "pq_RepoLeaseID i = TrimSpace (lr_ID (ctx_Lease A))" "pq_LeaseTerm i = lr_Term (ctx_Lease A)"
    using g(5) NormalizePathSet_canonical [OF can] unfolding verifyPatchQueueItemContext_def by (auto split: sum.splits)
qed

definition ready_binding :: "Context \<Rightarrow> PatchQueueItem \<Rightarrow> MutationBindingEvidence" where
  "ready_binding A i = (binding_fields A i)\<lparr>be_MissingRefs := [], be_Mismatches := [], ev_Ready := True, ev_State := ''ready''\<rparr>"

lemma base_files_valid:
  assumes "Context_Validate A = None" and "(p, h) \<in> set (base_FileHashes (ctx_Base A))"
  shows "NormalizePath p = Inr p" and "pathsetCoversPath (ctx_Pathset A) p"
proof -
  have "\<forall>x \<in> set (base_FileHashes (ctx_Base A)). validate_base_file (ctx_Pathset A) x = None"
    using assms(1) unfolding Context_Validate_def validateBaseIdentity_def by (simp add: guards_None)
  with assms(2) have "validate_base_file (ctx_Pathset A) (p, h) = None" by blast
  then show "NormalizePath p = Inr p" "pathsetCoversPath (ctx_Pathset A) p"
    unfolding validate_base_file_def by (auto split: sum.splits)
qed

lemma clean_base:
  assumes "clean_context A" and "Context_Validate A = None"
  shows "trim_hashes (base_FileHashes (ctx_Base A)) = base_FileHashes (ctx_Base A)"
    and "\<forall>(p, h) \<in> set (base_FileHashes (ctx_Base A)). TrimSpace p = p \<and> p \<noteq> []"
proof -
  have "\<forall>(p, h) \<in> set (base_FileHashes (ctx_Base A)). TrimSpace p = p \<and> TrimSpace h = h"
    using assms(1) base_files_valid(1) [OF assms(2)] NormalizePath_fixed_trimmed
    unfolding clean_context_def by (fastforce simp: list_all_iff trimmed_def)
  then show "trim_hashes (base_FileHashes (ctx_Base A)) = base_FileHashes (ctx_Base A)"
    using assms(1) by (intro trim_hashes_clean) (simp_all add: clean_context_def)
  show "\<forall>(p, h) \<in> set (base_FileHashes (ctx_Base A)). TrimSpace p = p \<and> p \<noteq> []"
    using base_files_valid(1) [OF assms(2)] NormalizePath_fixed_trimmed NormalizePath_not_Nil by fastforce
qed

lemma ready_binding_context:
  assumes "clean_context A" and "Context_Validate A = None"
  shows "mutationBindingEvidenceContext (ready_binding A i) = A\<lparr>ctx_Schema := []\<rparr>"
proof -
  have keys: "filter (\<lambda>(p, h). TrimSpace p \<noteq> []) (base_FileHashes (ctx_Base A)) = base_FileHashes (ctx_Base A)"
    using clean_base(2) [OF assms] by (fastforce intro: filter_True)
  have ps: "normal_or_given (ctx_Pathset A) = ctx_Pathset A"
    using NormalizePathSet_canonical [OF Context_Validate_pathset(1) [OF assms(2)]] by (simp add: normal_or_given_def)
  have t: "list_all trimmed
     [ctx_Mode A, ctx_WorkspaceID A, ctx_TaskID A, ctx_SessionID A, ctx_RunID A, ctx_AgentID A, pr_Type (ctx_Principal A),
      pr_ID (ctx_Principal A), cs_ID (ctx_CapabilitySnapshot A), cs_Schema (ctx_CapabilitySnapshot A), ctx_RepoRoot A,
      base_Ref (ctx_Base A), base_TreeHash (ctx_Base A), lr_ID (ctx_Lease A), pqr_QueueID (ctx_PatchQueue A), pqr_ItemID (ctx_PatchQueue A),
      op_ID (ctx_Operation A), op_Kind (ctx_Operation A)]"
    using assms(1) unfolding clean_context_def by simp
  show ?thesis
    unfolding mutationBindingEvidenceContext_def ready_binding_def binding_fields_def
    using t clean_base(1) [OF assms] keys ps
    by (intro Context.equality PrincipalRef.equality CapabilitySnapshotRef.equality BaseIdentity.equality LeaseRef.equality
        PatchQueueRef.equality OperationRef.equality) (simp_all add: trimmed_def)
qed

lemma TrimSpace_ready [simp]: "TrimSpace ''ready'' = ''ready''"
  by code_simp

lemma mode_not_blank: "Context_Validate A = None \<Longrightarrow> TrimSpace (ctx_Mode A) \<noteq> []"
  by (auto simp: Context_Validate_def ModePatchOnlyTempRepo_def ModeControlledQueue_def)

lemma bound_context_facts:
  assumes "Context_Validate A = None" and "requireConcreteMutationOperationRefs A = None"
  shows "TrimSpace (base_Ref (ctx_Base A)) \<noteq> [] \<or> TrimSpace (base_TreeHash (ctx_Base A)) \<noteq> []" and "0 < lr_Term (ctx_Lease A)"
    and "TrimSpace (op_Kind (ctx_Operation A)) \<in> set allowedMutationOperationKinds"
    and "\<forall>v \<in> {lr_ID (ctx_Lease A), pqr_QueueID (ctx_PatchQueue A), pqr_ItemID (ctx_PatchQueue A), op_ID (ctx_Operation A), op_Kind (ctx_Operation A)}.
      TrimSpace v \<noteq> [] \<and> \<not> isVagueRepoAuthorityLabel (TrimSpace v)"
proof -
  show "TrimSpace (base_Ref (ctx_Base A)) \<noteq> [] \<or> TrimSpace (base_TreeHash (ctx_Base A)) \<noteq> []"
    using assms(1) unfolding Context_Validate_def guards_Cons_None validateBaseIdentity_def by auto
  have "rejectVagueBindingLabel ''repo_lease_id'' (lr_ID (ctx_Lease A)) = None" "rejectVagueBindingLabel ''patch_queue_id'' (pqr_QueueID (ctx_PatchQueue A)) = None"
    "rejectVagueBindingLabel ''patch_queue_item_id'' (pqr_ItemID (ctx_PatchQueue A)) = None"
    "rejectVagueBindingLabel ''operation_id'' (op_ID (ctx_Operation A)) = None" "rejectVagueBindingLabel ''operation_kind'' (op_Kind (ctx_Operation A)) = None"
    "0 < lr_Term (ctx_Lease A)" "TrimSpace (op_Kind (ctx_Operation A)) \<in> set allowedMutationOperationKinds"
    using assms(2) unfolding requireConcreteMutationOperationRefs_def guards_Cons_None fail_if_None by auto
  then show "0 < lr_Term (ctx_Lease A)" "TrimSpace (op_Kind (ctx_Operation A)) \<in> set allowedMutationOperationKinds"
    "\<forall>v \<in> {lr_ID (ctx_Lease A), pqr_QueueID (ctx_PatchQueue A), pqr_ItemID (ctx_PatchQueue A), op_ID (ctx_Operation A), op_Kind (ctx_Operation A)}.
      TrimSpace v \<noteq> [] \<and> \<not> isVagueRepoAuthorityLabel (TrimSpace v)"
    unfolding rejectVague_None by simp_all
qed

lemma binding_digests:
  assumes "Context_Validate A = None" and "WithDefaults A = A"
  shows "Context_Digest A = Inr (json_digest (json_context A))"
    and "patchQueueContextDigest A = Inr d \<Longrightarrow> \<exists>j. d = json_digest j"
  using assms by (auto simp: Context_Digest_def Let_def patchQueueContextDigest_def)

lemma ready_binding_refs:
  assumes "mutationBindingReady a i = None"
  defines "A \<equiv> WithDefaults a"
  shows "mutationBindingEvidenceMissingRefs (binding_fields A i) = []" and "mutationBindingEvidenceMismatches (binding_fields A i) = []"
    and "mutationBindingEvidenceReady (ready_binding A i)"
proof -
  note f = binding_ready_facts [OF assms(1), folded A_def]
  note c = bound_context_facts [OF f(1,2)]
  note ids = Context_Validate_ids [OF f(1)] mode_not_blank [OF f(1)]
  have idem: "WithDefaults A = A" unfolding A_def by (rule WithDefaults_idem)
  obtain j where j: "pq_ContextDigest i = json_digest j" using binding_digests(2) [OF f(1) idem f(7)] by blast
  have ps: "normal_or_given (ctx_Pathset A) = ctx_Pathset A" using NormalizePathSet_canonical [OF f(4)] by (simp add: normal_or_given_def)
  have item: "TrimSpace (pq_QueueID i) = TrimSpace (pqr_QueueID (ctx_PatchQueue A))" "TrimSpace (pq_ItemID i) = TrimSpace (pqr_ItemID (ctx_PatchQueue A))"
    "TrimSpace (pq_RepoLeaseID i) = TrimSpace (lr_ID (ctx_Lease A))"
    unfolding f(8-10) by simp_all
  have schema: "TrimSpace PatchQueueItemSchemaVersion = PatchQueueItemSchemaVersion" "PatchQueueItemSchemaVersion \<noteq> []" by code_simp+
  show "mutationBindingEvidenceMissingRefs (binding_fields A i) = []"
    unfolding mutationBindingEvidenceMissingRefs_def missing_text_def missing_label_def missing_kind_def rejectVague_None
    using c ids f(3) by (simp add: binding_fields_def f(5,6,11-13) item j ps schema)
  show "mutationBindingEvidenceMismatches (binding_fields A i) = []"
    unfolding mutationBindingEvidenceMismatches_def mismatch_text_def Let_def
    by (simp add: binding_fields_def f(5-7,11-13) item j)
  have cd: "Context_Digest A = Inr (json_digest (json_context A))" by (rule binding_digests(1) [OF f(1) idem])
  show "mutationBindingEvidenceReady (ready_binding A i)"
    unfolding mutationBindingEvidenceReady_def ready_binding_def
    using c ids f(3) by (simp add: binding_fields_def f(5-7,11-13) item j ps schema cd ready_error_def)
qed

lemma build_binding_ready:
  assumes "mutationBindingReady a i = None"
  shows "buildMutationBindingEvidence a i True = Some (ready_binding (WithDefaults a) i)"
proof -
  have "mutationBindingReady (WithDefaults a) i = None" using assms by (simp add: mutationBindingReady_def)
  moreover have "mutationBindingEvidenceMismatches (e\<lparr>be_MissingRefs := xs\<rparr>) = mutationBindingEvidenceMismatches e" for e xs
    by (simp add: mutationBindingEvidenceMismatches_def)
  ultimately show ?thesis
    unfolding buildMutationBindingEvidence_def Let_def ready_binding_def by (simp add: ready_binding_refs [OF assms])
qed

lemma WithDefaults_blank:
  assumes "Context_Validate A = None" "WithDefaults A = A" "trimmed (ctx_Schema A)"
  shows "WithDefaults (A\<lparr>ctx_Schema := []\<rparr>) = A"
proof -
  have "ctx_Schema (WithDefaults A) = ctx_Schema A" by (simp only: assms(2))
  moreover have "TrimSpace (ctx_Schema A) = [] \<or> TrimSpace (ctx_Schema A) = SchemaVersion"
    using assms(1) unfolding Context_Validate_def guards_Cons_None fail_if_None by simp
  ultimately have "ctx_Schema A = SchemaVersion" using assms(3) by (auto simp: WithDefaults_def trimmed_def)
  then show ?thesis by (simp add: WithDefaults_def)
qed

text \<open>Everything the verifier asks of the binding follows from its readiness and from clean texts.\<close>

lemma ready_binding_verified:
  assumes "mutationBindingReady a i = None" and "clean_context (WithDefaults a)"
  defines "A \<equiv> WithDefaults a"
  shows "verifyMutationBindingEvidence (ready_binding A i) = None"
proof -
  note f = binding_ready_facts [OF assms(1), folded A_def] and r = ready_binding_refs [OF assms(1), folded A_def]
  have clean: "clean_context A" using assms(2) by (simp add: A_def)
  have idem: "WithDefaults A = A" unfolding A_def by (rule WithDefaults_idem)
  note hashes = clean_base [OF clean f(1)]
  have blank: "WithDefaults (A\<lparr>ctx_Schema := []\<rparr>) = A"
    by (rule WithDefaults_blank [OF f(1) idem]) (use clean in \<open>simp add: clean_context_def\<close>)
  have ps: "normal_or_given (ctx_Pathset A) = ctx_Pathset A" using NormalizePathSet_canonical [OF f(4)] by (simp add: normal_or_given_def)
  have cd: "Context_Digest A = Inr (json_digest (json_context A))" by (rule binding_digests(1) [OF f(1) idem])
  obtain j where j: "pq_ContextDigest i = json_digest j" using binding_digests(2) [OF f(1) idem f(7)] by blast
  have same: "Context_Digest (A\<lparr>ctx_Schema := []\<rparr>) = Context_Digest A" "patchQueueContextDigest (A\<lparr>ctx_Schema := []\<rparr>) = patchQueueContextDigest A"
    by (simp_all only: Context_Digest_def patchQueueContextDigest_def blank idem)
  let ?hs = "base_FileHashes (ctx_Base A)"
  have keys: "map (\<lambda>(p, h). TrimSpace p) ?hs = map fst ?hs" using hashes(2) by (auto intro!: map_cong)
  have files: "set (normal_or_given (map fst ?hs)) \<subseteq> fst ` set ?hs"
  proof -
    have fixed: "\<forall>p \<in> set (map fst ?hs). NormalizePath p = Inr p" using base_files_valid(1) [OF f(1)] by auto
    show ?thesis
    proof (cases "NormalizePathSet (map fst ?hs)")
      case (Inr ps)
      with fixed have "set ps \<subseteq> set (map fst ?hs)" using NormalizePathSet_Inr [OF Inr] by auto
      with Inr show ?thesis by (simp add: normal_or_given_def)
    qed (simp add: normal_or_given_def)
  qed
  have norm: "normal_paths fm (ctx_Pathset A) = None" for fm
    using f(4) by (simp add: normal_paths_def guards_None canonical_pathset_def)
  have refs: "mutationBindingEvidenceMissingRefs (ready_binding A i) = []" "mutationBindingEvidenceMismatches (ready_binding A i) = []"
    using r(1,2) unfolding mutationBindingEvidenceMissingRefs_def mutationBindingEvidenceMismatches_def ready_binding_def by simp_all
  have fl: "ev_Ready (ready_binding A i)" "ev_State (ready_binding A i) = ''ready''" "be_MissingRefs (ready_binding A i) = []"
    "be_Mismatches (ready_binding A i) = []" "be_ContextDigest (ready_binding A i) = json_digest (json_context A)" "be_ContextDigestError (ready_binding A i) = []"
    "be_PatchQueueContextDigest (ready_binding A i) = json_digest j" "be_PatchQueueContextError (ready_binding A i) = []"
    "be_BaseFileHashes (ready_binding A i) = ?hs" "be_BaseFileHashCount (ready_binding A i) = int (length ?hs)"
    "be_BaseFileHashPaths (ready_binding A i) = normal_or_given (map fst ?hs)" "be_Pathset (ready_binding A i) = ctx_Pathset A"
    "be_PatchQueueItemPathset (ready_binding A i) = ctx_Pathset A"
    by (simp_all add: ready_binding_def binding_fields_def cd f(5,7) j ready_error_def hashes(1) keys ps)
  have dig: "verifyMutationBindingEvidenceDigests (ready_binding A i) = None"
    unfolding verifyMutationBindingEvidenceDigests_def Let_def ready_binding_context [OF clean f(1)] same cd f(7) j mutationBindingEvidenceDigestResult_def
    by (simp add: fl)
  have base: "guards (map (\<lambda>p. guards
          [fail_if (NormalizePath p \<noteq> Inr p) (x p), fail_if (ctx_Pathset A \<noteq> [] \<and> \<not> pathsetCoversPath (ctx_Pathset A) p) (y p)])
        (normal_or_given (map fst ?hs))) = None" for x y :: "string \<Rightarrow> err"
    using files base_files_valid [OF f(1)] by (fastforce simp: guards_None)
  show ?thesis
    unfolding verifyMutationBindingEvidence_def Let_def guards_Cons_None fl
    by (simp add: fl(1) r(3) refs dig norm canonical_digests_None keys base)
qed

subsection \<open>The other evidence\<close>

text \<open>The evidence that the builders return when the checks pass.\<close>

lemma settle_None [simp]: "settle None e = e\<lparr>ev_Ready := True, ev_State := ''ready''\<rparr>"
  by (simp add: settle_def)

lemma matches_itemI:
  assumes "TrimSpace (ev_Schema b) = TrimSpace (ev_Schema e)" "TrimSpace (ev_QueueID b) = TrimSpace (ev_QueueID e)"
    "TrimSpace (ev_ItemID b) = TrimSpace (ev_ItemID e)" "TrimSpace (ev_Context b) = TrimSpace (ev_Context e)"
    "TrimSpace (ev_RepoLeaseID b) = TrimSpace (ev_RepoLeaseID e)" "TrimSpace (ev_OperationID b) = TrimSpace (ev_OperationID e)"
    "TrimSpace (ev_OperationKind b) = TrimSpace (ev_OperationKind e)" "ev_LeaseTerm b = ev_LeaseTerm e"
    "\<forall>(f, x, y) \<in> set rows. TrimSpace x = TrimSpace y"
  shows "matches_item kind other rows b e = None"
  using assms unfolding matches_item_def item_rows_def by (auto simp: same_fields_None)

abbreviation ready_merge :: "PatchQueueItem \<Rightarrow> MergeAdmissionEvidence" where
  "ready_merge i \<equiv> settle None (merge_fields i)"

lemma ready_merge_ok:
  assumes "mutationBindingReady a i = None" and "mergeAdmissionReady a i = None" and "clean_context (WithDefaults a)" and "clean_item i"
  defines "b \<equiv> ready_binding (WithDefaults a) i"
  shows "mergeAdmissionEvidenceReady b (ready_merge i)" and "verifyMergeAdmissionEvidence b (ready_merge i) = None"
proof -
  let ?A = "WithDefaults a"
  note f = binding_ready_facts [OF assms(1)]
  have blank: "WithDefaults (?A\<lparr>ctx_Schema := []\<rparr>) = ?A"
    by (rule WithDefaults_blank [OF f(1) WithDefaults_idem]) (use assms(3) in \<open>simp add: clean_context_def\<close>)
  have ps: "normal_or_given (ctx_Pathset ?A) = ctx_Pathset ?A" using NormalizePathSet_canonical [OF f(4)] by (simp add: normal_or_given_def)
  have t: "TrimSpace (pq_State i) = pq_State i" "TrimSpace (pq_CASPatchDigest i) = pq_CASPatchDigest i"
    "TrimSpace (pq_CASEvaluationDigest i) = pq_CASEvaluationDigest i" "TrimSpace (pq_TestEvidenceDigest i) = pq_TestEvidenceDigest i"
    using assms(4) by (simp_all add: clean_item_defs trimmed_def)
  have m: "mergeAdmissionReady (mutationBindingEvidenceContext b) (patchQueueItemFromMergeAdmissionEvidence (ready_merge i)) = None"
    using assms(2) unfolding b_def ready_binding_context [OF assms(3) f(1)] mergeAdmissionReady_def blank Let_def
    by (simp add: merge_fields_def patchQueueItemFromMergeAdmissionEvidence_def item_of_evidence_def zero_item_def t)
  have match: "verifyMergeAdmissionEvidenceMatchesMutationBinding b (ready_merge i) = None"
    unfolding verifyMergeAdmissionEvidenceMatchesMutationBinding_def
    by (simp add: b_def ready_binding_def binding_fields_def merge_fields_def matches_itemI)
  show ready: "mergeAdmissionEvidenceReady b (ready_merge i)"
    unfolding merge_evidence.ready_facts recomputeMergeAdmissionEvidence_def using m match by (simp add: merge_fields_def)
  have "isCanonicalSHA256Digest (pq_CASPatchDigest i)" "isCanonicalSHA256Digest (pq_CASEvaluationDigest i)" "isCanonicalSHA256Digest (pq_TestEvidenceDigest i)"
    using assms(2) unfolding mergeAdmissionReady_def Let_def guards_Cons_None patchQueueVerificationEvidenceReady_def fail_if_None by simp_all
  then have "merge_form (ready_merge i)"
    using f(4) by (simp add: merge_form_def merge_fields_def t ps [simplified] f(5) list_all_iff canonical_pathset_def)
  with ready show "verifyMergeAdmissionEvidence b (ready_merge i) = None" by (rule merge_evidence.ready_verified)
qed

abbreviation ready_retry :: "PatchQueueItem \<Rightarrow> RetryBoundEvidence" where
  "ready_retry i \<equiv> settle None (retry_fields i)"

lemma ready_retry_ok:
  assumes "boundedRetryReady i = None" and "clean_item i"
  shows "retryBoundEvidenceReady (ready_binding A i) (ready_retry i)" and "verifyRetryBoundEvidence (ready_binding A i) (ready_retry i) = None"
proof -
  have "boundedRetryReady (patchQueueItemFromRetryBoundEvidence (ready_retry i)) = None"
    using assms(1) unfolding boundedRetryReady_def patchQueueItemFromRetryBoundEvidence_def retry_fields_def by simp
  moreover have "verifyRetryBoundEvidenceMatchesMutationBinding (ready_binding A i) (ready_retry i) = None"
    unfolding verifyRetryBoundEvidenceMatchesMutationBinding_def
    by (rule matches_itemI) (simp_all add: ready_binding_def binding_fields_def retry_fields_def)
  ultimately show ready: "retryBoundEvidenceReady (ready_binding A i) (ready_retry i)"
    unfolding retry_evidence.ready_facts recomputeRetryBoundEvidence_def by (simp add: retry_fields_def)
  have "verifyRetryBoundEvidenceTimestamps (ready_retry i) = None"
    using assms(2) unfolding verifyRetryBoundEvidenceTimestamps_def clean_item_defs by (auto simp: retry_fields_def)
  with ready show "verifyRetryBoundEvidence (ready_binding A i) (ready_retry i) = None" by (rule retry_evidence.ready_verified)
qed

lemma rollback_ready_cong:
  assumes "pq_OperationID i = pq_OperationID j" "pq_OperationKind i = pq_OperationKind j" "pq_CASPatchDigest i = pq_CASPatchDigest j"
    "pq_CASResult i = pq_CASResult j" "pq_Pathset i = pq_Pathset j"
  shows "rollbackEvidenceReady e i = rollbackEvidenceReady e j"
  unfolding rollbackEvidenceReady_def normalizePatchQueueRollbackPaths_def assms by (rule refl)

abbreviation ready_rollback :: "PatchQueueItem \<Rightarrow> PatchQueueRollback \<Rightarrow> RollbackProofEvidence" where
  "ready_rollback i rb \<equiv> settle None (rollback_fields i rb)"

lemma ready_rollback_ok:
  assumes "mutationBindingReady a i = None" and "rollbackEvidenceReady rb i = None" and "clean_item i"
    and "clonePatchQueueRollbackEvidence rb = rb" and "pq_RollbackEvidenceDigest i = digestPatchQueueRollbackEvidence rb"
    and digests: "isCanonicalSHA256Digest (pq_CASPatchDigest i)" "isCanonicalSHA256Digest (pq_CASEvaluationDigest i)"
  defines "b \<equiv> ready_binding (WithDefaults a) i"
  shows "rollbackProofEvidenceReady b (ready_merge i) (ready_rollback i rb)"
    and "verifyRollbackProofEvidence b (ready_merge i) (ready_rollback i rb) = None"
    and "rpe_RollbackEvidenceDigest (ready_rollback i rb) = pq_RollbackEvidenceDigest i"
proof -
  note f = binding_ready_facts [OF assms(1)] and r = rollback_ready_facts [OF assms(2)]
  have ps: "normal_or_given (pq_Pathset i) = pq_Pathset i"
    using NormalizePathSet_canonical [OF f(4)] by (simp add: normal_or_given_def f(5))
  have t: "TrimSpace (pq_CASPatchDigest i) = pq_CASPatchDigest i" "TrimSpace (pq_CASEvaluationDigest i) = pq_CASEvaluationDigest i"
    "TrimSpace (pq_OperationID i) = pq_OperationID i" "TrimSpace (pq_OperationKind i) = pq_OperationKind i"
    "TrimSpace (pq_RollbackEvidenceDigest i) = pq_RollbackEvidenceDigest i"
    using assms(3) by (simp_all add: clean_item_defs trimmed_def)
  have d: "pq_RollbackEvidenceDigest i \<noteq> []" "isCanonicalSHA256Digest (pq_RollbackEvidenceDigest i)"
    unfolding assms(5) digestPatchQueueRollbackEvidence_def by simp_all
  show dig: "rpe_RollbackEvidenceDigest (ready_rollback i rb) = pq_RollbackEvidenceDigest i"
    by (simp add: rollback_fields_def t d Let_def)
  have "rollbackEvidenceReady rb (patchQueueItemFromMergeAdmissionEvidence (ready_merge i)) = rollbackEvidenceReady rb i"
    by (rule rollback_ready_cong)
      (simp_all add: patchQueueItemFromMergeAdmissionEvidence_def item_of_evidence_def merge_fields_def t ps)
  then have roll: "rollbackEvidenceReady rb (patchQueueItemFromMergeAdmissionEvidence (ready_merge i)) = None" using assms(2) by simp
  have match: "verifyRollbackProofEvidenceMatchesMutationBinding b (ready_rollback i rb) = None"
    "verifyRollbackProofEvidenceMatchesMergeAdmission (ready_merge i) (ready_rollback i rb) = None"
    unfolding verifyRollbackProofEvidenceMatchesMutationBinding_def verifyRollbackProofEvidenceMatchesMergeAdmission_def
    by (rule matches_itemI; simp add: b_def ready_binding_def binding_fields_def rollback_fields_def merge_fields_def assms(4) r(4))+
  have ev: "rpe_RollbackEvidence (ready_rollback i rb) = rb" by (simp add: rollback_fields_def assms(4))
  show ready: "rollbackProofEvidenceReady b (ready_merge i) (ready_rollback i rb)"
    unfolding rollback_evidence.ready_facts recomputeRollbackProofEvidence_def ev dig t
    using match roll d(1) assms(5) by (simp add: rollback_fields_def)
  have "time_Parse (TrimSpace (rb_RecordedAt rb)) \<noteq> None"
    using assms(2) unfolding rollbackEvidenceReady_def guards_Cons_None bad_time_def fail_if_None by simp
  then have "rollback_form (ready_rollback i rb)"
    unfolding rollback_form_def ev dig using digests d(2) by (simp add: rollback_fields_def t)
  with ready show "verifyRollbackProofEvidence b (ready_merge i) (ready_rollback i rb) = None" by (rule rollback_evidence.ready_verified)
qed

lemma activation_constants [simp]:
  "TrimSpace PatchQueueReviewerAdvisorySchema \<noteq> []" "TrimSpace MutationActivationReviewerMeshAdvisoryOnly \<noteq> []"
  "TrimSpace PatchQueueReviewerAdvisoryVerdictReviewed \<noteq> []" "TrimSpace PatchQueueOperatorEnablementSchema \<noteq> []"
  "TrimSpace MutationActivationOperatorEnablementScope \<noteq> []"
  by code_simp+

lemma TrimSpace_digests [simp]:
  "TrimSpace (digestPatchQueueReviewerAdvisory adv) = digestPatchQueueReviewerAdvisory adv"
  "TrimSpace (digestPatchQueueOperatorEnablement u) = digestPatchQueueOperatorEnablement u"
  by (simp_all add: digestPatchQueueReviewerAdvisory_def digestPatchQueueOperatorEnablement_def)

abbreviation ready_advisory :: "PatchQueueItem \<Rightarrow> PatchQueueReviewerAdvisory \<Rightarrow> ReviewerAdvisoryEvidence" where
  "ready_advisory i adv \<equiv> settle None (advisory_fields i adv)"

lemma ready_advisory_ok:
  assumes "reviewerAdvisoryReady adv i = None" and "clean_item i" and "clonePatchQueueReviewerAdvisory adv = adv"
    and digests: "pq_ReviewerAdvisoryDigest i \<noteq> []" "isCanonicalSHA256Digest (pq_CASPatchDigest i)" "isCanonicalSHA256Digest (pq_CASEvaluationDigest i)"
      "isCanonicalSHA256Digest (pq_RollbackEvidenceDigest i)"
    and p: "rpe_RollbackEvidenceDigest p = pq_RollbackEvidenceDigest i"
  shows "reviewerAdvisoryEvidenceReady (ready_binding A i) (ready_merge i) p (ready_advisory i adv)"
    and "verifyReviewerAdvisoryEvidence (ready_binding A i) (ready_merge i) p (ready_advisory i adv) = None"
    and "rve_AdvisoryDigest (ready_advisory i adv) = pq_ReviewerAdvisoryDigest i"
    and "pq_ReviewerAdvisoryDigest i = digestPatchQueueReviewerAdvisory adv"
proof -
  have t: "TrimSpace (pq_CASPatchDigest i) = pq_CASPatchDigest i" "TrimSpace (pq_CASEvaluationDigest i) = pq_CASEvaluationDigest i"
    "TrimSpace (pq_RollbackEvidenceDigest i) = pq_RollbackEvidenceDigest i" "TrimSpace (pq_ReviewerAdvisoryDigest i) = pq_ReviewerAdvisoryDigest i"
    using assms(2) by (simp_all add: clean_item_defs trimmed_def)
  show own: "pq_ReviewerAdvisoryDigest i = digestPatchQueueReviewerAdvisory adv"
    using assms(1) digests(1) unfolding reviewerAdvisoryReady_def Let_def assms(3) guards_Cons_None fail_if_None by (simp add: t)
  show dig: "rve_AdvisoryDigest (ready_advisory i adv) = pq_ReviewerAdvisoryDigest i"
    using digests(1) by (simp add: advisory_fields_def t Let_def)
  have ev: "rve_Advisory (ready_advisory i adv) = adv" "rve_RollbackEvidenceDigest (ready_advisory i adv) = pq_RollbackEvidenceDigest i"
    by (simp_all add: advisory_fields_def assms(3) t)
  have adv: "reviewerAdvisoryReady adv (patchQueueItemFromReviewerAdvisoryEvidence (ready_advisory i adv)) = None"
    using assms(1) own unfolding reviewerAdvisoryReady_def Let_def assms(3) guards_Cons_None patchQueueItemFromReviewerAdvisoryEvidence_def dig
    by (simp add: item_of_evidence_def zero_item_def advisory_fields_def same_fields_None required_fields_def t)
  have match: "verifyReviewerAdvisoryEvidenceMatchesMutationBinding (ready_binding A i) (ready_advisory i adv) = None"
    "verifyReviewerAdvisoryEvidenceMatchesMergeAdmission (ready_merge i) (ready_advisory i adv) = None"
    unfolding verifyReviewerAdvisoryEvidenceMatchesMutationBinding_def verifyReviewerAdvisoryEvidenceMatchesMergeAdmission_def
    by (rule matches_itemI; simp add: ready_binding_def binding_fields_def advisory_fields_def merge_fields_def)+
  show ready: "reviewerAdvisoryEvidenceReady (ready_binding A i) (ready_merge i) p (ready_advisory i adv)"
    unfolding advisory_evidence.ready_facts recomputeReviewerAdvisoryEvidence_def ev dig p
    using match adv digests(1) own by (simp add: advisory_fields_def t)
  have "isCanonicalSHA256Digest (pq_ReviewerAdvisoryDigest i)" unfolding own digestPatchQueueReviewerAdvisory_def by simp
  then have "advisory_form (ready_advisory i adv)"
    unfolding advisory_form_def dig ev using digests by (simp add: advisory_fields_def t)
  with ready show "verifyReviewerAdvisoryEvidence (ready_binding A i) (ready_merge i) p (ready_advisory i adv) = None"
    by (rule advisory_evidence.ready_verified)
qed

abbreviation ready_enablement :: "PatchQueueItem \<Rightarrow> PatchQueueOperatorEnablement \<Rightarrow> PatchQueueReviewerAdvisory \<Rightarrow> OperatorEnablementEvidence" where
  "ready_enablement i x adv \<equiv> settle None (enablement_fields i x adv)"

lemma ready_enablement_ok:
  assumes "operatorEnablementReady x i adv = None" and "clean_item i" and "clonePatchQueueOperatorEnablement x = x"
    and digests: "pq_OperatorEnablementDigest i \<noteq> []" "isCanonicalSHA256Digest (pq_CASPatchDigest i)" "isCanonicalSHA256Digest (pq_RollbackEvidenceDigest i)"
      "pq_ReviewerAdvisoryDigest i = digestPatchQueueReviewerAdvisory adv"
    and p: "rpe_RollbackEvidenceDigest p = pq_RollbackEvidenceDigest i"
    and v: "rve_Advisory v = adv" "rve_AdvisoryDigest v = pq_ReviewerAdvisoryDigest i"
  shows "operatorEnablementEvidenceReady (ready_binding A i) (ready_merge i) p v (ready_enablement i x adv)"
    and "verifyOperatorEnablementEvidence (ready_binding A i) (ready_merge i) p v (ready_enablement i x adv) = None"
proof -
  have t: "TrimSpace (pq_CASPatchDigest i) = pq_CASPatchDigest i" "TrimSpace (pq_RollbackEvidenceDigest i) = pq_RollbackEvidenceDigest i"
    "TrimSpace (pq_ReviewerAdvisoryDigest i) = pq_ReviewerAdvisoryDigest i" "TrimSpace (pq_OperatorEnablementDigest i) = pq_OperatorEnablementDigest i"
    using assms(2) by (simp_all add: clean_item_defs trimmed_def)
  have ne: "pq_ReviewerAdvisoryDigest i \<noteq> []" unfolding digests(4) digestPatchQueueReviewerAdvisory_def by simp
  have own: "pq_OperatorEnablementDigest i = digestPatchQueueOperatorEnablement x"
    using assms(1) digests(1) unfolding operatorEnablementReady_def Let_def assms(3) guards_Cons_None fail_if_None by (simp add: t)
  have ev: "oee_Enablement (ready_enablement i x adv) = x" "oee_RollbackEvidenceDigest (ready_enablement i x adv) = pq_RollbackEvidenceDigest i"
    "oee_ReviewerAdvisoryDigest (ready_enablement i x adv) = pq_ReviewerAdvisoryDigest i" "oee_EnablementDigest (ready_enablement i x adv) = pq_OperatorEnablementDigest i"
    using digests(1) ne by (simp_all add: enablement_fields_def assms(3) t Let_def)
  have op: "operatorEnablementReady x (patchQueueItemFromOperatorEnablementEvidence (ready_enablement i x adv)) adv = None"
    using assms(1) own unfolding operatorEnablementReady_def Let_def assms(3) guards_Cons_None patchQueueItemFromOperatorEnablementEvidence_def ev
    by (simp add: item_of_evidence_def zero_item_def enablement_fields_def same_fields_None required_fields_def t)
  have match: "verifyOperatorEnablementEvidenceMatchesMutationBinding (ready_binding A i) (ready_enablement i x adv) = None"
    "verifyOperatorEnablementEvidenceMatchesMergeAdmission (ready_merge i) (ready_enablement i x adv) = None"
    unfolding verifyOperatorEnablementEvidenceMatchesMutationBinding_def verifyOperatorEnablementEvidenceMatchesMergeAdmission_def
    by (rule matches_itemI; simp add: ready_binding_def binding_fields_def enablement_fields_def merge_fields_def)+
  show ready: "operatorEnablementEvidenceReady (ready_binding A i) (ready_merge i) p v (ready_enablement i x adv)"
    unfolding enablement_evidence.ready_facts recomputeOperatorEnablementEvidence_def ev p v
    using match op digests(1) own by (simp add: enablement_fields_def t)
  have "isCanonicalSHA256Digest (pq_ReviewerAdvisoryDigest i)" "isCanonicalSHA256Digest (pq_OperatorEnablementDigest i)"
    unfolding own digests(4) digestPatchQueueReviewerAdvisory_def digestPatchQueueOperatorEnablement_def by simp_all
  then have "enablement_form (ready_enablement i x adv)"
    unfolding enablement_form_def ev using digests by (simp add: enablement_fields_def t)
  with ready show "verifyOperatorEnablementEvidence (ready_binding A i) (ready_merge i) p v (ready_enablement i x adv) = None"
    by (rule enablement_evidence.ready_verified)
qed

subsection \<open>The evaluated result\<close>

lemma evaluate_kept:
  "gr_Schema (EvaluateMutationActivationGates input) = MutationActivationGateSchemaVersion"
  "gr_AuthorityMode (EvaluateMutationActivationGates input) = gr_AuthorityMode (gate_base input)"
  "gr_ContextMode (EvaluateMutationActivationGates input) = gr_ContextMode (gate_base input)"
  "gr_ReviewerMeshMode (EvaluateMutationActivationGates input) = gr_ReviewerMeshMode (gate_base input)"
  "gr_LiveMutationVerifierEnabled (EvaluateMutationActivationGates input) = gi_LiveMutationVerifierEnabled input"
  "gr_LiveMutationActuatorEnabled (EvaluateMutationActivationGates input) = gi_LiveMutationActuatorEnabled input"
  "gr_QueueDurable (EvaluateMutationActivationGates input) = gi_QueueDurable input"
  "gr_DirectMergeDisabled (EvaluateMutationActivationGates input) = gi_DirectMergeDisabled input"
  "gr_Source (EvaluateMutationActivationGates input) = TrimSpace (gi_Source input)"
  "gr_WorktreeIdentity (EvaluateMutationActivationGates input) = cloneWorktreeIdentityEvidence (gi_WorktreeIdentity input)"
  "gr_TargetWorktreeIdentity (EvaluateMutationActivationGates input) = cloneWorktreeIdentityEvidence (gi_TargetWorktreeIdentity input)"
  "gr_MutationBindingEvidence (EvaluateMutationActivationGates input) = gr_MutationBindingEvidence (gate_base input)"
  "gr_MergeAdmissionEvidence (EvaluateMutationActivationGates input) = gr_MergeAdmissionEvidence (gate_base input)"
  "gr_RetryBoundEvidence (EvaluateMutationActivationGates input) = gr_RetryBoundEvidence (gate_base input)"
  "gr_RollbackProofEvidence (EvaluateMutationActivationGates input) = gr_RollbackProofEvidence (gate_base input)"
  "gr_ReviewerAdvisoryEvidence (EvaluateMutationActivationGates input) = gr_ReviewerAdvisoryEvidence (gate_base input)"
  "gr_OperatorEnablementEvidence (EvaluateMutationActivationGates input) = gr_OperatorEnablementEvidence (gate_base input)"
  "gr_MaterializationPreflight (EvaluateMutationActivationGates input) = gr_MaterializationPreflight (gate_base input)"
  by (simp_all add: EvaluateMutationActivationGates_def gate_base_def Let_def)

lemma evaluate_gates:
  "gr_Gates (EvaluateMutationActivationGates input) = gate_list input (gate_base input)"
  "gr_MutationAllowed (EvaluateMutationActivationGates input) = list_all ga_Passed (gate_list input (gate_base input))"
  "gr_Status (EvaluateMutationActivationGates input) =
     (if list_all ga_Passed (gate_list input (gate_base input)) then MutationActivationStatusReady else MutationActivationStatusBlocked)"
  "gr_BlockingReasons (EvaluateMutationActivationGates input) =
     map (\<lambda>g. ga_Name g @ '': '' @ ga_Reason g) (failed_gates (gate_list input (gate_base input)))"
  "gr_Digest (EvaluateMutationActivationGates input) = digestMutationActivationGateResult (EvaluateMutationActivationGates input)"
proof -
  have none: "failed_gates gs = [] \<longleftrightarrow> list_all ga_Passed gs" for gs by (induction gs) (simp_all add: failed_gates_def)
  have dig: "digestMutationActivationGateResult (r\<lparr>gr_Digest := d\<rparr>) = digestMutationActivationGateResult r" for r d
    by (simp add: digestMutationActivationGateResult_def)
  show "gr_Gates (EvaluateMutationActivationGates input) = gate_list input (gate_base input)"
    "gr_MutationAllowed (EvaluateMutationActivationGates input) = list_all ga_Passed (gate_list input (gate_base input))"
    "gr_Status (EvaluateMutationActivationGates input) =
      (if list_all ga_Passed (gate_list input (gate_base input)) then MutationActivationStatusReady else MutationActivationStatusBlocked)"
    "gr_BlockingReasons (EvaluateMutationActivationGates input) =
      map (\<lambda>g. ga_Name g @ '': '' @ ga_Reason g) (failed_gates (gate_list input (gate_base input)))"
    by (simp_all add: EvaluateMutationActivationGates_def Let_def none)
  show "gr_Digest (EvaluateMutationActivationGates input) = digestMutationActivationGateResult (EvaluateMutationActivationGates input)"
    unfolding EvaluateMutationActivationGates_def Let_def by (simp only: dig) simp
qed

lemma gate_fields [simp]:
  "ga_Name (addGate n p x) = n" "ga_Passed (addGate n p x) = p" "ga_Name (err_gate n oc) = n" "ga_Passed (err_gate n oc) \<longleftrightarrow> oc = None"
  "ga_Name (mode_gate n fm x y) = n" "ga_Passed (mode_gate n fm x y) \<longleftrightarrow> x = y"
  by (simp_all add: addGate_def err_gate_def mode_gate_def split: option.splits)

lemma gate_list_names: "map ga_Name (gate_list input r) = mutationActivationRequiredGateNames"
  by (simp add: gate_list_def mutationActivationRequiredGateNames_def Let_def)

lemma gate_names_trimmed: "map TrimSpace mutationActivationRequiredGateNames = mutationActivationRequiredGateNames"
  "[] \<notin> set mutationActivationRequiredGateNames"
  by code_simp+

lemma evaluated_gate_set:
  "verifyMutationActivationGateSet (gate_list input r) = Inr (map (\<lambda>g. (TrimSpace (ga_Name g), g)) (gate_list input r))"
proof -
  let ?gs = "gate_list input r"
  have names: "map (\<lambda>g. TrimSpace (ga_Name g)) ?gs = mutationActivationRequiredGateNames"
    using arg_cong [OF gate_list_names [of input r], of "map TrimSpace"] gate_names_trimmed(1) by (simp add: comp_def)
  have len: "length ?gs = length mutationActivationRequiredGateNames" using arg_cong [OF gate_list_names [of input r], of length] by simp
  have c: "collect_gates [] ?gs = Inr (map (\<lambda>g. (TrimSpace (ga_Name g), g)) ?gs)"
    unfolding collect_gates_Inr names using gate_names_16(2) gate_names_trimmed(2) by simp
  have "map_of (map (\<lambda>g. (TrimSpace (ga_Name g), g)) ?gs) n \<noteq> None" if "n \<in> set mutationActivationRequiredGateNames" for n
    using that unfolding names [symmetric] by (auto simp: map_of_eq_None_iff image_image)
  then have "guards (map (\<lambda>name. fail_if (map_of (map (\<lambda>g. (TrimSpace (ga_Name g), g)) ?gs) name = None) (e name))
      mutationActivationRequiredGateNames) = None" for e :: "string \<Rightarrow> err"
    by (simp only: guards_None set_map ball_simps fail_if_None) blast
  then show ?thesis unfolding verifyMutationActivationGateSet_def by (simp add: len c fail_if_def)
qed

lemma evaluated_invariants:
  assumes "list_all ga_Passed (gate_list input r0)" and "list_all snd (expected_gates r)"
  shows "verifyMutationActivationTopLevelGateInvariants r (map (\<lambda>g. (TrimSpace (ga_Name g), g)) (gate_list input r0)) = None"
proof -
  let ?gs = "gate_list input r0" let ?l = "map (\<lambda>g. (TrimSpace (ga_Name g), g)) ?gs"
  have names: "map (\<lambda>g. TrimSpace (ga_Name g)) ?gs = mutationActivationRequiredGateNames"
    using arg_cong [OF gate_list_names [of input r0], of "map TrimSpace"] gate_names_trimmed(1) by (simp add: comp_def)
  have "gate_passed_in ?l n" if "n \<in> set mutationActivationRequiredGateNames" for n
  proof -
    have "n \<in> fst ` set ?l" using that unfolding names [symmetric] by (auto simp: image_image)
    then obtain g where g: "map_of ?l n = Some g" by (cases "map_of ?l n") (auto simp: map_of_eq_None_iff)
    then have "g \<in> set ?gs" by (auto dest!: map_of_SomeD)
    then have "ga_Passed g" using assms(1) by (simp add: list_all_iff)
    with g show ?thesis by (simp add: gate_passed_in_def)
  qed
  moreover have "n \<in> set mutationActivationRequiredGateNames" "w" if "(n, w) \<in> set (expected_gates r)" for n w
  proof -
    show "n \<in> set mutationActivationRequiredGateNames" using imageI [OF that, of fst] unfolding expected_names [of r, symmetric] by simp
    show w using assms(2) that by (auto simp: list_all_iff)
  qed
  ultimately show ?thesis unfolding verifyMutationActivationTopLevelGateInvariants_def by (auto simp: guards_None)
qed

lemma worktree_clone:
  assumes "worktreeIdentityReady w"
  shows "cloneWorktreeIdentityEvidence w = Some (trim_worktree w)" and "worktreeIdentityReady (trim_worktree w)"
    and "actuatorTargetWorktreeIdentityReady w t \<Longrightarrow> actuatorTargetWorktreeIdentityReady (trim_worktree w) (trim_worktree t)"
proof -
  have paths: "mutationActivationPathsEqual (TrimSpace x) (TrimSpace y) = mutationActivationPathsEqual x y" for x y
    by (simp add: mutationActivationPathsEqual_def)
  have gid: "isCanonicalGitObjectID (TrimSpace x) = isCanonicalGitObjectID x" for x by (simp add: isCanonicalGitObjectID_def)
  show "cloneWorktreeIdentityEvidence w = Some (trim_worktree w)"
    using assms by (simp add: cloneWorktreeIdentityEvidence_def trim_worktree_def worktreeIdentityReady_def)
  have ready: "worktreeIdentityReady (trim_worktree x) = worktreeIdentityReady x" for x
    by (simp add: worktreeIdentityReady_def trim_worktree_def paths gid)
  then show "worktreeIdentityReady (trim_worktree w)" using assms by simp
  show "actuatorTargetWorktreeIdentityReady (trim_worktree w) (trim_worktree t)" if "actuatorTargetWorktreeIdentityReady w t"
    using that unfolding actuatorTargetWorktreeIdentityReady_def ready by (auto simp: trim_worktree_def paths)
qed

subsection \<open>The preflight\<close>

lemma canonical_trim [simp]: "isCanonicalSHA256Digest (TrimSpace d) = isCanonicalSHA256Digest d"
  by (simp add: isCanonicalSHA256Digest_def)

lemma canonical_cong: "TrimSpace c = TrimSpace d \<Longrightarrow> isCanonicalSHA256Digest c = isCanonicalSHA256Digest d"
  using canonical_trim [of c] canonical_trim [of d] by simp

lemma built_preflight:
  assumes "buildMaterializationPreflightEvidence i w m a True = Some e"
  shows "mp_CASPatchDigest e = TrimSpace (pq_CASPatchDigest i)" "mp_CASEvaluationDigest e = TrimSpace (pq_CASEvaluationDigest i)"
    "mp_RollbackEvidenceDigest e = TrimSpace (pq_RollbackEvidenceDigest i)" "mp_ReviewerAdvisoryDigest e = TrimSpace (pq_ReviewerAdvisoryDigest i)"
    "mp_OperatorEnablementDigest e = TrimSpace (pq_OperatorEnablementDigest i)"
    "mp_AuthorityProof e = (if hasPatchMaterializationAuthorityProof a then Some a else None)"
    "ev_Ready e \<Longrightarrow> ev_State e = ''ready'' \<and> ev_ReadyError e = []"
  using assms unfolding buildMaterializationPreflightEvidence_def
  by (auto simp: Let_def preflight_fields_def split: option.splits if_splits)

lemma preflight_verified:
  assumes build: "buildMaterializationPreflightEvidence i w m a True = Some e" and ready: "materializationPreflightEvidenceReady b mg p v u wt e"
    and digests: "isCanonicalSHA256Digest (pq_CASPatchDigest i)" "isCanonicalSHA256Digest (pq_CASEvaluationDigest i)"
      "isCanonicalSHA256Digest (pq_RollbackEvidenceDigest i)" "isCanonicalSHA256Digest (pq_ReviewerAdvisoryDigest i)"
      "isCanonicalSHA256Digest (pq_OperatorEnablementDigest i)"
  shows "verifyMaterializationPreflightEvidence b mg p v u wt e = None"
proof -
  note f = built_preflight [OF build]
  have r: "ev_Ready e" and re: "recomputeMaterializationPreflightEvidence b mg p v u wt e = None"
    using ready by (simp_all add: materializationPreflightEvidenceReady_def)
  have "isCanonicalSHA256Digest (pd_MaterializationDigest (mp_Materialization e))"
    "TrimSpace (pd_MaterializationDigest (mp_Materialization e)) = TrimSpace (mp_MaterializationDigest e)"
    using re unfolding recomputeMaterializationPreflightEvidence_def Let_def guards_Cons_None validatePatchMaterializationDiagnostic_def fail_if_None
    by simp_all
  then have "isCanonicalSHA256Digest (mp_MaterializationDigest e)" using canonical_cong by blast
  then have "preflight_digests e = None"
    unfolding preflight_digests_def using digests by (simp add: canonical_digests_None f(1-6) split: option.splits)
  moreover have "ev_State e = ''ready''" "ev_ReadyError e = []" using f(7) [OF r] by simp_all
  ultimately show ?thesis unfolding verifyMaterializationPreflightEvidence_def Let_def re by (simp add: r ready_error_def)
qed

lemma recorded_digests:
  assumes "recomputeMaterializationPreflightEvidence b mg p (ready_advisory i adv) (ready_enablement i x adv) wt e = None"
    and "buildMaterializationPreflightEvidence i w m a True = Some e"
    and "reviewerAdvisoryReady adv i = None" and "operatorEnablementReady x i adv = None"
  shows "TrimSpace (pq_ReviewerAdvisoryDigest i) \<noteq> []" and "TrimSpace (pq_OperatorEnablementDigest i) \<noteq> []"
proof -
  note f = built_preflight [OF assms(2)]
  have m: "TrimSpace (rve_AdvisoryDigest (ready_advisory i adv)) = TrimSpace (pq_ReviewerAdvisoryDigest i)"
    "TrimSpace (oee_EnablementDigest (ready_enablement i x adv)) = TrimSpace (pq_OperatorEnablementDigest i)"
    using assms(1) f unfolding recomputeMaterializationPreflightEvidence_def Let_def guards_Cons_None fail_if_None by simp_all
  have "TrimSpace (ra_Schema (clonePatchQueueReviewerAdvisory adv)) \<noteq> []"
    using assms(3) unfolding reviewerAdvisoryReady_def Let_def guards_Cons_None required_fields_def by simp
  then have "reviewerAdvisoryRawHasAnyEvidence (clonePatchQueueReviewerAdvisory adv)"
    by (simp add: reviewerAdvisoryRawHasAnyEvidence_def any_text_def)
  then show "TrimSpace (pq_ReviewerAdvisoryDigest i) \<noteq> []"
    using m(1) by (auto simp: advisory_fields_def Let_def digestPatchQueueReviewerAdvisory_def)
  have "TrimSpace (oe_Schema (clonePatchQueueOperatorEnablement x)) \<noteq> []"
    using assms(4) unfolding operatorEnablementReady_def Let_def guards_Cons_None required_fields_def by simp
  then have "operatorEnablementRawHasAnyEvidence (clonePatchQueueOperatorEnablement x)"
    by (simp add: operatorEnablementRawHasAnyEvidence_def any_text_def)
  then show "TrimSpace (pq_OperatorEnablementDigest i) \<noteq> []"
    using m(2) by (auto simp: enablement_fields_def Let_def digestPatchQueueOperatorEnablement_def)
qed

subsection \<open>Allowed results\<close>

text \<open>The gates of an allowed activation, one by one.\<close>

lemma allowed_gates:
  assumes "gr_MutationAllowed (EvaluateMutationActivationGates input)"
  defines "i \<equiv> gi_PatchQueueItem input" and "a \<equiv> gi_Context input" and "r0 \<equiv> gate_base input"
  shows "gr_AuthorityMode r0 = MutationActivationAuthorityModeControlledQueue" "gr_ContextMode r0 = MutationActivationAuthorityModeControlledQueue"
    "gr_ReviewerMeshMode r0 = MutationActivationReviewerMeshAdvisoryOnly" "gi_DirectMergeDisabled input" "gi_QueueDurable input"
    "gi_LiveMutationVerifierEnabled input" "gi_LiveMutationActuatorEnabled input"
    "worktreeIdentityReady (gi_WorktreeIdentity input)" "actuatorTargetWorktreeIdentityReady (gi_WorktreeIdentity input) (gi_TargetWorktreeIdentity input)"
    "mutationBindingReady a i = None" "mergeAdmissionReady a i = None" "boundedRetryReady i = None" "rollbackEvidenceReady (gi_RollbackEvidence input) i = None"
    "reviewerAdvisoryReady (gi_ReviewerAdvisory input) i = None" "operatorEnablementReady (gi_OperatorEnablement input) i (gi_ReviewerAdvisory input) = None"
    "mutationActivationResultMaterializationPreflightReady r0"
  using assms(1) unfolding evaluate_gates(2) gate_list_def Let_def i_def a_def r0_def by simp_all

lemma clean_defaults: "clean_context a \<Longrightarrow> clean_context (WithDefaults a)"
proof -
  have "trimmed SchemaVersion" by code_simp
  then show "clean_context a \<Longrightarrow> clean_context (WithDefaults a)" by (simp add: clean_context_def WithDefaults_def)
qed

text \<open>The evidence of an allowed activation is ready, and passes the verifier.\<close>

lemma allowed_evidence:
  assumes clean: "clean_input input" and cand: "source_is_candidate (gi_Source input)"
    and allowed: "gr_MutationAllowed (EvaluateMutationActivationGates input)"
  defines "r \<equiv> EvaluateMutationActivationGates input"
  shows "list_all snd (expected_gates r)" and "verify_evidence r = None"
proof -
  let ?i = "gi_PatchQueueItem input" and ?a = "gi_Context input" and ?adv = "gi_ReviewerAdvisory input" and ?x = "gi_OperatorEnablement input"
    and ?rb = "gi_RollbackEvidence input" and ?w = "gi_WorktreeIdentity input" and ?t = "gi_TargetWorktreeIdentity input"
  note g = allowed_gates [OF allowed]
  have c: "clean_context (WithDefaults ?a)" "clean_item ?i" "clonePatchQueueRollbackEvidence ?rb = ?rb" "clonePatchQueueReviewerAdvisory ?adv = ?adv"
    "clonePatchQueueOperatorEnablement ?x = ?x" "pq_RollbackEvidenceDigest ?i = digestPatchQueueRollbackEvidence ?rb"
    using clean clean_defaults by (simp_all add: clean_input_def trimmed_input_def clean_item_def)
  define B where "B = ready_binding (WithDefaults ?a) ?i"
  have wt: "worktreeIdentityReady ?t" using g(9) by (simp add: actuatorTargetWorktreeIdentityReady_def)
  note trees = worktree_clone(1) [OF g(8)] worktree_clone(1) [OF wt] worktree_clone(2) [OF g(8)] worktree_clone(3) [OF g(8) g(9)]
  have merged: "mergeAdmissionReady (WithDefaults ?a) ?i = None" using g(11) by (simp add: mergeAdmissionReady_def)
  obtain e where e: "buildMaterializationPreflightEvidence ?i ?w (gi_PatchMaterialization input) (gi_PatchMaterializationProof input) True = Some e"
    unfolding buildMaterializationPreflightEvidence_def by (simp add: Let_def)
  have ev: "gr_MutationBindingEvidence r = Some B" "gr_MergeAdmissionEvidence r = Some (ready_merge ?i)" "gr_RetryBoundEvidence r = Some (ready_retry ?i)"
    "gr_RollbackProofEvidence r = Some (ready_rollback ?i ?rb)" "gr_ReviewerAdvisoryEvidence r = Some (ready_advisory ?i ?adv)"
    "gr_OperatorEnablementEvidence r = Some (ready_enablement ?i ?x ?adv)" "gr_MaterializationPreflight r = Some e"
    "gr_WorktreeIdentity r = Some (trim_worktree ?w)" "gr_TargetWorktreeIdentity r = Some (trim_worktree ?t)"
    unfolding r_def evaluate_kept gate_base_def Let_def
    using cand by (simp_all add: build_binding_ready [OF g(10)] B_def buildMergeAdmissionEvidence_def buildRetryBoundEvidence_def buildRollbackProofEvidence_def
        buildReviewerAdvisoryEvidence_def buildOperatorEnablementEvidence_def merged g(12-15) c e trees)
  have d: "isCanonicalSHA256Digest (pq_CASPatchDigest ?i)" "isCanonicalSHA256Digest (pq_CASEvaluationDigest ?i)"
    using g(11) unfolding mergeAdmissionReady_def Let_def guards_Cons_None fail_if_None by simp_all
  have dr: "isCanonicalSHA256Digest (pq_RollbackEvidenceDigest ?i)" unfolding c(6) digestPatchQueueRollbackEvidence_def by simp
  have "mutationActivationResultMaterializationPreflightReady r"
    using g(16) unfolding mutationActivationResultMaterializationPreflightReady_def r_def evaluate_kept by (simp add: gate_base_def Let_def)
  then have pre: "materializationPreflightEvidenceReady B (ready_merge ?i) (ready_rollback ?i ?rb) (ready_advisory ?i ?adv) (ready_enablement ?i ?x ?adv) (trim_worktree ?w) e"
    unfolding mutationActivationResultMaterializationPreflightReady_def by (simp add: ev)
  then have re: "recomputeMaterializationPreflightEvidence B (ready_merge ?i) (ready_rollback ?i ?rb) (ready_advisory ?i ?adv) (ready_enablement ?i ?x ?adv) (trim_worktree ?w) e = None"
    by (simp add: materializationPreflightEvidenceReady_def)
  note nb = recorded_digests [OF re e g(14,15)]
  have t: "pq_ReviewerAdvisoryDigest ?i \<noteq> []" "pq_OperatorEnablementDigest ?i \<noteq> []" using nb by auto
  note bind = ready_binding_refs(3) [OF g(10), folded B_def] ready_binding_verified [OF g(10) c(1), folded B_def]
  note merge = ready_merge_ok [OF g(10,11) c(1,2), folded B_def]
  note retry = ready_retry_ok [OF g(12) c(2), where A = "WithDefaults ?a", folded B_def]
  note roll = ready_rollback_ok [OF g(10,13) c(2,3,6) d, folded B_def]
  note adv = ready_advisory_ok(1,2) [OF g(14) c(2,4) t(1) d dr roll(3), where A = "WithDefaults ?a", folded B_def]
    ready_advisory_ok(3,4) [OF g(14) c(2,4) t(1) d dr roll(3)]
  have va: "rve_Advisory (ready_advisory ?i ?adv) = ?adv" by (simp add: advisory_fields_def c(4))
  note oper = ready_enablement_ok [OF g(15) c(2,5) t(2) d(1) dr adv(4) roll(3) va adv(3), where A = "WithDefaults ?a", folded B_def]
  have da: "isCanonicalSHA256Digest (pq_ReviewerAdvisoryDigest ?i)" unfolding adv(4) digestPatchQueueReviewerAdvisory_def by simp
  have "pq_OperatorEnablementDigest ?i = digestPatchQueueOperatorEnablement ?x"
    using g(15) nb(2) unfolding operatorEnablementReady_def Let_def guards_Cons_None fail_if_None c(5) by simp
  then have do: "isCanonicalSHA256Digest (pq_OperatorEnablementDigest ?i)" by (simp add: digestPatchQueueOperatorEnablement_def)
  note pv = preflight_verified [OF e pre d dr da do]
  have modes: "gr_AuthorityMode r = MutationActivationAuthorityModeControlledQueue" "gr_ContextMode r = MutationActivationAuthorityModeControlledQueue"
    "gr_ReviewerMeshMode r = MutationActivationReviewerMeshAdvisoryOnly" "gr_DirectMergeDisabled r" "gr_QueueDurable r"
    "gr_LiveMutationVerifierEnabled r" "gr_LiveMutationActuatorEnabled r"
    using g(1-7) by (simp_all add: r_def evaluate_kept)
  show "verify_evidence r = None"
    unfolding verify_evidence_def by (simp add: ev bind(2) merge(2) retry(2) roll(2) adv(2) oper(2) pv del: settle_None)
  show "list_all snd (expected_gates r)"
    unfolding expected_gates_def mutationActivationResultWorktreeIdentityReady_def mutationActivationResultTargetWorktreeIdentityReady_def
      mutationActivationResultMutationBindingReady_def mutationActivationResultMergeAdmissionReady_def mutationActivationResultRetryBoundReady_def
      mutationActivationResultRollbackProofReady_def mutationActivationResultReviewerAdvisoryReady_def mutationActivationResultOperatorEnablementReady_def
      mutationActivationResultMaterializationPreflightReady_def
    by (simp add: modes ev bind(1) merge(1) retry(1) roll(1) adv(1) oper(1) pre trees del: settle_None)
qed

lemma gate_schema: "TrimSpace MutationActivationGateSchemaVersion = MutationActivationGateSchemaVersion" by code_simp

lemma candidate_source:
  "TrimSpace (gr_Source r) = MutationActivationSourceDurableControlledQueueCandidate \<Longrightarrow> verify_source r = verify_candidate r"
  unfolding verify_source_def Let_def
  by (simp add: MutationActivationSourceDurableControlledQueueCandidate_def MutationActivationSourceSyntheticPatchOnly_def
      MutationActivationSourceDurableQueueNoControlledCandidate_def)

lemma allowed_verified_iff:
  assumes clean: "clean_input input" and cand: "source_is_candidate (gi_Source input)"
    and allowed: "gr_MutationAllowed (EvaluateMutationActivationGates input)"
  defines "r \<equiv> EvaluateMutationActivationGates input"
  shows "VerifyMutationActivationGateResult r = None \<longleftrightarrow> verify_switches r = None \<and> verify_candidate r = None"
proof -
  note ev = allowed_evidence [OF assms(1-3), folded r_def]
  have all: "list_all ga_Passed (gate_list input (gate_base input))" using allowed by (simp add: evaluate_gates(2))
  have src: "TrimSpace (gr_Source r) = MutationActivationSourceDurableControlledQueueCandidate"
    using cand unfolding r_def evaluate_kept TrimSpace_idem source_is_candidate_def .
  have none: "failed_gates gs = [] \<longleftrightarrow> list_all ga_Passed gs" for gs by (induction gs) (simp_all add: failed_gates_def)
  have ne: "MutationActivationStatusReady \<noteq> MutationActivationStatusBlocked" by code_simp
  note g = allowed_gates [OF allowed]
  have st: "verify_status r = None"
    unfolding verify_status_def Let_def src unfolding r_def evaluate_gates evaluate_kept using all none ne g(1,2,6,7) by simp
  have inv: "verifyMutationActivationTopLevelGateInvariants r (map (\<lambda>g. (TrimSpace (ga_Name g), g)) (gate_list input (gate_base input))) = None"
    by (rule evaluated_invariants [OF all ev(1)])
  have dig: "gr_Digest r = digestMutationActivationGateResult r" unfolding r_def by (rule evaluate_gates(5))
  have can: "isCanonicalSHA256Digest (digestMutationActivationGateResult r)" by (simp add: digestMutationActivationGateResult_def)
  have gates: "gr_Gates r = gate_list input (gate_base input)" "gr_Schema r = MutationActivationGateSchemaVersion"
    unfolding r_def by (simp_all add: evaluate_gates(1) evaluate_kept(1))
  show ?thesis
    unfolding VerifyMutationActivationGateResult_def verifyMutationActivationDiagnosticMetadata_def gates(1) evaluated_gate_set
    by (simp add: gates(2) gate_schema can inv st ev(2) candidate_source [OF src]) (simp add: dig can)
qed

subsection \<open>The copy of the advisory\<close>

text \<open>The evaluator sees an advisory only through its copy and its digest.\<close>

lemma advisory_copy [simp]: "clonePatchQueueReviewerAdvisory (clonePatchQueueReviewerAdvisory a) = clonePatchQueueReviewerAdvisory a"
  by (simp add: clonePatchQueueReviewerAdvisory_def)

lemma advisory_copy_evidence [simp]: "reviewerAdvisoryRawHasAnyEvidence (clonePatchQueueReviewerAdvisory a) = reviewerAdvisoryRawHasAnyEvidence a"
  by (simp add: clonePatchQueueReviewerAdvisory_def reviewerAdvisoryRawHasAnyEvidence_def any_text_def)

lemma copied_advisory:
  assumes "digestPatchQueueReviewerAdvisory (clonePatchQueueReviewerAdvisory (gi_ReviewerAdvisory input)) =
    digestPatchQueueReviewerAdvisory (gi_ReviewerAdvisory input)"
  shows "EvaluateMutationActivationGates (input\<lparr>gi_ReviewerAdvisory := clonePatchQueueReviewerAdvisory (gi_ReviewerAdvisory input)\<rparr>) =
    EvaluateMutationActivationGates input"
proof -
  let ?adv = "gi_ReviewerAdvisory input"
  let ?c = "clonePatchQueueReviewerAdvisory ?adv"
  let ?input = "input\<lparr>gi_ReviewerAdvisory := ?c\<rparr>"
  have "buildReviewerAdvisoryEvidence i ?c f = buildReviewerAdvisoryEvidence i ?adv f" for i f
    by (simp add: buildReviewerAdvisoryEvidence_def reviewerAdvisoryInputHasAnyEvidence_def advisory_fields_def)
  moreover have op: "operatorEnablementReady x i ?c = operatorEnablementReady x i ?adv" for x i
    by (simp add: operatorEnablementReady_def Let_def assms)
  moreover have "buildOperatorEnablementEvidence i x ?c f = buildOperatorEnablementEvidence i x ?adv f" for i x f
    by (simp add: buildOperatorEnablementEvidence_def op enablement_fields_def Let_def assms)
  ultimately have base: "gate_base ?input = gate_base input" by (simp add: gate_base_def Let_def)
  have adv: "reviewerAdvisoryReady ?c i = reviewerAdvisoryReady ?adv i" for i by (simp add: reviewerAdvisoryReady_def)
  have "gate_list ?input r = gate_list input r" for r by (simp add: gate_list_def Let_def op adv)
  then show ?thesis unfolding EvaluateMutationActivationGates_def base by simp
qed

lemma settle_simps:
  "rpe_RollbackEvidence (settle oc p) = rpe_RollbackEvidence p" "rpe_RollbackEvidenceDigest (settle oc p) = rpe_RollbackEvidenceDigest p"
  "rve_RollbackEvidenceDigest (settle oc v) = rve_RollbackEvidenceDigest v" "rve_Advisory (settle oc v) = rve_Advisory v"
  "oee_Enablement (settle oc u) = oee_Enablement u" "re_NextRetryAt (settle oc rt) = re_NextRetryAt rt"
  "re_DeadLetteredAt (settle oc rt) = re_DeadLetteredAt rt"
  by (simp_all add: settle_def split: option.split)

text \<open>What a verified result shows of the item and the advisory it was evaluated on.\<close>

lemma verified_digests:
  assumes cand: "source_is_candidate (gi_Source input)" and allowed: "gr_MutationAllowed (EvaluateMutationActivationGates input)"
    and ok: "VerifyMutationActivationGateResult (EvaluateMutationActivationGates input) = None"
  shows "TrimSpace (pq_RollbackEvidenceDigest (gi_PatchQueueItem input)) =
      digestPatchQueueRollbackEvidence (clonePatchQueueRollbackEvidence (gi_RollbackEvidence input))"
    and "digestPatchQueueReviewerAdvisory (clonePatchQueueReviewerAdvisory (gi_ReviewerAdvisory input)) =
      digestPatchQueueReviewerAdvisory (gi_ReviewerAdvisory input)"
    and "retry_times (gi_PatchQueueItem input)"
proof -
  let ?r = "EvaluateMutationActivationGates input" and ?i = "gi_PatchQueueItem input" and ?adv = "gi_ReviewerAdvisory input"
    and ?x = "gi_OperatorEnablement input" and ?rb = "gi_RollbackEvidence input"
  obtain b m rt p v u where ev: "gr_MutationBindingEvidence ?r = Some b" "gr_RetryBoundEvidence ?r = Some rt" "gr_RollbackProofEvidence ?r = Some p"
      "gr_ReviewerAdvisoryEvidence ?r = Some v" "gr_OperatorEnablementEvidence ?r = Some u"
    and roll: "recomputeRollbackProofEvidence b m p = None" and adv: "recomputeReviewerAdvisoryEvidence b m p v = None"
    and oper: "recomputeOperatorEnablementEvidence b m p v u = None"
    by (rule allowed_parts [OF ok allowed])
  have built: "rt = settle (boundedRetryReady ?i) (retry_fields ?i)" "\<exists>oc. p = settle oc (rollback_fields ?i ?rb)"
    "\<exists>oc. v = settle oc (advisory_fields ?i ?adv)" "\<exists>oc. u = settle oc (enablement_fields ?i ?x ?adv)"
    using ev cand unfolding evaluate_kept gate_base_def Let_def
    by (auto simp: buildRetryBoundEvidence_def buildRollbackProofEvidence_def buildReviewerAdvisoryEvidence_def buildOperatorEnablementEvidence_def)
  have f: "rpe_RollbackEvidence p = clonePatchQueueRollbackEvidence ?rb" "rve_RollbackEvidenceDigest v = TrimSpace (pq_RollbackEvidenceDigest ?i)"
    "rve_Advisory v = clonePatchQueueReviewerAdvisory ?adv" "oee_Enablement u = clonePatchQueueOperatorEnablement ?x"
    "re_NextRetryAt rt = TrimSpace (pq_NextRetryAt ?i)" "re_DeadLetteredAt rt = TrimSpace (pq_DeadLetteredAt ?i)"
    using built by (auto simp: settle_simps rollback_fields_def advisory_fields_def enablement_fields_def retry_fields_def)
  have "digestPatchQueueRollbackEvidence (rpe_RollbackEvidence p) = TrimSpace (rpe_RollbackEvidenceDigest p)"
    "TrimSpace (rpe_RollbackEvidenceDigest p) = TrimSpace (rve_RollbackEvidenceDigest v)"
    using roll adv unfolding recomputeRollbackProofEvidence_def recomputeReviewerAdvisoryEvidence_def guards_Cons_None fail_if_None by simp_all
  then show "TrimSpace (pq_RollbackEvidenceDigest ?i) = digestPatchQueueRollbackEvidence (clonePatchQueueRollbackEvidence ?rb)"
    by (simp add: f)
  have twice: "clonePatchQueueOperatorEnablement (clonePatchQueueOperatorEnablement ?x) = clonePatchQueueOperatorEnablement ?x"
    by (simp add: clonePatchQueueOperatorEnablement_def)
  have named: "TrimSpace (digestPatchQueueReviewerAdvisory a) = TrimSpace (oe_ReviewerAdvisoryDigest (clonePatchQueueOperatorEnablement x))"
    if "operatorEnablementReady x i a = None" for x i a
    using that unfolding operatorEnablementReady_def Let_def guards_Cons_None same_fields_None by simp
  have "operatorEnablementReady (oee_Enablement u) (patchQueueItemFromOperatorEnablementEvidence u) (rve_Advisory v) = None"
    using oper by (simp add: recomputeOperatorEnablementEvidence_def)
  from named [OF this] named [OF allowed_gates(15) [OF allowed]]
  show "digestPatchQueueReviewerAdvisory (clonePatchQueueReviewerAdvisory ?adv) = digestPatchQueueReviewerAdvisory ?adv"
    by (simp add: f twice)
  have "verify_evidence ?r = None" using ok by (simp add: VerifyMutationActivationGateResult_def verifyMutationActivationDiagnosticMetadata_def)
  then have "verifyRetryBoundEvidence b rt = None" unfolding verify_evidence_def by (simp add: ev)
  then show "retry_times ?i"
    by (auto simp: verifyRetryBoundEvidence_def verifyRetryBoundEvidenceTimestamps_def f retry_times_def split: if_splits)
qed

text \<open>C3.
  When the verifier accepts what the gates allow: take an input in which no white space surrounds a text of the
  context, the item, the rollback evidence or the enablement, and whose activation the gates allow for a durable
  candidate. The result passes the verifier exactly when the sources of the two switches and the summary of the
  candidate are in order, the item records the digest of the rollback evidence, the copy of the advisory that the code
  makes (without scope, head and veto) has the digest of the advisory, and the retry times of the item are blank or can
  be read. The gates, the seven pieces of evidence, the status and the digest need no further condition.
\<close>

theorem activation_allowed_verifies:
  assumes "trimmed_input input" and "source_is_candidate (gi_Source input)"
    and "gr_MutationAllowed (EvaluateMutationActivationGates input)"
  shows "VerifyMutationActivationGateResult (EvaluateMutationActivationGates input) = None \<longleftrightarrow>
    verify_switches (EvaluateMutationActivationGates input) = None \<and> verify_candidate (EvaluateMutationActivationGates input) = None \<and>
    pq_RollbackEvidenceDigest (gi_PatchQueueItem input) = digestPatchQueueRollbackEvidence (gi_RollbackEvidence input) \<and>
    digestPatchQueueReviewerAdvisory (clonePatchQueueReviewerAdvisory (gi_ReviewerAdvisory input)) =
      digestPatchQueueReviewerAdvisory (gi_ReviewerAdvisory input) \<and>
    retry_times (gi_PatchQueueItem input)" (is "?verified \<longleftrightarrow> ?switches \<and> ?candidate \<and> ?roll \<and> ?adv \<and> ?times")
proof -
  have "?verified \<longleftrightarrow> ?switches \<and> ?candidate" if ready: ?roll ?adv ?times
  proof -
    let ?input = "input\<lparr>gi_ReviewerAdvisory := clonePatchQueueReviewerAdvisory (gi_ReviewerAdvisory input)\<rparr>"
    note same = copied_advisory [OF ready(2)]
    have "clean_input ?input" using assms(1) ready by (simp add: clean_input_def trimmed_input_def)
    then show ?thesis using allowed_verified_iff [of ?input] assms(2,3) unfolding same by simp
  qed
  moreover have ?roll ?adv ?times if ok: ?verified
  proof -
    have "TrimSpace (pq_RollbackEvidenceDigest (gi_PatchQueueItem input)) = pq_RollbackEvidenceDigest (gi_PatchQueueItem input)"
      "clonePatchQueueRollbackEvidence (gi_RollbackEvidence input) = gi_RollbackEvidence input"
      using assms(1) by (simp_all add: trimmed_input_def trimmed_item_def trimmed_def)
    with verified_digests [OF assms(2,3) ok] show ?roll ?adv ?times by simp_all
  qed
  ultimately show ?thesis by blast
qed

end
