(* ===== verification/Activation_Demo.thy ===== *)
theory Activation_Demo
  imports Activation_Roundtrip
begin

section \<open>A concrete activation\<close>

text \<open>
  One input that the gates allow and the verifier accepts, for the witnesses of the activation
  properties: a context in the controlled mode, an applied and tested patch of one file, its rollback, its
  advisory, its enablement, its materialization with the authority proof, and the two worktrees. The
  digests stay symbolic: nothing here computes a hash.
\<close>

subsection \<open>The patch\<close>

definition act_context :: Context where
  "act_context = demo_context\<lparr>ctx_Mode := ModeControlledQueue, ctx_Pathset := [''a.go''],
     ctx_Base := \<lparr>base_Ref = ''main'', base_TreeHash = [], base_FileHashes = [(''a.go'', ''h1'')]\<rparr>,
     ctx_Lease := \<lparr>lr_ID = ''lease-1'', lr_Term = 1\<rparr>, ctx_PatchQueue := \<lparr>pqr_QueueID = ''q1'', pqr_ItemID = ''i1''\<rparr>,
     ctx_Operation := \<lparr>op_ID = ''op1'', op_Kind = ''repo_patch_apply''\<rparr>\<rparr>"

lemma act_context_valid: "Context_Validate act_context = None" "WithDefaults act_context = act_context"
  "requireConcreteMutationOperationRefs act_context = None" "clean_context act_context"
  "Context_Validate (act_context\<lparr>ctx_Operation := no_operation\<rparr>) = None"
  "WithDefaults (act_context\<lparr>ctx_Operation := no_operation\<rparr>) = act_context\<lparr>ctx_Operation := no_operation\<rparr>"
  by code_simp+

lemma act_context_simps [simp]:
  "ctx_Pathset act_context = [''a.go'']" "ctx_PatchQueue act_context = \<lparr>pqr_QueueID = ''q1'', pqr_ItemID = ''i1''\<rparr>"
  "ctx_Lease act_context = \<lparr>lr_ID = ''lease-1'', lr_Term = 1\<rparr>" "ctx_WorkspaceID act_context = ''ws''"
  "ctx_Operation act_context = \<lparr>op_ID = ''op1'', op_Kind = ''repo_patch_apply''\<rparr>" "ctx_Mode act_context = ModeControlledQueue"
  by (simp_all add: act_context_def demo_context_def)

definition act_patch :: CASPatchApplyInput where
  "act_patch = \<lparr>cai_Context = act_context, cai_PatchID = ''p1'', cai_CurrentFileHashes = [(''a.go'', ''h1'')],
     cai_CandidateFileHashes = [(''a.go'', sha256_text ''one'')]\<rparr>"

lemma act_patch_simps:
  "cai_Context act_patch = act_context" "cai_CurrentFileHashes act_patch = [(''a.go'', ''h1'')]"
  "cai_CandidateFileHashes act_patch = [(''a.go'', sha256_text ''one'')]"
  by (simp_all add: act_patch_def)

definition act_cas :: CASPatchApplyResult where
  "act_cas = EvaluateCASPatchApply act_patch"

definition act_path :: CASPatchPathResult where
  "act_path = \<lparr>cp_Path = ''a.go'', cp_Status = CASPatchStatusApplied, cp_ChangeKind = [], cp_BaseHash = ''h1'', cp_CurrentHash = ''h1'',
     cp_CandidateHash = sha256_text ''one''\<rparr>"

lemma act_texts [simp]:
  "TrimSpace ''a.go'' = ''a.go''" "TrimSpace ''h1'' = ''h1''" "TrimSpace ''lease-1'' = ''lease-1''" "TrimSpace ''op1'' = ''op1''"
  "TrimSpace ''ws'' = ''ws''" "TrimSpace ''repo_patch_apply'' = ''repo_patch_apply''" "TrimSpace ''op2'' = ''op2''" "TrimSpace ''repo_rollback'' = ''repo_rollback''"
  "TrimSpace ''proj'' = ''proj''" "TrimSpace ''unit'' = ''unit''" "TrimSpace ''2026-01-01T00:00:00Z'' = ''2026-01-01T00:00:00Z''"
  by code_simp+

lemma act_normal: "NormalizePath ''a.go'' = Inr ''a.go''" "normalizeResolverPath ''a.go'' = Inr ''a.go''" "NormalizePathSet [''a.go''] = Inr [''a.go'']"
  "pathsetCoversPath [''a.go''] ''a.go''" "\<not> pathsetEntryIsScoped ''a.go''"
  by code_simp+

text \<open>Digests carry no white space.\<close>

lemma act_digests [simp]:
  "TrimSpace (digestCASPatchApplyResult x) = digestCASPatchApplyResult x" "TrimSpace (digestPatchQueueTestEvidence t) = digestPatchQueueTestEvidence t"
  "TrimSpace (digestPatchQueueRollbackEvidence r) = digestPatchQueueRollbackEvidence r"
  "TrimSpace (digestPatchQueueReviewerAdvisory a) = digestPatchQueueReviewerAdvisory a"
  "TrimSpace (digestPatchQueueOperatorEnablement e) = digestPatchQueueOperatorEnablement e"
  "TrimSpace (digestCASPatchCandidates cs) = digestCASPatchCandidates cs"
  "isCanonicalSHA256Digest (digestCASPatchApplyResult x)" "isCanonicalSHA256Digest (digestPatchQueueTestEvidence t)"
  "isCanonicalSHA256Digest (digestPatchQueueRollbackEvidence r)" "isCanonicalSHA256Digest (digestCASPatchCandidates cs)"
  by (simp_all add: digestCASPatchApplyResult_def digestPatchQueueTestEvidence_def digestPatchQueueRollbackEvidence_def
      digestPatchQueueReviewerAdvisory_def digestPatchQueueOperatorEnablement_def digestCASPatchCandidates_def)

lemma act_digests_nonempty [simp]:
  "digestCASPatchApplyResult x \<noteq> []" "digestPatchQueueTestEvidence t \<noteq> []" "digestPatchQueueRollbackEvidence r \<noteq> []"
  "digestPatchQueueReviewerAdvisory a \<noteq> []" "digestPatchQueueOperatorEnablement e \<noteq> []" "digestCASPatchCandidates cs \<noteq> []"
  by (simp_all add: digestCASPatchApplyResult_def digestPatchQueueTestEvidence_def digestPatchQueueRollbackEvidence_def
      digestPatchQueueReviewerAdvisory_def digestPatchQueueOperatorEnablement_def digestCASPatchCandidates_def sha256_text_def json_digest_def)

lemma act_cas_facts:
  "car_Status act_cas = CASPatchStatusApplied" "validateCASEvidence act_cas act_context = None" "car_Paths act_cas = [act_path]"
  "verifyCASPatchDigestFromPathResults act_cas = None" "isCanonicalSHA256Digest (car_PatchDigest act_cas)"
  "TrimSpace (car_PatchDigest act_cas) = car_PatchDigest act_cas" "car_PatchDigest act_cas \<noteq> []"
proof -
  have d: "distinct (map fst (cai_CandidateFileHashes act_patch))" "cai_CandidateFileHashes act_patch \<noteq> []" by (simp_all add: act_patch_simps)
  have h: "TrimSpace (get_str (cai_CandidateFileHashes act_patch) ''a.go'') = sha256_text ''one''" by (simp add: act_patch_simps get_str_def)
  have b: "TrimSpace (get_str (base_FileHashes (ctx_Base act_context)) ''a.go'') = ''h1''"
    by (simp add: act_context_def get_str_def)
  have c: "TrimSpace (get_str (cai_CurrentFileHashes act_patch) ''a.go'') = ''h1''" by (simp add: act_patch_simps get_str_def)
  have good: "good_candidate (cai_CandidateFileHashes act_patch) ''a.go''"
    using h by (simp add: good_candidate_def act_normal sha256_text_def)
  have keys: "fst ` set (cai_CandidateFileHashes act_patch) = {''a.go''}" by (simp add: act_patch_simps)
  have v: "Context_Validate (WithDefaults (cai_Context act_patch)) = None" by (simp add: act_patch_simps act_context_valid)
  have bh: "base_hash act_context ''a.go'' = ''h1''" "current_hash (cai_CurrentFileHashes act_patch) ''a.go'' = ''h1''"
    using b by (simp_all add: act_patch_simps get_str_def)
  have ok: "\<forall>p \<in> fst ` set (cai_CandidateFileHashes act_patch). good_candidate (cai_CandidateFileHashes act_patch) p \<and>
      pathsetCoversPath (ctx_Pathset (cai_Context act_patch)) p \<and>
      (base_hash (cai_Context act_patch) p = [] \<longleftrightarrow> current_hash (cai_CurrentFileHashes act_patch) p = [])"
    unfolding keys using good bh by (simp add: act_patch_simps(1) act_normal)
  note e = evaluated_without_failure [OF d(1) v d(2) ok, folded act_cas_def]
  have "evaluate_candidate act_context (cai_CurrentFileHashes act_patch) (entry_of (cai_CandidateFileHashes act_patch) ''a.go'') = (act_path, [])"
    by (simp add: evaluate_candidate_def Let_def entry_of_def h b c act_normal casPatchPathChangeKind_def
        CASPatchChangeModify_def CASPatchChangeAdd_def act_path_def)
  then show p: "car_Paths act_cas = [act_path]" unfolding e(9) by (simp add: act_patch_simps(1,3) act_context_valid)
  show "verifyCASPatchDigestFromPathResults act_cas = None" by (rule e(4))
  have "car_PatchDigest act_cas = digestCASPatchCandidates (map (entry_of (cai_CandidateFileHashes act_patch)) (accepted_candidates (cai_CandidateFileHashes act_patch)))"
    using evaluate_fields(2) [OF d(1) v d(2)] e(5) unfolding act_cas_def by (auto split: if_splits)
  then show "isCanonicalSHA256Digest (car_PatchDigest act_cas)" "TrimSpace (car_PatchDigest act_cas) = car_PatchDigest act_cas"
    "car_PatchDigest act_cas \<noteq> []"
    by simp_all
  show st: "car_Status act_cas = CASPatchStatusApplied"
    unfolding act_cas_def evaluate_applied_iff [OF d(1)] keys using v d(2) h b c act_normal
    by (simp add: act_patch_simps(1) sha256_text_def)
  show "validateCASEvidence act_cas act_context = None"
    using applied_accepted_iff [OF d(1) st [unfolded act_cas_def]] unfolding keys act_patch_simps(1) act_context_valid(2) act_cas_def by simp
qed

subsection \<open>The evidence and the item\<close>

definition act_test :: PatchQueueTestEvidence where
  "act_test = \<lparr>te_Schema = PatchQueueTestEvidenceSchemaVersion, te_Name = ''unit'', te_Command = ''unit'', te_Status = PatchQueueTestStatusPassed,
     te_ExitCode = 0, te_OutputDigest = sha256_text ''one'', te_OutputSummary = [], te_DurationMillis = 1\<rparr>"

definition act_rollback :: PatchQueueRollback where
  "act_rollback = \<lparr>rb_Schema = PatchQueueRollbackSchemaVersion, rb_SourceOperationID = ''op1'', rb_SourceOperationKind = ''repo_patch_apply'',
     rb_RollbackOperationID = ''op2'', rb_RollbackOperationKind = ''repo_rollback'', rb_Reason = ''unit'',
     rb_SourcePatchDigest = car_PatchDigest act_cas, rb_RollbackPatchDigest = digestCASPatchCandidates [\<lparr>ce_path = ''a.go'', ce_hash = ''h1''\<rparr>],
     rb_RollbackPaths = [\<lparr>rp_Path = ''a.go'', rp_SourceBaseHash = ''h1'', rp_SourceAppliedHash = sha256_text ''one'', rp_RollbackCandidateHash = ''h1''\<rparr>],
     rb_VerificationCommand = ''unit'', rb_VerificationStatus = PatchQueueTestStatusPassed, rb_VerificationExitCode = 0,
     rb_VerificationOutputDigest = sha256_text ''one'', rb_VerificationOutputSummary = [], rb_VerificationDurationMillis = 1,
     rb_RecordedAt = ''2026-01-01T00:00:00Z''\<rparr>"

definition act_advisory :: PatchQueueReviewerAdvisory where
  "act_advisory = \<lparr>ra_Schema = PatchQueueReviewerAdvisorySchema, ra_Mode = MutationActivationReviewerMeshAdvisoryOnly,
     ra_Verdict = PatchQueueReviewerAdvisoryVerdictReviewed, ra_Scope = [], ra_HeadSHA = [], ra_DefeatsAcceptance = False,
     ra_ReviewerID = ''unit'', ra_ReviewDocKey = ''unit'', ra_OperationID = ''op1'', ra_OperationKind = ''repo_patch_apply'',
     ra_CASPatchDigest = car_PatchDigest act_cas, ra_CASEvaluationDigest = digestCASPatchApplyResult act_cas,
     ra_RollbackEvidenceDigest = digestPatchQueueRollbackEvidence act_rollback, ra_Summary = [], ra_RecordedAt = ''2026-01-01T00:00:00Z''\<rparr>"

definition act_enablement :: PatchQueueOperatorEnablement where
  "act_enablement = \<lparr>oe_Schema = PatchQueueOperatorEnablementSchema, oe_Scope = MutationActivationOperatorEnablementScope, oe_Enabled = True,
     oe_EnabledBy = ''unit'', oe_EnabledAt = ''2026-01-01T00:00:00Z'', oe_Reason = ''unit'', oe_WorkspaceID = ''ws'', oe_ProjectID = ''proj'',
     oe_QueueID = ''q1'', oe_ItemID = ''i1'', oe_OperationID = ''op1'', oe_CASPatchDigest = car_PatchDigest act_cas,
     oe_RollbackEvidenceDigest = digestPatchQueueRollbackEvidence act_rollback,
     oe_ReviewerAdvisoryDigest = digestPatchQueueReviewerAdvisory act_advisory\<rparr>"

definition act_item :: PatchQueueItem where
  "act_item = zero_item\<lparr>pq_Schema := PatchQueueItemSchemaVersion, pq_QueueID := ''q1'', pq_ItemID := ''i1'', pq_State := PatchQueueStateApplied,
     pq_Attempt := 1, pq_MaxAttempts := 1, pq_ContextDigest := json_digest (json_context (act_context\<lparr>ctx_Operation := no_operation\<rparr>)),
     pq_RepoLeaseID := ''lease-1'', pq_LeaseTerm := 1, pq_Pathset := [''a.go''], pq_WorkspaceID := ''ws'', pq_ProjectID := ''proj'',
     pq_CASResult := act_cas, pq_CASPatchDigest := car_PatchDigest act_cas, pq_CASEvaluationDigest := digestCASPatchApplyResult act_cas,
     pq_TestEvidence := act_test, pq_TestEvidenceDigest := digestPatchQueueTestEvidence act_test,
     pq_RollbackEvidenceDigest := digestPatchQueueRollbackEvidence act_rollback,
     pq_ReviewerAdvisoryDigest := digestPatchQueueReviewerAdvisory act_advisory,
     pq_OperatorEnablementDigest := digestPatchQueueOperatorEnablement act_enablement,
     pq_OperationID := ''op1'', pq_OperationKind := ''repo_patch_apply''\<rparr>"

lemma act_item_simps [simp]:
  "pq_Schema act_item = PatchQueueItemSchemaVersion" "pq_QueueID act_item = ''q1''" "pq_ItemID act_item = ''i1''"
  "pq_State act_item = PatchQueueStateApplied" "pq_Attempt act_item = 1" "pq_MaxAttempts act_item = 1"
  "pq_ContextDigest act_item = json_digest (json_context (act_context\<lparr>ctx_Operation := no_operation\<rparr>))"
  "pq_RepoLeaseID act_item = ''lease-1''" "pq_LeaseTerm act_item = 1" "pq_Pathset act_item = [''a.go'']" "pq_WorkspaceID act_item = ''ws''"
  "pq_ProjectID act_item = ''proj''" "pq_CASResult act_item = act_cas" "pq_CASPatchDigest act_item = car_PatchDigest act_cas"
  "pq_CASEvaluationDigest act_item = digestCASPatchApplyResult act_cas" "pq_TestEvidence act_item = act_test"
  "pq_TestEvidenceDigest act_item = digestPatchQueueTestEvidence act_test"
  "pq_RollbackEvidenceDigest act_item = digestPatchQueueRollbackEvidence act_rollback"
  "pq_ReviewerAdvisoryDigest act_item = digestPatchQueueReviewerAdvisory act_advisory"
  "pq_OperatorEnablementDigest act_item = digestPatchQueueOperatorEnablement act_enablement"
  "pq_OperationID act_item = ''op1''" "pq_OperationKind act_item = ''repo_patch_apply''" "pq_ConflictIssues act_item = []"
  "pq_NextRetryAt act_item = []" "pq_DeadLetteredAt act_item = []" "pq_ReviewDocKey act_item = []" "pq_ID act_item = []"
  by (simp_all add: act_item_def zero_item_def)

lemma act_constants [simp]:
  "TrimSpace PatchQueueItemSchemaVersion = PatchQueueItemSchemaVersion" "TrimSpace PatchQueueStateApplied = PatchQueueStateApplied"
  "TrimSpace PatchQueueTestEvidenceSchemaVersion = PatchQueueTestEvidenceSchemaVersion" "TrimSpace PatchQueueTestStatusPassed = PatchQueueTestStatusPassed"
  "TrimSpace PatchQueueRollbackSchemaVersion = PatchQueueRollbackSchemaVersion" "TrimSpace PatchQueueReviewerAdvisorySchema = PatchQueueReviewerAdvisorySchema"
  "TrimSpace MutationActivationReviewerMeshAdvisoryOnly = MutationActivationReviewerMeshAdvisoryOnly"
  "TrimSpace PatchQueueReviewerAdvisoryVerdictReviewed = PatchQueueReviewerAdvisoryVerdictReviewed"
  "TrimSpace PatchQueueOperatorEnablementSchema = PatchQueueOperatorEnablementSchema"
  "TrimSpace MutationActivationOperatorEnablementScope = MutationActivationOperatorEnablementScope" "PatchQueueTestStatusPassed \<noteq> []"
  "PatchQueueReviewerAdvisorySchema \<noteq> []" "MutationActivationReviewerMeshAdvisoryOnly \<noteq> []" "PatchQueueReviewerAdvisoryVerdictReviewed \<noteq> []"
  "PatchQueueOperatorEnablementSchema \<noteq> []" "MutationActivationOperatorEnablementScope \<noteq> []"
  by code_simp+

lemma act_time: "time_Parse ''2026-01-01T00:00:00Z'' \<noteq> None"
  by code_simp

lemma act_clean: "clean_item act_item" "clonePatchQueueRollbackEvidence act_rollback = act_rollback"
  "clonePatchQueueReviewerAdvisory act_advisory = act_advisory" "clonePatchQueueOperatorEnablement act_enablement = act_enablement"
  by (simp_all add: clean_item_defs trimmed_def act_cas_facts clonePatchQueueRollbackEvidence_def act_rollback_def trim_rollback_path_def
      clonePatchQueueReviewerAdvisory_def act_advisory_def clonePatchQueueOperatorEnablement_def act_enablement_def)

subsection \<open>The gates on the item\<close>

lemma act_binding: "mutationBindingReady act_context act_item = None"
proof -
  have "patchQueueContextDigest act_context = Inr (pq_ContextDigest act_item)"
    by (simp add: patchQueueContextDigest_def act_context_valid Context_Digest_Inr)
  moreover have "sameStringSlice [''a.go''] [''a.go'']" by (simp add: sameStringSlice_def)
  ultimately have "verifyPatchQueueItemContext act_item act_context = None"
    by (simp add: verifyPatchQueueItemContext_def act_normal)
  then show ?thesis
    by (simp add: mutationBindingReady_def Let_def act_context_valid Context_Digest_Inr)
qed

lemma act_merge: "mergeAdmissionReady act_context act_item = None"
proof -
  have "patchQueueVerificationEvidenceReady act_test (digestPatchQueueTestEvidence act_test) = None"
    by (simp add: patchQueueVerificationEvidenceReady_def required_fields_def) (simp add: act_test_def)
  then show ?thesis by (simp add: mergeAdmissionReady_def Let_def act_context_valid act_cas_facts)
qed

lemma act_retry: "boundedRetryReady act_item = None"
  by (simp add: boundedRetryReady_def)

lemma act_rollback_paths:
  "normalizePatchQueueRollbackPaths (rb_RollbackPaths act_rollback) act_item =
     Inr (rb_RollbackPaths act_rollback, digestCASPatchCandidates [\<lparr>ce_path = ''a.go'', ce_hash = ''h1''\<rparr>])"
  by (simp add: normalizePatchQueueRollbackPaths_def act_cas_facts act_normal act_path_def act_rollback_def normalize_rollback_path_def
      trim_rollback_path_def complete_rollback_path_def Let_def casPatchPathChangeKind_def CASPatchChangeModify_def CASPatchChangeAdd_def fail_if_def map_err_def)

lemma act_rolled: "rollbackEvidenceReady act_rollback act_item = None"
  unfolding rollbackEvidenceReady_def act_rollback_paths
  by (simp add: act_rollback_def required_fields_def act_cas_facts bad_time_def act_time)

lemma act_advised: "reviewerAdvisoryReady act_advisory act_item = None"
  unfolding reviewerAdvisoryReady_def act_clean Let_def
  by (simp add: act_advisory_def required_fields_def act_cas_facts bad_time_def act_time same_fields_None)

lemma act_enabled: "operatorEnablementReady act_enablement act_item act_advisory = None"
  unfolding operatorEnablementReady_def act_clean Let_def
  by (simp add: act_enablement_def required_fields_def act_cas_facts bad_time_def act_time same_fields_None)

subsection \<open>The materialization and the worktrees\<close>

definition act_file :: PatchMaterializedFile where
  "act_file = \<lparr>mf_Path = ''a.go'', mf_ChangeKind = [], mf_BaseHash = ''h1'', mf_CandidateHash = sha256_text ''one'',
     mf_ContentEncoding = PatchMaterializationEncodingUTF8, mf_Content = ''one'', mf_ContentDigest = sha256_text ''one''\<rparr>"

definition act_bare :: PatchMaterialization where
  "act_bare = \<lparr>pm_Schema = PatchMaterializationSchemaVersion, pm_WorkspaceID = ''ws'', pm_ProjectID = ''proj'', pm_QueueID = ''q1'',
     pm_ItemID = ''i1'', pm_OperationID = ''op1'', pm_OperationKind = ''repo_patch_apply'', pm_CASPatchDigest = car_PatchDigest act_cas,
     pm_CASEvaluationDigest = digestCASPatchApplyResult act_cas, pm_Files = [act_file], pm_RecordedBy = ''unit'',
     pm_RecordedAt = ''2026-01-01T00:00:00Z'', pm_MaterializationDigest = []\<rparr>"

definition act_made :: PatchMaterialization where
  "act_made = act_bare\<lparr>pm_MaterializationDigest := PatchMaterializationDigest act_bare\<rparr>"

lemma act_made_digest: "PatchMaterializationDigest act_made = PatchMaterializationDigest act_bare"
  by (simp add: PatchMaterializationDigest_def act_made_def)

lemma act_bare_digest [simp]: "isCanonicalSHA256Digest (PatchMaterializationDigest act_bare)"
  "TrimSpace (PatchMaterializationDigest act_bare) = PatchMaterializationDigest act_bare" "PatchMaterializationDigest act_bare \<noteq> []"
  by (simp_all add: PatchMaterializationDigest_def)

lemma act_made_simps [simp]:
  "pm_Schema act_made = PatchMaterializationSchemaVersion" "pm_WorkspaceID act_made = ''ws''" "pm_ProjectID act_made = ''proj''"
  "pm_QueueID act_made = ''q1''" "pm_ItemID act_made = ''i1''" "pm_OperationID act_made = ''op1''" "pm_OperationKind act_made = ''repo_patch_apply''"
  "pm_CASPatchDigest act_made = car_PatchDigest act_cas" "pm_CASEvaluationDigest act_made = digestCASPatchApplyResult act_cas"
  "pm_Files act_made = [act_file]" "pm_RecordedBy act_made = ''unit''" "pm_RecordedAt act_made = ''2026-01-01T00:00:00Z''"
  "pm_MaterializationDigest act_made = PatchMaterializationDigest act_bare"
  by (simp_all add: act_made_def act_bare_def)

lemma act_encoding [simp]: "TrimSpace PatchMaterializationEncodingUTF8 = PatchMaterializationEncodingUTF8"
  "TrimSpace PatchMaterializationSchemaVersion = PatchMaterializationSchemaVersion" "PatchMaterializationSchemaVersion \<noteq> []"
  "PatchMaterializationEncodingUTF8 \<noteq> []"
  by code_simp+

lemma act_applied: "patchMaterializationAppliedCASPaths act_item = Inr ([''a.go''], [(''a.go'', act_path)])"
proof -
  have "cp_Path act_path = ''a.go''" "cp_Status act_path = CASPatchStatusApplied" by (simp_all add: act_path_def)
  then show ?thesis
    by (simp add: patchMaterializationAppliedCASPaths_def act_cas_facts act_normal map_err_def fail_if_def)
qed

lemma act_modify [simp]: "TrimSpace CASPatchChangeModify = CASPatchChangeModify" "CASPatchChangeModify \<noteq> []"
  by code_simp+

lemma act_kind: "validateCASPathChangeKind act_path = Inr CASPatchChangeModify" "CASPatchChangeModify \<noteq> CASPatchChangeAdd"
  by (simp_all add: validateCASPathChangeKind_def act_path_def casPatchPathChangeKind_def CASPatchChangeModify_def CASPatchChangeAdd_def)

lemma act_materialized: "ValidatePatchMaterialization act_made act_item = None"
proof -
  have bounds: "ValidatePatchMaterializationContentBounds act_made = None"
    by (simp add: ValidatePatchMaterializationContentBounds_def act_file_def Let_def PatchMaterializationMaxFiles_def
        PatchMaterializationMaxFileBytes_def PatchMaterializationMaxTotalBytes_def)
  have "check_file_hashes act_file act_path = None"
    unfolding check_file_hashes_def patchMaterializationChangeKind_def act_kind
    by (simp add: act_file_def act_path_def act_kind patchMaterializationContentDigest_def fail_if_def Let_def)
  then have files: "check_files [(''a.go'', act_path)] 0 None [''a.go''] [act_file] = None"
    by (simp add: act_file_def act_normal act_path_def)
  show ?thesis
    unfolding ValidatePatchMaterialization_def act_applied guards_Cons_None bounds act_made_digest
    using files by (simp add: act_cas_facts)
qed

definition base_commit :: string where "base_commit = replicate 40 (CHR ''a'')"
definition head_commit :: string where "head_commit = replicate 40 (CHR ''b'')"

lemma act_commits [simp]: "TrimSpace base_commit = base_commit" "TrimSpace head_commit = head_commit" "base_commit \<noteq> []" "head_commit \<noteq> []"
  "isCanonicalGitObjectID base_commit" "isCanonicalGitObjectID head_commit"
proof -
  show trim: "TrimSpace base_commit = base_commit" "TrimSpace head_commit = head_commit"
    by (simp_all add: base_commit_def head_commit_def TrimSpace_graphic graphic_def)
  show "base_commit \<noteq> []" "head_commit \<noteq> []" "isCanonicalGitObjectID base_commit" "isCanonicalGitObjectID head_commit"
    by (simp_all add: isCanonicalGitObjectID_def trim) (simp_all add: base_commit_def head_commit_def list_all_iff is_lower_hex_def)
qed

lemma act_names [simp]:
  "TrimSpace ''r1'' = ''r1''" "TrimSpace ''c1'' = ''c1''" "TrimSpace ''c2'' = ''c2''" "TrimSpace ''b1'' = ''b1''" "TrimSpace ''b2'' = ''b2''"
  "TrimSpace ''m1'' = ''m1''" "TrimSpace ''work'' = ''work''" "TrimSpace ''main'' = ''main''" "TrimSpace ''/work'' = ''/work''"
  "TrimSpace ''/main'' = ''/main''" "TrimSpace ''ok'' = ''ok''" "TrimSpace ''clean'' = ''clean''" "TrimSpace ''PROPOSED'' = ''PROPOSED''"
  "mutationActivationPathsEqual ''/work'' ''/work''" "mutationActivationPathsEqual ''/main'' ''/main''"
  "\<not> mutationActivationPathsEqual ''/work'' ''/main''"
  by code_simp+

definition act_tree :: WorktreeIdentityEvidence where
  "act_tree = \<lparr>wt_RepoID = ''r1'', wt_CheckoutID = ''c1'', wt_BranchID = ''b1'', wt_BranchName = ''work'', wt_MachineID = ''m1'',
     wt_LocalPath = ''/work'', wt_BaseSHA = base_commit, wt_HeadSHA = head_commit, wt_ReadbackState = ''ok'',
     wt_ReadbackError = [], wt_ObservedWorktreeRoot = ''/work'', wt_ObservedBranchName = ''work'',
     wt_ObservedHeadSHA = head_commit, wt_ObservedDirtyState = ''clean''\<rparr>"

definition act_target :: WorktreeIdentityEvidence where
  "act_target = act_tree\<lparr>wt_CheckoutID := ''c2'', wt_BranchID := ''b2'', wt_BranchName := ''main'', wt_LocalPath := ''/main'',
     wt_HeadSHA := base_commit, wt_ObservedWorktreeRoot := ''/main'', wt_ObservedBranchName := ''main'',
     wt_ObservedHeadSHA := base_commit\<rparr>"

definition act_candidate :: MutationActivationCandidateSummary where
  "act_candidate = \<lparr>cd_WorkspaceID = ''ws'', cd_ProjectID = ''proj'', cd_RepoID = ''r1'', cd_QueueID = ''q1'', cd_ItemID = ''i1'',
     cd_BranchID = ''b1'', cd_BranchName = ''work'', cd_CheckoutID = ''c1'', cd_TargetCheckoutID = ''c2'', cd_TargetBranchName = ''main'',
     cd_State = ''PROPOSED'', cd_BaseSHA = base_commit, cd_HeadSHA = head_commit\<rparr>"

lemma act_trees: "worktreeIdentityReady act_tree" "actuatorTargetWorktreeIdentityReady act_tree act_target"
  "cloneWorktreeIdentityEvidence act_tree = Some act_tree" "cloneWorktreeIdentityEvidence act_target = Some act_target"
  "cloneMutationActivationCandidateSummary (Some act_candidate) = Some act_candidate"
  "verifyMutationActivationCandidateSummary act_candidate = None" "verifyMutationActivationCandidateMatchesWorktree act_candidate act_tree = None"
  "verifyMutationActivationCandidateMatchesTargetWorktree act_candidate act_target = None"
  by (simp_all add: worktreeIdentityReady_def actuatorTargetWorktreeIdentityReady_def cloneWorktreeIdentityEvidence_def trim_worktree_def Let_def
      act_tree_def act_target_def cloneMutationActivationCandidateSummary_def act_candidate_def verifyMutationActivationCandidateSummary_def
      required_fields_def verifyMutationActivationCandidateMatchesWorktree_def verifyMutationActivationCandidateMatchesTargetWorktree_def same_fields_None ascii_upper_def)

subsection \<open>The preflight\<close>

definition act_preflight :: MaterializationPreflightEvidence where
  "act_preflight = (preflight_fields act_item act_tree act_made (authority_of act_made))\<lparr>ev_Ready := True, ev_State := ''ready''\<rparr>"

lemma act_proof: "hasPatchMaterializationAuthorityProof (authority_of act_made)"
  by (simp add: hasPatchMaterializationAuthorityProof_def authority_of_def Let_def)

lemma act_build: "buildMaterializationPreflightEvidence act_item act_tree act_made (authority_of act_made) True = Some act_preflight"
proof -
  have "materializationPreflightReady act_made act_item act_tree = None"
    by (simp add: materializationPreflightReady_def act_trees act_materialized)
  then show ?thesis
    by (simp add: buildMaterializationPreflightEvidence_def act_proof authority_valid [OF act_materialized] act_preflight_def)
qed

lemma act_preflight_simps [simp]:
  "mp_Materialization act_preflight = patchMaterializationDiagnostic act_made" "mp_MaterializationDigest act_preflight = PatchMaterializationDigest act_bare"
  "mp_WorktreeIdentity act_preflight = act_tree" "mp_AuthorityProof act_preflight = Some (authority_of act_made)" "ev_Ready act_preflight"
  "mp_WorkspaceID act_preflight = ''ws''" "mp_ProjectID act_preflight = ''proj''"
  by (simp_all add: act_preflight_def preflight_fields_def act_proof cloneWorktreeIdentityEvidenceValue_def act_trees)

abbreviation "act_seen \<equiv> (patchQueueItemFromMergeAdmissionEvidence (ready_merge act_item))\<lparr>pq_WorkspaceID := ''ws'', pq_ProjectID := ''proj''\<rparr>"

lemma act_seen_simps:
  "pq_QueueID act_seen = ''q1''" "pq_ItemID act_seen = ''i1''" "pq_OperationID act_seen = ''op1''" "pq_OperationKind act_seen = ''repo_patch_apply''"
  "pq_CASPatchDigest act_seen = car_PatchDigest act_cas" "pq_CASEvaluationDigest act_seen = digestCASPatchApplyResult act_cas"
  "pq_Pathset act_seen = [''a.go'']" "pq_CASResult act_seen = act_cas"
  by (simp_all add: patchQueueItemFromMergeAdmissionEvidence_def item_of_evidence_def merge_fields_def act_cas_facts normal_or_given_def act_normal)

lemma act_diagnosed:
  "validatePatchMaterializationDiagnostic (patchMaterializationDiagnostic act_made) act_seen act_tree (PatchMaterializationDigest act_bare) = None"
proof -
  have applied: "patchMaterializationAppliedCASPaths act_seen = Inr ([''a.go''], [(''a.go'', act_path)])"
    using act_applied unfolding patchMaterializationAppliedCASPaths_def act_seen_simps act_item_simps .
  have fd: "file_diagnostic act_file = \<lparr>fd_Path = ''a.go'', fd_ChangeKind = CASPatchChangeModify, fd_BaseHash = ''h1'',
      fd_CandidateHash = sha256_text ''one'', fd_ContentEncoding = PatchMaterializationEncodingUTF8, fd_ContentDigest = sha256_text ''one''\<rparr>"
    by (simp add: file_diagnostic_def act_file_def patchMaterializationDiagnosticChangeKind_def)
  have "check_diagnostic_hashes (file_diagnostic act_file) act_path = None"
    unfolding check_diagnostic_hashes_def Let_def fd
    by (simp add: act_path_def act_kind patchMaterializationDiagnosticChangeKind_def casPatchPathChangeKind_def sha256_text_def [symmetric])
  then have files: "check_diagnostic_files [(''a.go'', act_path)] 0 None [''a.go''] [file_diagnostic act_file] = None"
    by (simp add: fd act_normal)
  show ?thesis
    unfolding validatePatchMaterializationDiagnostic_def Let_def applied guards_Cons_None act_seen_simps
    using files by (simp add: patchMaterializationDiagnostic_def act_trees act_cas_facts wrap_err_None)
qed

lemma act_authorized:
  "validatePatchMaterializationAuthorityProofDiagnostic (authority_of act_made) (patchMaterializationDiagnostic act_made) act_seen
     (PatchMaterializationDigest act_bare) = None"
proof -
  have valid: "ValidatePatchMaterializationAuthorityProof (authority_of act_made) act_made act_item = None"
    by (rule authority_valid [OF act_materialized])
  then have g: "isCanonicalSHA256Digest (ma_MaterializationJSONDigest (authority_of act_made))"
    "ma_AuthorityDigest (authority_of act_made) = PatchMaterializationAuthorityProofDigest (authority_of act_made)"
    "TrimSpace (ma_Schema (authority_of act_made)) = PatchMaterializationAuthorityProofSchemaVersion"
    "TrimSpace (ma_Source (authority_of act_made)) = PatchMaterializationAuthorityProofSourceSQLite"
    unfolding ValidatePatchMaterializationAuthorityProof_def guards_Cons_None fail_if_None by simp_all
  have c: "isCanonicalSHA256Digest (PatchMaterializationAuthorityProofDigest (authority_of act_made))"
    by (simp add: PatchMaterializationAuthorityProofDigest_def)
  have f: "ma_WorkspaceID (authority_of act_made) = ''ws''" "ma_QueueID (authority_of act_made) = ''q1''" "ma_ItemID (authority_of act_made) = ''i1''"
    "ma_OperationID (authority_of act_made) = ''op1''" "ma_OperationKind (authority_of act_made) = ''repo_patch_apply''"
    "ma_CASPatchDigest (authority_of act_made) = car_PatchDigest act_cas" "ma_CASEvaluationDigest (authority_of act_made) = digestCASPatchApplyResult act_cas"
    "ma_MaterializationDigest (authority_of act_made) = PatchMaterializationDigest act_bare" "ma_RecordedBy (authority_of act_made) = ''unit''"
    "ma_RecordedAt (authority_of act_made) = ''2026-01-01T00:00:00Z''" "ma_ProjectID (authority_of act_made) = ''proj''"
    "ma_FileCount (authority_of act_made) = 1" "ma_Files (authority_of act_made) = [authority_path act_file]"
    by (simp_all add: authority_of_def Let_def act_cas_facts)
  have files: "check_authority_diagnostic 0 [authority_path act_file] [file_diagnostic act_file] = None"
    by (simp add: authority_path_def file_diagnostic_def same_fields_None patchMaterializationDiagnosticChangeKind_def)
  show ?thesis
    unfolding validatePatchMaterializationAuthorityProofDiagnostic_def guards_Cons_None f act_seen_simps
    using g c files by (simp add: patchMaterializationDiagnostic_def same_fields_None act_cas_facts)
qed

text \<open>The binding is that of the context, whose defaults are already in place.\<close>

abbreviation "act_bound \<equiv> ready_binding act_context act_item"

lemma act_preflight_ready:
  "materializationPreflightEvidenceReady act_bound (ready_merge act_item) (ready_rollback act_item act_rollback)
     (ready_advisory act_item act_advisory) (ready_enablement act_item act_enablement act_advisory) act_tree act_preflight"
proof -
  have b: "verifyMaterializationPreflightEvidenceMatchesMutationBinding act_bound act_preflight = None"
    unfolding verifyMaterializationPreflightEvidenceMatchesMutationBinding_def
    by (rule matches_itemI) (simp_all add: ready_binding_def binding_fields_def act_preflight_def preflight_fields_def)
  have m: "verifyMaterializationPreflightEvidenceMatchesMergeAdmission (ready_merge act_item) act_preflight = None"
    unfolding verifyMaterializationPreflightEvidenceMatchesMergeAdmission_def
    by (rule matches_itemI) (simp_all add: merge_fields_def act_preflight_def preflight_fields_def)
  have w: "verifyMaterializationPreflightEvidenceMatchesWorktree act_tree act_tree = None"
    by (simp add: verifyMaterializationPreflightEvidenceMatchesWorktree_def same_fields_None act_trees)
  have d: "mp_RollbackEvidenceDigest act_preflight = digestPatchQueueRollbackEvidence act_rollback"
    "mp_ReviewerAdvisoryDigest act_preflight = digestPatchQueueReviewerAdvisory act_advisory"
    "mp_OperatorEnablementDigest act_preflight = digestPatchQueueOperatorEnablement act_enablement"
    by (simp_all add: act_preflight_def preflight_fields_def)
  have e: "TrimSpace (rpe_RollbackEvidenceDigest (ready_rollback act_item act_rollback)) = digestPatchQueueRollbackEvidence act_rollback"
    "TrimSpace (rve_AdvisoryDigest (ready_advisory act_item act_advisory)) = digestPatchQueueReviewerAdvisory act_advisory"
    "TrimSpace (oee_EnablementDigest (ready_enablement act_item act_enablement act_advisory)) = digestPatchQueueOperatorEnablement act_enablement"
    by (simp_all add: rollback_fields_def advisory_fields_def enablement_fields_def Let_def)
  show ?thesis
    unfolding materializationPreflightEvidenceReady_def recomputeMaterializationPreflightEvidence_def Let_def guards_Cons_None b m d e
      act_preflight_simps w
    using act_diagnosed act_authorized by (simp add: act_trees act_proof patchMaterializationDiagnostic_def)
qed

subsection \<open>The activation\<close>

definition act_input :: MutationActivationGateInput where
  "act_input = \<lparr>gi_AuthorityMode = ModeControlledQueue, gi_DirectMergeDisabled = True, gi_QueueDurable = True,
     gi_ReviewerMeshMode = MutationActivationReviewerMeshAdvisoryOnly, gi_LiveMutationVerifierEnabled = True,
     gi_LiveMutationVerifierSource = MutationActivationLiveVerifierSourceEnv, gi_LiveMutationActuatorEnabled = True,
     gi_LiveMutationActuatorSource = MutationActivationLiveActuatorSourceRuntime,
     gi_Source = MutationActivationSourceDurableControlledQueueCandidate, gi_SourceError = [], gi_Candidate = Some act_candidate,
     gi_WorktreeIdentity = act_tree, gi_TargetWorktreeIdentity = act_target, gi_Context = act_context, gi_PatchQueueItem = act_item,
     gi_RollbackEvidence = act_rollback, gi_ReviewerAdvisory = act_advisory, gi_OperatorEnablement = act_enablement,
     gi_PatchMaterialization = act_made, gi_PatchMaterializationProof = authority_of act_made\<rparr>"

lemma act_input_clean: "clean_input act_input" "source_is_candidate (gi_Source act_input)"
proof -
  show "clean_input act_input" using act_clean(1) by (simp add: clean_input_def trimmed_input_def clean_item_def act_input_def act_context_valid act_clean)
  have "source_is_candidate MutationActivationSourceDurableControlledQueueCandidate" by code_simp
  then show "source_is_candidate (gi_Source act_input)" by (simp add: act_input_def)
qed

lemma act_modes [simp]: "TrimSpace ModeControlledQueue = ModeControlledQueue" "ModeControlledQueue \<noteq> []"
  "TrimSpace MutationActivationLiveVerifierSourceEnv = MutationActivationLiveVerifierSourceEnv"
  "TrimSpace MutationActivationLiveActuatorSourceRuntime = MutationActivationLiveActuatorSourceRuntime"
  "TrimSpace MutationActivationSourceDurableControlledQueueCandidate = MutationActivationSourceDurableControlledQueueCandidate"
  by code_simp+

lemma act_base:
  "gr_MutationBindingEvidence (gate_base act_input) = Some act_bound" "gr_MergeAdmissionEvidence (gate_base act_input) = Some (ready_merge act_item)"
  "gr_RollbackProofEvidence (gate_base act_input) = Some (ready_rollback act_item act_rollback)"
  "gr_ReviewerAdvisoryEvidence (gate_base act_input) = Some (ready_advisory act_item act_advisory)"
  "gr_OperatorEnablementEvidence (gate_base act_input) = Some (ready_enablement act_item act_enablement act_advisory)"
  "gr_MaterializationPreflight (gate_base act_input) = Some act_preflight" "gr_WorktreeIdentity (gate_base act_input) = Some act_tree"
  "gr_TargetWorktreeIdentity (gate_base act_input) = Some act_target" "gr_AuthorityMode (gate_base act_input) = ModeControlledQueue"
  "gr_ContextMode (gate_base act_input) = ModeControlledQueue" "gr_ReviewerMeshMode (gate_base act_input) = MutationActivationReviewerMeshAdvisoryOnly"
proof -
  have f: "source_is_candidate MutationActivationSourceDurableControlledQueueCandidate" by code_simp
  show "gr_MutationBindingEvidence (gate_base act_input) = Some act_bound" "gr_MergeAdmissionEvidence (gate_base act_input) = Some (ready_merge act_item)"
    "gr_RollbackProofEvidence (gate_base act_input) = Some (ready_rollback act_item act_rollback)"
    "gr_ReviewerAdvisoryEvidence (gate_base act_input) = Some (ready_advisory act_item act_advisory)"
    "gr_OperatorEnablementEvidence (gate_base act_input) = Some (ready_enablement act_item act_enablement act_advisory)"
    "gr_MaterializationPreflight (gate_base act_input) = Some act_preflight" "gr_WorktreeIdentity (gate_base act_input) = Some act_tree"
    "gr_TargetWorktreeIdentity (gate_base act_input) = Some act_target" "gr_AuthorityMode (gate_base act_input) = ModeControlledQueue"
    "gr_ContextMode (gate_base act_input) = ModeControlledQueue" "gr_ReviewerMeshMode (gate_base act_input) = MutationActivationReviewerMeshAdvisoryOnly"
    using build_binding_ready [OF act_binding]
    by (simp_all add: gate_base_def Let_def act_input_def f act_context_valid buildMergeAdmissionEvidence_def act_merge buildRollbackProofEvidence_def act_rolled
        buildReviewerAdvisoryEvidence_def act_advised buildOperatorEnablementEvidence_def act_enabled act_build act_trees or_default_def act_clean)
qed

lemma act_allowed: "gr_MutationAllowed (EvaluateMutationActivationGates act_input)"
proof -
  have pre: "mutationActivationResultMaterializationPreflightReady (gate_base act_input)"
    using act_preflight_ready by (simp add: mutationActivationResultMaterializationPreflightReady_def act_base)
  show ?thesis
    unfolding evaluate_gates(2) gate_list_def Let_def act_base using pre [unfolded act_input_def]
    by (simp add: act_input_def act_trees act_binding act_merge act_retry act_rolled act_advised act_enabled mode_gate_def err_gate_def addGate_def
        MutationActivationAuthorityModeControlledQueue_def)
qed

lemma act_sources:
  "verify_switches (EvaluateMutationActivationGates act_input) = None" "verify_candidate (EvaluateMutationActivationGates act_input) = None"
proof -
  have k: "gr_LiveMutationVerifierSource (EvaluateMutationActivationGates act_input) = MutationActivationLiveVerifierSourceEnv"
    "gr_LiveMutationActuatorSource (EvaluateMutationActivationGates act_input) = MutationActivationLiveActuatorSourceRuntime"
    "gr_Candidate (EvaluateMutationActivationGates act_input) = Some act_candidate"
    "gr_SourceError (EvaluateMutationActivationGates act_input) = []"
    by (simp_all add: EvaluateMutationActivationGates_def gate_base_def Let_def act_input_def act_trees)
  show "verify_switches (EvaluateMutationActivationGates act_input) = None"
    by (simp add: verify_switches_def Let_def evaluate_kept k) (simp add: act_input_def)
  have "be_WorkspaceID act_bound = ''ws''" "be_PatchQueueID act_bound = ''q1''" "be_PatchQueueItemID act_bound = ''i1''"
    by (simp_all add: ready_binding_def binding_fields_def)
  then have "verifyMutationActivationCandidateMatchesMutationBinding act_candidate act_bound = None"
    by (simp add: verifyMutationActivationCandidateMatchesMutationBinding_def same_fields_None act_candidate_def)
  then show "verify_candidate (EvaluateMutationActivationGates act_input) = None"
    unfolding verify_candidate_def Let_def k evaluate_kept act_base
    by (simp add: act_trees act_input_def MutationActivationAuthorityModeControlledQueue_def)
qed

lemma act_verified: "VerifyMutationActivationGateResult (EvaluateMutationActivationGates act_input) = None"
  using allowed_verified_iff [OF act_input_clean act_allowed] act_sources by simp

subsection \<open>Witnesses\<close>

theorem activation_patch_sound_witness:
  "\<exists>r m p. VerifyMutationActivationGateResult r = None \<and> gr_MutationAllowed r \<and> gr_MergeAdmissionEvidence r = Some m \<and>
     gr_RollbackProofEvidence r = Some p \<and> TrimSpace (ev_ItemState m) = PatchQueueStateApplied \<and> te_Status (me_TestEvidence m) = PatchQueueTestStatusPassed"
  using activation_patch_sound [OF act_verified act_allowed] act_verified act_allowed by blast

theorem activation_authority_sound_witness:
  "\<exists>r c u. VerifyMutationActivationGateResult r = None \<and> gr_MutationAllowed r \<and> gr_Candidate r = Some c \<and> gr_OperatorEnablementEvidence r = Some u \<and>
     oe_Enabled (oee_Enablement u) \<and> TrimSpace (oe_ItemID (oee_Enablement u)) = TrimSpace (cd_ItemID c)"
  using activation_authority_sound [OF act_verified act_allowed] act_verified act_allowed by blast

theorem activation_allowed_verifies_witness:
  "trimmed_input act_input \<and> gr_MutationAllowed (EvaluateMutationActivationGates act_input) \<and>
     VerifyMutationActivationGateResult (EvaluateMutationActivationGates act_input) = None"
proof -
  have c: "trimmed_input act_input" "retry_times (gi_PatchQueueItem act_input)"
    "clonePatchQueueReviewerAdvisory (gi_ReviewerAdvisory act_input) = gi_ReviewerAdvisory act_input"
    "pq_RollbackEvidenceDigest (gi_PatchQueueItem act_input) = digestPatchQueueRollbackEvidence (gi_RollbackEvidence act_input)"
    using act_input_clean(1) unfolding clean_input_def by blast+
  show ?thesis using activation_allowed_verifies [OF c(1) act_input_clean(2) act_allowed] act_sources c act_allowed by simp
qed

end
