(* ===== verification/Mutation_Actuator.thy ===== *)
theory Mutation_Actuator
  imports Activation_Gates
begin

section \<open>The mutation actuator\<close>

text \<open>
  \<open>internal/repoauthority/mutation_actuator.go\<close>: the dry run, which looks at a verified activation result
  and says whether only the live switch is missing. \<open>internal/repoauthority/mutation_actuator_live.go\<close>:
  the record of a live run and its verification. The run itself, in the command line, writes files and is
  not part of these files.
\<close>

definition MutationActuatorDryRunSchemaVersion :: string where "MutationActuatorDryRunSchemaVersion = ''repo_mutation_actuator_dry_run.v1''"
definition MutationActuatorLiveScopeAddModify :: string where "MutationActuatorLiveScopeAddModify = ''repo_mutation_live_scope.add_modify.v1''"
definition MutationActuatorDryRunStatusBlocked :: string where "MutationActuatorDryRunStatusBlocked = ''blocked''"
definition MutationActuatorDryRunStatusReady :: string where "MutationActuatorDryRunStatusReady = ''dry_run_ready''"
definition MutationActuatorDryRunSourceHealth :: string where "MutationActuatorDryRunSourceHealth = ''health:repo_mutation_actuator_dry_run''"

subsection \<open>Dry run: data\<close>

record MutationActuatorDryRunInput =
  dri_Activation :: MutationActivationGateResult
  dri_Source :: string

record MutationActuatorDryRunResult =
  dr_Schema :: string
  dr_Status :: string
  dr_Source :: string
  dr_LiveScope :: string
  dr_AllowedChangeKinds :: "string list"
  dr_ObservedChangeKinds :: "string list"
  dr_UnsupportedChangeKinds :: "string list"
  dr_ActivationDigest :: string
  dr_ActivationStatus :: string
  dr_MaterializationAuthorityProofDigest :: string
  dr_ActivationMutationAllowed :: bool
  dr_VerifierReady :: bool
  dr_ActuatorEnabled :: bool
  dr_WouldMutate :: bool
  dr_MutationExecuted :: bool
  dr_BlockingReasons :: "string list"
  dr_Digest :: string

definition json_dry_run :: "MutationActuatorDryRunResult \<Rightarrow> json" where
  "json_dry_run e = JObj
     ([(''schema'', JStr (dr_Schema e)), (''status'', JStr (dr_Status e)), (''source'', JStr (dr_Source e)), (''live_scope'', JStr (dr_LiveScope e))]
      @ omit_arr ''allowed_change_kinds'' (map JStr (dr_AllowedChangeKinds e))
      @ omit_arr ''observed_change_kinds'' (map JStr (dr_ObservedChangeKinds e))
      @ omit_arr ''unsupported_change_kinds'' (map JStr (dr_UnsupportedChangeKinds e))
      @ omit_str ''activation_digest'' (dr_ActivationDigest e) @ omit_str ''activation_status'' (dr_ActivationStatus e)
      @ omit_str ''materialization_authority_proof_digest'' (dr_MaterializationAuthorityProofDigest e)
      @ [(''activation_mutation_allowed'', JBool (dr_ActivationMutationAllowed e)), (''verifier_ready'', JBool (dr_VerifierReady e)),
         (''actuator_enabled'', JBool (dr_ActuatorEnabled e)), (''would_mutate'', JBool (dr_WouldMutate e)),
         (''mutation_executed'', JBool (dr_MutationExecuted e))]
      @ omit_arr ''blocking_reasons'' (map JStr (dr_BlockingReasons e)) @ [(''digest'', JStr (dr_Digest e))])"

definition digestMutationActuatorDryRunResult :: "MutationActuatorDryRunResult \<Rightarrow> string" where
  "digestMutationActuatorDryRunResult r = json_digest (json_dry_run (r\<lparr>dr_Digest := []\<rparr>))"

subsection \<open>Dry run: change kinds\<close>

definition mutationActuatorAllowedChangeKinds :: "string list" where
  "mutationActuatorAllowedChangeKinds = [CASPatchChangeModify, CASPatchChangeAdd]"

definition mutationActuatorNormalizeChangeKind :: "string \<Rightarrow> string" where
  "mutationActuatorNormalizeChangeKind changeKind = (if TrimSpace changeKind = [] then CASPatchChangeModify else TrimSpace changeKind)"

text \<open>The kinds in the order of their first occurrence; a kind that is empty is skipped.\<close>

fun first_kinds :: "string list \<Rightarrow> string list \<Rightarrow> string list" where
  "first_kinds seen [] = []"
| "first_kinds seen (k # ks) =
     (let kind = mutationActuatorNormalizeChangeKind k
      in if kind = [] \<or> kind \<in> set seen then first_kinds seen ks else kind # first_kinds (kind # seen) ks)"

definition mutationActuatorObservedChangeKinds :: "MutationActivationGateResult \<Rightarrow> string list" where
  "mutationActuatorObservedChangeKinds activation =
     (case gr_MaterializationPreflight activation of
        None \<Rightarrow> []
      | Some e \<Rightarrow> first_kinds [] (map fd_ChangeKind (pd_Files (mp_Materialization e))))"

definition mutationActuatorUnsupportedChangeKinds :: "string list \<Rightarrow> string list" where
  "mutationActuatorUnsupportedChangeKinds observed =
     filter (\<lambda>kind. kind \<notin> set mutationActuatorAllowedChangeKinds) (first_kinds [] observed)"

definition mutationActuatorLiveScopeBlockingReasons :: "string list \<Rightarrow> string list" where
  "mutationActuatorLiveScopeBlockingReasons unsupported = map (\<lambda>kind.
     err_text (Errorf ''live_scope_change_kind: unsupported change_kind %q; first live actuator scope allows only modify/add'' [AStr kind])) unsupported"

definition mutationActuatorHasLiveScopeBlockingReason :: "string list \<Rightarrow> bool" where
  "mutationActuatorHasLiveScopeBlockingReason reasons \<longleftrightarrow> list_ex (\<lambda>r. HasPrefix (TrimSpace r) ''live_scope_change_kind: '') reasons"

fun validate_kinds :: "nat \<Rightarrow> string list \<Rightarrow> string list \<Rightarrow> err option" where
  "validate_kinds i seen [] = None"
| "validate_kinds i seen (kind # kinds) = guards
     [fail_if (TrimSpace kind = []) (Errorf ''mutation actuator dry-run observed change kind[%d] is empty'' [AInt (int i)]),
      fail_if (kind \<noteq> TrimSpace kind) (Errorf ''mutation actuator dry-run observed change kind[%d] is not normalized'' [AInt (int i)]),
      fail_if (kind \<in> set seen) (Errorf ''mutation actuator dry-run observed change kind %q is duplicated'' [AStr kind]),
      validate_kinds (Suc i) (kind # seen) kinds]"

definition mutationActuatorValidateObservedChangeKinds :: "string list \<Rightarrow> err option" where
  "mutationActuatorValidateObservedChangeKinds kinds = validate_kinds 0 [] kinds"

definition mutationActuatorChangeKindSlicesEqual :: "string list \<Rightarrow> string list \<Rightarrow> bool" where
  "mutationActuatorChangeKindSlicesEqual a b \<longleftrightarrow>
     (if length a \<noteq> length b then False else list_all (\<lambda>i. a ! i = b ! i) [0 ..< length a])"

subsection \<open>Dry run: evaluation and verification\<close>

definition mutationActivationMaterializationAuthorityProofDigest :: "MutationActivationGateResult \<Rightarrow> string" where
  "mutationActivationMaterializationAuthorityProofDigest activation =
     (case gr_MaterializationPreflight activation of
        None \<Rightarrow> []
      | Some e \<Rightarrow> (case mp_AuthorityProof e of None \<Rightarrow> [] | Some a \<Rightarrow> TrimSpace (ma_AuthorityDigest a)))"

definition mutationActivationGatePassed :: "MutationActivationGateResult \<Rightarrow> string \<Rightarrow> bool" where
  "mutationActivationGatePassed r name =
     (case find (\<lambda>g. TrimSpace (ga_Name g) = name) (gr_Gates r) of Some g \<Rightarrow> ga_Passed g | None \<Rightarrow> False)"

definition mutationActivationFailedGateNames :: "MutationActivationGateResult \<Rightarrow> string list" where
  "mutationActivationFailedGateNames r = map (\<lambda>g. TrimSpace (ga_Name g)) (failed_gates (gr_Gates r))"

definition dry_run_base :: "MutationActuatorDryRunInput \<Rightarrow> MutationActuatorDryRunResult" where
  "dry_run_base input =
     (let activation = dri_Activation input; observed = mutationActuatorObservedChangeKinds activation;
          unsupported = mutationActuatorUnsupportedChangeKinds observed
      in \<lparr>dr_Schema = MutationActuatorDryRunSchemaVersion, dr_Status = MutationActuatorDryRunStatusBlocked,
          dr_Source = or_default MutationActuatorDryRunSourceHealth (dri_Source input), dr_LiveScope = MutationActuatorLiveScopeAddModify,
          dr_AllowedChangeKinds = mutationActuatorAllowedChangeKinds, dr_ObservedChangeKinds = observed,
          dr_UnsupportedChangeKinds = unsupported, dr_ActivationDigest = TrimSpace (gr_Digest activation),
          dr_ActivationStatus = TrimSpace (gr_Status activation),
          dr_MaterializationAuthorityProofDigest = mutationActivationMaterializationAuthorityProofDigest activation,
          dr_ActivationMutationAllowed = gr_MutationAllowed activation,
          dr_VerifierReady = mutationActivationGatePassed activation ''live_mutation_verifier_enabled'',
          dr_ActuatorEnabled = gr_LiveMutationActuatorEnabled activation, dr_WouldMutate = False, dr_MutationExecuted = False,
          dr_BlockingReasons = mutationActuatorLiveScopeBlockingReasons unsupported, dr_Digest = []\<rparr>)"

definition finish_dry_run :: "string \<Rightarrow> string list \<Rightarrow> MutationActuatorDryRunResult \<Rightarrow> MutationActuatorDryRunResult" where
  "finish_dry_run status reasons r0 =
     (let r = r0\<lparr>dr_Status := status, dr_BlockingReasons := dr_BlockingReasons r0 @ reasons\<rparr>
      in r\<lparr>dr_Digest := digestMutationActuatorDryRunResult r\<rparr>)"

definition EvaluateMutationActuatorDryRun :: "MutationActuatorDryRunInput \<Rightarrow> MutationActuatorDryRunResult" where
  "EvaluateMutationActuatorDryRun input =
     (let activation = dri_Activation input; r = dry_run_base input;
          blocked = (\<lambda>reasons. finish_dry_run MutationActuatorDryRunStatusBlocked reasons r)
      in case VerifyMutationActivationGateResult activation of
           Some e \<Rightarrow> blocked [''activation verification failed: '' @ err_text e]
         | None \<Rightarrow>
             if TrimSpace (gr_Source activation) \<noteq> MutationActivationSourceDurableControlledQueueCandidate
             then blocked [''activation source is not a durable controlled queue candidate'']
             else if dr_UnsupportedChangeKinds r \<noteq> [] then blocked []
             else if gr_MutationAllowed activation \<or> gr_LiveMutationActuatorEnabled activation
             then blocked [''live actuator is enabled; dry-run actuator must not execute mutations'']
             else if mutationActivationFailedGateNames activation \<noteq> [''live_mutation_actuator_enabled'']
             then blocked (if dr_BlockingReasons r @ gr_BlockingReasons activation = [] then [''activation is not verifier-ready'']
                           else gr_BlockingReasons activation)
             else finish_dry_run MutationActuatorDryRunStatusReady (gr_BlockingReasons activation) r)"

definition VerifyMutationActuatorDryRunResult :: "MutationActuatorDryRunResult \<Rightarrow> err option" where
  "VerifyMutationActuatorDryRunResult r = guards
     [fail_if (TrimSpace (dr_Schema r) \<noteq> MutationActuatorDryRunSchemaVersion) (Errorf ''mutation actuator dry-run schema is unsupported'' []),
      fail_if (TrimSpace (dr_Source r) \<noteq> MutationActuatorDryRunSourceHealth) (Errorf ''mutation actuator dry-run source is unsupported'' []),
      fail_if (dr_LiveScope r \<noteq> MutationActuatorLiveScopeAddModify) (Errorf ''mutation actuator dry-run live scope is unsupported'' []),
      fail_if (\<not> mutationActuatorChangeKindSlicesEqual (dr_AllowedChangeKinds r) mutationActuatorAllowedChangeKinds)
        (Errorf ''mutation actuator dry-run allowed change kinds are unsupported'' []),
      mutationActuatorValidateObservedChangeKinds (dr_ObservedChangeKinds r),
      fail_if (\<not> mutationActuatorChangeKindSlicesEqual (dr_UnsupportedChangeKinds r) (mutationActuatorUnsupportedChangeKinds (dr_ObservedChangeKinds r)))
        (Errorf ''mutation actuator dry-run unsupported change kinds mismatch'' []),
      fail_if (\<not> isCanonicalSHA256Digest (dr_Digest r)) (Errorf ''mutation actuator dry-run digest is required'' []),
      fail_if (dr_Digest r \<noteq> digestMutationActuatorDryRunResult r) (Errorf ''mutation actuator dry-run digest mismatch'' []),
      fail_if (dr_WouldMutate r) (Errorf ''mutation actuator dry-run must not report would_mutate'' []),
      fail_if (dr_MutationExecuted r) (Errorf ''mutation actuator dry-run must not execute mutation'' []),
      fail_if (dr_ActivationMutationAllowed r) (Errorf ''mutation actuator dry-run requires activation mutation_allowed=false'' []),
      fail_if (dr_ActuatorEnabled r) (Errorf ''mutation actuator dry-run requires actuator_enabled=false'' []),
      fail_if (dr_UnsupportedChangeKinds r \<noteq> [] \<and> dr_Status r = MutationActuatorDryRunStatusReady)
        (Errorf ''mutation actuator dry-run cannot be ready with unsupported change kinds'' []),
      fail_if (dr_UnsupportedChangeKinds r \<noteq> [] \<and> \<not> mutationActuatorHasLiveScopeBlockingReason (dr_BlockingReasons r))
        (Errorf ''mutation actuator dry-run with unsupported change kinds requires live scope blocking reason'' []),
      fail_if (\<not> isCanonicalSHA256Digest (dr_ActivationDigest r)) (Errorf ''mutation actuator dry-run activation digest is required'' []),
      fail_if (TrimSpace (dr_MaterializationAuthorityProofDigest r) \<noteq> [] \<and> \<not> isCanonicalSHA256Digest (dr_MaterializationAuthorityProofDigest r))
        (Errorf ''mutation actuator dry-run materialization authority proof digest must be canonical sha256'' []),
      fail_if (TrimSpace (dr_ActivationStatus r) \<noteq> MutationActivationStatusBlocked)
        (Errorf ''mutation actuator dry-run requires blocked activation status'' []),
      (if dr_Status r = MutationActuatorDryRunStatusBlocked
       then fail_if (dr_BlockingReasons r = []) (Errorf ''blocked mutation actuator dry-run requires blocking reasons'' [])
       else if dr_Status r = MutationActuatorDryRunStatusReady then guards
         [fail_if (\<not> dr_VerifierReady r) (Errorf ''ready mutation actuator dry-run requires verifier_ready=true'' []),
          fail_if (\<not> isCanonicalSHA256Digest (dr_MaterializationAuthorityProofDigest r))
            (Errorf ''ready mutation actuator dry-run requires materialization authority proof digest'' []),
          fail_if (case dr_BlockingReasons r of [reason] \<Rightarrow> \<not> HasPrefix reason ''live_mutation_actuator_enabled: '' | _ \<Rightarrow> True)
            (Errorf ''ready mutation actuator dry-run requires only the live actuator blocking reason'' [])]
       else Some (Errorf ''unsupported mutation actuator dry-run status %q'' [AStr (dr_Status r)]))]"

subsection \<open>Live results\<close>

definition MutationActuatorLiveResultSchemaVersion :: string where
  "MutationActuatorLiveResultSchemaVersion = ''repo_mutation_actuator_live_result.v1''"
definition MutationActuatorLiveStatusApplied :: string where "MutationActuatorLiveStatusApplied = ''applied''"
definition MutationActuatorLiveFileStatusApplied :: string where "MutationActuatorLiveFileStatusApplied = ''applied''"
definition MutationActuatorLiveFileStatusAlreadyApplied :: string where "MutationActuatorLiveFileStatusAlreadyApplied = ''already_applied''"

record MutationActuatorLiveFileResult =
  lf_Path :: string
  lf_Status :: string
  lf_ChangeKind :: string
  lf_BaseHash :: string
  lf_BeforeHash :: string
  lf_CandidateHash :: string
  lf_AfterHash :: string
  lf_ContentDigest :: string

record MutationActuatorLiveResult =
  lv_Schema :: string
  lv_Status :: string
  lv_Source :: string
  lv_LiveScope :: string
  lv_WorkspaceID :: string
  lv_ProjectID :: string
  lv_RepoID :: string
  lv_QueueID :: string
  lv_ItemID :: string
  lv_TargetCheckoutID :: string
  lv_TargetBranchName :: string
  lv_TargetLocalPath :: string
  lv_TargetHeadBefore :: string
  lv_TargetHeadAfter :: string
  lv_TargetDirtyStateAfter :: string
  lv_ActivationDigest :: string
  lv_MaterializationDigest :: string
  lv_MaterializationAuthorityProofDigest :: string
  lv_Files :: "MutationActuatorLiveFileResult list"
  lv_NoMerge :: bool
  lv_NoPush :: bool
  lv_NoRebase :: bool
  lv_NoBranchSwitch :: bool
  lv_MutationExecuted :: bool
  lv_Digest :: string

definition json_live_file :: "MutationActuatorLiveFileResult \<Rightarrow> json" where
  "json_live_file e = JObj
     ([(''path'', JStr (lf_Path e)), (''status'', JStr (lf_Status e)), (''change_kind'', JStr (lf_ChangeKind e))]
      @ omit_str ''base_hash'' (lf_BaseHash e) @ omit_str ''before_hash'' (lf_BeforeHash e)
      @ [(''candidate_hash'', JStr (lf_CandidateHash e)), (''after_hash'', JStr (lf_AfterHash e)), (''content_digest'', JStr (lf_ContentDigest e))])"

definition json_live_result :: "MutationActuatorLiveResult \<Rightarrow> json" where
  "json_live_result e = JObj
     ([(''schema'', JStr (lv_Schema e)), (''status'', JStr (lv_Status e)), (''source'', JStr (lv_Source e)), (''live_scope'', JStr (lv_LiveScope e))]
      @ omit_str ''workspace_id'' (lv_WorkspaceID e) @ omit_str ''project_id'' (lv_ProjectID e)
      @ omit_str ''repo_id'' (lv_RepoID e) @ omit_str ''queue_id'' (lv_QueueID e) @ omit_str ''item_id'' (lv_ItemID e)
      @ omit_str ''target_checkout_id'' (lv_TargetCheckoutID e) @ omit_str ''target_branch_name'' (lv_TargetBranchName e)
      @ omit_str ''target_local_path'' (lv_TargetLocalPath e) @ omit_str ''target_head_before'' (lv_TargetHeadBefore e)
      @ omit_str ''target_head_after'' (lv_TargetHeadAfter e)
      @ omit_str ''target_dirty_state_after'' (lv_TargetDirtyStateAfter e)
      @ [(''activation_digest'', JStr (lv_ActivationDigest e)), (''materialization_digest'', JStr (lv_MaterializationDigest e)),
         (''materialization_authority_proof_digest'', JStr (lv_MaterializationAuthorityProofDigest e))]
      @ omit_arr ''files'' (map json_live_file (lv_Files e))
      @ [(''no_merge'', JBool (lv_NoMerge e)), (''no_push'', JBool (lv_NoPush e)), (''no_rebase'', JBool (lv_NoRebase e)),
         (''no_branch_switch'', JBool (lv_NoBranchSwitch e)), (''mutation_executed'', JBool (lv_MutationExecuted e)), (''digest'', JStr (lv_Digest e))])"

definition digestMutationActuatorLiveResult :: "MutationActuatorLiveResult \<Rightarrow> string" where
  "digestMutationActuatorLiveResult r = json_digest (json_live_result (r\<lparr>lv_Digest := []\<rparr>))"

fun mutationActuatorLiveFirstNonEmpty :: "string list \<Rightarrow> string" where
  "mutationActuatorLiveFirstNonEmpty [] = []"
| "mutationActuatorLiveFirstNonEmpty (v # vs) = (if TrimSpace v \<noteq> [] then TrimSpace v else mutationActuatorLiveFirstNonEmpty vs)"

definition FinalizeMutationActuatorLiveResult :: "MutationActuatorLiveResult \<Rightarrow> MutationActuatorLiveResult" where
  "FinalizeMutationActuatorLiveResult r0 =
     (let r = r0\<lparr>lv_Schema := mutationActuatorLiveFirstNonEmpty [lv_Schema r0, MutationActuatorLiveResultSchemaVersion],
            lv_Status := mutationActuatorLiveFirstNonEmpty [lv_Status r0, MutationActuatorLiveStatusApplied],
            lv_Source := mutationActuatorLiveFirstNonEmpty [lv_Source r0, MutationActivationLiveActuatorSourceRuntime],
            lv_LiveScope := mutationActuatorLiveFirstNonEmpty [lv_LiveScope r0, MutationActuatorLiveScopeAddModify],
            lv_NoMerge := True, lv_NoPush := True, lv_NoRebase := True, lv_NoBranchSwitch := True\<rparr>
      in r\<lparr>lv_Digest := digestMutationActuatorLiveResult r\<rparr>)"

definition verifyMutationActuatorLiveFileResult :: "nat \<Rightarrow> MutationActuatorLiveFileResult \<Rightarrow> err option" where
  "verifyMutationActuatorLiveFileResult index file =
     (case NormalizePath (lf_Path file) of
        Inl e \<Rightarrow> Some (Errorf ''mutation actuator live file[%d] path invalid: %w'' [AInt (int index), AErr e])
      | Inr path \<Rightarrow>
          let changeKind = TrimSpace (lf_ChangeKind file); status = TrimSpace (lf_Status file)
          in guards
           [fail_if (path \<noteq> lf_Path file) (Errorf ''mutation actuator live file[%d] path is not normalized'' [AInt (int index)]),
            fail_if (changeKind \<noteq> CASPatchChangeModify \<and> changeKind \<noteq> CASPatchChangeAdd)
              (Errorf ''mutation actuator live file[%d] change kind %q is outside add/modify scope'' [AInt (int index), AStr (lf_ChangeKind file)]),
            fail_if (status \<noteq> MutationActuatorLiveFileStatusApplied \<and> status \<noteq> MutationActuatorLiveFileStatusAlreadyApplied)
              (Errorf ''mutation actuator live file[%d] status %q is unsupported'' [AInt (int index), AStr (lf_Status file)]),
            guards (map (\<lambda>(field, v). fail_if (\<not> isCanonicalSHA256Digest v)
                (Errorf ''mutation actuator live file[%d] %s must be canonical sha256'' [AInt (int index), AStr field]))
              [(''candidate_hash'', lf_CandidateHash file), (''after_hash'', lf_AfterHash file), (''content_digest'', lf_ContentDigest file)]),
            fail_if (lf_CandidateHash file \<noteq> lf_ContentDigest file \<or> lf_AfterHash file \<noteq> lf_ContentDigest file)
              (Errorf ''mutation actuator live file[%d] after/content digest must match candidate hash'' [AInt (int index)]),
            (if status = MutationActuatorLiveFileStatusApplied then
               (if changeKind = CASPatchChangeModify
                then fail_if (\<not> isCanonicalSHA256Digest (lf_BaseHash file) \<or> lf_BeforeHash file \<noteq> lf_BaseHash file)
                  (Errorf ''mutation actuator live file[%d] modify apply requires before_hash to match base_hash'' [AInt (int index)])
                else fail_if (TrimSpace (lf_BeforeHash file) \<noteq> [])
                  (Errorf ''mutation actuator live file[%d] add apply requires empty before_hash'' [AInt (int index)]))
             else if status = MutationActuatorLiveFileStatusAlreadyApplied
             then fail_if (lf_BeforeHash file \<noteq> lf_ContentDigest file)
               (Errorf ''mutation actuator live file[%d] already_applied requires before_hash to match content_digest'' [AInt (int index)])
             else None)])"

text \<open>The loop over the files, with the path before; it also tells whether a file was written.\<close>

fun verify_live_files :: "nat \<Rightarrow> string \<Rightarrow> MutationActuatorLiveFileResult list \<Rightarrow> err option" where
  "verify_live_files i previousPath [] = None"
| "verify_live_files i previousPath (file # files) = guards
     [verifyMutationActuatorLiveFileResult i file,
      fail_if (previousPath \<noteq> [] \<and> previousPath \<ge> lf_Path file)
        (Errorf ''mutation actuator live file evidence must be sorted and unique'' []),
      verify_live_files (Suc i) (lf_Path file) files]"

definition saw_write :: "MutationActuatorLiveFileResult list \<Rightarrow> bool" where
  "saw_write files \<longleftrightarrow> list_ex (\<lambda>file. lf_Status file = MutationActuatorLiveFileStatusApplied) files"

definition VerifyMutationActuatorLiveResult :: "MutationActuatorLiveResult \<Rightarrow> err option" where
  "VerifyMutationActuatorLiveResult r = guards
     [fail_if (TrimSpace (lv_Schema r) \<noteq> MutationActuatorLiveResultSchemaVersion) (Errorf ''mutation actuator live result schema is unsupported'' []),
      fail_if (TrimSpace (lv_Source r) \<noteq> MutationActivationLiveActuatorSourceRuntime) (Errorf ''mutation actuator live result source is unsupported'' []),
      fail_if (TrimSpace (lv_LiveScope r) \<noteq> MutationActuatorLiveScopeAddModify) (Errorf ''mutation actuator live result scope is unsupported'' []),
      fail_if (TrimSpace (lv_Status r) \<noteq> MutationActuatorLiveStatusApplied)
        (Errorf ''mutation actuator live result status %q is unsupported'' [AStr (lv_Status r)]),
      fail_if (\<not> lv_NoMerge r \<or> \<not> lv_NoPush r \<or> \<not> lv_NoRebase r \<or> \<not> lv_NoBranchSwitch r)
        (Errorf ''mutation actuator live result must prove merge/push/rebase/branch-switch stayed disabled'' []),
      required_fields ''mutation actuator live result %s is required''
        [(''workspace_id'', lv_WorkspaceID r), (''repo_id'', lv_RepoID r), (''queue_id'', lv_QueueID r), (''item_id'', lv_ItemID r),
         (''target_checkout_id'', lv_TargetCheckoutID r), (''target_branch_name'', lv_TargetBranchName r),
         (''target_local_path'', lv_TargetLocalPath r), (''target_head_before'', lv_TargetHeadBefore r),
         (''target_head_after'', lv_TargetHeadAfter r), (''activation_digest'', lv_ActivationDigest r),
         (''materialization_digest'', lv_MaterializationDigest r),
         (''materialization_authority_proof_digest'', lv_MaterializationAuthorityProofDigest r)],
      fail_if (lv_TargetHeadBefore r \<noteq> lv_TargetHeadAfter r) (Errorf ''mutation actuator live result changed target HEAD'' []),
      fail_if (\<not> isCanonicalGitObjectID (lv_TargetHeadBefore r) \<or> \<not> isCanonicalGitObjectID (lv_TargetHeadAfter r))
        (Errorf ''mutation actuator live result target HEAD must be canonical git object id'' []),
      guards (map (\<lambda>(field, v). fail_if (\<not> isCanonicalSHA256Digest v)
          (Errorf ''mutation actuator live result %s must be canonical sha256'' [AStr field]))
        [(''activation_digest'', lv_ActivationDigest r), (''materialization_digest'', lv_MaterializationDigest r),
         (''materialization_authority_proof_digest'', lv_MaterializationAuthorityProofDigest r), (''digest'', lv_Digest r)]),
      fail_if (lv_Files r = []) (Errorf ''mutation actuator live result requires file evidence'' []),
      verify_live_files 0 [] (lv_Files r),
      fail_if (lv_MutationExecuted r \<noteq> saw_write (lv_Files r))
        (Errorf ''mutation actuator live result mutation_executed must match applied file evidence'' []),
      fail_if (lv_Digest r \<noteq> digestMutationActuatorLiveResult r) (Errorf ''mutation actuator live result digest mismatch'' [])]"

end
