(* ===== verification/Actuator_Properties.thy ===== *)
theory Actuator_Properties
  imports Mutation_Actuator Activation_Roundtrip
begin

section \<open>Properties of the mutation actuator\<close>

text \<open>
  Which results of a live run the verifier accepts, what they say of the files, and what a dry run tells
  about the live run that would follow it.
\<close>

subsection \<open>Results of a live run\<close>

text \<open>
  What one file of an accepted result says: the file now has the candidate content, and it had the base
  content before, or was not there, or had the candidate content already.
\<close>

definition live_file_spec :: "MutationActuatorLiveFileResult \<Rightarrow> bool" where
  "live_file_spec f \<longleftrightarrow>
     NormalizePath (lf_Path f) = Inr (lf_Path f) \<and> isCanonicalSHA256Digest (lf_ContentDigest f) \<and>
     lf_CandidateHash f = lf_ContentDigest f \<and> lf_AfterHash f = lf_ContentDigest f \<and>
     (TrimSpace (lf_Status f) = MutationActuatorLiveFileStatusApplied \<and> TrimSpace (lf_ChangeKind f) = CASPatchChangeModify \<and>
        lf_BeforeHash f = lf_BaseHash f \<and> isCanonicalSHA256Digest (lf_BaseHash f) \<or>
      TrimSpace (lf_Status f) = MutationActuatorLiveFileStatusApplied \<and> TrimSpace (lf_ChangeKind f) = CASPatchChangeAdd \<and>
        TrimSpace (lf_BeforeHash f) = [] \<or>
      TrimSpace (lf_Status f) = MutationActuatorLiveFileStatusAlreadyApplied \<and>
        TrimSpace (lf_ChangeKind f) \<in> {CASPatchChangeModify, CASPatchChangeAdd} \<and> lf_BeforeHash f = lf_ContentDigest f)"

lemma live_statuses: "MutationActuatorLiveFileStatusApplied \<noteq> MutationActuatorLiveFileStatusAlreadyApplied"
  "CASPatchChangeModify \<noteq> CASPatchChangeAdd"
  by (simp_all add: MutationActuatorLiveFileStatusApplied_def MutationActuatorLiveFileStatusAlreadyApplied_def
      CASPatchChangeModify_def CASPatchChangeAdd_def)

lemma live_file_None: "verifyMutationActuatorLiveFileResult i f = None \<longleftrightarrow> live_file_spec f"
proof (cases "NormalizePath (lf_Path f)")
  case (Inr path)
  then show ?thesis
    unfolding verifyMutationActuatorLiveFileResult_def live_file_spec_def
    using live_statuses by (auto simp: Let_def)
qed (simp add: verifyMutationActuatorLiveFileResult_def live_file_spec_def)

lemma live_path_not_Nil: "live_file_spec f \<Longrightarrow> lf_Path f \<noteq> []"
  using NormalizePath_not_Nil [of "lf_Path f" "lf_Path f"] by (simp add: live_file_spec_def)

lemma live_files_None:
  "verify_live_files i prev fs = None \<longleftrightarrow>
     list_all live_file_spec fs \<and> sorted_wrt (<) (if prev = [] then map lf_Path fs else prev # map lf_Path fs)"
proof (induction fs arbitrary: i prev)
  case (Cons f fs)
  show ?case
  proof (cases "live_file_spec f")
    case True
    then have ne: "lf_Path f \<noteq> []" by (rule live_path_not_Nil)
    have step: "verify_live_files i prev (f # fs) = None \<longleftrightarrow> \<not> (prev \<noteq> [] \<and> prev \<ge> lf_Path f) \<and>
        list_all live_file_spec fs \<and> sorted_wrt (<) (lf_Path f # map lf_Path fs)"
      using True ne by (simp add: live_file_None Cons.IH)
    have chain: "sorted_wrt (<) (prev # lf_Path f # map lf_Path fs) \<longleftrightarrow>
        prev < lf_Path f \<and> sorted_wrt (<) (lf_Path f # map lf_Path fs)" by auto
    show ?thesis unfolding step using True chain by (auto simp: not_le)
  qed (simp add: live_file_None)
qed simp

text \<open>The references a result must carry, and the digests among them.\<close>

definition live_refs :: "MutationActuatorLiveResult \<Rightarrow> string list" where
  "live_refs r = [lv_WorkspaceID r, lv_RepoID r, lv_QueueID r, lv_ItemID r, lv_TargetCheckoutID r, lv_TargetBranchName r, lv_TargetLocalPath r]"

definition live_digests :: "MutationActuatorLiveResult \<Rightarrow> string list" where
  "live_digests r = [lv_ActivationDigest r, lv_MaterializationDigest r, lv_MaterializationAuthorityProofDigest r]"

lemma canonical_not_blank: "isCanonicalSHA256Digest d \<Longrightarrow> TrimSpace d \<noteq> []"
  by (auto simp: isCanonicalSHA256Digest_def HasPrefix_def)

lemma git_id_not_blank: "isCanonicalGitObjectID d \<Longrightarrow> TrimSpace d \<noteq> []"
  by (auto simp: isCanonicalGitObjectID_def)

lemma default_or: "mutationActuatorLiveFirstNonEmpty [v, d] = (if TrimSpace v \<noteq> [] then TrimSpace v else TrimSpace d)"
  by simp

lemma live_constants [simp]:
  "TrimSpace MutationActuatorLiveResultSchemaVersion = MutationActuatorLiveResultSchemaVersion"
  "TrimSpace MutationActuatorLiveStatusApplied = MutationActuatorLiveStatusApplied"
  "TrimSpace MutationActivationLiveActuatorSourceRuntime = MutationActivationLiveActuatorSourceRuntime"
  "TrimSpace MutationActuatorLiveScopeAddModify = MutationActuatorLiveScopeAddModify"
  by code_simp+

lemma default_const: "TrimSpace d = d \<Longrightarrow>
    TrimSpace (mutationActuatorLiveFirstNonEmpty [v, d]) = d \<longleftrightarrow> TrimSpace v \<in> {[], d}"
  by (auto simp: default_or)

lemma live_digest_self: "digestMutationActuatorLiveResult (r\<lparr>lv_Digest := d\<rparr>) = digestMutationActuatorLiveResult r"
  by (simp add: digestMutationActuatorLiveResult_def)

lemma live_digest_canonical [simp]: "isCanonicalSHA256Digest (digestMutationActuatorLiveResult r)"
  by (simp add: digestMutationActuatorLiveResult_def)

lemma live_result_accepted:
  "VerifyMutationActuatorLiveResult (FinalizeMutationActuatorLiveResult r) = None \<longleftrightarrow>
     TrimSpace (lv_Schema r) \<in> {[], MutationActuatorLiveResultSchemaVersion} \<and>
     TrimSpace (lv_Status r) \<in> {[], MutationActuatorLiveStatusApplied} \<and>
     TrimSpace (lv_Source r) \<in> {[], MutationActivationLiveActuatorSourceRuntime} \<and>
     TrimSpace (lv_LiveScope r) \<in> {[], MutationActuatorLiveScopeAddModify} \<and>
     list_all (\<lambda>v. TrimSpace v \<noteq> []) (live_refs r) \<and> list_all isCanonicalSHA256Digest (live_digests r) \<and>
     lv_TargetHeadAfter r = lv_TargetHeadBefore r \<and> isCanonicalGitObjectID (lv_TargetHeadBefore r) \<and>
     lv_Files r \<noteq> [] \<and> sorted_wrt (<) (map lf_Path (lv_Files r)) \<and> list_all live_file_spec (lv_Files r) \<and>
     lv_MutationExecuted r = list_ex (\<lambda>f. lf_Status f = MutationActuatorLiveFileStatusApplied) (lv_Files r)"
proof -
  let ?r = "FinalizeMutationActuatorLiveResult r"
  have digest: "lv_Digest ?r = digestMutationActuatorLiveResult ?r"
    unfolding FinalizeMutationActuatorLiveResult_def Let_def by (simp only: live_digest_self) simp
  have kept: "live_refs ?r = live_refs r" "live_digests ?r = live_digests r" "lv_TargetHeadAfter ?r = lv_TargetHeadAfter r"
    "lv_TargetHeadBefore ?r = lv_TargetHeadBefore r" "lv_Files ?r = lv_Files r" "lv_MutationExecuted ?r = lv_MutationExecuted r"
    "lv_NoMerge ?r" "lv_NoPush ?r" "lv_NoRebase ?r" "lv_NoBranchSwitch ?r"
    by (simp_all add: FinalizeMutationActuatorLiveResult_def Let_def live_refs_def live_digests_def)
  have texts: "lv_Schema ?r = mutationActuatorLiveFirstNonEmpty [lv_Schema r, MutationActuatorLiveResultSchemaVersion]"
    "lv_Status ?r = mutationActuatorLiveFirstNonEmpty [lv_Status r, MutationActuatorLiveStatusApplied]"
    "lv_Source ?r = mutationActuatorLiveFirstNonEmpty [lv_Source r, MutationActivationLiveActuatorSourceRuntime]"
    "lv_LiveScope ?r = mutationActuatorLiveFirstNonEmpty [lv_LiveScope r, MutationActuatorLiveScopeAddModify]"
    by (simp_all add: FinalizeMutationActuatorLiveResult_def Let_def del: mutationActuatorLiveFirstNonEmpty.simps)
  have defaults: "TrimSpace (lv_Schema ?r) = MutationActuatorLiveResultSchemaVersion \<longleftrightarrow> TrimSpace (lv_Schema r) \<in> {[], MutationActuatorLiveResultSchemaVersion}"
    "TrimSpace (lv_Status ?r) = MutationActuatorLiveStatusApplied \<longleftrightarrow> TrimSpace (lv_Status r) \<in> {[], MutationActuatorLiveStatusApplied}"
    "TrimSpace (lv_Source ?r) = MutationActivationLiveActuatorSourceRuntime \<longleftrightarrow> TrimSpace (lv_Source r) \<in> {[], MutationActivationLiveActuatorSourceRuntime}"
    "TrimSpace (lv_LiveScope ?r) = MutationActuatorLiveScopeAddModify \<longleftrightarrow> TrimSpace (lv_LiveScope r) \<in> {[], MutationActuatorLiveScopeAddModify}"
    by (simp_all only: texts default_const live_constants)
  have verified: "VerifyMutationActuatorLiveResult s = None \<longleftrightarrow>
      TrimSpace (lv_Schema s) = MutationActuatorLiveResultSchemaVersion \<and> TrimSpace (lv_Source s) = MutationActivationLiveActuatorSourceRuntime \<and>
      TrimSpace (lv_LiveScope s) = MutationActuatorLiveScopeAddModify \<and> TrimSpace (lv_Status s) = MutationActuatorLiveStatusApplied \<and>
      (lv_NoMerge s \<and> lv_NoPush s \<and> lv_NoRebase s \<and> lv_NoBranchSwitch s) \<and>
      list_all (\<lambda>v. TrimSpace v \<noteq> []) (live_refs s) \<and> list_all isCanonicalSHA256Digest (live_digests s) \<and> isCanonicalSHA256Digest (lv_Digest s) \<and>
      lv_TargetHeadAfter s = lv_TargetHeadBefore s \<and> isCanonicalGitObjectID (lv_TargetHeadBefore s) \<and>
      lv_Files s \<noteq> [] \<and> verify_live_files 0 [] (lv_Files s) = None \<and> lv_MutationExecuted s = saw_write (lv_Files s) \<and>
      lv_Digest s = digestMutationActuatorLiveResult s" for s
    unfolding VerifyMutationActuatorLiveResult_def required_fields_def live_refs_def live_digests_def
    using canonical_not_blank git_id_not_blank by auto
  show ?thesis
    unfolding verified digest live_files_None saw_write_def kept
    by (simp only: defaults live_digest_canonical kept if_True simp_thms refl) (simp only: conj_ac)
qed

text \<open>C5.
  A finalised result of a live run passes the verifier exactly when it names its parts and carries
  canonical digests, the target HEAD is a git object and unchanged, and there are files, sorted by their
  distinct normalised paths, each of which now has the candidate content and had the base content
  before (a modification), did not exist (an addition), or had the candidate content already; and
  it claims an executed mutation exactly when some file has the status applied.
\<close>

theorem live_result_iff:
  "VerifyMutationActuatorLiveResult (FinalizeMutationActuatorLiveResult r) = None \<longleftrightarrow>
     TrimSpace (lv_Schema r) \<in> {[], MutationActuatorLiveResultSchemaVersion} \<and>
     TrimSpace (lv_Status r) \<in> {[], MutationActuatorLiveStatusApplied} \<and>
     TrimSpace (lv_Source r) \<in> {[], MutationActivationLiveActuatorSourceRuntime} \<and>
     TrimSpace (lv_LiveScope r) \<in> {[], MutationActuatorLiveScopeAddModify} \<and>
     list_all (\<lambda>v. TrimSpace v \<noteq> []) (live_refs r) \<and> list_all isCanonicalSHA256Digest (live_digests r) \<and>
     lv_TargetHeadAfter r = lv_TargetHeadBefore r \<and> isCanonicalGitObjectID (lv_TargetHeadBefore r) \<and>
     lv_Files r \<noteq> [] \<and> sorted_wrt (<) (map lf_Path (lv_Files r)) \<and> list_all live_file_spec (lv_Files r) \<and>
     lv_MutationExecuted r = list_ex (\<lambda>f. lf_Status f = MutationActuatorLiveFileStatusApplied) (lv_Files r)"
  by (rule live_result_accepted)

text \<open>
  A result with one added file, whose status carries a trailing space: the verifier trims the status
  when it checks the file, but not when it decides whether something was written.
\<close>

definition demo_live_file :: "string \<Rightarrow> MutationActuatorLiveFileResult" where
  "demo_live_file status = \<lparr>lf_Path = ''a.go'', lf_Status = status, lf_ChangeKind = CASPatchChangeAdd, lf_BaseHash = [], lf_BeforeHash = [],
     lf_CandidateHash = sha256_text ''x'', lf_AfterHash = sha256_text ''x'', lf_ContentDigest = sha256_text ''x''\<rparr>"

definition demo_live :: "string \<Rightarrow> bool \<Rightarrow> MutationActuatorLiveResult" where
  "demo_live status executed = \<lparr>lv_Schema = [], lv_Status = [], lv_Source = [], lv_LiveScope = [], lv_WorkspaceID = ''w'', lv_ProjectID = [],
     lv_RepoID = ''r'', lv_QueueID = ''q'', lv_ItemID = ''i'', lv_TargetCheckoutID = ''c'', lv_TargetBranchName = ''main'',
     lv_TargetLocalPath = ''/w'', lv_TargetHeadBefore = replicate 40 (CHR ''0''), lv_TargetHeadAfter = replicate 40 (CHR ''0''),
     lv_TargetDirtyStateAfter = [], lv_ActivationDigest = sha256_text ''a'', lv_MaterializationDigest = sha256_text ''m'',
     lv_MaterializationAuthorityProofDigest = sha256_text ''p'', lv_Files = [demo_live_file status], lv_NoMerge = False, lv_NoPush = False,
     lv_NoRebase = False, lv_NoBranchSwitch = False, lv_MutationExecuted = executed, lv_Digest = []\<rparr>"

lemma demo_live_texts: "list_all (\<lambda>v. TrimSpace v \<noteq> []) [''w'', ''r'', ''q'', ''i'', ''c'', ''main'', ''/w'']"
  "isCanonicalGitObjectID (replicate 40 (CHR ''0''))" "NormalizePath ''a.go'' = Inr ''a.go''" "TrimSpace CASPatchChangeAdd = CASPatchChangeAdd"
  by code_simp+

lemma demo_live_ok:
  assumes "TrimSpace status = MutationActuatorLiveFileStatusApplied"
  shows "VerifyMutationActuatorLiveResult (FinalizeMutationActuatorLiveResult
      (demo_live status (status = MutationActuatorLiveFileStatusApplied))) = None"
  unfolding live_result_accepted demo_live_def demo_live_file_def live_refs_def live_digests_def live_file_spec_def
  using demo_live_texts assms by simp

text \<open>
  The verifier of live results accepts a result that says a file was written (its status, trimmed, is
  applied, and the hash of the file changed) while the result says that no mutation was executed.
\<close>

theorem live_write_unreported:
  "\<exists>r f. VerifyMutationActuatorLiveResult r = None \<and> lv_Files r = [f] \<and>
     TrimSpace (lf_Status f) = MutationActuatorLiveFileStatusApplied \<and> lf_AfterHash f \<noteq> lf_BeforeHash f \<and> \<not> lv_MutationExecuted r"
proof (intro exI conjI)
  have status: "TrimSpace ''applied '' = MutationActuatorLiveFileStatusApplied" "''applied '' \<noteq> MutationActuatorLiveFileStatusApplied"
    by code_simp+
  let ?r = "FinalizeMutationActuatorLiveResult (demo_live ''applied '' False)" and ?f = "demo_live_file ''applied ''"
  show "VerifyMutationActuatorLiveResult ?r = None" using demo_live_ok [OF status(1)] status(2) by simp
  show "lv_Files ?r = [?f]" "\<not> lv_MutationExecuted ?r"
    by (simp_all add: FinalizeMutationActuatorLiveResult_def demo_live_def Let_def)
  show "TrimSpace (lf_Status ?f) = MutationActuatorLiveFileStatusApplied" "lf_AfterHash ?f \<noteq> lf_BeforeHash ?f"
    using status(1) by (simp_all add: demo_live_file_def)
qed

subsection \<open>What a dry run predicts\<close>

text \<open>The same input with the live actuator switched on or off.\<close>

definition with_actuator :: "bool \<Rightarrow> MutationActivationGateInput \<Rightarrow> MutationActivationGateInput" where
  "with_actuator on input = input\<lparr>gi_LiveMutationActuatorEnabled := on,
     gi_LiveMutationActuatorSource := (if on then MutationActivationLiveActuatorSourceRuntime else [])\<rparr>"

abbreviation switched :: "bool \<Rightarrow> MutationActivationGateInput \<Rightarrow> MutationActivationGateResult" where
  "switched on input \<equiv> EvaluateMutationActivationGates (with_actuator on input)"

lemma base_switch: "gate_base (with_actuator on input) = (gate_base input)\<lparr>gr_LiveMutationActuatorEnabled := on,
    gr_LiveMutationActuatorSource := (if on then MutationActivationLiveActuatorSourceRuntime else [])\<rparr>"
  by (simp add: gate_base_def with_actuator_def Let_def)

text \<open>Fifteen gates do not depend on the switch.\<close>

definition other_gates :: "MutationActivationGateInput \<Rightarrow> MutationActivationGate list" where
  "other_gates input = butlast (gate_list input (gate_base input))"

definition actuator_gate :: "bool \<Rightarrow> MutationActivationGate" where
  "actuator_gate on = addGate ''live_mutation_actuator_enabled'' on
     ''live mutation actuator is disabled; verifier readiness does not execute mutations''"

lemma gates_switch: "gr_Gates (switched on input) = other_gates input @ [actuator_gate on]"
proof -
  have "mutationActivationResultMaterializationPreflightReady (r\<lparr>gr_LiveMutationActuatorEnabled := x, gr_LiveMutationActuatorSource := y\<rparr>) =
      mutationActivationResultMaterializationPreflightReady r"
    "preflight_reason (r\<lparr>gr_LiveMutationActuatorEnabled := x, gr_LiveMutationActuatorSource := y\<rparr>) = preflight_reason r" for r x y
    by (simp_all add: mutationActivationResultMaterializationPreflightReady_def preflight_reason_def)
  then show ?thesis
    unfolding evaluate_gates(1) base_switch other_gates_def actuator_gate_def gate_list_def Let_def by (simp add: with_actuator_def)
qed

definition other_expected :: "MutationActivationGateInput \<Rightarrow> (string \<times> bool) list" where
  "other_expected input = butlast (expected_gates (gate_base input))"

lemma kept_switch:
  "gr_AuthorityMode (switched on input) = gr_AuthorityMode (gate_base input)" "gr_ContextMode (switched on input) = gr_ContextMode (gate_base input)"
  "gr_ReviewerMeshMode (switched on input) = gr_ReviewerMeshMode (gate_base input)"
  "gr_LiveMutationVerifierEnabled (switched on input) = gi_LiveMutationVerifierEnabled input" "gr_LiveMutationActuatorEnabled (switched on input) = on"
  "gr_QueueDurable (switched on input) = gi_QueueDurable input" "gr_DirectMergeDisabled (switched on input) = gi_DirectMergeDisabled input"
  "gr_Source (switched on input) = TrimSpace (gi_Source input)" "gr_SourceError (switched on input) = TrimSpace (gi_SourceError input)"
  "gr_LiveMutationVerifierSource (switched on input) = TrimSpace (gi_LiveMutationVerifierSource input)"
  "gr_LiveMutationActuatorSource (switched on input) = (if on then MutationActivationLiveActuatorSourceRuntime else [])"
  "gr_Candidate (switched on input) = gr_Candidate (gate_base input)" "gr_WorktreeIdentity (switched on input) = gr_WorktreeIdentity (gate_base input)"
  "gr_TargetWorktreeIdentity (switched on input) = gr_TargetWorktreeIdentity (gate_base input)"
  "gr_MutationBindingEvidence (switched on input) = gr_MutationBindingEvidence (gate_base input)"
  "gr_MergeAdmissionEvidence (switched on input) = gr_MergeAdmissionEvidence (gate_base input)"
  "gr_RetryBoundEvidence (switched on input) = gr_RetryBoundEvidence (gate_base input)"
  "gr_RollbackProofEvidence (switched on input) = gr_RollbackProofEvidence (gate_base input)"
  "gr_ReviewerAdvisoryEvidence (switched on input) = gr_ReviewerAdvisoryEvidence (gate_base input)"
  "gr_OperatorEnablementEvidence (switched on input) = gr_OperatorEnablementEvidence (gate_base input)"
  "gr_MaterializationPreflight (switched on input) = gr_MaterializationPreflight (gate_base input)"
  by (simp_all add: EvaluateMutationActivationGates_def Let_def base_switch) (simp_all add: gate_base_def Let_def with_actuator_def)

lemma expected_switch: "expected_gates (switched on input) = other_expected input @ [(''live_mutation_actuator_enabled'', on)]"
proof -
  have "gr_QueueDurable (gate_base input) = gi_QueueDurable input" "gr_DirectMergeDisabled (gate_base input) = gi_DirectMergeDisabled input"
    "gr_LiveMutationVerifierEnabled (gate_base input) = gi_LiveMutationVerifierEnabled input"
    by (simp_all add: gate_base_def Let_def)
  then show ?thesis
    unfolding other_expected_def expected_gates_def mutationActivationResultWorktreeIdentityReady_def
      mutationActivationResultTargetWorktreeIdentityReady_def mutationActivationResultMutationBindingReady_def
      mutationActivationResultMergeAdmissionReady_def mutationActivationResultRetryBoundReady_def mutationActivationResultRollbackProofReady_def
      mutationActivationResultReviewerAdvisoryReady_def mutationActivationResultOperatorEnablementReady_def
      mutationActivationResultMaterializationPreflightReady_def kept_switch
    by simp
qed

lemma evidence_switch: "verify_evidence (switched on input) = verify_evidence (switched off input)"
  unfolding verify_evidence_def kept_switch by (rule refl)

lemma other_names: "map (\<lambda>g. TrimSpace (ga_Name g)) (other_gates input) = butlast mutationActivationRequiredGateNames"
  "map fst (other_expected input) = butlast mutationActivationRequiredGateNames"
  "TrimSpace (ga_Name (actuator_gate on)) = ''live_mutation_actuator_enabled''"
  "''live_mutation_actuator_enabled'' \<notin> set (butlast mutationActivationRequiredGateNames)"
proof -
  have "map (\<lambda>g. TrimSpace (ga_Name g)) (gate_list input (gate_base input)) = mutationActivationRequiredGateNames"
    using arg_cong [OF gate_list_names [of input "gate_base input"], of "map TrimSpace"] gate_names_trimmed(1) by (simp add: comp_def)
  then show "map (\<lambda>g. TrimSpace (ga_Name g)) (other_gates input) = butlast mutationActivationRequiredGateNames"
    unfolding other_gates_def by (simp add: map_butlast)
  show "map fst (other_expected input) = butlast mutationActivationRequiredGateNames"
    unfolding other_expected_def using expected_names [of "gate_base input"] by (simp add: map_butlast)
  show "TrimSpace (ga_Name (actuator_gate on)) = ''live_mutation_actuator_enabled''" unfolding actuator_gate_def gate_fields by code_simp
  show "''live_mutation_actuator_enabled'' \<notin> set (butlast mutationActivationRequiredGateNames)" by code_simp
qed

text \<open>When the fifteen gates pass, the gates of the result agree with the recomputed ones exactly when those pass too.\<close>

lemma invariants_switch:
  assumes "list_all ga_Passed (other_gates input)"
  shows "verifyMutationActivationTopLevelGateInvariants (switched on input)
      (map (\<lambda>g. (TrimSpace (ga_Name g), g)) (gr_Gates (switched on input))) = None \<longleftrightarrow> list_all snd (other_expected input)"
proof -
  let ?f = "\<lambda>g. (TrimSpace (ga_Name g), g)" let ?l = "map ?f (other_gates input) @ [?f (actuator_gate on)]"
  have last: "gate_passed_in ?l ''live_mutation_actuator_enabled'' = on"
  proof -
    have "fst ` set (map ?f (other_gates input)) = set (butlast mutationActivationRequiredGateNames)"
      unfolding other_names(1) [of input, symmetric] by (simp add: image_image)
    then have "map_of (map ?f (other_gates input)) ''live_mutation_actuator_enabled'' = None"
      using other_names(4) by (simp only: map_of_eq_None_iff simp_thms)
    then show ?thesis by (simp add: gate_passed_in_def other_names(3) map_add_def) (simp add: actuator_gate_def)
  qed
  have first: "gate_passed_in ?l n" if "n \<in> set (butlast mutationActivationRequiredGateNames)" for n
  proof -
    have "n \<noteq> ''live_mutation_actuator_enabled''" using that other_names(4) by metis
    then have eq: "map_of ?l n = map_of (map ?f (other_gates input)) n" by (simp add: other_names(3) map_add_def split: option.splits)
    have "n \<in> fst ` set (map ?f (other_gates input))" using that unfolding other_names(1) [of input, symmetric] by (auto simp: image_image)
    then obtain g where g: "map_of (map ?f (other_gates input)) n = Some g"
      by (cases "map_of (map ?f (other_gates input)) n") (auto simp: map_of_eq_None_iff)
    then have "g \<in> set (other_gates input)" by (auto dest!: map_of_SomeD)
    then have "ga_Passed g" using assms by (simp add: list_all_iff)
    with g eq show ?thesis by (simp add: gate_passed_in_def)
  qed
  have names: "n \<in> set (butlast mutationActivationRequiredGateNames)" if "(n, w) \<in> set (other_expected input)" for n w
    using imageI [OF that, of fst] unfolding other_names(2) [of input, symmetric] by simp
  have each: "(\<forall>(n, w) \<in> set (other_expected input). gate_passed_in ?l n = w) \<longleftrightarrow> list_all snd (other_expected input)"
    using first names by (fastforce simp: list_all_iff)
  have lk: "map ?f (gr_Gates (switched on input)) = ?l" by (simp add: gates_switch)
  have rows: "guards (map (\<lambda>(n, w). fail_if (gate_passed_in ?l n \<noteq> w) (e n)) es) = None \<longleftrightarrow> (\<forall>(n, w) \<in> set es. gate_passed_in ?l n = w)"
    for e :: "string \<Rightarrow> err" and es by (auto simp: guards_None)
  show ?thesis
    unfolding verifyMutationActivationTopLevelGateInvariants_def lk expected_switch rows using last each by simp
qed

lemma gate_set_switch: "verifyMutationActivationGateSet (gr_Gates (switched on input)) = Inr (map (\<lambda>g. (TrimSpace (ga_Name g), g)) (gr_Gates (switched on input)))"
  unfolding evaluate_gates(1) by (rule evaluated_gate_set)

lemma switches_iff:
  assumes "gi_LiveMutationVerifierEnabled input"
  shows "verify_switches (switched on input) = None \<longleftrightarrow>
    TrimSpace (gi_LiveMutationVerifierSource input) = MutationActivationLiveVerifierSourceEnv \<and>
    TrimSpace (gi_Source input) = MutationActivationSourceDurableControlledQueueCandidate"
  unfolding verify_switches_def Let_def kept_switch using assms by auto

lemma target_expected:
  assumes "list_all snd (other_expected input)" shows "mutationActivationResultTargetWorktreeIdentityReady (gate_base input)"
  using assms unfolding other_expected_def expected_gates_def by simp

lemma candidate_switch:
  assumes "list_all snd (other_expected input)"
  shows "verify_candidate (switched on input) = verify_candidate (switched off input)"
proof -
  obtain w t where wt: "gr_WorktreeIdentity (gate_base input) = Some w" "gr_TargetWorktreeIdentity (gate_base input) = Some t"
    "actuatorTargetWorktreeIdentityReady w t"
    using target_expected [OF assms] unfolding mutationActivationResultTargetWorktreeIdentityReady_def by (auto split: option.splits)
  show ?thesis unfolding verify_candidate_def kept_switch wt(1,2)
    by (cases "gr_Candidate (gate_base input)") (simp_all add: wt(3))
qed

lemma TrimSpace_candidate [simp]:
  "TrimSpace MutationActivationSourceDurableControlledQueueCandidate = MutationActivationSourceDurableControlledQueueCandidate"
  by code_simp

lemma status_switch:
  assumes "list_all ga_Passed (other_gates input)" and "TrimSpace (gi_Source input) = MutationActivationSourceDurableControlledQueueCandidate"
  shows "verify_status (switched on input) = None" and "gr_MutationAllowed (switched on input) = on"
    and "gi_LiveMutationVerifierEnabled input"
proof -
  have p: "gr_AuthorityMode (gate_base input) = MutationActivationAuthorityModeControlledQueue"
    "gr_ContextMode (gate_base input) = MutationActivationAuthorityModeControlledQueue" "gi_LiveMutationVerifierEnabled input"
    using assms(1) unfolding other_gates_def gate_list_def Let_def by simp_all
  from p(3) show "gi_LiveMutationVerifierEnabled input" .
  have none: "failed_gates gs = [] \<longleftrightarrow> list_all ga_Passed gs" for gs by (induction gs) (simp_all add: failed_gates_def)
  have all: "list_all ga_Passed (gr_Gates (switched on input)) = on" unfolding gates_switch using assms(1) by (simp add: actuator_gate_def)
  have fg: "failed_gates (gr_Gates (switched on input)) = (if on then [] else [actuator_gate on])"
    unfolding gates_switch failed_gates_def using assms(1) by (auto simp: actuator_gate_def list_all_iff filter_empty_conv)
  have st: "gr_MutationAllowed (switched on input) = on"
    "gr_Status (switched on input) = (if on then MutationActivationStatusReady else MutationActivationStatusBlocked)"
    "gr_BlockingReasons (switched on input) = map (\<lambda>g. ga_Name g @ '': '' @ ga_Reason g) (failed_gates (gr_Gates (switched on input)))"
    using all unfolding evaluate_gates(1) [symmetric] evaluate_gates(2,3,4) by (simp_all add: evaluate_gates(1))
  from st(1) show "gr_MutationAllowed (switched on input) = on" .
  have ne: "MutationActivationStatusReady \<noteq> MutationActivationStatusBlocked" by code_simp
  have "verifyMutationActivationBlockingReasons (switched on input) = None" if "\<not> on"
    unfolding verifyMutationActivationBlockingReasons_def Let_def st(3) fg using that by (simp add: HasPrefix_def)
  then show "verify_status (switched on input) = None"
    unfolding verify_status_def Let_def all st kept_switch using ne p assms(2) fg by (cases on) simp_all
qed

lemma verified_switch:
  assumes "list_all ga_Passed (other_gates input)"
  shows "VerifyMutationActivationGateResult (switched on input) = None \<longleftrightarrow> list_all snd (other_expected input) \<and>
    TrimSpace (gi_LiveMutationVerifierSource input) = MutationActivationLiveVerifierSourceEnv \<and>
    TrimSpace (gi_Source input) = MutationActivationSourceDurableControlledQueueCandidate \<and>
    verify_evidence (switched True input) = None \<and> verify_candidate (switched True input) = None"
proof -
  let ?r = "switched on input"
  have ver: "gi_LiveMutationVerifierEnabled input" using assms unfolding other_gates_def gate_list_def Let_def by simp
  have dig: "gr_Digest ?r = digestMutationActivationGateResult ?r" by (rule evaluate_gates(5))
  have can: "isCanonicalSHA256Digest (digestMutationActivationGateResult ?r)" by (simp add: digestMutationActivationGateResult_def)
  have v: "VerifyMutationActivationGateResult ?r = None \<longleftrightarrow> list_all snd (other_expected input) \<and> verify_switches ?r = None \<and>
      verify_evidence ?r = None \<and> verify_source ?r = None \<and> verify_status ?r = None"
    unfolding VerifyMutationActivationGateResult_def verifyMutationActivationDiagnosticMetadata_def gate_set_switch evaluate_kept(1)
    by (simp add: gate_schema invariants_switch [OF assms]) (simp add: dig can)
  show ?thesis
  proof (cases "TrimSpace (gi_Source input) = MutationActivationSourceDurableControlledQueueCandidate")
    case True
    have "verify_source ?r = verify_candidate ?r" by (rule candidate_source) (simp add: kept_switch True)
    then show ?thesis
      unfolding v switches_iff [OF ver] using status_switch(1) [OF assms True] candidate_switch [of input on True] evidence_switch [of on input True] True
      by auto
  qed (simp add: v switches_iff [OF ver])
qed

text \<open>In a verified activation that allows the mutation every file is a modification.\<close>

lemma allowed_kinds:
  assumes "VerifyMutationActivationGateResult r = None" and "gr_MutationAllowed r"
  shows "mutationActuatorUnsupportedChangeKinds (mutationActuatorObservedChangeKinds r) = []"
proof -
  obtain b m p v u e w where e: "gr_MaterializationPreflight r = Some e" and merge: "recomputeMergeAdmissionEvidence b m = None"
    and pre: "recomputeMaterializationPreflightEvidence b m p v u w e = None"
    by (rule allowed_parts [OF assms])
  have "mergeAdmissionReady (mutationBindingEvidenceContext b) (patchQueueItemFromMergeAdmissionEvidence m) = None"
    using merge by (simp add: recomputeMergeAdmissionEvidence_def)
  note mf = merge_ready_facts [OF this, unfolded merge_item_fields]
  have kind: "mutationActuatorNormalizeChangeKind (fd_ChangeKind f) \<in> set mutationActuatorAllowedChangeKinds"
    if "f \<in> set (pd_Files (mp_Materialization e))" for f
  proof -
    obtain pr where pr: "pr \<in> set (car_Paths (me_CASResult m))" "check_diagnostic_hashes f pr = None"
      using preflight_facts(2) [OF pre] \<open>f \<in> set (pd_Files (mp_Materialization e))\<close> by blast
    from accepted_usable [OF mf(2,3) pr(1)] have "casPatchPathChangeKind pr \<in> {CASPatchChangeModify, CASPatchChangeAdd}"
      unfolding usable_result_def validateCASPathChangeKind_def Let_def by (auto split: if_splits)
    with diagnostic_hashes_facts(3) [OF pr(2)] show ?thesis
      by (simp add: mutationActuatorNormalizeChangeKind_def patchMaterializationDiagnosticChangeKind_def mutationActuatorAllowedChangeKinds_def)
  qed
  have idem: "mutationActuatorNormalizeChangeKind k = k" if "k \<in> set mutationActuatorAllowedChangeKinds" for k
    using that by (auto simp: mutationActuatorNormalizeChangeKind_def mutationActuatorAllowedChangeKinds_def CASPatchChangeModify_def CASPatchChangeAdd_def
        TrimSpace_graphic graphic_def)
  have kinds: "set (first_kinds seen ks) \<subseteq> mutationActuatorNormalizeChangeKind ` set ks" for seen ks
    by (induction seen ks rule: first_kinds.induct) (auto simp: Let_def)
  have "set (mutationActuatorObservedChangeKinds r) \<subseteq> set mutationActuatorAllowedChangeKinds"
    using kinds [of "[]" "map fd_ChangeKind (pd_Files (mp_Materialization e))"] kind
    unfolding mutationActuatorObservedChangeKinds_def by (fastforce simp: e)
  then have "set (first_kinds [] (mutationActuatorObservedChangeKinds r)) \<subseteq> set mutationActuatorAllowedChangeKinds"
    using kinds [of "[]" "mutationActuatorObservedChangeKinds r"] idem by fastforce
  then show ?thesis unfolding mutationActuatorUnsupportedChangeKinds_def by (auto simp: filter_empty_conv)
qed

text \<open>C4.
  A dry run predicts the live run: for every input, the dry run over the activation with the actuator
  switched off is ready exactly when the activation of the same input with the actuator switched on
  allows the mutation and passes the verifier. The dry run itself never reports a mutation.
\<close>

theorem dry_run_predicts:
  "(dr_Status (EvaluateMutationActuatorDryRun \<lparr>dri_Activation = switched False input, dri_Source = source\<rparr>) = MutationActuatorDryRunStatusReady \<longleftrightarrow>
     VerifyMutationActivationGateResult (switched True input) = None \<and> gr_MutationAllowed (switched True input)) \<and>
   \<not> dr_WouldMutate (EvaluateMutationActuatorDryRun \<lparr>dri_Activation = switched False input, dri_Source = source\<rparr>) \<and>
   \<not> dr_MutationExecuted (EvaluateMutationActuatorDryRun \<lparr>dri_Activation = switched False input, dri_Source = source\<rparr>)"
proof -
  let ?off = "switched False input" and ?on = "switched True input" and ?in = "\<lparr>dri_Activation = switched False input, dri_Source = source\<rparr>"
  have ne: "MutationActuatorDryRunStatusBlocked \<noteq> MutationActuatorDryRunStatusReady" by code_simp
  have st: "dr_Status (finish_dry_run x ys r) = x" "dr_WouldMutate (finish_dry_run x ys r) = dr_WouldMutate r"
    "dr_MutationExecuted (finish_dry_run x ys r) = dr_MutationExecuted r" for x ys r
    by (simp_all add: finish_dry_run_def Let_def)
  have base: "\<not> dr_WouldMutate (dry_run_base ?in)" "\<not> dr_MutationExecuted (dry_run_base ?in)"
    "dr_UnsupportedChangeKinds (dry_run_base ?in) = mutationActuatorUnsupportedChangeKinds (mutationActuatorObservedChangeKinds ?off)"
    by (simp_all add: dry_run_base_def Let_def)
  have ready: "dr_Status (EvaluateMutationActuatorDryRun ?in) = MutationActuatorDryRunStatusReady \<longleftrightarrow>
      VerifyMutationActivationGateResult ?off = None \<and> TrimSpace (gr_Source ?off) = MutationActivationSourceDurableControlledQueueCandidate \<and>
      mutationActuatorUnsupportedChangeKinds (mutationActuatorObservedChangeKinds ?off) = [] \<and>
      \<not> (gr_MutationAllowed ?off \<or> gr_LiveMutationActuatorEnabled ?off) \<and>
      mutationActivationFailedGateNames ?off = [''live_mutation_actuator_enabled'']"
    unfolding EvaluateMutationActuatorDryRun_def Let_def
    by (cases "VerifyMutationActivationGateResult ?off") (simp_all add: st base ne)
  have failed: "mutationActivationFailedGateNames ?off = [''live_mutation_actuator_enabled''] \<longleftrightarrow> list_all ga_Passed (other_gates input)"
  proof -
    have "failed_gates (gr_Gates ?off) = failed_gates (other_gates input) @ [actuator_gate False]"
      by (simp add: gates_switch failed_gates_def) (simp add: actuator_gate_def)
    moreover have "failed_gates gs = [] \<longleftrightarrow> list_all ga_Passed gs" for gs by (induction gs) (simp_all add: failed_gates_def)
    ultimately show ?thesis by (simp add: mutationActivationFailedGateNames_def other_names(3))
  qed
  have allowed: "gr_MutationAllowed ?on \<longleftrightarrow> list_all ga_Passed (other_gates input)"
    using gates_switch [of True input] unfolding evaluate_gates(1,2) by (simp add: actuator_gate_def)
  have kinds: "mutationActuatorObservedChangeKinds ?off = mutationActuatorObservedChangeKinds ?on"
    by (simp add: mutationActuatorObservedChangeKinds_def kept_switch)
  have "dr_Status (EvaluateMutationActuatorDryRun ?in) = MutationActuatorDryRunStatusReady \<longleftrightarrow>
      VerifyMutationActivationGateResult ?on = None \<and> gr_MutationAllowed ?on"
  proof (cases "list_all ga_Passed (other_gates input)")
    case True
    have "\<not> gr_MutationAllowed ?off" "\<not> gr_LiveMutationActuatorEnabled ?off"
      using gates_switch [of False input] unfolding evaluate_gates(1,2) by (simp_all add: actuator_gate_def kept_switch)
    then show ?thesis
      unfolding ready failed allowed kinds using True verified_switch [OF True, of False] verified_switch [OF True, of True]
        allowed_kinds [of ?on] allowed by (auto simp: kept_switch)
  qed (simp add: ready failed allowed)
  moreover have "\<not> dr_WouldMutate (EvaluateMutationActuatorDryRun ?in)" "\<not> dr_MutationExecuted (EvaluateMutationActuatorDryRun ?in)"
    unfolding EvaluateMutationActuatorDryRun_def Let_def
    by (cases "VerifyMutationActivationGateResult ?off"; simp add: st base)+
  ultimately show ?thesis by blast
qed

end
