(* ===== verification/Spec2Isabelle.thy ===== *)
theory Spec2Isabelle
  imports Node_Status Dag_Graph Bridge_Policy Agent_Messages Path_Resolver Queue_Properties Semantic_Conflict Materialization_Properties Activation_Demo Actuator_Properties
begin

text \<open>
  \<^bold>\<open>Rhizome Runtime: the repository authority, task graphs and status machines.\<close>

  \<^bold>\<open>The program.\<close> Rhizome runs agents that change a shared code repository. The package
  \<open>internal/repoauthority\<close> decides who may change what. An agent describes its work by a context
  (\<open>context.go\<close>), acquires a lease on the paths of the context (\<open>file_lease.go\<close>), and proposes a
  patch to a queue (\<open>patch_queue.go\<close>). A validation compares the content hashes of the patch with
  those of the repository (\<open>cas_patch.go\<close>); its result is recorded as evidence, and only a patch whose
  operation can be bound to a live lease (\<open>operation_binding.go\<close>) becomes applied. What goes wrong
  is written down as a conflict record (\<open>conflict.go\<close>); the contents of an applied patch are recorded
  as its materialization (\<open>patch_materialization.go\<close>). Sixteen gates decide whether the patch may be
  written into a worktree (\<open>activation_gates.go\<close>); the actuator checks a dry run and the result of a
  live run (\<open>mutation_actuator.go\<close>, \<open>mutation_actuator_live.go\<close>). Beside it, \<open>internal/dag\<close> checks
  the dependency graph of a task, \<open>internal/orchestrator\<close> guards the status changes of nodes and
  approvals, \<open>internal/bridgepolicy\<close> decides which tool calls need an operator, and
  \<open>internal/model\<close> has the messages that agents report.

  \<^bold>\<open>How Go is modelled.\<close> \<open>Go_Prelude\<close> has errors (\<open>err option\<close>, and a sum for a value or an error),
  the combinators for sequences of early returns, and the locales of the state machines.
  \<open>Go_Strings\<close>, \<open>Go_Path\<close>, \<open>Go_Time\<close> and \<open>Go_Encoding\<close> define what the sources use of
  \<open>strings\<close>, \<open>path\<close>, \<open>time\<close>, \<open>fmt\<close>, \<open>encoding/json\<close> and \<open>crypto/sha256\<close>, over byte lists. A
  struct is a record whose fields carry a short prefix; a nil pointer is \<open>None\<close>; a store behind a
  mutex is passed and returned, one call being one step; a Go map is an association list where the
  code ranges over it and a partial function where it only looks up; a loop over a map literal of
  required fields is the list of its entries, so a model and the code may report a different first
  missing field but never differ in whether one is reported. The gates compare such messages as
  texts: where several entries fail, the code may record any of them, and the model the first.
  Clone functions are the identity, except those that trim. Worktree paths are compared as the Unix
  build does.
  \<open>time.Now\<close> is an argument (\<open>wall\<close>, and \<open>lwall\<close> for the lease store), used only when the caller
  passes the zero time. An \<open>int64\<close> is an \<open>int\<close>; where it is incremented the wrap-around is written out
  (\<open>wrap64\<close>). An empty slice marshals as null; the records that are hashed are never accepted with
  an empty slice in such a field.

  \<^bold>\<open>Components.\<close>
  \<^item> \<open>Node_Status\<close>: \<open>internal/model/status.go\<close> and \<open>internal/orchestrator/transitions.go\<close>. The tables
    are data, the validators functions of them; the histories of a node and of an approval are runs
    of a locale (\<open>status_machine\<close>) interpreted on both tables.
  \<^item> \<open>Dag_Graph\<close>: \<open>internal/dag/graph.go\<close>. \<open>ValidateGraph\<close> with its recursive search. The search
    has fuel, one more than the number of nodes, and returns within it; it accepts exactly the
    acyclic graphs.
  \<^item> \<open>Bridge_Policy\<close>: \<open>internal/bridgepolicy\<close>. When a tool call waits for an operator, and which
    approval requests share a key.
  \<^item> \<open>Agent_Messages\<close>: \<open>agent_update.go\<close>, \<open>session_coordination.go\<close>, \<open>rebase_followup.go\<close> and
    \<open>task_class.go\<close> of \<open>internal/model\<close>. The normal forms of the messages and their validators.
  \<^item> \<open>Repo_Context\<close>: \<open>context.go\<close> and \<open>normalizeResolverPath\<close> of \<open>path_resolver.go\<close>. Path
    normalisation confines a path to the repository.
  \<^item> \<open>Path_Resolver\<close>: the rest of \<open>path_resolver.go\<close>, over a parameter for the file system calls of the
    operating system (\<open>FileSystem\<close>) and the Unix version of \<open>path/filepath\<close>. Which paths resolve, and that
    what resolves lies inside the root and passes no symbolic link and no nested repository.
  \<^item> \<open>File_Lease\<close> (operations, invariant, step relation \<open>lease_step\<close>) and \<open>Lease_Properties\<close>:
    \<open>file_lease.go\<close>. The store refines a lock table; leases are exclusive per pathset entry, their
    terms unique, ended leases final, expiry exact. Entries of a pathset are compared as texts, as
    the code does: a lease on \<open>dir/**\<close> does not exclude one on \<open>dir/x\<close>.
  \<^item> \<open>Operation_Binding\<close>: \<open>operation_binding.go\<close>. The binding is a client of the locale
    \<open>mutation_authority\<close>, interpreted on the lease store.
  \<^item> \<open>Cas_Patch\<close>: \<open>cas_patch.go\<close>, the evaluator, with its two outcomes characterised.
    \<open>Cas_Evidence\<close>: the validator of its results in \<open>patch_queue.go\<close>, against the evaluator.
  \<^item> \<open>Queue_Item\<close> (data, evidence, digests), \<open>Patch_Queue\<close> (the operations of \<open>PatchQueueStore\<close>),
    \<open>Queue_Machine\<close> (step relations, invariant, measure), \<open>Queue_Rollback\<close>, \<open>Queue_Demo\<close> (a
    concrete queue for the witnesses) and \<open>Queue_Properties\<close>: \<open>patch_queue.go\<close>. The queue refines an
    abstract life cycle of phases and attempts left; every change of an item consumes work.
  \<^item> \<open>Conflict_Model\<close> (data, digests, contenders), \<open>Conflict_Build\<close> (validators and builders),
    \<open>Conflict_Lemmas\<close>, \<open>Conflict_Properties\<close>, \<open>Stale_Write\<close> and \<open>Semantic_Conflict\<close>: \<open>conflict.go\<close>.
    Which failures of the other components can be recorded, and that a record of a late write tells
    the truth about the lease store.
  \<^item> \<open>Materialization\<close> (data, validators, builders) and \<open>Materialization_Properties\<close>:
    \<open>patch_materialization.go\<close>. The recorded contents of an applied item are exactly the contents
    that were validated, and their authority proof is unique.
  \<^item> \<open>Activation_Model\<close> (data, readiness checks), \<open>Activation_Evidence\<close> and \<open>Activation_Preflight\<close>
    (the seven kinds of evidence: built from an item, rebuilt and verified), \<open>Activation_Gates\<close> (the
    gates, and the verifier of a recorded result): \<open>activation_gates.go\<close>. \<open>Activation_Lemmas\<close> and
    \<open>Activation_Properties\<close> show what a verified activation guarantees of the patch and of the
    authority behind it, \<open>Activation_Roundtrip\<close> exactly when the verifier accepts what the evaluator allows, and
    \<open>Activation_Demo\<close> has an input that passes all sixteen gates.
  \<^item> \<open>Mutation_Actuator\<close> and \<open>Actuator_Properties\<close>: \<open>mutation_actuator.go\<close> and
    \<open>mutation_actuator_live.go\<close>. The dry run predicts the activation with the actuator switched on; the
    results of a live run that are accepted are characterised file by file.

  \<^bold>\<open>Interfaces.\<close> \<open>invariant_machine\<close> is interpreted on the lease store (\<open>lease_machine\<close>),
  \<open>step_invariant\<close> and its extension \<open>step_progress\<close> on the queue (\<open>queue_machine\<close>). The locale
  \<open>item_invariant\<close> turns a property that every operation keeps of one item into an invariant of the
  queue, through a sublocale of \<open>step_invariant\<close>; it is interpreted as \<open>queue_items\<close> (well-formed
  items), \<open>queue_refs\<close> (digests and references) and \<open>queue_applied\<close> (evidence of applied items). Further,
  \<open>mutation_authority\<close> on \<open>AuthorizeMutation\<close> (\<open>lease_auth\<close>), \<open>status_machine\<close> on the two tables
  (\<open>node_life\<close>, \<open>approval_life\<close>), \<open>settled_evidence\<close> on five kinds of activation evidence
  (\<open>merge_evidence\<close>, \<open>retry_evidence\<close>, \<open>rollback_evidence\<close>, \<open>advisory_evidence\<close>,
  \<open>enablement_evidence\<close>), \<open>normal_form\<close> on the texts, lists and messages of \<open>Agent_Messages\<close>
  (\<open>update_form\<close>, \<open>failure_form\<close>, \<open>followup_form\<close> and the forms they are made of). The step relation of the queue lets the lease store change between
  two calls in any way (\<open>OpLeases\<close>), so its invariants hold whatever the other users of the leases do.

  \<^bold>\<open>Bounds.\<close> Lease histories have at most \<open>2 ^ 63 - 2\<close> operations, so that the fencing term does not
  wrap. Statements on expiry times hold for instants up to the year 9999 (\<open>in_years\<close>), the range of
  the timestamp format. The details that Go appends to the text of a parse error are left out.

  \<^bold>\<open>Not modelled.\<close> The functions that decode a JSON text into a message or an envelope
  (\<open>ParsePolicyEnvelopeFromManifest\<close>, \<open>ParseAgentUpdateSideEffectsV1\<close>,
  \<open>ParseAndNormalizeAgentUpdatePayloadV1\<close>) and the catalogue of task templates are left out. The SQLite storage, the HTTP server and
  dashboard, the agent runtime, the command line and the support packages are input and output around
  the logic above: SQL, HTTP, processes and language models.
\<close>

end
